(* ===== verification/Prelude.thy ===== *)
theory Prelude
  imports Main "HOL-Library.AList"
begin

text \<open>
  What the component theories share: the outcome of a C++ call that may throw or run into
  undefined behaviour, the members of \<open>std::string\<close> and \<open>std::to_string\<close> that the sources
  call, the two interface locales of the library (a FIFO queue and a keyed store), and the
  generic list facts.

  A \<open>std::string\<close> is a \<open>string\<close> (a list of bytes), a position is a \<open>nat\<close>, and
  \<open>std::string::npos\<close> is \<open>None\<close>.
\<close>

named_theorems str_defs \<open>definitions of the std::string members\<close>
named_theorems frame \<open>what an operation leaves unchanged\<close>

section \<open>Outcomes of calls\<close>

text \<open>
  A call returns, throws a C++ exception (the string is its \<open>what()\<close>), or executes an
  operation whose behaviour C++ leaves undefined.
\<close>

definition in_int64 :: "int \<Rightarrow> bool" where
  "in_int64 x \<longleftrightarrow> - (2 ^ 63) \<le> x \<and> x < 2 ^ 63"

datatype 'a outcome = Ret 'a | Throw string | UB string

fun bind_outcome :: "'a outcome \<Rightarrow> ('a \<Rightarrow> 'b outcome) \<Rightarrow> 'b outcome" where
  "bind_outcome (Ret x) f = f x"
| "bind_outcome (Throw e) f = Throw e"
| "bind_outcome (UB e) f = UB e"

lemma bind_outcome_Ret_iff:
  "bind_outcome m f = Ret y \<longleftrightarrow> (\<exists>x. m = Ret x \<and> f x = Ret y)"
  by (cases m) auto

lemma bind_outcome_assoc:
  "bind_outcome (bind_outcome m f) g = bind_outcome m (\<lambda>x. bind_outcome (f x) g)"
  by (cases m) auto

text \<open>
  A run of code that works on a state: it finishes with a result, throws with the state it
  has reached, executes undefined behaviour, or does not end.
\<close>

datatype ('s, 'a) run = Fin 's 'a | Exc 's string | Crash string | Hang

fun bind_run :: "('s, 'a) run \<Rightarrow> ('s \<Rightarrow> 'a \<Rightarrow> ('s, 'b) run) \<Rightarrow> ('s, 'b) run" where
  "bind_run (Fin s x) f = f s x"
| "bind_run (Exc s e) f = Exc s e"
| "bind_run (Crash e) f = Crash e"
| "bind_run Hang f = Hang"

text \<open>\<open>try { ... } catch (const std::exception&) { ... }\<close>\<close>

fun catch_run :: "('s, 'a) run \<Rightarrow> ('s \<Rightarrow> string \<Rightarrow> ('s, 'a) run) \<Rightarrow> ('s, 'a) run" where
  "catch_run (Exc s e) h = h s e"
| "catch_run (Fin s x) h = Fin s x"
| "catch_run (Crash e) h = Crash e"
| "catch_run Hang h = Hang"

lemma bind_run_Fin_iff:
  "bind_run m f = Fin s y \<longleftrightarrow> (\<exists>s' x. m = Fin s' x \<and> f s' x = Fin s y)"
  by (cases m) auto

text \<open>The rule by which a function that calls itself after another call is seen to terminate.\<close>

lemma bind_run_cong [fundef_cong]:
  "m = m' \<Longrightarrow> (\<And>s x. m' = Fin s x \<Longrightarrow> f s x = f' s x) \<Longrightarrow> bind_run m f = bind_run m' f'"
  by (cases m') auto

lemma bind_run_assoc:
  "bind_run (bind_run m f) g = bind_run m (\<lambda>s x. bind_run (f s x) g)"
  by (cases m) auto

text \<open>
  What a run guarantees: \<open>Q\<close> of the state and the result when it finishes, \<open>E\<close> of the state when it
  throws. The rules follow the structure of the code, as in a Hoare logic.
\<close>

definition run_post :: "('s \<Rightarrow> 'a \<Rightarrow> bool) \<Rightarrow> ('s \<Rightarrow> bool) \<Rightarrow> ('s, 'a) run \<Rightarrow> bool" where
  "run_post Q E m = (case m of Fin s x \<Rightarrow> Q s x | Exc s e \<Rightarrow> E s | _ \<Rightarrow> True)"

abbreviation run_inv :: "('s \<Rightarrow> bool) \<Rightarrow> ('s, 'a) run \<Rightarrow> bool" where
  "run_inv P \<equiv> run_post (\<lambda>s _. P s) P"

lemma run_post_simps [simp]:
  "run_post Q E (Fin s x) = Q s x" "run_post Q E (Exc s e) = E s" "run_post Q E (Crash e)" "run_post Q E Hang"
  by (simp_all add: run_post_def)

lemma run_post_bind:
  assumes "run_post R E m" and "\<And>s x. R s x \<Longrightarrow> run_post Q E (f s x)"
  shows "run_post Q E (bind_run m f)"
  using assms by (cases m) simp_all

lemma run_post_catch:
  assumes "run_post Q R m" and "\<And>s e. R s \<Longrightarrow> run_post Q E (h s e)"
  shows "run_post Q E (catch_run m h)"
  using assms by (cases m) simp_all

lemma run_post_weaken:
  "run_post Q E m \<Longrightarrow> (\<And>s x. Q s x \<Longrightarrow> Q' s x) \<Longrightarrow> (\<And>s. E s \<Longrightarrow> E' s) \<Longrightarrow> run_post Q' E' m"
  by (cases m) simp_all

section \<open>Members of std::string\<close>

text \<open>\<open>s.find(sub)\<close>: the first position at which \<open>sub\<close> occurs in \<open>s\<close>.\<close>

fun str_find :: "string \<Rightarrow> string \<Rightarrow> nat option" where
  "str_find sub [] = (if sub = [] then Some 0 else None)"
| "str_find sub (c # cs) =
     (if take (length sub) (c # cs) = sub then Some 0
      else map_option Suc (str_find sub cs))"

text \<open>\<open>s.find_first_of(cs)\<close>: the first position that holds one of the characters of \<open>cs\<close>.\<close>

fun find_first_of :: "string \<Rightarrow> string \<Rightarrow> nat option" where
  "find_first_of cs [] = None"
| "find_first_of cs (x # xs) =
     (if x \<in> set cs then Some 0 else map_option Suc (find_first_of cs xs))"

definition find_last_of :: "string \<Rightarrow> string \<Rightarrow> nat option" where
  "find_last_of cs s =
     (case find_first_of cs (rev s) of None \<Rightarrow> None | Some i \<Rightarrow> Some (length s - 1 - i))"

fun find_first_not_of :: "string \<Rightarrow> string \<Rightarrow> nat option" where
  "find_first_not_of cs [] = None"
| "find_first_not_of cs (x # xs) =
     (if x \<notin> set cs then Some 0 else map_option Suc (find_first_not_of cs xs))"

definition find_last_not_of :: "string \<Rightarrow> string \<Rightarrow> nat option" where
  "find_last_not_of cs s =
     (case find_first_not_of cs (rev s) of None \<Rightarrow> None | Some i \<Rightarrow> Some (length s - 1 - i))"

text \<open>
  \<open>s.replace(pos, len, new)\<close> and \<open>s.substr(pos, len)\<close> at a position inside the string;
  \<open>substr\<close> past the end throws \<open>std::out_of_range\<close>.
\<close>

definition str_replace :: "nat \<Rightarrow> nat \<Rightarrow> string \<Rightarrow> string \<Rightarrow> string" where
  "str_replace pos len new s = take pos s @ new @ drop (pos + len) s"

definition substr :: "nat \<Rightarrow> nat \<Rightarrow> string \<Rightarrow> string outcome" where
  "substr pos len s =
     (if pos \<le> length s then Ret (take len (drop pos s)) else Throw ''out_of_range'')"

text \<open>\<open>s.erase(0, n)\<close> with \<open>n\<close> possibly \<open>npos\<close>, and \<open>s.erase(pos)\<close>.\<close>

definition erase_front :: "nat option \<Rightarrow> string \<Rightarrow> string" where
  "erase_front n s = (case n of None \<Rightarrow> [] | Some k \<Rightarrow> drop k s)"

definition erase_from :: "nat \<Rightarrow> string \<Rightarrow> string" where
  "erase_from pos s = take pos s"

lemmas string_members [str_defs] =
  find_last_of_def find_last_not_of_def str_replace_def substr_def erase_front_def erase_from_def

lemma str_find_Some_occurs:
  "str_find sub s = Some i \<Longrightarrow> i + length sub \<le> length s \<and> take (length sub) (drop i s) = sub"
proof (induction s arbitrary: i)
  case Nil
  then show ?case by (auto split: if_splits)
next
  case (Cons c cs)
  show ?case
  proof (cases "take (length sub) (c # cs) = sub")
    case True
    then have "length sub \<le> length (c # cs)"
      by (metis length_take min.cobounded1)
    with True Cons.prems show ?thesis by auto
  next
    case False
    with Cons show ?thesis by (auto split: if_splits)
  qed
qed

lemma str_find_decomp:
  assumes "str_find sub s = Some i"
  shows "s = take i s @ sub @ drop (i + length sub) s"
proof -
  from str_find_Some_occurs [OF assms] have "take (length sub) (drop i s) = sub" by simp
  moreover have "drop i s = take (length sub) (drop i s) @ drop (length sub) (drop i s)"
    by (rule append_take_drop_id [symmetric])
  ultimately have "drop i s = sub @ drop (i + length sub) s"
    by (simp add: add.commute)
  then show ?thesis by (metis append_take_drop_id)
qed

lemma str_find_append: "str_find sub (u @ sub @ v) \<noteq> None"
proof (induction u)
  case Nil
  have "take (length sub) (sub @ v) = sub" by simp
  then show ?case by (cases "sub @ v") auto
next
  case (Cons c u)
  then show ?case by auto
qed

lemma str_find_None_iff: "str_find sub s = None \<longleftrightarrow> (\<nexists>u v. s = u @ sub @ v)"
proof
  assume "str_find sub s = None"
  then show "\<nexists>u v. s = u @ sub @ v" by (auto simp: str_find_append)
next
  assume *: "\<nexists>u v. s = u @ sub @ v"
  show "str_find sub s = None"
  proof (cases "str_find sub s")
    case (Some i)
    with * str_find_decomp show ?thesis by blast
  qed
qed

lemma str_find_single: "str_find [c] s = None \<longleftrightarrow> c \<notin> set s"
  by (induction s) auto

lemma find_first_of_None: "find_first_of cs s = None \<longleftrightarrow> set s \<inter> set cs = {}"
  by (induction s) auto

lemma find_first_of_Some:
  "find_first_of cs s = Some i \<Longrightarrow>
     i < length s \<and> s ! i \<in> set cs \<and> set (take i s) \<inter> set cs = {}"
  by (induction s arbitrary: i) (auto split: if_splits)

lemma find_first_not_of_dropWhile:
  "erase_front (find_first_not_of cs s) s = dropWhile (\<lambda>c. c \<in> set cs) s"
  by (induction s) (auto simp: erase_front_def split: option.splits)

lemma find_first_not_of_less: "find_first_not_of cs s = Some i \<Longrightarrow> i < length s"
  by (induction s arbitrary: i) (auto split: if_splits)

lemma find_last_of_None: "find_last_of cs s = None \<longleftrightarrow> set s \<inter> set cs = {}"
proof -
  have "find_last_of cs s = None \<longleftrightarrow> find_first_of cs (rev s) = None"
    by (simp add: find_last_of_def split: option.splits)
  then show ?thesis by (simp add: find_first_of_None)
qed

lemma find_last_of_Some:
  assumes "find_last_of cs s = Some i"
  shows "i < length s \<and> s ! i \<in> set cs \<and> set (drop (Suc i) s) \<inter> set cs = {}"
proof -
  from assms obtain j where j: "find_first_of cs (rev s) = Some j" and i: "i = length s - 1 - j"
    by (auto simp: find_last_of_def split: option.splits)
  from find_first_of_Some [OF j] have
    jl: "j < length s" and jc: "rev s ! j \<in> set cs" and jt: "set (take j (rev s)) \<inter> set cs = {}"
    by auto
  from jl i have ij: "Suc i = length s - j" by simp
  have "take j (rev s) = rev (drop (length s - j) s)" by (simp add: take_rev)
  with jt ij have "set (drop (Suc i) s) \<inter> set cs = {}" by simp
  moreover from jc jl i have "s ! i \<in> set cs" by (simp add: rev_nth)
  ultimately show ?thesis using jl i by simp
qed

lemma find_last_of_app:
  assumes "c \<in> set cs" and "set t \<inter> set cs = {}"
  shows "find_last_of cs (s @ c # t) = Some (length s)"
proof -
  have "find_first_of cs (u @ c # w) = Some (length u)" if "set u \<inter> set cs = {}" for u w
    using that assms(1) by (induction u) auto
  with assms(2) have "find_first_of cs (rev t @ c # rev s) = Some (length t)" by simp
  then show ?thesis by (simp add: find_last_of_def)
qed

lemma find_first_of_app:
  assumes "c \<in> set cs" and "set s \<inter> set cs = {}"
  shows "find_first_of cs (s @ c # t) = Some (length s)"
  using assms by (induction s) auto

section \<open>std::to_string on unsigned numbers\<close>

definition digit_chars :: string where
  "digit_chars = ''0123456789''"

definition digit_char :: "nat \<Rightarrow> char" where
  "digit_char d = digit_chars ! d"

fun to_string :: "nat \<Rightarrow> string" where
  "to_string n = (if n < 10 then [digit_char n] else to_string (n div 10) @ [digit_char (n mod 10)])"

declare to_string.simps [simp del]

text \<open>\<open>isspace\<close> and \<open>isdigit\<close> of the C locale.\<close>

definition is_space :: "char \<Rightarrow> bool" where
  "is_space c \<longleftrightarrow> c \<in> set [CHR '' '', CHR 0x09, CHR 0x0A, CHR 0x0B, CHR 0x0C, CHR 0x0D]"

definition is_digit :: "char \<Rightarrow> bool" where
  "is_digit c \<longleftrightarrow> c \<in> set digit_chars"

abbreviation newline :: char where
  "newline \<equiv> CHR 0x0A"

definition parse_digits :: "string \<Rightarrow> nat" where
  "parse_digits s = foldl (\<lambda>a c. 10 * a + (of_char c - 48)) 0 s"

lemma of_char_digit: "d < 10 \<Longrightarrow> of_char (digit_char d) - 48 = (d :: nat)"
  by (auto simp: digit_char_def digit_chars_def less_Suc_eq numeral_eq_Suc)

lemma parse_digits_to_string [simp]: "parse_digits (to_string n) = n"
proof (induction n rule: to_string.induct)
  case (1 n)
  show ?case
  proof (cases "n < 10")
    case True
    then show ?thesis by (simp add: to_string.simps [of n] parse_digits_def of_char_digit)
  next
    case False
    with "1.IH" have "parse_digits (to_string (n div 10)) = n div 10" by simp
    with False show ?thesis
      by (simp add: to_string.simps [of n] parse_digits_def of_char_digit)
  qed
qed

lemma to_string_inject [simp]: "to_string m = to_string n \<longleftrightarrow> m = n"
  by (metis parse_digits_to_string)

lemma digit_char_in: "d < 10 \<Longrightarrow> digit_char d \<in> set digit_chars"
  unfolding digit_char_def by (rule nth_mem) (simp add: digit_chars_def)

lemma to_string_chars: "set (to_string n) \<subseteq> set digit_chars"
proof (induction n rule: to_string.induct)
  case (1 n)
  have "digit_char (n mod 10) \<in> set digit_chars" by (rule digit_char_in) simp
  with 1 digit_char_in [of n] show ?case
    unfolding to_string.simps [of n] by simp
qed

lemma to_string_not_Nil [simp]: "to_string n \<noteq> []"
  by (subst to_string.simps) simp

section \<open>Interfaces\<close>

text \<open>
  A FIFO queue, as the sources use \<open>std::queue\<close> under a mutex, \<open>cn::ThreadSafeQueue\<close> and
  the message queues of \<open>utils/msgQueue.h\<close>: \<open>push\<close> appends, a pop returns the oldest
  element or reports that there is none.
\<close>

locale fifo_queue =
  fixes empty :: 'q
    and push :: "'a \<Rightarrow> 'q \<Rightarrow> 'q"
    and try_pop :: "'q \<Rightarrow> ('a \<times> 'q) option"
    and contents :: "'q \<Rightarrow> 'a list"
  assumes contents_empty: "contents empty = []"
    and contents_push: "contents (push x q) = contents q @ [x]"
    and pop_None: "try_pop q = None \<longleftrightarrow> contents q = []"
    and pop_Some: "try_pop q = Some (x, q') \<Longrightarrow> contents q = x # contents q'"
begin

primrec pop_n :: "nat \<Rightarrow> 'q \<Rightarrow> 'a list \<times> 'q" where
  "pop_n 0 q = ([], q)"
| "pop_n (Suc n) q =
     (case try_pop q of None \<Rightarrow> ([], q)
      | Some (x, q') \<Rightarrow> (let (xs, q'') = pop_n n q' in (x # xs, q'')))"

lemma pop_n_contents: "fst (pop_n n q) = take n (contents q) \<and> contents (snd (pop_n n q)) = drop n (contents q)"
proof (induction n arbitrary: q)
  case 0
  then show ?case by simp
next
  case (Suc n)
  show ?case
  proof (cases "try_pop q")
    case None
    then show ?thesis using pop_None [of q] by simp
  next
    case (Some xq)
    obtain x q' where xq: "xq = (x, q')" by (cases xq)
    have "contents q = x # contents q'" using pop_Some Some xq by simp
    with Suc.IH [of q'] Some xq show ?thesis by (simp add: split_beta Let_def)
  qed
qed

lemma contents_foldr_push: "contents (fold push xs q) = contents q @ xs"
  by (induction xs arbitrary: q) (simp_all add: contents_push)

lemma fifo_order: "fst (pop_n (length xs) (fold push xs empty)) = xs"
  using pop_n_contents [of "length xs" "fold push xs empty"]
  by (simp add: contents_foldr_push contents_empty)

end

text \<open>
  A keyed store, as the sources use \<open>std::map\<close>, \<open>std::unordered_map\<close> and the files of a
  directory: a lookup after an update sees the update and nothing else changed.
\<close>

locale keyed_store =
  fixes put :: "'k \<Rightarrow> 'v \<Rightarrow> 's \<Rightarrow> 's"
    and get :: "'s \<Rightarrow> 'k \<Rightarrow> 'v option"
    and ok :: "'s \<Rightarrow> 'k \<Rightarrow> bool"
  assumes get_put_same: "ok s k \<Longrightarrow> get (put k v s) k = Some v"
    and get_put_other: "k \<noteq> k' \<Longrightarrow> get (put k v s) k' = get s k'"
    and ok_put: "ok s k' \<Longrightarrow> ok (put k v s) k'"
begin

definition put_all :: "('k \<times> 'v) list \<Rightarrow> 's \<Rightarrow> 's" where
  "put_all kvs s = fold (\<lambda>(k, v). put k v) kvs s"

lemma put_all_simps [simp]:
  "put_all [] s = s"
  "put_all ((k, v) # kvs) s = put_all kvs (put k v s)"
  by (simp_all add: put_all_def)

lemma get_put_all_notin: "k \<notin> fst ` set kvs \<Longrightarrow> get (put_all kvs s) k = get s k"
  by (induction kvs arbitrary: s) (auto simp: get_put_other)

lemma get_put_all_in:
  assumes "distinct (map fst kvs)" and "(k, v) \<in> set kvs" and "ok s k"
  shows "get (put_all kvs s) k = Some v"
  using assms
proof (induction kvs arbitrary: s)
  case Nil
  then show ?case by simp
next
  case (Cons kv kvs)
  obtain k0 v0 where kv: "kv = (k0, v0)" by (cases kv)
  show ?case
  proof (cases "k = k0")
    case True
    with Cons.prems kv have "v = v0" and "k \<notin> fst ` set kvs"
      by (auto simp: image_iff)
    with True kv Cons.prems show ?thesis by (simp add: get_put_all_notin get_put_same)
  next
    case False
    with Cons.prems kv show ?thesis by (auto intro!: Cons.IH ok_put)
  qed
qed

text \<open>Once every key holds its value, later puts of values of the same table keep it.\<close>

lemma get_put_all_agree:
  assumes "\<And>k' v'. (k', v') \<in> set kvs \<Longrightarrow> k' = k \<Longrightarrow> v' = v" and "get s k = Some v" and "ok s k"
  shows "get (put_all kvs s) k = Some v"
  using assms
proof (induction kvs arbitrary: s)
  case Nil
  then show ?case by simp
next
  case (Cons kv kvs)
  obtain k0 v0 where kv: "kv = (k0, v0)" by (cases kv)
  have "get (put k0 v0 s) k = Some v"
    using Cons.prems kv by (cases "k0 = k") (auto simp: get_put_same get_put_other)
  with Cons kv show ?case by (auto intro!: Cons.IH ok_put)
qed

end

section \<open>Facts on lists\<close>

lemma takeWhile_neq_notin: "d \<notin> set (takeWhile (\<lambda>c. c \<noteq> d) s)"
  by (auto dest: set_takeWhileD)

lemma takeWhile_neq_append: "d \<notin> set x \<Longrightarrow> takeWhile (\<lambda>c. c \<noteq> d) (x @ d # r) = x"
  by (induction x) auto

lemma dropWhile_neq_append: "d \<notin> set x \<Longrightarrow> dropWhile (\<lambda>c. c \<noteq> d) (x @ d # r) = d # r"
  by (induction x) auto

lemma length_tl_dropWhile: "s \<noteq> [] \<Longrightarrow> length (tl (dropWhile P s)) < length s"
  using length_dropWhile_le [of P s] by (cases s) (auto simp: less_Suc_eq_le)

lemma take_add_drop: "take (m + n) xs = take m xs @ take n (drop m xs)"
  by (rule take_add)

lemma concat_chunks:
  "concat (map (\<lambda>i. take k (drop (i * k) xs)) [0..<n]) = take (n * k) xs"
  by (induction n) (simp_all add: take_add [symmetric] add.commute)

end
