(* ===== verification/SnowFlakeGen.thy ===== *)
theory SnowFlakeGen
  imports Prelude "HOL-Library.Word"
begin

text \<open>
  The id generator of \<open>utils/SnowFlake.h\<close> at its machine width: a 64-bit id is 42 bits of
  milliseconds since a fixed start, 5 bits of data centre, 5 bits of machine and a 12-bit
  sequence number. The clock is the list of the readings the generator will get.
\<close>

unbundle bit_operations_syntax

section \<open>The generator\<close>

definition start_stmp :: "64 word" where "start_stmp = 1480166465631"

definition max_datacenter_num :: "64 word" where "max_datacenter_num = (-1) XOR push_bit 5 (-1)"
definition max_machine_num :: "64 word" where "max_machine_num = (-1) XOR push_bit 5 (-1)"
definition max_sequence_num :: "64 word" where "max_sequence_num = (-1) XOR push_bit 12 (-1)"

definition machine_left :: nat where "machine_left = 12"
definition datacenter_left :: nat where "datacenter_left = 12 + 5"
definition timestmp_left :: nat where "timestmp_left = 12 + 5 + 5"

record snowflake =
  datacenterId :: "64 word"
  machineId :: "64 word"
  sequence :: "64 word"
  lastStmp :: "64 word"

text \<open>\<open>getNewstmp\<close>: milliseconds from a \<open>timeval\<close> (\<open>gettimeofday\<close>).\<close>

definition getNewstmp :: "int \<Rightarrow> int \<Rightarrow> 64 word" where
  "getNewstmp tv_sec tv_usec = (word_of_int tv_usec :: 64 word) div 1000 + word_of_int (tv_sec * 1000)"

text \<open>
  \<open>getNextMill\<close> polls the clock until it is past \<open>lastStmp\<close>; \<open>None\<close> means that it still
  polls after all the readings of the list.
\<close>

fun getNextMill :: "64 word \<Rightarrow> 64 word list \<Rightarrow> (64 word \<times> 64 word list) option" where
  "getNextMill t0 [] = None"
| "getNextMill t0 (mill # clk) = (if mill \<le> t0 then getNextMill t0 clk else Some (mill, clk))"

text \<open>The constructor; an id out of range ends the process (\<open>exit(0)\<close>), here \<open>None\<close>.\<close>

definition SnowFlake :: "int \<Rightarrow> int \<Rightarrow> snowflake option" where
  "SnowFlake datacenter_Id machine_Id =
     (if word_of_int datacenter_Id > max_datacenter_num \<or> datacenter_Id < 0 then None
      else if word_of_int machine_Id > max_machine_num \<or> machine_Id < 0 then None
      else Some \<lparr>datacenterId = word_of_int datacenter_Id, machineId = word_of_int machine_Id,
                 sequence = 0, lastStmp = 0\<rparr>)"

datatype next_id = Exits | Polls | Issued "64 word" snowflake "64 word list"

definition make_id :: "snowflake \<Rightarrow> 64 word" where
  "make_id sf = push_bit timestmp_left (lastStmp sf - start_stmp)
     OR push_bit datacenter_left (datacenterId sf)
     OR push_bit machine_left (machineId sf)
     OR sequence sf"

fun nextId :: "snowflake \<Rightarrow> 64 word list \<Rightarrow> next_id" where
  "nextId sf [] = Polls"
| "nextId sf (currStmp # clk) =
     (if currStmp < lastStmp sf then Exits
      else if currStmp = lastStmp sf then
        (let seq = (sequence sf + 1) AND max_sequence_num in
         if seq = 0 then
           (case getNextMill (lastStmp sf) clk of
              None \<Rightarrow> Polls
            | Some (mill, clk') \<Rightarrow>
                (let sf' = sf\<lparr>sequence := seq, lastStmp := mill\<rparr> in Issued (make_id sf') sf' clk'))
         else let sf' = sf\<lparr>sequence := seq, lastStmp := currStmp\<rparr> in Issued (make_id sf') sf' clk)
      else let sf' = sf\<lparr>sequence := 0, lastStmp := currStmp\<rparr> in Issued (make_id sf') sf' clk)"

text \<open>The ids of \<open>n\<close> calls in a row, as long as each call issues one.\<close>

fun issue_ids :: "nat \<Rightarrow> snowflake \<Rightarrow> 64 word list \<Rightarrow> 64 word list" where
  "issue_ids 0 sf clk = []"
| "issue_ids (Suc n) sf clk =
     (case nextId sf clk of Issued i sf' clk' \<Rightarrow> i # issue_ids n sf' clk' | _ \<Rightarrow> [])"

section \<open>The layout of an id\<close>

definition sf_wf :: "snowflake \<Rightarrow> bool" where
  "sf_wf sf \<longleftrightarrow> unat (datacenterId sf) < 32 \<and> unat (machineId sf) < 32 \<and> unat (sequence sf) < 4096"

text \<open>The time range in which the time part fits its 42 bits (until the year 2156).\<close>

definition in_epoch :: "64 word \<Rightarrow> bool" where
  "in_epoch t \<longleftrightarrow> start_stmp \<le> t \<and> unat (t - start_stmp) < 2 ^ 42"

lemma max_values: "max_datacenter_num = 31" "max_machine_num = 31" "max_sequence_num = 4095"
  by (simp_all add: max_datacenter_num_def max_machine_num_def max_sequence_num_def mask_eq_exp_minus_1)

lemma or_disjoint_nat:
  assumes "b < 2 ^ k"
  shows "push_bit k a OR b = a * 2 ^ k + (b :: nat)"
proof -
  have "push_bit k a AND b = 0"
  proof (rule bit_eqI)
    fix n
    have "\<not> bit b n" if "k \<le> n"
    proof -
      have "b < 2 ^ n" using assms that by (meson less_le_trans one_le_numeral power_increasing)
      then show ?thesis by (simp add: bit_iff_odd)
    qed
    then show "bit (push_bit k a AND b) n = bit (0 :: nat) n"
      by (auto simp: bit_simps not_le)
  qed
  then have "push_bit k a OR b = push_bit k a + b" by (rule disjunctive_add_eq_or [symmetric])
  then show ?thesis by (simp add: push_bit_eq_mult)
qed

lemma unat_push_bit_small:
  fixes w :: "64 word"
  assumes "unat w * 2 ^ k < 2 ^ 64"
  shows "unat (push_bit k w) = push_bit k (unat w)"
  using assms by (simp add: unsigned_push_bit_eq take_bit_nat_eq_self_iff push_bit_eq_mult [of k "unat w"])

lemma unat_make_id:
  assumes "sf_wf sf" and "unat (lastStmp sf - start_stmp) < 2 ^ 42"
  shows "unat (make_id sf) = unat (lastStmp sf - start_stmp) * 2 ^ 22 +
    unat (datacenterId sf) * 2 ^ 17 + unat (machineId sf) * 2 ^ 12 + unat (sequence sf)"
proof -
  let ?t = "unat (lastStmp sf - start_stmp)" and ?d = "unat (datacenterId sf)"
    and ?m = "unat (machineId sf)" and ?s = "unat (sequence sf)"
  have b: "?d < 32" "?m < 32" "?s < 4096" using assms(1) by (simp_all add: sf_wf_def)
  have "unat (make_id sf) = push_bit 22 ?t OR push_bit 17 ?d OR push_bit 12 ?m OR ?s"
    using b assms(2)
    by (simp add: make_id_def unsigned_or_eq unat_push_bit_small timestmp_left_def
        datacenter_left_def machine_left_def)
  also have "push_bit 12 ?m OR ?s = ?m * 2 ^ 12 + ?s" using b by (intro or_disjoint_nat) simp
  also have "push_bit 17 ?d OR (?m * 2 ^ 12 + ?s) = ?d * 2 ^ 17 + (?m * 2 ^ 12 + ?s)"
    using b by (intro or_disjoint_nat) simp
  also have "push_bit 22 ?t OR (?d * 2 ^ 17 + (?m * 2 ^ 12 + ?s)) =
      ?t * 2 ^ 22 + (?d * 2 ^ 17 + (?m * 2 ^ 12 + ?s))"
    using b by (intro or_disjoint_nat) simp
  finally show ?thesis by simp
qed

lemma seq_step: "unat ((s + 1) AND max_sequence_num) = (unat s + 1) mod 4096" if "unat (s :: 64 word) < 4096"
proof -
  have "(4095 :: 64 word) = mask 12" by (simp add: mask_eq_exp_minus_1)
  then have "(s + 1) AND max_sequence_num = take_bit 12 (s + 1)"
    by (simp add: max_values take_bit_eq_mask)
  moreover have "unat (s + 1) = unat s + 1"
    using that by (simp add: unat_word_ariths)
  ultimately have "unat ((s + 1) AND max_sequence_num) = take_bit 12 (unat s + 1)"
    by (simp only: unsigned_take_bit_eq)
  then show ?thesis by (simp add: take_bit_eq_mod)
qed

lemma getNextMill_past: "getNextMill t0 clk = Some (mill, clk') \<Longrightarrow> t0 < mill \<and> mill \<in> set clk \<and> set clk' \<subseteq> set clk"
  by (induction clk) (auto split: if_splits)

text \<open>One issued id: the state stays well-formed and (time, sequence) grows lexicographically.\<close>

lemma nextId_issued:
  assumes "sf_wf sf" and "nextId sf clk = Issued i sf' clk'"
  shows "sf_wf sf' \<and> i = make_id sf' \<and> datacenterId sf' = datacenterId sf \<and> machineId sf' = machineId sf \<and>
    (lastStmp sf < lastStmp sf' \<or> lastStmp sf = lastStmp sf' \<and> unat (sequence sf) < unat (sequence sf')) \<and>
    lastStmp sf' \<in> set clk \<and> set clk' \<subseteq> set clk"
proof (cases clk)
  case Nil
  with assms(2) show ?thesis by simp
next
  case (Cons t ts)
  let ?seq = "(sequence sf + 1) AND max_sequence_num"
  have s: "unat (sequence sf) < 4096" using assms(1) by (simp add: sf_wf_def)
  note st = seq_step [OF s]
  consider (later) "lastStmp sf < t" | (same) "t = lastStmp sf" "?seq \<noteq> 0"
    | (wrap) "t = lastStmp sf" "?seq = 0"
    using assms(2) Cons by (fastforce split: if_splits)
  then show ?thesis
  proof cases
    case later
    then have "\<not> t < lastStmp sf" "t \<noteq> lastStmp sf" by auto
    with later assms Cons show ?thesis by (auto simp: sf_wf_def Let_def)
  next
    case same
    have "?seq \<noteq> 0 \<Longrightarrow> unat (sequence sf) + 1 < 4096"
      using st s by (cases "unat (sequence sf) + 1 = 4096") (auto simp: unat_eq_0)
    with same st have "unat ?seq = unat (sequence sf) + 1" by simp
    with same assms Cons s st show ?thesis by (auto simp: sf_wf_def Let_def)
  next
    case wrap
    with assms Cons show ?thesis
      by (auto simp: sf_wf_def Let_def dest: getNextMill_past split: option.splits)
  qed
qed

lemma make_id_mono:
  assumes "sf_wf sf" and "sf_wf sf'" and "in_epoch (lastStmp sf)" and "in_epoch (lastStmp sf')"
    and "datacenterId sf' = datacenterId sf" and "machineId sf' = machineId sf"
    and "lastStmp sf < lastStmp sf' \<or> lastStmp sf = lastStmp sf' \<and> unat (sequence sf) < unat (sequence sf')"
  shows "make_id sf < make_id sf'"
proof -
  let ?t = "unat (lastStmp sf - start_stmp)" and ?t' = "unat (lastStmp sf' - start_stmp)"
  have u: "unat (t - start_stmp) = unat t - unat start_stmp" if "in_epoch t" for t
    using that by (simp add: in_epoch_def unat_sub)
  have "?t < ?t' \<or> ?t = ?t' \<and> unat (sequence sf) < unat (sequence sf')"
    using assms(3,4,7) u [OF assms(3)] u [OF assms(4)]
    by (auto simp: word_less_nat_alt in_epoch_def word_le_nat_alt)
  moreover have "unat (sequence sf) < 4096" "unat (datacenterId sf) < 32" "unat (machineId sf) < 32"
    using assms(1) by (simp_all add: sf_wf_def)
  ultimately have "unat (make_id sf) < unat (make_id sf')"
    using unat_make_id [OF assms(1)] unat_make_id [OF assms(2)] assms(3-6)
    by (auto simp: in_epoch_def)
  then show ?thesis by (simp add: word_less_nat_alt)
qed

lemma issue_ids_sorted:
  assumes "sf_wf sf" and "\<forall>t \<in> set clk. in_epoch t"
  shows "sorted_wrt (<) (issue_ids n sf clk) \<and>
    (in_epoch (lastStmp sf) \<longrightarrow> (\<forall>i \<in> set (issue_ids n sf clk). make_id sf < i))"
  using assms
proof (induction n arbitrary: sf clk)
  case 0
  then show ?case by simp
next
  case (Suc n)
  show ?case
  proof (cases "nextId sf clk")
    case (Issued i sf' clk')
    note iss = nextId_issued [OF Suc.prems(1) Issued]
    have ep: "in_epoch (lastStmp sf')" "\<forall>t \<in> set clk'. in_epoch t" using iss Suc.prems(2) by auto
    with iss Suc.IH [of sf' clk'] have IH: "sorted_wrt (<) (issue_ids n sf' clk')"
      "\<forall>j \<in> set (issue_ids n sf' clk'). i < j" by auto
    moreover have "make_id sf < i" if "in_epoch (lastStmp sf)"
      using iss make_id_mono [OF Suc.prems(1), of sf'] that ep by auto
    ultimately show ?thesis using Issued by fastforce
  qed simp_all
qed

section \<open>Properties\<close>

text \<open>
  C35. The ids that one generator issues in a row are strictly increasing, hence distinct,
  whatever readings the clock gives (repeated milliseconds, sequence overflow), as long as the
  readings lie in the range of the 42-bit time part.
\<close>

theorem snowflake_ids_increase:
  assumes "sf_wf sf" and "\<forall>t \<in> set clk. in_epoch t"
  shows "sorted_wrt (<) (issue_ids n sf clk) \<and> distinct (issue_ids n sf clk)"
  using issue_ids_sorted [OF assms] strict_sorted_iff by blast

theorem snowflake_ids_increase_witness:
  "sorted_wrt (<) (issue_ids 3 \<lparr>datacenterId = 1, machineId = 3, sequence = 0, lastStmp = 0\<rparr>
      [1480166465700, 1480166465700, 1480166465701]) \<and>
   distinct (issue_ids 3 \<lparr>datacenterId = 1, machineId = 3, sequence = 0, lastStmp = 0\<rparr>
      [1480166465700, 1480166465700, 1480166465701])"
  by (rule snowflake_ids_increase) (simp_all add: sf_wf_def in_epoch_def start_stmp_def)

lemma packed_fields:
  fixes t d m s :: nat
  assumes "d < 32" and "m < 32" and "s < 4096" and x: "x = t * 2 ^ 22 + d * 2 ^ 17 + m * 2 ^ 12 + s"
  shows "s = x mod 4096" and "m = x div 4096 mod 32" and "d = x div 4096 div 32 mod 32"
    and "t = x div 4096 div 32 div 32"
proof -
  have x': "x = s + ((m + (d + t * 32) * 32) * 4096)" using x by simp
  then have q: "x div 4096 = m + (d + t * 32) * 32" using assms(3) by simp
  then have r: "x div 4096 div 32 = d + t * 32" using assms(2) by simp
  show "s = x mod 4096" unfolding x' using assms(3) by (simp only: mod_mult_self1 mod_less)
  show "m = x div 4096 mod 32" unfolding q using assms(2) by (simp only: mod_mult_self1 mod_less)
  show "d = x div 4096 div 32 mod 32" using r assms(1) by simp
  show "t = x div 4096 div 32 div 32" using r assms(1) by simp
qed

text \<open>
  C36. Two generator states that differ in data centre, machine, millisecond or sequence number
  give different ids, so generators configured with different (data centre, machine) pairs
  never collide.
\<close>

theorem snowflake_ids_never_collide:
  assumes "sf_wf sf" and "sf_wf sf'" and "in_epoch (lastStmp sf)" and "in_epoch (lastStmp sf')"
    and "sf \<noteq> sf'"
  shows "make_id sf \<noteq> make_id sf'"
proof
  assume same: "make_id sf = make_id sf'"
  have f: "unat (sequence x) = unat (make_id x) mod 4096 \<and>
      unat (machineId x) = unat (make_id x) div 4096 mod 32 \<and>
      unat (datacenterId x) = unat (make_id x) div 4096 div 32 mod 32 \<and>
      unat (lastStmp x - start_stmp) = unat (make_id x) div 4096 div 32 div 32"
    if "sf_wf x" "in_epoch (lastStmp x)" for x
    using packed_fields [OF _ _ _ unat_make_id [OF that(1)]] that by (simp add: sf_wf_def in_epoch_def)
  have "sequence sf = sequence sf'" "machineId sf = machineId sf'"
    "datacenterId sf = datacenterId sf'" "lastStmp sf - start_stmp = lastStmp sf' - start_stmp"
    using f [OF assms(1,3)] f [OF assms(2,4)] same by (simp_all add: word_unat_eq_iff)
  with assms(5) show False by simp
qed

theorem snowflake_ids_never_collide_witness:
  "make_id \<lparr>datacenterId = 1, machineId = 3, sequence = 7, lastStmp = 1480166465700\<rparr> \<noteq>
   make_id \<lparr>datacenterId = 1, machineId = 4, sequence = 7, lastStmp = 1480166465700\<rparr>"
  by (rule snowflake_ids_never_collide) (simp_all add: sf_wf_def in_epoch_def start_stmp_def)

end
