(* ===== verification/Monitor.thy ===== *)
theory Monitor
  imports Prelude
begin

text \<open>
  The traffic monitor of \<open>dds/ZenohBase.h\<close>, the base class of every topic: four accumulators
  (data sent, replies sent, data received, replies received), the \<open>stat_*\<close> functions that the
  topics call for every message, and the thread that publishes an accumulator and resets it.

  Counters are \<open>int64_t\<close> in the code and \<open>int\<close> here; a lemma gives the amount of traffic up to which they
  stay in range. The session and the publisher (zenoh) are the environment: whether a \<open>put\<close> throws is a
  parameter.

  Nothing locks the accumulators. The thread and the calls are therefore modelled by steps as small as their
  accesses to a counter: a call reads and writes each counter in two steps, the thread serialises, puts and resets
  each counter in a step of its own, and a run is any interleaving of them. The lemmas show that what is published
  plus what is pending is what was counted as long as no call is under way between the serialisation and the
  resets of its accumulator, and that otherwise traffic is lost or reported twice.
\<close>

section \<open>State\<close>

record TopicMonInfo =
  mi_uuid :: string
  mi_domain :: int
  mi_topicname :: string
  mi_cycle :: int
  mi_tonodeid :: string
  mi_srcnodeid :: string
  mi_updatetime :: int
  mi_nsize :: int
  mi_ncount :: int
  mi_srctype :: int
  mi_progarmname :: string

definition empty_mon :: TopicMonInfo where
  "empty_mon = \<lparr>mi_uuid = [], mi_domain = 0, mi_topicname = [], mi_cycle = 0, mi_tonodeid = [],
     mi_srcnodeid = [], mi_updatetime = 0, mi_nsize = 0, mi_ncount = 0, mi_srctype = 0,
     mi_progarmname = []\<rparr>"

text \<open>The part of \<open>TopicInfo\<close> that the topics read.\<close>

record TopicInfo =
  topic :: string
  topicReply :: string
  partition :: string
  nodeId :: string
  nodeName :: string
  domain :: int
  needReply :: bool
  monNodeId :: string
  monSendSleep :: int
  programName :: string

datatype channel = Pub | ReplyPub | Reader | ReplyReader

record zenoh_base =
  topic_info :: TopicInfo
  needMonitor :: bool
  write_mon_publisher :: bool
  monPubInfo :: TopicMonInfo
  monReplyPubInfo :: TopicMonInfo
  monReaderInfo :: TopicMonInfo
  monReplyReaderInfo :: TopicMonInfo
  mon_published :: "(channel \<times> TopicMonInfo) list"

section \<open>Accumulating\<close>

text \<open>
  The assignments of the four \<open>*_mon_msg\<close> functions: everything is overwritten by the new
  message but the byte sum and the count, which grow.
\<close>

definition accumulate :: "TopicInfo \<Rightarrow> int \<Rightarrow> TopicMonInfo \<Rightarrow> TopicMonInfo \<Rightarrow> TopicMonInfo" where
  "accumulate ti now d m = m\<lparr>
     mi_uuid := mi_uuid d, mi_domain := domain ti, mi_topicname := mi_topicname d,
     mi_cycle := monSendSleep ti, mi_tonodeid := mi_tonodeid d, mi_srcnodeid := mi_srcnodeid d,
     mi_updatetime := now, mi_nsize := mi_nsize m + mi_nsize d, mi_ncount := mi_ncount m + 1,
     mi_srctype := mi_srctype d, mi_progarmname := mi_progarmname d\<rparr>"

definition write_mon_msg :: "int \<Rightarrow> TopicMonInfo option \<Rightarrow> zenoh_base \<Rightarrow> int \<times> zenoh_base" where
  "write_mon_msg now data zb =
     (if \<not> needMonitor zb then (1, zb)
      else case data of None \<Rightarrow> (1, zb)
        | Some d \<Rightarrow> (0, zb\<lparr>monPubInfo := accumulate (topic_info zb) now d (monPubInfo zb)\<rparr>))"

definition write_reply_mon_msg :: "int \<Rightarrow> TopicMonInfo option \<Rightarrow> zenoh_base \<Rightarrow> int \<times> zenoh_base" where
  "write_reply_mon_msg now data zb =
     (if \<not> needMonitor zb then (1, zb)
      else case data of None \<Rightarrow> (1, zb)
        | Some d \<Rightarrow> (0, zb\<lparr>monReplyPubInfo := accumulate (topic_info zb) now d (monReplyPubInfo zb)\<rparr>))"

definition reader_mon_msg :: "int \<Rightarrow> TopicMonInfo option \<Rightarrow> zenoh_base \<Rightarrow> int \<times> zenoh_base" where
  "reader_mon_msg now data zb =
     (if \<not> needMonitor zb then (1, zb)
      else case data of None \<Rightarrow> (1, zb)
        | Some d \<Rightarrow> (0, zb\<lparr>monReaderInfo := accumulate (topic_info zb) now d (monReaderInfo zb)\<rparr>))"

definition reader_reply_mon_msg :: "int \<Rightarrow> TopicMonInfo option \<Rightarrow> zenoh_base \<Rightarrow> int \<times> zenoh_base" where
  "reader_reply_mon_msg now data zb =
     (if \<not> needMonitor zb then (1, zb)
      else case data of None \<Rightarrow> (1, zb)
        | Some d \<Rightarrow> (0, zb\<lparr>monReplyReaderInfo := accumulate (topic_info zb) now d (monReplyReaderInfo zb)\<rparr>))"

text \<open>
  The message a \<open>stat_*\<close> function builds; \<open>u\<close> is the generated uuid, \<open>now\<close> the clock. The
  four functions differ in the topic name, in the node ids and in \<open>srctype\<close> (1 sent, 2 received).
\<close>

definition stat_msg :: "string \<Rightarrow> string \<Rightarrow> string \<Rightarrow> string \<Rightarrow> int \<Rightarrow> nat \<Rightarrow> string \<Rightarrow> TopicMonInfo" where
  "stat_msg u topicName src to srctype len program = empty_mon\<lparr>mi_uuid := u,
     mi_topicname := topicName, mi_srcnodeid := src, mi_tonodeid := to, mi_ncount := 1,
     mi_srctype := srctype, mi_nsize := int len, mi_progarmname := program\<rparr>"

definition stat_writer_mon_data :: "string \<Rightarrow> int \<Rightarrow> nat \<Rightarrow> string \<Rightarrow> zenoh_base \<Rightarrow> zenoh_base" where
  "stat_writer_mon_data u now len toNodeId zb =
     (if len > 0 then snd (write_mon_msg now (Some (stat_msg u (topic (topic_info zb))
        (nodeId (topic_info zb)) toNodeId 1 len (programName (topic_info zb)))) zb)
      else zb)"

definition stat_reply_writer_mon_data :: "string \<Rightarrow> int \<Rightarrow> nat \<Rightarrow> string \<Rightarrow> zenoh_base \<Rightarrow> zenoh_base" where
  "stat_reply_writer_mon_data u now len toNodeId zb =
     (if len > 0 then snd (write_reply_mon_msg now (Some (stat_msg u (topicReply (topic_info zb))
        (nodeId (topic_info zb)) toNodeId 1 len (programName (topic_info zb)))) zb)
      else zb)"

definition stat_reader_mon_data :: "string \<Rightarrow> int \<Rightarrow> string \<Rightarrow> string \<Rightarrow> nat \<Rightarrow> zenoh_base \<Rightarrow> zenoh_base" where
  "stat_reader_mon_data u now topicName srcNodeId len zb =
     (if len > 0 then snd (reader_mon_msg now (Some (stat_msg u topicName srcNodeId
        (nodeId (topic_info zb)) 2 len (programName (topic_info zb)))) zb)
      else zb)"

definition stat_reply_reader_mon_data :: "string \<Rightarrow> int \<Rightarrow> string \<Rightarrow> string \<Rightarrow> nat \<Rightarrow> zenoh_base \<Rightarrow> zenoh_base" where
  "stat_reply_reader_mon_data u now topicName srcNodeId len zb =
     (if len > 0 then snd (reader_reply_mon_msg now (Some (stat_msg u topicName srcNodeId
        (nodeId (topic_info zb)) 2 len (programName (topic_info zb)))) zb)
      else zb)"

section \<open>Publishing\<close>

fun mon_of :: "channel \<Rightarrow> zenoh_base \<Rightarrow> TopicMonInfo" where
  "mon_of Pub zb = monPubInfo zb"
| "mon_of ReplyPub zb = monReplyPubInfo zb"
| "mon_of Reader zb = monReaderInfo zb"
| "mon_of ReplyReader zb = monReplyReaderInfo zb"

fun set_mon :: "channel \<Rightarrow> TopicMonInfo \<Rightarrow> zenoh_base \<Rightarrow> zenoh_base" where
  "set_mon Pub m zb = zb\<lparr>monPubInfo := m\<rparr>"
| "set_mon ReplyPub m zb = zb\<lparr>monReplyPubInfo := m\<rparr>"
| "set_mon Reader m zb = zb\<lparr>monReaderInfo := m\<rparr>"
| "set_mon ReplyReader m zb = zb\<lparr>monReplyReaderInfo := m\<rparr>"

text \<open>
  The thread of \<open>startWriterMon\<close>. After its sleep it takes the accumulators in order: it looks at the count,
  serialises, puts, and sets the count and then the size to zero; a \<open>put\<close> that throws ends the turn.
\<close>

datatype mon_pc =
    Sleeping
  | Testing channel
  | Serializing channel
  | Putting channel TopicMonInfo
  | ZeroCount channel
  | ZeroSize channel

fun next_pc :: "channel \<Rightarrow> mon_pc" where
  "next_pc Pub = Testing ReplyPub"
| "next_pc ReplyPub = Testing Reader"
| "next_pc Reader = Testing ReplyReader"
| "next_pc ReplyReader = Sleeping"

fun thread_step :: "bool \<Rightarrow> mon_pc \<Rightarrow> zenoh_base \<Rightarrow> mon_pc \<times> zenoh_base" where
  "thread_step put_ok Sleeping zb = (if needMonitor zb \<and> write_mon_publisher zb then Testing Pub else Sleeping, zb)"
| "thread_step put_ok (Testing ch) zb = (if mi_ncount (mon_of ch zb) > 0 then Serializing ch else next_pc ch, zb)"
| "thread_step put_ok (Serializing ch) zb = (Putting ch (mon_of ch zb), zb)"
| "thread_step put_ok (Putting ch m) zb =
     (if put_ok then (ZeroCount ch, zb\<lparr>mon_published := mon_published zb @ [(ch, m)]\<rparr>) else (Sleeping, zb))"
| "thread_step put_ok (ZeroCount ch) zb = (ZeroSize ch, set_mon ch ((mon_of ch zb)\<lparr>mi_ncount := 0\<rparr>) zb)"
| "thread_step put_ok (ZeroSize ch) zb = (next_pc ch, set_mon ch ((mon_of ch zb)\<lparr>mi_nsize := 0\<rparr>) zb)"

definition create_writer_mon_pub :: "zenoh_base \<Rightarrow> zenoh_base" where
  "create_writer_mon_pub zb = zb\<lparr>write_mon_publisher := True\<rparr>"

section \<open>The calls and the thread interleaved\<close>

text \<open>
  A call of a \<open>stat_*\<close> function: the fields before the counters are assigned and the size is read, the new size is
  written, the count is read, and it is written and the last fields assigned. On each of the four accumulators
  there is one call at a time.
\<close>

datatype mon_call = NoCall | SizeRead TopicMonInfo int | SizeWritten TopicMonInfo | CountRead TopicMonInfo int

datatype mon_event =
    Begin channel string int string nat
  | WriteSize channel
  | ReadCount channel
  | WriteCount channel
  | Thread bool

record mon_sys =
  mx_base :: zenoh_base
  mx_pc :: mon_pc
  mx_call :: "channel \<Rightarrow> mon_call"

fun stat_of :: "channel \<Rightarrow> string \<Rightarrow> string \<Rightarrow> nat \<Rightarrow> TopicInfo \<Rightarrow> TopicMonInfo" where
  "stat_of Pub u peer len ti = stat_msg u (topic ti) (nodeId ti) peer 1 len (programName ti)"
| "stat_of ReplyPub u peer len ti = stat_msg u (topicReply ti) (nodeId ti) peer 1 len (programName ti)"
| "stat_of Reader u peer len ti = stat_msg u (topic ti) peer (nodeId ti) 2 len (programName ti)"
| "stat_of ReplyReader u peer len ti = stat_msg u (topicReply ti) peer (nodeId ti) 2 len (programName ti)"

definition name_call :: "TopicInfo \<Rightarrow> int \<Rightarrow> TopicMonInfo \<Rightarrow> TopicMonInfo \<Rightarrow> TopicMonInfo" where
  "name_call ti now d m = m\<lparr>mi_uuid := mi_uuid d, mi_domain := domain ti, mi_topicname := mi_topicname d,
     mi_cycle := monSendSleep ti, mi_tonodeid := mi_tonodeid d, mi_srcnodeid := mi_srcnodeid d, mi_updatetime := now\<rparr>"

text \<open>A step, if the event can happen in the state.\<close>

fun mon_step :: "mon_event \<Rightarrow> mon_sys \<Rightarrow> mon_sys option" where
  "mon_step (Begin ch u now peer len) s =
     (if needMonitor (mx_base s) \<and> 0 < len \<and> mx_call s ch = NoCall
      then let zb = mx_base s; d = stat_of ch u peer len (topic_info zb)
        in Some (s\<lparr>mx_base := set_mon ch (name_call (topic_info zb) now d (mon_of ch zb)) zb,
             mx_call := (mx_call s)(ch := SizeRead d (mi_nsize (mon_of ch zb)))\<rparr>)
      else None)"
| "mon_step (WriteSize ch) s =
     (case mx_call s ch of
        SizeRead d v \<Rightarrow> Some (s\<lparr>mx_base := set_mon ch ((mon_of ch (mx_base s))\<lparr>mi_nsize := v + mi_nsize d\<rparr>) (mx_base s),
          mx_call := (mx_call s)(ch := SizeWritten d)\<rparr>)
      | _ \<Rightarrow> None)"
| "mon_step (ReadCount ch) s =
     (case mx_call s ch of
        SizeWritten d \<Rightarrow> Some (s\<lparr>mx_call := (mx_call s)(ch := CountRead d (mi_ncount (mon_of ch (mx_base s))))\<rparr>)
      | _ \<Rightarrow> None)"
| "mon_step (WriteCount ch) s =
     (case mx_call s ch of
        CountRead d c \<Rightarrow> Some (s\<lparr>mx_base := set_mon ch ((mon_of ch (mx_base s))\<lparr>mi_ncount := c + 1, mi_srctype := mi_srctype d,
             mi_progarmname := mi_progarmname d\<rparr>) (mx_base s),
          mx_call := (mx_call s)(ch := NoCall)\<rparr>)
      | _ \<Rightarrow> None)"
| "mon_step (Thread put_ok) s =
     (let (pc, zb) = thread_step put_ok (mx_pc s) (mx_base s) in Some (s\<lparr>mx_pc := pc, mx_base := zb\<rparr>))"

fun mon_run :: "mon_event list \<Rightarrow> mon_sys \<Rightarrow> mon_sys option" where
  "mon_run [] s = Some s"
| "mon_run (e # es) s = (case mon_step e s of None \<Rightarrow> None | Some s' \<Rightarrow> mon_run es s')"

text \<open>A call without interruption is the call of the \<open>stat_*\<close> function.\<close>

definition whole_call :: "channel \<Rightarrow> string \<Rightarrow> int \<Rightarrow> string \<Rightarrow> nat \<Rightarrow> mon_event list" where
  "whole_call ch u now peer len = [Begin ch u now peer len, WriteSize ch, ReadCount ch, WriteCount ch]"

fun stat_call :: "channel \<Rightarrow> string \<Rightarrow> int \<Rightarrow> string \<Rightarrow> nat \<Rightarrow> zenoh_base \<Rightarrow> zenoh_base" where
  "stat_call Pub u now peer len zb = stat_writer_mon_data u now len peer zb"
| "stat_call ReplyPub u now peer len zb = stat_reply_writer_mon_data u now len peer zb"
| "stat_call Reader u now peer len zb = stat_reader_mon_data u now (topic (topic_info zb)) peer len zb"
| "stat_call ReplyReader u now peer len zb = stat_reply_reader_mon_data u now (topicReply (topic_info zb)) peer len zb"

lemma mon_of_set_mon [simp]: "mon_of c (set_mon ch m zb) = (if c = ch then m else mon_of c zb)"
  by (cases c; cases ch) simp_all

lemma set_mon_simps [simp]:
  "mon_published (set_mon ch m zb) = mon_published zb"
  "needMonitor (set_mon ch m zb) = needMonitor zb"
  "topic_info (set_mon ch m zb) = topic_info zb"
  "set_mon ch m (set_mon ch m' zb) = set_mon ch m zb"
  "mon_of c (zb\<lparr>mon_published := p\<rparr>) = mon_of c zb"
  by (cases ch; simp)+ (cases c; simp)

lemmas stat_defs =
  stat_writer_mon_data_def stat_reply_writer_mon_data_def stat_reader_mon_data_def
  stat_reply_reader_mon_data_def write_mon_msg_def write_reply_mon_msg_def reader_mon_msg_def
  reader_reply_mon_msg_def

lemma stat_msg_size [simp]: "mi_nsize (stat_msg u t s d ty len p) = int len"
  by (simp add: stat_msg_def)

lemma accumulate_sums [simp]:
  "mi_nsize (accumulate ti now d m) = mi_nsize m + mi_nsize d"
  "mi_ncount (accumulate ti now d m) = mi_ncount m + 1"
  by (simp_all add: accumulate_def)

lemma stat_of_size [simp]: "mi_nsize (stat_of c u peer len ti) = int len"
  by (cases c) simp_all

lemma stat_call_accumulates:
  assumes "needMonitor zb" and "0 < len"
  shows "stat_call c u now peer len zb
    = set_mon c (accumulate (topic_info zb) now (stat_of c u peer len (topic_info zb)) (mon_of c zb)) zb"
  using assms
  by (cases c) (simp_all only: stat_call.simps stat_defs stat_of.simps mon_of.simps set_mon.simps
    not_True_eq_False if_False if_True option.case snd_conv)

declare set_mon.simps [simp del]

lemma whole_call_is_stat_call:
  assumes "needMonitor (mx_base s)" and "0 < len" and "mx_call s ch = NoCall"
  shows "mon_run (whole_call ch u now peer len) s = Some (s\<lparr>mx_base := stat_call ch u now peer len (mx_base s)\<rparr>)"
proof -
  have "(mx_call s)(ch := NoCall) = mx_call s" using assms(3) by auto
  moreover have "accumulate ti now d m = (name_call ti now d m)\<lparr>mi_nsize := mi_nsize m + mi_nsize d, mi_ncount := mi_ncount m + 1,
      mi_srctype := mi_srctype d, mi_progarmname := mi_progarmname d\<rparr>" for ti d m
    by (simp add: accumulate_def name_call_def)
  moreover have "mi_ncount (name_call ti now d m) = mi_ncount m" for ti d m by (simp add: name_call_def)
  ultimately show ?thesis
    using assms by (simp add: whole_call_def stat_call_accumulates Let_def)
qed

text \<open>Counting a message changes the accumulators only.\<close>

lemma stat_topic_info [simp, frame]:
  "topic_info (stat_writer_mon_data u now len p zb) = topic_info zb"
  "topic_info (stat_reply_writer_mon_data u now len p zb) = topic_info zb"
  "topic_info (stat_reader_mon_data u now t p len zb) = topic_info zb"
  "topic_info (stat_reply_reader_mon_data u now t p len zb) = topic_info zb"
  by (simp_all add: stat_defs)

text \<open>A call is under way on an accumulator that the thread has serialised and not yet reset.\<close>

fun in_window :: "channel \<Rightarrow> mon_pc \<Rightarrow> bool" where
  "in_window ch (Putting c m) \<longleftrightarrow> c = ch"
| "in_window ch (ZeroCount c) \<longleftrightarrow> c = ch"
| "in_window ch (ZeroSize c) \<longleftrightarrow> c = ch"
| "in_window ch _ \<longleftrightarrow> False"

definition overlaps :: "channel \<Rightarrow> mon_sys \<Rightarrow> bool" where
  "overlaps ch s \<longleftrightarrow> mx_call s ch \<noteq> NoCall \<and> in_window ch (mx_pc s)"

fun calls_apart :: "channel \<Rightarrow> mon_event list \<Rightarrow> mon_sys \<Rightarrow> bool" where
  "calls_apart ch [] s \<longleftrightarrow> \<not> overlaps ch s"
| "calls_apart ch (e # es) s \<longleftrightarrow> \<not> overlaps ch s \<and> (case mon_step e s of None \<Rightarrow> True | Some s' \<Rightarrow> calls_apart ch es s')"

definition published_sum :: "(TopicMonInfo \<Rightarrow> int) \<Rightarrow> channel \<Rightarrow> zenoh_base \<Rightarrow> int" where
  "published_sum f ch zb = sum_list (map (f \<circ> snd) (filter (\<lambda>(c, _). c = ch) (mon_published zb)))"

text \<open>What the thread has put already is not pending.\<close>

definition mon_pending :: "(TopicMonInfo \<Rightarrow> int) \<Rightarrow> channel \<Rightarrow> mon_sys \<Rightarrow> int" where
  "mon_pending f ch s = (if mx_pc s = ZeroCount ch \<or> mx_pc s = ZeroSize ch then 0 else f (mon_of ch (mx_base s)))"

fun event_bytes :: "channel \<Rightarrow> mon_event \<Rightarrow> int" where
  "event_bytes ch (Begin c u now peer len) = (if c = ch then int len else 0)"
| "event_bytes ch _ = 0"

fun event_count :: "channel \<Rightarrow> mon_event \<Rightarrow> int" where
  "event_count ch (Begin c u now peer len) = (if c = ch then 1 else 0)"
| "event_count ch _ = 0"

lemma published_sum_simps [simp]:
  "published_sum f c (set_mon ch m zb) = published_sum f c zb"
  "published_sum f c (zb\<lparr>mon_published := mon_published zb' @ [(ch, m)]\<rparr>) = published_sum f c zb' + (if c = ch then f m else 0)"
  by (simp_all add: published_sum_def)

lemma name_call_sums [simp]:
  "mi_nsize (name_call ti now d m) = mi_nsize m" "mi_ncount (name_call ti now d m) = mi_ncount m"
  by (simp_all add: name_call_def)

text \<open>
  The books of an accumulator for which \<open>B\<close> bytes in \<open>N\<close> messages have been counted, with the calls begun included.
\<close>

definition books :: "channel \<Rightarrow> int \<Rightarrow> int \<Rightarrow> mon_sys \<Rightarrow> bool" where
  "books ch B N s \<longleftrightarrow> (let m = mon_of ch (mx_base s); zb = mx_base s in
     0 \<le> mi_nsize m \<and> 0 \<le> mi_ncount m \<and> (\<forall>(c, m') \<in> set (mon_published zb). c = ch \<longrightarrow> 0 \<le> mi_nsize m' \<and> 0 \<le> mi_ncount m')
     \<and> published_sum mi_nsize ch zb + mon_pending mi_nsize ch s + (case mx_call s ch of SizeRead d v \<Rightarrow> mi_nsize d | _ \<Rightarrow> 0) = B
     \<and> published_sum mi_ncount ch zb + mon_pending mi_ncount ch s + (if mx_call s ch = NoCall then 0 else 1) = N
     \<and> (case mx_call s ch of SizeRead d v \<Rightarrow> v = mi_nsize m \<and> 0 \<le> mi_nsize d | CountRead d c \<Rightarrow> c = mi_ncount m | _ \<Rightarrow> True)
     \<and> (case mx_pc s of Putting c m' \<Rightarrow> c = ch \<longrightarrow> mi_nsize m' = mi_nsize m \<and> mi_ncount m' = mi_ncount m
        | ZeroSize c \<Rightarrow> c = ch \<longrightarrow> mi_ncount m = 0 | _ \<Rightarrow> True))"

lemma next_pc_tests [simp]:
  "next_pc c \<noteq> Serializing d" "next_pc c \<noteq> Putting d m" "next_pc c \<noteq> ZeroCount d" "next_pc c \<noteq> ZeroSize d"
  "(case next_pc c of Putting x y \<Rightarrow> f x y | ZeroSize x \<Rightarrow> g x | _ \<Rightarrow> b) = b"
  by (cases c; simp)+

lemma books_thread:
  assumes "books ch B N s" and "\<not> overlaps ch s" and "thread_step put_ok (mx_pc s) (mx_base s) = (pc, zb)"
    and "\<not> overlaps ch (s\<lparr>mx_pc := pc, mx_base := zb\<rparr>)"
  shows "books ch B N (s\<lparr>mx_pc := pc, mx_base := zb\<rparr>)"
proof (cases "mx_pc s")
  case (Putting c m)
  then show ?thesis using assms
    by (cases "c = ch") (auto simp: books_def mon_pending_def overlaps_def Let_def split: if_splits mon_call.splits)
next
  case (ZeroCount c)
  then show ?thesis using assms
    by (cases "c = ch") (auto simp: books_def mon_pending_def overlaps_def Let_def split: if_splits mon_call.splits)
next
  case (ZeroSize c)
  then show ?thesis using assms
    by (cases "c = ch") (auto simp: books_def mon_pending_def overlaps_def Let_def split: if_splits mon_call.splits)
qed (use assms in \<open>auto simp: books_def mon_pending_def overlaps_def Let_def split: if_splits mon_call.splits\<close>)

lemma books_open:
  assumes "\<not> in_window ch (mx_pc s)"
  shows "books ch B N s \<longleftrightarrow> (let m = mon_of ch (mx_base s); zb = mx_base s in
     0 \<le> mi_nsize m \<and> 0 \<le> mi_ncount m \<and> (\<forall>(c, m') \<in> set (mon_published zb). c = ch \<longrightarrow> 0 \<le> mi_nsize m' \<and> 0 \<le> mi_ncount m')
     \<and> published_sum mi_nsize ch zb + mi_nsize m + (case mx_call s ch of SizeRead d v \<Rightarrow> mi_nsize d | _ \<Rightarrow> 0) = B
     \<and> published_sum mi_ncount ch zb + mi_ncount m + (if mx_call s ch = NoCall then 0 else 1) = N
     \<and> (case mx_call s ch of SizeRead d v \<Rightarrow> v = mi_nsize m \<and> 0 \<le> mi_nsize d | CountRead d c \<Rightarrow> c = mi_ncount m | _ \<Rightarrow> True))"
  using assms by (cases "mx_pc s") (auto simp: books_def mon_pending_def Let_def)

lemma books_other:
  assumes "mon_of ch (mx_base s') = mon_of ch (mx_base s)" and "mon_published (mx_base s') = mon_published (mx_base s)"
    and "mx_call s' ch = mx_call s ch" and "mx_pc s' = mx_pc s"
  shows "books ch B N s' = books ch B N s"
proof -
  have "published_sum f ch (mx_base s') = published_sum f ch (mx_base s)" "mon_pending f ch s' = mon_pending f ch s" for f
    by (simp_all add: published_sum_def mon_pending_def assms)
  then show ?thesis unfolding books_def Let_def by (simp only: assms)
qed

lemma books_call:
  assumes b: "books ch B N s" and "\<not> overlaps ch s" and "\<not> overlaps ch s'" and step: "mon_step e s = Some s'" and "\<And>ok. e \<noteq> Thread ok"
  shows "books ch (B + event_bytes ch e) (N + event_count ch e) s'"
proof (cases e)
  case (Begin c u now peer len)
  with step have s': "s' = s\<lparr>mx_base := set_mon c (name_call (topic_info (mx_base s)) now
      (stat_of c u peer len (topic_info (mx_base s))) (mon_of c (mx_base s))) (mx_base s),
      mx_call := (mx_call s)(c := SizeRead (stat_of c u peer len (topic_info (mx_base s))) (mi_nsize (mon_of c (mx_base s))))\<rparr>"
      "mx_call s c = NoCall"
    by (simp_all add: Let_def split: if_splits)
  show ?thesis
  proof (cases "c = ch")
    case True
    then have "\<not> in_window ch (mx_pc s)" using assms(3) by (simp add: s' overlaps_def)
    then show ?thesis using b s'(2) by (simp add: books_open s'(1) True Begin Let_def)
  next
    case False
    then show ?thesis using b by (subst books_other [of _ s' s]) (simp_all add: s' Begin)
  qed
next
  case (WriteSize c)
  with step obtain d v where s': "mx_call s c = SizeRead d v"
      "s' = s\<lparr>mx_base := set_mon c ((mon_of c (mx_base s))\<lparr>mi_nsize := v + mi_nsize d\<rparr>) (mx_base s), mx_call := (mx_call s)(c := SizeWritten d)\<rparr>"
    by (auto split: mon_call.splits)
  show ?thesis
  proof (cases "c = ch")
    case True
    then have "\<not> in_window ch (mx_pc s)" using assms(2) s'(1) by (simp add: overlaps_def)
    then show ?thesis using b s'(1) by (simp add: books_open s'(2) True WriteSize Let_def)
  next
    case False
    then show ?thesis using b by (subst books_other [of _ s' s]) (simp_all add: s' WriteSize)
  qed
next
  case (ReadCount c)
  with step obtain d where s': "mx_call s c = SizeWritten d"
      "s' = s\<lparr>mx_call := (mx_call s)(c := CountRead d (mi_ncount (mon_of c (mx_base s))))\<rparr>"
    by (auto split: mon_call.splits)
  show ?thesis
  proof (cases "c = ch")
    case True
    then have "\<not> in_window ch (mx_pc s)" using assms(2) s'(1) by (simp add: overlaps_def)
    then show ?thesis using b s'(1) by (simp add: books_open s'(2) True ReadCount Let_def)
  next
    case False
    then show ?thesis using b by (subst books_other [of _ s' s]) (simp_all add: s' ReadCount)
  qed
next
  case (WriteCount c)
  with step obtain d k where s': "mx_call s c = CountRead d k"
      "s' = s\<lparr>mx_base := set_mon c ((mon_of c (mx_base s))\<lparr>mi_ncount := k + 1, mi_srctype := mi_srctype d, mi_progarmname := mi_progarmname d\<rparr>)
         (mx_base s), mx_call := (mx_call s)(c := NoCall)\<rparr>"
    by (auto split: mon_call.splits)
  show ?thesis
  proof (cases "c = ch")
    case True
    then have "\<not> in_window ch (mx_pc s)" using assms(2) s'(1) by (simp add: overlaps_def)
    then show ?thesis using b s'(1) by (simp add: books_open s'(2) True WriteCount Let_def)
  next
    case False
    then show ?thesis using b by (subst books_other [of _ s' s]) (simp_all add: s' WriteCount)
  qed
qed (use assms(5) in simp)

lemma books_step:
  assumes "books ch B N s" and "\<not> overlaps ch s" and "\<not> overlaps ch s'" and "mon_step e s = Some s'"
  shows "books ch (B + event_bytes ch e) (N + event_count ch e) s'"
proof (cases "\<exists>ok. e = Thread ok")
  case True
  then show ?thesis using assms books_thread [OF assms(1,2)] by (auto split: prod.splits)
next
  case False
  then show ?thesis using books_call [OF assms] by blast
qed

lemma apart_now: "calls_apart ch es s \<Longrightarrow> \<not> overlaps ch s"
  by (cases es) simp_all

lemma books_run:
  assumes "books ch B N s" and "calls_apart ch es s" and "mon_run es s = Some s'"
  shows "books ch (B + sum_list (map (event_bytes ch) es)) (N + sum_list (map (event_count ch) es)) s'"
  using assms
proof (induction es arbitrary: B N s)
  case (Cons e es)
  from Cons.prems(3) obtain s1 where s1: "mon_step e s = Some s1" "mon_run es s1 = Some s'"
    by (auto split: option.splits)
  with Cons.prems(2) have "calls_apart ch es s1" "\<not> overlaps ch s" by simp_all
  with books_step [OF Cons.prems(1) _ _ s1(1)] apart_now have "books ch (B + event_bytes ch e) (N + event_count ch e) s1" by blast
  from Cons.IH [OF this \<open>calls_apart ch es s1\<close> s1(2)] show ?case by (simp add: add.assoc)
qed simp

section \<open>Properties\<close>

text \<open>A topic right after construction and \<open>create_writer_mon_pub\<close>.\<close>

definition fresh_base :: "TopicInfo \<Rightarrow> zenoh_base" where
  "fresh_base ti = create_writer_mon_pub \<lparr>topic_info = ti, needMonitor = True,
     write_mon_publisher = False, monPubInfo = empty_mon, monReplyPubInfo = empty_mon,
     monReaderInfo = empty_mon, monReplyReaderInfo = empty_mon, mon_published = []\<rparr>"

definition mon_start :: "TopicInfo \<Rightarrow> mon_sys" where
  "mon_start ti = \<lparr>mx_base = fresh_base ti, mx_pc = Sleeping, mx_call = \<lambda>ch. NoCall\<rparr>"

lemma books_start: "books ch 0 0 (mon_start ti)"
  by (cases ch) (simp_all add: books_def mon_start_def fresh_base_def create_writer_mon_pub_def mon_pending_def published_sum_def empty_mon_def)

lemma published_nonneg:
  "\<forall>(c, m) \<in> set (mon_published zb). c = ch \<longrightarrow> 0 \<le> f m \<Longrightarrow> 0 \<le> published_sum f ch zb"
  unfolding published_sum_def by (rule sum_list_nonneg) auto

text \<open>
  C38. Whatever the topic, the thread and the failing puts do, when no call is under way on an accumulator between
  its serialisation and the end of its reset, no traffic of it is lost and none reported twice: after the last call has
  ended, the bytes published and the bytes pending are the bytes of all the messages counted, and likewise the
  counts; and as long as less than \<open>2 ^ 63\<close> bytes have been counted, the size fits its \<open>int64_t\<close>.
\<close>

theorem monitor_conserves_traffic:
  assumes "mon_run es (mon_start ti) = Some s" and "calls_apart ch es (mon_start ti)" and "mx_call s ch = NoCall"
  shows "published_sum mi_nsize ch (mx_base s) + mon_pending mi_nsize ch s = sum_list (map (event_bytes ch) es)
    \<and> published_sum mi_ncount ch (mx_base s) + mon_pending mi_ncount ch s = sum_list (map (event_count ch) es)
    \<and> 0 \<le> mon_pending mi_nsize ch s \<and> mon_pending mi_nsize ch s \<le> sum_list (map (event_bytes ch) es)
    \<and> 0 \<le> mon_pending mi_ncount ch s \<and> mon_pending mi_ncount ch s \<le> sum_list (map (event_count ch) es)"
proof -
  have b: "books ch (sum_list (map (event_bytes ch) es)) (sum_list (map (event_count ch) es)) s"
    using books_run [OF books_start assms(2,1)] by simp
  then have "0 \<le> published_sum mi_nsize ch (mx_base s)" "0 \<le> published_sum mi_ncount ch (mx_base s)"
    by (auto intro!: published_nonneg simp: books_def Let_def)
  with b assms(3) show ?thesis by (auto simp: books_def mon_pending_def Let_def)
qed

definition demo_mon_route :: TopicInfo where
  "demo_mon_route = \<lparr>topic = ''t'', topicReply = ''t/reply'', partition = [], nodeId = ''n'', nodeName = ''n'', domain = 0,
     needReply = False, monNodeId = ''m'', monSendSleep = 60, programName = ''node''\<rparr>"

text \<open>A message of 10 bytes is reported, the put of the next one fails, and the round after it reports both.\<close>

definition demo_traffic :: "mon_event list" where
  "demo_traffic = whole_call Reader ''u1'' 5 ''p'' 10 @ replicate 6 (Thread True) @ replicate 3 (Thread True)
     @ whole_call Reader ''u2'' 6 ''p'' 7 @ replicate 5 (Thread True) @ [Thread False] @ whole_call Reader ''u3'' 7 ''p'' 2"

theorem monitor_conserves_traffic_witness:
  "\<exists>s. mon_run demo_traffic (mon_start demo_mon_route) = Some s \<and> map (mi_nsize \<circ> snd) (mon_published (mx_base s)) = [10]
    \<and> mon_pending mi_nsize Reader s = 9 \<and> published_sum mi_nsize Reader (mx_base s) + mon_pending mi_nsize Reader s = 19"
proof -
  have r: "(case mon_run demo_traffic (mon_start demo_mon_route) of None \<Rightarrow> False
      | Some s \<Rightarrow> mx_call s Reader = NoCall \<and> map (mi_nsize \<circ> snd) (mon_published (mx_base s)) = [10] \<and> mon_pending mi_nsize Reader s = 9)"
    by code_simp
  then obtain s where s: "mon_run demo_traffic (mon_start demo_mon_route) = Some s" "mx_call s Reader = NoCall"
      "map (mi_nsize \<circ> snd) (mon_published (mx_base s)) = [10]" "mon_pending mi_nsize Reader s = 9"
    by (auto split: option.splits)
  have "calls_apart Reader demo_traffic (mon_start demo_mon_route)" by code_simp
  moreover have "sum_list (map (event_bytes Reader) demo_traffic) = 19" by code_simp
  ultimately show ?thesis using monitor_conserves_traffic [OF s(1) _ s(2)] s by auto
qed

text \<open>
  C39. Nothing keeps the calls and the thread apart, and both orders go wrong. A message counted while the thread has
  put its report and not yet reset the counters is in no report, neither the published one nor the next. A call that
  has read the size before the reset and writes it after makes the bytes of the published report be reported
  again.
\<close>

theorem monitor_races:
  assumes "mx_pc s = Putting ch m" and "mi_nsize m = mi_nsize (mon_of ch (mx_base s))"
    and "needMonitor (mx_base s)" and "mx_call s ch = NoCall" and "0 < len"
  shows "\<exists>s1 s2. mon_run (Thread True # whole_call ch u now peer len @ [Thread True, Thread True]) s = Some s1
    \<and> published_sum mi_nsize ch (mx_base s1) + mon_pending mi_nsize ch s1
        = published_sum mi_nsize ch (mx_base s) + mon_pending mi_nsize ch s
    \<and> mon_run ([Begin ch u now peer len, Thread True, Thread True, Thread True, WriteSize ch, ReadCount ch, WriteCount ch]) s = Some s2
    \<and> published_sum mi_nsize ch (mx_base s2) + mon_pending mi_nsize ch s2
        = published_sum mi_nsize ch (mx_base s) + mon_pending mi_nsize ch s + mi_nsize m + int len
    \<and> mx_call s1 ch = NoCall \<and> mx_call s2 ch = NoCall"
  using assms by (simp add: whole_call_def Let_def mon_pending_def)

theorem monitor_races_witness:
  "\<exists>s. mon_run (whole_call Pub ''u1'' 5 ''p'' 10 @ replicate 3 (Thread True)) (mon_start demo_mon_route) = Some s
    \<and> (\<exists>s1. mon_run (Thread True # whole_call Pub ''u2'' 6 ''p'' 7 @ [Thread True, Thread True]) s = Some s1
        \<and> published_sum mi_nsize Pub (mx_base s1) + mon_pending mi_nsize Pub s1 = 10)
    \<and> (\<exists>s2. mon_run ([Begin Pub ''u2'' 6 ''p'' 7, Thread True, Thread True, Thread True, WriteSize Pub, ReadCount Pub, WriteCount Pub]) s = Some s2
        \<and> published_sum mi_nsize Pub (mx_base s2) + mon_pending mi_nsize Pub s2 = 27)"
proof -
  let ?r = "mon_run (whole_call Pub ''u1'' 5 ''p'' 10 @ replicate 3 (Thread True)) (mon_start demo_mon_route)"
  have "(case ?r of None \<Rightarrow> False | Some s \<Rightarrow> mx_call s Pub = NoCall \<and> needMonitor (mx_base s) \<and> mi_nsize (mon_of Pub (mx_base s)) = 10
      \<and> mx_pc s = Putting Pub (mon_of Pub (mx_base s)) \<and> mon_published (mx_base s) = [])"
    by code_simp
  then obtain s where s: "?r = Some s" "mx_call s Pub = NoCall" "needMonitor (mx_base s)" "mi_nsize (mon_of Pub (mx_base s)) = 10"
      "mx_pc s = Putting Pub (mon_of Pub (mx_base s))" "mon_published (mx_base s) = []"
    by (auto split: option.splits)
  have "published_sum mi_nsize Pub (mx_base s) + mon_pending mi_nsize Pub s = 10"
    using s by (simp add: published_sum_def mon_pending_def)
  with monitor_races [OF s(5) refl s(3,2), of 7 "''u2''" 6 "''p''"] s show ?thesis by auto
qed

end
