(* ===== verification/Queues.thy ===== *)
theory Queues
  imports Monitor
begin

text \<open>
  The shared containers: \<open>cn::ThreadSafeQueue\<close> (\<open>utils/ThreadSafeQueue.h\<close>), whose mutex
  makes every member one atomic step on a \<open>std::queue\<close>, and \<open>ThreadSafeMap\<close>
  (\<open>dds/ThreadSafeMap.h\<close>), the per node-pair sums of the monitor. A wait on the condition
  variable that is not woken up is the \<open>None\<close> of \<open>WaitAndPop\<close>; a wait that times out the
  \<open>False\<close> of \<open>WaitAndTryPop\<close>. The theory interprets the interface locales of the prelude
  on the two containers.
\<close>

section \<open>ThreadSafeQueue\<close>

record 'a ThreadSafeQueue =
  queue_q :: "'a list"

definition new_queue :: "'a ThreadSafeQueue" where
  "new_queue = \<lparr>queue_q = []\<rparr>"

definition TryPop :: "'a ThreadSafeQueue \<Rightarrow> ('a \<times> 'a ThreadSafeQueue) option" where
  "TryPop tq = (case queue_q tq of [] \<Rightarrow> None | x # xs \<Rightarrow> Some (x, tq\<lparr>queue_q := xs\<rparr>))"

definition Push :: "'a \<Rightarrow> 'a ThreadSafeQueue \<Rightarrow> 'a ThreadSafeQueue" where
  "Push new_value tq = tq\<lparr>queue_q := queue_q tq @ [new_value]\<rparr>"

definition Empty :: "'a ThreadSafeQueue \<Rightarrow> bool" where
  "Empty tq = (queue_q tq = [])"

text \<open>\<open>Size\<close> returns a \<open>uint32_t\<close>.\<close>

definition Size :: "'a ThreadSafeQueue \<Rightarrow> nat" where
  "Size tq = length (queue_q tq) mod 2 ^ 32"

text \<open>
  While a consumer waits, producers push \<open>arrivals\<close> (in order, each one wakes the consumer up).
  \<open>WaitAndPop\<close> on a queue that stays empty does not return.
\<close>

fun WaitAndPop :: "'a list \<Rightarrow> 'a ThreadSafeQueue \<Rightarrow> ('a \<times> 'a ThreadSafeQueue) option" where
  "WaitAndPop arrivals tq =
     (case queue_q tq of x # xs \<Rightarrow> Some (x, fold Push arrivals (tq\<lparr>queue_q := xs\<rparr>))
      | [] \<Rightarrow> (case arrivals of [] \<Rightarrow> None | y # ys \<Rightarrow> WaitAndPop ys (Push y tq)))"

declare WaitAndPop.simps [simp del]

text \<open>Within \<open>rel_time\<close> the producers push \<open>arrivals\<close>; if there is none the wait times out.\<close>

definition WaitAndTryPop :: "'a list \<Rightarrow> 'a ThreadSafeQueue \<Rightarrow> 'a option \<times> 'a ThreadSafeQueue" where
  "WaitAndTryPop arrivals tq =
     (case WaitAndPop arrivals tq of Some (x, tq') \<Rightarrow> (Some x, tq') | None \<Rightarrow> (None, tq))"

interpretation tsq: fifo_queue new_queue Push TryPop queue_q
proof
  fix tq tq' :: "'a ThreadSafeQueue" and x
  show "TryPop tq = None \<longleftrightarrow> queue_q tq = []"
    by (simp add: TryPop_def split: list.splits)
  show "TryPop tq = Some (x, tq') \<Longrightarrow> queue_q tq = x # queue_q tq'"
    by (auto simp: TryPop_def split: list.splits)
qed (simp_all add: new_queue_def Push_def)

lemma WaitAndPop_contents:
  "WaitAndPop arrivals tq = Some (x, tq') \<Longrightarrow> queue_q tq @ arrivals = x # queue_q tq'"
proof (induction arrivals tq rule: WaitAndPop.induct)
  case (1 arrivals tq)
  show ?case
  proof (cases "queue_q tq")
    case (Cons a as)
    with "1.prems" show ?thesis
      by (auto simp: WaitAndPop.simps [of arrivals] tsq.contents_foldr_push)
  next
    case Nil
    with "1.prems" obtain y ys where y: "arrivals = y # ys" and w: "WaitAndPop ys (Push y tq) = Some (x, tq')"
      by (auto simp: WaitAndPop.simps [of arrivals] split: list.splits)
    from "1.IH" [OF Nil y w] Nil y show ?thesis by (simp add: Push_def)
  qed
qed

lemma WaitAndPop_None: "WaitAndPop arrivals tq = None \<longleftrightarrow> queue_q tq = [] \<and> arrivals = []"
proof (induction arrivals tq rule: WaitAndPop.induct)
  case (1 arrivals tq)
  show ?case
  proof (cases "queue_q tq")
    case Nil
    then show ?thesis
    proof (cases arrivals)
      case (Cons y ys)
      with Nil have "WaitAndPop arrivals tq = WaitAndPop ys (Push y tq)"
        by (simp add: WaitAndPop.simps [of "y # ys"])
      with "1.IH" [OF Nil Cons] Nil Cons show ?thesis by (simp add: Push_def)
    qed (simp add: WaitAndPop.simps [of "[]"])
  qed (simp add: WaitAndPop.simps [of arrivals])
qed

section \<open>ThreadSafeMap\<close>

type_synonym node_pair = "string \<times> string"

record ThreadSafeMap =
  tsm_map :: "(node_pair \<times> TopicMonInfo) list"

definition tsm_lookup :: "ThreadSafeMap \<Rightarrow> node_pair \<Rightarrow> TopicMonInfo option" where
  "tsm_lookup m k = map_of (tsm_map m) k"

definition tsm_store :: "node_pair \<Rightarrow> TopicMonInfo \<Rightarrow> ThreadSafeMap \<Rightarrow> ThreadSafeMap" where
  "tsm_store k v m = m\<lparr>tsm_map := AList.update k v (tsm_map m)\<rparr>"

definition insertOrUpdate :: "node_pair \<Rightarrow> TopicMonInfo \<Rightarrow> ThreadSafeMap \<Rightarrow> ThreadSafeMap" where
  "insertOrUpdate nodeIds data m =
     (case tsm_lookup m nodeIds of
        Some old \<Rightarrow> tsm_store nodeIds (old\<lparr>mi_ncount := mi_ncount old + mi_ncount data,
                      mi_nsize := mi_nsize old + mi_nsize data\<rparr>) m
      | None \<Rightarrow> tsm_store nodeIds data m)"

text \<open>\<open>tsm_map[nodeIds]\<close> inserts a default value for an absent key.\<close>

definition tsm_get :: "node_pair \<Rightarrow> ThreadSafeMap \<Rightarrow> TopicMonInfo \<times> ThreadSafeMap" where
  "tsm_get nodeIds m = (case tsm_lookup m nodeIds of Some v \<Rightarrow> (v, m)
     | None \<Rightarrow> (empty_mon, tsm_store nodeIds empty_mon m))"

definition erasePartition :: "string \<Rightarrow> string \<Rightarrow> ThreadSafeMap \<Rightarrow> ThreadSafeMap" where
  "erasePartition srcNodeId toNodeId m = m\<lparr>tsm_map := AList.delete (srcNodeId, toNodeId) (tsm_map m)\<rparr>"

definition tsm_getAll :: "ThreadSafeMap \<Rightarrow> TopicMonInfo list" where
  "tsm_getAll m = map snd (tsm_map m)"

definition tsm_clear :: "ThreadSafeMap \<Rightarrow> ThreadSafeMap" where
  "tsm_clear m = m\<lparr>tsm_map := []\<rparr>"

interpretation tsm: keyed_store tsm_store tsm_lookup "\<lambda>m k. True"
  by unfold_locales (simp_all add: tsm_store_def tsm_lookup_def update_conv')

text \<open>The sums kept for a pair are the sums of the messages reported for it.\<close>

definition pair_sum :: "(TopicMonInfo \<Rightarrow> int) \<Rightarrow> node_pair \<Rightarrow> ThreadSafeMap \<Rightarrow> int" where
  "pair_sum f k m = (case tsm_lookup m k of None \<Rightarrow> 0 | Some v \<Rightarrow> f v)"

lemma insertOrUpdate_sum:
  "pair_sum mi_nsize k (insertOrUpdate k' d m) = pair_sum mi_nsize k m + (if k' = k then mi_nsize d else 0)"
  "pair_sum mi_ncount k (insertOrUpdate k' d m) = pair_sum mi_ncount k m + (if k' = k then mi_ncount d else 0)"
  by (cases "tsm_lookup m k'"; cases "k' = k";
      simp add: pair_sum_def insertOrUpdate_def tsm.get_put_same tsm.get_put_other)+

lemma insertOrUpdate_fold_sum:
  "pair_sum mi_nsize k (fold (\<lambda>(k, d). insertOrUpdate k d) kds m)
     = pair_sum mi_nsize k m + sum_list (map (mi_nsize \<circ> snd) (filter (\<lambda>(k', _). k' = k) kds))"
  by (induction kds arbitrary: m) (auto simp: insertOrUpdate_sum)

section \<open>Properties\<close>

text \<open>
  What producers push is popped in the order it was pushed and nothing is lost: popping as
  often as was pushed gives the pushed values, and a waiting consumer takes the oldest of the
  values present and arriving, leaves the others in order, and waits for ever only if there
  is none.
\<close>

theorem queue_is_fifo:
  "fst (tsq.pop_n (length xs) (fold Push xs new_queue)) = xs \<and>
   (case WaitAndPop arrivals tq of
      None \<Rightarrow> queue_q tq = [] \<and> arrivals = []
    | Some (x, tq') \<Rightarrow> x # queue_q tq' = queue_q tq @ arrivals)"
proof (cases "WaitAndPop arrivals tq")
  case None
  then have "queue_q tq = [] \<and> arrivals = []" by (simp only: WaitAndPop_None)
  with None show ?thesis by (simp add: tsq.fifo_order)
next
  case (Some p)
  obtain x tq' where p: "p = (x, tq')" by (cases p)
  with Some have "x # queue_q tq' = queue_q tq @ arrivals" by (simp add: WaitAndPop_contents)
  with Some p show ?thesis by (simp add: tsq.fifo_order)
qed

text \<open>
  The map of the monitor keeps, for every pair of nodes, the sum of the sizes reported for
  that pair, whatever the other pairs report.
\<close>

theorem monitor_map_sums:
  "pair_sum mi_nsize k (fold (\<lambda>(k, d). insertOrUpdate k d) kds (tsm_clear m))
     = sum_list (map (mi_nsize \<circ> snd) (filter (\<lambda>(k', _). k' = k) kds))"
  unfolding insertOrUpdate_fold_sum by (simp add: pair_sum_def tsm_lookup_def tsm_clear_def)

end
