(* ===== verification/Strings.thy ===== *)
theory Strings
  imports Prelude
begin

text \<open>
  The string helpers of \<open>utils/split.h\<close> (namespace \<open>utility::string\<close>): splitting on a
  delimiter, substitution, cutting at the first or last separator, trimming and path
  prefixes. The lemmas characterise each by a reference function: \<open>split\<close> inverts joining,
  \<open>trim\<close> strips blanks at both ends, \<open>subreplace\<close> either runs forever or returns a string
  without the substring it replaces.
\<close>

section \<open>Splitting on a delimiter\<close>

text \<open>
  \<open>std::getline(iss, temp, delim)\<close> on the rest of the stream: it fails when nothing is left,
  otherwise it yields the characters before the next delimiter and consumes that delimiter.
\<close>

definition getline :: "char \<Rightarrow> string \<Rightarrow> (string \<times> string) option" where
  "getline delim rest =
     (if rest = [] then None
      else Some (takeWhile (\<lambda>c. c \<noteq> delim) rest, tl (dropWhile (\<lambda>c. c \<noteq> delim) rest)))"

lemma getline_shorter: "getline delim rest = Some (l, rest') \<Longrightarrow> length rest' < length rest"
  using length_tl_dropWhile [of rest] by (auto simp: getline_def split: if_splits)

function split :: "string \<Rightarrow> char \<Rightarrow> string list" where
  "split s delim =
     (case getline delim s of None \<Rightarrow> [] | Some (temp, rest) \<Rightarrow> temp # split rest delim)"
  by pat_completeness auto
termination
  by (relation "measure (\<lambda>(s, _). length s)") (auto dest: getline_shorter)

declare split.simps [simp del]

text \<open>Joining with a delimiter, the reference \<open>split\<close> is compared with.\<close>

fun join :: "char \<Rightarrow> string list \<Rightarrow> string" where
  "join d [] = []"
| "join d [x] = x"
| "join d (x # y # ys) = x @ d # join d (y # ys)"

lemma split_Nil [simp]: "split [] d = []"
  by (simp add: split.simps getline_def)

lemma split_noDelim: "d \<notin> set x \<Longrightarrow> x \<noteq> [] \<Longrightarrow> split x d = [x]"
proof -
  assume "d \<notin> set x" and "x \<noteq> []"
  moreover from this have t: "takeWhile (\<lambda>c. c \<noteq> d) x = x" and dr: "dropWhile (\<lambda>c. c \<noteq> d) x = []"
    by (auto simp: takeWhile_eq_all_conv dropWhile_eq_Nil_conv)
  ultimately show "split x d = [x]" unfolding split.simps [of x] getline_def t dr by simp
qed

lemma split_append_delim: "d \<notin> set x \<Longrightarrow> split (x @ d # r) d = x # split r d"
  by (subst split.simps) (simp add: getline_def takeWhile_neq_append dropWhile_neq_append)

lemma split_last:
  assumes "d \<notin> set x" and "x \<noteq> []"
  shows "split (p @ d # x) d \<noteq> [] \<and> last (split (p @ d # x) d) = x"
proof (induction "length p" arbitrary: p rule: less_induct)
  case less
  show ?case
  proof (cases "d \<in> set p")
    case False
    then show ?thesis using assms by (simp add: split_append_delim split_noDelim)
  next
    case True
    then obtain a b where p: "p = a @ d # b" and "d \<notin> set a" by (meson split_list_first)
    then show ?thesis using less [of b] by (simp add: split_append_delim)
  qed
qed

lemma split_join:
  assumes "\<forall>x \<in> set xs. d \<notin> set x" and "xs \<noteq> []" and "last xs \<noteq> []"
  shows "split (join d xs) d = xs"
  using assms
proof (induction d xs rule: join.induct)
  case (3 d x y ys)
  then show ?case by (simp add: split_append_delim)
qed (simp_all add: split_noDelim)

lemma split_elem_noDelim: "x \<in> set (split s d) \<Longrightarrow> d \<notin> set x"
proof (induction s d rule: split.induct)
  case (1 s d)
  show ?case
  proof (cases "s = []")
    case False
    let ?l = "takeWhile (\<lambda>c. c \<noteq> d) s" and ?r = "tl (dropWhile (\<lambda>c. c \<noteq> d) s)"
    have g: "getline d s = Some (?l, ?r)" using False by (simp add: getline_def)
    then have "split s d = ?l # split ?r d" by (simp add: split.simps [of s])
    with "1.prems" "1.IH" [OF g refl] show ?thesis by (auto simp: takeWhile_neq_notin)
  qed (use "1.prems" in simp)
qed

text \<open>\<open>split\<close> loses nothing but a delimiter at the very end of the string.\<close>

lemma join_split:
  "join d (split s d) = (if s \<noteq> [] \<and> last s = d then butlast s else s)"
proof (induction s d rule: split.induct)
  case (1 s d)
  show ?case
  proof (cases "d \<in> set s")
    case False
    then show ?thesis by (cases "s = []") (auto simp: split_noDelim)
  next
    case True
    then obtain u v where s: "s = u @ d # v" and du: "d \<notin> set u"
      by (meson split_list_first)
    then have sp: "split s d = u # split v d" by (simp add: split_append_delim)
    have g: "getline d s = Some (u, v)"
      using s du by (simp add: getline_def takeWhile_neq_append dropWhile_neq_append)
    have IH: "join d (split v d) = (if v \<noteq> [] \<and> last v = d then butlast v else v)"
      using "1.IH" [OF g refl] .
    show ?thesis
    proof (cases "split v d")
      case Nil
      then have "v = []" by (cases "v = []") (auto simp: split.simps [of v] getline_def)
      with Nil sp s show ?thesis by simp
    next
      case (Cons y ys)
      then have "v \<noteq> []" by auto
      with Cons sp s IH show ?thesis by (auto simp: butlast_append)
    qed
  qed
qed

section \<open>Substitution\<close>

text \<open>
  \<open>subreplace\<close> restarts the search at the front after every replacement, so it may run
  forever: \<open>None\<close> is the loop that does not end.
\<close>

partial_function (option) subreplace :: "string \<Rightarrow> string \<Rightarrow> string \<Rightarrow> string option" where
  "subreplace dst_str sub_str new_str =
     (case str_find sub_str dst_str of
        None \<Rightarrow> Some dst_str
      | Some pos \<Rightarrow> subreplace (str_replace pos (length sub_str) new_str dst_str) sub_str new_str)"

declare subreplace.simps [code]

definition replaceFirstString :: "string \<Rightarrow> string \<Rightarrow> string \<Rightarrow> string" where
  "replaceFirstString original target replacement =
     (case str_find target original of
        None \<Rightarrow> original
      | Some pos \<Rightarrow> str_replace pos (length target) replacement original)"

lemma subreplace_step:
  "str_find sub s = Some pos \<Longrightarrow>
     subreplace s sub new = subreplace (str_replace pos (length sub) new s) sub new"
  by (subst subreplace.simps) simp

lemma subreplace_done: "str_find sub s = None \<Longrightarrow> subreplace s sub new = Some s"
  by (subst subreplace.simps) simp

lemma subreplace_result_free:
  assumes "subreplace s sub new = Some r"
  shows "str_find sub r = None"
  by (rule subreplace.raw_induct [where P = "\<lambda>s sub new r. str_find sub r = None", OF _ assms])
    (auto split: option.splits)

lemma length_str_replace:
  assumes "str_find sub s = Some pos"
  shows "length (str_replace pos (length sub) new s) = length s - length sub + length new"
  using str_find_Some_occurs [OF assms] by (simp add: str_replace_def)

lemma subreplace_terminates_shrinking:
  assumes "length new < length sub"
  shows "\<exists>r. subreplace s sub new = Some r"
proof (induction s rule: length_induct)
  case (1 s)
  show ?case
  proof (cases "str_find sub s")
    case None
    then show ?thesis by (simp add: subreplace_done)
  next
    case (Some pos)
    have "length (str_replace pos (length sub) new s) < length s"
      using length_str_replace [OF Some, of new] str_find_Some_occurs [OF Some] assms by linarith
    with "1.IH" Some show ?thesis by (simp add: subreplace_step)
  qed
qed

lemma concat_map_notin:
  "c \<notin> set s \<Longrightarrow> concat (map (\<lambda>x. if x = c then w else [x]) s) = s"
  by (induction s) auto

lemma subreplace_single:
  assumes "c \<notin> set new"
  shows "subreplace s [c] new = Some (concat (map (\<lambda>x. if x = c then new else [x]) s))"
proof (induction "count_list s c" arbitrary: s)
  case 0
  then have "c \<notin> set s" by (simp add: count_list_0_iff)
  then show ?case by (simp add: subreplace_done str_find_single concat_map_notin)
next
  case (Suc n)
  then have "c \<in> set s" by (metis count_list_0_iff nat.distinct(1))
  then have "str_find [c] s \<noteq> None" by (simp add: str_find_single)
  then obtain pos where pos: "str_find [c] s = Some pos" by auto
  let ?s' = "str_replace pos (length [c]) new s"
  have dec: "s = take pos s @ [c] @ drop (pos + length [c]) s" by (rule str_find_decomp [OF pos])
  have s': "?s' = take pos s @ new @ drop (pos + length [c]) s" by (simp add: str_replace_def)
  have "count_list s c = Suc (count_list ?s' c)"
    using assms by (subst dec, subst s') (simp add: count_list_0_iff)
  then have "subreplace ?s' [c] new = Some (concat (map (\<lambda>x. if x = c then new else [x]) ?s'))"
    using Suc by simp
  moreover have "concat (map (\<lambda>x. if x = c then new else [x]) new) = new"
    using assms by (rule concat_map_notin)
  then have "concat (map (\<lambda>x. if x = c then new else [x]) ?s') =
      concat (map (\<lambda>x. if x = c then new else [x]) s)"
    by (subst (2) dec, subst s') simp
  ultimately show ?case using pos by (simp add: subreplace_step)
qed

text \<open>When the replacement contains the substring, every step leaves another occurrence.\<close>

lemma subreplace_diverges:
  assumes "str_find sub new \<noteq> None" and "str_find sub s \<noteq> None"
  shows "subreplace s sub new = None"
proof (rule ccontr)
  assume "subreplace s sub new \<noteq> None"
  then obtain r where r: "subreplace s sub new = Some r" by auto
  let ?P = "\<lambda>s sub new (r :: string). str_find sub new \<noteq> None \<longrightarrow> str_find sub s = None"
  have "?P s sub new r"
  proof (rule subreplace.raw_induct [where P = ?P, OF _ r], intro impI)
    fix rec :: "string \<Rightarrow> string \<Rightarrow> string \<Rightarrow> string option" and s sub new r
    assume IH: "\<And>s sub new r. rec s sub new = Some r \<Longrightarrow> ?P s sub new r"
      and body: "(case str_find sub s of None \<Rightarrow> Some s
         | Some pos \<Rightarrow> rec (str_replace pos (length sub) new s) sub new) = Some r"
      and new: "str_find sub new \<noteq> None"
    show "str_find sub s = None"
    proof (cases "str_find sub s")
      case (Some pos)
      obtain u v where "new = u @ sub @ v" using new unfolding str_find_None_iff by blast
      then have "str_replace pos (length sub) new s =
          (take pos s @ u) @ sub @ (v @ drop (pos + length sub) s)"
        by (simp add: str_replace_def)
      then have occ: "str_find sub (str_replace pos (length sub) new s) \<noteq> None"
        using str_find_append [of sub "take pos s @ u" "v @ drop (pos + length sub) s"] by simp
      have "rec (str_replace pos (length sub) new s) sub new = Some r" using body Some by simp
      then have "str_find sub (str_replace pos (length sub) new s) = None"
        using IH new by blast
      with occ show ?thesis by blast
    qed
  qed
  with assms show False by simp
qed

section \<open>Cutting at a separator\<close>

text \<open>
  The separator argument is a set of characters (\<open>find_first_of\<close>, \<open>find_last_of\<close>). Without
  a separator the sources print a message and return the whole string.
\<close>

definition cutlaststr :: "string \<Rightarrow> string \<Rightarrow> string" where
  "cutlaststr resource_str cut_str =
     (case find_last_of cut_str resource_str of
        None \<Rightarrow> resource_str | Some pos \<Rightarrow> take pos resource_str)"

definition cutFisrtLeftStr :: "string \<Rightarrow> string \<Rightarrow> string" where
  "cutFisrtLeftStr resource_str cut_str =
     (case find_first_of cut_str resource_str of
        None \<Rightarrow> resource_str | Some pos \<Rightarrow> take pos resource_str)"

definition cutLastRightStr :: "string \<Rightarrow> string \<Rightarrow> string" where
  "cutLastRightStr resource_str cut_str =
     (case find_last_of cut_str resource_str of
        None \<Rightarrow> resource_str
      | Some pos \<Rightarrow> take (length resource_str) (drop pos resource_str))"

definition cutLastLeftStr :: "string \<Rightarrow> string \<Rightarrow> string" where
  "cutLastLeftStr resource_str cut_str =
     (case find_last_of cut_str resource_str of
        None \<Rightarrow> resource_str | Some pos \<Rightarrow> take pos resource_str)"

definition cutFisrtRightstr :: "string \<Rightarrow> string \<Rightarrow> string" where
  "cutFisrtRightstr resource_str cut_str =
     (case find_first_of cut_str resource_str of
        None \<Rightarrow> resource_str
      | Some pos \<Rightarrow> take (length resource_str) (drop pos resource_str))"

lemma cut_first_recombine:
  assumes "find_first_of cs s \<noteq> None"
  shows "cutFisrtLeftStr s cs @ cutFisrtRightstr s cs = s"
  using assms by (auto simp: cutFisrtLeftStr_def cutFisrtRightstr_def)

lemma cut_last_recombine:
  assumes "find_last_of cs s \<noteq> None"
  shows "cutLastLeftStr s cs @ cutLastRightStr s cs = s"
  using assms by (auto simp: cutLastLeftStr_def cutLastRightStr_def)

lemma cutlaststr_app:
  assumes "c \<in> set cs" and "set t \<inter> set cs = {}"
  shows "cutlaststr (s @ c # t) cs = s"
  by (simp add: cutlaststr_def find_last_of_app [OF assms])

lemma cutFisrtRightstr_not_Nil: "s \<noteq> [] \<Longrightarrow> cutFisrtRightstr s cs \<noteq> []"
  using find_first_of_Some [of cs s] by (auto simp: cutFisrtRightstr_def split: option.splits)

section \<open>Trimming and path prefixes\<close>

text \<open>
  \<open>trim\<close> also writes the trimmed string back through its reference argument, so callers see
  the returned string in the variable they passed. A position \<open>npos + 1\<close> is \<open>0\<close>.
\<close>

definition trim :: "string \<Rightarrow> string" where
  "trim s =
     (if s = [] then s
      else (let s1 = erase_front (find_first_not_of '' '' s) s
            in erase_from (case find_last_not_of '' '' s1 of None \<Rightarrow> 0 | Some i \<Rightarrow> Suc i) s1))"

definition formatPath :: "string \<Rightarrow> string" where
  "formatPath path = (if path \<noteq> [] \<and> hd path = CHR ''/'' then ''.'' @ path else path)"

lemma erase_last_not_of:
  "erase_from (case find_last_not_of cs s of None \<Rightarrow> 0 | Some i \<Rightarrow> Suc i) s =
     rev (dropWhile (\<lambda>c. c \<in> set cs) (rev s))"
proof (cases "find_first_not_of cs (rev s)")
  case None
  with find_first_not_of_dropWhile [of cs "rev s"] show ?thesis
    by (simp add: find_last_not_of_def erase_from_def erase_front_def)
next
  case (Some j)
  have "j < length s" using find_first_not_of_less [OF Some] by simp
  then have "Suc (length s - 1 - j) = length s - j" by simp
  moreover have "take (length s - j) s = rev (drop j (rev s))" by (simp add: rev_drop)
  moreover have "drop j (rev s) = dropWhile (\<lambda>c. c \<in> set cs) (rev s)"
    using Some find_first_not_of_dropWhile [of cs "rev s"] by (simp add: erase_front_def)
  ultimately show ?thesis using Some by (simp add: find_last_not_of_def erase_from_def)
qed

lemma trim_eq: "trim s = rev (dropWhile (\<lambda>c. c = CHR '' '') (rev (dropWhile (\<lambda>c. c = CHR '' '') s)))"
  by (cases "s = []")
    (simp_all add: trim_def Let_def erase_last_not_of find_first_not_of_dropWhile)

lemma trim_reference:
  "\<exists>a b. s = replicate a (CHR '' '') @ trim s @ replicate b (CHR '' '') \<and>
     (trim s = [] \<or> hd (trim s) \<noteq> CHR '' '' \<and> last (trim s) \<noteq> CHR '' '')"
proof -
  let ?sp = "\<lambda>c. c = CHR '' ''"
  let ?m = "dropWhile ?sp s"
  have rep: "takeWhile ?sp u = replicate (length (takeWhile ?sp u)) (CHR '' '')" for u
    by (rule replicate_length_same [symmetric]) (auto dest: set_takeWhileD)
  obtain a where a: "s = replicate a (CHR '' '') @ ?m"
    using rep [of s] takeWhile_dropWhile_id [of ?sp s] by metis
  have "rev (takeWhile ?sp (rev ?m)) = replicate (length (takeWhile ?sp (rev ?m))) (CHR '' '')"
    using arg_cong [OF rep [of "rev ?m"], of rev] by (simp only: rev_replicate)
  moreover have "?m = trim s @ rev (takeWhile ?sp (rev ?m))"
    by (simp add: trim_eq flip: rev_append)
  ultimately obtain b where m: "?m = trim s @ replicate b (CHR '' '')" by metis
  have ends: "trim s = [] \<or> hd (trim s) \<noteq> CHR '' '' \<and> last (trim s) \<noteq> CHR '' ''"
  proof (cases "trim s = []")
    case False
    have "last (trim s) \<noteq> CHR '' ''"
      using False hd_dropWhile [of ?sp "rev ?m"] by (auto simp: trim_eq last_rev)
    moreover have ne: "?m \<noteq> []" unfolding m using False by simp
    have "hd ?m \<noteq> CHR '' ''" using hd_dropWhile [OF ne] by simp
    moreover have "hd ?m = hd (trim s)" unfolding m using False by simp
    ultimately show ?thesis by simp
  qed simp
  have "s = replicate a (CHR '' '') @ trim s @ replicate b (CHR '' '')"
    using a [unfolded m] .
  with ends show ?thesis by blast
qed

section \<open>Properties\<close>

text \<open>
  Splitting is inverse to joining: a list of fields none of which contains the delimiter
  and whose last field is not empty is recovered by \<open>split\<close> from its joined string; and
  joining what \<open>split\<close> returns gives the string back up to one delimiter at its end.
\<close>

theorem split_roundtrip:
  assumes "\<forall>x \<in> set xs. d \<notin> set x" and "xs \<noteq> []" and "last xs \<noteq> []"
  shows "split (join d xs) d = xs \<and>
    join d (split s d) = (if s \<noteq> [] \<and> last s = d then butlast s else s)"
  using split_join [OF assms] join_split by simp

theorem split_roundtrip_witness:
  "split (join (CHR '','') [''mec1'', '''', ''rsu2'']) (CHR '','') = [''mec1'', '''', ''rsu2''] \<and>
   join (CHR '','') (split ''a,b,'' (CHR '','')) = ''a,b''"
  using split_roundtrip [of "[''mec1'', '''', ''rsu2'']" "CHR '',''" "''a,b,''"] by simp

text \<open>
  Replacing a substring by a shorter one ends, and the result contains no occurrence of
  the substring (the calls \<open>subreplace(fileName, "./", "")\<close> of the file transfer).
\<close>

theorem subreplace_correct:
  assumes "length new < length sub"
  shows "\<exists>r. subreplace s sub new = Some r \<and> str_find sub r = None"
proof -
  obtain r where "subreplace s sub new = Some r"
    using subreplace_terminates_shrinking [OF assms] by blast
  with subreplace_result_free show ?thesis by blast
qed

theorem subreplace_correct_witness:
  "\<exists>r. subreplace ''./files/./a'' ''./'' '''' = Some r \<and> str_find ''./'' r = None"
  by (rule subreplace_correct) simp

text \<open>
  Replacing runs forever where the replacement brings the substring back: if the string
  contains the substring and the replacement contains it too, the loop of \<open>subreplace\<close>
  does not end.
\<close>

theorem subreplace_does_not_end:
  assumes "str_find sub s \<noteq> None" and "str_find sub new \<noteq> None"
  shows "subreplace s sub new = None"
  using subreplace_diverges assms by blast

theorem subreplace_does_not_end_witness: "subreplace ''a/b'' ''/'' ''//'' = None"
  by (rule subreplace_does_not_end) simp_all

text \<open>
  \<open>trim\<close> removes blanks at both ends and nothing else: the string is the trimmed one
  with blanks around it, and the trimmed one neither starts nor ends with a blank.
\<close>

theorem trim_correct:
  "\<exists>a b. s = replicate a (CHR '' '') @ trim s @ replicate b (CHR '' '') \<and>
     (trim s = [] \<or> hd (trim s) \<noteq> CHR '' '' \<and> last (trim s) \<noteq> CHR '' '')"
  by (rule trim_reference)

end
