(* ===== verification/Config.thy ===== *)
theory Config
  imports Strings
begin

text \<open>
  The configuration map of \<open>utils/config/ConfigMap.cpp\<close> (class \<open>MapWrapper\<close>): node names are
  keys, their partitions values, and the partition lists of a topic are resolved through it.
  A \<open>std::map\<close> is an association list; only lookups observe it. Every member locks the map's
  mutex, so it is one step.
\<close>

record MapWrapper =
  cfg_map :: "(string \<times> string) list"

definition addElement :: "string \<Rightarrow> string \<Rightarrow> MapWrapper \<Rightarrow> MapWrapper" where
  "addElement key value m = m\<lparr>cfg_map := AList.update key value (cfg_map m)\<rparr>"

definition removeElement :: "string \<Rightarrow> MapWrapper \<Rightarrow> MapWrapper" where
  "removeElement key m = m\<lparr>cfg_map := AList.delete key (cfg_map m)\<rparr>"

definition findElement :: "string \<Rightarrow> MapWrapper \<Rightarrow> string" where
  "findElement key m = (case map_of (cfg_map m) key of Some v \<Rightarrow> v | None \<Rightarrow> '''')"

definition modifyElement :: "string \<Rightarrow> string \<Rightarrow> MapWrapper \<Rightarrow> bool \<times> MapWrapper" where
  "modifyElement key value m =
     (case map_of (cfg_map m) key of
        Some _ \<Rightarrow> (True, m\<lparr>cfg_map := AList.update key value (cfg_map m)\<rparr>)
      | None \<Rightarrow> (False, m))"

text \<open>The loop of both resolving functions: the destination grows by every name that is found.\<close>

fun resolve_loop :: "string list \<Rightarrow> MapWrapper \<Rightarrow> string \<Rightarrow> string" where
  "resolve_loop [] configMap des = des"
| "resolve_loop (p # ps) configMap des =
     (let nodePartition = findElement p configMap in
      if nodePartition \<noteq> ''''
      then if des = '''' then resolve_loop ps configMap nodePartition
           else resolve_loop ps configMap (des @ '','' @ nodePartition)
      else resolve_loop ps configMap des)"

definition getNodePartitions :: "string \<Rightarrow> MapWrapper \<Rightarrow> string \<Rightarrow> string" where
  "getNodePartitions src configMap des =
     (if src \<noteq> '''' then resolve_loop (split src (CHR '','')) configMap des else src)"

definition getNodeReplayPartition :: "string \<Rightarrow> string \<Rightarrow> MapWrapper \<Rightarrow> string \<Rightarrow> string" where
  "getNodeReplayPartition src grp configMap dec =
     (if grp = ''mgr'' then src else resolve_loop (split src (CHR '','')) configMap dec)"

definition cfg_get :: "MapWrapper \<Rightarrow> string \<Rightarrow> string option" where
  "cfg_get m k = map_of (cfg_map m) k"

interpretation cfg: keyed_store addElement cfg_get "\<lambda>m k. True"
  by unfold_locales (simp_all add: addElement_def cfg_get_def update_conv')

lemma findElement_addElement:
  "findElement k (addElement k' v m) = (if k = k' then v else findElement k m)"
  using cfg.get_put_same [where s = m and k = k' and v = v]
    cfg.get_put_other [where s = m and k = k' and k' = k and v = v]
  by (simp add: findElement_def cfg_get_def)

lemma findElement_removeElement:
  "findElement k (removeElement k' m) = (if k = k' then '''' else findElement k m)"
  by (simp add: findElement_def removeElement_def delete_conv')

lemma findElement_modifyElement:
  "findElement k (snd (modifyElement k' v m)) = (if k = k' \<and> fst (modifyElement k' v m) then v else findElement k m)"
  by (auto simp: modifyElement_def findElement_def update_conv' split: option.splits)

text \<open>The reference: the partitions of the known names, joined with commas.\<close>

definition known_partitions :: "string list \<Rightarrow> MapWrapper \<Rightarrow> string list" where
  "known_partitions ps m = filter (\<lambda>v. v \<noteq> '''') (map (\<lambda>p. findElement p m) ps)"

lemma join_snoc: "xs \<noteq> [] \<Longrightarrow> join d (xs @ [y]) = join d xs @ d # y"
  by (induction d xs rule: join.induct) auto

lemma join_Nil_iff: "\<forall>x \<in> set xs. x \<noteq> [] \<Longrightarrow> join d xs = [] \<longleftrightarrow> xs = []"
  by (induction d xs rule: join.induct) auto

lemma resolve_loop_join:
  assumes "\<forall>x \<in> set acc. x \<noteq> []"
  shows "resolve_loop ps m (join (CHR '','') acc) = join (CHR '','') (acc @ known_partitions ps m)"
  using assms
proof (induction ps arbitrary: acc)
  case Nil
  then show ?case by (simp add: known_partitions_def)
next
  case (Cons p ps)
  let ?v = "findElement p m"
  show ?case
  proof (cases "?v = ''''")
    case True
    with Cons show ?thesis by (simp add: known_partitions_def)
  next
    case False
    have "(if join (CHR '','') acc = '''' then ?v else join (CHR '','') acc @ '','' @ ?v)
        = join (CHR '','') (acc @ [?v])"
      using Cons.prems by (cases "acc = []") (simp_all add: join_Nil_iff join_snoc)
    with False have "resolve_loop (p # ps) m (join (CHR '','') acc)
        = resolve_loop ps m (join (CHR '','') (acc @ [?v]))"
      by (auto simp: Let_def split: if_splits)
    with Cons.IH [of "acc @ [?v]"] Cons.prems False show ?thesis
      by (simp add: known_partitions_def)
  qed
qed

lemma getNodePartitions_empty_des:
  "getNodePartitions src m '''' = join (CHR '','') (known_partitions (split src (CHR '','')) m)"
  using resolve_loop_join [of "[]" "split src (CHR '','')" m]
  by (simp add: getNodePartitions_def known_partitions_def)

section \<open>Properties\<close>

text \<open>
  The configuration map is a map: a lookup returns what was last stored for the key, the
  empty string after a removal, and \<open>modifyElement\<close> changes a value only where there is one.
\<close>

theorem config_map_laws:
  "findElement k (addElement k' v m) = (if k = k' then v else findElement k m) \<and>
   findElement k (removeElement k' m) = (if k = k' then '''' else findElement k m) \<and>
   findElement k (snd (modifyElement k' v m))
     = (if k = k' \<and> fst (modifyElement k' v m) then v else findElement k m) \<and>
   (fst (modifyElement k' v m) \<longleftrightarrow> cfg_get m k' \<noteq> None)"
  using findElement_addElement findElement_removeElement findElement_modifyElement
  by (simp add: modifyElement_def cfg_get_def split: option.splits)

text \<open>
  Resolving a comma separated list of node names gives exactly the partitions of the names
  the map knows, in the order of the list and separated by commas; for a manager the reply
  partition is the list itself.
\<close>

theorem partitions_resolved:
  "getNodePartitions src m '''' = join (CHR '','') (known_partitions (split src (CHR '','')) m) \<and>
   getNodeReplayPartition src grp m '''' =
     (if grp = ''mgr'' then src else join (CHR '','') (known_partitions (split src (CHR '','')) m))"
  using resolve_loop_join [of "[]" "split src (CHR '','')" m]
  by (simp add: getNodePartitions_empty_des getNodeReplayPartition_def)

end
