(* ===== verification/TopicNames.thy ===== *)
theory TopicNames
  imports Strings
begin

text \<open>
  The key expressions of \<open>dds/zenoh_topic_manager.cpp\<close>: a topic is a domain, six path segments
  and a direction, written as eight segments separated by slashes. The lemmas show that the
  names of domains and directions are read back, and that different topics with slash-free
  segments have different key expressions.
\<close>

datatype Domain = DEFAULT | MEMORY | TIMES | S3 | DDS | FILE

datatype Direction = UP | DOWN | BOTH

record Topic =
  t_domain :: Domain
  t_project :: string
  t_business :: string
  t_region :: string
  t_nodeId :: string
  t_module :: string
  t_function :: string
  t_direction :: Direction

record ZenohTopicManager =
  domainMap :: "(string \<times> string) list"
  directionMap :: "(string \<times> string) list"
  topics :: "Topic list"

definition new_topic_manager :: ZenohTopicManager where
  "new_topic_manager = \<lparr>
     domainMap = map (\<lambda>d. (d, d)) [''default'', ''memory'', ''times'', ''s3'', ''dds'', ''file''],
     directionMap = [(''up'', ''up''), (''down'', ''down''), (''both'', ''up/down'')],
     topics = []\<rparr>"

definition createTopic ::
    "Domain \<Rightarrow> string \<Rightarrow> string \<Rightarrow> string \<Rightarrow> string \<Rightarrow> string \<Rightarrow> string \<Rightarrow> Direction \<Rightarrow> Topic" where
  "createTopic domain project business region nodeId module function direction =
     \<lparr>t_domain = domain, t_project = project, t_business = business, t_region = region,
      t_nodeId = nodeId, t_module = module, t_function = function, t_direction = direction\<rparr>"

definition createFileTopic ::
    "string \<Rightarrow> string \<Rightarrow> string \<Rightarrow> string \<Rightarrow> string \<Rightarrow> string \<Rightarrow> Direction \<Rightarrow> Topic" where
  "createFileTopic project business region nodeId module function direction =
     \<lparr>t_domain = FILE, t_project = project, t_business = business, t_region = region,
      t_nodeId = nodeId, t_module = module, t_function = function, t_direction = direction\<rparr>"

definition addTopic :: "Topic \<Rightarrow> ZenohTopicManager \<Rightarrow> ZenohTopicManager" where
  "addTopic t tm = tm\<lparr>topics := topics tm @ [t]\<rparr>"

fun getDomainString :: "Domain \<Rightarrow> string" where
  "getDomainString DEFAULT = ''default''"
| "getDomainString MEMORY = ''memory''"
| "getDomainString TIMES = ''times''"
| "getDomainString S3 = ''s3''"
| "getDomainString DDS = ''dds''"
| "getDomainString FILE = ''file''"

fun getDirectionString :: "Direction \<Rightarrow> string" where
  "getDirectionString UP = ''up''"
| "getDirectionString DOWN = ''down''"
| "getDirectionString BOTH = ''up/down''"

definition buildKeyExpr :: "Topic \<Rightarrow> string" where
  "buildKeyExpr t =
     getDomainString (t_domain t) @ ''/'' @ t_project t @ ''/'' @ t_business t @ ''/'' @
     t_region t @ ''/'' @ t_nodeId t @ ''/'' @ t_module t @ ''/'' @ t_function t @ ''/'' @
     getDirectionString (t_direction t)"

definition getWildcardExpr :: "Topic \<Rightarrow> string" where
  "getWildcardExpr t = buildKeyExpr t @ ''/**''"

definition getDomainEnum :: "string \<Rightarrow> Domain" where
  "getDomainEnum str =
     (if str = ''memory'' then MEMORY else if str = ''times'' then TIMES
      else if str = ''s3'' then S3 else if str = ''dds'' then DDS
      else if str = ''file'' then FILE else DEFAULT)"

definition getDirectionEnum :: "string \<Rightarrow> Direction" where
  "getDirectionEnum str = (if str = ''up'' then UP else if str = ''down'' then DOWN else BOTH)"

section \<open>Lemmas\<close>

lemma domain_string_roundtrip: "getDomainEnum (getDomainString d) = d"
  by (cases d) (simp_all add: getDomainEnum_def)

lemma direction_string_roundtrip: "getDirectionEnum (getDirectionString d) = d"
  by (cases d) (simp_all add: getDirectionEnum_def)

lemma domain_string_inject: "getDomainString d = getDomainString d' \<longleftrightarrow> d = d'"
  by (metis domain_string_roundtrip)

lemma direction_string_inject: "getDirectionString d = getDirectionString d' \<longleftrightarrow> d = d'"
  by (metis direction_string_roundtrip)

lemma domain_string_slash: "CHR ''/'' \<notin> set (getDomainString d)"
  by (cases d) simp_all

text \<open>Two strings cut at their first slash agree in both parts.\<close>

lemma slash_cut:
  assumes "a @ ''/'' @ b = a' @ ''/'' @ b'" and "CHR ''/'' \<notin> set a" and "CHR ''/'' \<notin> set a'"
  shows "a = a' \<and> b = b'"
proof -
  from assms have "takeWhile (\<lambda>c. c \<noteq> CHR ''/'') (a @ CHR ''/'' # b)
      = takeWhile (\<lambda>c. c \<noteq> CHR ''/'') (a' @ CHR ''/'' # b')" by simp
  with assms(2,3) have "a = a'" by (simp add: takeWhile_neq_append)
  with assms(1) show ?thesis by simp
qed

lemma segments_cut:
  assumes "length xs = length ys"
    and "concat (map (\<lambda>s. s @ ''/'') xs) @ b = concat (map (\<lambda>s. s @ ''/'') ys) @ b'"
    and "\<forall>s \<in> set xs \<union> set ys. CHR ''/'' \<notin> set s"
  shows "xs = ys \<and> b = b'"
  using assms
proof (induction xs ys rule: list_induct2)
  case (Cons x xs y ys)
  have "x = y \<and> concat (map (\<lambda>s. s @ ''/'') xs) @ b = concat (map (\<lambda>s. s @ ''/'') ys) @ b'"
    by (rule slash_cut) (use Cons.prems in simp_all)
  with Cons show ?case by simp
qed simp

definition segments :: "Topic \<Rightarrow> string list" where
  "segments t = [t_project t, t_business t, t_region t, t_nodeId t, t_module t, t_function t]"

definition slash_free :: "Topic \<Rightarrow> bool" where
  "slash_free t = (\<forall>s \<in> set (segments t). CHR ''/'' \<notin> set s)"

lemma buildKeyExpr_segments:
  "buildKeyExpr t = concat (map (\<lambda>s. s @ ''/'') (getDomainString (t_domain t) # segments t))
     @ getDirectionString (t_direction t)"
  by (simp add: buildKeyExpr_def segments_def)

section \<open>Properties\<close>

text \<open>
  Key expressions identify topics: two topics whose segments hold no slash have the same
  key expression only if they are equal in all eight fields, and the names of domains and
  directions are read back by the enum functions.
\<close>

theorem key_expr_identifies_topic:
  fixes t t' :: Topic
  assumes "slash_free t" and "slash_free t'" and "buildKeyExpr t = buildKeyExpr t'"
  shows "t = t' \<and> getDomainEnum (getDomainString d) = d \<and> getDirectionEnum (getDirectionString dir) = dir"
proof -
  have "getDomainString (t_domain t) # segments t = getDomainString (t_domain t') # segments t' \<and>
      getDirectionString (t_direction t) = getDirectionString (t_direction t')"
    using assms domain_string_slash
    by (intro segments_cut) (auto simp: buildKeyExpr_segments segments_def slash_free_def)
  then have "t = t'"
    by (simp add: segments_def domain_string_inject direction_string_inject)
  then show ?thesis by (simp add: domain_string_roundtrip direction_string_roundtrip)
qed

theorem key_expr_identifies_topic_witness:
  "createFileTopic ''p'' ''b'' ''r'' ''n'' ''m'' ''f'' UP = createTopic FILE ''p'' ''b'' ''r'' ''n'' ''m'' ''f'' UP \<and>
   getDomainEnum (getDomainString DDS) = DDS \<and> getDirectionEnum (getDirectionString BOTH) = BOTH"
  by (rule key_expr_identifies_topic)
    (simp_all add: slash_free_def segments_def createFileTopic_def createTopic_def)

end
