(* ===== verification/FileStore.thy ===== *)
theory FileStore
  imports Strings
begin

text \<open>
  The file helpers of \<open>utils/FileSplit.h\<close> (namespace \<open>utility::file\<close>) over an explicit file
  system: cutting a file into numbered blocks (\<open>split\<close>), putting the blocks together again
  (\<open>merge\<close>), writing, moving and removing.

  A path is the list of its components (empty components and \<open>.\<close> dropped, a leading slash
  kept as the component \<open>/\<close>); symbolic links and \<open>..\<close> are not interpreted. A stream reads
  the bytes the file had when it was opened; \<open>split\<close>, which may open its own source for writing, stops in the model
  when it does. The environment decides which paths may be
  written (\<open>writable\<close>) and which length \<open>tellg\<close> reports for a directory (\<open>dir_len\<close>).
  A loop that does not end is \<open>None\<close>.
\<close>

section \<open>The file system\<close>

type_synonym bytes = string
type_synonym path = "string list"

datatype fnode = FileN bytes | DirN

record fsys =
  ents :: "(path \<times> fnode) list"
  writable :: "path \<Rightarrow> bool"
  dir_len :: nat

definition components :: "string \<Rightarrow> path" where
  "components s = filter (\<lambda>c. c \<noteq> [] \<and> c \<noteq> ''.'') (Strings.split s (CHR ''/''))"

definition path_of :: "string \<Rightarrow> path" where
  "path_of s = (if s \<noteq> [] \<and> hd s = CHR ''/'' then [''/''] else []) @ components s"

definition is_root :: "path \<Rightarrow> bool" where
  "is_root p \<longleftrightarrow> p = [] \<or> p = [''/'']"

definition node_at :: "fsys \<Rightarrow> path \<Rightarrow> fnode option" where
  "node_at fs p = (if is_root p then Some DirN else map_of (ents fs) p)"

definition set_node :: "path \<Rightarrow> fnode \<Rightarrow> fsys \<Rightarrow> fsys" where
  "set_node p n fs = fs\<lparr>ents := AList.update p n (ents fs)\<rparr>"

definition del_node :: "path \<Rightarrow> fsys \<Rightarrow> fsys" where
  "del_node p fs = fs\<lparr>ents := AList.delete p (ents fs)\<rparr>"

definition file_content :: "fsys \<Rightarrow> path \<Rightarrow> bytes option" where
  "file_content fs p = (case node_at fs p of Some (FileN c) \<Rightarrow> Some c | _ \<Rightarrow> None)"

text \<open>The entries of a directory, in the order the directory iterator yields them.\<close>

definition children :: "fsys \<Rightarrow> path \<Rightarrow> (path \<times> fnode) list" where
  "children fs p = filter (\<lambda>(q, _). \<not> is_root q \<and> butlast q = p) (ents fs)"

text \<open>Opening a stream: for reading what is there, for writing where the parent is a directory.\<close>

definition open_in :: "fsys \<Rightarrow> string \<Rightarrow> fnode option" where
  "open_in fs name =
     (if name = [] then None
      else case node_at fs (path_of name) of
        None \<Rightarrow> None
      | Some DirN \<Rightarrow> Some DirN
      | Some (FileN c) \<Rightarrow> if last name = CHR ''/'' then None else Some (FileN c))"

definition can_open_out :: "fsys \<Rightarrow> string \<Rightarrow> bool" where
  "can_open_out fs name \<longleftrightarrow>
     name \<noteq> [] \<and> last name \<noteq> CHR ''/'' \<and> node_at fs (path_of name) \<noteq> Some DirN \<and>
     node_at fs (butlast (path_of name)) = Some DirN \<and> writable fs (path_of name)"

definition put_file :: "string \<Rightarrow> bytes \<Rightarrow> fsys \<Rightarrow> fsys" where
  "put_file name c fs = set_node (path_of name) (FileN c) fs"

section \<open>The operations of FileSplit.h\<close>

definition GetFileLength :: "string \<Rightarrow> fsys \<Rightarrow> int" where
  "GetFileLength filepath fs =
     (case open_in fs filepath of
        None \<Rightarrow> -1
      | Some DirN \<Rightarrow> int (dir_len fs)
      | Some (FileN c) \<Rightarrow> int (length c))"

text \<open>
  \<open>fs::create_directories\<close>: every missing prefix becomes a directory; a prefix that is a
  file, or that may not be created, throws.
\<close>

definition prefixes_of :: "path \<Rightarrow> path list" where
  "prefixes_of p = map (\<lambda>n. take n p) [1..<Suc (length p)]"

fun create_dirs :: "path list \<Rightarrow> fsys \<Rightarrow> bool \<times> fsys" where
  "create_dirs [] fs = (True, fs)"
| "create_dirs (p # ps) fs =
     (case node_at fs p of
        Some DirN \<Rightarrow> create_dirs ps fs
      | Some (FileN _) \<Rightarrow> (False, fs)
      | None \<Rightarrow> if writable fs p then create_dirs ps (set_node p DirN fs) else (False, fs))"

text \<open>\<open>False\<close> is the \<open>filesystem_error\<close> thrown by \<open>create_directories\<close>.\<close>

definition mkdir :: "string \<Rightarrow> fsys \<Rightarrow> bool \<times> fsys" where
  "mkdir p fs = (if p = [] then (False, fs) else create_dirs (prefixes_of (path_of p)) fs)"

definition IsDir :: "string \<Rightarrow> fsys \<Rightarrow> bool" where
  "IsDir p fs \<longleftrightarrow> p \<noteq> [] \<and> node_at fs (path_of p) = Some DirN"

definition stream_bytes :: "fnode \<Rightarrow> bytes" where
  "stream_bytes n = (case n of FileN c \<Rightarrow> c | DirN \<Rightarrow> [])"

text \<open>
  The inner loop of \<open>split\<close>: 1024 bytes at a time into the current block while the block is
  not full and the file not read; \<open>rest\<close> is what the input stream has left, \<open>out\<close> what the
  block file holds.
\<close>

partial_function (option) split_inner ::
  "int \<Rightarrow> int \<Rightarrow> bytes \<Rightarrow> bytes \<Rightarrow> int \<Rightarrow> int \<Rightarrow> (bytes \<times> bytes \<times> int) option" where
  "split_inner blockSize ori_size rest out thisTimesRead read_count =
     (if thisTimesRead < blockSize \<and> read_count < ori_size
      then let cur = take 1024 rest in
        split_inner blockSize ori_size (drop 1024 rest) (out @ cur)
          (thisTimesRead + int (length cur)) (read_count + int (length cur))
      else Some (rest, out, read_count))"

text \<open>
  The outer loop: one block file per turn, left early when the block file cannot be opened. The number of the
  block is an \<open>int\<close>, which must not pass its limit. A block file that is the source itself is truncated when it is
  opened; what the stream still reads then depends on its buffer, and the model stops there.
\<close>

partial_function (option) split_outer ::
  "path \<Rightarrow> int \<Rightarrow> int \<Rightarrow> string \<Rightarrow> nat \<Rightarrow> bytes \<Rightarrow> int \<Rightarrow> fsys \<Rightarrow> (nat \<times> fsys) outcome option" where
  "split_outer src blockSize ori_size tmppath i rest read_count fs =
     (if read_count < ori_size
      then let divfile = tmppath @ to_string i in
        if \<not> can_open_out fs divfile then Some (Ret (i, fs))
        else if path_of divfile = src then Some (UB ''source truncated'')
        else Option.bind (split_inner blockSize ori_size rest [] 0 read_count)
          (\<lambda>(rest', out, read_count').
             if Suc i < 2 ^ 31
             then split_outer src blockSize ori_size tmppath (Suc i) rest' read_count' (put_file divfile out fs)
             else Some (UB ''signed overflow''))
      else Some (Ret (i, fs)))"

declare split_inner.simps [code] split_outer.simps [code]

text \<open>
  \<open>split(filepath, blockSize in KB, tmppath)\<close>: the number of blocks it logs and the files. The block size in
  bytes is a \<open>long long\<close>.
\<close>

definition file_split :: "string \<Rightarrow> int \<Rightarrow> string \<Rightarrow> fsys \<Rightarrow> (nat \<times> fsys) outcome option" where
  "file_split filepath blockSizeKB tmppath fs =
     (let ori_size = GetFileLength filepath fs; blockSize = blockSizeKB * 1024
      in if \<not> in_int64 blockSize then Some (UB ''signed overflow'')
         else if ori_size = -1 then Some (Ret (0, fs))
         else case open_in fs filepath of
           None \<Rightarrow> Some (Ret (0, fs))
         | Some n \<Rightarrow> split_outer (path_of filepath) blockSize ori_size tmppath 0 (stream_bytes n) 0 fs)"

text \<open>\<open>merge\<close>: the copy loop of one block, then the loop over the block numbers.\<close>

partial_function (option) merge_copy :: "int \<Rightarrow> bytes \<Rightarrow> bytes \<Rightarrow> int \<Rightarrow> bytes option" where
  "merge_copy curlen rest out thisTimesRead =
     (if thisTimesRead < curlen
      then merge_copy curlen (drop 1024 rest) (out @ take 1024 rest)
             (thisTimesRead + int (length (take 1024 rest)))
      else Some out)"

partial_function (option) merge_loop ::
  "string \<Rightarrow> int \<Rightarrow> nat \<Rightarrow> bytes \<Rightarrow> fsys \<Rightarrow> (int \<times> bytes) option" where
  "merge_loop dir blockNum i out fs =
     (if int i = blockNum then Some (if out = [] then -1 else 0, out)
      else case open_in fs (dir @ to_string i) of
        None \<Rightarrow> Some (int i, out)
      | Some n \<Rightarrow>
          Option.bind (merge_copy (GetFileLength (dir @ to_string i) fs) (stream_bytes n) out 0)
            (\<lambda>out'. merge_loop dir blockNum (Suc i) out' fs))"

declare merge_copy.simps [code] merge_loop.simps [code]

definition merge :: "string \<Rightarrow> int \<Rightarrow> fsys \<Rightarrow> (int \<times> fsys) option" where
  "merge dir blockNum fs =
     (if \<not> IsDir dir fs then Some (-1, fs)
      else let outFile = dir @ ''/merge.out'' in
        if \<not> can_open_out fs outFile then Some (-1, fs)
        else let fs1 = put_file outFile [] fs in
          map_option (\<lambda>(r, out). (r, put_file outFile out fs1))
            (merge_loop (dir @ ''/'') blockNum 0 [] fs1))"

definition write_file :: "string \<Rightarrow> bytes \<Rightarrow> fsys \<Rightarrow> fsys" where
  "write_file filename buff fs = (if can_open_out fs filename then put_file filename buff fs else fs)"

text \<open>C's \<open>remove\<close>: a file goes, a directory goes when it is empty.\<close>

definition c_remove :: "string \<Rightarrow> fsys \<Rightarrow> fsys" where
  "c_remove name fs =
     (case node_at fs (path_of name) of
        Some (FileN _) \<Rightarrow> del_node (path_of name) fs
      | Some DirN \<Rightarrow> if is_root (path_of name) \<or> children fs (path_of name) \<noteq> [] then fs
                    else del_node (path_of name) fs
      | None \<Rightarrow> fs)"

text \<open>
  \<open>move\<close> opens both streams (the target is truncated at that moment), gives up when the source
  is not open, copies when the target is open, and removes the source in any case.
\<close>

definition move :: "string \<Rightarrow> string \<Rightarrow> fsys \<Rightarrow> bool \<times> fsys" where
  "move src dst fs =
     (let ifs = open_in fs src; opened = can_open_out fs dst;
          fs1 = (if opened then put_file dst [] fs else fs)
      in case ifs of
           None \<Rightarrow> (False, fs1)
         | Some n \<Rightarrow>
             (let data = (if path_of src = path_of dst \<and> opened then [] else stream_bytes n);
                  fs2 = (if opened then put_file dst data fs1 else fs1)
              in (True, c_remove src fs2)))"

fun is_under :: "path \<Rightarrow> path \<Rightarrow> bool" where
  "is_under p q \<longleftrightarrow> take (length p) q = p"

definition remove_all :: "path \<Rightarrow> fsys \<Rightarrow> fsys" where
  "remove_all p fs = fs\<lparr>ents := filter (\<lambda>(q, _). \<not> is_under p q) (ents fs)\<rparr>"

definition is_regular :: "fnode \<Rightarrow> bool" where
  "is_regular n \<longleftrightarrow> (case n of FileN _ \<Rightarrow> True | DirN \<Rightarrow> False)"

definition remove_all_files :: "string \<Rightarrow> fsys \<Rightarrow> fsys" where
  "remove_all_files dir fs =
     (if IsDir dir fs
      then remove_all (path_of dir)
             (fold (\<lambda>(q, n) s. if is_regular n then del_node q s else s) (children fs (path_of dir)) fs)
      else fs)"

definition del :: "string \<Rightarrow> fsys \<Rightarrow> bool \<times> fsys" where
  "del dir fs =
     (if \<not> IsDir dir fs
      then (True, if dir = [] then fs else del_node (path_of dir) fs)
      else (False, fs))"

text \<open>
  A listing entry. \<open>ls_all_files\<close> leaves \<open>fi_fileSize\<close> uninitialised, which is \<open>None\<close> here.
\<close>

record FileInfo =
  fi_filePathName :: string
  fi_isDir :: bool
  fi_fileSize :: "int option"

definition entry_name :: "string \<Rightarrow> path \<Rightarrow> string" where
  "entry_name dir q =
     (if dir \<noteq> [] \<and> last dir = CHR ''/'' then dir @ last q else dir @ ''/'' @ last q)"

definition ls_all_files :: "string \<Rightarrow> fsys \<Rightarrow> FileInfo list" where
  "ls_all_files dir fs =
     (if IsDir dir fs
      then map (\<lambda>(q, n). \<lparr>fi_filePathName = entry_name dir q, fi_isDir = \<not> is_regular n, fi_fileSize = None\<rparr>)
             (children fs (path_of dir))
      else [])"

definition getFilePathNames :: "string \<Rightarrow> fsys \<Rightarrow> FileInfo list outcome" where
  "getFilePathNames p fs =
     (if IsDir p fs
      then Ret (map (\<lambda>(q, n).
             let name = entry_name p q; d = IsDir name fs
             in \<lparr>fi_filePathName = name, fi_isDir = d,
                 fi_fileSize = Some (if d then -1 else GetFileLength name fs)\<rparr>)
             (children fs (path_of p)))
      else Throw ''directory_iterator'')"

section \<open>Facts on the file system\<close>

lemma node_at_set_same [simp]: "\<not> is_root p \<Longrightarrow> node_at (set_node p n fs) p = Some n"
  by (simp add: node_at_def set_node_def update_conv)

lemma node_at_set_other [simp]: "p \<noteq> q \<Longrightarrow> node_at (set_node p n fs) q = node_at fs q"
  by (simp add: node_at_def set_node_def update_conv)

lemma node_at_del: "node_at (del_node p fs) q = (if q = p \<and> \<not> is_root q then None else node_at fs q)"
  by (simp add: node_at_def del_node_def delete_conv)

lemma writable_frame [simp, frame]:
  "writable (set_node p n fs) = writable fs" "writable (del_node p fs) = writable fs"
  by (simp_all add: set_node_def del_node_def)

lemma dir_len_frame [simp, frame]: "dir_len (set_node p n fs) = dir_len fs"
  by (simp add: set_node_def)

lemma file_content_set_same: "\<not> is_root p \<Longrightarrow> file_content (set_node p (FileN c) fs) p = Some c"
  by (simp add: file_content_def)

lemma file_content_set_other: "p \<noteq> q \<Longrightarrow> file_content (set_node p n fs) q = file_content fs q"
  by (simp add: file_content_def)

text \<open>The files of the file system are a keyed store.\<close>

interpretation files: keyed_store "\<lambda>p c. set_node p (FileN c)" file_content "\<lambda>_ p. \<not> is_root p"
  by unfold_locales (simp_all add: file_content_set_same file_content_set_other)

lemma split_append_sep:
  "Strings.split (u @ d # v) d = Strings.split (u @ [d]) d @ Strings.split v d"
proof (induction "length u" arbitrary: u rule: less_induct)
  case less
  show ?case
  proof (cases "d \<in> set u")
    case False
    then show ?thesis by (simp add: split_append_delim)
  next
    case True
    then obtain a b where u: "u = a @ d # b" and a: "d \<notin> set a"
      by (meson split_list_first)
    then show ?thesis using less [of b] by (simp add: split_append_delim)
  qed
qed

lemma components_sep: "components (u @ CHR ''/'' # v) = components u @ components v"
proof -
  have "components (u @ [CHR ''/'']) = components u"
  proof (induction "length u" arbitrary: u rule: less_induct)
    case less
    show ?case
    proof (cases "CHR ''/'' \<in> set u")
      case False
      then show ?thesis using split_append_delim [of "CHR ''/''" u "[]"]
        by (cases "u = []") (simp_all add: components_def split_noDelim)
    next
      case True
      then obtain a b where u: "u = a @ CHR ''/'' # b" and a: "CHR ''/'' \<notin> set a"
        by (meson split_list_first)
      then show ?thesis using less [of b]
        by (simp add: components_def split_append_delim)
    qed
  qed
  then show ?thesis by (simp add: components_def split_append_sep [of u "CHR ''/''" v])
qed

lemma components_plain: "CHR ''/'' \<notin> set x \<Longrightarrow> x \<noteq> [] \<Longrightarrow> x \<noteq> ''.'' \<Longrightarrow> components x = [x]"
  by (simp add: components_def split_noDelim)

lemma path_of_child:
  assumes "d \<noteq> []" and "CHR ''/'' \<notin> set x" and "x \<noteq> []" and "x \<noteq> ''.''"
  shows "path_of (d @ CHR ''/'' # x) = path_of d @ [x]"
  using assms by (simp add: path_of_def components_sep components_plain)

lemma path_of_dir: "d \<noteq> [] \<Longrightarrow> path_of (d @ ''/'') = path_of d"
  using components_sep [of d "[]"] by (simp add: path_of_def) (simp add: components_def)

text \<open>Block files are numbered: \<open>dir/0\<close>, \<open>dir/1\<close>, \dots\<close>

lemma digits_no_slash: "c \<in> set digit_chars \<Longrightarrow> c \<noteq> CHR ''/'' \<and> c \<noteq> CHR ''.''"
  by (auto simp: digit_chars_def)

lemma to_string_no_slash: "CHR ''/'' \<notin> set (to_string n)" "to_string n \<noteq> ''.''"
  using to_string_chars [of n] digits_no_slash by fastforce+

lemma last_to_string: "last (to_string n) \<noteq> CHR ''/''"
  using to_string_no_slash(1) [of n] last_in_set [OF to_string_not_Nil, of n] by metis

definition block_path :: "string \<Rightarrow> nat \<Rightarrow> path" where
  "block_path dir i = path_of dir @ [to_string i]"

lemma path_of_block: "d \<noteq> [] \<Longrightarrow> path_of ((d @ ''/'') @ to_string i) = block_path d i"
  using path_of_child [of d "to_string i"] to_string_no_slash by (simp add: block_path_def)

lemma block_path_inject [simp]: "block_path d i = block_path d j \<longleftrightarrow> i = j"
  by (simp add: block_path_def)

lemma path_of_first: "x \<in> set (path_of s) \<Longrightarrow> x \<noteq> []"
  by (auto simp: path_of_def components_def split: if_splits)

lemma block_path_not_root [simp]: "\<not> is_root (block_path d i)"
  using to_string_no_slash [of i] by (auto simp: is_root_def block_path_def append_eq_Cons_conv)

definition merge_path :: "string \<Rightarrow> path" where
  "merge_path dir = path_of dir @ [''merge.out'']"

lemma path_of_merge: "d \<noteq> [] \<Longrightarrow> path_of (d @ ''/merge.out'') = merge_path d"
  using path_of_child [of d "''merge.out''"] by (simp add: merge_path_def)

lemma merge_path_neq_block [simp]: "merge_path d \<noteq> block_path d i"
proof
  assume "merge_path d = block_path d i"
  then have "to_string i = ''merge.out''" by (simp add: merge_path_def block_path_def)
  then have "set ''merge.out'' \<subseteq> set digit_chars" using to_string_chars [of i] by simp
  then show False by (simp add: digit_chars_def)
qed

lemma merge_path_not_root [simp]: "\<not> is_root (merge_path d)"
  by (auto simp: is_root_def merge_path_def append_eq_Cons_conv)

text \<open>A directory ready to take block files: it exists and its block names may be written.\<close>

definition blocks_ready :: "fsys \<Rightarrow> string \<Rightarrow> bool" where
  "blocks_ready fs d \<longleftrightarrow>
     d \<noteq> [] \<and> node_at fs (path_of d) = Some DirN \<and>
     (\<forall>i. writable fs (block_path d i) \<and> node_at fs (block_path d i) \<noteq> Some DirN)"

lemma blocks_ready_open:
  assumes "blocks_ready fs d"
  shows "can_open_out fs ((d @ ''/'') @ to_string i)"
proof -
  have "butlast (block_path d i) = path_of d" by (simp add: block_path_def)
  with assms show ?thesis
    unfolding can_open_out_def blocks_ready_def path_of_block [of d i, OF blocks_ready_def [THEN iffD1, OF assms, THEN conjunct1]]
    using last_to_string [of i] by (simp del: append_assoc)
qed

lemma blocks_ready_put:
  assumes "blocks_ready fs d" and "node_at fs p \<noteq> Some DirN" and "\<not> is_root p"
  shows "blocks_ready (set_node p (FileN c) fs) d"
proof -
  have "node_at (set_node p (FileN c) fs) q \<noteq> Some DirN" if "node_at fs q \<noteq> Some DirN" for q
    using that assms(3) by (cases "q = p") simp_all
  moreover have "path_of d \<noteq> p" using assms(1,2) by (auto simp: blocks_ready_def)
  ultimately show ?thesis using assms(1) by (simp add: blocks_ready_def)
qed

section \<open>Well-formed file systems\<close>

text \<open>Whatever exists has a parent that is a directory; every operation keeps this.\<close>

definition fs_wf :: "fsys \<Rightarrow> bool" where
  "fs_wf fs \<longleftrightarrow> (\<forall>p n. map_of (ents fs) p = Some n \<longrightarrow> \<not> is_root p \<longrightarrow> node_at fs (butlast p) = Some DirN)"

lemma butlast_neq: "\<not> is_root p \<Longrightarrow> butlast p \<noteq> p"
  by (auto simp: is_root_def) (metis append_butlast_last_id not_Cons_self2 same_append_eq append_Nil2)

lemma fs_wf_node: "fs_wf fs \<Longrightarrow> node_at fs p = Some n \<Longrightarrow> \<not> is_root p \<Longrightarrow> node_at fs (butlast p) = Some DirN"
  by (auto simp: fs_wf_def node_at_def)

lemma fs_wf_set_node:
  assumes "fs_wf fs" and "node_at fs (butlast p) = Some DirN" and "n = DirN \<or> node_at fs p \<noteq> Some DirN"
  shows "fs_wf (set_node p n fs)"
  unfolding fs_wf_def
proof (intro allI impI)
  fix q m
  assume q: "map_of (ents (set_node p n fs)) q = Some m" and nr: "\<not> is_root q"
  have "node_at fs (butlast q) = Some DirN"
    using q nr assms(1,2) by (cases "q = p") (auto simp: fs_wf_def set_node_def update_conv)
  then show "node_at (set_node p n fs) (butlast q) = Some DirN"
    using assms(3) by (cases "butlast q = p") (auto simp: node_at_def set_node_def update_conv)
qed

lemma fs_wf_put_file: "fs_wf fs \<Longrightarrow> can_open_out fs name \<Longrightarrow> fs_wf (put_file name c fs)"
  unfolding put_file_def by (rule fs_wf_set_node) (auto simp: can_open_out_def)

lemma prefixes_of_snoc: "prefixes_of (p @ [x]) = prefixes_of p @ [p @ [x]]"
  by (auto simp: prefixes_of_def)

lemma prefixes_of_Nil [simp]: "prefixes_of [] = []"
  by (simp add: prefixes_of_def)

lemma mem_prefixes_of: "q \<in> set (prefixes_of p) \<longleftrightarrow> q \<noteq> [] \<and> (\<exists>r. p = q @ r)"
proof
  assume "q \<in> set (prefixes_of p)"
  then obtain n where "1 \<le> n" "n \<le> length p" and q: "q = take n p"
    by (auto simp: prefixes_of_def)
  then have "q \<noteq> []" and "p = q @ drop n p" by auto
  then show "q \<noteq> [] \<and> (\<exists>r. p = q @ r)" by blast
next
  assume "q \<noteq> [] \<and> (\<exists>r. p = q @ r)"
  then obtain r where p: "p = q @ r" and q: "q \<noteq> []" by blast
  then have "q = take (length q) p" and "length q \<in> set [1..<Suc (length p)]"
    by (auto simp: Suc_le_eq simp del: upt_Suc)
  then show "q \<in> set (prefixes_of p)" unfolding prefixes_of_def set_map by blast
qed

lemma create_dirs_append:
  "create_dirs (ps @ qs) fs =
     (let (b, fs1) = create_dirs ps fs in if b then create_dirs qs fs1 else (False, fs1))"
  by (induction ps arbitrary: fs) (auto split: option.splits fnode.splits)

text \<open>Creating the prefixes of a path keeps the tree well-formed and changes nothing else.\<close>

lemma create_dirs_wf:
  assumes "fs_wf fs"
  shows "fs_wf (snd (create_dirs (prefixes_of p) fs)) \<and>
    (fst (create_dirs (prefixes_of p) fs) \<longrightarrow> node_at (snd (create_dirs (prefixes_of p) fs)) p = Some DirN) \<and>
    (\<forall>q. q \<notin> set (prefixes_of p) \<longrightarrow> node_at (snd (create_dirs (prefixes_of p) fs)) q = node_at fs q) \<and>
    writable (snd (create_dirs (prefixes_of p) fs)) = writable fs"
proof (induction p rule: rev_induct)
  case Nil
  then show ?case using assms by (simp add: node_at_def is_root_def)
next
  case (snoc x p)
  obtain b fs1 where c: "create_dirs (prefixes_of p) fs = (b, fs1)" by fastforce
  show ?case
  proof (cases b)
    case False
    with snoc c show ?thesis by (simp add: prefixes_of_snoc create_dirs_append)
  next
    case True
    with snoc c have 1: "fs_wf fs1" "node_at fs1 p = Some DirN" "writable fs1 = writable fs"
      "\<And>q. q \<notin> set (prefixes_of p) \<Longrightarrow> node_at fs1 q = node_at fs q" by auto
    show ?thesis
    proof (cases "node_at fs1 (p @ [x])")
      case None
      then have "\<not> is_root (p @ [x])" by (auto simp: node_at_def)
      with None 1 c True show ?thesis
        by (auto simp: prefixes_of_snoc create_dirs_append intro!: fs_wf_set_node)
    next
      case (Some n)
      with 1 c True show ?thesis
        by (cases n) (auto simp: prefixes_of_snoc create_dirs_append)
    qed
  qed
qed

lemma create_dirs_ok:
  assumes "\<forall>q \<in> set (prefixes_of p). writable fs q \<and> (\<forall>c. node_at fs q \<noteq> Some (FileN c))" and "fs_wf fs"
  shows "fst (create_dirs (prefixes_of p) fs)"
  using assms(1)
proof (induction p rule: rev_induct)
  case Nil
  then show ?case by simp
next
  case (snoc x p)
  obtain b fs1 where c: "create_dirs (prefixes_of p) fs = (b, fs1)" by fastforce
  have b: b using snoc c by (auto simp: prefixes_of_snoc)
  have "node_at fs1 (p @ [x]) = node_at fs (p @ [x])" and "writable fs1 = writable fs"
    using create_dirs_wf [OF assms(2), of p] c by (auto simp: mem_prefixes_of)
  with b c snoc.prems show ?case
    by (auto simp: prefixes_of_snoc create_dirs_append split: option.splits fnode.splits)
qed

lemma fs_wf_prefix_dirs:
  assumes "fs_wf fs" and "node_at fs p = Some DirN"
  shows "create_dirs (prefixes_of p) fs = (True, fs)"
  using assms(2)
proof (induction p rule: rev_induct)
  case Nil
  then show ?case by simp
next
  case (snoc x p)
  have "node_at fs p = Some DirN"
    using fs_wf_node [OF assms(1) snoc.prems] by (cases "is_root (p @ [x])") (auto simp: is_root_def node_at_def)
  with snoc show ?case by (simp add: prefixes_of_snoc create_dirs_append)
qed

lemma mkdir_existing: "fs_wf fs \<Longrightarrow> IsDir d fs \<Longrightarrow> mkdir d fs = (True, fs)"
  by (simp add: mkdir_def IsDir_def fs_wf_prefix_dirs)

lemma fs_wf_mkdir: "fs_wf fs \<Longrightarrow> fs_wf (snd (mkdir d fs))"
  using create_dirs_wf [of fs "path_of d"] by (simp add: mkdir_def)

lemma fs_wf_write_file: "fs_wf fs \<Longrightarrow> fs_wf (write_file f c fs)"
  by (simp add: write_file_def fs_wf_put_file)

lemma fs_wf_del_node:
  assumes "fs_wf fs" and "\<And>q. \<not> is_root q \<Longrightarrow> butlast q = p \<Longrightarrow> map_of (ents fs) q = None"
  shows "fs_wf (del_node p fs)"
  unfolding fs_wf_def
proof (intro allI impI)
  fix q m
  assume q: "map_of (ents (del_node p fs)) q = Some m" and nr: "\<not> is_root q"
  then have "map_of (ents fs) q = Some m" by (auto simp: del_node_def delete_conv split: if_splits)
  moreover from this assms(2) nr have "butlast q \<noteq> p" by fastforce
  ultimately show "node_at (del_node p fs) (butlast q) = Some DirN"
    using assms(1) nr by (auto simp: fs_wf_def node_at_del)
qed

lemma fs_wf_del_file:
  assumes "fs_wf fs" and "node_at fs p \<noteq> Some DirN"
  shows "fs_wf (del_node p fs)"
proof (rule fs_wf_del_node [OF assms(1)])
  fix q
  assume "\<not> is_root q" and "butlast q = p"
  then show "map_of (ents fs) q = None"
    using fs_wf_node [OF assms(1), of q] assms(2) by (cases "map_of (ents fs) q") (auto simp: node_at_def)
qed

lemma children_Nil: "children fs p = [] \<Longrightarrow> \<not> is_root q \<Longrightarrow> butlast q = p \<Longrightarrow> map_of (ents fs) q = None"
  by (auto simp: children_def filter_empty_conv map_of_eq_None_iff)

lemma fs_wf_c_remove: "fs_wf fs \<Longrightarrow> fs_wf (c_remove f fs)"
  by (auto simp: c_remove_def intro: fs_wf_del_file fs_wf_del_node [OF _ children_Nil]
      split: option.splits fnode.splits)

lemma can_open_put: "can_open_out fs f \<Longrightarrow> can_open_out (put_file f c fs) f"
proof -
  assume o: "can_open_out fs f"
  show ?thesis
  proof (cases "is_root (path_of f)")
    case True
    with o show ?thesis by (simp add: can_open_out_def node_at_def)
  next
    case False
    with o butlast_neq [OF False] show ?thesis by (auto simp: can_open_out_def put_file_def)
  qed
qed

lemma fs_wf_move: "fs_wf fs \<Longrightarrow> fs_wf (snd (move src dst fs))"
  by (auto simp: move_def Let_def intro!: fs_wf_c_remove fs_wf_put_file can_open_put split: option.splits)

lemma is_under_iff: "is_under p q \<longleftrightarrow> (\<exists>r. q = p @ r)"
  by (metis append_eq_conv_conj append_take_drop_id is_under.simps)

lemma remove_all_del: "is_under p q \<Longrightarrow> remove_all p (del_node q fs) = remove_all p fs"
proof -
  assume u: "is_under p q"
  have "filter (\<lambda>(r, _). \<not> is_under p r) (AList.delete q xs) = filter (\<lambda>(r, _). \<not> is_under p r) xs"
    for xs :: "(path \<times> fnode) list"
    using u by (induction xs) (auto simp: AList.delete_eq simp del: is_under.simps)
  then show ?thesis by (simp add: remove_all_def del_node_def del: is_under.simps)
qed

lemma remove_all_fold_del:
  "\<forall>(q, n) \<in> set qs. is_under p q \<Longrightarrow>
     remove_all p (fold (\<lambda>(q, n) s. if is_regular n then del_node q s else s) qs fs) = remove_all p fs"
  by (induction qs arbitrary: fs) (auto simp: remove_all_del simp del: is_under.simps)

lemma children_under: "(q, n) \<in> set (children fs p) \<Longrightarrow> is_under p q"
  by (auto simp: children_def butlast_conv_take)

lemma remove_all_files_eq:
  "remove_all_files d fs = (if IsDir d fs then remove_all (path_of d) fs else fs)"
  using remove_all_fold_del [of "children fs (path_of d)" "path_of d" fs] children_under [of _ _ fs "path_of d"]
  by (auto simp: remove_all_files_def)

lemma map_of_remove_all:
  "map_of (ents (remove_all p fs)) q = (if is_under p q then None else map_of (ents fs) q)"
proof -
  have "map_of (filter (\<lambda>(q, _). P q) xs) q = (if P q then map_of xs q else None)"
    for P and xs :: "(path \<times> fnode) list"
    by (induction xs) auto
  then show ?thesis by (simp add: remove_all_def del: is_under.simps)
qed

lemma fs_wf_remove_all: "fs_wf fs \<Longrightarrow> fs_wf (remove_all p fs)"
  unfolding fs_wf_def
proof (intro allI impI)
  fix q n
  assume wf: "\<forall>p n. map_of (ents fs) p = Some n \<longrightarrow> \<not> is_root p \<longrightarrow> node_at fs (butlast p) = Some DirN"
    and q: "map_of (ents (remove_all p fs)) q = Some n" and nr: "\<not> is_root q"
  from q have u: "\<not> is_under p q" and "map_of (ents fs) q = Some n"
    by (auto simp: map_of_remove_all split: if_splits)
  with wf nr have "node_at fs (butlast q) = Some DirN" by blast
  moreover have "\<not> is_under p (butlast q)"
  proof
    assume "is_under p (butlast q)"
    then obtain r where "butlast q = p @ r" unfolding is_under_iff by blast
    then have "q = p @ r @ [last q]"
      using nr append_butlast_last_id [of q] by (auto simp: is_root_def)
    with u show False unfolding is_under_iff by blast
  qed
  ultimately show "node_at (remove_all p fs) (butlast q) = Some DirN"
    by (auto simp: node_at_def map_of_remove_all simp del: is_under.simps split: if_splits)
qed

lemma fs_wf_remove_all_files: "fs_wf fs \<Longrightarrow> fs_wf (remove_all_files d fs)"
  by (simp add: remove_all_files_eq fs_wf_remove_all)

lemma fs_wf_del: "fs_wf fs \<Longrightarrow> fs_wf (snd (del f fs))"
  by (auto simp: del_def IsDir_def intro: fs_wf_del_file)

lemma fs_wf_split_outer:
  assumes "split_outer src bs ori tmp i rest rc fs = Some (Ret (n, fs'))" and "fs_wf fs"
  shows "fs_wf fs'"
proof -
  let ?P = "\<lambda>src bs ori tmp i rest rc fs r. fs_wf fs \<longrightarrow> (case r of Ret x \<Rightarrow> fs_wf (snd x) | _ \<Rightarrow> True)"
  have "?P src bs ori tmp i rest rc fs (Ret (n, fs'))"
  proof (rule split_outer.raw_induct [where P = ?P, OF _ assms(1)], rule impI)
    fix rec :: "path \<Rightarrow> int \<Rightarrow> int \<Rightarrow> string \<Rightarrow> nat \<Rightarrow> bytes \<Rightarrow> int \<Rightarrow> fsys \<Rightarrow> (nat \<times> fsys) outcome option"
      and src bs ori tmp i rest rc fs r
    assume IH: "\<And>src bs ori tmp i rest rc fs r. rec src bs ori tmp i rest rc fs = Some r \<Longrightarrow> ?P src bs ori tmp i rest rc fs r"
      and body: "(if rc < ori then let divfile = tmp @ to_string i in
          if \<not> can_open_out fs divfile then Some (Ret (i, fs))
          else if path_of divfile = src then Some (UB ''source truncated'')
          else Option.bind (split_inner bs ori rest [] 0 rc)
            (\<lambda>(rest', out, rc'). if Suc i < 2 ^ 31 then rec src bs ori tmp (Suc i) rest' rc' (put_file divfile out fs)
               else Some (UB ''signed overflow''))
          else Some (Ret (i, fs))) = Some r"
      and wf: "fs_wf fs"
    have put: "fs_wf (put_file (tmp @ to_string i) out fs)" if "can_open_out fs (tmp @ to_string i)" for out
      using that wf by (simp add: fs_wf_put_file)
    show "case r of Ret x \<Rightarrow> fs_wf (snd x) | _ \<Rightarrow> True"
      using body wf IH put by (auto simp: Let_def split: if_splits Option.bind_splits)
  qed
  with assms(2) show ?thesis by simp
qed

lemma fs_wf_file_split: "file_split f k t fs = Some (Ret (n, fs')) \<Longrightarrow> fs_wf fs \<Longrightarrow> fs_wf fs'"
  by (auto simp: file_split_def Let_def split: if_splits option.splits dest: fs_wf_split_outer)

lemma fs_wf_merge: "merge d n fs = Some (r, fs') \<Longrightarrow> fs_wf fs \<Longrightarrow> fs_wf fs'"
  by (auto simp: merge_def Let_def split: if_splits intro!: fs_wf_put_file can_open_put)

lemmas fs_wf_ops =
  fs_wf_mkdir fs_wf_write_file fs_wf_move fs_wf_remove_all_files fs_wf_del fs_wf_file_split fs_wf_merge

section \<open>What split and merge compute\<close>

text \<open>
  The number of blocks of \<open>B\<close> bytes, as \<open>FileTopic::send_file\<close> computes it, and the blocks
  themselves.
\<close>

definition block_count :: "nat \<Rightarrow> nat \<Rightarrow> nat" where
  "block_count B n = n div B + (if n mod B > 0 then 1 else 0)"

definition block_of :: "nat \<Rightarrow> bytes \<Rightarrow> nat \<Rightarrow> bytes" where
  "block_of B c i = take B (drop (i * B) c)"

lemma block_count_0 [simp]: "block_count B 0 = 0"
  by (simp add: block_count_def)

lemma block_count_step:
  assumes "0 < B" and "0 < n"
  shows "block_count B n = Suc (block_count B (n - B))"
proof (cases "n < B")
  case True
  with assms show ?thesis by (simp add: block_count_def)
next
  case False
  then have "n div B = Suc ((n - B) div B)" and "n mod B = (n - B) mod B"
    using assms by (simp_all add: le_div_geq le_mod_geq)
  then show ?thesis by (simp add: block_count_def)
qed

lemma block_count_covers:
  assumes "0 < B"
  shows "n \<le> block_count B n * B"
proof -
  have n: "n = n div B * B + n mod B" by simp
  have m: "n mod B < B" using assms by simp
  have c: "block_count B n * B = n div B * B + (if n mod B > 0 then B else 0)"
    by (simp add: block_count_def)
  show ?thesis
  proof (cases "n mod B > 0")
    case True
    then have "block_count B n * B = n div B * B + B" using c by simp
    with n m show ?thesis by linarith
  next
    case False
    then have "block_count B n * B = n div B * B" using c by simp
    with n False show ?thesis by linarith
  qed
qed

lemma concat_block_of:
  "0 < B \<Longrightarrow> concat (map (block_of B c) [0..<block_count B (length c)]) = c"
  using concat_chunks [where k = B and xs = c and n = "block_count B (length c)"]
    block_count_covers [of B "length c"]
  by (simp add: block_of_def [abs_def])

lemma block_of_nonempty:
  assumes B: "0 < B" and "i < block_count B (length c)"
  shows "block_of B c i \<noteq> []"
proof -
  have "i * B < length c"
  proof (cases "length c mod B > 0")
    case True
    with assms(2) have "i \<le> length c div B" by (simp add: block_count_def)
    then have "i * B \<le> length c div B * B" by simp
    also have "\<dots> < length c" using True by (metis add_less_same_cancel1 div_mult_mod_eq less_add_same_cancel1)
    finally show ?thesis .
  next
    case False
    with assms(2) have "i < length c div B" by (simp add: block_count_def)
    then have "i * B < length c div B * B" using B by simp
    also have "\<dots> \<le> length c" by simp
    finally show ?thesis .
  qed
  with B show ?thesis by (simp add: block_of_def)
qed

lemma split_inner_spec:
  assumes "ori = rc + int (length rest)"
  shows "split_inner (int (1024 * k) + this) ori rest out this rc =
    Some (drop (1024 * k) rest, out @ take (1024 * k) rest, rc + int (min (1024 * k) (length rest)))"
  using assms
proof (induction k arbitrary: rest out this rc)
  case 0
  then show ?case by (subst split_inner.simps) simp
next
  case (Suc k)
  show ?case
  proof (cases "rest = []")
    case True
    with Suc.prems show ?thesis by (subst split_inner.simps) simp
  next
    case False
    have step: "split_inner (int (1024 * Suc k) + this) ori rest out this rc =
        split_inner (int (1024 * Suc k) + this) ori (drop 1024 rest) (out @ take 1024 rest)
          (this + int (length (take 1024 rest))) (rc + int (length (take 1024 rest)))"
      using False Suc.prems by (subst split_inner.simps) (simp add: Let_def)
    show ?thesis
    proof (cases "length rest < 1024")
      case True
      with Suc.prems step show ?thesis by (subst step, subst split_inner.simps) simp
    next
      case full: False
      then have e: "int (1024 * Suc k) + this = int (1024 * k) + (this + 1024)" by simp
      have "split_inner (int (1024 * Suc k) + this) ori rest out this rc =
          split_inner (int (1024 * k) + (this + 1024)) ori (drop 1024 rest) (out @ take 1024 rest)
            (this + 1024) (rc + 1024)"
      proof -
        have len: "int (length (take 1024 rest)) = 1024" using full by simp
        show ?thesis using step unfolding len e .
      qed
      also have "\<dots> = Some (drop (1024 * k) (drop 1024 rest),
          (out @ take 1024 rest) @ take (1024 * k) (drop 1024 rest),
          (rc + 1024) + int (min (1024 * k) (length (drop 1024 rest))))"
        by (rule Suc.IH) (use Suc.prems full in simp)
      also have "\<dots> = Some (drop (1024 * Suc k) rest, out @ take (1024 * Suc k) rest,
          rc + int (min (1024 * Suc k) (length rest)))"
        using full take_add [of 1024 "1024 * k" rest] by (auto simp: add.commute min_def)
      finally show ?thesis .
    qed
  qed
qed

definition block_table :: "string \<Rightarrow> nat \<Rightarrow> nat \<Rightarrow> bytes \<Rightarrow> (path \<times> bytes) list" where
  "block_table d B i c =
     map (\<lambda>j. (block_path d (i + j), block_of B c j)) [0..<block_count B (length c)]"

lemma block_table_Nil [simp]: "block_table d B i [] = []"
  by (simp add: block_table_def)

lemma block_table_step:
  assumes "0 < B" and "c \<noteq> []"
  shows "block_table d B i c = (block_path d i, take B c) # block_table d B (Suc i) (drop B c)"
proof -
  have "block_count B (length c) = Suc (block_count B (length c - B))"
    using assms by (intro block_count_step) auto
  then show ?thesis
    by (simp add: block_table_def block_of_def map_upt_Suc add.commute del: upt_Suc)
qed

lemma split_outer_spec:
  assumes "0 < k" and "blocks_ready fs d" and "ori = rc + int (length rest)"
    and "i + block_count (1024 * k) (length rest) < 2 ^ 31"
    and "\<forall>j. i \<le> j \<longrightarrow> j < i + block_count (1024 * k) (length rest) \<longrightarrow> block_path d j \<noteq> src"
  shows "split_outer src (int (1024 * k)) ori (d @ ''/'') i rest rc fs =
    Some (Ret (i + block_count (1024 * k) (length rest),
      files.put_all (block_table d (1024 * k) i rest) fs))"
  using assms(2-5)
proof (induction "length rest" arbitrary: rest rc i fs rule: less_induct)
  case less
  let ?B = "1024 * k"
  have d: "d \<noteq> []" using less.prems(1) by (simp add: blocks_ready_def)
  show ?case
  proof (cases "rest = []")
    case True
    with less.prems show ?thesis by (subst split_outer.simps) simp
  next
    case False
    have inner: "split_inner (int ?B) ori rest [] 0 rc =
        Some (drop ?B rest, take ?B rest, rc + int (min ?B (length rest)))"
      using split_inner_spec [OF less.prems(2), of k 0 "[]"] by simp
    have more: "rc < ori" using False less.prems(2) by simp
    let ?fs = "set_node (block_path d i) (FileN (take ?B rest)) fs"
    have put: "put_file ((d @ ''/'') @ to_string i) (take ?B rest) fs = ?fs"
      unfolding put_file_def path_of_block [OF d] ..
    have ready: "blocks_ready ?fs d"
      using less.prems(1) by (intro blocks_ready_put) (auto simp: blocks_ready_def)
    have step: "block_count ?B (length rest) = Suc (block_count ?B (length (drop ?B rest)))"
      using False assms(1) block_count_step [of ?B "length rest"] by simp
    have i: "Suc i < 2 ^ 31" "block_path d i \<noteq> src" using less.prems(3,4) step by auto
    have "split_outer src (int ?B) ori (d @ ''/'') i rest rc fs =
        split_outer src (int ?B) ori (d @ ''/'') (Suc i) (drop ?B rest)
          (rc + int (min ?B (length rest))) ?fs"
      using inner blocks_ready_open [OF less.prems(1), of i] more i path_of_block [OF d, of i]
      by (subst split_outer.simps) (simp add: Let_def put del: append_assoc of_nat_mult)
    also have "\<dots> = Some (Ret (Suc i + block_count ?B (length (drop ?B rest)),
        files.put_all (block_table d ?B (Suc i) (drop ?B rest)) ?fs))"
    proof (intro less.hyps ready)
      show "length (drop ?B rest) < length rest" using False assms(1) by simp
      show "ori = rc + int (min ?B (length rest)) + int (length (drop ?B rest))"
        using less.prems(2) by (auto simp: min_def)
      show "Suc i + block_count ?B (length (drop ?B rest)) < 2 ^ 31" using less.prems(3) step by simp
      show "\<forall>j. Suc i \<le> j \<longrightarrow> j < Suc i + block_count ?B (length (drop ?B rest)) \<longrightarrow> block_path d j \<noteq> src"
        using less.prems(4) step by simp
    qed
    also have "\<dots> = Some (Ret (i + block_count ?B (length rest),
        files.put_all (block_table d ?B i rest) fs))"
      using False assms(1) step block_table_step [of ?B rest d i] by simp
    finally show ?thesis .
  qed
qed

lemma merge_copy_spec:
  "merge_copy (int (length rest) + t) rest out t = Some (out @ rest)"
proof (induction "length rest" arbitrary: rest out t rule: less_induct)
  case less
  show ?case
  proof (cases "rest = []")
    case True
    then show ?thesis by (subst merge_copy.simps) simp
  next
    case False
    have eq: "int (length rest) + t =
        int (length (drop 1024 rest)) + (t + int (length (take 1024 rest)))"
      by (simp add: min_def)
    have "merge_copy (int (length rest) + t) rest out t =
        merge_copy (int (length rest) + t) (drop 1024 rest) (out @ take 1024 rest)
          (t + int (length (take 1024 rest)))"
      using False by (subst merge_copy.simps) simp
    also have "\<dots> = Some ((out @ take 1024 rest) @ drop 1024 rest)"
      unfolding eq by (rule less.hyps) (use False in simp)
    finally show ?thesis by simp
  qed
qed

lemma open_in_block:
  assumes "d \<noteq> []"
  shows "file_content fs (block_path d i) = Some c \<Longrightarrow>
      open_in fs ((d @ ''/'') @ to_string i) = Some (FileN c)"
    and "node_at fs (block_path d i) = None \<Longrightarrow> open_in fs ((d @ ''/'') @ to_string i) = None"
  using assms last_to_string [of i] path_of_block [OF assms, of i]
  by (auto simp: open_in_def file_content_def simp del: append_assoc split: option.splits fnode.splits)

lemma merge_loop_block:
  assumes "d \<noteq> []" and "file_content fs (block_path d i) = Some c" and "int i \<noteq> blockNum"
  shows "merge_loop (d @ ''/'') blockNum i out fs = merge_loop (d @ ''/'') blockNum (Suc i) (out @ c) fs"
proof -
  note o = open_in_block(1) [OF assms(1,2)]
  have "GetFileLength ((d @ ''/'') @ to_string i) fs = int (length c)"
    using o by (simp add: GetFileLength_def del: append_assoc)
  then show ?thesis
    using o assms(3) merge_copy_spec [of c 0 out]
    by (subst merge_loop.simps) (simp add: stream_bytes_def del: append_assoc)
qed

lemma merge_loop_upto:
  assumes "d \<noteq> []" and "\<And>j. i \<le> j \<Longrightarrow> j < i + n \<Longrightarrow> file_content fs (block_path d j) = Some (b j)"
    and "blockNum < 0 \<or> int (i + n) \<le> blockNum"
  shows "merge_loop (d @ ''/'') blockNum i out fs =
    merge_loop (d @ ''/'') blockNum (i + n) (out @ concat (map b [i..<i + n])) fs"
  using assms(2,3)
proof (induction n)
  case 0
  then show ?case by simp
next
  case (Suc n)
  have "merge_loop (d @ ''/'') blockNum (i + n) (out @ concat (map b [i..<i + n])) fs =
      merge_loop (d @ ''/'') blockNum (Suc (i + n)) ((out @ concat (map b [i..<i + n])) @ b (i + n)) fs"
    using Suc.prems assms(1) by (intro merge_loop_block) auto
  with Suc show ?case by auto
qed

lemma merge_loop_complete:
  assumes "d \<noteq> []" and "\<And>j. j < n \<Longrightarrow> file_content fs (block_path d j) = Some (b j)"
  shows "merge_loop (d @ ''/'') (int n) 0 [] fs =
    Some (if concat (map b [0..<n]) = [] then -1 else 0, concat (map b [0..<n]))"
  using merge_loop_upto [OF assms(1), of 0 n fs b "int n" "[]"] assms(2)
  by (simp add: merge_loop.simps [of _ "int n" n])

lemma merge_loop_missing:
  assumes "d \<noteq> []" and "\<And>j. j < m \<Longrightarrow> file_content fs (block_path d j) = Some (b j)"
    and "node_at fs (block_path d m) = None" and "m < n"
  shows "merge_loop (d @ ''/'') (int n) 0 [] fs = Some (int m, concat (map b [0..<m]))"
  using merge_loop_upto [OF assms(1), of 0 m fs b "int n" "[]"] assms(2,4)
    open_in_block(2) [OF assms(1,3)]
  by (simp add: merge_loop.simps [of _ "int n" m] del: append_assoc)

lemma file_split_spec:
  assumes "open_in fs f = Some (FileN c)" and "0 < k" and "blocks_ready fs d"
    and "1024 * k < 2 ^ 63" and "block_count (1024 * k) (length c) < 2 ^ 31"
    and "\<forall>i < block_count (1024 * k) (length c). block_path d i \<noteq> path_of f"
  shows "file_split f (int k) (d @ ''/'') fs =
    Some (Ret (block_count (1024 * k) (length c), files.put_all (block_table d (1024 * k) 0 c) fs))"
proof -
  have len: "GetFileLength f fs = int (length c)" using assms(1) by (simp add: GetFileLength_def)
  have k: "int k * 1024 = int (1024 * k)" by simp
  have "int (1024 * k) < int (2 ^ 63)" using assms(4) by (simp only: of_nat_less_iff)
  then have "in_int64 (int (1024 * k))" unfolding in_int64_def by simp
  then show ?thesis
    using len assms(1,5,6) split_outer_spec [OF assms(2,3), of "int (length c)" 0 c 0 "path_of f"]
    unfolding file_split_def Let_def k by (simp add: stream_bytes_def del: of_nat_mult)
qed

lemma block_table_content:
  assumes "i < block_count B (length c)"
  shows "file_content (files.put_all (block_table d B 0 c) fs) (block_path d i) = Some (block_of B c i)"
proof (rule files.get_put_all_in)
  show "distinct (map fst (block_table d B 0 c))"
    by (simp add: block_table_def comp_def distinct_map inj_on_def)
  show "(block_path d i, block_of B c i) \<in> set (block_table d B 0 c)"
    using assms by (auto simp: block_table_def)
qed simp

lemma node_at_put_all_other:
  "p \<notin> fst ` set kvs \<Longrightarrow> node_at (files.put_all kvs fs) p = node_at fs p"
  by (induction kvs arbitrary: fs) auto

lemma writable_put_all [simp, frame]: "writable (files.put_all kvs fs) = writable fs"
  by (induction kvs arbitrary: fs) auto

text \<open>A directory ready for \<open>merge\<close>: it exists and \<open>merge.out\<close> may be written in it.\<close>

definition merge_ready :: "fsys \<Rightarrow> string \<Rightarrow> bool" where
  "merge_ready fs d \<longleftrightarrow>
     d \<noteq> [] \<and> node_at fs (path_of d) = Some DirN \<and>
     writable fs (merge_path d) \<and> node_at fs (merge_path d) \<noteq> Some DirN"

lemma merge_ready_open:
  assumes "merge_ready fs d"
  shows "IsDir d fs" and "can_open_out fs (d @ ''/merge.out'')"
proof -
  have d: "d \<noteq> []" using assms by (simp add: merge_ready_def)
  show "IsDir d fs" using assms by (simp add: merge_ready_def IsDir_def)
  have "butlast (merge_path d) = path_of d" by (simp add: merge_path_def)
  then show "can_open_out fs (d @ ''/merge.out'')"
    using assms path_of_merge [OF d] by (simp add: merge_ready_def can_open_out_def)
qed

lemma merge_unfold:
  assumes "merge_ready fs d"
  shows "merge d blockNum fs =
    map_option (\<lambda>(r, out). (r, set_node (merge_path d) (FileN out) (set_node (merge_path d) (FileN []) fs)))
      (merge_loop (d @ ''/'') blockNum 0 [] (set_node (merge_path d) (FileN []) fs))"
proof -
  have "path_of (d @ ''/merge.out'') = merge_path d"
    using assms by (intro path_of_merge) (simp add: merge_ready_def)
  with merge_ready_open [OF assms] show ?thesis by (simp add: merge_def put_file_def Let_def)
qed

lemma merge_complete:
  assumes "merge_ready fs d" and "\<And>j. j < n \<Longrightarrow> file_content fs (block_path d j) = Some (b j)"
    and "concat (map b [0..<n]) \<noteq> []"
  shows "\<exists>fs'. merge d (int n) fs = Some (0, fs') \<and>
    file_content fs' (merge_path d) = Some (concat (map b [0..<n])) \<and>
    (\<forall>p. p \<noteq> merge_path d \<longrightarrow> node_at fs' p = node_at fs p)"
proof -
  let ?fs1 = "set_node (merge_path d) (FileN []) fs"
  have d: "d \<noteq> []" using assms(1) by (simp add: merge_ready_def)
  have "merge_loop (d @ ''/'') (int n) 0 [] ?fs1 = Some (0, concat (map b [0..<n]))"
    using merge_loop_complete [OF d, of n ?fs1 b] assms(2,3) by (simp add: file_content_set_other)
  then show ?thesis
    using merge_unfold [OF assms(1), of "int n"] by (simp add: file_content_set_same)
qed

lemma merge_missing:
  assumes "merge_ready fs d" and "\<And>j. j < m \<Longrightarrow> file_content fs (block_path d j) = Some (b j)"
    and "node_at fs (block_path d m) = None" and "m < n"
  shows "\<exists>fs'. merge d (int n) fs = Some (int m, fs') \<and>
    file_content fs' (merge_path d) = Some (concat (map b [0..<m])) \<and>
    (\<forall>p. p \<noteq> merge_path d \<longrightarrow> node_at fs' p = node_at fs p)"
proof -
  let ?fs1 = "set_node (merge_path d) (FileN []) fs"
  have d: "d \<noteq> []" using assms(1) by (simp add: merge_ready_def)
  have "merge_loop (d @ ''/'') (int n) 0 [] ?fs1 = Some (int m, concat (map b [0..<m]))"
    using merge_loop_missing [OF d, of m ?fs1 b n] assms(2-4) by (simp add: file_content_set_other)
  then show ?thesis
    using merge_unfold [OF assms(1), of "int n"] by (simp add: file_content_set_same)
qed

lemma block_table_paths: "fst ` set (block_table d B 0 c) = block_path d ` {..<block_count B (length c)}"
  by (auto simp: block_table_def image_iff)

lemma merge_ready_put_all:
  assumes "merge_ready fs d" and "blocks_ready fs d"
  shows "merge_ready (files.put_all (block_table d B 0 c) fs) d"
proof -
  have "merge_path d \<notin> fst ` set (block_table d B 0 c)"
    by (auto simp: block_table_paths dest: sym)
  moreover have "path_of d \<notin> fst ` set (block_table d B 0 c)"
    by (auto simp: block_table_paths block_path_def)
  ultimately show ?thesis using assms(1) by (simp add: merge_ready_def node_at_put_all_other)
qed

text \<open>A block size of zero or less: the inner loop reads nothing and the outer one goes on to the limit of its number.\<close>

lemma split_outer_nonpos:
  assumes "bs \<le> 0" and "rc < ori" and "blocks_ready fs d" and "i < 2 ^ 31" and "\<forall>j. block_path d j \<noteq> src"
  shows "split_outer src bs ori (d @ ''/'') i rest rc fs = Some (UB ''signed overflow'')"
  using assms(3,4)
proof (induction "2 ^ 31 - i" arbitrary: i fs rule: less_induct)
  case less
  have d: "d \<noteq> []" using less.prems(1) by (simp add: blocks_ready_def)
  have inner: "split_inner bs ori rest [] 0 rc = Some (rest, [], rc)"
    using assms(1) by (subst split_inner.simps) simp
  let ?fs = "set_node (block_path d i) (FileN []) fs"
  have ready: "blocks_ready ?fs d"
    using less.prems(1) by (intro blocks_ready_put) (auto simp: blocks_ready_def)
  have put: "put_file ((d @ ''/'') @ to_string i) [] fs = ?fs"
    unfolding put_file_def path_of_block [OF d] ..
  have "split_outer src bs ori (d @ ''/'') i rest rc fs =
      (if Suc i < 2 ^ 31 then split_outer src bs ori (d @ ''/'') (Suc i) rest rc ?fs else Some (UB ''signed overflow''))"
    using inner blocks_ready_open [OF less.prems(1), of i] assms(2,5) path_of_block [OF d, of i]
    by (subst split_outer.simps) (simp add: Let_def put del: append_assoc)
  then show ?case using less.hyps [of "Suc i" ?fs] ready less.prems(2) by (auto split: if_splits)
qed

lemma move_spec:
  assumes "open_in fs src = Some (FileN c)" and "path_of src \<noteq> path_of dst"
  shows "move src dst fs = (True, del_node (path_of src)
     (if can_open_out fs dst then put_file dst c (put_file dst [] fs) else fs))"
proof -
  have src: "node_at fs (path_of src) = Some (FileN c)"
    using assms(1) by (auto simp: open_in_def split: if_splits option.splits fnode.splits)
  with assms show ?thesis
    by (auto simp: move_def Let_def stream_bytes_def c_remove_def put_file_def)
qed

section \<open>Properties\<close>

text \<open>A small file system the witnesses use: a file \<open>f\<close> and an empty directory \<open>t\<close>.\<close>

definition demo_fs :: fsys where
  "demo_fs = \<lparr>ents = [([''f''], FileN ''hello''), ([''t''], DirN)], writable = (\<lambda>_. True), dir_len = 0\<rparr>"

lemma demo_paths [simp]: "path_of ''t'' = [''t'']" "path_of ''f'' = [''f'']" "path_of ''g'' = [''g'']"
    "path_of ''f/x'' = [''f'', ''x'']"
  by (simp_all add: path_of_def components_def split.simps getline_def)

lemma demo_no_block [simp]: "node_at demo_fs (block_path ''t'' i) = None"
  by (simp add: node_at_def is_root_def block_path_def demo_fs_def)

lemma demo_ready [simp]: "blocks_ready demo_fs ''t''" "merge_ready demo_fs ''t''"
    "open_in demo_fs ''f'' = Some (FileN ''hello'')"
  by (simp_all add: blocks_ready_def merge_ready_def block_path_def merge_path_def demo_fs_def
      node_at_def is_root_def open_in_def)

text \<open>
  C16. Cutting a file into blocks and merging them gives the file back: for a regular,
  non-empty file and a positive block size, \<open>split\<close> ends, writes exactly the number of blocks
  that \<open>send_file\<close> announces, and \<open>merge\<close> over that many blocks succeeds with a
  \<open>merge.out\<close> that holds the original bytes. The block size in bytes must fit a \<open>long long\<close> and the number of
  blocks an \<open>int\<close>, and the file must not be one of the block files itself, which \<open>split\<close> would truncate.
\<close>

theorem split_merge_roundtrip:
  assumes "open_in fs f = Some (FileN c)" and "c \<noteq> []" and "0 < k"
    and "blocks_ready fs d" and "merge_ready fs d"
    and "1024 * k < 2 ^ 63" and "block_count (1024 * k) (length c) < 2 ^ 31"
    and "\<forall>i < block_count (1024 * k) (length c). block_path d i \<noteq> path_of f"
  shows "\<exists>n fs1 fs2. file_split f (int k) (d @ ''/'') fs = Some (Ret (n, fs1)) \<and>
    n = block_count (1024 * k) (length c) \<and> merge d (int n) fs1 = Some (0, fs2) \<and>
    file_content fs2 (merge_path d) = Some c"
proof -
  let ?B = "1024 * k" and ?fs1 = "files.put_all (block_table d (1024 * k) 0 c) fs"
  have whole: "concat (map (block_of ?B c) [0..<block_count ?B (length c)]) = c"
    using assms(3) by (intro concat_block_of) simp
  with assms(2) have "concat (map (block_of ?B c) [0..<block_count ?B (length c)]) \<noteq> []" by simp
  with merge_complete [of ?fs1 d "block_count ?B (length c)" "block_of ?B c"]
    merge_ready_put_all [OF assms(5,4)] block_table_content
  obtain fs2 where "merge d (int (block_count ?B (length c))) ?fs1 = Some (0, fs2)"
    and "file_content fs2 (merge_path d) = Some c" unfolding whole by blast
  with file_split_spec [OF assms(1,3,4,6-8)] show ?thesis by blast
qed

theorem split_merge_roundtrip_witness:
  "\<exists>n fs1 fs2. file_split ''f'' (int 1) (''t'' @ ''/'') demo_fs = Some (Ret (n, fs1)) \<and>
    n = block_count (1024 * 1) (length ''hello'') \<and> merge ''t'' (int n) fs1 = Some (0, fs2) \<and>
    file_content fs2 (merge_path ''t'') = Some ''hello''"
  by (rule split_merge_roundtrip) (simp_all add: block_path_def block_count_def)

text \<open>
  What \<open>split\<close> leaves on disk: block file \<open>i\<close> holds the \<open>i\<close>-th block of the file (of
  \<open>k\<close> KB, the last one possibly shorter but never empty), and every path that is not one of
  these block files is as before.
\<close>

theorem split_blocks:
  assumes "open_in fs f = Some (FileN c)" and "0 < k" and "blocks_ready fs d"
    and "1024 * k < 2 ^ 63" and "block_count (1024 * k) (length c) < 2 ^ 31"
    and "\<forall>i < block_count (1024 * k) (length c). block_path d i \<noteq> path_of f"
  shows "\<exists>fs1. file_split f (int k) (d @ ''/'') fs = Some (Ret (block_count (1024 * k) (length c), fs1)) \<and>
    (\<forall>i < block_count (1024 * k) (length c).
       file_content fs1 (block_path d i) = Some (take (1024 * k) (drop (i * (1024 * k)) c)) \<and>
       take (1024 * k) (drop (i * (1024 * k)) c) \<noteq> []) \<and>
    (\<forall>p. p \<notin> block_path d ` {..<block_count (1024 * k) (length c)} \<longrightarrow> node_at fs1 p = node_at fs p)"
proof -
  let ?B = "1024 * k"
  have B: "0 < ?B" using assms(2) by simp
  have blk: "file_content (files.put_all (block_table d ?B 0 c) fs) (block_path d i) =
      Some (take ?B (drop (i * ?B) c)) \<and> take ?B (drop (i * ?B) c) \<noteq> []"
    if "i < block_count ?B (length c)" for i
    using block_table_content [OF that, of d fs] block_of_nonempty [OF B that]
    unfolding block_of_def by blast
  have "node_at (files.put_all (block_table d ?B 0 c) fs) p = node_at fs p"
    if "p \<notin> block_path d ` {..<block_count ?B (length c)}" for p
    using that block_table_paths [of d ?B c] by (intro node_at_put_all_other) simp
  with blk file_split_spec [OF assms] show ?thesis by blast
qed

theorem split_blocks_witness:
  "\<exists>fs1. file_split ''f'' (int 1) (''t'' @ ''/'') demo_fs =
      Some (Ret (block_count (1024 * 1) (length ''hello''), fs1)) \<and>
    (\<forall>i < block_count (1024 * 1) (length ''hello'').
       file_content fs1 (block_path ''t'' i) = Some (take (1024 * 1) (drop (i * (1024 * 1)) ''hello'')) \<and>
       take (1024 * 1) (drop (i * (1024 * 1)) ''hello'') \<noteq> []) \<and>
    (\<forall>p. p \<notin> block_path ''t'' ` {..<block_count (1024 * 1) (length ''hello'')} \<longrightarrow>
       node_at fs1 p = node_at demo_fs p)"
  by (rule split_blocks) (simp_all add: block_path_def block_count_def)

text \<open>
  With a block size of zero or less, \<open>split\<close> of a non-empty file makes no progress: it opens one
  empty block file after another until the number of the block overflows.
\<close>

theorem split_zero_block_size_overflows:
  assumes "open_in fs f = Some (FileN c)" and "c \<noteq> []" and "k \<le> 0" and "in_int64 (k * 1024)" and "blocks_ready fs d"
    and "\<forall>j. block_path d j \<noteq> path_of f"
  shows "file_split f k (d @ ''/'') fs = Some (UB ''signed overflow'')"
proof -
  have "split_outer (path_of f) (k * 1024) (int (length c)) (d @ ''/'') 0 c 0 fs = Some (UB ''signed overflow'')"
    using assms by (intro split_outer_nonpos) auto
  with assms(1,4) show ?thesis
    by (simp add: file_split_def Let_def GetFileLength_def stream_bytes_def)
qed

theorem split_zero_block_size_overflows_witness: "file_split ''f'' 0 (''t'' @ ''/'') demo_fs = Some (UB ''signed overflow'')"
  by (rule split_zero_block_size_overflows [where c = "''hello''"]) (simp_all add: in_int64_def block_path_def)

text \<open>
  \<open>merge\<close> over \<open>n\<close> blocks of which block \<open>m\<close> is the first missing one returns \<open>m\<close>, with
  the bytes of the blocks before it in \<open>merge.out\<close>. For \<open>m = 0\<close> that value is the one that
  stands for success.
\<close>

theorem merge_reports_first_missing:
  assumes "merge_ready fs d" and "\<forall>j < m. file_content fs (block_path d j) = Some (b j)"
    and "node_at fs (block_path d m) = None" and "m < n"
  shows "\<exists>fs'. merge d (int n) fs = Some (int m, fs') \<and>
    file_content fs' (merge_path d) = Some (concat (map b [0..<m]))"
  using merge_missing [of fs d m b n] assms by blast

theorem merge_reports_first_missing_witness:
  "\<exists>fs'. merge ''t'' (int 3) demo_fs = Some (int 0, fs') \<and>
    file_content fs' (merge_path ''t'') = Some (concat (map (\<lambda>_. ''x'') [0..<0]))"
  by (rule merge_reports_first_missing) simp_all

text \<open>
  Moving a file to a different path that can be opened for writing puts its bytes there,
  removes the source and touches no third path.
\<close>

theorem move_moves:
  assumes "open_in fs src = Some (FileN c)" and "path_of src \<noteq> path_of dst"
    and "can_open_out fs dst" and "\<not> is_root (path_of dst)" and "\<not> is_root (path_of src)"
  shows "fst (move src dst fs) \<and> file_content (snd (move src dst fs)) (path_of dst) = Some c \<and>
    node_at (snd (move src dst fs)) (path_of src) = None \<and>
    (\<forall>p. p \<noteq> path_of src \<longrightarrow> p \<noteq> path_of dst \<longrightarrow> node_at (snd (move src dst fs)) p = node_at fs p)"
  using assms(2-5)
  by (simp add: move_spec [OF assms(1,2)] node_at_del file_content_def put_file_def)

theorem move_moves_witness:
  "fst (move ''f'' ''g'' demo_fs) \<and>
    file_content (snd (move ''f'' ''g'' demo_fs)) (path_of ''g'') = Some ''hello'' \<and>
    node_at (snd (move ''f'' ''g'' demo_fs)) (path_of ''f'') = None \<and>
    node_at (snd (move ''f'' ''g'' demo_fs)) [''t''] = node_at demo_fs [''t'']"
proof -
  have "can_open_out demo_fs ''g''"
    by (simp add: can_open_out_def node_at_def is_root_def, simp add: demo_fs_def)
  from move_moves [OF demo_ready(3) _ this] show ?thesis by (simp add: is_root_def)
qed

text \<open>
  Moving a file to a path that cannot be opened for writing destroys it: \<open>move\<close> returns
  \<open>true\<close>, the source is gone and no path has received its bytes.
\<close>

theorem move_unopenable_target_loses_file:
  assumes "open_in fs src = Some (FileN c)" and "path_of src \<noteq> path_of dst"
    and "\<not> can_open_out fs dst" and "\<not> is_root (path_of src)"
  shows "fst (move src dst fs) \<and> node_at (snd (move src dst fs)) (path_of src) = None \<and>
    (\<forall>p. p \<noteq> path_of src \<longrightarrow> node_at (snd (move src dst fs)) p = node_at fs p)"
  using assms(3,4) by (simp add: move_spec [OF assms(1,2)] node_at_del)

theorem move_unopenable_target_loses_file_witness:
  "fst (move ''f'' ''t'' demo_fs) \<and> node_at (snd (move ''f'' ''t'' demo_fs)) (path_of ''f'') = None \<and>
    node_at (snd (move ''f'' ''t'' demo_fs)) [''t''] = node_at demo_fs [''t'']"
proof -
  have "\<not> can_open_out demo_fs ''t''"
    by (simp add: can_open_out_def node_at_def is_root_def, simp add: demo_fs_def)
  from move_unopenable_target_loses_file [OF demo_ready(3) _ this] show ?thesis by (simp add: is_root_def)
qed

text \<open>
  Every operation of \<open>FileSplit.h\<close> that changes the disk keeps the tree well-formed: what
  exists afterwards still has a directory as its parent.
\<close>

theorem file_operations_keep_tree:
  assumes "fs_wf fs"
  shows "fs_wf (snd (mkdir d fs)) \<and> fs_wf (write_file f c fs) \<and> fs_wf (snd (move src dst fs)) \<and>
    fs_wf (remove_all_files d fs) \<and> fs_wf (snd (del f fs)) \<and>
    (case file_split f k t fs of Some (Ret (n, fs')) \<Rightarrow> fs_wf fs' | _ \<Rightarrow> True) \<and>
    (case merge d m fs of Some (r, fs') \<Rightarrow> fs_wf fs' | None \<Rightarrow> True)"
  using assms by (auto intro: fs_wf_ops split: option.splits outcome.splits)

lemma demo_wf [simp]: "fs_wf demo_fs"
  by (auto simp: fs_wf_def demo_fs_def node_at_def is_root_def split: if_splits)

theorem file_operations_keep_tree_witness:
  "fs_wf demo_fs \<and> fs_wf (snd (mkdir ''t'' demo_fs)) \<and> fs_wf (write_file ''g'' ''x'' demo_fs) \<and>
    fs_wf (snd (move ''f'' ''g'' demo_fs)) \<and> fs_wf (remove_all_files ''t'' demo_fs) \<and>
    fs_wf (snd (del ''f'' demo_fs))"
  using file_operations_keep_tree [OF demo_wf, of "''t''" "''g''" "''x''" "''f''" "''g''" 1 "''t/''" 1]
    file_operations_keep_tree [OF demo_wf, of "''t''" "''f''" "''x''" "''f''" "''g''" 1 "''t/''" 1]
  by simp

end
