(* ===== verification/NodeBase.thy ===== *)
theory NodeBase
  imports Monitor Strings
begin

text \<open>
  What the topics of the node application share: the node's settings (\<open>dds/NodeInfo.h\<close>), the C
  conversions and the \<open>sprintf\<close> buffers of the SQL statements, and the database seen as the
  log of the statements it was given. The answer of the database access (\<open>db/rd\<close>, modelled in
  \<open>Database\<close>) to a statement is a parameter, a negative number for a failure; the topics are modelled for a database
  that answers at all.
\<close>

section \<open>Settings of a node\<close>

record PROCESS =
  p_state :: int
  p_path :: string
  p_cmd :: string
  p_paras :: string
  p_add_paras1 :: string
  p_add_paras2 :: string
  p_keep_live :: bool

record NodeInfo =
  ni_nodeId :: string
  ni_group :: string
  fileMaxReTry :: int
  fileBlockTimeout :: int
  fileBlockLastTimeout :: int
  fileSplitSize :: int
  processVec :: "PROCESS list"

section \<open>C conversions and division\<close>

definition to_int32 :: "int \<Rightarrow> int" where
  "to_int32 x = (x + 2 ^ 31) mod 2 ^ 32 - 2 ^ 31"

definition to_uint32 :: "int \<Rightarrow> nat" where
  "to_uint32 x = nat (x mod 2 ^ 32)"

definition to_uint64 :: "int \<Rightarrow> nat" where
  "to_uint64 x = nat (x mod 2 ^ 64)"

definition in_int32 :: "int \<Rightarrow> bool" where
  "in_int32 x \<longleftrightarrow> - (2 ^ 31) \<le> x \<and> x < 2 ^ 31"

text \<open>Division truncates towards zero and the remainder has the sign of the dividend.\<close>

definition c_div :: "int \<Rightarrow> int \<Rightarrow> int" where
  "c_div a b = sgn a * sgn b * (\<bar>a\<bar> div \<bar>b\<bar>)"

definition c_mod :: "int \<Rightarrow> int \<Rightarrow> int" where
  "c_mod a b = sgn a * (\<bar>a\<bar> mod \<bar>b\<bar>)"

lemma to_uint_id [simp]:
  "n < 2 ^ 64 \<Longrightarrow> to_uint64 (int n) = n" "n < 2 ^ 32 \<Longrightarrow> to_uint32 (int n) = n"
  by (simp_all add: to_uint64_def to_uint32_def)

lemma to_int32_id [simp]: "in_int32 x \<Longrightarrow> to_int32 x = x"
  by (simp add: to_int32_def in_int32_def)

lemma c_div_nat: "0 < m \<Longrightarrow> c_div (int n) (int m) = int (n div m)"
  by (cases "n = 0") (simp_all add: c_div_def zdiv_int)

lemma c_mod_nat: "0 < m \<Longrightarrow> c_mod (int n) (int m) = int (n mod m)"
  by (cases "n = 0") (simp_all add: c_mod_def zmod_int)

section \<open>Formatting\<close>

text \<open>\<open>s.c_str()\<close> read as a C string ends at the first zero byte.\<close>

definition c_str :: "string \<Rightarrow> string" where
  "c_str s = takeWhile (\<lambda>c. c \<noteq> CHR 0x00) s"

text \<open>A \<open>'%s'\<close> of a statement.\<close>

definition quoted :: "string \<Rightarrow> string" where
  "quoted s = CHR 0x27 # c_str s @ [CHR 0x27]"

text \<open>\<open>sprintf\<close> into a \<open>char[1024]\<close>: writing more than the buffer holds is undefined.\<close>

definition sprintf_1024 :: "string \<Rightarrow> string outcome" where
  "sprintf_1024 s = (if length s < 1024 then Ret s else UB ''sprintf overflows char[1024]'')"

text \<open>The same for the larger buffers.\<close>

definition sprintf_2048 :: "string \<Rightarrow> string outcome" where
  "sprintf_2048 s = (if length s < 2048 then Ret s else UB ''sprintf overflows char[2048]'')"

definition sprintf_4096 :: "string \<Rightarrow> string outcome" where
  "sprintf_4096 s = (if length s < 4096 then Ret s else UB ''sprintf overflows char[4096]'')"

lemma c_str_id: "CHR 0x00 \<notin> set s \<Longrightarrow> c_str s = s"
  by (auto simp: c_str_def takeWhile_eq_all_conv)

lemma length_c_str: "length (c_str s) \<le> length s"
  by (simp add: c_str_def length_takeWhile_le)

lemma length_quoted: "length (quoted s) \<le> length s + 2"
  using length_c_str [of s] by (simp add: quoted_def)

text \<open>Decimal representations are short.\<close>

lemma length_to_string:
  assumes "n < 10 ^ Suc k"
  shows "length (to_string n) \<le> Suc k"
  using assms
proof (induction k arbitrary: n)
  case 0
  then show ?case by (simp add: to_string.simps [of n])
next
  case (Suc k)
  show ?case
  proof (cases "n < 10")
    case True
    then show ?thesis by (simp add: to_string.simps [of n])
  next
    case False
    from Suc.prems have "n div 10 < 10 ^ Suc k" by (simp add: less_mult_imp_div_less)
    with Suc.IH [of "n div 10"] False show ?thesis by (simp add: to_string.simps [of n])
  qed
qed

lemma length_to_string_64: "n < 2 ^ 64 \<Longrightarrow> length (to_string n) \<le> 20"
proof -
  assume "n < 2 ^ 64"
  then have "n < 10 ^ Suc 19" by simp
  from length_to_string [OF this] show ?thesis by simp
qed

text \<open>\<open>std::to_string\<close> of a signed number.\<close>

definition int_string :: "int \<Rightarrow> string" where
  "int_string i = (if i < 0 then ''-'' @ to_string (nat (- i)) else to_string (nat i))"

lemma length_uint64: "length (to_string (to_uint64 i)) \<le> 20"
  by (rule length_to_string_64) (simp add: to_uint64_def nat_less_iff)

lemma length_int_string:
  assumes "- (2 ^ 63) \<le> i" and "i < 2 ^ 63"
  shows "length (int_string i) \<le> 21"
proof -
  have "nat (- i) < 2 ^ 64" "nat i < 2 ^ 64" using assms by auto
  then have "length (to_string (nat (- i))) \<le> 20" "length (to_string (nat i)) \<le> 20"
    by (auto intro: length_to_string_64)
  then show ?thesis by (simp add: int_string_def)
qed

section \<open>The database\<close>

text \<open>
  Whether there is a database object, and what \<open>excuteSql\<close> answers for a statement: it catches every exception
  (\<open>Database\<close>), so that an error is a negative answer and the caller goes on.
\<close>

record db_env =
  db_present :: bool
  db_exec :: "string \<Rightarrow> int"

end
