(* ===== verification/FileTransfer.thy ===== *)
theory FileTransfer
  imports FileStore NodeBase
begin

text \<open>
  The block-wise file transfer of \<open>node/src/FileTopic.cpp\<close>: the sender cuts a file into block
  files and sends them one by one, each until a reply for it arrives or the retries are used
  up (\<open>send_file\<close>, \<open>sendOneBlock\<close>); the receiver writes every block into a temporary
  directory and, on the last one, merges them, moves the result to its place and queues a reply
  (\<open>handle_file_data\<close>, \<open>move_clear_tmp\<close>); replies are recorded in the database
  (\<open>file_data_reply_in\<close>).

  Messages arrive as they were sent (serialisation is generated protobuf code). The environment
  record holds what the code cannot control: the generated uuids and the clock, whether a
  \<open>put\<close> succeeds, the replies that arrive at every poll of the reply queue until the timeout,
  the message sizes and the database.
\<close>

section \<open>Messages and state\<close>

record FileData =
  fd_uuid :: string
  fd_src_node_id :: string
  fd_to_node_id :: string
  fd_file_name :: string
  fd_save_file_name :: string
  fd_sub_dir :: string
  fd_is_end :: bool
  fd_file_total_size :: nat
  fd_f_modify_time :: int
  fd_block_seq :: nat
  fd_total_block_num :: nat
  fd_block_content :: bytes
  fd_block_content_len :: nat
  fd_transfer_id :: string
  fd_md5 :: string

record FileDataReply =
  fr_uuid :: string
  fr_src_node_id :: string
  fr_to_node_id :: string
  fr_file_name :: string
  fr_reply_uuid :: string
  fr_sub_dir :: string
  fr_is_end :: bool
  fr_block_seq :: nat
  fr_total_block_num :: nat
  fr_file_total_size :: nat
  fr_state :: int

definition empty_file_data :: FileData where
  "empty_file_data = \<lparr>fd_uuid = [], fd_src_node_id = [], fd_to_node_id = [], fd_file_name = [],
     fd_save_file_name = [], fd_sub_dir = [], fd_is_end = False, fd_file_total_size = 0,
     fd_f_modify_time = 0, fd_block_seq = 0, fd_total_block_num = 0, fd_block_content = [],
     fd_block_content_len = 0, fd_transfer_id = [], fd_md5 = []\<rparr>"

record file_topic =
  ft_base :: zenoh_base
  ft_disk :: fsys
  reply_queue :: "FileDataReply list"
  file_out :: "FileData list"
  reply_out :: "FileDataReply list"
  ft_sqls :: "string list"
  ft_tick :: nat

record file_env =
  fe_node :: NodeInfo
  fe_db :: db_env
  gen_uuid :: "nat \<Rightarrow> string"
  clock :: "nat \<Rightarrow> int"
  byte_size :: "FileData \<Rightarrow> nat"
  reply_byte_size :: "FileDataReply \<Rightarrow> nat"
  net_put :: "nat \<Rightarrow> nat \<Rightarrow> bool"
  net_polls :: "nat \<Rightarrow> nat \<Rightarrow> FileDataReply list list"

abbreviation ft_info :: "file_topic \<Rightarrow> TopicInfo" where
  "ft_info st \<equiv> topic_info (ft_base st)"

definition push_reply :: "FileDataReply \<Rightarrow> file_topic \<Rightarrow> file_topic" where
  "push_reply r st = st\<lparr>reply_queue := reply_queue st @ [r]\<rparr>"

section \<open>Sending\<close>

definition send_file_data :: "file_env \<Rightarrow> bool \<Rightarrow> FileData \<Rightarrow> file_topic \<Rightarrow> bool \<times> file_topic" where
  "send_file_data env put_ok fd st =
     (if put_ok
      then (True, st\<lparr>file_out := file_out st @ [fd],
             ft_base := stat_writer_mon_data (gen_uuid env (ft_tick st)) (clock env (ft_tick st))
               (byte_size env fd) (fd_to_node_id fd) (ft_base st),
             ft_tick := Suc (ft_tick st)\<rparr>)
      else (False, st))"

definition send_reply :: "file_env \<Rightarrow> bool \<Rightarrow> FileDataReply \<Rightarrow> file_topic \<Rightarrow> bool \<times> file_topic" where
  "send_reply env put_ok r st =
     (if put_ok
      then (True, st\<lparr>reply_out := reply_out st @ [r],
             ft_base := stat_reply_writer_mon_data (gen_uuid env (ft_tick st)) (clock env (ft_tick st))
               (reply_byte_size env r) (fr_to_node_id r) (ft_base st),
             ft_tick := Suc (ft_tick st)\<rparr>)
      else (False, st))"

text \<open>
  The loop that waits for the reply to block \<open>n\<close>: at every poll the replies that have arrived
  since the last one are in the queue, one is taken and dropped unless it is for block \<open>n\<close>.
\<close>

fun wait_reply :: "nat \<Rightarrow> FileDataReply list list \<Rightarrow> FileDataReply list \<Rightarrow> bool \<times> FileDataReply list" where
  "wait_reply n [] q = (False, q)"
| "wait_reply n (arrived # polls) q =
     (case q @ arrived of
        [] \<Rightarrow> wait_reply n polls []
      | r # rest \<Rightarrow> if fr_block_seq r = n then (True, rest) else wait_reply n polls rest)"

text \<open>
  The retry loop of \<open>sendOneBlock\<close>: \<open>True\<close> when a reply came, \<open>False\<close> when \<open>retryCount\<close> has
  passed \<open>fileMaxReTry_\<close>.
\<close>

definition block_timeout :: "file_env \<Rightarrow> FileData \<Rightarrow> int" where
  "block_timeout env fd = (if fd_is_end fd then fileBlockLastTimeout (fe_node env) * 1000
     else fileBlockTimeout (fe_node env) * 1000)"

definition polls_of :: "file_env \<Rightarrow> FileData \<Rightarrow> nat \<Rightarrow> nat \<Rightarrow> FileDataReply list list" where
  "polls_of env fd n k = (if 0 < block_timeout env fd then net_polls env n k else [])"

function send_retry :: "file_env \<Rightarrow> nat \<Rightarrow> FileData \<Rightarrow> nat \<Rightarrow> file_topic \<Rightarrow> bool \<times> file_topic" where
  "send_retry env n fd k st =
     (if int k \<le> fileMaxReTry (fe_node env)
      then (case send_file_data env (net_put env n k) fd (st\<lparr>reply_queue := []\<rparr>) of
              (False, st1) \<Rightarrow> send_retry env n fd (Suc k) st1
            | (True, st1) \<Rightarrow>
                (case wait_reply n (polls_of env fd n k) (reply_queue st1) of
                   (True, q) \<Rightarrow> (True, st1\<lparr>reply_queue := q\<rparr>)
                 | (False, q) \<Rightarrow> send_retry env n fd (Suc k) (st1\<lparr>reply_queue := q\<rparr>)))
      else (False, st))"
  by pat_completeness auto
termination
  by (relation "measure (\<lambda>(env, n, fd, k, st). nat (fileMaxReTry (fe_node env) + 1 - int k))") auto

declare send_retry.simps [simp del]

text \<open>
  \<open>sendOneBlock\<close>: the result, the value of \<open>retFlag\<close> and the state. \<open>size\<close> is a
  \<open>uint32_t\<close>, so the length \<open>-1\<close> of a missing block file becomes \<open>2 ^ 32 - 1\<close>; what \<open>fread\<close>
  leaves of the buffer is zero.
\<close>

definition read_block :: "nat \<Rightarrow> fnode \<Rightarrow> bytes" where
  "read_block n nd = (let got = take n (stream_bytes nd) in got @ replicate (n - length got) (CHR 0x00))"

definition fill_file_data ::
    "file_env \<Rightarrow> string \<Rightarrow> string \<Rightarrow> string \<Rightarrow> string \<Rightarrow> nat \<Rightarrow> nat \<Rightarrow> int \<Rightarrow> nat \<Rightarrow> string \<Rightarrow> bool
       \<Rightarrow> file_topic \<Rightarrow> FileData \<Rightarrow> FileData" where
  "fill_file_data env uuid toNodeId recvfile saveFileName len nCount fileSize fileNum subDir sendOne st fd =
     fd\<lparr>fd_uuid := uuid, fd_src_node_id := nodeId (ft_info st), fd_to_node_id := toNodeId,
        fd_file_name := recvfile, fd_save_file_name := saveFileName, fd_sub_dir := subDir,
        fd_block_content_len := len, fd_file_total_size := to_uint64 fileSize,
        fd_block_seq := nCount, fd_total_block_num := fileNum,
        fd_is_end := (sendOne \<or> nCount = to_uint64 (int fileNum - 1)),
        fd_f_modify_time := clock env (ft_tick st), fd_transfer_id := ''.'', fd_md5 := ''.''\<rparr>"

definition sendOneBlock ::
    "file_env \<Rightarrow> FileData \<Rightarrow> string \<Rightarrow> string \<Rightarrow> string \<Rightarrow> string \<Rightarrow> string \<Rightarrow> nat \<Rightarrow> int \<Rightarrow> nat \<Rightarrow> string
       \<Rightarrow> bool \<Rightarrow> file_topic \<Rightarrow> (bool \<times> bool \<times> FileData) \<times> file_topic" where
  "sendOneBlock env fileData uuid toNodeId recvfile saveFileName sendfile_tmp nCount fileSize fileNum
     subDir sendOne st =
     (let tmp_fileName = sendfile_tmp @ to_string nCount;
          len = to_uint32 (GetFileLength tmp_fileName (ft_disk st));
          fd = fill_file_data env uuid toNodeId recvfile saveFileName len nCount fileSize fileNum
                 subDir sendOne st fileData
      in if 0 < len
         then case open_in (ft_disk st) tmp_fileName of
             None \<Rightarrow> ((False, False, fd), st)
           | Some nd \<Rightarrow>
               (let fd' = fd\<lparr>fd_block_content := read_block len nd\<rparr>;
                    (replied, st') = send_retry env nCount fd' 0 st
                in if replied
                   then if fd_is_end fd' then ((True, True, fd'), st') else ((False, False, fd'), st')
                   else ((False, True, fd'), st'))
         else ((True, True, fd), st))"

definition sendOneFile ::
    "file_env \<Rightarrow> string \<Rightarrow> string \<Rightarrow> string \<Rightarrow> string \<Rightarrow> int \<Rightarrow> int \<Rightarrow> int \<Rightarrow> file_topic
       \<Rightarrow> (file_topic, bool) run" where
  "sendOneFile env fileName uuid toNodeId subDir blockNum totalNum fileTotalSize st =
     (case Strings.subreplace fileName ''./'' '''' of
        None \<Rightarrow> Hang
      | Some sendfile \<Rightarrow>
          (let ((retVal, _, _), st') = sendOneBlock env (empty_file_data\<lparr>fd_file_name := sendfile\<rparr>)
             uuid toNodeId sendfile sendfile (sendfile @ ''_tmp/'') (to_uint64 blockNum) fileTotalSize
             (to_uint64 totalNum) subDir True st
           in Fin st' retVal))"

text \<open>The loop of \<open>send_file\<close> over the block numbers.\<close>

function send_blocks ::
    "file_env \<Rightarrow> FileData \<Rightarrow> string \<Rightarrow> string \<Rightarrow> string \<Rightarrow> string \<Rightarrow> string \<Rightarrow> nat \<Rightarrow> int \<Rightarrow> nat \<Rightarrow> string
       \<Rightarrow> file_topic \<Rightarrow> bool \<times> file_topic" where
  "send_blocks env fileData uuid toNodeId recvfile saveFileName sendfile_tmp nCount fileSize fileNum subDirs st =
     (if nCount < fileNum
      then (case sendOneBlock env fileData uuid toNodeId recvfile saveFileName sendfile_tmp nCount
                   fileSize fileNum subDirs False st of
              ((retVal, retFlag, fd), st') \<Rightarrow>
                if retFlag then (retVal, st')
                else send_blocks env fd uuid toNodeId recvfile saveFileName sendfile_tmp (Suc nCount)
                       fileSize fileNum subDirs st')
      else (False, st))"
  by pat_completeness auto
termination
  by (relation "measure (\<lambda>(env, fd, u, t, r, s, tmp, nCount, fs, fileNum, sd, st). fileNum - nCount)") auto

declare send_blocks.simps [simp del]

text \<open>\<open>fileNum\<close>, computed in \<open>int\<close> times \<open>long long\<close>: dividing by a zero block size traps.\<close>

definition file_num :: "int \<Rightarrow> int \<Rightarrow> nat outcome" where
  "file_num fileSize splitSize =
     (let blk = splitSize * 1024
      in if \<not> in_int32 blk then UB ''signed overflow''
         else if blk = 0 then UB ''division by zero''
         else Ret (to_uint64 (c_div fileSize blk + (if c_mod fileSize blk > 0 then 1 else 0))))"

definition send_file ::
    "file_env \<Rightarrow> string \<Rightarrow> string \<Rightarrow> string \<Rightarrow> string \<Rightarrow> string \<Rightarrow> file_topic \<Rightarrow> (file_topic, bool) run" where
  "send_file env fileName srcNodeId uuid toNodeId subDirs st =
     (case (Strings.subreplace fileName ''./'' '''', Strings.subreplace subDirs ''./'' '''') of
        (Some sendfile, Some subFileName) \<Rightarrow>
          (let node = fe_node env;
               sendfile_tmp = ''send/'' @ ni_nodeId node @ ''/'' @ sendfile @ ''_tmp/'';
               recvfile = ''recv/'' @ srcNodeId @ ''/'' @ toNodeId @ ''/'' @ sendfile;
               fileSize = GetFileLength sendfile (ft_disk st)
           in if fileSize < 0 then Fin st False
              else case mkdir sendfile_tmp (ft_disk st) of
                (False, fs1) \<Rightarrow> Exc (st\<lparr>ft_disk := fs1\<rparr>) ''create_directories''
              | (True, fs1) \<Rightarrow>
                  (case file_split sendfile (fileSplitSize node) sendfile_tmp fs1 of
                     None \<Rightarrow> Hang
                   | Some (UB e) \<Rightarrow> Crash e
                   | Some (Throw e) \<Rightarrow> Exc (st\<lparr>ft_disk := fs1\<rparr>) e
                   | Some (Ret (_, fs2)) \<Rightarrow>
                       (case file_num fileSize (fileSplitSize node) of
                          UB e \<Rightarrow> Crash e
                        | Throw e \<Rightarrow> Exc (st\<lparr>ft_disk := fs2\<rparr>) e
                        | Ret fileNum \<Rightarrow>
                            (let (r, st') = send_blocks env (empty_file_data\<lparr>fd_file_name := sendfile\<rparr>)
                               uuid toNodeId recvfile (ni_nodeId node @ ''/'' @ subFileName) sendfile_tmp
                               0 fileSize fileNum subDirs (st\<lparr>ft_disk := fs2\<rparr>)
                             in Fin st' r))))
      | _ \<Rightarrow> Hang)"

section \<open>Recording replies\<close>

text \<open>
  The statements of \<open>file_data_reply_in\<close>, formatted into \<open>char[1024]\<close> buffers. \<open>run_sql\<close> is
  \<open>if (db != NULL) \{ ret = db->excuteSql(...); if (ret < 0) return false; \}\<close>: it gives \<open>False\<close>
  for the early return.
\<close>

definition insert_reply_sql :: "FileDataReply \<Rightarrow> nat \<Rightarrow> string \<Rightarrow> nat \<Rightarrow> string" where
  "insert_reply_sql r seq descr status =
     ''insert into file_data_reply (`reply_uuid`,`file_name`,`to_node_id`,`src_node_id`,`sub_dir`,`current_block_num`,`total_block_num`,`status_description`,`file_data_status_id`) values(''
     @ quoted (fr_reply_uuid r) @ '','' @ quoted (fr_file_name r) @ '','' @ quoted (fr_to_node_id r) @ '',''
     @ quoted (fr_src_node_id r) @ '','' @ quoted (fr_sub_dir r) @ '','' @ to_string seq @ '',''
     @ to_string (fr_total_block_num r) @ '','' @ quoted descr @ '','' @ to_string status @ '')''"

definition where_reply :: "FileDataReply \<Rightarrow> string" where
  "where_reply r = ''  where reply_uuid='' @ quoted (fr_reply_uuid r) @ '' and src_node_id=''
     @ quoted (fr_src_node_id r)"

definition update_reply_sql :: "FileDataReply \<Rightarrow> nat \<Rightarrow> nat \<Rightarrow> string" where
  "update_reply_sql r seq status = ''update file_data_reply set current_block_num='' @ to_string seq
     @ '',file_data_status_id='' @ to_string status @ where_reply r"

definition progress_sql :: "FileDataReply \<Rightarrow> nat \<Rightarrow> string" where
  "progress_sql r seq = ''update file_data_reply set progress='' @ quoted (to_string seq)
     @ '',comm_status_id=4'' @ where_reply r"

definition finish_sql :: "FileDataReply \<Rightarrow> nat \<Rightarrow> string \<Rightarrow> string" where
  "finish_sql r seq descr = ''update file_data_reply set current_block_num='' @ to_string seq
     @ '', status_description='' @ quoted descr @ '',file_data_status_id=5'' @ where_reply r"

definition run_sql :: "file_env \<Rightarrow> string \<Rightarrow> file_topic \<Rightarrow> (file_topic, bool) run" where
  "run_sql env sql st =
     (if db_present (fe_db env)
      then Fin (st\<lparr>ft_sqls := ft_sqls st @ [sql]\<rparr>) (0 \<le> db_exec (fe_db env) sql)
      else Fin st True)"

definition format_and_run :: "file_env \<Rightarrow> string \<Rightarrow> file_topic \<Rightarrow> (file_topic, bool) run" where
  "format_and_run env sql st =
     (case sprintf_1024 sql of Ret s \<Rightarrow> run_sql env s st | Throw e \<Rightarrow> Exc st e | UB e \<Rightarrow> Crash e)"

definition file_data_reply_in :: "file_env \<Rightarrow> FileDataReply \<Rightarrow> file_topic \<Rightarrow> (file_topic, bool) run" where
  "file_data_reply_in env r st =
     (let curBlockSeq = to_uint64 (int (fr_block_seq r) + 1); commStatusId = to_uint64 (fr_state r);
          fileName = fr_file_name r
      in if commStatusId = 1
         then format_and_run env
                (if curBlockSeq = 1
                 then insert_reply_sql r curBlockSeq
                        (fileName @ '' '' @ to_string curBlockSeq @ '' Send ...'') commStatusId
                 else update_reply_sql r curBlockSeq commStatusId) st
         else if commStatusId = 3
         then format_and_run env (update_reply_sql r curBlockSeq commStatusId) st
         else if commStatusId = 4
         then bind_run (format_and_run env (progress_sql r curBlockSeq) st)
                (\<lambda>st ok. if ok then Fin st True else Crash ''fileReplySql is uninitialised'')
         else if commStatusId = 5
         then let descr = fileName @ '' Send sucess!'' in
           bind_run (if curBlockSeq = 1
                     then format_and_run env (insert_reply_sql r curBlockSeq descr commStatusId) st
                     else Fin st True)
             (\<lambda>st ok. if ok then format_and_run env (finish_sql r curBlockSeq descr) st else Fin st False)
         else Fin st True)"

section \<open>Receiving\<close>

text \<open>
  \<open>move_clear_tmp\<close>: the reply as it leaves it, \<open>retFlag\<close> being 2 exactly when the sizes agree.
\<close>

definition save_dirs :: "string list \<Rightarrow> string" where
  "save_dirs paths = fold (\<lambda>p acc. acc @ ''/'' @ p) (butlast (tl paths)) ''.''"

definition move_clear_tmp ::
    "nat \<Rightarrow> FileData \<Rightarrow> string \<Rightarrow> string \<Rightarrow> FileDataReply \<Rightarrow> file_topic
       \<Rightarrow> (file_topic, FileDataReply \<times> int) run" where
  "move_clear_tmp len fd mergeFileName tmpDir reply st =
     (if len = fd_file_total_size fd
      then let done = (\<lambda>st. let reply' = reply\<lparr>fr_is_end := True, fr_state := 5\<rparr>
                            in Fin (push_reply reply' st) (reply', 2))
        in if fd_save_file_name fd \<noteq> []
           then let paths = Strings.split (fd_save_file_name fd) (CHR ''/'');
                    pathName = (if length paths = 1 then paths ! 0 else c_str (fd_sub_dir fd));
                    (ok, fs1) = (if length paths > 1 then mkdir (save_dirs paths) (ft_disk st)
                                 else (True, ft_disk st))
             in if ok
                then done (st\<lparr>ft_disk := remove_all_files tmpDir (snd (move mergeFileName pathName fs1))\<rparr>)
                else Exc (st\<lparr>ft_disk := fs1\<rparr>) ''create_directories''
           else done st
      else Fin st (reply, 1))"

text \<open>The last block: merge, then one of four outcomes; a missing block gives no reply.\<close>

definition receive_end ::
    "FileData \<Rightarrow> string \<Rightarrow> FileDataReply \<Rightarrow> file_topic \<Rightarrow> (file_topic, FileDataReply) run" where
  "receive_end fd tmpDir reply st =
     (case merge tmpDir (to_int32 (int (fd_total_block_num fd))) (ft_disk st) of
        None \<Rightarrow> Hang
      | Some (result, fs1) \<Rightarrow>
          (let st1 = st\<lparr>ft_disk := fs1\<rparr>; mergeFileName = tmpDir @ ''/merge.out''
           in if result = 0
              then bind_run (move_clear_tmp (to_uint64 (GetFileLength mergeFileName fs1)) fd
                     mergeFileName tmpDir reply st1) (\<lambda>st (r, _). Fin st r)
              else if 0 < result
              then Fin st1 (reply\<lparr>fr_block_seq := to_uint64 result, fr_is_end := True, fr_state := 3\<rparr>)
              else let r = reply\<lparr>fr_is_end := True, fr_state := 4\<rparr> in Fin (push_reply r st1) r))"

definition make_reply :: "string \<Rightarrow> string \<Rightarrow> FileData \<Rightarrow> FileDataReply" where
  "make_reply uuid name fd = \<lparr>fr_uuid = uuid, fr_src_node_id = fd_to_node_id fd,
     fr_to_node_id = fd_src_node_id fd, fr_file_name = name, fr_reply_uuid = fd_uuid fd,
     fr_sub_dir = [], fr_is_end = False, fr_block_seq = fd_block_seq fd,
     fr_total_block_num = fd_total_block_num fd, fr_file_total_size = fd_file_total_size fd,
     fr_state = 1\<rparr>"

definition receive_block :: "file_env \<Rightarrow> FileData \<Rightarrow> file_topic \<Rightarrow> (file_topic, unit) run" where
  "receive_block env fd st =
     (let tmpDir = fd_file_name fd @ ''_tmp'';
          tmpFileName = tmpDir @ ''/'' @ to_string (fd_block_seq fd)
      in case mkdir tmpDir (ft_disk st) of
           (False, fs1) \<Rightarrow> Exc (st\<lparr>ft_disk := fs1\<rparr>) ''create_directories''
         | (True, fs1) \<Rightarrow>
             (let st1 = st\<lparr>ft_disk := write_file tmpFileName (fd_block_content fd) fs1,
                           ft_tick := Suc (ft_tick st)\<rparr>;
                  fileNames = Strings.split (fd_file_name fd) (CHR ''/'')
              in if fileNames = [] then Crash ''fileNames[size - 1]''
                 else let reply = make_reply (gen_uuid env (ft_tick st)) (last fileNames) fd in
                   bind_run (if fd_is_end fd then receive_end fd tmpDir reply st1
                             else Fin (push_reply reply st1) reply)
                     (\<lambda>st r. if fd_src_node_id fd \<noteq> monNodeId (ft_info st)
                             then bind_run (file_data_reply_in env r st) (\<lambda>st _. Fin st ())
                             else Fin st ())))"

definition handle_file_data :: "file_env \<Rightarrow> FileData \<Rightarrow> file_topic \<Rightarrow> (file_topic, unit) run" where
  "handle_file_data env fd st =
     catch_run (receive_block env fd
        (st\<lparr>ft_base := stat_reader_mon_data (gen_uuid env (ft_tick st)) (clock env (ft_tick st))
               (topic (ft_info st)) (fd_src_node_id fd) (byte_size env fd) (ft_base st),
            ft_tick := Suc (ft_tick st)\<rparr>))
       (\<lambda>st e. Fin st ())"

section \<open>Replies and the two worker threads\<close>

definition handle_reply :: "file_env \<Rightarrow> FileDataReply \<Rightarrow> file_topic \<Rightarrow> (file_topic, unit) run" where
  "handle_reply env r st =
     (let st1 = st\<lparr>ft_base := stat_reply_reader_mon_data (gen_uuid env (ft_tick st)) (clock env (ft_tick st))
               (topicReply (ft_info st)) (fr_src_node_id r) (reply_byte_size env r) (ft_base st),
            ft_tick := Suc (ft_tick st)\<rparr>
      in catch_run
           (bind_run (if ni_group (fe_node env) = ''mgr'' then file_data_reply_in env r st1 else Fin st1 True)
              (\<lambda>st _. Fin (push_reply r st) ()))
           (\<lambda>st e. Fin st ()))"

text \<open>One turn of the reader's loop: at most one queued reply is sent; one without uuid is dropped.\<close>

definition reader_turn :: "file_env \<Rightarrow> bool \<Rightarrow> file_topic \<Rightarrow> file_topic" where
  "reader_turn env put_ok st =
     (if needReply (ft_info st)
      then case reply_queue st of
          [] \<Rightarrow> st
        | r # rest \<Rightarrow>
            (let st1 = st\<lparr>reply_queue := rest\<rparr>
             in if fr_uuid r \<noteq> [] then snd (send_reply env put_ok r st1) else st1)
      else st)"

text \<open>
  The database tasks of a managing node's writer: the rows are \<open>(file_name, src_node_id,
  to_node_id, uuid, sub_dir)\<close>, the last one \<open>None\<close> for NULL, which is read as a dot.
\<close>

definition update_task_sql :: "nat \<Rightarrow> string \<Rightarrow> string" where
  "update_task_sql status uuid =
     ''update file_data set file_data_status_id='' @ to_string status @ '' where uuid=''
     @ (CHR 0x27 # uuid @ [CHR 0x27])"

definition failed_task_sql :: "string \<Rightarrow> string \<Rightarrow> string \<Rightarrow> string \<Rightarrow> string" where
  "failed_task_sql fileName srcNodeId toNodeId uuid =
     (let q = (\<lambda>s. CHR 0x27 # s @ [CHR 0x27])
      in ''insert into file_data_reply(file_name,to_node_id,src_node_id,reply_uuid,total_block_num,current_block_num,status_description,file_data_status_id)values(''
         @ q fileName @ '','' @ q srcNodeId @ '','' @ q toNodeId @ '','' @ q uuid @ '',0,0,''
         @ q (fileName @ '' Read Exception!'') @ '',6)'')"

text \<open>\<open>db->excuteSql\<close> whose result is not looked at; with no database it is a null dereference.\<close>

definition exec_sql :: "file_env \<Rightarrow> string \<Rightarrow> file_topic \<Rightarrow> (file_topic, unit) run" where
  "exec_sql env sql st =
     (if db_present (fe_db env)
      then Fin (st\<lparr>ft_sqls := ft_sqls st @ [sql]\<rparr>) ()
      else Crash ''null DbBase'')"

fun file_tasks ::
    "file_env \<Rightarrow> (string \<times> string \<times> string \<times> string \<times> string option) list \<Rightarrow> file_topic
       \<Rightarrow> (file_topic, unit) run" where
  "file_tasks env [] st = Fin st ()"
| "file_tasks env ((fileName, srcNodeId, toNodeId, uuid, sub) # rows) st =
     bind_run (exec_sql env (update_task_sql 1 uuid) st) (\<lambda>st _.
     bind_run (send_file env fileName srcNodeId uuid toNodeId (case sub of Some s \<Rightarrow> s | None \<Rightarrow> ''.'') st)
       (\<lambda>st success.
     bind_run (exec_sql env (update_task_sql (if success then 2 else 6) uuid) st) (\<lambda>st _.
     bind_run (if success then Fin st ()
               else exec_sql env (failed_task_sql fileName srcNodeId toNodeId uuid) st) (\<lambda>st _.
     file_tasks env rows st))))"

section \<open>What the sender puts on the wire\<close>

text \<open>A reply for block \<open>n\<close> is found by the polls exactly when it comes to the front in time.\<close>

definition answered :: "file_env \<Rightarrow> FileData \<Rightarrow> nat \<Rightarrow> nat \<Rightarrow> bool" where
  "answered env fd n k \<longleftrightarrow> net_put env n k \<and> fst (wait_reply n (polls_of env fd n k) [])"

text \<open>The state after attempt \<open>k\<close>.\<close>

definition after_attempt :: "file_env \<Rightarrow> FileData \<Rightarrow> nat \<Rightarrow> nat \<Rightarrow> file_topic \<Rightarrow> file_topic" where
  "after_attempt env fd n k st =
     (if net_put env n k
      then (snd (send_file_data env True fd (st\<lparr>reply_queue := []\<rparr>)))
             \<lparr>reply_queue := snd (wait_reply n (polls_of env fd n k) [])\<rparr>
      else st\<lparr>reply_queue := []\<rparr>)"

lemma after_attempt_frame [simp]:
  "file_out (after_attempt env fd n k st) = file_out st @ (if net_put env n k then [fd] else [])"
  "ft_disk (after_attempt env fd n k st) = ft_disk st"
  "ft_sqls (after_attempt env fd n k st) = ft_sqls st"
  "reply_out (after_attempt env fd n k st) = reply_out st"
  "topic_info (ft_base (after_attempt env fd n k st)) = topic_info (ft_base st)"
  by (simp_all add: after_attempt_def send_file_data_def)

lemma send_retry_step:
  "send_retry env n fd k st =
     (if int k \<le> fileMaxReTry (fe_node env)
      then if answered env fd n k then (True, after_attempt env fd n k st)
           else send_retry env n fd (Suc k) (after_attempt env fd n k st)
      else (False, st))"
  by (subst send_retry.simps)
    (auto simp: send_file_data_def answered_def after_attempt_def split: prod.splits bool.splits)

lemma send_retry_induct [case_names stop answered again]:
  assumes "\<And>k st. fileMaxReTry (fe_node env) < int k \<Longrightarrow> P k st"
    and "\<And>k st. int k \<le> fileMaxReTry (fe_node env) \<Longrightarrow> answered env fd n k \<Longrightarrow> P k st"
    and "\<And>k st. int k \<le> fileMaxReTry (fe_node env) \<Longrightarrow> \<not> answered env fd n k \<Longrightarrow>
      P (Suc k) (after_attempt env fd n k st) \<Longrightarrow> P k st"
  shows "P k st"
proof (induction "nat (fileMaxReTry (fe_node env) + 1 - int k)" arbitrary: k st rule: less_induct)
  case (less k st)
  show ?case
  proof (cases "int k \<le> fileMaxReTry (fe_node env) \<and> \<not> answered env fd n k")
    case True
    then have "P (Suc k) (after_attempt env fd n k st)" by (intro less) simp
    with True assms(3) show ?thesis by blast
  next
    case False
    with assms(1,2) show ?thesis by (meson not_le_imp_less)
  qed
qed

text \<open>The retries succeed exactly when one of the allowed attempts is answered.\<close>

lemma send_retry_iff:
  "fst (send_retry env n fd k st) \<longleftrightarrow> (\<exists>j \<ge> k. int j \<le> fileMaxReTry (fe_node env) \<and> answered env fd n j)"
proof (induction k st rule: send_retry_induct [of env _ fd n])
  case (stop k st)
  then show ?case by (subst send_retry_step) auto
next
  case (answered k st)
  then show ?case by (subst send_retry_step) auto
next
  case (again k st)
  then show ?case
    by (subst send_retry_step) (simp, metis Suc_leD le_antisym not_less_eq_eq)
qed

text \<open>
  The retries send copies of the one message, at least one when they succeed and never more
  than the attempts left; the disk, the statements and the replies sent stay as they are.
\<close>

lemma send_retry_out:
  "\<exists>j. file_out (snd (send_retry env n fd k st)) = file_out st @ replicate j fd \<and>
     int j \<le> max 0 (fileMaxReTry (fe_node env) + 1 - int k) \<and>
     (fst (send_retry env n fd k st) \<longrightarrow> 0 < j)"
proof (induction k st rule: send_retry_induct [of env _ fd n])
  case (stop k st)
  then show ?case by (simp add: send_retry_step [of _ _ _ k])
next
  case (answered k st)
  then have "net_put env n k" by (simp add: answered_def)
  with answered show ?case
    by (simp add: send_retry_step [of _ _ _ k]) (intro exI [of _ 1], simp)
next
  case (again k st)
  then obtain j where
    "file_out (snd (send_retry env n fd (Suc k) (after_attempt env fd n k st)))
       = file_out st @ (if net_put env n k then [fd] else []) @ replicate j fd"
    "int j \<le> max 0 (fileMaxReTry (fe_node env) + 1 - int (Suc k))"
    "fst (send_retry env n fd (Suc k) (after_attempt env fd n k st)) \<longrightarrow> 0 < j" by auto
  with again(1,2) show ?case
    unfolding send_retry_step [of _ _ _ k]
    by (intro exI [of _ "(if net_put env n k then 1 else 0) + j"]) (simp add: replicate_add)
qed

lemma send_retry_frame:
  "ft_disk (snd (send_retry env n fd k st)) = ft_disk st \<and>
   ft_sqls (snd (send_retry env n fd k st)) = ft_sqls st \<and>
   reply_out (snd (send_retry env n fd k st)) = reply_out st \<and>
   topic_info (ft_base (snd (send_retry env n fd k st))) = topic_info (ft_base st)"
proof (induction k st rule: send_retry_induct [of env _ fd n])
  case (stop k st)
  then show ?case by (simp add: send_retry_step [of _ _ _ k])
next
  case (answered k st)
  then show ?case by (simp add: send_retry_step [of _ _ _ k])
next
  case (again k st)
  then show ?case by (simp add: send_retry_step [of _ _ _ k])
qed

text \<open>
  A transfer: the addressing fields, the bytes of the file and the block size, and the message
  that carries block \<open>i\<close> (sent at time \<open>t\<close>).
\<close>

record xfer =
  x_uuid :: string
  x_src :: string
  x_to :: string
  x_recv :: string
  x_save :: string
  x_sub :: string
  x_bytes :: bytes
  x_block :: nat

definition x_count :: "xfer \<Rightarrow> nat" where
  "x_count x = block_count (x_block x) (length (x_bytes x))"

definition block_msg :: "xfer \<Rightarrow> int \<Rightarrow> nat \<Rightarrow> FileData" where
  "block_msg x t i = \<lparr>fd_uuid = x_uuid x, fd_src_node_id = x_src x, fd_to_node_id = x_to x,
     fd_file_name = x_recv x, fd_save_file_name = x_save x, fd_sub_dir = x_sub x,
     fd_is_end = (Suc i = x_count x), fd_file_total_size = length (x_bytes x), fd_f_modify_time = t,
     fd_block_seq = i, fd_total_block_num = x_count x,
     fd_block_content = block_of (x_block x) (x_bytes x) i,
     fd_block_content_len = length (block_of (x_block x) (x_bytes x) i),
     fd_transfer_id = ''.'', fd_md5 = ''.''\<rparr>"

text \<open>Block \<open>m\<close> is answered within the retries.\<close>

definition block_answered :: "file_env \<Rightarrow> xfer \<Rightarrow> nat \<Rightarrow> bool" where
  "block_answered env x m \<longleftrightarrow> (\<exists>k. int k \<le> fileMaxReTry (fe_node env) \<and> answered env (block_msg x 0 m) m k)"

text \<open>The wire: every block from \<open>i\<close> on as a run of copies, with their number and time.\<close>

fun runs_from :: "xfer \<Rightarrow> nat \<Rightarrow> (nat \<times> int) list \<Rightarrow> FileData list" where
  "runs_from x i [] = []"
| "runs_from x i ((j, t) # jts) = replicate j (block_msg x t i) @ runs_from x (Suc i) jts"

lemma answered_time: "answered env (block_msg x t m) m k = answered env (block_msg x 0 m) m k"
  by (simp add: answered_def polls_of_def block_timeout_def block_msg_def)

lemma read_block_file: "length c = n \<Longrightarrow> read_block n (FileN c) = c"
  by (simp add: read_block_def stream_bytes_def)

definition wire_ok :: "xfer \<Rightarrow> bool" where
  "wire_ok x \<longleftrightarrow> 0 < x_block x \<and> x_block x < 2 ^ 32 \<and> x_bytes x \<noteq> [] \<and> length (x_bytes x) < 2 ^ 63"

lemma x_count_bounds:
  assumes "wire_ok x"
  shows "0 < x_count x" and "x_count x \<le> length (x_bytes x)"
proof -
  show "0 < x_count x"
    using assms block_count_step [of "x_block x" "length (x_bytes x)"]
    by (simp add: wire_ok_def x_count_def)
  have "n div B + (if n mod B > 0 then 1 else 0) \<le> n" if "0 < B" for n B :: nat
  proof -
    have "n div B \<le> n div B * B" using that by simp
    moreover have "n div B * B + n mod B = n" by simp
    ultimately have "n div B + n mod B \<le> n" by linarith
    then show ?thesis by (cases "n mod B") simp_all
  qed
  with assms show "x_count x \<le> length (x_bytes x)"
    by (simp add: wire_ok_def x_count_def block_count_def)
qed

lemma block_len_32:
  assumes "wire_ok x" and "i < x_count x"
  shows "0 < length (block_of (x_block x) (x_bytes x) i)" and "length (block_of (x_block x) (x_bytes x) i) < 2 ^ 32"
  using block_of_nonempty [of "x_block x" i "x_bytes x"] assms
  by (auto simp: wire_ok_def x_count_def block_of_def)

lemma sendOneBlock_ready:
  assumes "wire_ok x" and "i < x_count x" and "d \<noteq> []"
    and "file_content (ft_disk st) (block_path d i) = Some (block_of (x_block x) (x_bytes x) i)"
    and "nodeId (ft_info st) = x_src x"
  shows "sendOneBlock env fd (x_uuid x) (x_to x) (x_recv x) (x_save x) (d @ ''/'') i
      (int (length (x_bytes x))) (x_count x) (x_sub x) False st =
    (let m = block_msg x (clock env (ft_tick st)) i; (replied, st') = send_retry env i m 0 st
     in ((replied \<and> Suc i = x_count x, replied \<longrightarrow> Suc i = x_count x, m), st'))"
proof -
  let ?b = "block_of (x_block x) (x_bytes x) i"
  note o = open_in_block(1) [OF assms(3,4)]
  have len: "to_uint32 (GetFileLength ((d @ ''/'') @ to_string i) (ft_disk st)) = length ?b"
    using o block_len_32 [OF assms(1,2)] by (simp add: GetFileLength_def del: append_assoc)
  have "to_uint64 (int (x_count x) - 1) = x_count x - 1"
  proof -
    have "length (x_bytes x) < 2 ^ 63" using assms(1) by (simp only: wire_ok_def)
    then have "x_count x - 1 < 2 ^ 64" using x_count_bounds(2) [OF assms(1)] by simp
    from to_uint_id(1) [OF this] x_count_bounds(1) [OF assms(1)] show ?thesis by (simp add: of_nat_diff)
  qed
  then have "i = to_uint64 (int (x_count x) - 1) \<longleftrightarrow> Suc i = x_count x" using assms(2) by auto
  moreover have "to_uint64 (int (length (x_bytes x))) = length (x_bytes x)"
    using assms(1) by (simp add: wire_ok_def)
  ultimately have fill: "(fill_file_data env (x_uuid x) (x_to x) (x_recv x) (x_save x) (length ?b) i
      (int (length (x_bytes x))) (x_count x) (x_sub x) False st fd)\<lparr>fd_block_content := ?b\<rparr>
    = block_msg x (clock env (ft_tick st)) i"
    using assms(5) by (simp add: fill_file_data_def block_msg_def)
  have "fd_is_end (block_msg x t i) \<longleftrightarrow> Suc i = x_count x" for t by (simp add: block_msg_def)
  then show ?thesis
    unfolding sendOneBlock_def len Let_def o
    using block_len_32(1) [OF assms(1,2)] fill
    by (auto simp: read_block_file split: prod.splits)
qed

text \<open>The block files of a transfer are on the sender's disk in directory \<open>d\<close>.\<close>

definition blocks_on_disk :: "xfer \<Rightarrow> string \<Rightarrow> fsys \<Rightarrow> bool" where
  "blocks_on_disk x d fs \<longleftrightarrow> d \<noteq> [] \<and>
     (\<forall>i < x_count x. file_content fs (block_path d i) = Some (block_of (x_block x) (x_bytes x) i))"

definition retry_limit :: "file_env \<Rightarrow> int" where
  "retry_limit env = max 0 (fileMaxReTry (fe_node env) + 1)"

definition sent_ok :: "file_env \<Rightarrow> xfer \<Rightarrow> nat \<Rightarrow> (nat \<times> int) list \<Rightarrow> bool \<Rightarrow> bool" where
  "sent_ok env x i jts r \<longleftrightarrow> length jts \<le> x_count x - i \<and> (\<forall>(j, t) \<in> set jts. int j \<le> retry_limit env) \<and>
     (r \<longrightarrow> length jts = x_count x - i \<and> (\<forall>(j, t) \<in> set jts. 0 < j)) \<and>
     (r \<longleftrightarrow> (\<forall>m. i \<le> m \<longrightarrow> m < x_count x \<longrightarrow> block_answered env x m))"

lemma send_retry_block:
  obtains j where "file_out (snd (send_retry env i (block_msg x t i) 0 st)) = file_out st @ replicate j (block_msg x t i)"
    and "int j \<le> retry_limit env" and "fst (send_retry env i (block_msg x t i) 0 st) \<longrightarrow> 0 < j"
    and "fst (send_retry env i (block_msg x t i) 0 st) \<longleftrightarrow> block_answered env x i"
proof -
  have "fst (send_retry env i (block_msg x t i) 0 st) \<longleftrightarrow> block_answered env x i"
    by (simp add: send_retry_iff block_answered_def answered_time [of env x t])
  then show thesis
    using that send_retry_out [of env i "block_msg x t i" 0 st] by (auto simp: retry_limit_def)
qed

lemma sent_ok_unanswered:
  assumes "i < x_count x" and "\<not> block_answered env x i" and "int j \<le> retry_limit env"
  shows "sent_ok env x i [(j, t)] False"
  using assms by (auto simp: sent_ok_def)

lemma sent_ok_last:
  assumes "Suc i = x_count x" and "block_answered env x i" and "int j \<le> retry_limit env" and "0 < j"
  shows "sent_ok env x i [(j, t)] True"
  using assms by (auto simp: sent_ok_def le_less_Suc_eq less_Suc_eq_le) (metis Suc_leI le_antisym less_Suc_eq_le)

lemma sent_ok_step:
  assumes "sent_ok env x (Suc i) jts r" and "i < x_count x" and "block_answered env x i"
    and "int j \<le> retry_limit env" and "0 < j"
  shows "sent_ok env x i ((j, t) # jts) r"
proof -
  have "(\<forall>m. i \<le> m \<longrightarrow> m < x_count x \<longrightarrow> block_answered env x m) \<longleftrightarrow>
      (\<forall>m. Suc i \<le> m \<longrightarrow> m < x_count x \<longrightarrow> block_answered env x m)"
    using assms(3) by (metis Suc_leD Suc_leI le_neq_implies_less)
  then show ?thesis using assms by (auto simp: sent_ok_def)
qed

lemma send_blocks_out:
  assumes "wire_ok x" and "i < x_count x" and "blocks_on_disk x d (ft_disk st)"
    and "nodeId (ft_info st) = x_src x"
  shows "\<exists>jts r st'. send_blocks env fd (x_uuid x) (x_to x) (x_recv x) (x_save x) (d @ ''/'') i
      (int (length (x_bytes x))) (x_count x) (x_sub x) st = (r, st') \<and>
    file_out st' = file_out st @ runs_from x i jts \<and> sent_ok env x i jts r \<and> ft_disk st' = ft_disk st"
  using assms(2-4)
proof (induction "x_count x - i" arbitrary: i fd st rule: less_induct)
  case less
  let ?m = "block_msg x (clock env (ft_tick st)) i"
  let ?s = "snd (send_retry env i ?m 0 st)" and ?rep = "fst (send_retry env i ?m 0 st)"
  from less.prems have "sendOneBlock env fd (x_uuid x) (x_to x) (x_recv x) (x_save x) (d @ ''/'') i
      (int (length (x_bytes x))) (x_count x) (x_sub x) False st =
      ((?rep \<and> Suc i = x_count x, ?rep \<longrightarrow> Suc i = x_count x, ?m), ?s)"
    using sendOneBlock_ready [OF assms(1), of i d st env fd]
    by (simp add: blocks_on_disk_def Let_def split_beta)
  then have step: "send_blocks env fd (x_uuid x) (x_to x) (x_recv x) (x_save x) (d @ ''/'') i
      (int (length (x_bytes x))) (x_count x) (x_sub x) st =
      (if ?rep \<longrightarrow> Suc i = x_count x then (?rep \<and> Suc i = x_count x, ?s)
       else send_blocks env ?m (x_uuid x) (x_to x) (x_recv x) (x_save x) (d @ ''/'') (Suc i)
         (int (length (x_bytes x))) (x_count x) (x_sub x) ?s)"
    using less.prems(1) by (simp add: send_blocks.simps [of _ _ _ _ _ _ _ i])
  obtain j where out: "file_out ?s = file_out st @ replicate j ?m" and j: "int j \<le> retry_limit env"
    and rep: "?rep \<longrightarrow> 0 < j" and ans: "?rep \<longleftrightarrow> block_answered env x i"
    by (rule send_retry_block)
  have disk: "ft_disk ?s = ft_disk st" and info: "nodeId (ft_info ?s) = nodeId (ft_info st)"
    by (simp_all add: send_retry_frame)
  consider (no) "\<not> ?rep" | (end_) "?rep" "Suc i = x_count x" | (more) "?rep" "Suc i < x_count x"
    using less.prems(1) by linarith
  then show ?case
  proof cases
    case no
    with sent_ok_unanswered [OF less.prems(1) _ j, of "clock env (ft_tick st)"] ans step out disk
    show ?thesis by (intro exI [of _ "[(j, clock env (ft_tick st))]"]) auto
  next
    case end_
    with sent_ok_last [OF end_(2) _ j, of "clock env (ft_tick st)"] ans rep step out disk
    show ?thesis by (intro exI [of _ "[(j, clock env (ft_tick st))]"]) auto
  next
    case more
    obtain jts r st' where IH: "send_blocks env ?m (x_uuid x) (x_to x) (x_recv x) (x_save x) (d @ ''/'') (Suc i)
        (int (length (x_bytes x))) (x_count x) (x_sub x) ?s = (r, st')"
      "file_out st' = file_out ?s @ runs_from x (Suc i) jts" "sent_ok env x (Suc i) jts r" "ft_disk st' = ft_disk ?s"
      using less.hyps [of "Suc i" ?s ?m] more(2) less.prems disk info by (auto simp: diff_less_mono2)
    from sent_ok_step [OF IH(3) less.prems(1) _ j, of "clock env (ft_tick st)"] more ans rep
    have "sent_ok env x i ((j, clock env (ft_tick st)) # jts) r" by simp
    with IH step more out disk show ?thesis
      by (intro exI [of _ "(j, clock env (ft_tick st)) # jts"] exI [of _ r] exI [of _ st']) simp
  qed
qed

end
