(* ===== verification/FileDelivery.thy ===== *)
theory FileDelivery
  imports FileTransfer
begin

text \<open>
  What the file transfer of \<open>FileTransfer\<close> achieves: a file sent by \<open>send_file\<close> whose blocks
  are all answered is on the receiver's disk under the name it was sent to, byte for byte,
  whatever number of copies of a block were sent; and what happens when it is not.
\<close>

section \<open>Directories that can take blocks\<close>

text \<open>
  The temporary directory \<open>d\<close> exists or can be created, and its block files and
  \<open>merge.out\<close> can be written.
\<close>

definition tmp_ready :: "fsys \<Rightarrow> string \<Rightarrow> bool" where
  "tmp_ready fs d \<longleftrightarrow> fs_wf fs \<and> d \<noteq> [] \<and>
     (\<forall>q \<in> set (prefixes_of (path_of d)). writable fs q \<and> (\<forall>c. node_at fs q \<noteq> Some (FileN c))) \<and>
     (\<forall>i. writable fs (block_path d i) \<and> node_at fs (block_path d i) \<noteq> Some DirN) \<and>
     writable fs (merge_path d) \<and> node_at fs (merge_path d) \<noteq> Some DirN"

lemma child_not_prefix: "p @ [x] \<notin> set (prefixes_of p)"
  by (simp add: mem_prefixes_of)

lemma dir_prefixes:
  assumes "fs_wf fs" and "node_at fs p = Some DirN" and "q \<in> set (prefixes_of p)"
  shows "node_at fs q = Some DirN"
  using assms(2,3)
proof (induction p rule: rev_induct)
  case (snoc x p)
  have "node_at fs p = Some DirN"
    using fs_wf_node [OF assms(1) snoc.prems(1)] by (cases "p = []") (auto simp: is_root_def node_at_def)
  with snoc show ?case by (auto simp: prefixes_of_snoc)
qed simp

lemma tmp_ready_mkdir:
  assumes "tmp_ready fs d"
  obtains fs1 where "mkdir d fs = (True, fs1)" and "mkdir (d @ ''/'') fs = (True, fs1)"
    and "tmp_ready fs1 d" and "blocks_ready fs1 d" and "merge_ready fs1 d"
    and "\<forall>q. q \<notin> set (prefixes_of (path_of d)) \<longrightarrow> node_at fs1 q = node_at fs q"
    and "writable fs1 = writable fs"
    and "\<forall>q \<in> set (prefixes_of (path_of d)). node_at fs1 q = Some DirN"
proof -
  let ?p = "path_of d"
  let ?r = "create_dirs (prefixes_of ?p) fs"
  have wf: "fs_wf fs" and d: "d \<noteq> []" using assms by (simp_all add: tmp_ready_def)
  have ok: "fst ?r" using assms by (intro create_dirs_ok) (auto simp: tmp_ready_def)
  from create_dirs_wf [OF wf, of ?p] ok have wf1: "fs_wf (snd ?r)" and dir: "node_at (snd ?r) ?p = Some DirN"
    and other: "\<forall>q. q \<notin> set (prefixes_of ?p) \<longrightarrow> node_at (snd ?r) q = node_at fs q"
    and wr: "writable (snd ?r) = writable fs" by auto
  have mk: "mkdir d fs = (True, snd ?r)" and mk': "mkdir (d @ ''/'') fs = (True, snd ?r)"
    using ok d by (simp_all add: mkdir_def path_of_dir prod_eq_iff)
  have blk: "node_at (snd ?r) (block_path d i) = node_at fs (block_path d i)"
    and mrg: "node_at (snd ?r) (merge_path d) = node_at fs (merge_path d)" for i
    using other child_not_prefix by (simp_all add: block_path_def merge_path_def)
  have pre: "node_at (snd ?r) q = Some DirN" if "q \<in> set (prefixes_of ?p)" for q
    by (rule dir_prefixes [OF wf1 dir that])
  have "tmp_ready (snd ?r) d"
    using assms wf1 pre wr blk mrg by (simp add: tmp_ready_def)
  moreover have "blocks_ready (snd ?r) d" and "merge_ready (snd ?r) d"
    using assms dir d wr blk mrg by (simp_all add: tmp_ready_def blocks_ready_def merge_ready_def)
  ultimately show thesis using that [OF mk mk'] other wr pre by blast
qed

text \<open>Writing block files keeps the directory ready.\<close>

lemma tmp_ready_put:
  assumes "tmp_ready fs d" and "blocks_ready fs d" and "p = block_path d i \<or> p = merge_path d"
  shows "tmp_ready (set_node p (FileN c) fs) d" and "blocks_ready (set_node p (FileN c) fs) d"
proof -
  have "butlast (block_path d i) = path_of d" "butlast (merge_path d) = path_of d"
    by (simp_all add: block_path_def merge_path_def)
  then have p: "\<not> is_root p" "node_at fs p \<noteq> Some DirN" "butlast p = path_of d"
    using assms(1,3) unfolding tmp_ready_def by auto
  have np: "p \<notin> set (prefixes_of (path_of d))"
    using assms(3) child_not_prefix by (auto simp: block_path_def merge_path_def)
  have wf: "fs_wf (set_node p (FileN c) fs)"
    using assms(1,2) p by (intro fs_wf_set_node) (auto simp: tmp_ready_def blocks_ready_def)
  have "node_at (set_node p (FileN c) fs) q \<noteq> Some DirN" if "node_at fs q \<noteq> Some DirN" for q
    using that p(1) by (cases "q = p") simp_all
  moreover have "node_at (set_node p (FileN c) fs) q = node_at fs q" if "q \<in> set (prefixes_of (path_of d))" for q
    using that np by (intro node_at_set_other) auto
  ultimately show "tmp_ready (set_node p (FileN c) fs) d"
    using assms(1) wf by (simp add: tmp_ready_def)
  show "blocks_ready (set_node p (FileN c) fs) d"
    by (rule blocks_ready_put [OF assms(2) p(2,1)])
qed

section \<open>Sending a file\<close>

definition send_dir :: "file_env \<Rightarrow> string \<Rightarrow> string" where
  "send_dir env sendfile = ''send/'' @ ni_nodeId (fe_node env) @ ''/'' @ sendfile @ ''_tmp''"

definition send_xfer ::
    "file_env \<Rightarrow> string \<Rightarrow> string \<Rightarrow> string \<Rightarrow> string \<Rightarrow> string \<Rightarrow> string \<Rightarrow> string \<Rightarrow> bytes \<Rightarrow> nat \<Rightarrow> xfer" where
  "send_xfer env self sendfile subName srcNodeId uuid toNodeId subDirs c k =
     \<lparr>x_uuid = uuid, x_src = self, x_to = toNodeId,
      x_recv = ''recv/'' @ srcNodeId @ ''/'' @ toNodeId @ ''/'' @ sendfile,
      x_save = ni_nodeId (fe_node env) @ ''/'' @ subName, x_sub = subDirs, x_bytes = c,
      x_block = 1024 * k\<rparr>"

lemma file_num_blocks:
  assumes "0 < k" and "1024 * k < 2 ^ 31" and "n < 2 ^ 63"
  shows "file_num (int n) (int k) = Ret (block_count (1024 * k) n)"
proof -
  let ?B = "1024 * k"
  have b: "int k * 1024 = int ?B" "in_int32 (int ?B)" using assms(2) by (simp_all add: in_int32_def)
  have "n div ?B < 2 ^ 63" using div_le_dividend assms(3) by (rule le_less_trans)
  then have "block_count ?B n < 2 ^ 64" by (auto simp: block_count_def)
  moreover have "c_div (int n) (int ?B) + (if 0 < c_mod (int n) (int ?B) then 1 else 0) = int (block_count ?B n)"
    using assms(1) c_div_nat [of ?B n] c_mod_nat [of ?B n] by (simp add: block_count_def del: of_nat_mult)
  ultimately show ?thesis
    unfolding file_num_def b(1) Let_def using b(2) assms(1) by (simp del: of_nat_mult)
qed

lemma open_in_file:
  "open_in fs f = Some (FileN c) \<longleftrightarrow>
     f \<noteq> [] \<and> node_at fs (path_of f) = Some (FileN c) \<and> last f \<noteq> CHR ''/''"
  by (auto simp: open_in_def split: option.splits fnode.splits)

text \<open>A file is not among its own block files, whose paths are longer than its own.\<close>

lemma components_tmp: "length (components s) \<le> length (components (s @ ''_tmp'')) \<and> components (s @ ''_tmp'') \<noteq> []"
proof -
  have plain: "length (components x) \<le> 1 \<and> components (x @ ''_tmp'') = [x @ ''_tmp'']" if "CHR ''/'' \<notin> set x" for x
    using that components_plain [of x] components_plain [of "x @ ''_tmp''"]
    by (cases "x = [] \<or> x = ''.''") (auto simp: components_def split_noDelim)
  show ?thesis
  proof (cases "CHR ''/'' \<in> set s")
    case True
    then obtain u x where s: "s = u @ CHR ''/'' # x" "CHR ''/'' \<notin> set x" by (meson split_list_last)
    have "components (s @ ''_tmp'') = components u @ [x @ ''_tmp'']"
      using components_sep [of u "x @ ''_tmp''"] plain [OF s(2)] by (simp add: s(1))
    then show ?thesis using plain [OF s(2)] by (simp add: s(1) components_sep)
  next
    case False
    then show ?thesis using plain [of s] by simp
  qed
qed

lemma source_not_block: "block_path (send_dir env f) i \<noteq> path_of f"
proof -
  let ?n = "ni_nodeId (fe_node env)"
  have "path_of (send_dir env f) = components (''send'' @ CHR ''/'' # (?n @ CHR ''/'' # (f @ ''_tmp'')))"
    by (simp add: path_of_def send_dir_def)
  also have "\<dots> = components ''send'' @ components ?n @ components (f @ ''_tmp'')"
    by (simp only: components_sep)
  finally have "length (path_of (send_dir env f)) = 1 + length (components ?n) + length (components (f @ ''_tmp''))"
    using components_plain [of "''send''"] by simp
  moreover have "length (path_of f) \<le> 1 + length (components f)" by (simp add: path_of_def)
  moreover have "length (block_path (send_dir env f) i) = Suc (length (path_of (send_dir env f)))" by (simp add: block_path_def)
  ultimately have "length (path_of f) < length (block_path (send_dir env f) i)" using components_tmp [of f] by linarith
  then show ?thesis by auto
qed

lemma send_file_spec:
  assumes "Strings.subreplace fileName ''./'' '''' = Some sendfile"
    and "Strings.subreplace subDirs ''./'' '''' = Some subName"
    and "open_in (ft_disk st) sendfile = Some (FileN c)" and "c \<noteq> []" and "length c < 2 ^ 63"
    and "fileSplitSize (fe_node env) = int k" and "0 < k" and "1024 * k < 2 ^ 31"
    and "tmp_ready (ft_disk st) (send_dir env sendfile)"
    and "x = send_xfer env (nodeId (ft_info st)) sendfile subName srcNodeId uuid toNodeId subDirs c k"
    and "x_count x < 2 ^ 31"
  shows "\<exists>jts r st'. send_file env fileName srcNodeId uuid toNodeId subDirs st = Fin st' r \<and>
    file_out st' = file_out st @ runs_from x 0 jts \<and> sent_ok env x 0 jts r"
proof -
  let ?d = "send_dir env sendfile"
  obtain fs1 where mk: "mkdir (?d @ ''/'') (ft_disk st) = (True, fs1)" and blk: "blocks_ready fs1 ?d"
    and other: "\<forall>q. q \<notin> set (prefixes_of (path_of ?d)) \<longrightarrow> node_at fs1 q = node_at (ft_disk st) q"
    by (rule tmp_ready_mkdir [OF assms(9)])
  have "path_of sendfile \<notin> set (prefixes_of (path_of ?d))"
    using assms(3,9) by (auto simp: open_in_file tmp_ready_def)
  with other assms(3) have o1: "open_in fs1 sendfile = Some (FileN c)" by (simp add: open_in_file)
  define fs2 where "fs2 = files.put_all (block_table ?d (1024 * k) 0 c) fs1"
  have x: "x_bytes x = c" "x_count x = block_count (1024 * k) (length c)" "x_block x = 1024 * k"
    "x_src x = nodeId (ft_info st)"
    by (simp_all add: assms(10) send_xfer_def x_count_def)
  have sp: "file_split sendfile (int k) (?d @ ''/'') fs1 = Some (Ret (block_count (1024 * k) (length c), fs2))"
    unfolding fs2_def using assms(8,11) x(2) source_not_block by (intro file_split_spec [OF o1 assms(7) blk]) simp_all
  have wire: "wire_ok x" using assms(4,5,7,8) by (simp add: wire_ok_def x)
  have "blocks_on_disk x ?d fs2"
    using block_table_content [of _ "1024 * k" c ?d fs1]
    by (simp add: blocks_on_disk_def x fs2_def send_dir_def)
  with send_blocks_out [OF wire x_count_bounds(1) [OF wire], of ?d "st\<lparr>ft_disk := fs2\<rparr>" env
      "empty_file_data\<lparr>fd_file_name := sendfile\<rparr>"]
  obtain jts r st' where sb: "send_blocks env (empty_file_data\<lparr>fd_file_name := sendfile\<rparr>) (x_uuid x) (x_to x)
      (x_recv x) (x_save x) (?d @ ''/'') 0 (int (length c)) (x_count x) (x_sub x) (st\<lparr>ft_disk := fs2\<rparr>) = (r, st')"
    and "file_out st' = file_out st @ runs_from x 0 jts" and "sent_ok env x 0 jts r"
    by (auto simp: x)
  have len: "GetFileLength sendfile (ft_disk st) = int (length c)"
    using assms(3) by (simp add: GetFileLength_def)
  have tmp: "''send/'' @ ni_nodeId (fe_node env) @ ''/'' @ sendfile @ ''_tmp/'' = ?d @ ''/''"
    by (simp add: send_dir_def)
  have "send_file env fileName srcNodeId uuid toNodeId subDirs st = Fin st' r"
    unfolding send_file_def Let_def assms(1,2,6) option.case prod.case tmp len mk sp
      file_num_blocks [OF assms(7,8,5)]
    using sb unfolding x(2) by (simp add: assms(10) send_xfer_def)
  then show ?thesis
    using \<open>file_out st' = _\<close> \<open>sent_ok env x 0 jts r\<close> by blast
qed

section \<open>Receiving blocks\<close>

abbreviation recv_dir :: "xfer \<Rightarrow> string" where
  "recv_dir x \<equiv> x_recv x @ ''_tmp''"

definition save_paths :: "xfer \<Rightarrow> string list" where
  "save_paths x = Strings.split (x_save x) (CHR ''/'')"

text \<open>Where \<open>move_clear_tmp\<close> moves the merged file, and the directories it creates first.\<close>

definition dest_name :: "xfer \<Rightarrow> string" where
  "dest_name x = (if length (save_paths x) = 1 then save_paths x ! 0 else c_str (x_sub x))"

definition dest_dirs :: "xfer \<Rightarrow> path" where
  "dest_dirs x = (if length (save_paths x) > 1 then path_of (save_dirs (save_paths x)) else [])"

definition dst_ready :: "xfer \<Rightarrow> fsys \<Rightarrow> bool" where
  "dst_ready x fs \<longleftrightarrow>
     dest_name x \<noteq> [] \<and> last (dest_name x) \<noteq> CHR ''/'' \<and> \<not> is_root (path_of (dest_name x)) \<and>
     writable fs (path_of (dest_name x)) \<and> node_at fs (path_of (dest_name x)) \<noteq> Some DirN \<and>
     \<not> is_under (path_of (recv_dir x)) (path_of (dest_name x)) \<and>
     path_of (dest_name x) \<notin> set (prefixes_of (path_of (recv_dir x))) \<and>
     path_of (dest_name x) \<notin> set (prefixes_of (dest_dirs x)) \<and>
     \<not> is_under (path_of (recv_dir x)) (dest_dirs x) \<and>
     (\<forall>q \<in> set (prefixes_of (dest_dirs x)). writable fs q \<and> (\<forall>c. node_at fs q \<noteq> Some (FileN c))) \<and>
     (butlast (path_of (dest_name x)) = dest_dirs x \<or> node_at fs (butlast (path_of (dest_name x))) = Some DirN)"

text \<open>Changes inside the temporary directory, which may have been created on the way.\<close>

definition tmp_change :: "string \<Rightarrow> fsys \<Rightarrow> fsys \<Rightarrow> bool" where
  "tmp_change d fs fs' \<longleftrightarrow> writable fs' = writable fs \<and>
     (\<forall>q. \<not> is_under (path_of d) q \<longrightarrow> node_at fs' q = node_at fs q \<or>
        q \<in> set (prefixes_of (path_of d)) \<and> node_at fs' q = Some DirN)"

lemma tmp_change_trans: "tmp_change d fs fs1 \<Longrightarrow> tmp_change d fs1 fs2 \<Longrightarrow> tmp_change d fs fs2"
  unfolding tmp_change_def by metis

lemma under_prefix: "is_under p q \<Longrightarrow> q \<in> set (prefixes_of r) \<Longrightarrow> is_under p r"
  by (auto simp: is_under_iff mem_prefixes_of simp del: is_under.simps)

lemma under_butlast: "is_under p (butlast q) \<Longrightarrow> is_under p q"
  unfolding is_under_iff by (metis append.assoc append_butlast_last_id butlast.simps(1) append_Nil)

lemma dst_ready_tmp_change:
  assumes "dst_ready x fs" and "tmp_change (recv_dir x) fs fs'"
  shows "dst_ready x fs'" and "node_at fs' (path_of (dest_name x)) = node_at fs (path_of (dest_name x))"
proof -
  let ?d = "path_of (recv_dir x)" and ?t = "path_of (dest_name x)"
  from assms(2) have w: "writable fs' = writable fs"
    and ch: "\<And>q. \<not> is_under ?d q \<Longrightarrow> node_at fs' q = node_at fs q \<or> node_at fs' q = Some DirN"
    and ch': "\<And>q. \<not> is_under ?d q \<Longrightarrow> q \<notin> set (prefixes_of ?d) \<Longrightarrow> node_at fs' q = node_at fs q"
    unfolding tmp_change_def by blast+
  show t: "node_at fs' ?t = node_at fs ?t"
    by (rule ch') (use assms(1) in \<open>simp_all add: dst_ready_def del: is_under.simps\<close>)
  have dirs: "\<forall>q \<in> set (prefixes_of (dest_dirs x)). \<forall>c. node_at fs' q \<noteq> Some (FileN c)"
    using assms(1) ch under_prefix unfolding dst_ready_def by (metis fnode.distinct(1) option.inject)
  have "butlast ?t = dest_dirs x \<or> node_at fs' (butlast ?t) = Some DirN"
    using assms(1) ch under_butlast unfolding dst_ready_def by metis
  with assms(1) t dirs w show "dst_ready x fs'" by (simp add: dst_ready_def del: is_under.simps)
qed

lemma tmp_change_mkdir:
  assumes "\<forall>q. q \<notin> set (prefixes_of (path_of d)) \<longrightarrow> node_at fs1 q = node_at fs q"
    and "writable fs1 = writable fs" and "\<forall>q \<in> set (prefixes_of (path_of d)). node_at fs1 q = Some DirN"
  shows "tmp_change d fs fs1"
  using assms unfolding tmp_change_def by blast

lemma block_path_under: "is_under (path_of d) (block_path d i)" "is_under (path_of d) (merge_path d)"
  by (simp_all add: block_path_def merge_path_def)

lemma tmp_change_set: "is_under (path_of d) p \<Longrightarrow> tmp_change d fs (set_node p n fs)"
  unfolding tmp_change_def by (metis node_at_set_other writable_frame(1))

lemma tmp_change_refl: "tmp_change d fs fs"
  by (simp add: tmp_change_def)

text \<open>The disk after the first two steps of a block: the directory made, the block written.\<close>

definition rx_ready :: "xfer \<Rightarrow> fsys \<Rightarrow> bool" where
  "rx_ready x fs \<longleftrightarrow> tmp_ready fs (recv_dir x) \<and> dst_ready x fs"

lemma stage_block:
  assumes "rx_ready x fs"
  obtains fs1 fs2 where "mkdir (recv_dir x) fs = (True, fs1)"
    and "write_file (recv_dir x @ ''/'' @ to_string i) b fs1 = fs2" and "rx_ready x fs2"
    and "blocks_ready fs2 (recv_dir x)" and "merge_ready fs2 (recv_dir x)"
    and "\<And>j. file_content fs2 (block_path (recv_dir x) j) =
      (if j = i then Some b else file_content fs (block_path (recv_dir x) j))"
    and "\<And>j. j \<noteq> i \<Longrightarrow> node_at fs2 (block_path (recv_dir x) j) = node_at fs (block_path (recv_dir x) j)"
    and "node_at fs2 (path_of (dest_name x)) = node_at fs (path_of (dest_name x))"
proof -
  let ?d = "recv_dir x"
  have tr: "tmp_ready fs ?d" and dr: "dst_ready x fs" using assms by (simp_all add: rx_ready_def)
  obtain fs1 where mk: "mkdir ?d fs = (True, fs1)" and t1: "tmp_ready fs1 ?d" and b1: "blocks_ready fs1 ?d"
    and m1: "merge_ready fs1 ?d"
    and o1: "\<forall>q. q \<notin> set (prefixes_of (path_of ?d)) \<longrightarrow> node_at fs1 q = node_at fs q"
    and w1: "writable fs1 = writable fs"
    and p1: "\<forall>q \<in> set (prefixes_of (path_of ?d)). node_at fs1 q = Some DirN"
    by (rule tmp_ready_mkdir [OF tr])
  define fs2 where "fs2 = set_node (block_path ?d i) (FileN b) fs1"
  have "can_open_out fs1 ((?d @ ''/'') @ to_string i)" by (rule blocks_ready_open [OF b1])
  moreover have "path_of ((?d @ ''/'') @ to_string i) = block_path ?d i" by (rule path_of_block) simp
  ultimately have wr: "write_file (?d @ ''/'' @ to_string i) b fs1 = fs2"
    by (simp add: write_file_def put_file_def fs2_def)
  have "tmp_change ?d fs fs2"
    unfolding fs2_def
    by (rule tmp_change_trans [OF tmp_change_mkdir [OF o1 w1 p1] tmp_change_set [OF block_path_under(1)]])
  note dst = dst_ready_tmp_change [OF dr this]
  have ready: "rx_ready x fs2" and b2: "blocks_ready fs2 ?d"
    using tmp_ready_put [OF t1 b1, of "block_path ?d i" i] dst(1) by (simp_all add: rx_ready_def fs2_def)
  have "path_of ?d \<noteq> block_path ?d i" by (simp add: block_path_def)
  with m1 have m2: "merge_ready fs2 ?d"
    by (simp add: merge_ready_def fs2_def merge_path_neq_block [THEN not_sym])
  have n1: "node_at fs1 (block_path ?d j) = node_at fs (block_path ?d j)" for j
    using o1 child_not_prefix by (simp add: block_path_def)
  then have n2: "node_at fs2 (block_path ?d j) = node_at fs (block_path ?d j)" if "j \<noteq> i" for j
    using that by (simp add: fs2_def)
  have "file_content fs2 (block_path ?d j) = (if j = i then Some b else file_content fs (block_path ?d j))" for j
    using n2 [of j] by (simp add: file_content_def, simp add: fs2_def)
  from that [OF mk wr ready b2 m2 this n2 dst(2)] show thesis by blast
qed

section \<open>Putting the file in its place\<close>

lemma merge_complete_eq:
  assumes "merge_ready fs d" and "\<And>j. j < n \<Longrightarrow> file_content fs (block_path d j) = Some (b j)"
    and "concat (map b [0..<n]) \<noteq> []"
  shows "merge d (int n) fs = Some (0, set_node (merge_path d) (FileN (concat (map b [0..<n])))
    (set_node (merge_path d) (FileN []) fs))"
proof -
  have "file_content (set_node (merge_path d) (FileN []) fs) (block_path d j) = Some (b j)" if "j < n" for j
    using assms(2) [OF that] by (simp add: file_content_def)
  with merge_loop_complete [of d n "set_node (merge_path d) (FileN []) fs" b] assms(1,3) show ?thesis
    by (simp add: merge_unfold merge_ready_def)
qed

lemma merge_missing_first:
  assumes "merge_ready fs d" and "node_at fs (block_path d 0) = None" and "0 < n"
  shows "merge d (int n) fs = Some (0, set_node (merge_path d) (FileN []) (set_node (merge_path d) (FileN []) fs))"
proof -
  have "node_at (set_node (merge_path d) (FileN []) fs) (block_path d 0) = None" using assms(2) by simp
  with merge_loop_missing [of d 0 "set_node (merge_path d) (FileN []) fs" "\<lambda>_. []" n] assms(1,3) show ?thesis
    by (simp add: merge_unfold merge_ready_def)
qed

lemma dest_mkdir:
  assumes "rx_ready x fs"
  obtains fs' where "create_dirs (prefixes_of (dest_dirs x)) fs = (True, fs')" and "rx_ready x fs'"
    and "node_at fs' (butlast (path_of (dest_name x))) = Some DirN"
    and "\<forall>q. is_under (path_of (recv_dir x)) q \<longrightarrow> node_at fs' q = node_at fs q"
proof -
  let ?d = "recv_dir x" and ?D = "dest_dirs x"
  let ?r = "create_dirs (prefixes_of ?D) fs"
  have wf: "fs_wf fs" and dr: "dst_ready x fs" and tr: "tmp_ready fs ?d"
    using assms by (simp_all add: rx_ready_def tmp_ready_def)
  have ok: "fst ?r" using wf dr by (intro create_dirs_ok) (simp_all add: dst_ready_def)
  from create_dirs_wf [OF wf, of ?D] ok have wf1: "fs_wf (snd ?r)" and dir: "node_at (snd ?r) ?D = Some DirN"
    and other: "\<And>q. q \<notin> set (prefixes_of ?D) \<Longrightarrow> node_at (snd ?r) q = node_at fs q"
    and wr: "writable (snd ?r) = writable fs" by auto
  have pre: "node_at (snd ?r) q = node_at fs q \<or> node_at (snd ?r) q = Some DirN" for q
    using other dir_prefixes [OF wf1 dir] by blast
  have under: "node_at (snd ?r) q = node_at fs q" if "is_under (path_of ?d) q" for q
    using that dr under_prefix other unfolding dst_ready_def by metis
  have par: "node_at (snd ?r) (butlast (path_of (dest_name x))) = Some DirN"
    using dr dir pre unfolding dst_ready_def by metis
  have "tmp_ready (snd ?r) ?d"
    using tr wf1 wr under [OF block_path_under(1)] under [OF block_path_under(2)]
    unfolding tmp_ready_def by (metis fnode.distinct(1) option.inject pre)
  moreover have "dst_ready x (snd ?r)"
    using dr wr par other [of "path_of (dest_name x)"] dir_prefixes [OF wf1 dir]
    by (simp add: dst_ready_def del: is_under.simps)
  ultimately have "rx_ready x (snd ?r)" by (simp add: rx_ready_def)
  moreover have "?r = (True, snd ?r)" using ok by (simp add: prod_eq_iff)
  ultimately show thesis using that par under by blast
qed

lemma dest_put:
  assumes "rx_ready x fs" and "node_at fs (butlast (path_of (dest_name x))) = Some DirN"
  shows "rx_ready x (set_node (path_of (dest_name x)) (FileN c) fs)"
    and "node_at (set_node (path_of (dest_name x)) (FileN c) fs) (butlast (path_of (dest_name x))) = Some DirN"
proof -
  let ?t = "path_of (dest_name x)" and ?d = "recv_dir x"
  let ?fs = "set_node ?t (FileN c) fs"
  have tr: "tmp_ready fs ?d" and dr: "dst_ready x fs" and root: "\<not> is_root ?t"
    using assms(1) by (simp_all add: rx_ready_def dst_ready_def)
  have neq: "butlast ?t \<noteq> ?t" by (rule butlast_neq [OF root])
  show par: "node_at ?fs (butlast ?t) = Some DirN" using neq assms(2) by simp
  have wf: "fs_wf ?fs"
    using tr dr assms(2) by (intro fs_wf_set_node) (simp_all add: tmp_ready_def dst_ready_def)
  have nd: "node_at ?fs q = node_at fs q" if "q \<noteq> ?t" for q using that by simp
  have blk: "block_path ?d i \<noteq> ?t" "merge_path ?d \<noteq> ?t" for i
    using dr block_path_under [of ?d] unfolding dst_ready_def by metis+
  have "tmp_ready ?fs ?d"
    using tr wf nd blk dr unfolding tmp_ready_def dst_ready_def by (metis writable_frame(1))
  moreover have "dst_ready x ?fs"
    using dr par root nd unfolding dst_ready_def
    by (metis fnode.distinct(1) node_at_set_same option.inject writable_frame(1))
  ultimately show "rx_ready x ?fs" by (simp add: rx_ready_def)
qed

lemma node_at_remove_all:
  "node_at (remove_all p fs) q = (if \<not> is_root q \<and> is_under p q then None else node_at fs q)"
  by (simp add: node_at_def map_of_remove_all del: is_under.simps)

lemma clear_tmp:
  assumes "rx_ready x fs"
  shows "rx_ready x (remove_all (path_of (recv_dir x)) fs)"
    and "node_at (remove_all (path_of (recv_dir x)) fs) (path_of (dest_name x)) = node_at fs (path_of (dest_name x))"
    and "node_at (remove_all (path_of (recv_dir x)) fs) (block_path (recv_dir x) i) = None"
proof -
  let ?d = "path_of (recv_dir x)"
  have w: "writable (remove_all ?d fs) = writable fs" by (simp add: remove_all_def)
  then have ch: "tmp_change (recv_dir x) fs (remove_all ?d fs)"
    by (simp add: tmp_change_def node_at_remove_all del: is_under.simps)
  have dr: "dst_ready x fs" and tr: "tmp_ready fs (recv_dir x)" using assms by (simp_all add: rx_ready_def)
  show "node_at (remove_all ?d fs) (block_path (recv_dir x) i) = None" for i
    using block_path_under(1) by (simp add: node_at_remove_all del: is_under.simps)
  show "node_at (remove_all ?d fs) (path_of (dest_name x)) = node_at fs (path_of (dest_name x))"
    by (rule dst_ready_tmp_change(2) [OF dr ch])
  have "tmp_ready (remove_all ?d fs) (recv_dir x)"
    using tr w by (auto simp: tmp_ready_def node_at_remove_all fs_wf_remove_all simp del: is_under.simps)
  with dst_ready_tmp_change(1) [OF dr ch] show "rx_ready x (remove_all ?d fs)" by (simp add: rx_ready_def)
qed

text \<open>What the receiver relies on beside its disk.\<close>

definition rx_wire :: "xfer \<Rightarrow> bool" where
  "rx_wire x \<longleftrightarrow> wire_ok x \<and> x_count x < 2 ^ 31 \<and> x_save x \<noteq> [] \<and> x_recv x \<noteq> []"

lemma save_paths_nonempty: "x_save x \<noteq> [] \<Longrightarrow> save_paths x \<noteq> []"
  by (simp add: save_paths_def split.simps [of "x_save x"] getline_def)

lemma dest_mkdir_call:
  "(if length (save_paths x) > 1 then mkdir (save_dirs (save_paths x)) fs else (True, fs))
     = create_dirs (prefixes_of (dest_dirs x)) fs"
proof -
  have "fold (\<lambda>p acc. acc @ ''/'' @ p) ps a \<noteq> []" if "a \<noteq> []" for ps :: "string list" and a
    using that by (induction ps arbitrary: a) simp_all
  then have "save_dirs ps \<noteq> []" for ps by (simp add: save_dirs_def)
  then show ?thesis by (simp add: dest_dirs_def mkdir_def)
qed

definition final_reply :: "FileDataReply \<Rightarrow> FileDataReply" where
  "final_reply r = r\<lparr>fr_is_end := True, fr_state := 5\<rparr>"

lemma move_clear_spec:
  assumes "rx_wire x" and "rx_ready x (ft_disk st)" and "IsDir (recv_dir x) (ft_disk st)"
    and "file_content (ft_disk st) (merge_path (recv_dir x)) = Some (x_bytes x)"
  shows "\<exists>fs'. move_clear_tmp (length (x_bytes x)) (block_msg x t i) (recv_dir x @ ''/merge.out'')
      (recv_dir x) reply st = Fin (push_reply (final_reply reply) (st\<lparr>ft_disk := fs'\<rparr>)) (final_reply reply, 2) \<and>
    rx_ready x fs' \<and> file_content fs' (path_of (dest_name x)) = Some (x_bytes x) \<and>
    (\<forall>j. node_at fs' (block_path (recv_dir x) j) = None)"
proof -
  let ?d = "recv_dir x" and ?t = "path_of (dest_name x)" and ?c = "x_bytes x"
  obtain fs4 where mk: "create_dirs (prefixes_of (dest_dirs x)) (ft_disk st) = (True, fs4)"
    and r4: "rx_ready x fs4" and par: "node_at fs4 (butlast ?t) = Some DirN"
    and und: "\<forall>q. is_under (path_of ?d) q \<longrightarrow> node_at fs4 q = node_at (ft_disk st) q"
    by (rule dest_mkdir [OF assms(2)])
  have dr: "dst_ready x fs4" using r4 by (simp add: rx_ready_def)
  have "node_at fs4 (merge_path ?d) = Some (FileN ?c)"
    using und block_path_under(2) [of ?d] assms(4) by (auto simp: file_content_def split: option.splits fnode.splits)
  then have o: "open_in fs4 (?d @ ''/merge.out'') = Some (FileN ?c)"
    unfolding open_in_file using path_of_merge [of ?d] by simp
  have neq: "path_of (?d @ ''/merge.out'') \<noteq> ?t"
    using dr block_path_under(2) [of ?d] path_of_merge [of ?d] unfolding dst_ready_def by (metis Nil_is_append_conv list.distinct(1))
  have out: "can_open_out fs4 (dest_name x)" using dr par by (simp add: can_open_out_def dst_ready_def)
  define fs5 where "fs5 = set_node ?t (FileN ?c) (set_node ?t (FileN []) fs4)"
  have mv: "snd (move (?d @ ''/merge.out'') (dest_name x) fs4) = del_node (merge_path ?d) fs5"
    using move_spec [OF o neq] out path_of_merge [of ?d] by (simp add: put_file_def fs5_def)
  have root: "\<not> is_root ?t" and nu: "\<not> is_under (path_of ?d) ?t" using dr by (simp_all add: dst_ready_def)
  have r5: "rx_ready x fs5" and c5: "node_at fs5 ?t = Some (FileN ?c)"
    unfolding fs5_def using dest_put [OF dest_put [OF r4 par]] root by simp_all
  have "path_of ?d \<noteq> ?t" using nu by auto
  then have "node_at fs5 (path_of ?d) = Some DirN"
    using und assms(3) by (simp add: fs5_def IsDir_def)
  then have "IsDir ?d (del_node (merge_path ?d) fs5)"
    by (auto simp: IsDir_def node_at_del merge_path_def)
  then have rm: "remove_all_files ?d (del_node (merge_path ?d) fs5) = remove_all (path_of ?d) fs5"
    by (simp add: remove_all_files_eq remove_all_del block_path_under(2) del: is_under.simps)
  have "move_clear_tmp (length ?c) (block_msg x t i) (?d @ ''/merge.out'') ?d reply st =
      Fin (push_reply (final_reply reply) (st\<lparr>ft_disk := remove_all (path_of ?d) fs5\<rparr>)) (final_reply reply, 2)"
    using assms(1) mk dest_mkdir_call [of x "ft_disk st"] mv rm
    by (cases "length (save_paths x) = 1")
      (simp_all add: move_clear_tmp_def block_msg_def rx_wire_def final_reply_def save_paths_def [symmetric]
        dest_name_def Let_def)
  with clear_tmp [OF r5] c5 show ?thesis by (auto simp: file_content_def)
qed

section \<open>Handling the messages of a transfer\<close>

lemma split_nonempty: "s \<noteq> [] \<Longrightarrow> Strings.split s d \<noteq> []"
  by (simp add: split.simps [of s] getline_def)

definition rx_stage :: "file_env \<Rightarrow> FileData \<Rightarrow> fsys \<Rightarrow> file_topic \<Rightarrow> file_topic" where
  "rx_stage env fd fs st = st\<lparr>ft_base := stat_reader_mon_data (gen_uuid env (ft_tick st)) (clock env (ft_tick st))
      (topic (ft_info st)) (fd_src_node_id fd) (byte_size env fd) (ft_base st), ft_disk := fs,
      ft_tick := Suc (Suc (ft_tick st))\<rparr>"

lemma rx_stage_frame [simp]:
  "ft_disk (rx_stage env fd fs st) = fs" "reply_queue (rx_stage env fd fs st) = reply_queue st"
  "ft_info (rx_stage env fd fs st) = ft_info st" "file_out (rx_stage env fd fs st) = file_out st"
  by (simp_all add: rx_stage_def)

text \<open>A block that can be staged is handled by the rest of the handler on the staged disk.\<close>

lemma handle_staged:
  assumes "x_recv x \<noteq> []" and "x_src x = monNodeId (ft_info st)"
    and "mkdir (recv_dir x) (ft_disk st) = (True, fs1)"
    and "write_file (recv_dir x @ ''/'' @ to_string i) (block_of (x_block x) (x_bytes x) i) fs1 = fs2"
  shows "\<exists>u name. handle_file_data env (block_msg x t i) st =
    catch_run (bind_run
      (if Suc i = x_count x
       then receive_end (block_msg x t i) (recv_dir x) (make_reply u name (block_msg x t i))
              (rx_stage env (block_msg x t i) fs2 st)
       else Fin (push_reply (make_reply u name (block_msg x t i))
              (rx_stage env (block_msg x t i) fs2 st)) (make_reply u name (block_msg x t i)))
      (\<lambda>st' r. if x_src x \<noteq> monNodeId (ft_info st')
              then bind_run (file_data_reply_in env r st') (\<lambda>st _. Fin st ()) else Fin st' ()))
      (\<lambda>st e. Fin st ())"
proof (intro exI)
  let ?m = "block_msg x t i"
  have f: "fd_file_name ?m = x_recv x" "fd_block_seq ?m = i" "fd_is_end ?m \<longleftrightarrow> Suc i = x_count x"
    "fd_src_node_id ?m = x_src x" "fd_block_content ?m = block_of (x_block x) (x_bytes x) i"
    by (simp_all add: block_msg_def)
  show "handle_file_data env ?m st =
    catch_run (bind_run
      (if Suc i = x_count x
       then receive_end ?m (recv_dir x) (make_reply (gen_uuid env (Suc (ft_tick st)))
              (last (Strings.split (x_recv x) (CHR ''/''))) ?m) (rx_stage env ?m fs2 st)
       else Fin (push_reply (make_reply (gen_uuid env (Suc (ft_tick st)))
              (last (Strings.split (x_recv x) (CHR ''/''))) ?m) (rx_stage env ?m fs2 st))
              (make_reply (gen_uuid env (Suc (ft_tick st))) (last (Strings.split (x_recv x) (CHR ''/''))) ?m))
      (\<lambda>st' r. if x_src x \<noteq> monNodeId (ft_info st')
              then bind_run (file_data_reply_in env r st') (\<lambda>st _. Fin st ()) else Fin st' ()))
      (\<lambda>st e. Fin st ())"
    unfolding handle_file_data_def receive_block_def Let_def f rx_stage_def
    using assms(3,4) split_nonempty [OF assms(1), of "CHR ''/''"] by simp
qed

lemma make_reply_fields [simp]:
  "fr_block_seq (make_reply u n fd) = fd_block_seq fd" "fr_state (make_reply u n fd) = 1"
  "fr_reply_uuid (make_reply u n fd) = fd_uuid fd"
  by (simp_all add: make_reply_def)

lemma push_reply_frame [simp]:
  "ft_disk (push_reply r st) = ft_disk st" "ft_base (push_reply r st) = ft_base st"
  "reply_queue (push_reply r st) = reply_queue st @ [r]"
  by (simp_all add: push_reply_def)

definition block_reply :: "xfer \<Rightarrow> nat \<Rightarrow> int \<Rightarrow> FileDataReply \<Rightarrow> bool" where
  "block_reply x i state r \<longleftrightarrow> fr_block_seq r = i \<and> fr_reply_uuid r = x_uuid x \<and> fr_state r = state"

lemma block_reply_make: "block_reply x i 1 (make_reply u n (block_msg x t i))"
  by (simp add: block_reply_def block_msg_def)

lemma handle_block:
  assumes "rx_wire x" and "rx_ready x (ft_disk st)" and "x_src x = monNodeId (ft_info st)" and "Suc i \<noteq> x_count x"
  obtains st' r where "handle_file_data env (block_msg x t i) st = Fin st' ()" and "rx_ready x (ft_disk st')"
    and "\<forall>j. file_content (ft_disk st') (block_path (recv_dir x) j) =
      (if j = i then Some (block_of (x_block x) (x_bytes x) i) else file_content (ft_disk st) (block_path (recv_dir x) j))"
    and "reply_queue st' = reply_queue st @ [r]" and "block_reply x i 1 r" and "ft_info st' = ft_info st"
proof -
  obtain fs1 fs2 where mk: "mkdir (recv_dir x) (ft_disk st) = (True, fs1)"
    and wr: "write_file (recv_dir x @ ''/'' @ to_string i) (block_of (x_block x) (x_bytes x) i) fs1 = fs2"
    and r2: "rx_ready x fs2" and c2: "\<And>j. file_content fs2 (block_path (recv_dir x) j) =
      (if j = i then Some (block_of (x_block x) (x_bytes x) i) else file_content (ft_disk st) (block_path (recv_dir x) j))"
    by (rule stage_block [OF assms(2), of i "block_of (x_block x) (x_bytes x) i"]) blast
  from handle_staged [OF _ assms(3) mk wr, of env t] assms(1,3,4)
  obtain u n where "handle_file_data env (block_msg x t i) st = Fin (push_reply (make_reply u n (block_msg x t i))
      (rx_stage env (block_msg x t i) fs2 st)) ()" by (auto simp: rx_wire_def)
  from that [OF this] r2 c2 block_reply_make show thesis by simp
qed

lemma to_int32_count: "rx_wire x \<Longrightarrow> to_int32 (int (fd_total_block_num (block_msg x t i))) = int (x_count x)"
  by (simp add: rx_wire_def in_int32_def block_msg_def)

lemma rx_ready_merge_out:
  assumes "rx_ready x fs" and "blocks_ready fs (recv_dir x)"
  shows "rx_ready x (set_node (merge_path (recv_dir x)) (FileN c) fs)"
    and "blocks_ready (set_node (merge_path (recv_dir x)) (FileN c) fs) (recv_dir x)"
    and "node_at (set_node (merge_path (recv_dir x)) (FileN c) fs) (path_of (dest_name x)) = node_at fs (path_of (dest_name x))"
proof -
  have ch: "tmp_change (recv_dir x) fs (set_node (merge_path (recv_dir x)) (FileN c) fs)"
    by (rule tmp_change_set [OF block_path_under(2)])
  have "dst_ready x fs" "tmp_ready fs (recv_dir x)" using assms(1) by (simp_all add: rx_ready_def)
  with dst_ready_tmp_change [OF _ ch] tmp_ready_put [OF _ assms(2) disjI2, of "merge_path (recv_dir x)"]
  show "rx_ready x (set_node (merge_path (recv_dir x)) (FileN c) fs)"
    "blocks_ready (set_node (merge_path (recv_dir x)) (FileN c) fs) (recv_dir x)"
    "node_at (set_node (merge_path (recv_dir x)) (FileN c) fs) (path_of (dest_name x)) = node_at fs (path_of (dest_name x))"
    by (simp_all add: rx_ready_def)
qed

lemma length_merge_out:
  "d \<noteq> [] \<Longrightarrow> GetFileLength (d @ ''/merge.out'') (set_node (merge_path d) (FileN c) fs) = int (length c)"
  using path_of_merge [of d] by (simp add: GetFileLength_def open_in_def)

lemma receive_end_complete:
  assumes "rx_wire x" and "rx_ready x (ft_disk st)" and "blocks_ready (ft_disk st) (recv_dir x)"
    and "merge_ready (ft_disk st) (recv_dir x)"
    and "\<And>j. j < x_count x \<Longrightarrow> file_content (ft_disk st) (block_path (recv_dir x) j) = Some (block_of (x_block x) (x_bytes x) j)"
  shows "\<exists>fs'. receive_end (block_msg x t i) (recv_dir x) reply st =
      Fin (push_reply (final_reply reply) (st\<lparr>ft_disk := fs'\<rparr>)) (final_reply reply) \<and>
    rx_ready x fs' \<and> file_content fs' (path_of (dest_name x)) = Some (x_bytes x) \<and>
    (\<forall>j. node_at fs' (block_path (recv_dir x) j) = None)"
proof -
  let ?d = "recv_dir x" and ?c = "x_bytes x"
  define fs3 where "fs3 = set_node (merge_path ?d) (FileN ?c) (set_node (merge_path ?d) (FileN []) (ft_disk st))"
  have c: "concat (map (block_of (x_block x) ?c) [0..<x_count x]) = ?c" and ne: "?c \<noteq> []"
    and len: "length ?c < 2 ^ 64"
    using assms(1) concat_block_of [of "x_block x" ?c] by (simp_all add: rx_wire_def wire_ok_def x_count_def)
  have mg: "merge ?d (int (x_count x)) (ft_disk st) = Some (0, fs3)"
    unfolding fs3_def
    using merge_complete_eq [of "ft_disk st" ?d "x_count x" "block_of (x_block x) ?c", unfolded c] assms(4,5) ne
    by blast
  have r3: "rx_ready x fs3"
    unfolding fs3_def by (intro rx_ready_merge_out assms(2,3))
  have "path_of ?d \<noteq> merge_path ?d" by (simp add: merge_path_def)
  then have dir: "IsDir ?d fs3" using assms(4) by (simp add: IsDir_def fs3_def merge_ready_def)
  have mo: "file_content fs3 (merge_path ?d) = Some ?c" by (simp add: file_content_def fs3_def)
  obtain fs' where mv: "move_clear_tmp (length ?c) (block_msg x t i) (?d @ ''/merge.out'') ?d reply (st\<lparr>ft_disk := fs3\<rparr>)
      = Fin (push_reply (final_reply reply) (st\<lparr>ft_disk := fs'\<rparr>)) (final_reply reply, 2)"
    and fin: "rx_ready x fs'" "file_content fs' (path_of (dest_name x)) = Some ?c"
      "\<forall>j. node_at fs' (block_path ?d j) = None"
    using move_clear_spec [OF assms(1), of "st\<lparr>ft_disk := fs3\<rparr>" t i reply] r3 dir mo by auto
  have "to_uint64 (GetFileLength (?d @ ''/merge.out'') fs3) = length ?c"
    using length_merge_out [of ?d ?c] len by (simp add: fs3_def)
  then have "receive_end (block_msg x t i) ?d reply st =
      Fin (push_reply (final_reply reply) (st\<lparr>ft_disk := fs'\<rparr>)) (final_reply reply)"
    unfolding receive_end_def to_int32_count [OF assms(1)] mg Let_def by (simp add: mv del: append_assoc)
  with fin show ?thesis by blast
qed

lemma handle_last:
  assumes "rx_wire x" and "rx_ready x (ft_disk st)" and "x_src x = monNodeId (ft_info st)" and "Suc i = x_count x"
    and "\<And>j. j < i \<Longrightarrow> file_content (ft_disk st) (block_path (recv_dir x) j) = Some (block_of (x_block x) (x_bytes x) j)"
  obtains st' r where "handle_file_data env (block_msg x t i) st = Fin st' ()" and "rx_ready x (ft_disk st')"
    and "file_content (ft_disk st') (path_of (dest_name x)) = Some (x_bytes x)"
    and "node_at (ft_disk st') (block_path (recv_dir x) 0) = None"
    and "reply_queue st' = reply_queue st @ [r]" and "block_reply x i 5 r" and "ft_info st' = ft_info st"
proof -
  obtain fs1 fs2 where mk: "mkdir (recv_dir x) (ft_disk st) = (True, fs1)"
    and wr: "write_file (recv_dir x @ ''/'' @ to_string i) (block_of (x_block x) (x_bytes x) i) fs1 = fs2"
    and r2: "rx_ready x fs2" and b2: "blocks_ready fs2 (recv_dir x)" and m2: "merge_ready fs2 (recv_dir x)"
    and c2: "\<And>j. file_content fs2 (block_path (recv_dir x) j) =
      (if j = i then Some (block_of (x_block x) (x_bytes x) i) else file_content (ft_disk st) (block_path (recv_dir x) j))"
    by (rule stage_block [OF assms(2), of i "block_of (x_block x) (x_bytes x) i"]) blast
  have all: "file_content fs2 (block_path (recv_dir x) j) = Some (block_of (x_block x) (x_bytes x) j)" if "j < x_count x" for j
    using that assms(4) assms(5) [of j] c2 [of j] by (cases "j = i") simp_all
  from handle_staged [OF _ assms(3) mk wr, of env t] assms(1)
  obtain u n where h: "handle_file_data env (block_msg x t i) st = catch_run (bind_run
      (if Suc i = x_count x
       then receive_end (block_msg x t i) (recv_dir x) (make_reply u n (block_msg x t i)) (rx_stage env (block_msg x t i) fs2 st)
       else Fin (push_reply (make_reply u n (block_msg x t i)) (rx_stage env (block_msg x t i) fs2 st)) (make_reply u n (block_msg x t i)))
      (\<lambda>st' r. if x_src x \<noteq> monNodeId (ft_info st')
              then bind_run (file_data_reply_in env r st') (\<lambda>st _. Fin st ()) else Fin st' ()))
      (\<lambda>st e. Fin st ())" by (auto simp: rx_wire_def)
  let ?r = "final_reply (make_reply u n (block_msg x t i))"
  obtain fs' where e: "receive_end (block_msg x t i) (recv_dir x) (make_reply u n (block_msg x t i))
        (rx_stage env (block_msg x t i) fs2 st) =
      Fin (push_reply ?r ((rx_stage env (block_msg x t i) fs2 st)\<lparr>ft_disk := fs'\<rparr>)) ?r"
    and fin: "rx_ready x fs'" "file_content fs' (path_of (dest_name x)) = Some (x_bytes x)"
      "\<forall>j. node_at fs' (block_path (recv_dir x) j) = None"
    using receive_end_complete [OF assms(1), of "rx_stage env (block_msg x t i) fs2 st" t i "make_reply u n (block_msg x t i)"]
      r2 b2 m2 all by auto
  have "handle_file_data env (block_msg x t i) st = Fin (push_reply ?r ((rx_stage env (block_msg x t i) fs2 st)\<lparr>ft_disk := fs'\<rparr>)) ()"
    using h e assms(3,4) by simp
  moreover have "block_reply x i 5 ?r" by (simp add: block_reply_def final_reply_def block_msg_def)
  ultimately show thesis using that fin by simp
qed

text \<open>A copy of the last block that comes after the file is complete leaves the file as it is.\<close>

lemma handle_last_again:
  assumes "rx_wire x" and "rx_ready x (ft_disk st)" and "x_src x = monNodeId (ft_info st)" and "Suc i = x_count x"
    and "file_content (ft_disk st) (path_of (dest_name x)) = Some (x_bytes x)"
    and "node_at (ft_disk st) (block_path (recv_dir x) 0) = None \<or> i = 0"
  obtains st' where "handle_file_data env (block_msg x t i) st = Fin st' ()" and "rx_ready x (ft_disk st')"
    and "file_content (ft_disk st') (path_of (dest_name x)) = Some (x_bytes x)"
    and "node_at (ft_disk st') (block_path (recv_dir x) 0) = None \<or> i = 0" and "ft_info st' = ft_info st"
proof (cases "i = 0")
  case True
  with handle_last [OF assms(1-4), of env t] that show thesis by (metis less_nat_zero_code)
next
  case False
  let ?d = "recv_dir x"
  obtain fs1 fs2 where mk: "mkdir ?d (ft_disk st) = (True, fs1)"
    and wr: "write_file (?d @ ''/'' @ to_string i) (block_of (x_block x) (x_bytes x) i) fs1 = fs2"
    and r2: "rx_ready x fs2" and b2: "blocks_ready fs2 ?d" and m2: "merge_ready fs2 ?d"
    and n2: "\<And>j. j \<noteq> i \<Longrightarrow> node_at fs2 (block_path ?d j) = node_at (ft_disk st) (block_path ?d j)"
    and dst: "node_at fs2 (path_of (dest_name x)) = node_at (ft_disk st) (path_of (dest_name x))"
    by (rule stage_block [OF assms(2), of i "block_of (x_block x) (x_bytes x) i"]) blast
  define fs3 where "fs3 = set_node (merge_path ?d) (FileN []) (set_node (merge_path ?d) (FileN []) fs2)"
  have miss: "node_at fs2 (block_path ?d 0) = None" using n2 [of 0] False assms(6) by simp
  have "merge ?d (int (x_count x)) fs2 = Some (0, fs3)"
    using merge_missing_first [OF m2 miss, of "x_count x"] assms(4) by (simp add: fs3_def)
  moreover have "GetFileLength (?d @ ''/merge.out'') fs3 = 0"
    using length_merge_out [of ?d "[]"] by (simp add: fs3_def)
  moreover have "x_bytes x \<noteq> []" using assms(1) by (simp add: rx_wire_def wire_ok_def)
  ultimately have e: "receive_end (block_msg x t i) ?d reply (rx_stage env (block_msg x t i) fs2 st) =
      Fin ((rx_stage env (block_msg x t i) fs2 st)\<lparr>ft_disk := fs3\<rparr>) reply" for reply
    unfolding receive_end_def to_int32_count [OF assms(1)]
    by (simp add: move_clear_tmp_def to_uint64_def block_msg_def)
  have "handle_file_data env (block_msg x t i) st = Fin ((rx_stage env (block_msg x t i) fs2 st)\<lparr>ft_disk := fs3\<rparr>) ()"
    using handle_staged [OF _ assms(3) mk wr, of env t] assms(1,3,4) e by (auto simp: rx_wire_def)
  moreover have "rx_ready x fs3" and "node_at fs3 (path_of (dest_name x)) = node_at fs2 (path_of (dest_name x))"
    unfolding fs3_def using rx_ready_merge_out [OF rx_ready_merge_out(1,2) [OF r2 b2]] rx_ready_merge_out(3) [OF r2 b2]
    by simp_all
  moreover have "node_at fs3 (block_path ?d 0) = None" using miss by (simp add: fs3_def)
  ultimately show thesis using that dst assms(5) by (simp add: file_content_def)
qed

text \<open>The receiver's subscriber handles the messages one after the other.\<close>

fun handle_all :: "file_env \<Rightarrow> FileData list \<Rightarrow> file_topic \<Rightarrow> (file_topic, unit) run" where
  "handle_all env [] st = Fin st ()"
| "handle_all env (m # ms) st = bind_run (handle_file_data env m st) (\<lambda>st _. handle_all env ms st)"

lemma handle_all_append: "handle_all env (ms @ ms') st = bind_run (handle_all env ms st) (\<lambda>st _. handle_all env ms' st)"
  by (induction ms arbitrary: st) (simp_all add: bind_run_assoc)

lemma handle_all_blocks:
  assumes "rx_wire x" and "rx_ready x (ft_disk st)" and "x_src x = monNodeId (ft_info st)"
    and "\<forall>(t, i) \<in> set its. Suc i \<noteq> x_count x"
  shows "\<exists>st'. handle_all env (map (\<lambda>(t, i). block_msg x t i) its) st = Fin st' () \<and> rx_ready x (ft_disk st') \<and>
    ft_info st' = ft_info st \<and>
    (\<forall>j. (j \<in> snd ` set its \<or> file_content (ft_disk st) (block_path (recv_dir x) j) = Some (block_of (x_block x) (x_bytes x) j))
       \<longrightarrow> file_content (ft_disk st') (block_path (recv_dir x) j) = Some (block_of (x_block x) (x_bytes x) j))"
  using assms(2-4)
proof (induction its arbitrary: st)
  case Nil
  then show ?case by simp
next
  case (Cons ti its)
  obtain t i where ti: "ti = (t, i)" by (cases ti)
  from Cons.prems ti have ni: "Suc i \<noteq> x_count x" by simp
  obtain st1 where h: "handle_file_data env (block_msg x t i) st = Fin st1 ()" and r1: "rx_ready x (ft_disk st1)"
    and c1: "\<forall>j. file_content (ft_disk st1) (block_path (recv_dir x) j) =
      (if j = i then Some (block_of (x_block x) (x_bytes x) i) else file_content (ft_disk st) (block_path (recv_dir x) j))"
    and i1: "ft_info st1 = ft_info st"
    by (rule handle_block [OF assms(1) Cons.prems(1,2) ni])
  from Cons.IH [OF r1] Cons.prems i1 obtain st' where
    "handle_all env (map (\<lambda>(t, i). block_msg x t i) its) st1 = Fin st' ()" "rx_ready x (ft_disk st')"
    "ft_info st' = ft_info st"
    "\<forall>j. (j \<in> snd ` set its \<or> file_content (ft_disk st1) (block_path (recv_dir x) j) = Some (block_of (x_block x) (x_bytes x) j))
       \<longrightarrow> file_content (ft_disk st') (block_path (recv_dir x) j) = Some (block_of (x_block x) (x_bytes x) j)" by auto
  with h ti c1 show ?case by auto
qed

lemma handle_all_last_again:
  assumes "rx_wire x" and "rx_ready x (ft_disk st)" and "x_src x = monNodeId (ft_info st)" and "Suc i = x_count x"
    and "file_content (ft_disk st) (path_of (dest_name x)) = Some (x_bytes x)"
    and "node_at (ft_disk st) (block_path (recv_dir x) 0) = None \<or> i = 0"
  shows "\<exists>st'. handle_all env (map (\<lambda>t. block_msg x t i) ts) st = Fin st' () \<and>
    file_content (ft_disk st') (path_of (dest_name x)) = Some (x_bytes x)"
  using assms(2,3,5,6)
proof (induction ts arbitrary: st)
  case Nil
  then show ?case by simp
next
  case (Cons t ts)
  obtain st1 where "handle_file_data env (block_msg x t i) st = Fin st1 ()" "rx_ready x (ft_disk st1)"
    "file_content (ft_disk st1) (path_of (dest_name x)) = Some (x_bytes x)"
    "node_at (ft_disk st1) (block_path (recv_dir x) 0) = None \<or> i = 0" "ft_info st1 = ft_info st"
    by (rule handle_last_again [OF assms(1) Cons.prems(1,2) assms(4) Cons.prems(3,4)])
  with Cons.IH [of st1] Cons.prems(2) show ?case by simp
qed

text \<open>All blocks but the last in any order and any number, then the last one, once or more often.\<close>

lemma delivery:
  assumes "rx_wire x" and "rx_ready x (ft_disk st)" and "x_src x = monNodeId (ft_info st)"
    and "snd ` set its = {..<x_count x - 1}"
  shows "\<exists>st1 st2 r. handle_all env (map (\<lambda>(t, i). block_msg x t i) its @ [block_msg x t (x_count x - 1)]) st = Fin st1 () \<and>
    file_content (ft_disk st1) (path_of (dest_name x)) = Some (x_bytes x) \<and>
    last (reply_queue st1) = r \<and> block_reply x (x_count x - 1) 5 r \<and>
    handle_all env (map (\<lambda>(t, i). block_msg x t i) its @ block_msg x t (x_count x - 1)
      # map (\<lambda>t. block_msg x t (x_count x - 1)) ts) st = Fin st2 () \<and>
    file_content (ft_disk st2) (path_of (dest_name x)) = Some (x_bytes x)"
proof -
  let ?n = "x_count x - 1"
  have n: "Suc ?n = x_count x" using assms(1) x_count_bounds(1) by (simp add: rx_wire_def)
  have "\<forall>(t, i) \<in> set its. Suc i \<noteq> x_count x" using assms(4) by force
  from handle_all_blocks [OF assms(1-3) this, of env] obtain st0 where
    a: "handle_all env (map (\<lambda>(t, i). block_msg x t i) its) st = Fin st0 ()" and r0: "rx_ready x (ft_disk st0)"
    and i0: "ft_info st0 = ft_info st"
    and c0: "\<And>j. j < ?n \<Longrightarrow> file_content (ft_disk st0) (block_path (recv_dir x) j) = Some (block_of (x_block x) (x_bytes x) j)"
    using assms(4) by auto
  have src0: "x_src x = monNodeId (ft_info st0)" using assms(3) i0 by simp
  obtain st1 r where h: "handle_file_data env (block_msg x t ?n) st0 = Fin st1 ()" and r1: "rx_ready x (ft_disk st1)"
    and c1: "file_content (ft_disk st1) (path_of (dest_name x)) = Some (x_bytes x)"
    and b1: "node_at (ft_disk st1) (block_path (recv_dir x) 0) = None"
    and q: "reply_queue st1 = reply_queue st0 @ [r]" "block_reply x ?n 5 r" and i1: "ft_info st1 = ft_info st0"
    by (rule handle_last [OF assms(1) r0 src0 n c0, of env t])
  have src1: "x_src x = monNodeId (ft_info st1)" using src0 i1 by simp
  from handle_all_last_again [OF assms(1) r1 src1 n c1 disjI1 [OF b1], of env ts] obtain st2 where
    "handle_all env (map (\<lambda>t. block_msg x t ?n) ts) st1 = Fin st2 ()"
    "file_content (ft_disk st2) (path_of (dest_name x)) = Some (x_bytes x)" by blast
  with a h c1 q show ?thesis by (simp add: handle_all_append)
qed

text \<open>The wire of a successful \<open>send_file\<close> has that form.\<close>

lemma runs_from_append: "runs_from x i (a @ b) = runs_from x i a @ runs_from x (i + length a) b"
  by (induction x i a rule: runs_from.induct) simp_all

lemma runs_from_blocks:
  "\<forall>(j, t) \<in> set jts. 0 < j \<Longrightarrow>
     \<exists>its. runs_from x i jts = map (\<lambda>(t, k). block_msg x t k) its \<and> snd ` set its = {i..<i + length jts}"
proof (induction x i jts rule: runs_from.induct)
  case (2 x i j t jts)
  then obtain its where its: "runs_from x (Suc i) jts = map (\<lambda>(t, k). block_msg x t k) its"
    "snd ` set its = {Suc i..<Suc i + length jts}" by auto
  have "runs_from x i ((j, t) # jts) = map (\<lambda>(t, k). block_msg x t k) (replicate j (t, i) @ its)"
    using its(1) by simp
  moreover have "snd ` set (replicate j (t, i) @ its) = {i..<i + length ((j, t) # jts)}"
    using its(2) 2(2) by (auto simp: set_replicate_conv_if image_Un)
  ultimately show ?case by blast
qed simp

lemma wire_shape:
  assumes "sent_ok env x 0 jts True" and "wire_ok x"
  obtains its t ts where "snd ` set its = {..<x_count x - 1}"
    and "runs_from x 0 jts = map (\<lambda>(t, i). block_msg x t i) its @ block_msg x t (x_count x - 1)
      # map (\<lambda>t. block_msg x t (x_count x - 1)) ts"
proof -
  from assms have len: "length jts = x_count x" and pos: "\<forall>(j, t) \<in> set jts. 0 < j"
    by (simp_all add: sent_ok_def)
  with x_count_bounds(1) [OF assms(2)] obtain a j t where jts: "jts = a @ [(j, t)]"
    by (metis append_butlast_last_id length_greater_0_conv prod.exhaust_sel)
  with pos have "\<forall>(j, t) \<in> set a. 0 < j" by auto
  from runs_from_blocks [OF this, of x 0] obtain its where
    its: "runs_from x 0 a = map (\<lambda>(t, k). block_msg x t k) its" "snd ` set its = {0..<0 + length a}" by blast
  have la: "length a = x_count x - 1" using jts len by simp
  obtain k where k: "j = Suc k" using pos jts by (auto simp: gr0_conv_Suc)
  show thesis
  proof
    show "snd ` set its = {..<x_count x - 1}" using its(2) la by auto
    show "runs_from x 0 jts = map (\<lambda>(t, i). block_msg x t i) its @ block_msg x t (x_count x - 1)
      # map (\<lambda>t. block_msg x t (x_count x - 1)) (replicate k t)"
      using its(1) la by (simp add: jts runs_from_append k)
  qed
qed

section \<open>A concrete transfer\<close>

text \<open>A managing node \<open>m\<close> sends the five bytes of \<open>f\<close> to node \<open>n\<close>, to be stored as \<open>out/g\<close>.\<close>

definition demo_info :: TopicInfo where
  "demo_info = \<lparr>topic = ''file'', topicReply = ''file/reply'', partition = '''', nodeId = ''m'',
     nodeName = ''m'', domain = 0, needReply = True, monNodeId = ''m'', monSendSleep = 60, programName = ''node''\<rparr>"

definition demo_topic :: file_topic where
  "demo_topic = \<lparr>ft_base = fresh_base demo_info, ft_disk = demo_fs, reply_queue = [], file_out = [],
     reply_out = [], ft_sqls = [], ft_tick = 0\<rparr>"

definition demo_env :: file_env where
  "demo_env = \<lparr>fe_node = \<lparr>ni_nodeId = ''m'', ni_group = ''mgr'', fileMaxReTry = 3, fileBlockTimeout = 5,
       fileBlockLastTimeout = 9, fileSplitSize = 1, processVec = []\<rparr>,
     fe_db = \<lparr>db_present = True, db_exec = \<lambda>_. 0\<rparr>, gen_uuid = \<lambda>n. ''u'' @ to_string n, clock = int,
     byte_size = \<lambda>_. 100, reply_byte_size = \<lambda>_. 50, net_put = \<lambda>n k. k > 0,
     net_polls = \<lambda>n k. [[], [make_reply ''r'' ''f'' (empty_file_data\<lparr>fd_block_seq := n\<rparr>)]]\<rparr>"

definition demo_xfer :: xfer where
  "demo_xfer = send_xfer demo_env ''m'' ''f'' ''out/g'' ''m'' ''1'' ''n'' ''out/g'' ''hello'' 1"

lemmas eval_path = path_of_def components_def Strings.split.simps getline_def

lemma demo_dirs [simp]:
  "path_of (send_dir demo_env ''f'') = [''send'', ''m'', ''f_tmp'']"
  "path_of (recv_dir demo_xfer) = [''recv'', ''m'', ''n'', ''f_tmp'']"
  "dest_name demo_xfer = ''out/g''" "path_of ''out/g'' = [''out'', ''g'']" "dest_dirs demo_xfer = [''out'']"
  by (simp_all add: send_dir_def demo_env_def demo_xfer_def send_xfer_def dest_name_def dest_dirs_def
      save_paths_def save_dirs_def c_str_def eval_path)

lemma demo_tmp_ready:
  assumes "d \<noteq> []" and "length (path_of d) > 1" and "hd (path_of d) \<notin> {''t'', ''f'', ''/''}"
  shows "tmp_ready demo_fs d"
proof -
  have free: "node_at demo_fs q = None \<or> node_at demo_fs q = Some DirN" if "q \<noteq> [''f'']" for q
    using that by (auto simp: node_at_def demo_fs_def)
  have "node_at demo_fs q = None" if "length q > 1" for q
    using that by (auto simp: node_at_def demo_fs_def is_root_def)
  moreover have "[''f''] \<notin> set (prefixes_of (path_of d))"
    using assms(2,3) by (auto simp: mem_prefixes_of)
  moreover have "length (block_path d i) > 1" "length (merge_path d) > 1" for i
    using assms(2) by (auto simp: block_path_def merge_path_def)
  moreover have "writable demo_fs q" for q by (simp add: demo_fs_def)
  ultimately show ?thesis
    unfolding tmp_ready_def using free assms(1) by (metis demo_wf fnode.distinct(1) option.distinct(1) option.inject)
qed

lemma demo_rx_ready [simp]: "rx_ready demo_xfer demo_fs" "tmp_ready demo_fs (send_dir demo_env ''f'')"
proof -
  show "tmp_ready demo_fs (send_dir demo_env ''f'')"
    by (rule demo_tmp_ready) (simp_all, simp add: send_dir_def)
  have "tmp_ready demo_fs (recv_dir demo_xfer)" by (rule demo_tmp_ready) simp_all
  moreover have "dst_ready demo_xfer demo_fs"
    unfolding dst_ready_def demo_dirs
    by (simp add: prefixes_of_def node_at_def is_root_def, simp add: demo_fs_def)
  ultimately show "rx_ready demo_xfer demo_fs" by (simp add: rx_ready_def)
qed

lemma demo_xfer_fields [simp]:
  "x_count demo_xfer = 1" "x_bytes demo_xfer = ''hello''" "x_src demo_xfer = ''m''" "x_block demo_xfer = 1024"
  by (simp_all add: demo_xfer_def send_xfer_def x_count_def block_count_def)

lemma demo_xfer_eq [simp]:
  "send_xfer demo_env ''m'' ''f'' ''out/g'' ''m'' ''1'' ''n'' ''out/g'' ''hello'' (Suc 0) = demo_xfer"
  by (simp add: demo_xfer_def)

lemma demo_answered [simp]: "block_answered demo_env demo_xfer 0"
  unfolding block_answered_def
  by (rule exI [of _ 1]) (simp add: answered_def polls_of_def block_timeout_def block_msg_def demo_env_def
    empty_file_data_def)

lemma demo_topic_fields [simp]:
  "ft_disk demo_topic = demo_fs" "ft_info demo_topic = demo_info" "nodeId demo_info = ''m''" "monNodeId demo_info = ''m''"
  by (simp_all add: demo_topic_def fresh_base_def create_writer_mon_pub_def demo_info_def)

lemma demo_rx_wire [simp]: "rx_wire demo_xfer"
  by (simp add: rx_wire_def wire_ok_def, simp add: demo_xfer_def send_xfer_def)

lemma demo_subreplace [simp]:
  "Strings.subreplace ''f'' ''./'' '''' = Some ''f''" "Strings.subreplace ''out/g'' ''./'' '''' = Some ''out/g''"
  by (simp_all add: Strings.subreplace.simps)

lemma demo_split_size [simp]: "fileSplitSize (fe_node demo_env) = 1" "fileMaxReTry (fe_node demo_env) = 3"
  by (simp_all add: demo_env_def)

section \<open>Properties\<close>

text \<open>
  C1. A file sent by a managing node arrives: if every block of a readable, non-empty file is
  answered within the retries, \<open>send_file\<close> returns \<open>true\<close>, and once the receiver has handled
  the messages it put on the wire (with all the copies that were sent again), the file named
  by \<open>sub_dir\<close> on the receiver's disk holds the same bytes.
\<close>

theorem file_transfer_end_to_end:
  assumes "Strings.subreplace fileName ''./'' '''' = Some sendfile"
    and "Strings.subreplace subDirs ''./'' '''' = Some subName"
    and "open_in (ft_disk st) sendfile = Some (FileN c)" and "c \<noteq> []" and "length c < 2 ^ 63"
    and "fileSplitSize (fe_node env) = int k" and "0 < k" and "1024 * k < 2 ^ 31"
    and "tmp_ready (ft_disk st) (send_dir env sendfile)"
    and "x = send_xfer env (nodeId (ft_info st)) sendfile subName srcNodeId uuid toNodeId subDirs c k"
    and "\<forall>m < x_count x. block_answered env x m"
    and "x_count x < 2 ^ 31" and "rx_ready x (ft_disk rst)" and "monNodeId (ft_info rst) = nodeId (ft_info st)"
  shows "\<exists>st' ms rst'. send_file env fileName srcNodeId uuid toNodeId subDirs st = Fin st' True \<and>
    file_out st' = file_out st @ ms \<and> handle_all renv ms rst = Fin rst' () \<and>
    file_content (ft_disk rst') (path_of (dest_name x)) = Some c"
proof -
  obtain jts r st' where send: "send_file env fileName srcNodeId uuid toNodeId subDirs st = Fin st' r"
    "file_out st' = file_out st @ runs_from x 0 jts" and ok: "sent_ok env x 0 jts r"
    using send_file_spec [OF assms(1-10,12)] by blast
  have r: "r" using ok assms(11) by (simp add: sent_ok_def)
  have x: "x_bytes x = c" "x_src x = monNodeId (ft_info rst)" "x_save x \<noteq> []" "x_recv x \<noteq> []" "x_block x = 1024 * k"
    using assms(14) by (simp_all add: assms(10) send_xfer_def)
  have wire: "wire_ok x" using assms(4,5,7,8) by (simp add: wire_ok_def x)
  then have rxw: "rx_wire x" using assms(12) x by (simp add: rx_wire_def)
  obtain its t ts where shape: "snd ` set its = {..<x_count x - 1}"
    "runs_from x 0 jts = map (\<lambda>(t, i). block_msg x t i) its @ block_msg x t (x_count x - 1)
      # map (\<lambda>t. block_msg x t (x_count x - 1)) ts"
    by (rule wire_shape [OF _ wire, of env jts]) (use ok r in simp_all)
  from delivery [OF rxw assms(13) x(2) shape(1), of renv t ts] send r shape(2) x(1) show ?thesis by auto
qed

theorem file_transfer_end_to_end_witness:
  "\<exists>st' ms rst'. send_file demo_env ''f'' ''m'' ''1'' ''n'' ''out/g'' demo_topic = Fin st' True \<and>
    file_out st' = file_out demo_topic @ ms \<and> handle_all demo_env ms demo_topic = Fin rst' () \<and>
    file_content (ft_disk rst') (path_of (dest_name demo_xfer)) = Some ''hello''"
  by (rule file_transfer_end_to_end [where k = 1 and sendfile = "''f''" and subName = "''out/g''"])
    simp_all



text \<open>
  C17. \<open>send_file\<close> of a readable, non-empty file with a positive block size always returns; it
  returns \<open>true\<close> exactly when every block is answered within \<open>fileMaxReTry_ + 1\<close> attempts,
  and no block is sent more often than that. The number of blocks must fit an \<open>int\<close>, in which \<open>split\<close> counts them.
\<close>

theorem send_file_returns:
  assumes "Strings.subreplace fileName ''./'' '''' = Some sendfile"
    and "Strings.subreplace subDirs ''./'' '''' = Some subName"
    and "open_in (ft_disk st) sendfile = Some (FileN c)" and "c \<noteq> []" and "length c < 2 ^ 63"
    and "fileSplitSize (fe_node env) = int k" and "0 < k" and "1024 * k < 2 ^ 31"
    and "tmp_ready (ft_disk st) (send_dir env sendfile)"
    and "x = send_xfer env (nodeId (ft_info st)) sendfile subName srcNodeId uuid toNodeId subDirs c k"
    and "x_count x < 2 ^ 31"
  shows "\<exists>r st' jts. send_file env fileName srcNodeId uuid toNodeId subDirs st = Fin st' r \<and>
    (r \<longleftrightarrow> (\<forall>m < x_count x. block_answered env x m)) \<and>
    file_out st' = file_out st @ runs_from x 0 jts \<and> length jts \<le> x_count x \<and>
    (\<forall>(j, t) \<in> set jts. int j \<le> max 0 (fileMaxReTry (fe_node env) + 1))"
proof -
  obtain jts r st' where "send_file env fileName srcNodeId uuid toNodeId subDirs st = Fin st' r"
    "file_out st' = file_out st @ runs_from x 0 jts" "sent_ok env x 0 jts r"
    using send_file_spec [OF assms] by blast
  then show ?thesis by (auto simp: sent_ok_def retry_limit_def)
qed

theorem send_file_returns_witness:
  "\<exists>r st' jts. send_file demo_env ''f'' ''m'' ''1'' ''n'' ''out/g'' demo_topic = Fin st' r \<and>
    (r \<longleftrightarrow> (\<forall>m < x_count demo_xfer. block_answered demo_env demo_xfer m)) \<and>
    file_out st' = file_out demo_topic @ runs_from demo_xfer 0 jts \<and> length jts \<le> x_count demo_xfer \<and>
    (\<forall>(j, t) \<in> set jts. int j \<le> max 0 (fileMaxReTry (fe_node demo_env) + 1))"
  by (rule send_file_returns [where k = 1 and sendfile = "''f''" and subName = "''out/g''" and c = "''hello''"])
    simp_all

text \<open>
  An empty file is never transferred: \<open>send_file\<close> returns \<open>false\<close> and puts nothing on the
  wire, whatever the network does.
\<close>

theorem empty_file_not_sent:
  assumes "Strings.subreplace fileName ''./'' '''' = Some sendfile"
    and "Strings.subreplace subDirs ''./'' '''' = Some subName"
    and "open_in (ft_disk st) sendfile = Some (FileN [])"
    and "fileSplitSize (fe_node env) = int k" and "0 < k" and "1024 * k < 2 ^ 31"
    and "tmp_ready (ft_disk st) (send_dir env sendfile)"
  shows "\<exists>st'. send_file env fileName srcNodeId uuid toNodeId subDirs st = Fin st' False \<and> file_out st' = file_out st"
proof -
  let ?d = "send_dir env sendfile"
  obtain fs1 where mk: "mkdir (?d @ ''/'') (ft_disk st) = (True, fs1)" and blk: "blocks_ready fs1 ?d"
    and other: "\<forall>q. q \<notin> set (prefixes_of (path_of ?d)) \<longrightarrow> node_at fs1 q = node_at (ft_disk st) q"
    by (rule tmp_ready_mkdir [OF assms(7)])
  have "path_of sendfile \<notin> set (prefixes_of (path_of ?d))"
    using assms(3,7) by (auto simp: open_in_file tmp_ready_def)
  with other assms(3) have o1: "open_in fs1 sendfile = Some (FileN [])" by (simp add: open_in_file)
  have sp: "file_split sendfile (int k) (?d @ ''/'') fs1 = Some (Ret (0, fs1))"
    using file_split_spec [OF o1 assms(5) blk] assms(6) by simp
  have len: "GetFileLength sendfile (ft_disk st) = int 0" using assms(3) by (simp add: GetFileLength_def)
  have tmp: "''send/'' @ ni_nodeId (fe_node env) @ ''/'' @ sendfile @ ''_tmp/'' = ?d @ ''/''"
    by (simp add: send_dir_def)
  have num: "file_num (int 0) (int k) = Ret 0" using file_num_blocks [OF assms(5,6), of 0] by simp
  have "send_file env fileName srcNodeId uuid toNodeId subDirs st = Fin (st\<lparr>ft_disk := fs1\<rparr>) False"
    unfolding send_file_def Let_def assms(1,2,4) option.case prod.case tmp len mk sp num
    by (simp add: send_blocks.simps)
  then show ?thesis by simp
qed

definition demo_empty :: file_topic where
  "demo_empty = demo_topic\<lparr>ft_disk := set_node [''f''] (FileN []) demo_fs\<rparr>"

theorem empty_file_not_sent_witness:
  "\<exists>st'. send_file demo_env ''f'' ''m'' ''1'' ''n'' ''out/g'' demo_empty = Fin st' False \<and> file_out st' = file_out demo_empty"
proof (rule empty_file_not_sent [where k = 1 and sendfile = "''f''" and subName = "''out/g''"])
  have "tmp_ready demo_fs (send_dir demo_env ''f'')" by simp
  moreover have "fs_wf (set_node [''f''] (FileN []) demo_fs)"
    by (rule fs_wf_set_node) (simp_all add: node_at_def is_root_def, simp add: demo_fs_def)
  ultimately show "tmp_ready (ft_disk demo_empty) (send_dir demo_env ''f'')"
    by (simp add: tmp_ready_def demo_empty_def prefixes_of_def block_path_def merge_path_def)
  show "open_in (ft_disk demo_empty) ''f'' = Some (FileN [])"
    by (simp add: demo_empty_def open_in_file is_root_def)
qed simp_all

text \<open>
  The sender looks at the block number of a reply only: replacing the state, the uuids or
  the file name of every reply by anything else does not change whether a block counts as
  delivered. In particular the failure reply of state 4 is taken for a success.
\<close>

theorem reply_content_ignored:
  assumes "\<forall>r. fr_block_seq (f r) = fr_block_seq r"
  shows "fst (wait_reply n (map (map f) polls) (map f q)) = fst (wait_reply n polls q)"
proof (induction n polls q rule: wait_reply.induct)
  case (2 n arrived polls q)
  show ?case
  proof (cases "q @ arrived")
    case Nil
    then show ?thesis using "2.IH"(1) [OF Nil] by simp
  next
    case (Cons r rest)
    from Cons have "map f q @ map f arrived = f r # map f rest" by (metis list.simps(9) map_append)
    with "2.IH"(2) [OF Cons] Cons assms show ?thesis by simp
  qed
qed simp

theorem reply_content_ignored_witness:
  "fst (wait_reply 0 (map (map (\<lambda>r. r\<lparr>fr_state := 4\<rparr>)) [[make_reply ''r'' ''f'' empty_file_data]]) (map (\<lambda>r. r\<lparr>fr_state := 4\<rparr>) []))
     = fst (wait_reply 0 [[make_reply ''r'' ''f'' empty_file_data]] [])"
  by (rule reply_content_ignored) simp

text \<open>
  A missing block is not reported: when the last block arrives and block \<open>m\<close> is not there,
  the receiver queues no reply at all. For \<open>m > 0\<close> the reply it would send has state 3; for
  \<open>m = 0\<close> it even keeps the state 1 of a block received well.
\<close>

theorem missing_block_not_reported:
  assumes "merge_ready (ft_disk st) d" and "\<forall>j < m. file_content (ft_disk st) (block_path d j) = Some (b j)"
    and "node_at (ft_disk st) (block_path d m) = None" and "m < fd_total_block_num fd"
    and "fd_total_block_num fd < 2 ^ 31" and "0 < fd_file_total_size fd"
  shows "\<exists>fs' r. receive_end fd d reply st = Fin (st\<lparr>ft_disk := fs'\<rparr>) r \<and>
    fr_state r = (if m = 0 then fr_state reply else 3)"
proof -
  let ?n = "fd_total_block_num fd"
  obtain fs' where mg: "merge d (int ?n) (ft_disk st) = Some (int m, fs')"
    and c: "file_content fs' (merge_path d) = Some (concat (map b [0..<m]))"
    using merge_missing [of "ft_disk st" d m b ?n] assms by blast
  have n: "to_int32 (int ?n) = int ?n" using assms(5) by (simp add: in_int32_def)
  show ?thesis
  proof (cases "m = 0")
    case True
    have "d \<noteq> []" using assms(1) by (simp add: merge_ready_def)
    with c True have "GetFileLength (d @ ''/merge.out'') fs' = 0"
      using path_of_merge [of d]
      by (simp add: GetFileLength_def open_in_def file_content_def split: option.splits fnode.splits)
    then have "receive_end fd d reply st = Fin (st\<lparr>ft_disk := fs'\<rparr>) reply"
      unfolding receive_end_def n mg using assms(6) True by (simp add: move_clear_tmp_def to_uint64_def)
    with True show ?thesis by auto
  next
    case False
    then have "receive_end fd d reply st =
        Fin (st\<lparr>ft_disk := fs'\<rparr>) (reply\<lparr>fr_block_seq := to_uint64 (int m), fr_is_end := True, fr_state := 3\<rparr>)"
      unfolding receive_end_def n mg by simp
    with False show ?thesis by auto
  qed
qed

theorem missing_block_not_reported_witness:
  "\<exists>fs' r. receive_end (empty_file_data\<lparr>fd_total_block_num := 3, fd_file_total_size := 5\<rparr>) ''t''
      (make_reply ''u'' ''f'' empty_file_data) demo_topic = Fin (demo_topic\<lparr>ft_disk := fs'\<rparr>) r \<and>
    fr_state r = (if (0::nat) = 0 then fr_state (make_reply ''u'' ''f'' empty_file_data) else 3)"
  by (rule missing_block_not_reported) simp_all

text \<open>
  A file sent with the sub directory a dot, the value that stands for a missing
  \<open>sub_dir\<close> of a task, is lost while its transfer is reported as confirmed: \<open>move_clear_tmp\<close>
  queues the reply of state 5, and no path has the bytes of the merged file that did not have
  them before.
\<close>

theorem dot_sub_dir_loses_file:
  assumes "fd_sub_dir fd = ''.''" and "fd_save_file_name fd = n @ ''/.''" and "n \<noteq> []" and "CHR ''/'' \<notin> set n"
    and "d \<noteq> []" and "IsDir d (ft_disk st)" and "file_content (ft_disk st) (merge_path d) = Some c"
    and "fd_file_total_size fd = length c"
  shows "\<exists>fs'. move_clear_tmp (length c) fd (d @ ''/merge.out'') d reply st =
      Fin (push_reply (final_reply reply) (st\<lparr>ft_disk := fs'\<rparr>)) (final_reply reply, 2) \<and>
    node_at fs' (merge_path d) = None \<and>
    (\<forall>p b. file_content fs' p = Some b \<longrightarrow> p \<noteq> merge_path d \<and> file_content (ft_disk st) p = Some b)"
proof -
  let ?fs = "ft_disk st"
  have dot: "path_of ''.'' = []" by (simp add: eval_path)
  have paths: "Strings.split (fd_save_file_name fd) (CHR ''/'') = [n, ''.'']"
    using assms(2-4) by (simp add: split_append_delim split_noDelim)
  have "node_at ?fs (merge_path d) = Some (FileN c)"
    using assms(7) by (simp add: file_content_def split: option.splits fnode.splits)
  then have o: "open_in ?fs (d @ ''/merge.out'') = Some (FileN c)"
    unfolding open_in_file using path_of_merge [OF assms(5)] assms(5) by simp
  have "path_of (d @ ''/merge.out'') \<noteq> path_of ''.''"
    using path_of_merge [OF assms(5)] dot by (simp add: merge_path_def)
  from move_spec [OF o this] have mv: "snd (move (d @ ''/merge.out'') ''.'' ?fs) = del_node (merge_path d) ?fs"
    using path_of_merge [OF assms(5)] by (simp add: can_open_out_def dot node_at_def is_root_def)
  have "IsDir d (del_node (merge_path d) ?fs)"
    using assms(6) by (auto simp: IsDir_def node_at_del merge_path_def)
  then have rm: "remove_all_files d (del_node (merge_path d) ?fs) = remove_all (path_of d) ?fs"
    by (simp add: remove_all_files_eq remove_all_del block_path_under(2) del: is_under.simps)
  have "mkdir ''.'' ?fs = (True, ?fs)" by (simp add: mkdir_def dot)
  then have eq: "move_clear_tmp (length c) fd (d @ ''/merge.out'') d reply st =
      Fin (push_reply (final_reply reply) (st\<lparr>ft_disk := remove_all (path_of d) ?fs\<rparr>)) (final_reply reply, 2)"
    using assms(1,2,8) paths mv rm
    by (simp add: move_clear_tmp_def final_reply_def save_dirs_def c_str_def Let_def)
  have none: "node_at (remove_all (path_of d) ?fs) (merge_path d) = None"
    using block_path_under(2) by (simp add: node_at_remove_all del: is_under.simps)
  moreover have "p \<noteq> merge_path d \<and> file_content ?fs p = Some b" if "file_content (remove_all (path_of d) ?fs) p = Some b" for p b
    using that none by (auto simp: file_content_def node_at_remove_all split: if_splits option.splits fnode.splits simp del: is_under.simps)
  ultimately show ?thesis using eq by blast
qed

definition demo_merged :: file_topic where
  "demo_merged = demo_topic\<lparr>ft_disk := set_node [''t'', ''merge.out''] (FileN ''hello'') demo_fs\<rparr>"

theorem dot_sub_dir_loses_file_witness:
  "\<exists>fs'. move_clear_tmp (length ''hello'') (empty_file_data\<lparr>fd_sub_dir := ''.'', fd_save_file_name := ''m'' @ ''/.'',
        fd_file_total_size := 5\<rparr>) (''t'' @ ''/merge.out'') ''t'' (make_reply ''u'' ''f'' empty_file_data) demo_merged =
      Fin (push_reply (final_reply (make_reply ''u'' ''f'' empty_file_data)) (demo_merged\<lparr>ft_disk := fs'\<rparr>))
        (final_reply (make_reply ''u'' ''f'' empty_file_data), 2) \<and>
    node_at fs' (merge_path ''t'') = None \<and>
    (\<forall>p b. file_content fs' p = Some b \<longrightarrow> p \<noteq> merge_path ''t'' \<and> file_content (ft_disk demo_merged) p = Some b)"
proof (rule dot_sub_dir_loses_file [where n = "''m''"])
  show "file_content (ft_disk demo_merged) (merge_path ''t'') = Some ''hello''"
    by (simp add: demo_merged_def merge_path_def file_content_def is_root_def)
  have "node_at demo_fs [''t''] = Some DirN" by (simp add: node_at_def is_root_def demo_fs_def)
  then show "IsDir ''t'' (ft_disk demo_merged)" by (simp add: IsDir_def demo_merged_def)
qed simp_all

text \<open>Lengths of the statements that record a reply.\<close>

definition reply_weight :: "FileDataReply \<Rightarrow> nat" where
  "reply_weight r = length (fr_reply_uuid r) + 2 * length (fr_file_name r) + length (fr_to_node_id r)
     + length (fr_src_node_id r) + length (fr_sub_dir r)"

lemma length_where_reply: "length (where_reply r) \<le> reply_weight r + 60"
  using length_quoted [of "fr_reply_uuid r"] length_quoted [of "fr_src_node_id r"]
  by (simp add: where_reply_def reply_weight_def)

lemma length_insert_reply:
  assumes "length (to_string s) \<le> 20" and "length (to_string t) \<le> 20" and "fr_total_block_num r < 2 ^ 64"
    and "length descr \<le> length (fr_file_name r) + 40"
  shows "length (insert_reply_sql r s descr t) \<le> reply_weight r + 340"
  using assms length_quoted [of "fr_reply_uuid r"] length_quoted [of "fr_file_name r"] length_quoted [of "fr_to_node_id r"]
    length_quoted [of "fr_src_node_id r"] length_quoted [of "fr_sub_dir r"] length_quoted [of descr]
    length_to_string_64 [of "fr_total_block_num r"]
  by (simp add: insert_reply_sql_def reply_weight_def)

lemma length_update_reply:
  assumes "length (to_string s) \<le> 20" and "length (to_string t) \<le> 20"
  shows "length (update_reply_sql r s t) \<le> reply_weight r + 200"
  using assms length_where_reply [of r] by (simp add: update_reply_sql_def)

lemma length_progress:
  assumes "length (to_string s) \<le> 20"
  shows "length (progress_sql r s) \<le> reply_weight r + 200"
  using assms length_where_reply [of r] length_quoted [of "to_string s"] by (simp add: progress_sql_def)

lemma length_finish:
  assumes "length (to_string s) \<le> 20" and "length descr \<le> length (fr_file_name r) + 40"
  shows "length (finish_sql r s descr) \<le> 2 * reply_weight r + 300"
proof -
  have "length (fr_file_name r) \<le> reply_weight r" by (simp add: reply_weight_def)
  with assms length_where_reply [of r] length_quoted [of descr] show ?thesis by (simp add: finish_sql_def)
qed

definition db_accepts :: "db_env \<Rightarrow> bool" where
  "db_accepts db \<longleftrightarrow> (db_present db \<longrightarrow> (\<forall>s. 0 \<le> db_exec db s))"

lemma format_and_run_ok:
  assumes "db_accepts (fe_db env)" and "length sql < 1024"
  shows "\<exists>st'. format_and_run env sql st = Fin st' True"
proof (cases "db_present (fe_db env)")
  case True
  with assms(1) have "0 \<le> db_exec (fe_db env) sql" by (auto simp: db_accepts_def)
  with assms(2) True show ?thesis by (simp add: format_and_run_def sprintf_1024_def run_sql_def Let_def)
next
  case False
  with assms(2) show ?thesis by (simp add: format_and_run_def sprintf_1024_def run_sql_def)
qed

text \<open>
  Recording a reply never overruns its statement buffers and succeeds, for every state a
  reply can have, when the names in it are at most 350 bytes together (the file name counted
  twice) and the database accepts the statements.
\<close>

theorem reply_statements_fit:
  assumes "reply_weight r \<le> 350" and "fr_total_block_num r < 2 ^ 64" and "db_accepts (fe_db env)"
  shows "\<exists>st'. file_data_reply_in env r st = Fin st' True"
proof -
  define s t where "s = to_uint64 (int (fr_block_seq r) + 1)" and "t = to_uint64 (fr_state r)"
  let ?d5 = "fr_file_name r @ '' Send sucess!''"
  have n: "length (to_string s) \<le> 20" "length (to_string t) \<le> 20" unfolding s_def t_def by (rule length_uint64)+
  have d1: "length (fr_file_name r @ '' '' @ to_string s @ '' Send ...'') \<le> length (fr_file_name r) + 40"
    using n(1) by simp
  have d5: "length ?d5 \<le> length (fr_file_name r) + 40" by simp
  have ok: "\<exists>st'. format_and_run env sql st = Fin st' True" if "length sql < 1024" for sql st
    using format_and_run_ok [OF assms(3) that] .
  have i1: "\<exists>st'. format_and_run env (insert_reply_sql r s (fr_file_name r @ '' '' @ to_string s @ '' Send ...'') t) st = Fin st' True" for st
    by (rule ok) (use length_insert_reply [OF n assms(2) d1] assms(1) in linarith)
  have i5: "\<exists>st'. format_and_run env (insert_reply_sql r s ?d5 t) st = Fin st' True" for st
    by (rule ok) (use length_insert_reply [OF n assms(2) d5] assms(1) in linarith)
  have u: "\<exists>st'. format_and_run env (update_reply_sql r s t) st = Fin st' True" for st
    by (rule ok) (use length_update_reply [OF n, of r] assms(1) in linarith)
  have p: "\<exists>st'. format_and_run env (progress_sql r s) st = Fin st' True" for st
    by (rule ok) (use length_progress [OF n(1), of r] assms(1) in linarith)
  have f: "\<exists>st'. format_and_run env (finish_sql r s ?d5) st = Fin st' True" for st
    by (rule ok) (use length_finish [OF n(1) d5] assms(1) in linarith)
  obtain s1 where s1: "(if s = 1 then format_and_run env (insert_reply_sql r s ?d5 t) st else Fin st True) = Fin s1 True"
    by (cases "s = 1") (use i5 [of st] in \<open>fastforce+\<close>)
  obtain s4 where s4: "format_and_run env (progress_sql r s) st = Fin s4 True" using p by blast
  show ?thesis
    unfolding file_data_reply_in_def Let_def s_def [symmetric] t_def [symmetric] s1 s4
    using i1 [of st] u [of st] f [of s1] by auto
qed

theorem reply_statements_fit_witness:
  "\<exists>st'. file_data_reply_in demo_env (final_reply (make_reply ''u'' ''f'' empty_file_data)) demo_topic = Fin st' True"
  by (rule reply_statements_fit)
    (simp_all add: reply_weight_def final_reply_def make_reply_def empty_file_data_def db_accepts_def demo_env_def)

end
