(* ===== verification/Commands.thy ===== *)
theory Commands
  imports NodeBase
begin

text \<open>
  The command topic of \<open>node/src/NodeCmdTopic.cpp\<close>: a managing node reads commands from its
  database and sends them, a node routes the commands addressed to it into one of two queues
  (file commands, application commands) of \<open>utils/msgQueue.h\<close> and sends the replies it finds in the
  two reply queues; the managing node writes replies into its database.

  The protobuf enumerations are open: a number without a name is kept. The JSON library
  (rapidjson) is a parameter: how a document is printed and how a text is parsed. The lock-free
  queues are FIFO lists (one producer and one consumer each). The database driver and the
  network are parameters, as in the other topics.
\<close>

section \<open>Messages\<close>

datatype CmdType =
    CMDTYPE_UNKNOWN | REBOOT | RESTART | LS | MKDIR | DEL | DELDIR | SENDFILE | ADDAPP
  | REMOVEAPP | STARTAPP | STOPAPP | RESTARTAPP | LSAPP | ADDPLUGIN | REMOVEPLUGIN
  | STARTPLUGIN | STOPPLUGIN | RESTARTPLUGIN | LSPLUGIN | GETS3FILE | PUTS3FILE | LSS3DIR
  | LSS3BUCKETS | COPYS3FILE | DELS3FILE | ZIP | DZIP | ADDS3WATCH | RMS3WATCH | LSS3WATCH
  | STARTTRACELOG | STOPTRACELOG | LSTRACELOG | STARTEXEC | STOPEXEC | LSEXEC | RMEXEC
  | GETEXECRESULT | MKFILE | CPFILE | PODMANCMD | CmdOther int

fun cmd_num :: "CmdType \<Rightarrow> int" where
  "cmd_num CMDTYPE_UNKNOWN = 0"
| "cmd_num REBOOT = 1"
| "cmd_num RESTART = 2"
| "cmd_num LS = 3"
| "cmd_num MKDIR = 4"
| "cmd_num DEL = 5"
| "cmd_num DELDIR = 6"
| "cmd_num SENDFILE = 7"
| "cmd_num ADDAPP = 8"
| "cmd_num REMOVEAPP = 9"
| "cmd_num STARTAPP = 10"
| "cmd_num STOPAPP = 11"
| "cmd_num RESTARTAPP = 12"
| "cmd_num LSAPP = 13"
| "cmd_num ADDPLUGIN = 14"
| "cmd_num REMOVEPLUGIN = 15"
| "cmd_num STARTPLUGIN = 16"
| "cmd_num STOPPLUGIN = 17"
| "cmd_num RESTARTPLUGIN = 18"
| "cmd_num LSPLUGIN = 19"
| "cmd_num GETS3FILE = 20"
| "cmd_num PUTS3FILE = 21"
| "cmd_num LSS3DIR = 22"
| "cmd_num LSS3BUCKETS = 23"
| "cmd_num COPYS3FILE = 24"
| "cmd_num DELS3FILE = 25"
| "cmd_num ZIP = 26"
| "cmd_num DZIP = 27"
| "cmd_num ADDS3WATCH = 28"
| "cmd_num RMS3WATCH = 29"
| "cmd_num LSS3WATCH = 30"
| "cmd_num STARTTRACELOG = 31"
| "cmd_num STOPTRACELOG = 32"
| "cmd_num LSTRACELOG = 33"
| "cmd_num STARTEXEC = 34"
| "cmd_num STOPEXEC = 35"
| "cmd_num LSEXEC = 36"
| "cmd_num RMEXEC = 37"
| "cmd_num GETEXECRESULT = 38"
| "cmd_num MKFILE = 39"
| "cmd_num CPFILE = 40"
| "cmd_num PODMANCMD = 41"
| "cmd_num (CmdOther i) = i"

definition cmd_of_num_table :: "CmdType list" where
  "cmd_of_num_table = [CMDTYPE_UNKNOWN, REBOOT, RESTART, LS, MKDIR, DEL, DELDIR, SENDFILE,
     ADDAPP, REMOVEAPP, STARTAPP, STOPAPP, RESTARTAPP, LSAPP, ADDPLUGIN, REMOVEPLUGIN,
     STARTPLUGIN, STOPPLUGIN, RESTARTPLUGIN, LSPLUGIN, GETS3FILE, PUTS3FILE, LSS3DIR,
     LSS3BUCKETS, COPYS3FILE, DELS3FILE, ZIP, DZIP, ADDS3WATCH, RMS3WATCH, LSS3WATCH,
     STARTTRACELOG, STOPTRACELOG, LSTRACELOG, STARTEXEC, STOPEXEC, LSEXEC, RMEXEC,
     GETEXECRESULT, MKFILE, CPFILE, PODMANCMD]"

definition cmd_of_num :: "int \<Rightarrow> CmdType" where
  "cmd_of_num i = (if 0 \<le> i \<and> i < 42 then cmd_of_num_table ! nat i else CmdOther i)"

datatype PodmanCmd =
    LIST_CONTAINERS | CREATE_CONTAINER | START_CONTAINER | STOP_CONTAINER | REMOVE_CONTAINER
  | INSPECT_CONTAINER | RESTART_CONTAINER | PAUSE_CONTAINER | UNPAUSE_CONTAINER
  | EXEC_IN_CONTAINER | LIST_IMAGES | PULL_IMAGE | REMOVE_IMAGE | INSPECT_IMAGE | TAG_IMAGE
  | LIST_NETWORKS | CREATE_NETWORK | REMOVE_NETWORK | INSPECT_NETWORK | LIST_VOLUMES
  | CREATE_VOLUME | REMOVE_VOLUME | INSPECT_VOLUME | LIST_STACKS | DEPLOY_STACK
  | REMOVE_STACK | INSPECT_STACK | UPDATE_STACK | START_STACK | STOP_STACK | RESTART_STACK
  | PAUSE_STACK | UNPAUSE_STACK | SCALE_STACK | GET_STACK_LOGS | LIST_REGISTRIES
  | ADD_REGISTRY | REMOVE_REGISTRY | LOGIN_REGISTRY | PodmanOther int

fun podman_num :: "PodmanCmd \<Rightarrow> int" where
  "podman_num LIST_CONTAINERS = 0"
| "podman_num CREATE_CONTAINER = 1"
| "podman_num START_CONTAINER = 2"
| "podman_num STOP_CONTAINER = 3"
| "podman_num REMOVE_CONTAINER = 4"
| "podman_num INSPECT_CONTAINER = 5"
| "podman_num RESTART_CONTAINER = 6"
| "podman_num PAUSE_CONTAINER = 7"
| "podman_num UNPAUSE_CONTAINER = 8"
| "podman_num EXEC_IN_CONTAINER = 9"
| "podman_num LIST_IMAGES = 10"
| "podman_num PULL_IMAGE = 11"
| "podman_num REMOVE_IMAGE = 12"
| "podman_num INSPECT_IMAGE = 13"
| "podman_num TAG_IMAGE = 14"
| "podman_num LIST_NETWORKS = 15"
| "podman_num CREATE_NETWORK = 16"
| "podman_num REMOVE_NETWORK = 17"
| "podman_num INSPECT_NETWORK = 18"
| "podman_num LIST_VOLUMES = 19"
| "podman_num CREATE_VOLUME = 20"
| "podman_num REMOVE_VOLUME = 21"
| "podman_num INSPECT_VOLUME = 22"
| "podman_num LIST_STACKS = 23"
| "podman_num DEPLOY_STACK = 24"
| "podman_num REMOVE_STACK = 25"
| "podman_num INSPECT_STACK = 26"
| "podman_num UPDATE_STACK = 27"
| "podman_num START_STACK = 28"
| "podman_num STOP_STACK = 29"
| "podman_num RESTART_STACK = 30"
| "podman_num PAUSE_STACK = 31"
| "podman_num UNPAUSE_STACK = 32"
| "podman_num SCALE_STACK = 33"
| "podman_num GET_STACK_LOGS = 34"
| "podman_num LIST_REGISTRIES = 35"
| "podman_num ADD_REGISTRY = 36"
| "podman_num REMOVE_REGISTRY = 37"
| "podman_num LOGIN_REGISTRY = 38"
| "podman_num (PodmanOther i) = i"

definition podman_of_num_table :: "PodmanCmd list" where
  "podman_of_num_table = [LIST_CONTAINERS, CREATE_CONTAINER, START_CONTAINER,
     STOP_CONTAINER, REMOVE_CONTAINER, INSPECT_CONTAINER, RESTART_CONTAINER,
     PAUSE_CONTAINER, UNPAUSE_CONTAINER, EXEC_IN_CONTAINER, LIST_IMAGES, PULL_IMAGE,
     REMOVE_IMAGE, INSPECT_IMAGE, TAG_IMAGE, LIST_NETWORKS, CREATE_NETWORK, REMOVE_NETWORK,
     INSPECT_NETWORK, LIST_VOLUMES, CREATE_VOLUME, REMOVE_VOLUME, INSPECT_VOLUME,
     LIST_STACKS, DEPLOY_STACK, REMOVE_STACK, INSPECT_STACK, UPDATE_STACK, START_STACK,
     STOP_STACK, RESTART_STACK, PAUSE_STACK, UNPAUSE_STACK, SCALE_STACK, GET_STACK_LOGS,
     LIST_REGISTRIES, ADD_REGISTRY, REMOVE_REGISTRY, LOGIN_REGISTRY]"

definition podman_of_num :: "int \<Rightarrow> PodmanCmd" where
  "podman_of_num i = (if 0 \<le> i \<and> i < 39 then podman_of_num_table ! nat i else PodmanOther i)"

datatype CommStatus =
    STATUS_UNKNOWN | DOING | SUCCESS | INVALID | OTHER

fun status_num :: "CommStatus \<Rightarrow> int" where
  "status_num STATUS_UNKNOWN = 0"
| "status_num DOING = 1"
| "status_num SUCCESS = 2"
| "status_num INVALID = 3"
| "status_num OTHER = 4"

record FileEntry =
  fe_path_name :: string
  fe_is_dir :: bool
  fe_file_size :: int
  fe_timestamp :: int

record NodeCmd =
  nc_uuid :: string
  nc_src_node_id :: string
  nc_src_node_name :: string
  nc_to_node_id :: string
  nc_to_group :: string
  nc_cmd_type :: CmdType
  nc_podman_cmd :: PodmanCmd
  nc_cmd :: string
  nc_paras :: string
  nc_paras_1 :: string
  nc_paras_2 :: string

record NodeCmdReply =
  nr_uuid :: string
  nr_src_node_id :: string
  nr_src_node_name :: string
  nr_to_node_id :: string
  nr_to_node_name :: string
  nr_cmd_reply_uuid :: string
  nr_cmd_type :: CmdType
  nr_status :: CommStatus
  nr_desc :: string
  nr_desc_str :: string
  nr_result :: "FileEntry list"

text \<open>The static queues of \<open>utility::msg\<close> that the node application uses.\<close>

record msg_queues =
  mainCmdQueueIn :: "NodeCmd list"
  mainCmdReplyQueueOut :: "NodeCmdReply list"
  fileDataQueueIn :: "NodeCmd list"
  fileDataReplyQueueOut :: "NodeCmdReply list"

text \<open>\<open>enqueue\<close> and \<open>try_dequeue\<close>.\<close>

definition enqueue :: "'a \<Rightarrow> 'a list \<Rightarrow> 'a list" where
  "enqueue x q = q @ [x]"

definition try_dequeue :: "'a list \<Rightarrow> ('a \<times> 'a list) option" where
  "try_dequeue q = (case q of [] \<Rightarrow> None | x # xs \<Rightarrow> Some (x, xs))"

interpretation msgq: fifo_queue "[]" enqueue try_dequeue "\<lambda>q. q"
  by unfold_locales (auto simp: enqueue_def try_dequeue_def split: list.splits)

record cmd_topic =
  ct_base :: zenoh_base
  cmd_out :: "NodeCmd list"
  cmd_reply_out :: "NodeCmdReply list"
  ct_sqls :: "string list"
  ct_tick :: nat

datatype json = JNull | JBool bool | JInt int | JStr string | JArr "json list" | JObj "(string \<times> json) list"

record cmd_env =
  ce_db :: db_env
  ce_uuid :: "nat \<Rightarrow> string"
  ce_clock :: "nat \<Rightarrow> int"
  cmd_byte_size :: "NodeCmd \<Rightarrow> nat"
  cmd_reply_byte_size :: "NodeCmdReply \<Rightarrow> nat"
  js_write :: "json \<Rightarrow> string"
  js_parse :: "string \<Rightarrow> json"

abbreviation ct_info :: "cmd_topic \<Rightarrow> TopicInfo" where
  "ct_info st \<equiv> topic_info (ct_base st)"

section \<open>Sending\<close>

definition send_cmd :: "cmd_env \<Rightarrow> bool \<Rightarrow> NodeCmd \<Rightarrow> cmd_topic \<Rightarrow> bool \<times> cmd_topic" where
  "send_cmd env put_ok c st =
     (if put_ok
      then (True, st\<lparr>cmd_out := cmd_out st @ [c],
             ct_base := stat_writer_mon_data (ce_uuid env (ct_tick st)) (ce_clock env (ct_tick st))
               (cmd_byte_size env c) (nc_to_node_id c) (ct_base st),
             ct_tick := Suc (ct_tick st)\<rparr>)
      else (False, st))"

definition send_reply :: "cmd_env \<Rightarrow> bool \<Rightarrow> NodeCmdReply \<Rightarrow> cmd_topic \<Rightarrow> bool \<times> cmd_topic" where
  "send_reply env put_ok r st =
     (if put_ok
      then (True, st\<lparr>cmd_reply_out := cmd_reply_out st @ [r],
             ct_base := stat_reply_writer_mon_data (ce_uuid env (ct_tick st)) (ce_clock env (ct_tick st))
               (cmd_reply_byte_size env r) (nr_to_node_id r) (ct_base st),
             ct_tick := Suc (ct_tick st)\<rparr>)
      else (False, st))"

text \<open>
  A row of table \<open>node_cmd\<close>: the text columns that \<open>fill_cmd_message\<close> reads (\<open>None\<close> for NULL),
  the two number columns and the id.
\<close>

record cmd_row =
  row_uuid :: "string option"
  row_to_node_id :: "string option"
  row_src_node_id :: "string option"
  row_src_node_name :: "string option"
  row_to_group :: "string option"
  row_cmd :: "string option"
  row_paras :: "string option"
  row_paras1 :: "string option"
  row_paras2 :: "string option"
  row_cmd_type :: "int option"
  row_podman_cmd :: "int option"
  row_id :: int

definition text_or_empty :: "string option \<Rightarrow> string" where
  "text_or_empty v = (case v of None \<Rightarrow> '''' | Some s \<Rightarrow> s)"

definition num_or_zero :: "int option \<Rightarrow> int" where
  "num_or_zero v = (case v of None \<Rightarrow> 0 | Some i \<Rightarrow> to_int32 i)"

definition fill_cmd_message :: "cmd_row \<Rightarrow> NodeCmd" where
  "fill_cmd_message row = \<lparr>nc_uuid = text_or_empty (row_uuid row),
     nc_src_node_id = text_or_empty (row_src_node_id row),
     nc_src_node_name = text_or_empty (row_src_node_name row),
     nc_to_node_id = text_or_empty (row_to_node_id row), nc_to_group = text_or_empty (row_to_group row),
     nc_cmd_type = cmd_of_num (num_or_zero (row_cmd_type row)),
     nc_podman_cmd = podman_of_num (num_or_zero (row_podman_cmd row)),
     nc_cmd = text_or_empty (row_cmd row), nc_paras = text_or_empty (row_paras row),
     nc_paras_1 = text_or_empty (row_paras1 row), nc_paras_2 = text_or_empty (row_paras2 row)\<rparr>"

definition cmd_exec :: "cmd_env \<Rightarrow> string \<Rightarrow> cmd_topic \<Rightarrow> (cmd_topic, int) run" where
  "cmd_exec env sql st =
     (if db_present (ce_db env)
      then Fin (st\<lparr>ct_sqls := ct_sqls st @ [sql]\<rparr>) (db_exec (ce_db env) sql)
      else Crash ''null DbBase'')"

definition update_cmd_status :: "cmd_env \<Rightarrow> int \<Rightarrow> int \<Rightarrow> cmd_topic \<Rightarrow> (cmd_topic, unit) run" where
  "update_cmd_status env cmd_id status st =
     bind_run (cmd_exec env (''update node_cmd set comm_status_id='' @ int_string status
       @ '' where id='' @ int_string cmd_id) st) (\<lambda>st _. Fin st ())"

text \<open>One turn of the writer: every row with status 1 is sent and, if that worked, set to 2.\<close>

fun send_rows :: "cmd_env \<Rightarrow> (nat \<Rightarrow> bool) \<Rightarrow> cmd_row list \<Rightarrow> cmd_topic \<Rightarrow> (cmd_topic, unit) run" where
  "send_rows env put_ok [] st = Fin st ()"
| "send_rows env put_ok (row # rows) st =
     (case send_cmd env (put_ok (length rows)) (fill_cmd_message row) st of
        (True, st1) \<Rightarrow> bind_run (update_cmd_status env (row_id row) 2 st1) (\<lambda>st _. send_rows env put_ok rows st)
      | (False, st1) \<Rightarrow> send_rows env put_ok rows st1)"

definition writer_turn :: "cmd_env \<Rightarrow> (nat \<Rightarrow> bool) \<Rightarrow> cmd_row list \<Rightarrow> cmd_topic \<Rightarrow> (cmd_topic, unit) run" where
  "writer_turn env put_ok rows st = catch_run (send_rows env put_ok rows st) (\<lambda>st e. Fin st ())"

section \<open>Routing\<close>

fun is_file_cmd :: "CmdType \<Rightarrow> bool" where
  "is_file_cmd c \<longleftrightarrow> c \<in> {LS, MKDIR, DELDIR, DEL, SENDFILE, ZIP, DZIP, GETS3FILE, PUTS3FILE, LSS3BUCKETS,
     DELS3FILE, ADDS3WATCH, RMS3WATCH, LSS3WATCH, MKFILE, CPFILE}"

definition handle_cmd :: "cmd_env \<Rightarrow> NodeCmd \<Rightarrow> cmd_topic \<times> msg_queues \<Rightarrow> cmd_topic \<times> msg_queues" where
  "handle_cmd env c s = (let (st, q) = s in
     if needReply (ct_info st) \<and> nodeId (ct_info st) = nc_to_node_id c
     then let st1 = st\<lparr>ct_base := stat_reader_mon_data (ce_uuid env (ct_tick st)) (ce_clock env (ct_tick st))
                 (topic (ct_info st)) (nc_src_node_id c) (cmd_byte_size env c) (ct_base st),
               ct_tick := Suc (ct_tick st)\<rparr>
       in if is_file_cmd (nc_cmd_type c)
          then (st1, q\<lparr>fileDataQueueIn := enqueue c (fileDataQueueIn q)\<rparr>)
          else (st1, q\<lparr>mainCmdQueueIn := enqueue c (mainCmdQueueIn q)\<rparr>)
     else (st, q))"

definition process_app_cmd_replies :: "cmd_env \<Rightarrow> bool \<Rightarrow> cmd_topic \<times> msg_queues \<Rightarrow> cmd_topic \<times> msg_queues" where
  "process_app_cmd_replies env put_ok s = (let (st, q) = s in
     case try_dequeue (mainCmdReplyQueueOut q) of
       None \<Rightarrow> s
     | Some (r, rest) \<Rightarrow>
         (if nr_uuid r \<noteq> [] then snd (send_reply env put_ok r st) else st, q\<lparr>mainCmdReplyQueueOut := rest\<rparr>))"

definition process_file_cmd_replies :: "cmd_env \<Rightarrow> bool \<Rightarrow> cmd_topic \<times> msg_queues \<Rightarrow> cmd_topic \<times> msg_queues" where
  "process_file_cmd_replies env put_ok s = (let (st, q) = s in
     case try_dequeue (fileDataReplyQueueOut q) of
       None \<Rightarrow> s
     | Some (r, rest) \<Rightarrow>
         (if nr_uuid r \<noteq> [] then snd (send_reply env put_ok r st) else st, q\<lparr>fileDataReplyQueueOut := rest\<rparr>))"

definition reader_turn :: "cmd_env \<Rightarrow> bool \<Rightarrow> bool \<Rightarrow> cmd_topic \<times> msg_queues \<Rightarrow> cmd_topic \<times> msg_queues" where
  "reader_turn env put1 put2 s =
     (if needReply (ct_info (fst s)) then process_file_cmd_replies env put2 (process_app_cmd_replies env put1 s)
      else s)"

section \<open>Recording replies\<close>

text \<open>The JSON of one listed file; a back slash in its name becomes a slash.\<close>

definition entry_json :: "FileEntry \<Rightarrow> json option" where
  "entry_json f = map_option (\<lambda>pathName. JObj [(''filePathName'', JStr (c_str pathName)),
       (''isDir'', JBool (fe_is_dir f)), (''fileSize'', JInt (fe_file_size f)),
       (''timestamp'', JInt (fe_timestamp f))])
     (subreplace (fe_path_name f) [CHR 0x5C] ''/'')"

text \<open>The two arrays of the loop over the result: directories and files, in their order.\<close>

fun entry_arrays :: "FileEntry list \<Rightarrow> (json list \<times> json list) option" where
  "entry_arrays [] = Some ([], [])"
| "entry_arrays (f # fs) =
     (case (entry_json f, entry_arrays fs) of
        (Some j, Some (ds, es)) \<Rightarrow> Some (if fe_is_dir f then (j # ds, es) else (ds, j # es))
      | _ \<Rightarrow> None)"

definition describe :: "string \<Rightarrow> int \<Rightarrow> json \<Rightarrow> json" where
  "describe uuid cmdType data = JObj [(''uuid'', JStr (c_str uuid)), (''cmdType'', JInt cmdType),
     (''result'', JObj [(''data'', data)])]"

text \<open>The texts of the columns \<open>result\<close> and \<open>description\<close>.\<close>

definition reply_texts :: "cmd_env \<Rightarrow> NodeCmdReply \<Rightarrow> (string \<times> string) option" where
  "reply_texts env r =
     (let cmdType = cmd_num (nr_cmd_type r); print = (\<lambda>j. c_str (js_write env j))
      in if nr_result r \<noteq> []
         then map_option (\<lambda>(ds, es). (print (JObj [(''FileInfos'', JArr (ds @ es))]),
                print (describe (nr_uuid r) cmdType (JArr (ds @ es))))) (entry_arrays (nr_result r))
         else let parsed = js_parse env (c_str (nr_desc r));
                  data = (if parsed = JNull then JArr [] else parsed)
              in Some (if cmdType = 8 \<or> cmdType = 3 then print (JObj [(''FileInfos'', JArr [])]) else '''',
                       print (describe (nr_uuid r) cmdType data)))"

definition reply_sql :: "NodeCmdReply \<Rightarrow> string \<Rightarrow> string \<Rightarrow> string" where
  "reply_sql r resStr description =
     ''insert into node_cmd_reply(uuid,src_node_id,src_node_name,to_node_id,to_node_name, cmd_reply_uuid,description,                result,comm_status_id,cmd_type_id,podman_desc) values (''
     @ quoted (nr_uuid r) @ '','' @ quoted (nr_src_node_id r) @ '','' @ quoted (nr_src_node_name r) @ '',''
     @ quoted (nr_to_node_id r) @ '','' @ quoted (nr_to_node_name r) @ '','' @ quoted (nr_cmd_reply_uuid r) @ '',''
     @ quoted description @ '','' @ quoted resStr @ '','' @ int_string (status_num (nr_status r)) @ '',''
     @ int_string (cmd_num (nr_cmd_type r)) @ '','' @ quoted (nr_desc_str r) @ '')''"

text \<open>
  \<open>handle_reply\<close>: the statement is formatted into a heap buffer of 4096 bytes plus the two
  texts; \<open>podman_desc\<close> is not counted.
\<close>

definition record_reply :: "cmd_env \<Rightarrow> NodeCmdReply \<Rightarrow> cmd_topic \<Rightarrow> (cmd_topic, unit) run" where
  "record_reply env r st =
     (case reply_texts env r of
        None \<Rightarrow> Hang
      | Some (resStr, description) \<Rightarrow>
          (let sql = reply_sql r resStr description
           in if length sql < 4096 + length resStr + length description
              then bind_run (cmd_exec env sql st) (\<lambda>st _. Fin st ())
              else Crash ''sprintf overflows cmdReplySql''))"

definition handle_reply :: "cmd_env \<Rightarrow> NodeCmdReply \<Rightarrow> cmd_topic \<Rightarrow> (cmd_topic, unit) run" where
  "handle_reply env r st =
     catch_run (record_reply env r
        (st\<lparr>ct_base := stat_reply_reader_mon_data (ce_uuid env (ct_tick st)) (ce_clock env (ct_tick st))
               (topicReply (ct_info st)) (nr_src_node_id r) (cmd_reply_byte_size env r) (ct_base st),
            ct_tick := Suc (ct_tick st)\<rparr>))
       (\<lambda>st e. Fin st ())"

section \<open>Lemmas\<close>

lemma cmd_num_table: "list_all (\<lambda>n. cmd_num (cmd_of_num_table ! n) = int n) [0..<42]"
  by code_simp

lemma podman_num_table: "list_all (\<lambda>n. podman_num (podman_of_num_table ! n) = int n) [0..<39]"
  by code_simp

lemma cmd_num_of_num: "cmd_num (cmd_of_num i) = i"
  using cmd_num_table by (auto simp: cmd_of_num_def list_all_iff)

lemma podman_num_of_num: "podman_num (podman_of_num i) = i"
  using podman_num_table by (auto simp: podman_of_num_def list_all_iff)

text \<open>The JSON of an entry, with the substitution done.\<close>

definition entry_object :: "FileEntry \<Rightarrow> json" where
  "entry_object f = JObj [(''filePathName'', JStr (c_str
       (concat (map (\<lambda>x. if x = CHR 0x5C then ''/'' else [x]) (fe_path_name f))))),
     (''isDir'', JBool (fe_is_dir f)), (''fileSize'', JInt (fe_file_size f)), (''timestamp'', JInt (fe_timestamp f))]"

lemma entry_json_eq: "entry_json f = Some (entry_object f)"
  by (simp add: entry_json_def entry_object_def subreplace_single)

lemma entry_arrays_eq:
  "entry_arrays fs = Some (map entry_object (filter fe_is_dir fs), map entry_object (filter (\<lambda>f. \<not> fe_is_dir f) fs))"
  by (induction fs) (simp_all add: entry_json_eq)

lemma reply_texts_defined: "\<exists>res descr. reply_texts env r = Some (res, descr)"
  by (cases "nr_result r = []") (simp_all add: reply_texts_def entry_arrays_eq Let_def)

text \<open>Turns of the reader; \<open>ps\<close> tells for each turn whether the put of each of the two queues works.\<close>

definition reader_turns :: "cmd_env \<Rightarrow> (bool \<times> bool) list \<Rightarrow> cmd_topic \<times> msg_queues \<Rightarrow> cmd_topic \<times> msg_queues" where
  "reader_turns env ps s = fold (\<lambda>(put1, put2). reader_turn env put1 put2) ps s"

text \<open>What a turn sends of a queue whose first reply is \<open>rs\<close> (at most one): nothing when the put fails, and nothing without a uuid.\<close>

definition deliverable :: "bool \<Rightarrow> NodeCmdReply list \<Rightarrow> NodeCmdReply list" where
  "deliverable put_ok rs = filter (\<lambda>r. put_ok \<and> nr_uuid r \<noteq> []) rs"

definition turn_replies :: "(bool \<times> bool) list \<Rightarrow> NodeCmdReply list \<Rightarrow> NodeCmdReply list \<Rightarrow> nat \<Rightarrow> NodeCmdReply list" where
  "turn_replies ps as fs i = deliverable (fst (ps ! i)) (take 1 (drop i as)) @ deliverable (snd (ps ! i)) (take 1 (drop i fs))"

lemma reader_turn_sends:
  assumes "needReply (ct_info st)"
  shows "\<exists>st'. reader_turn env put1 put2 (st, q) = (st', q\<lparr>mainCmdReplyQueueOut := drop 1 (mainCmdReplyQueueOut q),
       fileDataReplyQueueOut := drop 1 (fileDataReplyQueueOut q)\<rparr>)
    \<and> needReply (ct_info st') \<and> cmd_reply_out st' = cmd_reply_out st @ deliverable put1 (take 1 (mainCmdReplyQueueOut q))
        @ deliverable put2 (take 1 (fileDataReplyQueueOut q))"
  using assms
  by (cases "mainCmdReplyQueueOut q"; cases "fileDataReplyQueueOut q")
    (auto simp: reader_turn_def process_app_cmd_replies_def process_file_cmd_replies_def try_dequeue_def send_reply_def deliverable_def)

lemma reader_turns_order:
  assumes "needReply (ct_info st)"
  shows "\<exists>st'. reader_turns env ps (st, q) = (st', q\<lparr>mainCmdReplyQueueOut := drop (length ps) (mainCmdReplyQueueOut q),
       fileDataReplyQueueOut := drop (length ps) (fileDataReplyQueueOut q)\<rparr>)
    \<and> needReply (ct_info st')
    \<and> cmd_reply_out st' = cmd_reply_out st @ concat (map (turn_replies ps (mainCmdReplyQueueOut q) (fileDataReplyQueueOut q)) [0..<length ps])"
proof (induction ps rule: rev_induct)
  case Nil
  then show ?case using assms by (simp add: reader_turns_def)
next
  case (snoc p ps)
  let ?A = "mainCmdReplyQueueOut q" and ?F = "fileDataReplyQueueOut q"
  let ?q = "q\<lparr>mainCmdReplyQueueOut := drop (length ps) ?A, fileDataReplyQueueOut := drop (length ps) ?F\<rparr>"
  from snoc obtain st1 where st1: "reader_turns env ps (st, q) = (st1, ?q)" "needReply (ct_info st1)"
    "cmd_reply_out st1 = cmd_reply_out st @ concat (map (turn_replies ps ?A ?F) [0..<length ps])" by blast
  have m: "concat (map (turn_replies (ps @ [p]) ?A ?F) [0..<length (ps @ [p])]) = concat (map (turn_replies ps ?A ?F) [0..<length ps])
      @ deliverable (fst p) (take 1 (drop (length ps) ?A)) @ deliverable (snd p) (take 1 (drop (length ps) ?F))"
    by (auto simp: turn_replies_def nth_append intro!: arg_cong [where f = concat])
  have "reader_turns env (ps @ [p]) (st, q) = reader_turn env (fst p) (snd p) (st1, ?q)"
    using st1(1) by (simp add: reader_turns_def split_def)
  then show ?case
    unfolding m using reader_turn_sends [OF st1(2), of env "fst p" "snd p" ?q] st1(3) by auto
qed

lemma reader_turns_silent: "\<not> needReply (ct_info (fst s)) \<Longrightarrow> reader_turns env ps s = s"
  by (induction ps) (auto simp: reader_turns_def reader_turn_def)

lemma send_rows_all:
  assumes "db_present (ce_db env)" and "\<forall>k. put_ok k"
  shows "\<exists>st'. send_rows env put_ok rows st = Fin st' () \<and>
    cmd_out st' = cmd_out st @ map fill_cmd_message rows \<and>
    ct_sqls st' = ct_sqls st @ map (\<lambda>row. ''update node_cmd set comm_status_id=2 where id='' @ int_string (row_id row)) rows"
proof (induction rows arbitrary: st)
  case (Cons row rows)
  let ?sql = "''update node_cmd set comm_status_id='' @ int_string 2 @ '' where id='' @ int_string (row_id row)"
  have two: "int_string 2 = ''2''" by (simp add: int_string_def to_string.simps digit_char_def digit_chars_def)
  let ?st1 = "snd (send_cmd env True (fill_cmd_message row) st)"
  let ?st2 = "?st1\<lparr>ct_sqls := ct_sqls ?st1 @ [?sql]\<rparr>"
  have "send_rows env put_ok (row # rows) st = send_rows env put_ok rows ?st2"
    using assms by (simp add: send_cmd_def update_cmd_status_def cmd_exec_def Let_def)
  moreover obtain st' where "send_rows env put_ok rows ?st2 = Fin st' ()"
    "cmd_out st' = cmd_out ?st2 @ map fill_cmd_message rows"
    "ct_sqls st' = ct_sqls ?st2 @ map (\<lambda>row. ''update node_cmd set comm_status_id=2 where id='' @ int_string (row_id row)) rows"
    using Cons.IH by blast
  ultimately show ?case by (simp add: send_cmd_def two)
qed simp

text \<open>The commands meant for a node.\<close>

definition for_me :: "TopicInfo \<Rightarrow> NodeCmd \<Rightarrow> bool" where
  "for_me ti c \<longleftrightarrow> needReply ti \<and> nodeId ti = nc_to_node_id c"

lemma handle_cmd_queues:
  "snd (handle_cmd env c (st, q)) =
     (if for_me (ct_info st) c
      then if is_file_cmd (nc_cmd_type c) then q\<lparr>fileDataQueueIn := fileDataQueueIn q @ [c]\<rparr>
           else q\<lparr>mainCmdQueueIn := mainCmdQueueIn q @ [c]\<rparr>
      else q)"
  "ct_info (fst (handle_cmd env c (st, q))) = ct_info st"
  by (simp_all add: handle_cmd_def enqueue_def Let_def for_me_def)

lemma fold_handle_cmd:
  "fileDataQueueIn (snd (fold (handle_cmd env) cs (st, q)))
     = fileDataQueueIn q @ filter (\<lambda>c. for_me (ct_info st) c \<and> is_file_cmd (nc_cmd_type c)) cs \<and>
   mainCmdQueueIn (snd (fold (handle_cmd env) cs (st, q)))
     = mainCmdQueueIn q @ filter (\<lambda>c. for_me (ct_info st) c \<and> \<not> is_file_cmd (nc_cmd_type c)) cs"
proof (induction cs arbitrary: st q)
  case (Cons c cs)
  obtain st' q' where h: "handle_cmd env c (st, q) = (st', q')" by fastforce
  with handle_cmd_queues [of env c st q] have "ct_info st' = ct_info st" and
    "q' = (if for_me (ct_info st) c
      then if is_file_cmd (nc_cmd_type c) then q\<lparr>fileDataQueueIn := fileDataQueueIn q @ [c]\<rparr>
           else q\<lparr>mainCmdQueueIn := mainCmdQueueIn q @ [c]\<rparr>
      else q)" by simp_all
  with Cons.IH [of st' q'] h show ?case by (simp del: is_file_cmd.simps)
qed simp

section \<open>Properties\<close>

text \<open>
  C15. Every command addressed to the node reaches exactly one worker, in the order of arrival:
  after any sequence of commands the file queue has grown by the file commands meant for the
  node and the application queue by the others meant for it, nothing lost, repeated or reordered.
\<close>

theorem commands_routed_in_order:
  "fileDataQueueIn (snd (fold (handle_cmd env) cs (st, q)))
     = fileDataQueueIn q @ filter (\<lambda>c. for_me (ct_info st) c \<and> is_file_cmd (nc_cmd_type c)) cs \<and>
   mainCmdQueueIn (snd (fold (handle_cmd env) cs (st, q)))
     = mainCmdQueueIn q @ filter (\<lambda>c. for_me (ct_info st) c \<and> \<not> is_file_cmd (nc_cmd_type c)) cs"
  by (rule fold_handle_cmd)

text \<open>
  C40. Replies leave in the order they were queued: a turn of the reader of a topic that replies takes the first
  reply of the application queue and then the first of the file queue and sends each at most once. A reply is lost,
  and not queued again, exactly when it has no uuid or its put fails. A topic that does not reply leaves both queues
  as they are.
\<close>

theorem replies_sent_in_order:
  "\<exists>st' q'. reader_turns env ps (st, q) = (st', q')
    \<and> (if needReply (ct_info st)
       then q' = q\<lparr>mainCmdReplyQueueOut := drop (length ps) (mainCmdReplyQueueOut q),
              fileDataReplyQueueOut := drop (length ps) (fileDataReplyQueueOut q)\<rparr>
         \<and> cmd_reply_out st' = cmd_reply_out st
              @ concat (map (turn_replies ps (mainCmdReplyQueueOut q) (fileDataReplyQueueOut q)) [0..<length ps])
       else (st', q') = (st, q))"
  using reader_turns_order [of st env ps q] reader_turns_silent [of "(st, q)" env ps] by auto

text \<open>
  A managing node's turn sends one message per pending row, in order and with the command
  and podman numbers of the row (NULL columns read as empty or 0), and marks every row as
  sent, when the network and the database work.
\<close>

theorem pending_commands_sent:
  assumes "db_present (ce_db env)" and "\<forall>k. put_ok k"
  shows "(\<exists>st'. writer_turn env put_ok rows st = Fin st' () \<and>
    cmd_out st' = cmd_out st @ map fill_cmd_message rows \<and>
    ct_sqls st' = ct_sqls st @ map (\<lambda>row. ''update node_cmd set comm_status_id=2 where id='' @ int_string (row_id row)) rows) \<and>
    map (\<lambda>row. cmd_num (nc_cmd_type (fill_cmd_message row))) rows = map (\<lambda>row. num_or_zero (row_cmd_type row)) rows \<and>
    map (\<lambda>row. podman_num (nc_podman_cmd (fill_cmd_message row))) rows = map (\<lambda>row. num_or_zero (row_podman_cmd row)) rows"
proof -
  obtain st' where "send_rows env put_ok rows st = Fin st' ()" "cmd_out st' = cmd_out st @ map fill_cmd_message rows"
    "ct_sqls st' = ct_sqls st @ map (\<lambda>row. ''update node_cmd set comm_status_id=2 where id='' @ int_string (row_id row)) rows"
    using send_rows_all [OF assms] by blast
  then show ?thesis by (simp add: writer_turn_def fill_cmd_message_def cmd_num_of_num podman_num_of_num)
qed

definition demo_cmd_env :: cmd_env where
  "demo_cmd_env = \<lparr>ce_db = \<lparr>db_present = True, db_exec = \<lambda>_. 0\<rparr>, ce_uuid = \<lambda>n. ''u'', ce_clock = int,
     cmd_byte_size = \<lambda>_. 40, cmd_reply_byte_size = \<lambda>_. 40, js_write = \<lambda>_. ''json'', js_parse = \<lambda>_. JNull\<rparr>"

definition demo_row :: cmd_row where
  "demo_row = \<lparr>row_uuid = Some ''1'', row_to_node_id = Some ''n'', row_src_node_id = Some ''m'',
     row_src_node_name = None, row_to_group = None, row_cmd = None, row_paras = Some ''d'', row_paras1 = None,
     row_paras2 = None, row_cmd_type = Some 4, row_podman_cmd = None, row_id = 7\<rparr>"

definition demo_cmd_topic :: cmd_topic where
  "demo_cmd_topic = \<lparr>ct_base = fresh_base \<lparr>topic = ''cmd'', topicReply = ''cmd/reply'', partition = '''',
     nodeId = ''x'', nodeName = ''x'', domain = 0, needReply = True, monNodeId = ''m'', monSendSleep = 60,
     programName = ''node''\<rparr>, cmd_out = [], cmd_reply_out = [], ct_sqls = [], ct_tick = 0\<rparr>"

theorem pending_commands_sent_witness:
  "\<exists>st'. writer_turn demo_cmd_env (\<lambda>_. True) [demo_row] demo_cmd_topic = Fin st' () \<and>
    cmd_out st' = cmd_out demo_cmd_topic @ map fill_cmd_message [demo_row]"
  using pending_commands_sent [of demo_cmd_env "\<lambda>_. True" "[demo_row]" demo_cmd_topic]
  by (auto simp: demo_cmd_env_def)

text \<open>
  A listing is recorded with the directories first, then the files, each group in the order
  of the reply, every back slash of a name turned into a slash; and the loop that does so ends
  for every reply.
\<close>

theorem listing_directories_first:
  "entry_arrays fs = Some (map entry_object (filter fe_is_dir fs), map entry_object (filter (\<lambda>f. \<not> fe_is_dir f) fs)) \<and>
   (\<exists>res descr. reply_texts env r = Some (res, descr))"
  using entry_arrays_eq reply_texts_defined by blast

text \<open>
  The buffer for the statement that records a reply does not count \<open>podman_desc\<close>: a reply
  whose container output is 4096 bytes long or more writes past the end of the buffer.
\<close>

theorem long_podman_desc_overflows:
  assumes "4096 \<le> length (c_str (nr_desc_str r))" and "\<forall>j. CHR 0x00 \<notin> set (js_write env j)"
  shows "handle_reply env r st = Crash ''sprintf overflows cmdReplySql''"
proof -
  obtain res descr where t: "reply_texts env r = Some (res, descr)" using reply_texts_defined by blast
  have "CHR 0x00 \<notin> set res \<and> CHR 0x00 \<notin> set descr"
    using t assms(2) by (auto simp: reply_texts_def Let_def c_str_id split: if_splits)
  then have "length (quoted res) = length res + 2" "length (quoted descr) = length descr + 2"
    by (simp_all add: quoted_def c_str_id)
  moreover have "4096 \<le> length (quoted (nr_desc_str r))" using assms(1) by (simp add: quoted_def)
  ultimately have "4096 + length res + length descr \<le> length (reply_sql r res descr)"
    unfolding reply_sql_def by simp
  with t show ?thesis by (simp add: handle_reply_def record_reply_def Let_def)
qed

definition demo_long_reply :: NodeCmdReply where
  "demo_long_reply = \<lparr>nr_uuid = ''u'', nr_src_node_id = ''n'', nr_src_node_name = '''', nr_to_node_id = ''m'',
     nr_to_node_name = '''', nr_cmd_reply_uuid = ''1'', nr_cmd_type = PODMANCMD, nr_status = SUCCESS,
     nr_desc = '''', nr_desc_str = replicate 5000 (CHR ''x''), nr_result = []\<rparr>"

theorem long_podman_desc_overflows_witness:
  "handle_reply demo_cmd_env demo_long_reply demo_cmd_topic = Crash ''sprintf overflows cmdReplySql''"
  by (rule long_podman_desc_overflows) (simp_all add: demo_long_reply_def demo_cmd_env_def c_str_def)

end
