(* ===== verification/S3Watch.thy ===== *)
theory S3Watch
  imports FileStore NodeBase
begin

text \<open>
  The directory watchers of \<open>utils/aws/s3/FileWatcher.h\<close>: a \<open>FileWatcher\<close> scans a directory again
  and again and uploads a file that has changed and then stayed the same for one scan;
  \<open>FileWatcherFactory\<close> keeps the watchers of the process under a mutex.

  The Poco library and the S3 client (\<open>helper.cpp\<close>, a wrapper of the AWS SDK) are parameters:
  \<open>poco\<close> holds the Poco calls of the node application (each may throw), \<open>s3_upload\<close> whether
  an upload succeeds. A \<open>std::map\<close> is an association list. Locking the factory's mutex, which is
  not recursive, while the same thread holds it never returns.
\<close>

section \<open>The libraries\<close>

record poco =
  pc_exists :: "string \<Rightarrow> fsys \<Rightarrow> bool outcome"
  pc_is_dir :: "string \<Rightarrow> fsys \<Rightarrow> bool outcome"
  pc_iter :: "string \<Rightarrow> fsys \<Rightarrow> (string \<times> fnode \<times> int) list outcome"
  pc_mkdirs :: "string \<Rightarrow> fsys \<Rightarrow> fsys outcome"
  pc_remove :: "string \<Rightarrow> fsys \<Rightarrow> fsys outcome"
  pc_create :: "string \<Rightarrow> fsys \<Rightarrow> (bool \<times> fsys) outcome"
  pc_copy :: "string \<Rightarrow> string \<Rightarrow> fsys \<Rightarrow> fsys outcome"
  pc_file_name :: "string \<Rightarrow> string"
  pc_path_is_dir :: "string \<Rightarrow> bool"
  pc_add_file :: "string option \<Rightarrow> string \<Rightarrow> fsys \<Rightarrow> fsys outcome"
  pc_add_dir :: "string \<Rightarrow> string \<Rightarrow> fsys \<Rightarrow> fsys \<times> string option"
  pc_close :: "string \<Rightarrow> fsys \<Rightarrow> fsys outcome"
  pc_decompress :: "string \<Rightarrow> string \<Rightarrow> fsys \<Rightarrow> fsys \<times> string option"

text \<open>\<open>f.exists() && f.isDirectory()\<close>.\<close>

definition poco_dir :: "poco \<Rightarrow> string \<Rightarrow> fsys \<Rightarrow> bool outcome" where
  "poco_dir pc p fs = bind_outcome (pc_exists pc p fs) (\<lambda>e. if e then pc_is_dir pc p fs else Ret False)"

section \<open>Scanning\<close>

type_synonym scan = "(string \<times> int) list"

definition isZipDirectory :: "string \<Rightarrow> bool" where
  "isZipDirectory p \<longleftrightarrow> str_find ''/zip'' p \<noteq> None"

text \<open>
  \<open>scanDirectoryRecursive\<close>: directories below depth \<open>n\<close> are not entered (a real tree is
  finite, so enough depth is the unbounded recursion). An exception ends the scan of that
  directory only.
\<close>

fun scanDirectoryRecursive :: "poco \<Rightarrow> bool \<Rightarrow> nat \<Rightarrow> fsys \<Rightarrow> string \<Rightarrow> scan \<Rightarrow> scan" where
  "scanDirectoryRecursive pc sub 0 fs directory files = files"
| "scanDirectoryRecursive pc sub (Suc n) fs directory files =
     (case poco_dir pc directory fs of
        Ret True \<Rightarrow>
          if \<not> isZipDirectory directory
          then case pc_iter pc directory fs of
              Ret es \<Rightarrow> fold (\<lambda>(p, nd, t) files.
                  case nd of FileN _ \<Rightarrow> AList.update p t files
                  | DirN \<Rightarrow> if sub \<and> \<not> isZipDirectory directory
                           then scanDirectoryRecursive pc sub n fs p files else files) es files
            | _ \<Rightarrow> files
          else files
      | _ \<Rightarrow> files)"

record watcher =
  w_directory :: string
  w_bucket :: string
  w_nodeid :: string
  w_keepFile :: bool
  w_needZip :: bool
  w_watchSubDir :: bool
  w_sleep :: int
  w_stop :: bool
  w_files1 :: scan
  w_files2 :: scan

text \<open>The constructor with its two scans. The argument \<open>sleep\<close> is not stored.\<close>

definition FileWatcher :: "string \<Rightarrow> string \<Rightarrow> string \<Rightarrow> int \<Rightarrow> bool \<Rightarrow> bool \<Rightarrow> bool \<Rightarrow> scan \<Rightarrow> scan \<Rightarrow> watcher" where
  "FileWatcher directory bucket nodeid sleep keepFile needZip watchSubDir scan1 scan2 =
     \<lparr>w_directory = directory, w_bucket = bucket, w_nodeid = nodeid, w_keepFile = keepFile,
      w_needZip = needZip, w_watchSubDir = watchSubDir, w_sleep = 10, w_stop = True,
      w_files1 = scan1, w_files2 = scan2\<rparr>"

section \<open>Uploading\<close>

record watch_env =
  we_poco :: poco
  s3_upload :: "string \<Rightarrow> string \<Rightarrow> string \<Rightarrow> fsys \<Rightarrow> bool"

record watch_state =
  ws_disk :: fsys
  ws_uploads :: "(string \<times> string \<times> string) list"

definition zipFile :: "poco \<Rightarrow> string \<Rightarrow> string \<Rightarrow> bool \<Rightarrow> fsys \<Rightarrow> (bool \<times> fsys) outcome" where
  "zipFile pc input output keepFile fs =
     bind_outcome (pc_exists pc input fs) (\<lambda>e.
     bind_outcome (if e then pc_is_dir pc input fs else Ret False) (\<lambda>d.
     if e \<and> d then bind_outcome (pc_add_file pc None output fs) (\<lambda>fs1. Ret (False, fs1))
     else bind_outcome (pc_add_file pc (if e then Some input else None) output fs) (\<lambda>fs1.
       if keepFile then Ret (True, fs1)
       else bind_outcome (pc_exists pc input fs1) (\<lambda>e1.
         if e1 then bind_outcome (pc_remove pc input fs1) (\<lambda>fs2. Ret (True, fs2)) else Ret (True, fs1)))))"

text \<open>The object key: the node prefix and the path, double slashes and \<open>/./\<close> collapsed.\<close>

definition s3_key :: "string \<Rightarrow> string \<Rightarrow> string option" where
  "s3_key nodeid file = Option.bind (subreplace (nodeid @ file) ''//'' ''/'') (\<lambda>k. subreplace k ''/./'' ''/'')"

definition upload_as :: "watch_env \<Rightarrow> watcher \<Rightarrow> string \<Rightarrow> watch_state \<Rightarrow> (watch_state, unit) run" where
  "upload_as env w file st =
     (case s3_key (w_nodeid w) file of
        None \<Rightarrow> Hang
      | Some key \<Rightarrow>
          if s3_upload env (w_bucket w) key file (ws_disk st)
          then Fin (st\<lparr>ws_uploads := ws_uploads st @ [(w_bucket w, key, file)]\<rparr>) ()
          else Fin st ())"

definition lift_disk :: "fsys outcome \<Rightarrow> watch_state \<Rightarrow> (watch_state, unit) run" where
  "lift_disk r st = (case r of Ret fs \<Rightarrow> Fin (st\<lparr>ws_disk := fs\<rparr>) () | Throw e \<Rightarrow> Exc st e | UB e \<Rightarrow> Crash e)"

definition uploadToS3 :: "watch_env \<Rightarrow> watcher \<Rightarrow> string \<Rightarrow> watch_state \<Rightarrow> (watch_state, unit) run" where
  "uploadToS3 env w file st =
     (if w_needZip w
      then let zipDir = cutLastLeftStr file ''/'' @ ''/zip''; pc = we_poco env in
        bind_run (lift_disk (bind_outcome (poco_dir pc zipDir (ws_disk st)) (\<lambda>d.
            if d then Ret (ws_disk st)
            else bind_outcome (pc_exists pc zipDir (ws_disk st)) (\<lambda>e.
              if e then Ret (ws_disk st) else pc_mkdirs pc zipDir (ws_disk st)))) st)
          (\<lambda>st _. let zfile = zipDir @ ''/'' @ pc_file_name pc file @ ''.zip'' in
            case zipFile pc file zfile (w_keepFile w) (ws_disk st) of
              Throw e \<Rightarrow> Exc st e
            | UB e \<Rightarrow> Crash e
            | Ret (ok, fs1) \<Rightarrow>
                if ok then upload_as env w zfile (st\<lparr>ws_disk := fs1\<rparr>) else Fin (st\<lparr>ws_disk := fs1\<rparr>) ())
      else upload_as env w file st)"

text \<open>The loop of \<open>scanContinuously\<close> over the files of the third scan, with its two tests.\<close>

fun upload_settled :: "watch_env \<Rightarrow> watcher \<Rightarrow> scan \<Rightarrow> watch_state \<Rightarrow> (watch_state, unit) run" where
  "upload_settled env w [] st = Fin st ()"
| "upload_settled env w ((p, t) # files) st =
     bind_run (if map_of (w_files1 w) p \<noteq> None \<and> map_of (w_files2 w) p \<noteq> None \<and>
                  map_of (w_files1 w) p \<noteq> map_of (w_files2 w) p \<and> map_of (w_files2 w) p = Some t
               then uploadToS3 env w p st else Fin st ())
       (\<lambda>st _. bind_run (if map_of (w_files1 w) p = None \<and> map_of (w_files2 w) p \<noteq> None \<and>
                            map_of (w_files2 w) p = Some t
                         then uploadToS3 env w p st else Fin st ())
       (\<lambda>st _. upload_settled env w files st))"

definition scanContinuously ::
    "watch_env \<Rightarrow> scan \<Rightarrow> watcher \<Rightarrow> watch_state \<Rightarrow> (watch_state, watcher) run" where
  "scanContinuously env files3 w st =
     bind_run (upload_settled env w files3 st)
       (\<lambda>st _. Fin st (w\<lparr>w_files1 := w_files2 w, w_files2 := files3\<rparr>))"

section \<open>The factory\<close>

definition findFileWatcher :: "string \<Rightarrow> watcher list \<Rightarrow> watcher option" where
  "findFileWatcher directory ws = List.find (\<lambda>w. w_directory w = directory) ws"

text \<open>\<open>start\<close>: the zip directory is created before the thread runs.\<close>

definition watcher_start :: "poco \<Rightarrow> watcher \<Rightarrow> fsys \<Rightarrow> (watcher \<times> fsys) outcome" where
  "watcher_start pc w fs =
     bind_outcome (if w_needZip w then pc_mkdirs pc (w_directory w @ ''/zip/'') fs else Ret fs)
       (\<lambda>fs1. Ret (w\<lparr>w_stop := False\<rparr>, fs1))"

definition createFileWatcher ::
    "poco \<Rightarrow> nat \<Rightarrow> string \<Rightarrow> string \<Rightarrow> string \<Rightarrow> int \<Rightarrow> bool \<Rightarrow> bool \<Rightarrow> bool \<Rightarrow> watcher list \<Rightarrow> fsys
       \<Rightarrow> (watcher list \<times> fsys) outcome" where
  "createFileWatcher pc depth directory bucket nodeid sleep keepFile needZip watchSubDir ws fs =
     (case findFileWatcher directory ws of
        Some w \<Rightarrow> Ret (ws, fs)
      | None \<Rightarrow>
          (let sc = scanDirectoryRecursive pc watchSubDir depth fs directory []
           in bind_outcome (watcher_start pc
                (FileWatcher directory bucket nodeid sleep keepFile needZip watchSubDir sc sc) fs)
                (\<lambda>(w, fs1). Ret (ws @ [w], fs1))))"

text \<open>
  The members that take the mutex, given whether this thread holds it already: taking it twice
  never returns (\<open>None\<close>).
\<close>

definition deleteFileWatcher :: "bool \<Rightarrow> watcher \<Rightarrow> watcher list \<Rightarrow> watcher list option" where
  "deleteFileWatcher held w ws = (if held then None else Some (remove1 w ws))"

definition deleteFileWatcherByDirectory :: "bool \<Rightarrow> string \<Rightarrow> watcher list \<Rightarrow> watcher list option" where
  "deleteFileWatcherByDirectory held directory ws =
     (if held then None
      else case findFileWatcher directory ws of
          Some w \<Rightarrow> deleteFileWatcher True w ws
        | None \<Rightarrow> Some ws)"

section \<open>Lemmas\<close>

text \<open>The files the two tests let through.\<close>

definition settled :: "scan \<Rightarrow> scan \<Rightarrow> string \<Rightarrow> int \<Rightarrow> bool" where
  "settled files1 files2 p t \<longleftrightarrow> map_of files2 p = Some t \<and> map_of files1 p \<noteq> Some t"

definition uploads_at :: "scan \<Rightarrow> scan \<Rightarrow> scan \<Rightarrow> string list" where
  "uploads_at files1 files2 files3 = map fst (filter (\<lambda>(p, t). settled files1 files2 p t) files3)"

lemma settled_cases:
  "settled f1 f2 p t \<longleftrightarrow>
     (map_of f1 p \<noteq> None \<and> map_of f2 p \<noteq> None \<and> map_of f1 p \<noteq> map_of f2 p \<and> map_of f2 p = Some t) \<or>
     (map_of f1 p = None \<and> map_of f2 p \<noteq> None \<and> map_of f2 p = Some t)"
  by (auto simp: settled_def)

text \<open>Without zipping and with uploads that work, the settled files are uploaded under their keys.\<close>

lemma s3_key_defined: "\<exists>k. s3_key nodeid file = Some k"
proof -
  obtain r where r: "subreplace (nodeid @ file) ''//'' ''/'' = Some r"
    using subreplace_terminates_shrinking [of "''/''" "''//''"] by auto
  obtain k where "subreplace r ''/./'' ''/'' = Some k"
    using subreplace_terminates_shrinking [of "''/''" "''/./''"] by auto
  with r show ?thesis by (simp add: s3_key_def)
qed

lemma upload_settled_spec:
  assumes "\<not> w_needZip w" and "\<forall>b k f fs. s3_upload env b k f fs"
  shows "\<exists>st'. upload_settled env w files st = Fin st' () \<and>
    map (\<lambda>(b, k, f). f) (ws_uploads st') =
      map (\<lambda>(b, k, f). f) (ws_uploads st) @ map fst (filter (\<lambda>(p, t). settled (w_files1 w) (w_files2 w) p t) files)"
proof (induction files arbitrary: st)
  case (Cons pt files)
  obtain p t where pt: "pt = (p, t)" by (cases pt)
  obtain k where k: "s3_key (w_nodeid w) p = Some k" using s3_key_defined by blast
  have up: "uploadToS3 env w p s = Fin (s\<lparr>ws_uploads := ws_uploads s @ [(w_bucket w, k, p)]\<rparr>) ()" for s
    using assms k by (simp add: uploadToS3_def upload_as_def)
  show ?case
  proof (cases "settled (w_files1 w) (w_files2 w) p t")
    case True
    let ?s = "st\<lparr>ws_uploads := ws_uploads st @ [(w_bucket w, k, p)]\<rparr>"
    have "upload_settled env w (pt # files) st = upload_settled env w files ?s"
      using True by (auto simp: pt up settled_cases)
    with Cons.IH [of ?s] True pt show ?thesis by auto
  next
    case False
    then have "upload_settled env w (pt # files) st = upload_settled env w files st"
      by (auto simp: pt settled_cases)
    with Cons.IH [of st] False pt show ?thesis by auto
  qed
qed simp

text \<open>What happens to one file, whatever becomes of the uploads of the others.\<close>

definition uploads_of :: "string \<Rightarrow> watch_state \<Rightarrow> (string \<times> string \<times> string) list" where
  "uploads_of p st = filter (\<lambda>(b, k, f). f = p) (ws_uploads st)"

definition attempt :: "watch_env \<Rightarrow> watcher \<Rightarrow> string \<Rightarrow> fsys \<Rightarrow> (string \<times> string \<times> string) list" where
  "attempt env w p fs = (let key = the (s3_key (w_nodeid w) p)
     in if s3_upload env (w_bucket w) key p fs then [(w_bucket w, key, p)] else [])"

lemma uploadToS3_plain:
  assumes "\<not> w_needZip w"
  shows "\<exists>st'. uploadToS3 env w q st = Fin st' () \<and> ws_disk st' = ws_disk st
    \<and> uploads_of p st' = uploads_of p st @ (if q = p then attempt env w p (ws_disk st) else [])"
proof -
  obtain k where k: "s3_key (w_nodeid w) q = Some k" using s3_key_defined by blast
  show ?thesis
  proof (cases "q = p")
    case True
    then have "the (s3_key (w_nodeid w) p) = k" using k by simp
    then show ?thesis using True k
      by (cases "s3_upload env (w_bucket w) k p (ws_disk st)")
        (simp_all add: uploadToS3_def assms upload_as_def attempt_def uploads_of_def Let_def)
  next
    case False
    then show ?thesis
      by (cases "s3_upload env (w_bucket w) k q (ws_disk st)")
        (simp_all add: uploadToS3_def assms upload_as_def k uploads_of_def)
  qed
qed

lemma upload_settled_one:
  assumes "\<not> w_needZip w"
  shows "\<exists>st'. upload_settled env w files st = Fin st' () \<and> ws_disk st' = ws_disk st
    \<and> uploads_of p st' = uploads_of p st @ concat (map (\<lambda>(q, t). if q = p \<and> settled (w_files1 w) (w_files2 w) p t
        then attempt env w p (ws_disk st) else []) files)"
proof (induction files arbitrary: st)
  case (Cons qt files)
  obtain q t where qt: "qt = (q, t)" by (cases qt)
  show ?case
  proof (cases "settled (w_files1 w) (w_files2 w) q t")
    case True
    obtain st1 where st1: "uploadToS3 env w q st = Fin st1 ()" "ws_disk st1 = ws_disk st"
      "uploads_of p st1 = uploads_of p st @ (if q = p then attempt env w p (ws_disk st) else [])"
      using uploadToS3_plain [OF assms] by blast
    have "upload_settled env w (qt # files) st = upload_settled env w files st1"
      using True st1(1) by (auto simp: qt settled_cases)
    with Cons.IH [of st1, unfolded st1(2)] st1(3) True qt show ?thesis by auto
  next
    case False
    then have "upload_settled env w (qt # files) st = upload_settled env w files st"
      by (auto simp: qt settled_cases)
    with Cons.IH [of st] False qt show ?thesis by auto
  qed
qed simp

lemma concat_one:
  assumes "distinct (map fst files)" and "map_of files p = Some t"
  shows "concat (map (\<lambda>(q, u). if q = p \<and> P u then xs else []) files) = (if P t then xs else [])"
  using assms
proof (induction files)
  case (Cons qu files)
  obtain q u where qu: "qu = (q, u)" by (cases qu)
  show ?case
  proof (cases "q = p")
    case True
    with Cons.prems(1) qu have "\<forall>(r, v) \<in> set files. r \<noteq> p" by force
    then have "concat (map (\<lambda>(q, u). if q = p \<and> P u then xs else []) files) = []" by auto
    with True qu Cons.prems(2) show ?thesis by simp
  next
    case False
    with Cons qu show ?thesis by simp
  qed
qed simp

text \<open>Rounds of the watcher: what the disk is at each, and what its scan finds.\<close>

fun scan_rounds :: "watch_env \<Rightarrow> (fsys \<times> scan) list \<Rightarrow> watcher \<Rightarrow> watch_state \<Rightarrow> (watch_state, watcher) run" where
  "scan_rounds env [] w st = Fin st w"
| "scan_rounds env ((fs, files3) # rounds) w st =
     bind_run (scanContinuously env files3 w (st\<lparr>ws_disk := fs\<rparr>)) (\<lambda>st w. scan_rounds env rounds w st)"

lemma scanContinuously_one:
  assumes "\<not> w_needZip w" and "distinct (map fst files3)" and "map_of files3 p = Some t"
  shows "\<exists>st'. scanContinuously env files3 w (st\<lparr>ws_disk := fs\<rparr>) = Fin st' (w\<lparr>w_files1 := w_files2 w, w_files2 := files3\<rparr>)
    \<and> uploads_of p st' = uploads_of p st @ (if settled (w_files1 w) (w_files2 w) p t then attempt env w p fs else [])"
proof -
  let ?s = "st\<lparr>ws_disk := fs\<rparr>"
  have disk: "ws_disk ?s = fs" by simp
  obtain st' where "upload_settled env w files3 ?s = Fin st' ()" "uploads_of p st' = uploads_of p ?s
      @ concat (map (\<lambda>(q, t). if q = p \<and> settled (w_files1 w) (w_files2 w) p t then attempt env w p fs else []) files3)"
    using upload_settled_one [OF assms(1), of env files3 ?s p, unfolded disk] by blast
  then show ?thesis
    using concat_one [OF assms(2,3), of "settled (w_files1 w) (w_files2 w) p" "attempt env w p fs"]
    by (simp add: scanContinuously_def uploads_of_def)
qed

lemma attempt_scans [simp]: "attempt env (w\<lparr>w_files1 := a, w_files2 := b\<rparr>) p fs = attempt env w p fs"
  by (simp add: attempt_def Let_def)

lemma scan_rounds_stable:
  assumes "\<not> w_needZip w" and "map_of (w_files1 w) p = Some t" and "map_of (w_files2 w) p = Some t"
    and "\<forall>(fs, s) \<in> set rounds. map_of s p = Some t \<and> distinct (map fst s)"
  shows "\<exists>st' w'. scan_rounds env rounds w st = Fin st' w' \<and> uploads_of p st' = uploads_of p st"
  using assms
proof (induction rounds arbitrary: w st)
  case (Cons r rounds)
  obtain fs files3 where r: "r = (fs, files3)" by (cases r)
  let ?w = "w\<lparr>w_files1 := w_files2 w, w_files2 := files3\<rparr>"
  obtain st1 where st1: "scanContinuously env files3 w (st\<lparr>ws_disk := fs\<rparr>) = Fin st1 ?w" "uploads_of p st1 = uploads_of p st"
    using scanContinuously_one [where w = w and p = p and t = t and env = env and st = st and fs = fs and ?files3.0 = files3] Cons.prems r by (auto simp: settled_def)
  have "\<exists>st' w'. scan_rounds env rounds ?w st1 = Fin st' w' \<and> uploads_of p st' = uploads_of p st1"
    by (rule Cons.IH) (use Cons.prems r in auto)
  with st1 r show ?case by simp
qed simp

section \<open>Properties\<close>

text \<open>
  C37. A watcher that does not zip tries to upload a new file exactly once: a file that was not in the first scan,
  appears in the second and is unchanged in all later scans is tried at the first of them, with what the disk then
  holds. If the upload works the file is in the bucket once, under its key; if it fails the file is never
  uploaded, for no later scan tries again. What happens to other files does not matter.
\<close>

theorem new_file_uploaded_once:
  assumes "\<not> w_needZip w" and "map_of (w_files1 w) p = None" and "map_of (w_files2 w) p = Some t"
    and "\<forall>(fs, s) \<in> set ((fs3, files3) # rounds). map_of s p = Some t \<and> distinct (map fst s)"
  shows "\<exists>st' w' key. scan_rounds env ((fs3, files3) # rounds) w st = Fin st' w'
    \<and> s3_key (w_nodeid w) p = Some key
    \<and> filter (\<lambda>(b, k, f). f = p) (ws_uploads st') = filter (\<lambda>(b, k, f). f = p) (ws_uploads st)
        @ (if s3_upload env (w_bucket w) key p fs3 then [(w_bucket w, key, p)] else [])"
proof -
  let ?w = "w\<lparr>w_files1 := w_files2 w, w_files2 := files3\<rparr>"
  obtain st1 where st1: "scanContinuously env files3 w (st\<lparr>ws_disk := fs3\<rparr>) = Fin st1 ?w"
    "uploads_of p st1 = uploads_of p st @ attempt env w p fs3"
    using scanContinuously_one [where w = w and p = p and t = t and env = env and st = st and fs = fs3 and ?files3.0 = files3] assms by (auto simp: settled_def)
  have "\<exists>st' w'. scan_rounds env rounds ?w st1 = Fin st' w' \<and> uploads_of p st' = uploads_of p st1"
    by (rule scan_rounds_stable [where t = t]) (use assms in auto)
  then obtain st' w' where "scan_rounds env ((fs3, files3) # rounds) w st = Fin st' w'"
      "uploads_of p st' = uploads_of p st @ attempt env w p fs3"
    using st1 by auto
  moreover obtain key where "s3_key (w_nodeid w) p = Some key" using s3_key_defined by blast
  ultimately show ?thesis by (simp add: uploads_of_def attempt_def Let_def)
qed

text \<open>The first upload fails and the next one would work.\<close>

theorem new_file_uploaded_once_witness:
  "\<exists>st' w' key. scan_rounds \<lparr>we_poco = undefined, s3_upload = \<lambda>b k f fs. 0 < dir_len fs\<rparr>
      [(demo_fs\<lparr>dir_len := 0\<rparr>, [(''d/a'', 5)]), (demo_fs\<lparr>dir_len := 9\<rparr>, [(''d/a'', 5)])]
      (FileWatcher ''d'' ''b'' ''n/up/'' 30 True False False [] [(''d/a'', 5)])
      \<lparr>ws_disk = demo_fs, ws_uploads = []\<rparr> = Fin st' w' \<and>
    s3_key ''n/up/'' ''d/a'' = Some key \<and> filter (\<lambda>(b, k, f). f = ''d/a'') (ws_uploads st') = []"
  using new_file_uploaded_once [of "FileWatcher ''d'' ''b'' ''n/up/'' 30 True False False [] [(''d/a'', 5)]" "''d/a''" 5
      "demo_fs\<lparr>dir_len := 0\<rparr>" "[(''d/a'', 5)]" "[(demo_fs\<lparr>dir_len := 9\<rparr>, [(''d/a'', 5)])]"
      "\<lparr>we_poco = undefined, s3_upload = \<lambda>b k f fs. 0 < dir_len fs\<rparr>" "\<lparr>ws_disk = demo_fs, ws_uploads = []\<rparr>"]
  by (simp add: FileWatcher_def)

text \<open>
  \<open>scanContinuously\<close> uploads exactly the settled files of the new scan and shifts its
  scans, when files are uploaded as they are and uploads succeed.
\<close>

theorem scan_uploads_settled:
  assumes "\<not> w_needZip w" and "\<forall>b k f fs. s3_upload env b k f fs"
  shows "\<exists>st' w'. scanContinuously env files3 w st = Fin st' w' \<and>
    map (\<lambda>(b, k, f). f) (ws_uploads st') =
      map (\<lambda>(b, k, f). f) (ws_uploads st) @ uploads_at (w_files1 w) (w_files2 w) files3 \<and>
    w_files1 w' = w_files2 w \<and> w_files2 w' = files3"
  using upload_settled_spec [OF assms, of files3 st] by (auto simp: scanContinuously_def uploads_at_def)

theorem scan_uploads_settled_witness:
  "\<exists>st' w'. scanContinuously \<lparr>we_poco = undefined, s3_upload = \<lambda>_ _ _ _. True\<rparr> [(''d/a'', 5)]
      (FileWatcher ''d'' ''b'' ''n/up/'' 30 True False False [] [(''d/a'', 5)])
      \<lparr>ws_disk = undefined, ws_uploads = []\<rparr> = Fin st' w' \<and>
    map (\<lambda>(b, k, f). f) (ws_uploads st') = [] @ [''d/a'']"
  using scan_uploads_settled [of "FileWatcher ''d'' ''b'' ''n/up/'' 30 True False False [] [(''d/a'', 5)]"
    "\<lparr>we_poco = undefined, s3_upload = \<lambda>_ _ _ _. True\<rparr>" "[(''d/a'', 5)]" "\<lparr>ws_disk = undefined, ws_uploads = []\<rparr>"]
  by (auto simp: FileWatcher_def uploads_at_def settled_def)

text \<open>
  Removing an existing watcher by its directory deadlocks: the factory locks its mutex and
  then calls \<open>deleteFileWatcher\<close>, which locks it again. Only a directory that has no watcher can be
  removed.
\<close>

theorem delete_by_directory_deadlocks:
  "deleteFileWatcherByDirectory False directory ws =
     (if directory \<in> w_directory ` set ws then None else Some ws)"
  by (auto simp: deleteFileWatcherByDirectory_def deleteFileWatcher_def findFileWatcher_def find_None_iff
      find_Some_iff split: option.splits)

end
