(* ===== verification/FileCommands.thy ===== *)
theory FileCommands
  imports FileDelivery Commands S3Watch
begin

text \<open>
  The file commands of \<open>node/src/FileTopic.cpp\<close>: \<open>process_node_cmd\<close> and the two handlers it
  calls, \<open>handle_file_transfer_command\<close> (listing, directories, deleting, sending, copying,
  zip archives) and \<open>handle_s3_operations\<close>, one definition for each case of their switches,
  and the turn of the writer thread that takes a command from the queue.

  A case works on the node's state and on the reply it was given; a case that finishes has its
  reply put into \<open>fileDataReplyQueueOut_\<close>, an exception is caught and logged. Poco and the
  S3 client are parameters (\<open>poco\<close>, \<open>s3_get\<close>, \<open>s3_put\<close>, \<open>s3_list\<close>, \<open>s3_del\<close>), as are
  the modification times of files. The build has \<open>USE_S3\<close>.
\<close>

section \<open>State and environment\<close>

record file_node =
  fn_topic :: file_topic
  fn_queues :: msg_queues
  fn_watchers :: "watcher list"

record file_cmd_env =
  fc_file :: file_env
  fc_poco :: poco
  fc_mtime :: "string \<Rightarrow> fsys \<Rightarrow> int"
  fc_json :: "json \<Rightarrow> string"
  fc_depth :: nat
  s3_get :: "string \<Rightarrow> string \<Rightarrow> string \<Rightarrow> fsys \<Rightarrow> bool \<times> fsys"
  s3_put :: "string \<Rightarrow> string \<Rightarrow> string \<Rightarrow> fsys \<Rightarrow> bool"
  s3_list :: "string \<Rightarrow> bool"
  s3_del :: "string \<Rightarrow> string \<Rightarrow> bool"

abbreviation fn_disk :: "file_node \<Rightarrow> fsys" where
  "fn_disk s \<equiv> ft_disk (fn_topic s)"

definition set_disk :: "fsys \<Rightarrow> file_node \<Rightarrow> file_node" where
  "set_disk fs s = s\<lparr>fn_topic := (fn_topic s)\<lparr>ft_disk := fs\<rparr>\<rparr>"

text \<open>A call that only looks, and a call that changes the disk, inside a handler.\<close>

definition ask :: "'a outcome \<Rightarrow> file_node \<Rightarrow> (file_node, 'a) run" where
  "ask r s = (case r of Ret x \<Rightarrow> Fin s x | Throw e \<Rightarrow> Exc s e | UB e \<Rightarrow> Crash e)"

definition change :: "('a \<times> fsys) outcome \<Rightarrow> file_node \<Rightarrow> (file_node, 'a) run" where
  "change r s = (case r of Ret (x, fs) \<Rightarrow> Fin (set_disk fs s) x | Throw e \<Rightarrow> Exc s e | UB e \<Rightarrow> Crash e)"

text \<open>A member of the topic called from a handler.\<close>

definition lift_topic :: "(file_topic, 'a) run \<Rightarrow> file_node \<Rightarrow> (file_node, 'a) run" where
  "lift_topic r s = (case r of
     Fin t x \<Rightarrow> Fin (s\<lparr>fn_topic := t\<rparr>) x | Exc t e \<Rightarrow> Exc (s\<lparr>fn_topic := t\<rparr>) e | Crash e \<Rightarrow> Crash e | Hang \<Rightarrow> Hang)"

definition call_mkdir :: "string \<Rightarrow> file_node \<Rightarrow> (file_node, unit) run" where
  "call_mkdir p s = (case mkdir p (fn_disk s) of
     (True, fs) \<Rightarrow> Fin (set_disk fs s) () | (False, fs) \<Rightarrow> Exc (set_disk fs s) ''create_directories'')"

section \<open>Listings\<close>

text \<open>
  One entry of \<open>getFileInfos\<close>: an empty regular file is skipped; a file whose length cannot be
  read stays in the list with size \<open>-1\<close> and the current time.
\<close>

definition file_entry :: "file_cmd_env \<Rightarrow> int \<Rightarrow> fsys \<Rightarrow> string \<Rightarrow> fnode \<Rightarrow> FileEntry list" where
  "file_entry env now fs name nd =
     (if nd = FileN [] then []
      else if is_regular nd \<and> GetFileLength name fs \<le> 0
      then [\<lparr>fe_path_name = name, fe_is_dir = False, fe_file_size = -1, fe_timestamp = now\<rparr>]
      else [\<lparr>fe_path_name = name, fe_is_dir = \<not> is_regular nd,
             fe_file_size = (if is_regular nd then GetFileLength name fs else -1),
             fe_timestamp = fc_mtime env name fs\<rparr>])"

definition getFileInfos :: "file_cmd_env \<Rightarrow> string \<Rightarrow> file_node \<Rightarrow> (file_node, FileEntry list) run" where
  "getFileInfos env path s =
     bind_run (ask (poco_dir (fc_poco env) path (fn_disk s)) s) (\<lambda>s d.
       if d
       then if IsDir path (fn_disk s)
         then Fin s (concat (map (\<lambda>(q, nd).
                file_entry env (clock (fc_file env) (ft_tick (fn_topic s))) (fn_disk s) (entry_name path q) nd)
                (children (fn_disk s) (path_of path))))
         else Exc s ''directory_iterator''
       else Fin s [])"

section \<open>Archives\<close>

definition zipFile :: "poco \<Rightarrow> string \<Rightarrow> string \<Rightarrow> fsys \<Rightarrow> (bool \<times> fsys) outcome" where
  "zipFile pc inputDirPath outputFilePath fs =
     bind_outcome (pc_exists pc inputDirPath fs) (\<lambda>e.
     bind_outcome (if e then pc_is_dir pc inputDirPath fs else Ret False) (\<lambda>d.
     if d then bind_outcome (pc_add_file pc None outputFilePath fs) (\<lambda>fs1. Ret (False, fs1))
     else bind_outcome (pc_add_file pc (if e then Some inputDirPath else None) outputFilePath fs)
       (\<lambda>fs1. Ret (True, fs1))))"

text \<open>
  \<open>addRecursive\<close> and \<open>decompressAllFiles\<close> give what they did to the disk and the exception they
  threw, if any; the exception is caught and only logged.
\<close>

definition zipDir :: "poco \<Rightarrow> string \<Rightarrow> string \<Rightarrow> fsys \<Rightarrow> (bool \<times> fsys) outcome" where
  "zipDir pc inputDirPath outputFilePath fs =
     (if pc_path_is_dir pc inputDirPath
      then let (fs1, exc) = pc_add_dir pc inputDirPath outputFilePath fs in
        bind_outcome (pc_close pc outputFilePath fs1) (\<lambda>fs2. Ret (True, fs2))
      else Ret (False, fs))"

definition zip_path :: "poco \<Rightarrow> string \<Rightarrow> string \<Rightarrow> fsys \<Rightarrow> (bool \<times> fsys) outcome" where
  "zip_path pc inputDirPath outputFilePath fs =
     (if pc_path_is_dir pc inputDirPath then zipDir pc inputDirPath outputFilePath fs
      else zipFile pc inputDirPath outputFilePath fs)"

definition uZip :: "poco \<Rightarrow> string \<Rightarrow> string \<Rightarrow> fsys \<Rightarrow> (bool \<times> fsys) outcome" where
  "uZip pc inputDirPath outputFilePath fs =
     bind_outcome (pc_exists pc inputDirPath fs) (\<lambda>e.
       if e then let (fs1, exc) = pc_decompress pc inputDirPath outputFilePath fs in Ret (True, fs1)
       else Ret (False, fs))"

section \<open>File commands\<close>

text \<open>
  What the cases have in common: the texts begin with the node's name and id, and a case that
  succeeds sets the status, appends the listing of a directory to the reply and sets the text.
\<close>

definition say :: "string \<Rightarrow> file_node \<Rightarrow> NodeCmdReply \<Rightarrow> NodeCmdReply" where
  "say text s r = r\<lparr>nr_desc := nodeName (ft_info (fn_topic s)) @ nodeId (ft_info (fn_topic s)) @ text\<rparr>"

definition reply_listing ::
    "file_cmd_env \<Rightarrow> string \<Rightarrow> string \<Rightarrow> NodeCmdReply \<Rightarrow> file_node \<Rightarrow> (file_node, NodeCmdReply) run" where
  "reply_listing env dir text r s =
     bind_run (getFileInfos env (c_str dir) s) (\<lambda>s es.
       Fin s (say text s (r\<lparr>nr_status := SUCCESS, nr_result := nr_result r @ es\<rparr>)))"

definition cmd_ls :: "file_cmd_env \<Rightarrow> NodeCmd \<Rightarrow> NodeCmdReply \<Rightarrow> file_node \<Rightarrow> (file_node, NodeCmdReply) run" where
  "cmd_ls env c r s =
     (if nc_paras c \<noteq> []
      then bind_run (getFileInfos env (nc_paras c) s) (\<lambda>s es.
        Fin s (say (''get directory sucess: '' @ nc_paras c) s
          (r\<lparr>nr_status := SUCCESS, nr_result := nr_result r @ es\<rparr>)))
      else Fin s (say ''invalid parameter'' s r))"

definition cmd_mkdir :: "file_cmd_env \<Rightarrow> NodeCmd \<Rightarrow> NodeCmdReply \<Rightarrow> file_node \<Rightarrow> (file_node, NodeCmdReply) run" where
  "cmd_mkdir env c r s =
     (if nc_paras c \<noteq> []
      then bind_run (call_mkdir (nc_paras c) s) (\<lambda>s _.
        reply_listing env (cutlaststr (nc_paras c) ''/'') (''creat directory sucess: '' @ nc_paras c) r s)
      else Fin s (say ''invalid parameter'' s r))"

definition cmd_del :: "file_cmd_env \<Rightarrow> NodeCmd \<Rightarrow> NodeCmdReply \<Rightarrow> file_node \<Rightarrow> (file_node, NodeCmdReply) run" where
  "cmd_del env c r s =
     (if nc_paras c \<noteq> []
      then bind_run (ask (pc_exists (fc_poco env) (trim (nc_paras c)) (fn_disk s)) s) (\<lambda>s e.
        if e
        then case del (nc_paras c) (fn_disk s) of
            (True, fs) \<Rightarrow> reply_listing env (cutlaststr (nc_paras c) ''/'') (''delete file sucess: '' @ nc_paras c) r (set_disk fs s)
          | (False, fs) \<Rightarrow> Fin (set_disk fs s) r
        else Fin s (say ''deleted file is not exist,invalid parameter'' s (r\<lparr>nr_status := INVALID\<rparr>)))
      else Fin s (say ''invalid parameter'' s (r\<lparr>nr_status := INVALID\<rparr>)))"

definition cmd_deldir :: "file_cmd_env \<Rightarrow> NodeCmd \<Rightarrow> NodeCmdReply \<Rightarrow> file_node \<Rightarrow> (file_node, NodeCmdReply) run" where
  "cmd_deldir env c r s =
     (if nc_paras c \<noteq> []
      then bind_run (ask (poco_dir (fc_poco env) (nc_paras c) (fn_disk s)) s) (\<lambda>s d.
        if d
        then reply_listing env (cutlaststr (nc_paras c) ''/'') (''delete directory sucess: '' @ nc_paras c) r
               (set_disk (remove_all_files (nc_paras c) (fn_disk s)) s)
        else Fin s (say ''deleted dir is not exist,invalid parameter'' s r))
      else Fin s (say ''invalid parameter'' s r))"

text \<open>
  \<open>SENDFILE\<close>: the arguments stand in the order of the call, so the file is sent from the
  command's target to its source.
\<close>

definition call_send_file ::
    "file_cmd_env \<Rightarrow> string \<Rightarrow> string \<Rightarrow> string \<Rightarrow> string \<Rightarrow> string \<Rightarrow> file_node \<Rightarrow> (file_node, bool) run" where
  "call_send_file env fileName srcNodeId uuid toNodeId subDirs s =
     lift_topic (send_file (fc_file env) fileName srcNodeId uuid toNodeId subDirs (fn_topic s)) s"

definition cmd_sendfile :: "file_cmd_env \<Rightarrow> NodeCmd \<Rightarrow> NodeCmdReply \<Rightarrow> file_node \<Rightarrow> (file_node, NodeCmdReply) run" where
  "cmd_sendfile env c r s =
     (if nc_paras c \<noteq> []
      then bind_run (call_send_file env (nc_paras c) (nc_to_node_id c) (nc_uuid c) (nc_src_node_id c) (nc_paras c) s)
        (\<lambda>s ok. if ok then reply_listing env (cutlaststr (nc_paras c) ''/'') (''send file sucess: '' @ nc_paras c) r s
                else Fin s (say (''send file fail: '' @ nc_paras c) s r))
      else Fin s (say ''invalid parameter'' s r))"

definition cmd_mkfile :: "file_cmd_env \<Rightarrow> NodeCmd \<Rightarrow> NodeCmdReply \<Rightarrow> file_node \<Rightarrow> (file_node, NodeCmdReply) run" where
  "cmd_mkfile env c r s =
     (if nc_paras c \<noteq> []
      then let path = trim (nc_paras c) in
        bind_run (ask (pc_exists (fc_poco env) path (fn_disk s)) s) (\<lambda>s e.
        if \<not> e
        then bind_run (change (pc_create (fc_poco env) path (fn_disk s)) s) (\<lambda>s result.
          if result
          then reply_listing env (cutlaststr (nc_paras c) ''/'') (''mk file sucess: '' @ nc_paras c) r s
          else Fin s (say (''mk file fail: '' @ nc_paras c) s (r\<lparr>nr_status := INVALID\<rparr>)))
        else Fin s (say (''make file fail,file exist: '' @ nc_paras c) s r))
      else Fin s (say ''invalid parameter'' s r))"

definition cmd_cpfile :: "file_cmd_env \<Rightarrow> NodeCmd \<Rightarrow> NodeCmdReply \<Rightarrow> file_node \<Rightarrow> (file_node, NodeCmdReply) run" where
  "cmd_cpfile env c r s =
     (if nc_cmd c \<noteq> [] \<and> nc_paras c \<noteq> []
      then let path = trim (nc_cmd c); pc = fc_poco env in
        bind_run (ask (pc_exists pc path (fn_disk s)) s) (\<lambda>s e.
        if e
        then bind_run (change (bind_outcome (pc_copy pc path (nc_paras c) (fn_disk s)) (\<lambda>fs. Ret ((), fs))) s)
          (\<lambda>s _. reply_listing env (cutlaststr (nc_paras c) ''/'') (''copy file sucess: '' @ nc_paras c) r s)
        else Fin s (say (''copy file fail: '' @ nc_paras c) s r))
      else Fin s (say ''invalid parameter'' s r))"

text \<open>
  \<open>ZIP\<close>: \<open>back()\<close> of an empty name is undefined. The directory listed is the one above the
  archived path, cut at the last slash, twice for a path that ends in one.
\<close>

definition cut_last :: "string \<Rightarrow> string" where
  "cut_last p = (case find_last_of ''/'' p of None \<Rightarrow> p | Some pos \<Rightarrow> take pos p)"

definition zip_listed :: "string \<Rightarrow> string" where
  "zip_listed p = (let oriParas = ''./'' @ p; d = cut_last oriParas
     in if last oriParas = CHR ''/'' then cut_last d else d)"

definition zip_source_exists :: "poco \<Rightarrow> string \<Rightarrow> fsys \<Rightarrow> bool outcome" where
  "zip_source_exists pc name fs =
     (let zip_file_name = trim name
      in if zip_file_name = [] then UB ''back() of an empty string''
         else if last zip_file_name = CHR ''/'' then poco_dir pc name fs else pc_exists pc name fs)"

definition cmd_zip :: "file_cmd_env \<Rightarrow> NodeCmd \<Rightarrow> NodeCmdReply \<Rightarrow> file_node \<Rightarrow> (file_node, NodeCmdReply) run" where
  "cmd_zip env c r s =
     (if nc_paras c \<noteq> []
      then bind_run (ask (zip_source_exists (fc_poco env) (nc_cmd c) (fn_disk s)) s) (\<lambda>s e.
        if e
        then bind_run (change (zip_path (fc_poco env) (nc_cmd c) (nc_paras c) (fn_disk s)) s) (\<lambda>s ok.
          if ok then reply_listing env (zip_listed (nc_cmd c)) (''zip file sucess: '' @ nc_paras c) r s
          else Fin s (say (''zip file fail: '' @ nc_paras c) s r))
        else Fin s (say '' zipped file or dir is not exist,invalid parameter'' s r))
      else Fin s (say ''invalid parameter'' s r))"

definition cmd_dzip :: "file_cmd_env \<Rightarrow> NodeCmd \<Rightarrow> NodeCmdReply \<Rightarrow> file_node \<Rightarrow> (file_node, NodeCmdReply) run" where
  "cmd_dzip env c r s =
     (if nc_cmd c \<noteq> [] \<and> nc_paras c \<noteq> []
      then bind_run (ask (pc_exists (fc_poco env) (nc_cmd c) (fn_disk s)) s) (\<lambda>s e.
        if e
        then bind_run (change (uZip (fc_poco env) (nc_cmd c) (nc_paras c) (fn_disk s)) s) (\<lambda>s ok.
          if ok then reply_listing env (cut_last (''./'' @ nc_cmd c)) (''uzip file sucess: '' @ nc_paras c) r s
          else Fin s (say (''uzip file fail: '' @ nc_paras c) s r))
        else Fin s (say '' dzipped file is not exist,invalid parameter'' s r))
      else Fin s (say ''invalid parameter'' s r))"

definition enqueue_file_reply :: "NodeCmdReply \<Rightarrow> file_node \<Rightarrow> file_node" where
  "enqueue_file_reply r s = s\<lparr>fn_queues := (fn_queues s)\<lparr>fileDataReplyQueueOut := enqueue r (fileDataReplyQueueOut (fn_queues s))\<rparr>\<rparr>"

definition enqueue_main_reply :: "NodeCmdReply \<Rightarrow> file_node \<Rightarrow> file_node" where
  "enqueue_main_reply r s = s\<lparr>fn_queues := (fn_queues s)\<lparr>mainCmdReplyQueueOut := enqueue r (mainCmdReplyQueueOut (fn_queues s))\<rparr>\<rparr>"

definition handle_file_transfer_command :: "file_cmd_env \<Rightarrow> NodeCmd \<Rightarrow> NodeCmdReply \<Rightarrow> file_node \<Rightarrow> (file_node, unit) run" where
  "handle_file_transfer_command env c r s =
     (let answer = (\<lambda>f. bind_run (f env c r s) (\<lambda>s r. Fin (enqueue_file_reply r s) ()))
      in catch_run
       (case nc_cmd_type c of
          LS \<Rightarrow> answer cmd_ls
        | MKDIR \<Rightarrow> answer cmd_mkdir
        | DEL \<Rightarrow> answer cmd_del
        | DELDIR \<Rightarrow> answer cmd_deldir
        | SENDFILE \<Rightarrow> answer cmd_sendfile
        | MKFILE \<Rightarrow> answer cmd_mkfile
        | CPFILE \<Rightarrow> answer cmd_cpfile
        | ZIP \<Rightarrow> answer cmd_zip
        | DZIP \<Rightarrow> answer cmd_dzip
        | _ \<Rightarrow> Fin (enqueue_main_reply r s) ())
       (\<lambda>s e. Fin s ()))"

section \<open>S3 commands\<close>

definition cmd_gets3file :: "file_cmd_env \<Rightarrow> NodeCmd \<Rightarrow> NodeCmdReply \<Rightarrow> file_node \<Rightarrow> (file_node, NodeCmdReply) run" where
  "cmd_gets3file env c r s =
     (if nc_cmd c \<noteq> [] \<and> nc_paras c \<noteq> []
      then let bucket = cutFisrtLeftStr (nc_cmd c) ''/''; fileKey = cutFisrtRightstr (nc_cmd c) ''/'';
               splitParas = cutlaststr (formatPath (nc_paras c)) ''/''
        in bind_run (ask (pc_exists (fc_poco env) splitParas (fn_disk s)) s) (\<lambda>s e.
           bind_run (if \<not> e then call_mkdir splitParas s else Fin s ()) (\<lambda>s _.
           case s3_get env bucket fileKey (nc_paras c) (fn_disk s) of
             (True, fs) \<Rightarrow> reply_listing env splitParas (''download s3 file success: '' @ nc_paras c) r (set_disk fs s)
           | (False, fs) \<Rightarrow> Fin (set_disk fs s)
               (say (''download s3 file failed: '' @ nc_paras c) s (r\<lparr>nr_status := INVALID\<rparr>))))
      else Fin s (say ''invalid parameter'' s r))"

definition cmd_puts3file :: "file_cmd_env \<Rightarrow> NodeCmd \<Rightarrow> NodeCmdReply \<Rightarrow> file_node \<Rightarrow> (file_node, NodeCmdReply) run" where
  "cmd_puts3file env c r s =
     (if nc_cmd c \<noteq> [] \<and> nc_paras c \<noteq> []
      then let bucket = cutFisrtLeftStr (nc_cmd c) ''/''; fileKey = cutFisrtRightstr (nc_cmd c) ''/''
        in if s3_put env bucket fileKey (nc_paras c) (fn_disk s)
           then reply_listing env (cutlaststr (formatPath (nc_paras c)) ''/'') (''upload s3 file success: '' @ nc_paras c) r s
           else Fin s (say (''upload s3 file failed: '' @ nc_paras c) s (r\<lparr>nr_status := INVALID\<rparr>))
      else Fin s (say ''invalid parameter'' s r))"

definition cmd_lss3dir :: "file_cmd_env \<Rightarrow> NodeCmd \<Rightarrow> NodeCmdReply \<Rightarrow> file_node \<Rightarrow> (file_node, NodeCmdReply) run" where
  "cmd_lss3dir env c r s =
     (if nc_cmd c \<noteq> [] \<and> nc_paras c \<noteq> []
      then if s3_list env (nc_cmd c)
        then Fin s (say (''upload s3 file success: '' @ nc_paras c) s (r\<lparr>nr_status := SUCCESS\<rparr>))
        else Fin s (say (''upload s3 file failed: '' @ nc_paras c) s (r\<lparr>nr_status := INVALID\<rparr>))
      else Fin s (say ''invalid parameter'' s r))"

definition cmd_dels3file :: "file_cmd_env \<Rightarrow> NodeCmd \<Rightarrow> NodeCmdReply \<Rightarrow> file_node \<Rightarrow> (file_node, NodeCmdReply) run" where
  "cmd_dels3file env c r s =
     (if nc_cmd c \<noteq> [] \<and> nc_paras c \<noteq> []
      then let bucket = cutFisrtLeftStr (nc_cmd c) ''/''; fileKey = cutFisrtRightstr (nc_cmd c) ''/''
        in if s3_del env fileKey bucket
           then reply_listing env (cutlaststr (formatPath (nc_paras c)) ''/'') (''copy s3 file success: '' @ nc_paras c) r s
           else Fin s (say (''copy s3 file failed: '' @ nc_paras c) s (r\<lparr>nr_status := INVALID\<rparr>))
      else Fin s (say ''invalid parameter'' s r))"

definition watcher_json :: "watcher \<Rightarrow> json" where
  "watcher_json w = JObj [(''directory'', JStr (c_str (w_directory w))), (''bucket'', JStr (c_str (w_bucket w))),
     (''nodeid'', JStr (c_str (w_nodeid w))), (''sleep'', JInt (w_sleep w)), (''keepFile'', JBool (w_keepFile w))]"

definition listAllWatchers :: "file_cmd_env \<Rightarrow> watcher list \<Rightarrow> string" where
  "listAllWatchers env ws = fc_json env (JObj [(''watchers'', JArr (map watcher_json ws))])"

text \<open>The watched directory is the command after its first slash; \<open>substr(1)\<close> drops that slash.\<close>

definition watch_root :: "string \<Rightarrow> string outcome" where
  "watch_root p = (let k = cutFisrtRightstr p ''/'' in substr 1 (length k) k)"

text \<open>The three flags of \<open>ADDS3WATCH\<close>: keep the file, zip it, watch sub-directories.\<close>

definition watch_flags :: "string \<Rightarrow> bool \<times> bool \<times> bool" where
  "watch_flags paras = (let sv = Strings.split paras (CHR ''#'')
     in if length sv > 2 then (sv ! 0 = ''1'', sv ! 1 = ''1'', sv ! 2 = ''1'') else (True, True, False))"

definition add_watcher :: "file_cmd_env \<Rightarrow> string \<Rightarrow> string \<Rightarrow> bool \<times> bool \<times> bool \<Rightarrow> file_node \<Rightarrow> (file_node, unit) run" where
  "add_watcher env directory bucket flags s =
     (let (keepFile, needZip, watchSubDir) = flags
      in case createFileWatcher (fc_poco env) (fc_depth env) directory bucket
             (nodeId (ft_info (fn_topic s)) @ ''/up/'') 30 keepFile needZip watchSubDir (fn_watchers s) (fn_disk s) of
           Ret (ws, fs) \<Rightarrow> Fin ((set_disk fs s)\<lparr>fn_watchers := ws\<rparr>) ()
         | Throw e \<Rightarrow> Exc s e
         | UB e \<Rightarrow> Crash e)"

definition cmd_adds3watch :: "file_cmd_env \<Rightarrow> NodeCmd \<Rightarrow> NodeCmdReply \<Rightarrow> file_node \<Rightarrow> (file_node, NodeCmdReply) run" where
  "cmd_adds3watch env c r s =
     (if nc_cmd c \<noteq> [] \<and> nc_paras c \<noteq> []
      then bind_run (ask (watch_root (nc_cmd c)) s) (\<lambda>s root.
        bind_run (ask (poco_dir (fc_poco env) root (fn_disk s)) s) (\<lambda>s d.
        if d
        then bind_run (add_watcher env root (cutFisrtLeftStr (nc_cmd c) ''/'') (watch_flags (nc_paras c)) s) (\<lambda>s _.
          Fin s (r\<lparr>nr_status := SUCCESS, nr_desc := c_str (listAllWatchers env (fn_watchers s))\<rparr>))
        else Fin s (r\<lparr>nr_status := INVALID, nr_desc := ''dir not exist or not directory!''\<rparr>)))
      else Fin s (say ''invalid parameter'' s r))"

definition cmd_rms3watch :: "file_cmd_env \<Rightarrow> NodeCmd \<Rightarrow> NodeCmdReply \<Rightarrow> file_node \<Rightarrow> (file_node, NodeCmdReply) run" where
  "cmd_rms3watch env c r s =
     (if nc_cmd c \<noteq> [] \<and> nc_paras c \<noteq> []
      then bind_run (ask (watch_root (nc_cmd c)) s) (\<lambda>s root.
        case deleteFileWatcherByDirectory False root (fn_watchers s) of
          None \<Rightarrow> Hang
        | Some ws \<Rightarrow> Fin (s\<lparr>fn_watchers := ws\<rparr>)
            (r\<lparr>nr_status := SUCCESS, nr_desc := c_str (listAllWatchers env ws)\<rparr>))
      else Fin s (say ''invalid parameter'' s (r\<lparr>nr_status := INVALID\<rparr>)))"

definition cmd_lss3watch :: "file_cmd_env \<Rightarrow> NodeCmd \<Rightarrow> NodeCmdReply \<Rightarrow> file_node \<Rightarrow> (file_node, NodeCmdReply) run" where
  "cmd_lss3watch env c r s =
     (if nc_cmd c \<noteq> [] \<and> nc_paras c \<noteq> []
      then Fin s (r\<lparr>nr_status := SUCCESS, nr_desc := c_str (listAllWatchers env (fn_watchers s))\<rparr>)
      else Fin s (say ''invalid parameter'' s (r\<lparr>nr_status := INVALID\<rparr>)))"

text \<open>An S3 command of another type changes the reply but does not queue it.\<close>

definition handle_s3_operations :: "file_cmd_env \<Rightarrow> NodeCmd \<Rightarrow> NodeCmdReply \<Rightarrow> file_node \<Rightarrow> (file_node, unit) run" where
  "handle_s3_operations env c r s =
     (let answer = (\<lambda>f. bind_run (f env c r s) (\<lambda>s r. Fin (enqueue_file_reply r s) ()))
      in catch_run
       (case nc_cmd_type c of
          GETS3FILE \<Rightarrow> answer cmd_gets3file
        | PUTS3FILE \<Rightarrow> answer cmd_puts3file
        | LSS3DIR \<Rightarrow> answer cmd_lss3dir
        | DELS3FILE \<Rightarrow> answer cmd_dels3file
        | ADDS3WATCH \<Rightarrow> answer cmd_adds3watch
        | RMS3WATCH \<Rightarrow> answer cmd_rms3watch
        | LSS3WATCH \<Rightarrow> answer cmd_lss3watch
        | _ \<Rightarrow> Fin s ())
       (\<lambda>s e. Fin s ()))"

section \<open>Processing a command\<close>

definition new_reply :: "string \<Rightarrow> NodeCmd \<Rightarrow> TopicInfo \<Rightarrow> NodeCmdReply" where
  "new_reply uuid c info = \<lparr>nr_uuid = uuid, nr_src_node_id = nodeId info, nr_src_node_name = nodeName info,
     nr_to_node_id = nc_src_node_id c, nr_to_node_name = nc_src_node_name c,
     nr_cmd_reply_uuid = nc_uuid c, nr_cmd_type = nc_cmd_type c, nr_status = INVALID,
     nr_desc = [], nr_desc_str = [], nr_result = []\<rparr>"

fun is_transfer_cmd :: "CmdType \<Rightarrow> bool" where
  "is_transfer_cmd t \<longleftrightarrow> t \<in> {LS, MKDIR, DEL, DELDIR, SENDFILE, MKFILE, CPFILE, ZIP, DZIP}"

fun is_s3_cmd :: "CmdType \<Rightarrow> bool" where
  "is_s3_cmd t \<longleftrightarrow> t \<in> {GETS3FILE, PUTS3FILE, LSS3DIR, DELS3FILE, ADDS3WATCH, RMS3WATCH, LSS3WATCH}"

definition process_node_cmd :: "file_cmd_env \<Rightarrow> NodeCmd \<Rightarrow> file_node \<Rightarrow> (file_node, unit) run" where
  "process_node_cmd env c s =
     (let t = fn_topic s; r = new_reply (gen_uuid (fc_file env) (ft_tick t)) c (ft_info t);
          s1 = s\<lparr>fn_topic := t\<lparr>ft_tick := Suc (ft_tick t)\<rparr>\<rparr>
      in if is_transfer_cmd (nc_cmd_type c) then handle_file_transfer_command env c r s1
         else if is_s3_cmd (nc_cmd_type c) then handle_s3_operations env c r s1
         else Fin s1 ())"

text \<open>
  One turn of the writer thread: a command from the queue, then, on a managing node every
  twentieth turn, the tasks of the database (\<open>rows\<close>, or \<open>None\<close> when the query throws).
\<close>

definition task_sql :: "string \<Rightarrow> string" where
  "task_sql part = ''select `file_name`,`src_node_id`,`to_node_id`,`uuid`,`sub_dir` from file_data where file_data_status_id=0 and to_node_id=''
     @ quoted part"

definition file_writer_turn ::
    "file_cmd_env \<Rightarrow> (string \<times> string \<times> string \<times> string \<times> string option) list option \<Rightarrow> nat
       \<Rightarrow> file_node \<Rightarrow> (file_node, unit) run" where
  "file_writer_turn env rows ctlCount s =
     catch_run
       (bind_run (case try_dequeue (fileDataQueueIn (fn_queues s)) of
            None \<Rightarrow> Fin s ()
          | Some (c, rest) \<Rightarrow> process_node_cmd env c (s\<lparr>fn_queues := (fn_queues s)\<lparr>fileDataQueueIn := rest\<rparr>\<rparr>))
        (\<lambda>s _. if ni_group (fe_node (fc_file env)) = ''mgr'' \<and> ctlCount mod 20 = 0
               then bind_run (ask (sprintf_1024 (task_sql (partition (ft_info (fn_topic s))))) s) (\<lambda>s sql.
                 if db_present (fe_db (fc_file env))
                 then case rows of
                     None \<Rightarrow> Exc s ''soci_error''
                   | Some rs \<Rightarrow> lift_topic (file_tasks (fc_file env) rs (fn_topic s)) s
                 else Crash ''null DbBase'')
               else Fin s ()))
       (\<lambda>s e. Fin s ())"

section \<open>Every case answers the command it was given\<close>

text \<open>
  What a case may do to its reply: the addressing fields stay; and to the queues: nothing.
\<close>

definition answers :: "NodeCmdReply \<Rightarrow> NodeCmdReply \<Rightarrow> bool" where
  "answers r r' \<longleftrightarrow> nr_uuid r' = nr_uuid r \<and> nr_src_node_id r' = nr_src_node_id r \<and>
     nr_src_node_name r' = nr_src_node_name r \<and> nr_to_node_id r' = nr_to_node_id r \<and>
     nr_to_node_name r' = nr_to_node_name r \<and> nr_cmd_reply_uuid r' = nr_cmd_reply_uuid r \<and>
     nr_cmd_type r' = nr_cmd_type r"

definition keeps_queues :: "('a \<Rightarrow> bool) \<Rightarrow> msg_queues \<Rightarrow> (file_node, 'a) run \<Rightarrow> bool" where
  "keeps_queues P q m = (case m of Fin s x \<Rightarrow> fn_queues s = q \<and> P x | Exc s e \<Rightarrow> fn_queues s = q | _ \<Rightarrow> True)"

lemma keeps_bind:
  assumes "keeps_queues (\<lambda>_. True) q m" and "\<And>s x. fn_queues s = q \<Longrightarrow> keeps_queues P q (f s x)"
  shows "keeps_queues P q (bind_run m f)"
  using assms by (cases m) (simp_all add: keeps_queues_def)

lemma keeps_Fin: "fn_queues s = q \<Longrightarrow> P x \<Longrightarrow> keeps_queues P q (Fin s x)"
  by (simp add: keeps_queues_def)

lemma keeps_end: "keeps_queues P q Hang" "fn_queues s = q \<Longrightarrow> keeps_queues P q (Exc s e)"
  "keeps_queues P q (Crash e)"
  by (simp_all add: keeps_queues_def)

lemma queues_set_disk [simp, frame]: "fn_queues (set_disk fs s) = fn_queues s"
  by (simp add: set_disk_def)

lemma answers_say [simp]: "answers r (say t s r') \<longleftrightarrow> answers r r'"
  by (simp add: answers_def say_def)

lemma answers_update [simp]:
  "answers r (r'\<lparr>nr_status := x\<rparr>) \<longleftrightarrow> answers r r'" "answers r (r'\<lparr>nr_desc := d\<rparr>) \<longleftrightarrow> answers r r'"
  "answers r (r'\<lparr>nr_result := es\<rparr>) \<longleftrightarrow> answers r r'" "answers r r"
  by (simp_all add: answers_def)

lemma keeps_ask: "keeps_queues (\<lambda>_. True) (fn_queues s) (ask m s)"
  by (cases m) (simp_all add: keeps_queues_def ask_def)

lemma keeps_change: "keeps_queues (\<lambda>_. True) (fn_queues s) (change m s)"
  by (cases m) (auto simp: keeps_queues_def change_def split: prod.splits)

lemma keeps_lift_topic: "keeps_queues (\<lambda>_. True) (fn_queues s) (lift_topic m s)"
  by (cases m) (simp_all add: keeps_queues_def lift_topic_def)

lemma keeps_mkdir: "keeps_queues (\<lambda>_. True) (fn_queues s) (call_mkdir p s)"
  by (auto simp: keeps_queues_def call_mkdir_def split: prod.splits bool.splits)

lemma keeps_infos: "keeps_queues (\<lambda>_. True) (fn_queues s) (getFileInfos env p s)"
  unfolding getFileInfos_def
  by (rule keeps_bind, rule keeps_ask) (auto intro: keeps_Fin keeps_end)

lemma keeps_listing: "fn_queues s = q \<Longrightarrow> answers r0 r \<Longrightarrow> keeps_queues (answers r0) q (reply_listing env d t r s)"
  unfolding reply_listing_def
  by (rule keeps_bind) (auto intro: keeps_Fin simp: keeps_infos)

lemma keeps_add_watcher: "keeps_queues (\<lambda>_. True) (fn_queues s) (add_watcher env d b fl s)"
  by (auto simp: keeps_queues_def add_watcher_def split: prod.splits outcome.splits)

lemmas keeps_calls = keeps_ask keeps_change keeps_lift_topic keeps_mkdir keeps_infos keeps_add_watcher

text \<open>The interface of a case, and what the handler makes of any case that has it.\<close>

locale command_case =
  fixes f :: "file_cmd_env \<Rightarrow> NodeCmd \<Rightarrow> NodeCmdReply \<Rightarrow> file_node \<Rightarrow> (file_node, NodeCmdReply) run"
  assumes keeps: "keeps_queues (answers r) (fn_queues s) (f env c r s)"
begin

lemma answered_once:
  assumes "catch_run (bind_run (f env c r s) (\<lambda>s r. Fin (enqueue_file_reply r s) ())) (\<lambda>s e. Fin s ()) = Fin s' ()"
  shows "fn_queues s' = fn_queues s \<or>
    (\<exists>r'. answers r r' \<and>
       fn_queues s' = (fn_queues s)\<lparr>fileDataReplyQueueOut := fileDataReplyQueueOut (fn_queues s) @ [r']\<rparr>)"
  using assms keeps [of r s env c]
  by (cases "f env c r s") (auto simp: keeps_queues_def enqueue_file_reply_def enqueue_def)

lemma no_exception:
  "catch_run (bind_run (f env c r s) (\<lambda>s r. Fin (enqueue_file_reply r s) ())) (\<lambda>s e. Fin s ()) \<noteq> Exc s' e"
  by (cases "f env c r s") simp_all

end

interpretation ls: command_case cmd_ls
  by unfold_locales (auto simp: cmd_ls_def keeps_infos intro!: keeps_bind keeps_Fin)

interpretation mkdir: command_case cmd_mkdir
  by unfold_locales (auto simp: cmd_mkdir_def keeps_mkdir intro!: keeps_bind keeps_Fin keeps_listing)

interpretation del: command_case cmd_del
  by unfold_locales
    (auto simp: cmd_del_def keeps_ask intro!: keeps_bind keeps_Fin keeps_listing split: prod.splits bool.splits)

interpretation deldir: command_case cmd_deldir
  by unfold_locales (auto simp: cmd_deldir_def keeps_ask intro!: keeps_bind keeps_Fin keeps_listing)

interpretation sendfile: command_case cmd_sendfile
  by unfold_locales
    (auto simp: cmd_sendfile_def call_send_file_def keeps_lift_topic intro!: keeps_bind keeps_Fin keeps_listing)

interpretation mkfile: command_case cmd_mkfile
  by unfold_locales
    (auto simp: cmd_mkfile_def Let_def intro!: keeps_bind keeps_Fin keeps_listing,
     auto simp: keeps_ask keeps_change dest: sym)

interpretation cpfile: command_case cmd_cpfile
  by unfold_locales
    (auto simp: cmd_cpfile_def Let_def intro!: keeps_bind keeps_Fin keeps_listing,
     auto simp: keeps_ask keeps_change dest: sym)

interpretation zipc: command_case cmd_zip
  by unfold_locales
    (auto simp: cmd_zip_def intro!: keeps_bind keeps_Fin keeps_listing,
     auto simp: keeps_ask keeps_change dest: sym)

interpretation dzip: command_case cmd_dzip
  by unfold_locales
    (auto simp: cmd_dzip_def intro!: keeps_bind keeps_Fin keeps_listing,
     auto simp: keeps_ask keeps_change dest: sym)

interpretation gets3file: command_case cmd_gets3file
  by unfold_locales
    (auto simp: cmd_gets3file_def Let_def intro!: keeps_bind keeps_Fin keeps_listing
       split: prod.splits bool.splits,
     auto simp: keeps_ask keeps_mkdir intro: keeps_Fin dest: sym)

interpretation puts3file: command_case cmd_puts3file
  by unfold_locales (auto simp: cmd_puts3file_def Let_def intro!: keeps_Fin keeps_listing)

interpretation lss3dir: command_case cmd_lss3dir
  by unfold_locales (auto simp: cmd_lss3dir_def intro!: keeps_Fin)

interpretation dels3file: command_case cmd_dels3file
  by unfold_locales (auto simp: cmd_dels3file_def Let_def intro!: keeps_Fin keeps_listing)

interpretation adds3watch: command_case cmd_adds3watch
  by unfold_locales
    (auto simp: cmd_adds3watch_def intro!: keeps_bind keeps_Fin,
     auto simp: keeps_ask keeps_add_watcher dest: sym)

interpretation rms3watch: command_case cmd_rms3watch
  by unfold_locales
    (auto simp: cmd_rms3watch_def keeps_ask intro!: keeps_bind keeps_Fin keeps_end split: option.splits)

interpretation lss3watch: command_case cmd_lss3watch
  by unfold_locales (auto simp: cmd_lss3watch_def intro!: keeps_Fin)

lemmas case_answered_once = ls.answered_once mkdir.answered_once del.answered_once deldir.answered_once
  sendfile.answered_once mkfile.answered_once cpfile.answered_once zipc.answered_once dzip.answered_once
  gets3file.answered_once puts3file.answered_once lss3dir.answered_once dels3file.answered_once
  adds3watch.answered_once rms3watch.answered_once lss3watch.answered_once

lemmas case_no_exception = ls.no_exception mkdir.no_exception del.no_exception deldir.no_exception
  sendfile.no_exception mkfile.no_exception cpfile.no_exception zipc.no_exception dzip.no_exception
  gets3file.no_exception puts3file.no_exception lss3dir.no_exception dels3file.no_exception
  adds3watch.no_exception rms3watch.no_exception lss3watch.no_exception

text \<open>Switching over the command type, one case at a time.\<close>

lemma transfer_answered:
  assumes "is_transfer_cmd (nc_cmd_type c)" and "handle_file_transfer_command env c r s = Fin s' ()"
  shows "fn_queues s' = fn_queues s \<or>
    (\<exists>r'. answers r r' \<and>
       fn_queues s' = (fn_queues s)\<lparr>fileDataReplyQueueOut := fileDataReplyQueueOut (fn_queues s) @ [r']\<rparr>)"
proof -
  from assms(1) have "nc_cmd_type c \<in> {LS, MKDIR, DEL, DELDIR, SENDFILE, MKFILE, CPFILE, ZIP, DZIP}" by simp
  then consider "nc_cmd_type c = LS" | "nc_cmd_type c = MKDIR" | "nc_cmd_type c = DEL" | "nc_cmd_type c = DELDIR"
    | "nc_cmd_type c = SENDFILE" | "nc_cmd_type c = MKFILE" | "nc_cmd_type c = CPFILE" | "nc_cmd_type c = ZIP"
    | "nc_cmd_type c = DZIP" by blast
  then show ?thesis
    using assms(2) unfolding handle_file_transfer_command_def Let_def
    by cases (simp only: CmdType.case, erule case_answered_once)+
qed

lemma s3_answered:
  assumes "is_s3_cmd (nc_cmd_type c)" and "handle_s3_operations env c r s = Fin s' ()"
  shows "fn_queues s' = fn_queues s \<or>
    (\<exists>r'. answers r r' \<and>
       fn_queues s' = (fn_queues s)\<lparr>fileDataReplyQueueOut := fileDataReplyQueueOut (fn_queues s) @ [r']\<rparr>)"
proof -
  from assms(1) have "nc_cmd_type c \<in> {GETS3FILE, PUTS3FILE, LSS3DIR, DELS3FILE, ADDS3WATCH, RMS3WATCH, LSS3WATCH}"
    by simp
  then consider "nc_cmd_type c = GETS3FILE" | "nc_cmd_type c = PUTS3FILE" | "nc_cmd_type c = LSS3DIR"
    | "nc_cmd_type c = DELS3FILE" | "nc_cmd_type c = ADDS3WATCH" | "nc_cmd_type c = RMS3WATCH"
    | "nc_cmd_type c = LSS3WATCH" by blast
  then show ?thesis
    using assms(2) unfolding handle_s3_operations_def Let_def
    by cases (simp only: CmdType.case, erule case_answered_once)+
qed

lemma transfer_no_exception: "handle_file_transfer_command env c r s \<noteq> Exc s' e"
  unfolding handle_file_transfer_command_def Let_def
  by (cases "nc_cmd_type c") (simp_all only: CmdType.case case_no_exception catch_run.simps run.distinct not_False_eq_True)

lemma s3_no_exception: "handle_s3_operations env c r s \<noteq> Exc s' e"
  unfolding handle_s3_operations_def Let_def
  by (cases "nc_cmd_type c") (simp_all only: CmdType.case case_no_exception catch_run.simps run.distinct not_False_eq_True)

section \<open>Properties\<close>

text \<open>
  What Poco documents of \<open>File::exists\<close> and \<open>File::isDirectory\<close>: they look at the disk, and an
  empty path is refused with an exception.
\<close>

definition poco_std :: "poco \<Rightarrow> bool" where
  "poco_std pc \<longleftrightarrow> (\<forall>p fs. p \<noteq> [] \<longrightarrow> pc_exists pc p fs = Ret (node_at fs (path_of p) \<noteq> None) \<and>
     pc_is_dir pc p fs = Ret (node_at fs (path_of p) = Some DirN)) \<and>
     (\<forall>fs. \<exists>e. pc_exists pc [] fs = Throw e)"

lemma poco_std_dir: "poco_std pc \<Longrightarrow> p \<noteq> [] \<Longrightarrow> poco_dir pc p fs = Ret (IsDir p fs)"
  by (auto simp: poco_std_def poco_dir_def IsDir_def)

lemma getFileInfos_std:
  assumes "poco_std (fc_poco env)" and "p \<noteq> []"
  obtains es where "getFileInfos env p s = Fin s es" and
    "\<forall>q. IsDir p (fn_disk s) \<and> (q, DirN) \<in> set (children (fn_disk s) (path_of p)) \<longrightarrow>
       (\<exists>e \<in> set es. fe_path_name e = entry_name p q \<and> fe_is_dir e)"
proof (cases "IsDir p (fn_disk s)")
  case True
  define es where "es = concat (map (\<lambda>(q, nd).
      file_entry env (clock (fc_file env) (ft_tick (fn_topic s))) (fn_disk s) (entry_name p q) nd)
      (children (fn_disk s) (path_of p)))"
  have "getFileInfos env p s = Fin s es"
    using True assms by (simp add: getFileInfos_def poco_std_dir ask_def es_def)
  moreover have "\<exists>e \<in> set es. fe_path_name e = entry_name p q \<and> fe_is_dir e"
    if "(q, DirN) \<in> set (children (fn_disk s) (path_of p))" for q
  proof -
    let ?now = "clock (fc_file env) (ft_tick (fn_topic s))"
    have "set (file_entry env ?now (fn_disk s) (entry_name p q) DirN) \<subseteq> set es"
      unfolding es_def using that by (auto intro!: bexI [of _ "(q, DirN)"])
    then show ?thesis by (simp add: file_entry_def is_regular_def) (erule bexI [rotated], simp)
  qed
  ultimately show ?thesis using that by blast
next
  case False
  then have "getFileInfos env p s = Fin s []" using assms by (simp add: getFileInfos_def poco_std_dir ask_def)
  with False that show ?thesis by blast
qed

lemma mkdir_lists_child:
  assumes "fs_wf fs" and "mkdir (d @ ''/'' @ x) fs = (True, fs1)" and d: "d \<noteq> []"
    and x: "CHR ''/'' \<notin> set x" "x \<noteq> []" "x \<noteq> ''.''"
  shows "IsDir (d @ ''/'' @ x) fs1" and "IsDir d fs1" and "(path_of d @ [x], DirN) \<in> set (children fs1 (path_of d))"
proof -
  have p: "path_of (d @ ''/'' @ x) = path_of d @ [x]" using path_of_child [OF d x] by simp
  from assms(2) d have "create_dirs (prefixes_of (path_of d @ [x])) fs = (True, fs1)"
    unfolding mkdir_def p by simp
  with create_dirs_wf [OF assms(1), of "path_of d @ [x]"]
  have wf: "fs_wf fs1" and n: "node_at fs1 (path_of d @ [x]) = Some DirN" by simp_all
  have nr: "\<not> is_root (path_of d @ [x])" using x by (auto simp: is_root_def append_eq_Cons_conv)
  show "IsDir (d @ ''/'' @ x) fs1" using n p by (simp add: IsDir_def)
  show "IsDir d fs1" using fs_wf_node [OF wf n nr] d by (simp add: IsDir_def)
  from n nr have "map_of (ents fs1) (path_of d @ [x]) = Some DirN" by (simp add: node_at_def)
  from map_of_SomeD [OF this] nr show "(path_of d @ [x], DirN) \<in> set (children fs1 (path_of d))"
    by (simp add: children_def)
qed

text \<open>What processing a command may do to the queues.\<close>

lemma process_node_cmd_queues:
  "case process_node_cmd env c s of
     Fin s' _ \<Rightarrow> fn_queues s' = fn_queues s \<or>
       (\<exists>r. fn_queues s' = (fn_queues s)\<lparr>fileDataReplyQueueOut := fileDataReplyQueueOut (fn_queues s) @ [r]\<rparr> \<and>
          nr_cmd_reply_uuid r = nc_uuid c \<and> nr_cmd_type r = nc_cmd_type c \<and>
          nr_to_node_id r = nc_src_node_id c \<and> nr_src_node_id r = nodeId (ft_info (fn_topic s)))
   | Exc _ _ \<Rightarrow> False
   | _ \<Rightarrow> True"
proof (cases "process_node_cmd env c s")
  case (Fin s' u)
  define r where "r = new_reply (gen_uuid (fc_file env) (ft_tick (fn_topic s))) c (ft_info (fn_topic s))"
  define s1 where "s1 = s\<lparr>fn_topic := (fn_topic s)\<lparr>ft_tick := Suc (ft_tick (fn_topic s))\<rparr>\<rparr>"
  have q: "fn_queues s1 = fn_queues s" by (simp add: s1_def)
  have "fn_queues s' = fn_queues s1 \<or> (\<exists>r'. answers r r' \<and>
      fn_queues s' = (fn_queues s1)\<lparr>fileDataReplyQueueOut := fileDataReplyQueueOut (fn_queues s1) @ [r']\<rparr>)"
    using Fin transfer_answered [of c env r s1 s'] s3_answered [of c env r s1 s']
    by (simp only: process_node_cmd_def Let_def r_def s1_def split: if_splits) auto
  with q Fin show ?thesis by (auto simp: answers_def r_def new_reply_def)
next
  case (Exc s' e)
  then show ?thesis
    by (simp only: process_node_cmd_def Let_def transfer_no_exception s3_no_exception run.distinct split: if_splits)
qed simp_all

text \<open>
  C13. A command that the file worker processes never makes it throw, and changes the queues at
  most by one reply at the end of \<open>fileDataReplyQueueOut_\<close>, which answers that command: it carries
  the command's uuid and type and goes from this node to the node that sent it.
\<close>

theorem file_command_answered:
  "case process_node_cmd env c s of
     Fin s' _ \<Rightarrow> fn_queues s' = fn_queues s \<or>
       (\<exists>r. fn_queues s' = (fn_queues s)\<lparr>fileDataReplyQueueOut := fileDataReplyQueueOut (fn_queues s) @ [r]\<rparr> \<and>
          nr_cmd_reply_uuid r = nc_uuid c \<and> nr_cmd_type r = nc_cmd_type c \<and>
          nr_to_node_id r = nc_src_node_id c \<and> nr_src_node_id r = nodeId (ft_info (fn_topic s)))
   | Exc _ _ \<Rightarrow> False
   | _ \<Rightarrow> True"
  by (rule process_node_cmd_queues)

text \<open>
  \<open>MKDIR\<close> of \<open>d/x\<close>: when the directories can be created, the command is answered with
  \<open>SUCCESS\<close>, the directory exists afterwards, and the listing in the answer names it.
\<close>

theorem mkdir_command_done:
  assumes "poco_std (fc_poco env)" and "fs_wf (fn_disk s)" and "nc_cmd_type c = MKDIR"
    and "nc_paras c = d @ ''/'' @ x" and "fst (mkdir (nc_paras c) (fn_disk s))"
    and "d \<noteq> []" and "CHR 0x00 \<notin> set d" and "CHR ''/'' \<notin> set x" and "x \<noteq> []" and "x \<noteq> ''.''"
  shows "\<exists>s' r. process_node_cmd env c s = Fin s' () \<and>
    fileDataReplyQueueOut (fn_queues s') = fileDataReplyQueueOut (fn_queues s) @ [r] \<and>
    nr_cmd_reply_uuid r = nc_uuid c \<and> nr_status r = SUCCESS \<and> IsDir (nc_paras c) (fn_disk s') \<and>
    (\<exists>e \<in> set (nr_result r). fe_path_name e = entry_name d [x] \<and> fe_is_dir e)"
proof -
  define t where "t = fn_topic s"
  obtain fs1 where mk: "mkdir (d @ ''/'' @ x) (fn_disk s) = (True, fs1)"
    using assms(4,5) by (cases "mkdir (nc_paras c) (fn_disk s)") auto
  note dirs = mkdir_lists_child [OF assms(2) mk assms(6) assms(8-10)]
  define s1 where "s1 = set_disk fs1 (s\<lparr>fn_topic := t\<lparr>ft_tick := Suc (ft_tick t)\<rparr>\<rparr>)"
  have disk: "fn_disk s1 = fs1" by (simp add: s1_def set_disk_def)
  obtain es where es: "getFileInfos env d s1 = Fin s1 es" and
    "\<exists>e \<in> set es. fe_path_name e = entry_name d (path_of d @ [x]) \<and> fe_is_dir e"
    using getFileInfos_std [OF assms(1,6), of s1] dirs disk by metis
  moreover have "entry_name d (path_of d @ [x]) = entry_name d [x]" by (simp add: entry_name_def)
  ultimately have listed: "\<exists>e \<in> set es. fe_path_name e = entry_name d [x] \<and> fe_is_dir e" by simp
  have cut: "c_str (cutlaststr (d @ ''/'' @ x) ''/'') = d"
    using assms(7,8) find_last_of_app [of "CHR ''/''" "''/''" x d] by (simp add: cutlaststr_def c_str_id)
  show ?thesis
    using mk es listed cut assms(3,4,6) dirs(1) disk
    by (auto simp: process_node_cmd_def Let_def t_def s1_def handle_file_transfer_command_def cmd_mkdir_def
        call_mkdir_def reply_listing_def enqueue_file_reply_def enqueue_def say_def new_reply_def set_disk_def)
qed

definition demo_poco :: poco where
  "demo_poco = \<lparr>
     pc_exists = (\<lambda>p fs. if p = [] then Throw ''empty path'' else Ret (node_at fs (path_of p) \<noteq> None)),
     pc_is_dir = (\<lambda>p fs. if p = [] then Throw ''empty path'' else Ret (node_at fs (path_of p) = Some DirN)),
     pc_iter = (\<lambda>p fs. Ret []), pc_mkdirs = (\<lambda>p fs. Ret fs), pc_remove = (\<lambda>p fs. Ret fs),
     pc_create = (\<lambda>p fs. Ret (True, put_file p [] fs)), pc_copy = (\<lambda>p q fs. Ret fs), pc_file_name = (\<lambda>p. p),
     pc_path_is_dir = (\<lambda>p. False), pc_add_file = (\<lambda>i p fs. Ret fs), pc_add_dir = (\<lambda>p q fs. (fs, None)),
     pc_close = (\<lambda>p fs. Ret fs), pc_decompress = (\<lambda>p q fs. (fs, None))\<rparr>"

lemma demo_poco_std: "poco_std demo_poco"
  by (simp add: poco_std_def demo_poco_def)

definition demo_command :: "CmdType \<Rightarrow> string \<Rightarrow> string \<Rightarrow> NodeCmd" where
  "demo_command t arg paras = \<lparr>nc_uuid = ''u'', nc_src_node_id = ''m'', nc_src_node_name = ''M'', nc_to_node_id = ''n'',
     nc_to_group = ''g'', nc_cmd_type = t, nc_podman_cmd = LIST_CONTAINERS, nc_cmd = arg, nc_paras = paras,
     nc_paras_1 = [], nc_paras_2 = []\<rparr>"

definition demo_file_cmd_env :: file_cmd_env where
  "demo_file_cmd_env = \<lparr>fc_file = demo_env, fc_poco = demo_poco, fc_mtime = (\<lambda>p fs. 7), fc_json = (\<lambda>j. ''{}''),
     fc_depth = 3, s3_get = (\<lambda>b k f fs. (True, fs)), s3_put = (\<lambda>b k f fs. True), s3_list = (\<lambda>b. True),
     s3_del = (\<lambda>k b. True)\<rparr>"

definition demo_file_node :: "NodeCmd list \<Rightarrow> watcher list \<Rightarrow> file_node" where
  "demo_file_node cs ws = \<lparr>fn_topic = demo_topic, fn_queues = \<lparr>mainCmdQueueIn = [], mainCmdReplyQueueOut = [],
     fileDataQueueIn = cs, fileDataReplyQueueOut = []\<rparr>, fn_watchers = ws\<rparr>"

lemma demo_path_tx: "path_of ''t/x'' = [''t'', ''x'']"
  using path_of_child [of "''t''" "''x''"] by (simp add: path_of_def components_plain)

lemma demo_mkdir_tx: "fst (mkdir ''t/x'' demo_fs)"
  by (simp add: mkdir_def demo_path_tx prefixes_of_def demo_fs_def node_at_def is_root_def)

theorem mkdir_command_done_witness:
  "\<exists>s' r. process_node_cmd demo_file_cmd_env (demo_command MKDIR [] ''t/x'') (demo_file_node [] []) = Fin s' () \<and>
    fileDataReplyQueueOut (fn_queues s') = [r] \<and> nr_cmd_reply_uuid r = ''u'' \<and> nr_status r = SUCCESS \<and>
    IsDir ''t/x'' (fn_disk s')"
  using mkdir_command_done [of demo_file_cmd_env "demo_file_node [] []" "demo_command MKDIR [] ''t/x''" "''t''" "''x''"]
    demo_poco_std demo_mkdir_tx demo_wf
  by (auto simp: demo_file_cmd_env_def demo_file_node_def demo_command_def demo_topic_def)

text \<open>
  Two commands that are taken from the queue and never answered, whatever the libraries do:
  a \<open>MKDIR\<close> whose directory cannot be created, because the exception leaves the case before the
  reply is queued, and \<open>LSS3BUCKETS\<close>, which \<open>NodeCmdTopic\<close> routes to the file worker but
  the file worker does not know.
\<close>

theorem commands_left_unanswered:
  assumes "nc_cmd_type c = MKDIR \<and> nc_paras c \<noteq> [] \<and> \<not> fst (mkdir (nc_paras c) (fn_disk s)) \<or>
    nc_cmd_type c = LSS3BUCKETS"
  shows "is_file_cmd (nc_cmd_type c) \<and>
    (\<exists>s'. process_node_cmd env c s = Fin s' () \<and> fn_queues s' = fn_queues s)"
  using assms
proof
  assume *: "nc_cmd_type c = MKDIR \<and> nc_paras c \<noteq> [] \<and> \<not> fst (mkdir (nc_paras c) (fn_disk s))"
  then obtain fs1 where "mkdir (nc_paras c) (fn_disk s) = (False, fs1)" by (metis (full_types) prod.collapse)
  with * show ?thesis
    by (simp add: process_node_cmd_def Let_def handle_file_transfer_command_def cmd_mkdir_def call_mkdir_def)
next
  assume "nc_cmd_type c = LSS3BUCKETS"
  then show ?thesis by (simp add: process_node_cmd_def Let_def)
qed

lemma demo_mkdir_fails: "\<not> fst (mkdir ''f'' demo_fs)"
  by (simp add: mkdir_def path_of_def components_plain prefixes_of_def demo_fs_def node_at_def is_root_def)

theorem commands_left_unanswered_witness:
  "\<exists>s'. process_node_cmd demo_file_cmd_env (demo_command MKDIR [] ''f'') (demo_file_node [] []) = Fin s' () \<and>
    fn_queues s' = fn_queues (demo_file_node [] [])"
  using commands_left_unanswered [of "demo_command MKDIR [] ''f''" "demo_file_node [] []" demo_file_cmd_env]
    demo_mkdir_fails
  by (simp add: demo_command_def demo_file_node_def demo_topic_def)

text \<open>
  \<open>DEL\<close> with a blank in front of a file name: the existence test trims the name and the
  deletion does not, so the command is answered with \<open>SUCCESS\<close> and the file is still there.
\<close>

theorem del_with_blank_keeps_file:
  assumes "poco_std (fc_poco env)" and "nc_cmd_type c = DEL" and "nc_paras c = '' '' @ f"
    and "file_content (fn_disk s) (path_of f) = Some content"
    and "node_at (fn_disk s) (path_of ('' '' @ f)) = None"
    and "f \<noteq> []" and "CHR 0x00 \<notin> set f" and "CHR ''/'' \<notin> set f" and "CHR '' '' \<notin> set f"
  shows "\<exists>s' r. process_node_cmd env c s = Fin s' () \<and>
    fileDataReplyQueueOut (fn_queues s') = fileDataReplyQueueOut (fn_queues s) @ [r] \<and>
    nr_status r = SUCCESS \<and> file_content (fn_disk s') (path_of f) = Some content"
proof -
  let ?b = "'' '' @ f"
  define s1 where "s1 = s\<lparr>fn_topic := (fn_topic s)\<lparr>ft_tick := Suc (ft_tick (fn_topic s))\<rparr>\<rparr>"
  define s2 where "s2 = set_disk (del_node (path_of ?b) (fn_disk s)) s1"
  have "dropWhile (\<lambda>c. c = CHR '' '') u = u" if "CHR '' '' \<notin> set u" for u
    using that by (cases u) auto
  then have trim: "trim ?b = f" using assms(9) by (simp add: trim_eq)
  have n: "node_at (fn_disk s) (path_of f) = Some (FileN content)"
    using assms(4) by (auto simp: file_content_def split: option.splits fnode.splits)
  then have ex: "pc_exists (fc_poco env) f fs = Ret True" if "fs = fn_disk s" for fs
    using assms(1,6) that by (simp add: poco_std_def)
  have del: "del ?b (fn_disk s) = (True, del_node (path_of ?b) (fn_disk s))"
    using assms(5) by (simp add: del_def IsDir_def)
  have cut: "c_str (cutlaststr ?b ''/'') = ?b"
    using assms(7,8) by (simp add: cutlaststr_def find_last_of_None [THEN iffD2] c_str_id)
  obtain es where es: "getFileInfos env ?b s2 = Fin s2 es"
    using getFileInfos_std [OF assms(1), of ?b s2] by auto
  have "file_content (del_node (path_of ?b) (fn_disk s)) (path_of f) = Some content"
    using assms(4,5) n by (auto simp: file_content_def node_at_del)
  then have kept: "file_content (fn_disk s2) (path_of f) = Some content" by (simp add: s2_def set_disk_def)
  have same: "fn_disk s1 = fn_disk s" "fn_queues s2 = fn_queues s" by (simp_all add: s1_def s2_def set_disk_def)
  define r where "r = new_reply (gen_uuid (fc_file env) (ft_tick (fn_topic s))) c (ft_info (fn_topic s))"
  have "cmd_del env c r s1 = Fin s2 (say (''delete file sucess: '' @ ?b) s2 (r\<lparr>nr_status := SUCCESS, nr_result := nr_result r @ es\<rparr>))"
    unfolding cmd_del_def assms(3) trim reply_listing_def cut ask_def same ex [OF refl]
    using es by (simp add: del [simplified] same s2_def)
  then show ?thesis
    using assms(2) kept same(2) unfolding r_def s1_def
    by (simp add: process_node_cmd_def Let_def handle_file_transfer_command_def enqueue_file_reply_def enqueue_def say_def)
qed

theorem del_with_blank_keeps_file_witness:
  "\<exists>s' r. process_node_cmd demo_file_cmd_env (demo_command DEL [] '' f'') (demo_file_node [] []) = Fin s' () \<and>
    fileDataReplyQueueOut (fn_queues s') = [r] \<and> nr_status r = SUCCESS \<and>
    file_content (fn_disk s') [''f''] = Some ''hello''"
proof -
  have p: "path_of ''f'' = [''f'']" "path_of '' f'' = ['' f'']" by (simp_all add: path_of_def components_plain)
  show ?thesis
    using del_with_blank_keeps_file [of demo_file_cmd_env "demo_command DEL [] '' f''" "''f''" "demo_file_node [] []" "''hello''"]
      demo_poco_std
    by (simp add: p demo_file_cmd_env_def demo_command_def demo_file_node_def demo_topic_def demo_fs_def
        file_content_def node_at_def is_root_def)
qed

text \<open>
  Two commands stop the file worker of a node for good. \<open>RMS3WATCH\<close> of a directory that is
  watched never returns, because of the factory's mutex; \<open>ZIP\<close> with an empty (or blank) source
  runs into undefined behaviour, \<open>back()\<close> of an empty string.
\<close>

theorem commands_that_stop_the_worker:
  assumes "fileDataQueueIn (fn_queues s) = c # rest"
    and "nc_cmd_type c = RMS3WATCH \<and> nc_cmd c = bucket @ ''/'' @ directory \<and> CHR ''/'' \<notin> set bucket \<and>
           nc_paras c \<noteq> [] \<and> findFileWatcher directory (fn_watchers s) \<noteq> None \<or>
         nc_cmd_type c = ZIP \<and> nc_paras c \<noteq> [] \<and> trim (nc_cmd c) = []"
  shows "file_writer_turn env rows n s = Hang \<or>
    file_writer_turn env rows n s = Crash ''back() of an empty string''"
  using assms(2)
proof
  assume *: "nc_cmd_type c = RMS3WATCH \<and> nc_cmd c = bucket @ ''/'' @ directory \<and> CHR ''/'' \<notin> set bucket \<and>
           nc_paras c \<noteq> [] \<and> findFileWatcher directory (fn_watchers s) \<noteq> None"
  then have "watch_root (nc_cmd c) = Ret directory"
    using find_first_of_app [of "CHR ''/''" "''/''" bucket directory]
    by (simp add: watch_root_def cutFisrtRightstr_def substr_def Let_def)
  with * assms(1) have "file_writer_turn env rows n s = Hang"
    by (auto simp: file_writer_turn_def try_dequeue_def process_node_cmd_def Let_def handle_s3_operations_def
        cmd_rms3watch_def ask_def deleteFileWatcherByDirectory_def deleteFileWatcher_def)
  then show ?thesis ..
next
  assume "nc_cmd_type c = ZIP \<and> nc_paras c \<noteq> [] \<and> trim (nc_cmd c) = []"
  with assms(1) show ?thesis
    by (simp add: file_writer_turn_def try_dequeue_def process_node_cmd_def Let_def
        handle_file_transfer_command_def cmd_zip_def zip_source_exists_def ask_def)
qed

theorem commands_that_stop_the_worker_witness:
  "file_writer_turn demo_file_cmd_env None 1 (demo_file_node [demo_command ZIP [] ''a.zip''] []) = Hang \<or>
   file_writer_turn demo_file_cmd_env None 1 (demo_file_node [demo_command ZIP [] ''a.zip''] [])
     = Crash ''back() of an empty string''"
  by (rule commands_that_stop_the_worker [where c = "demo_command ZIP [] ''a.zip''" and rest = "[]"])
    (simp_all add: demo_file_node_def demo_command_def trim_def)

end
