(* ===== verification/ProcessManager.thy ===== *)
theory ProcessManager
  imports NodeBase "HOL-Library.Word"
begin

text \<open>
  The supervisor of \<open>node/src/ProcessManager.cpp\<close>: it keeps a vector of child processes, starts,
  stops and removes them by uuid, and \<open>listener\<close>, called again and again, starts the ones that
  should run and do not.

  Boost.Process and the operating system are parameters: whether a launch succeeds and with which
  process id, whether a process is alive at a moment, what waiting for it gives, the text of
  \<open>/proc/<pid>/stat\<close>, the clock. Moments are numbered by \<open>pm_tick\<close>, which every launch and every
  wait advances. What the manager does to the system is the log \<open>pm_events\<close>. A child that was never
  launched has the process id \<open>-1\<close>. The iterators of the vector are pointers: a slot behind
  the end holds a destroyed object. The POSIX branches are modelled. A processor or memory share,
  a \<open>double\<close>, is kept as the two integers whose quotient it is.
\<close>

section \<open>State and environment\<close>

datatype os_event = Spawn string int | Terminate int | SigKill int | Chmod string nat

record ProcessAttribute =
  except_runnig :: bool
  exception_flag :: bool
  latest_start_time :: int
  latest_stop_time :: int
  launch_cmd :: string
  pa_uuid :: string
  work_path :: string
  reboot_count :: "32 word"
  cpu_usage :: "int \<times> int"
  mem_usage :: "int \<times> int"
  pa_env :: "(string \<times> string) list"
  pa_instance :: int

record proc_mgr =
  m_instances :: "ProcessAttribute list"
  pm_events :: "os_event list"
  pm_tick :: nat

record pm_env =
  pe_spawn :: "nat \<Rightarrow> string \<Rightarrow> string \<Rightarrow> (string \<times> string) list option \<Rightarrow> int option"
  pe_alive :: "nat \<Rightarrow> int \<Rightarrow> bool"
  pe_wait :: "nat \<Rightarrow> int \<Rightarrow> bool option"
  pe_terminate :: "nat \<Rightarrow> int \<Rightarrow> bool"
  pe_time :: "nat \<Rightarrow> int"
  pe_stat :: "nat \<Rightarrow> int \<Rightarrow> string option"
  pe_ticks :: int
  pe_environ :: "(string \<times> string) list"

section \<open>Child processes\<close>

definition running :: "pm_env \<Rightarrow> proc_mgr \<Rightarrow> ProcessAttribute \<Rightarrow> bool" where
  "running env st p \<longleftrightarrow> pa_instance p \<noteq> -1 \<and> pe_alive env (pm_tick st) (pa_instance p)"

definition emit :: "os_event \<Rightarrow> proc_mgr \<Rightarrow> proc_mgr" where
  "emit e st = st\<lparr>pm_events := pm_events st @ [e]\<rparr>"

definition change_at :: "nat \<Rightarrow> (ProcessAttribute \<Rightarrow> ProcessAttribute) \<Rightarrow> proc_mgr \<Rightarrow> proc_mgr" where
  "change_at i f st = st\<lparr>m_instances := (m_instances st)[i := f (m_instances st ! i)]\<rparr>"

text \<open>\<open>p.instance = bp::child(cmd, start_dir, ios)\<close>, with the environment unless it is empty.\<close>

definition launch :: "pm_env \<Rightarrow> nat \<Rightarrow> proc_mgr \<Rightarrow> (proc_mgr, unit) run" where
  "launch env i st =
     (let p = m_instances st ! i
      in case pe_spawn env (pm_tick st) (launch_cmd p) (work_path p)
             (if pa_env p = [] then None else Some (pa_env p)) of
           None \<Rightarrow> Exc st ''process_error''
         | Some pid \<Rightarrow> Fin (emit (Spawn (pa_uuid p) pid)
             (change_at i (\<lambda>p. p\<lparr>pa_instance := pid\<rparr>) (st\<lparr>pm_tick := Suc (pm_tick st)\<rparr>))) ())"

definition wait_for :: "pm_env \<Rightarrow> nat \<Rightarrow> proc_mgr \<Rightarrow> (proc_mgr, bool) run" where
  "wait_for env i st =
     (case pe_wait env (pm_tick st) (pa_instance (m_instances st ! i)) of
        None \<Rightarrow> Exc st ''process_error''
      | Some b \<Rightarrow> Fin (st\<lparr>pm_tick := Suc (pm_tick st)\<rparr>) b)"

definition terminate :: "pm_env \<Rightarrow> nat \<Rightarrow> proc_mgr \<Rightarrow> (proc_mgr, unit) run" where
  "terminate env i st =
     (let p = m_instances st ! i
      in if running env st p
         then if pe_terminate env (pm_tick st) (pa_instance p)
           then Fin (emit (Terminate (pa_instance p)) st) () else Exc st ''process_error''
         else Fin st ())"

section \<open>Processor and memory share\<close>

text \<open>Reading from a stream: a word, and a number after white space (\<open>None\<close> for a failed read).\<close>

definition read_word :: "string \<Rightarrow> string" where
  "read_word s = dropWhile (\<lambda>c. \<not> is_space c) (dropWhile is_space s)"

definition read_long :: "string \<Rightarrow> (int \<times> string) option" where
  "read_long s =
     (let t = dropWhile is_space s;
          neg = (t \<noteq> [] \<and> hd t = CHR ''-'');
          u = (if t \<noteq> [] \<and> hd t \<in> set ''+-'' then tl t else t);
          ds = takeWhile is_digit u
      in if ds = [] then None
         else Some ((if neg then - int (parse_digits ds) else int (parse_digits ds)), dropWhile is_digit u))"

text \<open>
  \<open>getCpuUsage\<close>: thirteen words are skipped. A number that cannot be read leaves its variable
  uninitialised, except that a second number that does not begin with a digit is 0.
\<close>

definition getCpuUsage :: "int \<Rightarrow> string option \<Rightarrow> (int \<times> int) outcome" where
  "getCpuUsage ticks stat =
     (case stat of
        None \<Rightarrow> Ret (0, ticks)
      | Some text \<Rightarrow>
          (case read_long ((read_word ^^ 13) text) of
             None \<Rightarrow> UB ''uninitialised utime''
           | Some (utime, rest) \<Rightarrow>
               (case read_long rest of
                  Some (stime, _) \<Rightarrow> Ret (utime + stime, ticks)
                | None \<Rightarrow> if dropWhile is_space rest = [] then UB ''uninitialised stime'' else Ret (utime, ticks))))"

text \<open>\<open>std::stol\<close> and \<open>getMemoryUsage\<close>, which adds what stands before and behind the last blank.\<close>

definition stol :: "string \<Rightarrow> int outcome" where
  "stol s = (case read_long s of
     None \<Rightarrow> Throw ''invalid_argument''
   | Some (v, _) \<Rightarrow> if - (2 ^ 63) \<le> v \<and> v < 2 ^ 63 then Ret v else Throw ''out_of_range'')"

definition getMemoryUsage :: "int \<Rightarrow> string option \<Rightarrow> (int \<times> int) outcome" where
  "getMemoryUsage ticks stat =
     (case stat of
        None \<Rightarrow> Ret (0, ticks)
      | Some text \<Rightarrow>
          if text = [] then Ret (0, ticks)
          else let line = takeWhile (\<lambda>c. c \<noteq> CHR 0x0A) text in
            case find_last_of '' '' line of
              None \<Rightarrow> Ret (0, ticks)
            | Some pos \<Rightarrow>
                bind_outcome (stol (take pos line)) (\<lambda>utime.
                bind_outcome (stol (drop (Suc pos) line)) (\<lambda>stime.
                Ret ((utime + stime) * 100, ticks))))"

section \<open>The operations\<close>

definition add_process :: "pm_env \<Rightarrow> string \<Rightarrow> string \<Rightarrow> string \<Rightarrow> bool \<Rightarrow> proc_mgr \<Rightarrow> bool \<times> proc_mgr" where
  "add_process env uuid runPath runFile keepAlive st =
     (if uuid \<in> pa_uuid ` set (m_instances st) then (True, st)
      else let exe = cutFisrtLeftStr uuid '' '';
               st1 = emit (Chmod (c_str (runPath @ ''/'' @ exe)) 64) st
        in (True, st1\<lparr>m_instances := m_instances st1 @
             [\<lparr>except_runnig = keepAlive, exception_flag = False, latest_start_time = 0, latest_stop_time = 0,
               launch_cmd = runFile, pa_uuid = uuid, work_path = runPath, reboot_count = 0,
               cpu_usage = (0, 1), mem_usage = (0, 1), pa_env = pe_environ env, pa_instance = -1\<rparr>]\<rparr>))"

fun start_all_loop :: "pm_env \<Rightarrow> nat list \<Rightarrow> proc_mgr \<Rightarrow> (proc_mgr, unit) run" where
  "start_all_loop env [] st = Fin st ()"
| "start_all_loop env (i # is) st = bind_run (launch env i st) (\<lambda>st _. start_all_loop env is st)"

definition start_all_process :: "pm_env \<Rightarrow> proc_mgr \<Rightarrow> (proc_mgr, unit) run" where
  "start_all_process env st =
     catch_run (start_all_loop env [0..<length (m_instances st)] st) (\<lambda>st e. Fin st ())"

text \<open>The body of \<open>start_process\<close> for the process it has found, and its search.\<close>

definition start_at :: "pm_env \<Rightarrow> nat \<Rightarrow> proc_mgr \<Rightarrow> (proc_mgr, bool) run" where
  "start_at env i st =
     bind_run (launch env i (change_at i (\<lambda>p. p\<lparr>latest_start_time := pe_time env (pm_tick st)\<rparr>) st)) (\<lambda>st _.
     bind_run (wait_for env i st) (\<lambda>st _.
     Fin (change_at i (\<lambda>p. p\<lparr>except_runnig := True\<rparr>) st) True))"

fun start_loop :: "pm_env \<Rightarrow> string \<Rightarrow> nat list \<Rightarrow> proc_mgr \<Rightarrow> (proc_mgr, bool) run" where
  "start_loop env uuid [] st = Fin st False"
| "start_loop env uuid (i # is) st =
     (let p = m_instances st ! i
      in if pa_uuid p = uuid \<and> \<not> running env st p then start_at env i st else start_loop env uuid is st)"

definition start_process :: "pm_env \<Rightarrow> string \<Rightarrow> proc_mgr \<Rightarrow> (proc_mgr, bool) run" where
  "start_process env uuid st =
     catch_run (start_loop env uuid [0..<length (m_instances st)] st) (\<lambda>st e. Fin st False)"

text \<open>Both restart functions act on \<open>exception_flag\<close>; only \<open>reboot_all_process\<close> resets it.\<close>

definition reboot_at :: "pm_env \<Rightarrow> nat \<Rightarrow> proc_mgr \<Rightarrow> (proc_mgr, unit) run" where
  "reboot_at env i st =
     bind_run (launch env i st) (\<lambda>st _. bind_run (wait_for env i st) (\<lambda>st _. Fin st ()))"

fun reboot_all_loop :: "pm_env \<Rightarrow> nat list \<Rightarrow> proc_mgr \<Rightarrow> (proc_mgr, bool) run" where
  "reboot_all_loop env [] st = Fin st True"
| "reboot_all_loop env (i # is) st =
     bind_run (if exception_flag (m_instances st ! i)
               then bind_run (reboot_at env i st) (\<lambda>st _.
                 Fin (change_at i (\<lambda>p. p\<lparr>exception_flag := False, reboot_count := reboot_count p + 1\<rparr>) st) ())
               else Fin st ())
       (\<lambda>st _. reboot_all_loop env is st)"

definition reboot_all_process :: "pm_env \<Rightarrow> proc_mgr \<Rightarrow> (proc_mgr, bool) run" where
  "reboot_all_process env st =
     catch_run (reboot_all_loop env [0..<length (m_instances st)] st) (\<lambda>st e. Fin st False)"

fun reboot_loop :: "pm_env \<Rightarrow> string \<Rightarrow> nat list \<Rightarrow> proc_mgr \<Rightarrow> (proc_mgr, bool) run" where
  "reboot_loop env uuid [] st = Fin st True"
| "reboot_loop env uuid (i # is) st =
     (let p = m_instances st ! i
      in bind_run (if pa_uuid p = uuid \<and> exception_flag p
                   then bind_run (reboot_at env i st) (\<lambda>st _.
                     Fin (change_at i (\<lambda>p. p\<lparr>reboot_count := reboot_count p + 1\<rparr>) st) ())
                   else Fin st ())
           (\<lambda>st _. reboot_loop env uuid is st))"

definition reboot_process :: "pm_env \<Rightarrow> string \<Rightarrow> proc_mgr \<Rightarrow> (proc_mgr, bool) run" where
  "reboot_process env uuid st =
     catch_run (reboot_loop env uuid [0..<length (m_instances st)] st) (\<lambda>st e. Fin st False)"

text \<open>
  What \<open>kill_process\<close> and \<open>kill_all_process\<close> do to one process: terminate, wait 15 seconds, send
  \<open>SIGKILL\<close> if it has not ended, wait again. The fields they reset afterwards belong to the entry that
  is erased next.
\<close>

definition kill_at :: "pm_env \<Rightarrow> nat \<Rightarrow> proc_mgr \<Rightarrow> (proc_mgr, unit) run" where
  "kill_at env i st =
     (let pid = pa_instance (m_instances st ! i)
      in bind_run (terminate env i st) (\<lambda>st _.
         bind_run (wait_for env i st) (\<lambda>st ended.
         let st1 = (if ended then st else emit (SigKill pid) st)
         in bind_run (wait_for env i st1) (\<lambda>st _. Fin st ()))))"

definition erase_uuid :: "string \<Rightarrow> proc_mgr \<Rightarrow> proc_mgr" where
  "erase_uuid uuid st = st\<lparr>m_instances := filter (\<lambda>p. pa_uuid p \<noteq> uuid) (m_instances st)\<rparr>"

text \<open>
  The range-based loop of \<open>kill_process\<close> runs over the slots the vector had at its start; after
  the \<open>erase\<close> in its body the last of them is a destroyed object.
\<close>

fun kill_loop :: "pm_env \<Rightarrow> string \<Rightarrow> nat list \<Rightarrow> proc_mgr \<Rightarrow> (proc_mgr, bool) run" where
  "kill_loop env uuid [] st = Fin st True"
| "kill_loop env uuid (i # is) st =
     (if length (m_instances st) \<le> i then Crash ''destroyed element of m_instances''
      else if pa_uuid (m_instances st ! i) = uuid
      then bind_run (kill_at env i st) (\<lambda>st _. kill_loop env uuid is (erase_uuid uuid st))
      else kill_loop env uuid is st)"

definition kill_process :: "pm_env \<Rightarrow> string \<Rightarrow> proc_mgr \<Rightarrow> (proc_mgr, bool) run" where
  "kill_process env uuid st =
     catch_run (kill_loop env uuid [0..<length (m_instances st)] st) (\<lambda>st e. Fin st False)"

text \<open>\<open>kill_all_process\<close>: every turn erases the first element, so there are as many as elements.\<close>

fun kill_all_loop :: "pm_env \<Rightarrow> nat \<Rightarrow> proc_mgr \<Rightarrow> (proc_mgr, bool) run" where
  "kill_all_loop env 0 st = Fin st True"
| "kill_all_loop env (Suc n) st =
     bind_run (kill_at env 0 st) (\<lambda>st _. kill_all_loop env n (st\<lparr>m_instances := tl (m_instances st)\<rparr>))"

definition kill_all_process :: "pm_env \<Rightarrow> proc_mgr \<Rightarrow> (proc_mgr, bool) run" where
  "kill_all_process env st =
     catch_run (kill_all_loop env (length (m_instances st)) st) (\<lambda>st e. Fin st False)"

definition remove_process :: "pm_env \<Rightarrow> string \<Rightarrow> proc_mgr \<Rightarrow> (proc_mgr, bool) run" where
  "remove_process env uuid st =
     bind_run (kill_process env uuid st) (\<lambda>st _. Fin (erase_uuid uuid st) True)"

text \<open>
  \<open>listener\<close>: the two cases for one process, then the loop; the result is that of the last process.
\<close>

definition usage_at :: "pm_env \<Rightarrow> nat \<Rightarrow> proc_mgr \<Rightarrow> (proc_mgr, unit) run" where
  "usage_at env i st =
     (let st1 = change_at i (\<lambda>p. p\<lparr>exception_flag := False, latest_stop_time := pe_time env (pm_tick st)\<rparr>) st;
          stat = pe_stat env (pm_tick st) (pa_instance (m_instances st ! i))
      in case getCpuUsage (pe_ticks env) stat of
           Throw e \<Rightarrow> Exc st1 e
         | UB e \<Rightarrow> Crash e
         | Ret cpu \<Rightarrow>
             (let st2 = change_at i (\<lambda>p. p\<lparr>cpu_usage := cpu\<rparr>) st1
              in case getMemoryUsage (pe_ticks env) stat of
                   Throw e \<Rightarrow> Exc st2 e
                 | UB e \<Rightarrow> Crash e
                 | Ret mem \<Rightarrow> Fin (change_at i (\<lambda>p. p\<lparr>mem_usage := mem\<rparr>) st2) ()))"

fun listener_loop :: "pm_env \<Rightarrow> nat list \<Rightarrow> bool \<Rightarrow> proc_mgr \<Rightarrow> (proc_mgr, bool) run" where
  "listener_loop env [] exc st = Fin st exc"
| "listener_loop env (i # is) exc st =
     (let p = m_instances st ! i
      in if \<not> running env st p \<and> except_runnig p
         then bind_run (start_process env (pa_uuid p) (change_at i (\<lambda>p. p\<lparr>exception_flag := True\<rparr>) st)) (\<lambda>st _.
              listener_loop env is True (change_at i (\<lambda>p. p\<lparr>reboot_count := reboot_count p + 1\<rparr>) st))
         else bind_run (usage_at env i st) (\<lambda>st _. listener_loop env is False st))"

definition listener :: "pm_env \<Rightarrow> proc_mgr \<Rightarrow> (proc_mgr, bool) run" where
  "listener env st = listener_loop env [0..<length (m_instances st)] False st"

definition ls_process :: "pm_env \<Rightarrow> proc_mgr \<Rightarrow> (proc_mgr, bool) run" where
  "ls_process env st = listener env st"

section \<open>What the operations keep\<close>

text \<open>
  The part of the table the clients rely on: which process is known, and which is expected to run.
\<close>

definition core :: "proc_mgr \<Rightarrow> (string \<times> bool) list" where
  "core st = map (\<lambda>p. (pa_uuid p, except_runnig p)) (m_instances st)"

definition uuids :: "proc_mgr \<Rightarrow> string list" where
  "uuids st = map pa_uuid (m_instances st)"

lemma uuids_core: "uuids st = map fst (core st)"
  by (simp add: uuids_def core_def comp_def)

lemma core_frame [simp, frame]:
  "core (emit e st) = core st" "core (st\<lparr>pm_tick := t\<rparr>) = core st" "core (st\<lparr>pm_events := es\<rparr>) = core st"
  by (simp_all add: core_def emit_def)

lemma core_change_at:
  assumes "\<And>p. pa_uuid (f p) = pa_uuid p" and "\<And>p. except_runnig (f p) = except_runnig p"
  shows "core (change_at i f st) = core st"
  using assms by (cases "i < length (m_instances st)")
    (simp_all add: core_def change_at_def list_update_beyond map_update list_update_same_conv)

lemma core_change_at_simps [simp]:
  "core (change_at i (\<lambda>p. p\<lparr>pa_instance := x\<rparr>) st) = core st"
  "core (change_at i (\<lambda>p. p\<lparr>latest_start_time := t\<rparr>) st) = core st"
  "core (change_at i (\<lambda>p. p\<lparr>exception_flag := b, latest_stop_time := t\<rparr>) st) = core st"
  "core (change_at i (\<lambda>p. p\<lparr>exception_flag := b\<rparr>) st) = core st"
  "core (change_at i (\<lambda>p. p\<lparr>cpu_usage := u\<rparr>) st) = core st"
  "core (change_at i (\<lambda>p. p\<lparr>mem_usage := u\<rparr>) st) = core st"
  "core (change_at i (\<lambda>p. p\<lparr>reboot_count := reboot_count p + 1\<rparr>) st) = core st"
  "core (change_at i (\<lambda>p. p\<lparr>exception_flag := b, reboot_count := reboot_count p + 1\<rparr>) st) = core st"
  by (rule core_change_at; simp)+

lemma launch_core: "core st = c \<Longrightarrow> run_inv (\<lambda>s. core s = c) (launch env i st)"
  by (simp add: launch_def Let_def split: option.split)

lemma wait_for_core: "core st = c \<Longrightarrow> run_inv (\<lambda>s. core s = c) (wait_for env i st)"
  by (simp add: wait_for_def split: option.split)

lemma terminate_core: "core st = c \<Longrightarrow> run_inv (\<lambda>s. core s = c) (terminate env i st)"
  by (simp add: terminate_def Let_def)

lemma usage_at_core: "core st = c \<Longrightarrow> run_inv (\<lambda>s. core s = c) (usage_at env i st)"
  by (simp add: usage_at_def Let_def split: outcome.split)

lemmas step_core = launch_core wait_for_core terminate_core usage_at_core

lemma run_inv_bind:
  "run_inv P m \<Longrightarrow> (\<And>s x. P s \<Longrightarrow> run_inv P (f s x)) \<Longrightarrow> run_inv P (bind_run m f)"
  by (rule run_post_bind)

lemma run_inv_catch:
  "run_inv P m \<Longrightarrow> (\<And>s e. P s \<Longrightarrow> run_inv P (h s e)) \<Longrightarrow> run_inv P (catch_run m h)"
  by (rule run_post_catch)

lemma kill_at_core: "core st = c \<Longrightarrow> run_inv (\<lambda>s. core s = c) (kill_at env i st)"
  unfolding kill_at_def Let_def by (auto intro!: run_inv_bind intro: step_core)

lemma reboot_at_core: "core st = c \<Longrightarrow> run_inv (\<lambda>s. core s = c) (reboot_at env i st)"
  unfolding reboot_at_def by (auto intro!: run_inv_bind intro: step_core)

lemma start_all_core: "core st = c \<Longrightarrow> run_inv (\<lambda>s. core s = c) (start_all_process env st)"
proof -
  have "run_inv (\<lambda>s. core s = c) (start_all_loop env is st)" if "core st = c" for "is" st
    using that by (induction "is" arbitrary: st) (auto intro!: run_inv_bind intro: step_core)
  then show "core st = c \<Longrightarrow> ?thesis" unfolding start_all_process_def by (auto intro!: run_inv_catch)
qed

lemma reboot_all_core: "core st = c \<Longrightarrow> run_inv (\<lambda>s. core s = c) (reboot_all_process env st)"
proof -
  have "run_inv (\<lambda>s. core s = c) (reboot_all_loop env is st)" if "core st = c" for "is" st
    using that by (induction "is" arbitrary: st) (auto intro!: run_inv_bind intro: reboot_at_core)
  then show "core st = c \<Longrightarrow> ?thesis" unfolding reboot_all_process_def by (auto intro!: run_inv_catch)
qed

lemma reboot_core: "core st = c \<Longrightarrow> run_inv (\<lambda>s. core s = c) (reboot_process env uuid st)"
proof -
  have "run_inv (\<lambda>s. core s = c) (reboot_loop env uuid is st)" if "core st = c" for "is" st
    using that by (induction "is" arbitrary: st) (auto simp: Let_def intro!: run_inv_bind intro: reboot_at_core)
  then show "core st = c \<Longrightarrow> ?thesis" unfolding reboot_process_def by (auto intro!: run_inv_catch)
qed

text \<open>Starting marks the process it starts, and no other; an exception leaves the marks as they were.\<close>

lemma core_mark: "core (change_at i (\<lambda>p. p\<lparr>except_runnig := True\<rparr>) st) = (core st)[i := (fst (core st ! i), True)]"
  by (cases "i < length (m_instances st)") (simp_all add: core_def change_at_def map_update list_update_beyond)

lemma start_at_core:
  assumes "core st = c"
  shows "run_post (\<lambda>s r. r \<and> core s = c[i := (fst (c ! i), True)]) (\<lambda>s. core s = c) (start_at env i st)"
  unfolding start_at_def
  using assms by (auto intro!: run_post_bind [where R = "\<lambda>s _. core s = c"] intro: step_core simp: core_mark)

lemma start_process_core:
  assumes "core st = c"
  shows "run_post (\<lambda>s r. if r then \<exists>i < length c. fst (c ! i) = uuid \<and> core s = c[i := (uuid, True)] else core s = c)
    (\<lambda>_. False) (start_process env uuid st)"
proof -
  have "run_post (\<lambda>s r. if r then \<exists>i < length c. fst (c ! i) = uuid \<and> core s = c[i := (uuid, True)] else core s = c)
      (\<lambda>s. core s = c) (start_loop env uuid is st)"
    if "core st = c" "\<forall>i \<in> set is. i < length (m_instances st)" for "is" st
    using that
  proof (induction "is" arbitrary: st)
    case (Cons i "is")
    then have i: "i < length c" "fst (c ! i) = pa_uuid (m_instances st ! i)" by (auto simp: core_def)
    with Cons show ?case
      by (auto simp: Let_def intro!: run_post_weaken [OF start_at_core [OF Cons.prems(1)]])
  qed simp
  then show ?thesis using assms unfolding start_process_def
    by (intro run_post_catch [where R = "\<lambda>s. core s = c"]) auto
qed

lemma start_expected_core:
  assumes "core st = c" and "distinct (map fst c)" and "i < length c" and "c ! i = (uuid, True)"
  shows "run_inv (\<lambda>s. core s = c) (start_process env uuid st)"
proof -
  have "c[j := (uuid, True)] = c" if "j < length c" "fst (c ! j) = uuid" for j
  proof -
    have "map fst c ! j = map fst c ! i" using that assms(3,4) by simp
    then have "j = i" using that(1) assms(2,3) nth_eq_iff_index_eq [of "map fst c" j i] by simp
    with assms(4) show ?thesis by (metis list_update_id)
  qed
  then show ?thesis
    by (intro run_post_weaken [OF start_process_core [OF assms(1)]]) (auto split: if_splits)
qed

lemma listener_core:
  assumes "core st = c" and "distinct (map fst c)"
  shows "run_inv (\<lambda>s. core s = c) (listener env st)"
proof -
  have "run_inv (\<lambda>s. core s = c) (listener_loop env is exc st)"
    if "core st = c" "\<forall>i \<in> set is. i < length c" for "is" exc st
    using that
  proof (induction "is" arbitrary: st exc)
    case (Cons i "is")
    show ?case
    proof (cases "\<not> running env st (m_instances st ! i) \<and> except_runnig (m_instances st ! i)")
      case True
      have "c ! i = (pa_uuid (m_instances st ! i), True)" using True Cons.prems by (auto simp: core_def)
      with Cons.prems assms(2)
      have "run_inv (\<lambda>s. core s = c) (start_process env (pa_uuid (m_instances st ! i))
          (change_at i (\<lambda>p. p\<lparr>exception_flag := True\<rparr>) st))"
        by (intro start_expected_core) auto
      with True Cons show ?thesis by (auto simp: Let_def intro!: run_inv_bind)
    next
      case False
      then show ?thesis using Cons by (auto simp: Let_def intro!: run_inv_bind intro: usage_at_core)
    qed
  qed simp
  moreover have "length (m_instances st) = length c" using assms(1) by (auto simp: core_def)
  ultimately show ?thesis unfolding listener_def using assms(1) by simp
qed

text \<open>Killing takes the process out of the table; an exception leaves the table as it was.\<close>

lemma core_erase: "core (erase_uuid uuid st) = filter (\<lambda>(u, _). u \<noteq> uuid) (core st)"
  by (simp add: core_def erase_uuid_def filter_map comp_def)

lemma kill_process_core:
  assumes "core st = c"
  shows "run_post (\<lambda>s r. if r then core s = filter (\<lambda>(u, _). u \<noteq> uuid) c
      else core s = c \<or> core s = filter (\<lambda>(u, _). u \<noteq> uuid) c) (\<lambda>_. False) (kill_process env uuid st)"
proof -
  let ?f = "filter (\<lambda>(u, _). u \<noteq> uuid) c"
  have "run_post (\<lambda>s r. r \<and> core s = ?f) (\<lambda>s. core s = c \<or> core s = ?f) (kill_loop env uuid is st)"
    if "core st = c" "\<forall>i < length c. i \<in> set is \<or> fst (c ! i) \<noteq> uuid" for "is" st
    using that
  proof (induction "is" arbitrary: st)
    case Nil
    then have "?f = c" by (fastforce simp: filter_id_conv in_set_conv_nth)
    with Nil show ?case by simp
  next
    case (Cons i "is")
    show ?case
    proof (cases "length (m_instances st) \<le> i \<or> pa_uuid (m_instances st ! i) \<noteq> uuid")
      case True
      show ?thesis
      proof (cases "length (m_instances st) \<le> i")
        case False
        with True Cons.prems(1) have "fst (c ! i) \<noteq> uuid" by (auto simp: core_def)
        with Cons.prems(2) have "\<forall>j < length c. j \<in> set is \<or> fst (c ! j) \<noteq> uuid" by auto
        from Cons.IH [OF Cons.prems(1) this] True False show ?thesis by simp
      qed simp
    next
      case False
      have kl: "run_post (\<lambda>s r. r \<and> core s = ?f) (\<lambda>s. core s = ?f) (kill_loop env uuid is s)" if "core s = ?f" for s
        using that by (induction "is" arbitrary: s) (auto intro!: run_post_bind [where R = "\<lambda>s _. core s = ?f"]
            intro: kill_at_core simp: core_erase)
      have "run_post (\<lambda>s r. r \<and> core s = ?f) (\<lambda>s. core s = c \<or> core s = ?f)
          (bind_run (kill_at env i st) (\<lambda>st _. kill_loop env uuid is (erase_uuid uuid st)))"
      proof (rule run_post_bind)
        show "run_post (\<lambda>s _. core s = c) (\<lambda>s. core s = c \<or> core s = ?f) (kill_at env i st)"
          by (rule run_post_weaken [OF kill_at_core [OF Cons.prems(1)]]) simp_all
        fix s :: proc_mgr assume "core s = c"
        then have "core (erase_uuid uuid s) = ?f" by (simp add: core_erase)
        from kl [OF this] show "run_post (\<lambda>s r. r \<and> core s = ?f) (\<lambda>s. core s = c \<or> core s = ?f)
            (kill_loop env uuid is (erase_uuid uuid s))" by (rule run_post_weaken) simp_all
      qed
      with False show ?thesis by simp
    qed
  qed
  from this [OF assms, of "[0..<length (m_instances st)]"] assms
  have "run_post (\<lambda>s r. r \<and> core s = ?f) (\<lambda>s. core s = c \<or> core s = ?f)
      (kill_loop env uuid [0..<length (m_instances st)] st)" by (auto simp: core_def)
  then have "run_post (\<lambda>s r. if r then core s = ?f else core s = c \<or> core s = ?f) (\<lambda>s. core s = c \<or> core s = ?f)
      (kill_loop env uuid [0..<length (m_instances st)] st)" by (rule run_post_weaken) simp_all
  then show ?thesis unfolding kill_process_def by (rule run_post_catch) simp
qed

lemma kill_all_core: "core st = c \<Longrightarrow> run_inv (\<lambda>s. \<exists>n. core s = drop n c) (kill_all_process env st)"
proof -
  have tl: "core (s\<lparr>m_instances := tl (m_instances s)\<rparr>) = tl (core s)" for s by (simp add: core_def map_tl)
  have loop: "run_inv (\<lambda>s. \<exists>n. core s = drop n c) (kill_all_loop env k st)" if "\<exists>n. core st = drop n c" for k st
    using that
  proof (induction k arbitrary: st)
    case (Suc k)
    then obtain n where n: "core st = drop n c" by blast
    have "run_post (\<lambda>s _. core s = drop n c) (\<lambda>s. \<exists>n. core s = drop n c) (kill_at env 0 st)"
      using n by (intro run_post_weaken [OF kill_at_core [OF n]]) auto
    moreover have "\<exists>m. core (s\<lparr>m_instances := tl (m_instances s)\<rparr>) = drop m c" if "core s = drop n c" for s
      using that by (auto simp: tl tl_drop intro!: exI [of _ "Suc n"] simp: drop_Suc)
    ultimately show ?case using Suc.IH by (auto intro!: run_post_bind)
  qed simp
  have "run_inv (\<lambda>s. \<exists>n. core s = drop n c) (kill_all_loop env (length (m_instances st)) st)"
    if "core st = c" using that by (intro loop exI [of _ 0]) simp
  then show "core st = c \<Longrightarrow> ?thesis" unfolding kill_all_process_def by (auto intro!: run_inv_catch)
qed

section \<open>The table as a state machine\<close>

text \<open>
  The calls that other parts of the program make, in any order; a call that throws also leaves a
  state behind.
\<close>

definition after :: "('s, 'a) run \<Rightarrow> 's \<Rightarrow> bool" where
  "after m s \<longleftrightarrow> (\<exists>x. m = Fin s x) \<or> (\<exists>e. m = Exc s e)"

inductive pm_step :: "pm_env \<Rightarrow> proc_mgr \<Rightarrow> proc_mgr \<Rightarrow> bool" for env where
  add: "pm_step env st (snd (add_process env uuid runPath runFile keepAlive st))"
| remove: "after (remove_process env uuid st) st' \<Longrightarrow> pm_step env st st'"
| start: "after (start_process env uuid st) st' \<Longrightarrow> pm_step env st st'"
| start_all: "after (start_all_process env st) st' \<Longrightarrow> pm_step env st st'"
| reboot: "after (reboot_process env uuid st) st' \<Longrightarrow> pm_step env st st'"
| reboot_all: "after (reboot_all_process env st) st' \<Longrightarrow> pm_step env st st'"
| kill: "after (kill_process env uuid st) st' \<Longrightarrow> pm_step env st st'"
| kill_all: "after (kill_all_process env st) st' \<Longrightarrow> pm_step env st st'"
| listen: "after (listener env st) st' \<Longrightarrow> pm_step env st st'"

inductive pm_reachable :: "pm_env \<Rightarrow> proc_mgr \<Rightarrow> bool" for env where
  init: "m_instances st = [] \<Longrightarrow> pm_reachable env st"
| step: "pm_reachable env st \<Longrightarrow> pm_step env st st' \<Longrightarrow> pm_reachable env st'"

lemma run_post_after: "run_post (\<lambda>s _. P s) P m \<Longrightarrow> after m s \<Longrightarrow> P s"
  by (auto simp: after_def)

lemma remove_process_core:
  assumes "core st = c"
  shows "run_post (\<lambda>s r. r \<and> core s = filter (\<lambda>(u, _). u \<noteq> uuid) c) (\<lambda>_. False) (remove_process env uuid st)"
  unfolding remove_process_def
  by (rule run_post_bind [OF kill_process_core [OF assms]]) (auto simp: core_erase split: if_splits)

lemma distinct_fst_filter: "distinct (map fst c) \<Longrightarrow> distinct (map fst (filter P c))"
  by (simp add: distinct_map_filter)

lemma distinct_fst_update: "distinct (map fst c) \<Longrightarrow> distinct (map fst (c[i := (fst (c ! i), b)]))"
  by (simp add: map_update)
    (metis list_update_id list_update_beyond not_less nth_map length_map)

lemma pm_step_distinct:
  assumes "pm_step env st st'" and "distinct (map fst (core st))"
  shows "distinct (map fst (core st'))"
  using assms
proof (induction rule: pm_step.induct)
  case (add st uuid runPath runFile keepAlive)
  then show ?case by (auto simp: add_process_def Let_def core_def emit_def comp_def)
next
  case (remove uuid st st')
  then show ?case
    using run_post_weaken [OF remove_process_core [OF refl, where st = st and uuid = uuid and env = env], of "\<lambda>s _. distinct (map fst (core s))"
        "\<lambda>s. distinct (map fst (core s))"]
    by (auto dest: run_post_after simp: distinct_fst_filter)
next
  case (start uuid st st')
  have "run_inv (\<lambda>s. distinct (map fst (core s))) (start_process env uuid st)"
    using start(2) distinct_fst_update
    by (intro run_post_weaken [OF start_process_core [OF refl, where st = st and uuid = uuid and env = env]]) (fastforce split: if_splits)+
  with start(1) show ?case by (rule run_post_after [rotated])
next
  case (start_all st st')
  with run_post_after [OF start_all_core [OF refl]] show ?case by metis
next
  case (reboot uuid st st')
  with run_post_after [OF reboot_core [OF refl]] show ?case by metis
next
  case (reboot_all st st')
  with run_post_after [OF reboot_all_core [OF refl]] show ?case by metis
next
  case (kill uuid st st')
  have "run_inv (\<lambda>s. distinct (map fst (core s))) (kill_process env uuid st)"
    using kill(2) by (intro run_post_weaken [OF kill_process_core [OF refl, where st = st and uuid = uuid and env = env]])
      (auto simp: distinct_fst_filter split: if_splits)
  with kill(1) show ?case by (rule run_post_after [rotated])
next
  case (kill_all st st')
  with run_post_after [OF kill_all_core [OF refl]] obtain n where "core st' = drop n (core st)" by blast
  with kill_all(2) show ?case by (simp add: drop_map [symmetric] distinct_drop)
next
  case (listen st st')
  with run_post_after [OF listener_core [OF refl]] show ?case by metis
qed

section \<open>The abstract registry\<close>

text \<open>
  What the manager promises its callers: a registry that maps the uuid of a known process to
  whether it is expected to run.
\<close>

type_synonym registry = "string \<rightharpoonup> bool"

definition registry_of :: "proc_mgr \<Rightarrow> registry" where
  "registry_of st = map_of (core st)"

definition reg_add :: "string \<Rightarrow> bool \<Rightarrow> registry \<Rightarrow> registry" where
  "reg_add u keep r = (if u \<in> dom r then r else r(u \<mapsto> keep))"

definition reg_start :: "string \<Rightarrow> bool \<Rightarrow> registry \<Rightarrow> registry" where
  "reg_start u ok r = (if ok then r(u \<mapsto> True) else r)"

definition reg_remove :: "string \<Rightarrow> registry \<Rightarrow> registry" where
  "reg_remove u r = r(u := None)"

lemma map_of_filter_key: "map_of (filter (\<lambda>(u, _). u \<noteq> k) c) = (map_of c)(k := None)"
  by (induction c) (auto simp: fun_eq_iff)

lemma map_of_list_update:
  assumes "distinct (map fst c)" and "i < length c" and "fst (c ! i) = k"
  shows "map_of (c[i := (k, v)]) = (map_of c)(k \<mapsto> v)"
  using assms
proof (induction c arbitrary: i)
  case (Cons a c)
  show ?case
  proof (cases i)
    case 0
    with Cons.prems show ?thesis by (auto simp: fun_eq_iff)
  next
    case (Suc j)
    with Cons.prems have "k \<in> fst ` set c" by (metis Suc_less_eq image_eqI length_Cons nth_Cons_Suc nth_mem)
    moreover have "fst a \<notin> fst ` set c" using Cons.prems(1) by simp
    ultimately have "fst a \<noteq> k" by blast
    with Suc Cons show ?thesis by (auto simp: fun_eq_iff)
  qed
qed simp

lemma dom_registry: "dom (registry_of st) = pa_uuid ` set (m_instances st)"
  by (simp add: registry_of_def dom_map_of_conv_image_fst core_def image_image)

lemma registry_add:
  "registry_of (snd (add_process env u d f k st)) = reg_add u k (registry_of st)"
proof (cases "u \<in> dom (registry_of st)")
  case True
  then show ?thesis by (simp add: dom_registry add_process_def reg_add_def)
next
  case False
  have "core (snd (add_process env u d f k st)) = core st @ [(u, k)]"
    using False by (simp add: dom_registry add_process_def Let_def core_def emit_def)
  then show ?thesis using False
    by (auto simp: registry_of_def reg_add_def map_add_def fun_eq_iff split: option.splits)
qed

lemma registry_start:
  assumes "distinct (map fst (core st))" and "start_process env u st = Fin st' ok"
  shows "registry_of st' = reg_start u ok (registry_of st) \<and> (ok \<longrightarrow> u \<in> dom (registry_of st))"
proof -
  have *: "if ok then \<exists>i < length (core st). fst (core st ! i) = u \<and> core st' = (core st)[i := (u, True)]
      else core st' = core st"
    using start_process_core [OF refl, where env = env and uuid = u and st = st] assms(2) by simp
  show ?thesis
  proof (cases ok)
    case True
    with * obtain i where i: "i < length (core st)" "fst (core st ! i) = u" "core st' = (core st)[i := (u, True)]"
      by auto
    then have "u \<in> fst ` set (core st)" by (metis image_eqI nth_mem)
    then show ?thesis using i True map_of_list_update [OF assms(1) i(1,2)]
      by (simp add: reg_start_def registry_of_def dom_map_of_conv_image_fst)
  qed (use * in \<open>simp add: reg_start_def registry_of_def\<close>)
qed

lemma registry_gone:
  "remove_process env u st = Fin st' ok \<Longrightarrow> registry_of st' = reg_remove u (registry_of st)"
  "kill_process env u st = Fin st' True \<Longrightarrow> registry_of st' = reg_remove u (registry_of st)"
  using remove_process_core [OF refl, where env = env and uuid = u and st = st]
    kill_process_core [OF refl, where env = env and uuid = u and st = st]
  by (simp_all add: registry_of_def reg_remove_def map_of_filter_key)

lemma registry_listener:
  assumes "distinct (map fst (core st))" and "listener env st = Fin st' b"
  shows "registry_of st' = registry_of st"
  using listener_core [OF refl assms(1), of env] assms(2) by (simp add: registry_of_def)

section \<open>Restarting\<close>

lemma change_at_nth:
  "m_instances (change_at i f st) = (m_instances st)[i := f (m_instances st ! i)]"
  by (simp add: change_at_def)

lemma start_loop_found:
  assumes "distinct (uuids st)" and "i \<in> set is" and "\<forall>j \<in> set is. j < length (m_instances st)"
    and "\<not> running env st (m_instances st ! i)"
  shows "start_loop env (pa_uuid (m_instances st ! i)) is st = start_at env i st"
  using assms(2,3)
proof (induction "is")
  case (Cons j js)
  show ?case
  proof (cases "j = i")
    case True
    then show ?thesis using assms(4) by (simp add: Let_def)
  next
    case False
    with Cons.prems assms(1) have "pa_uuid (m_instances st ! j) \<noteq> pa_uuid (m_instances st ! i)"
      using nth_eq_iff_index_eq [OF assms(1), of j i] by (auto simp: uuids_def)
    with False Cons show ?thesis by (simp add: Let_def)
  qed
qed simp

text \<open>Launches and waits that do not throw, and readable statistics.\<close>

definition calm :: "pm_env \<Rightarrow> bool" where
  "calm env \<longleftrightarrow> (\<forall>t c d e. pe_spawn env t c d e \<noteq> None) \<and> (\<forall>t p. pe_wait env t p \<noteq> None) \<and>
     (\<forall>t p. \<exists>u. getCpuUsage (pe_ticks env) (pe_stat env t p) = Ret u) \<and>
     (\<forall>t p. \<exists>u. getMemoryUsage (pe_ticks env) (pe_stat env t p) = Ret u)"

text \<open>A launch or a reading touches one entry, never its uuid, and time goes on.\<close>

definition touches :: "nat \<Rightarrow> proc_mgr \<Rightarrow> proc_mgr \<Rightarrow> bool" where
  "touches i st st' \<longleftrightarrow> length (m_instances st') = length (m_instances st) \<and> uuids st' = uuids st \<and>
     pm_tick st \<le> pm_tick st' \<and> (\<forall>j. j \<noteq> i \<longrightarrow> m_instances st' ! j = m_instances st ! j)"

lemma start_at_calm:
  assumes "calm env" and "i < length (m_instances st)"
  obtains st' pid where "start_at env i st = Fin st' True" and "touches i st st'"
    and "pm_events st' = pm_events st @ [Spawn (pa_uuid (m_instances st ! i)) pid]"
    and "pa_instance (m_instances st' ! i) = pid"
proof -
  obtain pid where pid: "pe_spawn env (pm_tick st) (launch_cmd (m_instances st ! i)) (work_path (m_instances st ! i))
      (if pa_env (m_instances st ! i) = [] then None else Some (pa_env (m_instances st ! i))) = Some pid"
    using assms(1) unfolding calm_def by blast
  obtain b where b: "pe_wait env (Suc (pm_tick st)) pid = Some b"
    using assms(1) unfolding calm_def by (meson not_None_eq)
  have "\<exists>st'. start_at env i st = Fin st' True \<and> touches i st st' \<and>
      pm_events st' = pm_events st @ [Spawn (pa_uuid (m_instances st ! i)) pid] \<and> pa_instance (m_instances st' ! i) = pid"
    using pid b assms(2)
    by (cases "pa_env (m_instances st ! i) = []")
      (simp_all add: start_at_def launch_def wait_for_def Let_def change_at_def emit_def
        touches_def uuids_def map_update list_update_same_conv)
  with that show thesis by blast
qed

lemma touches_trans: "touches i st st' \<Longrightarrow> touches i st' st'' \<Longrightarrow> touches i st st''"
  by (simp add: touches_def)

lemma touches_change_at:
  assumes "\<And>p. pa_uuid (f p) = pa_uuid p"
  shows "touches i st (change_at i f st)"
  using assms by (cases "i < length (m_instances st)")
    (simp_all add: touches_def change_at_def uuids_def map_update list_update_same_conv list_update_beyond)

lemma usage_at_calm:
  assumes "calm env" and "i < length (m_instances st)"
  obtains st' where "usage_at env i st = Fin st' ()" and "touches i st st'" and "pm_events st' = pm_events st"
    and "pa_instance (m_instances st' ! i) = pa_instance (m_instances st ! i)"
proof -
  obtain u v where "getCpuUsage (pe_ticks env) (pe_stat env (pm_tick st) (pa_instance (m_instances st ! i))) = Ret u"
    and "getMemoryUsage (pe_ticks env) (pe_stat env (pm_tick st) (pa_instance (m_instances st ! i))) = Ret v"
    using assms(1) unfolding calm_def by blast
  then have "\<exists>st'. usage_at env i st = Fin st' () \<and> touches i st st' \<and> pm_events st' = pm_events st \<and>
      pa_instance (m_instances st' ! i) = pa_instance (m_instances st ! i)"
    using assms(2) by (simp add: usage_at_def Let_def change_at_def touches_def uuids_def map_update list_update_same_conv)
  with that show thesis by blast
qed

lemma restart_at_calm:
  assumes "calm env" and "i < length (m_instances st)" and "distinct (uuids st)"
    and "\<not> running env st (m_instances st ! i)"
  obtains st' pid where
    "start_process env (pa_uuid (m_instances st ! i)) (change_at i (\<lambda>p. p\<lparr>exception_flag := True\<rparr>) st) = Fin st' True"
    and "touches i st (change_at i (\<lambda>p. p\<lparr>reboot_count := reboot_count p + 1\<rparr>) st')"
    and "pm_events st' = pm_events st @ [Spawn (pa_uuid (m_instances st ! i)) pid]"
proof -
  define st1 where "st1 = change_at i (\<lambda>p. p\<lparr>exception_flag := True\<rparr>) st"
  have t: "touches i st st1" unfolding st1_def by (rule touches_change_at) simp
  have same: "pa_uuid (m_instances st1 ! i) = pa_uuid (m_instances st ! i)" "length (m_instances st1) = length (m_instances st)"
    "pm_events st1 = pm_events st" "\<not> running env st1 (m_instances st1 ! i)"
    using assms(2,4) by (simp_all add: st1_def change_at_def running_def)
  obtain st' pid where st': "start_at env i st1 = Fin st' True" "touches i st1 st'"
      "pm_events st' = pm_events st1 @ [Spawn (pa_uuid (m_instances st1 ! i)) pid]"
    using start_at_calm [OF assms(1), of i st1] assms(2) same(2) by metis
  have "start_loop env (pa_uuid (m_instances st1 ! i)) [0..<length (m_instances st1)] st1 = start_at env i st1"
    using assms(2,3) t same by (intro start_loop_found) (auto simp: touches_def)
  with st'(1) have start: "start_process env (pa_uuid (m_instances st ! i)) st1 = Fin st' True"
    by (simp add: start_process_def same(1))
  have t': "touches i st (change_at i (\<lambda>p. p\<lparr>reboot_count := reboot_count p + 1\<rparr>) st')"
    by (rule touches_trans [OF t], rule touches_trans [OF st'(2)], rule touches_change_at) simp
  have "pm_events st' = pm_events st @ [Spawn (pa_uuid (m_instances st ! i)) pid]" using st'(3) same by simp
  from that [OF start [unfolded st1_def] t' this] show thesis .
qed

text \<open>Which entries of the table are due for a restart.\<close>

definition due :: "pm_env \<Rightarrow> proc_mgr \<Rightarrow> ProcessAttribute \<Rightarrow> bool" where
  "due env st p \<longleftrightarrow> \<not> running env st p \<and> except_runnig p"

definition steady :: "pm_env \<Rightarrow> proc_mgr \<Rightarrow> bool" where
  "steady env st \<longleftrightarrow> (\<forall>p \<in> set (m_instances st). \<forall>t. pm_tick st \<le> t \<longrightarrow>
     pe_alive env t (pa_instance p) = pe_alive env (pm_tick st) (pa_instance p))"

lemma listener_loop_calm:
  assumes "calm env" and "steady env st0" and "distinct (uuids st0)" and "n = length (m_instances st0)"
    and "length (m_instances st) = n" and "uuids st = uuids st0" and "pm_tick st0 \<le> pm_tick st"
    and "\<forall>j. k \<le> j \<and> j < n \<longrightarrow> m_instances st ! j = m_instances st0 ! j" and "k \<le> n"
  shows "\<exists>st' b pids. listener_loop env [k..<n] exc st = Fin st' b \<and>
    pm_events st' = pm_events st @ map2 Spawn (map pa_uuid (filter (due env st0) (drop k (m_instances st0)))) pids \<and>
    length pids = length (filter (due env st0) (drop k (m_instances st0))) \<and>
    (\<forall>j < n. j < k \<or> \<not> due env st0 (m_instances st0 ! j) \<longrightarrow>
       pa_instance (m_instances st' ! j) = pa_instance (m_instances st ! j))"
  using assms(5-9)
proof (induction "n - k" arbitrary: k st exc)
  case 0
  then have "[k..<n] = []" and "drop k (m_instances st0) = []" using assms(4) by simp_all
  then show ?case by (simp only: listener_loop.simps) simp
next
  case (Suc m)
  then have k: "k < n" by simp
  let ?p = "m_instances st ! k"
  have m: "m = n - Suc k" and sk: "Suc k \<le> n" using Suc.hyps(2) k by simp_all
  have kl: "k < length (m_instances st)" and dis: "distinct (uuids st)" using k Suc.prems(1,2) assms(3) by simp_all
  have up: "[k..<n] = k # [Suc k..<n]" using k by (rule upt_conv_Cons)
  have p1: "?p = m_instances st0 ! k" using k Suc.prems(4) by blast
  have "drop k (m_instances st0) = ?p # drop (Suc k) (m_instances st0)"
    unfolding p1 using k assms(4) Cons_nth_drop_Suc [of k "m_instances st0"] by metis
  note p = p1 this
  have "?p \<in> set (m_instances st0)" unfolding p1 using k assms(4) by simp
  then have "pe_alive env (pm_tick st) (pa_instance ?p) = pe_alive env (pm_tick st0) (pa_instance ?p)"
    using assms(2) Suc.prems(3) unfolding steady_def by blast
  then have run: "running env st ?p = running env st0 ?p" by (simp only: running_def)
  have next_ok: "length (m_instances s) = n" "uuids s = uuids st0" "pm_tick st0 \<le> pm_tick s"
      "\<forall>j. Suc k \<le> j \<and> j < n \<longrightarrow> m_instances s ! j = m_instances st0 ! j" if "touches k st s" for s
    using that Suc.prems(1-4) unfolding touches_def by auto
  show ?case
  proof (cases "due env st0 ?p")
    case True
    then have dead: "\<not> running env st ?p" "except_runnig ?p" using run by (simp_all add: due_def)
    obtain st' pid where st': "start_process env (pa_uuid ?p) (change_at k (\<lambda>p. p\<lparr>exception_flag := True\<rparr>) st) = Fin st' True"
      "touches k st (change_at k (\<lambda>p. p\<lparr>reboot_count := reboot_count p + 1\<rparr>) st')"
      "pm_events st' = pm_events st @ [Spawn (pa_uuid ?p) pid]"
      by (rule restart_at_calm [OF assms(1) kl dis dead(1)])
    define st2 where "st2 = change_at k (\<lambda>p. p\<lparr>reboot_count := reboot_count p + 1\<rparr>) st'"
    have t: "touches k st st2" and ev: "pm_events st2 = pm_events st @ [Spawn (pa_uuid ?p) pid]"
      using st' by (simp_all add: st2_def change_at_def)
    obtain st3 b pids where IH: "listener_loop env [Suc k..<n] True st2 = Fin st3 b"
      "pm_events st3 = pm_events st2 @ map2 Spawn (map pa_uuid (filter (due env st0) (drop (Suc k) (m_instances st0)))) pids"
      "length pids = length (filter (due env st0) (drop (Suc k) (m_instances st0)))"
      "\<forall>j < n. j < Suc k \<or> \<not> due env st0 (m_instances st0 ! j) \<longrightarrow>
         pa_instance (m_instances st3 ! j) = pa_instance (m_instances st2 ! j)"
      using Suc.hyps(1) [OF m next_ok [OF t] sk, of True] by blast
    have "listener_loop env [k..<n] exc st = Fin st3 b"
      using dead st'(1) IH(1) unfolding up by (simp add: Let_def st2_def)
    moreover have "\<forall>j < n. j < k \<or> \<not> due env st0 (m_instances st0 ! j) \<longrightarrow>
         pa_instance (m_instances st3 ! j) = pa_instance (m_instances st ! j)"
      using IH(4) t True p(1) by (auto simp: touches_def)
    ultimately show ?thesis using True IH(2,3) ev p(2) by (intro exI [of _ st3] exI [of _ b] exI [of _ "pid # pids"]) simp
  next
    case False
    then have alive: "\<not> (\<not> running env st ?p \<and> except_runnig ?p)" using run by (simp add: due_def)
    obtain st2 where st2: "usage_at env k st = Fin st2 ()" "touches k st st2" "pm_events st2 = pm_events st"
      "pa_instance (m_instances st2 ! k) = pa_instance ?p"
      by (rule usage_at_calm [OF assms(1) kl])
    obtain st3 b pids where IH: "listener_loop env [Suc k..<n] False st2 = Fin st3 b"
      "pm_events st3 = pm_events st2 @ map2 Spawn (map pa_uuid (filter (due env st0) (drop (Suc k) (m_instances st0)))) pids"
      "length pids = length (filter (due env st0) (drop (Suc k) (m_instances st0)))"
      "\<forall>j < n. j < Suc k \<or> \<not> due env st0 (m_instances st0 ! j) \<longrightarrow>
         pa_instance (m_instances st3 ! j) = pa_instance (m_instances st2 ! j)"
      using Suc.hyps(1) [OF m next_ok [OF st2(2)] sk, of False] by blast
    have "listener_loop env [k..<n] exc st = Fin st3 b"
      using st2(1) IH(1) unfolding up listener_loop.simps Let_def if_not_P [OF alive] by simp
    moreover have "\<forall>j < n. j < k \<or> \<not> due env st0 (m_instances st0 ! j) \<longrightarrow>
         pa_instance (m_instances st3 ! j) = pa_instance (m_instances st ! j)"
      using IH(4) st2(2,4) by (auto simp: touches_def)
    ultimately show ?thesis using False IH(2,3) st2(3) p(2) by (intro exI [of _ st3] exI [of _ b] exI [of _ pids]) simp
  qed
qed

section \<open>Properties\<close>

text \<open>
  C19. In every state the manager can get into, whatever calls are made in whatever order and
  whatever the operating system does, the uuids of its table are pairwise different.
\<close>

theorem uuids_unique:
  assumes "pm_reachable env st"
  shows "distinct (uuids st)"
  using assms unfolding uuids_core
proof (induction rule: pm_reachable.induct)
  case (init st)
  then show ?case by (simp add: core_def)
next
  case (step st st')
  then show ?case by (blast intro: pm_step_distinct)
qed

definition demo_pm_env :: pm_env where
  "demo_pm_env = \<lparr>pe_spawn = (\<lambda>t c d e. Some (100 + int t)), pe_alive = (\<lambda>t p. False), pe_wait = (\<lambda>t p. Some True),
     pe_terminate = (\<lambda>t p. True), pe_time = int, pe_stat = (\<lambda>t p. None), pe_ticks = 100, pe_environ = []\<rparr>"

definition demo_pm :: proc_mgr where
  "demo_pm = \<lparr>m_instances = [], pm_events = [], pm_tick = 0\<rparr>"

definition demo_pm2 :: proc_mgr where
  "demo_pm2 = snd (add_process demo_pm_env ''d b'' ''d'' ''b '' False (snd (add_process demo_pm_env ''d a'' ''d'' ''a '' True demo_pm)))"

lemma demo_pm2_instances:
  "uuids demo_pm2 = [''d a'', ''d b'']" "map except_runnig (m_instances demo_pm2) = [True, False]"
  "map pa_instance (m_instances demo_pm2) = [-1, -1]"
  by (simp_all add: demo_pm2_def demo_pm_def add_process_def Let_def emit_def uuids_def)

theorem uuids_unique_witness: "pm_reachable demo_pm_env demo_pm2 \<and> distinct (uuids demo_pm2)"
proof -
  have "pm_reachable demo_pm_env demo_pm2"
    unfolding demo_pm2_def
    by (intro pm_reachable.step [OF _ pm_step.add] pm_reachable.init) (simp add: demo_pm_def)
  with uuids_unique [OF this] show ?thesis by simp
qed

text \<open>
  C20. One round of \<open>listener\<close>, while launches work and no process of the table dies or comes back:
  it starts exactly the processes that are expected to run and do not, each once and in the order
  of the table, and leaves the others alone.
\<close>

theorem listener_restarts_dead:
  assumes "calm env" and "steady env st" and "distinct (uuids st)"
  shows "\<exists>st' b pids. listener env st = Fin st' b \<and>
    pm_events st' = pm_events st @ map2 Spawn (map pa_uuid (filter (due env st) (m_instances st))) pids \<and>
    length pids = length (filter (due env st) (m_instances st)) \<and>
    (\<forall>j < length (m_instances st). \<not> due env st (m_instances st ! j) \<longrightarrow>
       pa_instance (m_instances st' ! j) = pa_instance (m_instances st ! j))"
  using listener_loop_calm [OF assms refl, of st 0 False] by (simp add: listener_def)

lemma demo_calm: "calm demo_pm_env" "steady demo_pm_env st"
  by (simp_all add: calm_def steady_def demo_pm_env_def getCpuUsage_def getMemoryUsage_def)

theorem listener_restarts_dead_witness:
  "\<exists>st' b pids. listener demo_pm_env demo_pm2 = Fin st' b \<and>
     pm_events st' = pm_events demo_pm2 @ map2 Spawn [''d a''] pids \<and> length pids = 1"
proof -
  have "filter (due demo_pm_env demo_pm2) (m_instances demo_pm2) = [hd (m_instances demo_pm2)]"
    and "pa_uuid (hd (m_instances demo_pm2)) = ''d a''"
    by (simp_all add: demo_pm2_def demo_pm_def add_process_def Let_def emit_def due_def running_def)
  then show ?thesis
    using listener_restarts_dead [OF demo_calm, of demo_pm2] by (auto simp: demo_pm2_instances)
qed

section \<open>Stopping\<close>

lemma kill_at_calm:
  assumes "\<forall>t p. pe_wait env t p = Some True" and "\<forall>t p. pe_terminate env t p"
  shows "\<exists>st'. kill_at env i st = Fin st' () \<and> m_instances st' = m_instances st"
  using assms by (simp add: kill_at_def terminate_def wait_for_def emit_def Let_def)

lemma filter_other_keys:
  assumes "distinct (map f xs)" and "i < length xs"
  shows "filter (\<lambda>x. f x \<noteq> f (xs ! i)) xs = take i xs @ drop (Suc i) xs"
proof -
  have xs: "xs = take i xs @ xs ! i # drop (Suc i) xs" using assms(2) by (rule id_take_nth_drop)
  have "f x \<noteq> f (xs ! i)" if "x \<in> set (take i xs) \<union> set (drop (Suc i) xs)" for x
  proof -
    from assms(1) have "distinct (map f (take i xs @ xs ! i # drop (Suc i) xs))" using xs by simp
    with that show ?thesis by auto (metis image_eqI)+
  qed
  then have "filter (\<lambda>x. f x \<noteq> f (xs ! i)) (take i xs @ xs ! i # drop (Suc i) xs) = take i xs @ drop (Suc i) xs"
    by (simp add: filter_id_conv)
  then show ?thesis using xs by simp
qed

lemma kill_loop_skip:
  assumes "k \<le> i" and "i < n" and "n \<le> length (m_instances st)"
    and "\<forall>j < i. pa_uuid (m_instances st ! j) \<noteq> u"
  shows "kill_loop env u [k..<n] st = kill_loop env u [i..<n] st"
  using assms(1)
proof (induction "i - k" arbitrary: k)
  case (Suc m)
  then have "[k..<n] = k # [Suc k..<n]" using assms(2) by (intro upt_conv_Cons) simp
  then show ?case using Suc assms(2-4) by simp
qed simp

lemma kill_loop_past:
  assumes "u \<notin> pa_uuid ` set (m_instances st)" and "length (m_instances st) < n" and "k < n"
  shows "kill_loop env u [k..<n] st = Crash ''destroyed element of m_instances''"
  using assms(3)
proof (induction "n - k" arbitrary: k)
  case (Suc m)
  have up: "[k..<n] = k # [Suc k..<n]" using Suc.prems by (rule upt_conv_Cons)
  show ?case
  proof (cases "length (m_instances st) \<le> k")
    case False
    with assms(1) have "pa_uuid (m_instances st ! k) \<noteq> u" by (metis image_eqI not_le nth_mem)
    with False Suc assms(2) show ?thesis unfolding up by simp
  qed (simp add: up)
qed simp

lemma start_unknown:
  assumes "u \<notin> pa_uuid ` set (m_instances st)"
  shows "start_process env u st = Fin st False"
proof -
  have "start_loop env u is st = Fin st False" if "\<forall>j \<in> set is. j < length (m_instances st)" for "is"
    using that assms by (induction "is") (auto simp: Let_def)
  then show ?thesis by (simp add: start_process_def)
qed

lemma start_process_finishes: "\<exists>st' ok. start_process env u st = Fin st' ok"
proof -
  have "(\<exists>s ok. start_loop env u is st = Fin s ok) \<or> (\<exists>s e. start_loop env u is st = Exc s e)" for "is"
    by (induction "is") (auto simp: Let_def start_at_def launch_def wait_for_def split: option.splits)
  then show ?thesis unfolding start_process_def by (metis catch_run.simps(1,2))
qed

text \<open>Where the statistics can be read the listener comes to an end.\<close>

lemma listener_finishes:
  assumes "calm env"
  shows "\<exists>st' b. listener env st = Fin st' b"
proof -
  have "\<exists>st'. usage_at env i s = Fin st' ()" for i s
  proof -
    obtain u v where "getCpuUsage (pe_ticks env) (pe_stat env (pm_tick s) (pa_instance (m_instances s ! i))) = Ret u"
      "getMemoryUsage (pe_ticks env) (pe_stat env (pm_tick s) (pa_instance (m_instances s ! i))) = Ret v"
      using assms unfolding calm_def by blast
    then show ?thesis by (simp add: usage_at_def Let_def)
  qed
  then have "\<exists>st' b. listener_loop env is exc s = Fin st' b" for "is" exc s
  proof (induction "is" arbitrary: exc s)
    case (Cons i "is")
    obtain s1 where s1: "usage_at env i s = Fin s1 ()" using Cons.prems by blast
    obtain s2 ok where s2: "start_process env (pa_uuid (m_instances s ! i)) (change_at i (\<lambda>p. p\<lparr>exception_flag := True\<rparr>) s) = Fin s2 ok"
      using start_process_finishes by blast
    show ?case unfolding listener_loop.simps Let_def s1 s2 bind_run.simps using Cons by simp
  qed simp
  then show ?thesis by (simp add: listener_def)
qed

text \<open>Nothing is launched but entries of the table.\<close>

definition spawned :: "os_event list \<Rightarrow> string set" where
  "spawned es = {u. \<exists>pid. Spawn u pid \<in> set es}"

lemma spawned_append [simp]: "spawned (es @ es') = spawned es \<union> spawned es'"
  by (auto simp: spawned_def)

lemma spawned_simps [simp]:
  "spawned [] = {}" "spawned [Spawn u pid] = {u}" "spawned [SigKill pid] = {}" "spawned [Terminate pid] = {}"
  by (auto simp: spawned_def)

definition launches_own :: "string list \<Rightarrow> string set \<Rightarrow> proc_mgr \<Rightarrow> bool" where
  "launches_own us old st \<longleftrightarrow> uuids st = us \<and> spawned (pm_events st) \<subseteq> old \<union> set us"

lemma launches_own_change:
  assumes "launches_own us old st" and "\<And>p. pa_uuid (f p) = pa_uuid p"
  shows "launches_own us old (change_at i f st)"
proof -
  have "uuids (change_at i f st) = uuids st"
    using assms(2) by (cases "i < length (m_instances st)")
      (simp_all add: uuids_def change_at_def list_update_beyond map_update list_update_same_conv)
  then show ?thesis using assms(1) by (simp add: launches_own_def change_at_def)
qed

lemma launches_own_launch:
  assumes "launches_own us old st" and "i < length us"
  shows "run_inv (launches_own us old) (launch env i st)"
proof -
  have "pa_uuid (m_instances st ! i) \<in> set us"
    using assms unfolding launches_own_def uuids_def by (metis length_map nth_map nth_mem)
  moreover have "launches_own us old (change_at i (\<lambda>p. p\<lparr>pa_instance := pid\<rparr>) (st\<lparr>pm_tick := t\<rparr>))" for pid t
    using assms(1) by (intro launches_own_change) (simp_all add: launches_own_def uuids_def)
  ultimately show ?thesis using assms(1)
    by (auto simp: launch_def Let_def emit_def launches_own_def uuids_def split: option.split)
qed

lemma launches_own_listener:
  assumes "listener env st = Fin st' b"
  shows "spawned (pm_events st') \<subseteq> spawned (pm_events st) \<union> set (uuids st)"
proof -
  let ?us = "uuids st" and ?old = "spawned (pm_events st)"
  let ?I = "launches_own ?us ?old"
  have wait: "run_inv ?I (wait_for env i s)" if "?I s" for i s
    using that by (auto simp: wait_for_def launches_own_def uuids_def split: option.split)
  have start_at: "run_inv ?I (start_at env i s)" if "?I s" "i < length ?us" for i s
    unfolding start_at_def using that
    by (intro run_post_bind [of "\<lambda>s _. ?I s"] launches_own_launch wait launches_own_change)
      (auto intro: launches_own_change)
  have start: "run_inv ?I (start_process env u s)" if "?I s" for u s
  proof -
    have "run_inv ?I (start_loop env u is s)" if "set is \<subseteq> {..<length ?us}" for "is"
      using that \<open>?I s\<close> by (induction "is") (auto simp: Let_def intro: start_at)
    moreover have "length (m_instances s) = length ?us" using that by (simp add: launches_own_def uuids_def) (metis length_map)
    ultimately show ?thesis unfolding start_process_def by (intro run_post_catch [of _ ?I]) (auto simp: lessThan_atLeast0)
  qed
  have usage: "run_inv ?I (usage_at env i s)" if "?I s" for i s
    using that by (auto simp: usage_at_def Let_def intro!: launches_own_change split: outcome.split)
  have "run_inv ?I (listener_loop env is exc s)" if "?I s" for "is" exc s
    using that
  proof (induction "is" arbitrary: exc s)
    case (Cons i "is")
    then show ?case
      by (auto simp: Let_def intro!: run_post_bind [of "\<lambda>s _. ?I s"] start usage launches_own_change Cons.IH)
  qed simp
  from this [of st "[0..<length (m_instances st)]" False] assms show ?thesis
    by (simp add: listener_def launches_own_def)
qed

lemma kill_launches_nothing:
  "spawned (pm_events st) = old \<Longrightarrow> run_inv (\<lambda>s. spawned (pm_events s) = old) (kill_process env u st)"
proof -
  let ?I = "\<lambda>s. spawned (pm_events s) = old"
  have at: "run_inv ?I (kill_at env i s)" if "?I s" for i s
    using that
    by (auto simp: kill_at_def terminate_def wait_for_def emit_def Let_def spawned_def split: option.split)
  have "run_inv ?I (kill_loop env u is s)" if "?I s" for "is" s
    using that
  proof (induction "is" arbitrary: s)
    case (Cons i "is")
    have "run_inv ?I (bind_run (kill_at env i s) (\<lambda>st _. kill_loop env u is (erase_uuid u st)))"
      by (rule run_post_bind [OF at [OF Cons.prems]], rule Cons.IH) (simp add: erase_uuid_def)
    then show ?case using Cons by simp
  qed simp
  then show "run_inv ?I (kill_process env u st)" if "?I st"
    unfolding kill_process_def using that by (intro run_post_catch [of _ ?I]) simp_all
qed

lemma kill_process_effect:
  assumes "distinct (uuids st)" and "i < length (m_instances st)" and "u = pa_uuid (m_instances st ! i)"
    and "\<forall>t p. pe_wait env t p = Some True" and "\<forall>t p. pe_terminate env t p"
  shows "if i = length (m_instances st) - 1
    then \<exists>st'. kill_process env u st = Fin st' True \<and> m_instances st' = butlast (m_instances st) \<and>
      start_process env u st' = Fin st' False
    else kill_process env u st = Crash ''destroyed element of m_instances''"
proof -
  let ?n = "length (m_instances st)"
  obtain st1 where st1: "kill_at env i st = Fin st1 ()" "m_instances st1 = m_instances st"
    using kill_at_calm [OF assms(4,5)] by blast
  define st2 where "st2 = erase_uuid u st1"
  have m2: "m_instances st2 = take i (m_instances st) @ drop (Suc i) (m_instances st)"
    using filter_other_keys [OF assms(1) [unfolded uuids_def] assms(2)] st1(2) by (simp add: st2_def erase_uuid_def assms(3))
  have gone: "u \<notin> pa_uuid ` set (m_instances st2)" by (auto simp: st2_def erase_uuid_def)
  have "\<forall>j < i. pa_uuid (m_instances st ! j) \<noteq> u"
    using assms(1-3) nth_eq_iff_index_eq [OF assms(1)] by (auto simp: uuids_def)
  then have "kill_loop env u [0..<?n] st = kill_loop env u [i..<?n] st" using assms(2) by (intro kill_loop_skip) auto
  also have "\<dots> = kill_loop env u [Suc i..<?n] st2"
    using assms(2,3) st1(1) by (simp add: upt_conv_Cons st2_def)
  finally have loop: "kill_process env u st = catch_run (kill_loop env u [Suc i..<?n] st2) (\<lambda>st e. Fin st False)"
    by (simp add: kill_process_def)
  show ?thesis
  proof (cases "i = ?n - 1")
    case True
    then have "m_instances st2 = butlast (m_instances st)" using m2 assms(2) by (simp add: butlast_conv_take)
    then show ?thesis using True loop start_unknown [OF gone] assms(2) by simp
  next
    case False
    have "kill_loop env u [Suc i..<?n] st2 = Crash ''destroyed element of m_instances''"
      using False assms(2) by (intro kill_loop_past [OF gone]) (simp_all add: m2)
    then show ?thesis using False loop by simp
  qed
qed

text \<open>
  Stopping a process that ends when it is told to: \<open>kill_process\<close> works when the process is
  the last one of the table, and then it also forgets it, so that it cannot be started again
  before it is added again; for any other process the loop runs on into a destroyed element.
\<close>

theorem kill_process_only_last:
  assumes "distinct (uuids st)" and "i < length (m_instances st)" and "u = pa_uuid (m_instances st ! i)"
    and "\<forall>t p. pe_wait env t p = Some True" and "\<forall>t p. pe_terminate env t p"
  shows "if i = length (m_instances st) - 1
    then \<exists>st'. kill_process env u st = Fin st' True \<and> m_instances st' = butlast (m_instances st) \<and>
      start_process env u st' = Fin st' False
    else kill_process env u st = Crash ''destroyed element of m_instances''"
  using assms by (rule kill_process_effect)

theorem kill_process_only_last_witness:
  "kill_process demo_pm_env ''d a'' demo_pm2 = Crash ''destroyed element of m_instances''"
proof -
  have "m_instances demo_pm2 \<noteq> []" "length (m_instances demo_pm2) = 2" "pa_uuid (m_instances demo_pm2 ! 0) = ''d a''"
    by (simp_all add: demo_pm2_def demo_pm_def add_process_def Let_def emit_def)
  moreover have "\<forall>t p. pe_wait demo_pm_env t p = Some True" "\<forall>t p. pe_terminate demo_pm_env t p"
    by (simp_all add: demo_pm_env_def)
  moreover have "distinct (uuids demo_pm2)" by (simp add: demo_pm2_instances)
  ultimately show ?thesis using kill_process_only_last [of demo_pm2 0 "''d a''" demo_pm_env] by simp
qed

text \<open>
  Killing a process that was added but never started: its process id is \<open>-1\<close>. When the wait
  for it runs out, the manager sends \<open>SIGKILL\<close> to process \<open>-1\<close>, that is to every process it may
  signal.
\<close>

theorem kill_unstarted_signals_all:
  assumes "m_instances st = ps @ [p]" and "pa_uuid p = u" and "u \<notin> pa_uuid ` set ps" and "pa_instance p = -1"
    and "\<forall>t. pe_wait env t (-1) = Some False"
  shows "\<exists>st'. kill_process env u st = Fin st' True \<and> pm_events st' = pm_events st @ [SigKill (-1)]"
proof -
  have "kill_loop env u [0..<length (m_instances st)] st = kill_loop env u [length ps..<Suc (length ps)] st"
    using assms(1,3) kill_loop_skip [of 0 "length ps" "length (m_instances st)" st u env]
    by (simp add: nth_append image_iff set_conv_nth del: upt_Suc) metis
  then show ?thesis using assms
    by (simp add: kill_process_def kill_at_def terminate_def running_def wait_for_def emit_def erase_uuid_def Let_def nth_append)
qed

theorem kill_unstarted_signals_all_witness:
  "\<exists>st'. kill_process (demo_pm_env\<lparr>pe_wait := \<lambda>t p. Some False\<rparr>) ''d a'' (snd (add_process demo_pm_env ''d a'' ''d'' ''a '' True demo_pm))
     = Fin st' True \<and> SigKill (-1) \<in> set (pm_events st')"
proof -
  let ?st = "snd (add_process demo_pm_env ''d a'' ''d'' ''a '' True demo_pm)"
  obtain p where p: "m_instances ?st = [] @ [p]" "pa_uuid p = ''d a''" "pa_instance p = -1"
    by (simp add: demo_pm_def add_process_def Let_def emit_def)
  then show ?thesis
    using kill_unstarted_signals_all [OF p(1,2) _ p(3), of "demo_pm_env\<lparr>pe_wait := \<lambda>t p. Some False\<rparr>"] by auto
qed

section \<open>The refinement\<close>

text \<open>Every operation but the killing of an entry before the last, and the listener, comes to an end.\<close>

definition ends :: "(proc_mgr, 'a) run \<Rightarrow> bool" where
  "ends m \<longleftrightarrow> (\<exists>s x. m = Fin s x) \<or> (\<exists>s e. m = Exc s e)"

lemma ends_simps [simp]: "ends (Fin s x)" "ends (Exc s e)" "\<not> ends (Crash e)" "\<not> ends Hang"
  by (simp_all add: ends_def)

lemma ends_bind: "ends m \<Longrightarrow> (\<And>s x. ends (f s x)) \<Longrightarrow> ends (bind_run m f)"
  by (cases m) auto

lemma ends_steps: "ends (launch env i st)" "ends (wait_for env i st)" "ends (terminate env i st)"
  by (simp_all add: launch_def wait_for_def terminate_def Let_def split: option.split)

lemma ends_kill_at: "ends (kill_at env i st)"
  unfolding kill_at_def Let_def by (intro ends_bind ends_steps) auto

lemma ends_reboot_at: "ends (reboot_at env i st)"
  unfolding reboot_at_def by (intro ends_bind ends_steps) auto

lemma ends_caught: "ends m \<Longrightarrow> \<exists>s x. catch_run m (\<lambda>st e. Fin st v) = Fin s x"
  by (auto simp: ends_def)

lemma ends_all: "\<exists>st' x. start_all_process env st = Fin st' x" "\<exists>st' x. reboot_all_process env st = Fin st' x"
    "\<exists>st' x. reboot_process env u st = Fin st' x" "\<exists>st' x. kill_all_process env st = Fin st' x"
proof -
  have "ends (start_all_loop env is st)" for "is" st
    by (induction "is" arbitrary: st) (auto intro!: ends_bind ends_steps)
  then show "\<exists>st' x. start_all_process env st = Fin st' x"
    unfolding start_all_process_def by (rule ends_caught)
  have "ends (reboot_all_loop env is st)" for "is" st
    by (induction "is" arbitrary: st) (auto intro!: ends_bind ends_reboot_at)
  then show "\<exists>st' x. reboot_all_process env st = Fin st' x"
    unfolding reboot_all_process_def by (rule ends_caught)
  have "ends (reboot_loop env u is st)" for "is" st
    by (induction "is" arbitrary: st) (auto simp: Let_def intro!: ends_bind ends_reboot_at)
  then show "\<exists>st' x. reboot_process env u st = Fin st' x"
    unfolding reboot_process_def by (rule ends_caught)
  have "ends (kill_all_loop env n st)" for n st
    by (induction n arbitrary: st) (auto intro!: ends_bind ends_kill_at)
  then show "\<exists>st' x. kill_all_process env st = Fin st' x"
    unfolding kill_all_process_def by (rule ends_caught)
qed

lemma keeps_registry:
  "\<exists>st' x. m = Fin st' x \<Longrightarrow> run_inv (\<lambda>s. core s = core st) m \<Longrightarrow> \<exists>st' x. m = Fin st' x \<and> registry_of st' = registry_of st"
  by (auto simp: registry_of_def)

lemma kill_process_ends:
  assumes "u \<notin> set (butlast (uuids st))"
  shows "\<exists>st' ok. kill_process env u st = Fin st' ok"
proof -
  let ?n = "length (m_instances st)"
  have skip: "pa_uuid (m_instances st ! j) \<noteq> u" if "Suc j < ?n" for j
  proof -
    have "butlast (uuids st) ! j = pa_uuid (m_instances st ! j)" "j < length (butlast (uuids st))"
      using that by (simp_all add: uuids_def nth_butlast)
    then show ?thesis using assms by (metis nth_mem)
  qed
  have "ends (kill_loop env u [0..<?n] st)"
  proof (cases ?n)
    case (Suc m)
    have "kill_loop env u [0..<?n] st = kill_loop env u [m..<?n] st"
      by (rule kill_loop_skip) (use Suc skip in simp_all)
    also have "[m..<?n] = [m]" using Suc by simp
    finally show ?thesis using Suc by (auto intro!: ends_bind ends_kill_at)
  qed simp
  then show ?thesis unfolding kill_process_def by (rule ends_caught)
qed

lemma kill_all_clears:
  assumes "kill_all_process env st = Fin st' True"
  shows "m_instances st' = []"
proof -
  have same: "length (m_instances s') = length (m_instances s)" if "kill_at env i s = Fin s' ()" for i s s'
    using kill_at_core [OF refl, of s env i] that by simp (metis core_def length_map)
  have "m_instances s' = []" if "kill_all_loop env n s = Fin s' b" "length (m_instances s) = n" for n s s' b
    using that
  proof (induction n arbitrary: s)
    case (Suc n)
    then obtain s1 where s1: "kill_at env 0 s = Fin s1 ()" "kill_all_loop env n (s1\<lparr>m_instances := tl (m_instances s1)\<rparr>) = Fin s' b"
      by (auto simp: bind_run_Fin_iff)
    from Suc.IH [OF s1(2)] same [OF s1(1)] Suc.prems(2) show ?case by simp
  qed simp
  moreover have "kill_all_loop env (length (m_instances st)) st = Fin st' True"
    using assms unfolding kill_all_process_def
    by (cases "kill_all_loop env (length (m_instances st)) st") simp_all
  ultimately show ?thesis by blast
qed

text \<open>
  C18. The table implements the registry, whatever the operating system answers. Adding always ends and does what
  \<open>reg_add\<close> does; starting always ends, does what \<open>reg_start\<close> does, and starts nothing that is unknown;
  starting all and restarting always end and change nothing; killing all always ends, has taken the first entries
  of the table away, and all of them when it reports success. Killing or removing an unknown process or the last
  one of the table always ends; removing then does what \<open>reg_remove\<close> does, and killing does unless it fails and
  leaves the registry as it was. Killing any other process, or a listener that cannot read the statistics,
  may end in no state; in every state that the listener leaves behind the registry is as before.
\<close>

theorem table_refines_registry:
  assumes "distinct (uuids st)"
  shows "registry_of (snd (add_process env u d f k st)) = reg_add u k (registry_of st) \<and>
    (\<exists>st' ok. start_process env u st = Fin st' ok \<and> registry_of st' = reg_start u ok (registry_of st) \<and> ok \<le> (u \<in> dom (registry_of st))) \<and>
    (\<exists>st'. start_all_process env st = Fin st' () \<and> registry_of st' = registry_of st) \<and>
    (\<exists>st' ok. reboot_process env u st = Fin st' ok \<and> registry_of st' = registry_of st) \<and>
    (\<exists>st' ok. reboot_all_process env st = Fin st' ok \<and> registry_of st' = registry_of st) \<and>
    (\<exists>st' ok n. kill_all_process env st = Fin st' ok \<and> registry_of st' = (if ok then Map.empty else map_of (drop n (core st)))) \<and>
    (u \<notin> set (butlast (uuids st)) \<longrightarrow>
       (\<exists>st' ok. kill_process env u st = Fin st' ok \<and>
          (registry_of st' = reg_remove u (registry_of st) \<or> ok = False \<and> registry_of st' = registry_of st)) \<and>
       (\<exists>st'. remove_process env u st = Fin st' True \<and> registry_of st' = reg_remove u (registry_of st))) \<and>
    (\<forall>st'. after (listener env st) st' \<longrightarrow> registry_of st' = registry_of st)"
proof (intro conjI allI impI)
  note d = assms [unfolded uuids_core]
  show "registry_of (snd (add_process env u d f k st)) = reg_add u k (registry_of st)" by (rule registry_add)
  show "\<exists>st' ok. start_process env u st = Fin st' ok \<and> registry_of st' = reg_start u ok (registry_of st) \<and> ok \<le> (u \<in> dom (registry_of st))"
    using start_process_finishes [of env u st] registry_start [OF d] by fastforce
  show "\<exists>st'. start_all_process env st = Fin st' () \<and> registry_of st' = registry_of st"
    using keeps_registry [OF ends_all(1) start_all_core [OF refl]] by simp
  show "\<exists>st' ok. reboot_process env u st = Fin st' ok \<and> registry_of st' = registry_of st"
    by (rule keeps_registry [OF ends_all(3) reboot_core [OF refl]])
  show "\<exists>st' ok. reboot_all_process env st = Fin st' ok \<and> registry_of st' = registry_of st"
    by (rule keeps_registry [OF ends_all(2) reboot_all_core [OF refl]])
  show "\<exists>st' ok n. kill_all_process env st = Fin st' ok \<and> registry_of st' = (if ok then Map.empty else map_of (drop n (core st)))"
  proof -
    obtain st' ok where k: "kill_all_process env st = Fin st' ok" using ends_all(4) by blast
    with kill_all_core [OF refl, of st env] obtain n where "core st' = drop n (core st)" by auto
    with k kill_all_clears [of env st st'] show ?thesis
      by (cases ok) (auto simp: registry_of_def core_def)
  qed
  show "\<exists>st' ok. kill_process env u st = Fin st' ok \<and>
      (registry_of st' = reg_remove u (registry_of st) \<or> ok = False \<and> registry_of st' = registry_of st)"
    "\<exists>st'. remove_process env u st = Fin st' True \<and> registry_of st' = reg_remove u (registry_of st)"
    if last_or_new: "u \<notin> set (butlast (uuids st))"
  proof -
    obtain st' ok where k: "kill_process env u st = Fin st' ok" using kill_process_ends [OF last_or_new] by blast
    with kill_process_core [OF refl, where env = env and uuid = u and st = st]
    show "\<exists>st' ok. kill_process env u st = Fin st' ok \<and>
        (registry_of st' = reg_remove u (registry_of st) \<or> ok = False \<and> registry_of st' = registry_of st)"
      by (auto simp: registry_of_def reg_remove_def map_of_filter_key split: if_splits)
    from k have "remove_process env u st = Fin (erase_uuid u st') True" by (simp add: remove_process_def)
    then show "\<exists>st'. remove_process env u st = Fin st' True \<and> registry_of st' = reg_remove u (registry_of st)"
      using registry_gone(1) by blast
  qed
  show "registry_of st' = registry_of st" if "after (listener env st) st'" for st'
    using run_post_after [OF listener_core [OF refl d] that] by (simp add: registry_of_def)
qed

theorem table_refines_registry_witness:
  "registry_of (snd (add_process demo_pm_env ''d c'' ''d'' ''c '' True demo_pm2)) = reg_add ''d c'' True (registry_of demo_pm2)
    \<and> (\<exists>st' ok. start_process demo_pm_env ''d b'' demo_pm2 = Fin st' ok \<and> registry_of st' = reg_start ''d b'' ok (registry_of demo_pm2))
    \<and> (\<exists>st'. start_all_process demo_pm_env demo_pm2 = Fin st' () \<and> registry_of st' = registry_of demo_pm2)
    \<and> (\<exists>st' ok. reboot_process demo_pm_env ''d b'' demo_pm2 = Fin st' ok \<and> registry_of st' = registry_of demo_pm2)
    \<and> (\<exists>st' ok n. kill_all_process demo_pm_env demo_pm2 = Fin st' ok
        \<and> registry_of st' = (if ok then Map.empty else map_of (drop n (core demo_pm2))))
    \<and> (\<exists>st' ok. kill_process demo_pm_env ''d b'' demo_pm2 = Fin st' ok)
    \<and> (\<exists>st'. remove_process demo_pm_env ''d b'' demo_pm2 = Fin st' True \<and> registry_of st' = reg_remove ''d b'' (registry_of demo_pm2))
    \<and> (\<exists>st'. after (listener demo_pm_env demo_pm2) st' \<and> registry_of st' = registry_of demo_pm2)"
proof -
  have d: "distinct (uuids demo_pm2)" and l: "''d b'' \<notin> set (butlast (uuids demo_pm2))" by (simp_all add: demo_pm2_instances)
  obtain st' b where "listener demo_pm_env demo_pm2 = Fin st' b" using listener_finishes [OF demo_calm(1)] by blast
  then have "after (listener demo_pm_env demo_pm2) st'" by (simp add: after_def)
  note t = table_refines_registry [OF d, of demo_pm_env "''d b''"]
  note c = t [THEN conjunct2]
  note c2 = c [THEN conjunct2] and c3 = c [THEN conjunct2, THEN conjunct2]
  note c4 = c3 [THEN conjunct2] and c5 = c3 [THEN conjunct2, THEN conjunct2]
  note kr = c5 [THEN conjunct2, THEN conjunct1, THEN mp, OF l]
  have "\<exists>st'. after (listener demo_pm_env demo_pm2) st' \<and> registry_of st' = registry_of demo_pm2"
    using c5 [THEN conjunct2, THEN conjunct2] \<open>after (listener demo_pm_env demo_pm2) st'\<close> by blast
  note kr' = conjI [OF kr [THEN conjunct2] this]
  have "\<exists>st' ok. kill_process demo_pm_env ''d b'' demo_pm2 = Fin st' ok" using kr [THEN conjunct1] by blast
  note k' = conjI [OF c3 [THEN conjunct1] conjI [OF c5 [THEN conjunct1] conjI [OF this kr']]]
  have "\<exists>st' ok. start_process demo_pm_env ''d b'' demo_pm2 = Fin st' ok \<and> registry_of st' = reg_start ''d b'' ok (registry_of demo_pm2)"
    using c [THEN conjunct1] by blast
  from conjI [OF this conjI [OF c2 [THEN conjunct1] k']]
  show ?thesis by (rule conjI [OF table_refines_registry [OF d, THEN conjunct1]])
qed

end
