(* ===== verification/Podman.thy ===== *)
theory Podman
  imports FileStore Commands
begin

text \<open>
  The container manager of \<open>node/src/PodmanManager.cpp\<close>: every operation is one HTTP request to the
  podman service, or one run of \<open>podman-compose\<close> with a compose file that the manager writes
  and removes.

  The HTTP client, the process launch and the JSON library (Poco) are parameters; the requests and
  the argument vectors are logged. \<open>Poco::Process::launch(command, args)\<close> runs the program with the
  argument vector \<open>command, args\<close>. The iteration order of a JSON object is the order of its members.
\<close>

section \<open>State and environment\<close>

record podman_env =
  pd_base :: string
  pd_http :: "string \<Rightarrow> string \<Rightarrow> string \<Rightarrow> string outcome"
  pd_compose :: "string list \<Rightarrow> (int \<times> string \<times> string) outcome"
  pd_json_text :: "json \<Rightarrow> string"
  pd_json_object :: "string \<Rightarrow> bool \<times> string + (string \<times> json) list"
  pd_var_text :: "json \<Rightarrow> string"

record podman =
  pd_disk :: fsys
  pd_requests :: "(string \<times> string \<times> string) list"
  pd_runs :: "string list list"

section \<open>The two ways to reach podman\<close>

definition executeRequest :: "podman_env \<Rightarrow> string \<Rightarrow> string \<Rightarrow> string \<Rightarrow> podman \<Rightarrow> (podman, string) run" where
  "executeRequest env endpoint method body st =
     (let st1 = st\<lparr>pd_requests := pd_requests st @ [(method, pd_base env @ endpoint, body)]\<rparr>
      in case pd_http env method (pd_base env @ endpoint) body of
           Ret r \<Rightarrow> Fin st1 r | Throw e \<Rightarrow> Exc st1 e | UB e \<Rightarrow> Crash e)"

definition getComposeFilePath :: "string \<Rightarrow> string" where
  "getComposeFilePath stackName = ''/path/to/compose/files/'' @ stackName @ ''.yml''"

definition compose_args :: "string list \<Rightarrow> string \<Rightarrow> string list" where
  "compose_args args stackName =
     [''podman-compose''] @ (if stackName \<noteq> [] then [''-f'', getComposeFilePath stackName] else []) @ args"

definition executePodmanCompose :: "podman_env \<Rightarrow> string list \<Rightarrow> string \<Rightarrow> podman \<Rightarrow> (podman, string) run" where
  "executePodmanCompose env args stackName st =
     (let argv = ''podman-compose'' # compose_args args stackName;
          st1 = st\<lparr>pd_runs := pd_runs st @ [argv]\<rparr>
      in case pd_compose env argv of
           Throw e \<Rightarrow> Exc st1 e
         | UB e \<Rightarrow> Crash e
         | Ret (exitCode, output, error) \<Rightarrow>
             if exitCode \<noteq> 0 then Exc st1 (''podman-compose command failed: '' @ error) else Fin st1 output)"

definition writeComposeFile :: "string \<Rightarrow> string \<Rightarrow> podman \<Rightarrow> (podman, unit) run" where
  "writeComposeFile stackName composeFile st =
     (let filePath = getComposeFilePath stackName
      in if can_open_out (pd_disk st) filePath
         then Fin (st\<lparr>pd_disk := put_file filePath composeFile (pd_disk st)\<rparr>) ()
         else Exc st (''Failed to open file for writing: '' @ filePath))"

text \<open>\<open>std::remove\<close> fails when there is nothing to remove, and for a directory that is not empty.\<close>

definition removeComposeFile :: "string \<Rightarrow> podman \<Rightarrow> (podman, unit) run" where
  "removeComposeFile stackName st =
     (let filePath = getComposeFilePath stackName; p = path_of (c_str filePath)
      in case node_at (pd_disk st) p of
           Some (FileN _) \<Rightarrow> Fin (st\<lparr>pd_disk := c_remove (c_str filePath) (pd_disk st)\<rparr>) ()
         | Some DirN \<Rightarrow>
             if children (pd_disk st) p = [] then Fin (st\<lparr>pd_disk := c_remove (c_str filePath) (pd_disk st)\<rparr>) ()
             else Exc st (''Failed to remove file: '' @ filePath)
         | None \<Rightarrow> Exc st (''Failed to remove file: '' @ filePath))"

text \<open>
  \<open>stringToJson\<close>: the parser gives an object, or an exception of which it is known whether it is a
  \<open>JSONException\<close>; either kind is wrapped.
\<close>

definition stringToJson :: "podman_env \<Rightarrow> string \<Rightarrow> (string \<times> json) list outcome" where
  "stringToJson env s = (case pd_json_object env s of
     Inr o' \<Rightarrow> Ret o'
   | Inl (True, e) \<Rightarrow> Throw (''JSON parsing error: '' @ e)
   | Inl (False, e) \<Rightarrow> Throw (''Error converting to json: '' @ e))"

definition jsonToString :: "podman_env \<Rightarrow> (string \<times> json) list \<Rightarrow> string" where
  "jsonToString env o' = pd_json_text env (JObj o')"

section \<open>Operations\<close>

definition listContainers :: "podman_env \<Rightarrow> bool \<Rightarrow> podman \<Rightarrow> (podman, string) run" where
  "listContainers env all = executeRequest env (''/libpod/containers/json?all='' @ (if all then ''true'' else ''false'')) ''GET'' []"

definition createContainer :: "podman_env \<Rightarrow> (string \<times> json) list \<Rightarrow> podman \<Rightarrow> (podman, string) run" where
  "createContainer env config = executeRequest env ''/libpod/containers/create'' ''POST'' (jsonToString env config)"

text \<open>\<open>start\<close>, \<open>stop\<close>, \<open>restart\<close>, \<open>pause\<close> and \<open>unpause\<close> of a container differ in the last word only.\<close>

definition containerAction :: "podman_env \<Rightarrow> string \<Rightarrow> string \<Rightarrow> podman \<Rightarrow> (podman, string) run" where
  "containerAction env action containerId = executeRequest env (''/libpod/containers/'' @ containerId @ ''/'' @ action) ''POST'' []"

definition startContainer :: "podman_env \<Rightarrow> string \<Rightarrow> podman \<Rightarrow> (podman, string) run" where
  "startContainer env = containerAction env ''start''"

definition stopContainer :: "podman_env \<Rightarrow> string \<Rightarrow> podman \<Rightarrow> (podman, string) run" where
  "stopContainer env = containerAction env ''stop''"

definition restartContainer :: "podman_env \<Rightarrow> string \<Rightarrow> podman \<Rightarrow> (podman, string) run" where
  "restartContainer env = containerAction env ''restart''"

definition pauseContainer :: "podman_env \<Rightarrow> string \<Rightarrow> podman \<Rightarrow> (podman, string) run" where
  "pauseContainer env = containerAction env ''pause''"

definition unpauseContainer :: "podman_env \<Rightarrow> string \<Rightarrow> podman \<Rightarrow> (podman, string) run" where
  "unpauseContainer env = containerAction env ''unpause''"

definition removeContainer :: "podman_env \<Rightarrow> string \<Rightarrow> podman \<Rightarrow> (podman, string) run" where
  "removeContainer env containerId = executeRequest env (''/libpod/containers/'' @ containerId) ''DELETE'' []"

definition inspectContainer :: "podman_env \<Rightarrow> string \<Rightarrow> podman \<Rightarrow> (podman, string) run" where
  "inspectContainer env containerId = executeRequest env (''/libpod/containers/'' @ containerId @ ''/json'') ''GET'' []"

definition execInContainer :: "podman_env \<Rightarrow> string \<Rightarrow> (string \<times> json) list \<Rightarrow> podman \<Rightarrow> (podman, string) run" where
  "execInContainer env containerId cfg = executeRequest env (''/libpod/containers/'' @ containerId @ ''/exec'') ''POST'' (jsonToString env cfg)"

definition listImages :: "podman_env \<Rightarrow> podman \<Rightarrow> (podman, string) run" where
  "listImages env = executeRequest env ''/libpod/images/json'' ''GET'' []"

definition pullImage :: "podman_env \<Rightarrow> string \<Rightarrow> string \<Rightarrow> string \<Rightarrow> podman \<Rightarrow> (podman, string) run" where
  "pullImage env imageName tag registry = executeRequest env ''/libpod/images/pull'' ''POST''
     (jsonToString env [(''reference'', JStr (registry @ ''/'' @ imageName @ '':'' @ tag))])"

definition removeImage :: "podman_env \<Rightarrow> string \<Rightarrow> podman \<Rightarrow> (podman, string) run" where
  "removeImage env imageId = executeRequest env (''/libpod/images/'' @ imageId) ''DELETE'' []"

definition inspectImage :: "podman_env \<Rightarrow> string \<Rightarrow> podman \<Rightarrow> (podman, string) run" where
  "inspectImage env imageId = executeRequest env (''/libpod/images/'' @ imageId @ ''/json'') ''GET'' []"

definition tagImage :: "podman_env \<Rightarrow> string \<Rightarrow> string \<Rightarrow> podman \<Rightarrow> (podman, string) run" where
  "tagImage env imageId newTag = executeRequest env (''/libpod/images/'' @ imageId @ ''/tag'') ''POST''
     (jsonToString env [(''tag'', JStr newTag)])"

definition listNetworks :: "podman_env \<Rightarrow> podman \<Rightarrow> (podman, string) run" where
  "listNetworks env = executeRequest env ''/libpod/networks'' ''GET'' []"

definition createNetwork :: "podman_env \<Rightarrow> (string \<times> json) list \<Rightarrow> podman \<Rightarrow> (podman, string) run" where
  "createNetwork env config = executeRequest env ''/libpod/networks/create'' ''POST'' (jsonToString env config)"

definition removeNetwork :: "podman_env \<Rightarrow> string \<Rightarrow> podman \<Rightarrow> (podman, string) run" where
  "removeNetwork env networkId = executeRequest env (''/libpod/networks/'' @ networkId) ''DELETE'' []"

definition inspectNetwork :: "podman_env \<Rightarrow> string \<Rightarrow> podman \<Rightarrow> (podman, string) run" where
  "inspectNetwork env networkId = executeRequest env (''/libpod/networks/'' @ networkId) ''GET'' []"

definition listVolumes :: "podman_env \<Rightarrow> podman \<Rightarrow> (podman, string) run" where
  "listVolumes env = executeRequest env ''/libpod/volumes'' ''GET'' []"

definition createVolume :: "podman_env \<Rightarrow> (string \<times> json) list \<Rightarrow> podman \<Rightarrow> (podman, string) run" where
  "createVolume env config = executeRequest env ''/libpod/volumes/create'' ''POST'' (jsonToString env config)"

definition removeVolume :: "podman_env \<Rightarrow> string \<Rightarrow> podman \<Rightarrow> (podman, string) run" where
  "removeVolume env volumeName = executeRequest env (''/libpod/volumes/'' @ volumeName) ''DELETE'' []"

definition inspectVolume :: "podman_env \<Rightarrow> string \<Rightarrow> podman \<Rightarrow> (podman, string) run" where
  "inspectVolume env volumeName = executeRequest env (''/libpod/volumes/'' @ volumeName) ''GET'' []"

definition listStacks :: "podman_env \<Rightarrow> podman \<Rightarrow> (podman, string) run" where
  "listStacks env = executePodmanCompose env [''ps'', ''--format'', ''json''] []"

text \<open>\<open>deployStack\<close> and \<open>updateStack\<close> have the same body.\<close>

definition deployStack :: "podman_env \<Rightarrow> string \<Rightarrow> string \<Rightarrow> podman \<Rightarrow> (podman, string) run" where
  "deployStack env stackName composeFile st =
     bind_run (writeComposeFile stackName composeFile st) (\<lambda>st _. executePodmanCompose env [''up'', ''-d''] stackName st)"

definition updateStack :: "podman_env \<Rightarrow> string \<Rightarrow> string \<Rightarrow> podman \<Rightarrow> (podman, string) run" where
  "updateStack = deployStack"

definition removeStack :: "podman_env \<Rightarrow> string \<Rightarrow> podman \<Rightarrow> (podman, string) run" where
  "removeStack env stackName st =
     bind_run (executePodmanCompose env [''down''] stackName st) (\<lambda>st result.
     bind_run (removeComposeFile stackName st) (\<lambda>st _. Fin st result))"

definition inspectStack :: "podman_env \<Rightarrow> string \<Rightarrow> podman \<Rightarrow> (podman, string) run" where
  "inspectStack env stackName = executePodmanCompose env [''ps'', ''--format'', ''json''] stackName"

text \<open>\<open>start\<close>, \<open>stop\<close>, \<open>restart\<close>, \<open>pause\<close>, \<open>unpause\<close> and \<open>logs\<close> of a stack differ in one word.\<close>

definition stackAction :: "podman_env \<Rightarrow> string \<Rightarrow> string \<Rightarrow> podman \<Rightarrow> (podman, string) run" where
  "stackAction env action stackName = executePodmanCompose env [action] stackName"

definition startStack :: "podman_env \<Rightarrow> string \<Rightarrow> podman \<Rightarrow> (podman, string) run" where
  "startStack env = stackAction env ''start''"

definition stopStack :: "podman_env \<Rightarrow> string \<Rightarrow> podman \<Rightarrow> (podman, string) run" where
  "stopStack env = stackAction env ''stop''"

definition restartStack :: "podman_env \<Rightarrow> string \<Rightarrow> podman \<Rightarrow> (podman, string) run" where
  "restartStack env = stackAction env ''restart''"

definition pauseStack :: "podman_env \<Rightarrow> string \<Rightarrow> podman \<Rightarrow> (podman, string) run" where
  "pauseStack env = stackAction env ''pause''"

definition unpauseStack :: "podman_env \<Rightarrow> string \<Rightarrow> podman \<Rightarrow> (podman, string) run" where
  "unpauseStack env = stackAction env ''unpause''"

definition getStackLogs :: "podman_env \<Rightarrow> string \<Rightarrow> podman \<Rightarrow> (podman, string) run" where
  "getStackLogs env = stackAction env ''logs''"

definition scaleStack :: "podman_env \<Rightarrow> string \<Rightarrow> (string \<times> json) list \<Rightarrow> podman \<Rightarrow> (podman, string) run" where
  "scaleStack env stackName cfg =
     executePodmanCompose env (''scale'' # map (\<lambda>(k, v). k @ ''='' @ pd_var_text env v) cfg) stackName"

definition listRegistries :: "podman_env \<Rightarrow> podman \<Rightarrow> (podman, string) run" where
  "listRegistries env = executeRequest env ''/libpod/registries'' ''GET'' []"

definition addRegistry :: "podman_env \<Rightarrow> string \<Rightarrow> podman \<Rightarrow> (podman, string) run" where
  "addRegistry env url = executeRequest env ''/libpod/registries'' ''POST'' (jsonToString env [(''url'', JStr url)])"

definition removeRegistry :: "podman_env \<Rightarrow> string \<Rightarrow> podman \<Rightarrow> (podman, string) run" where
  "removeRegistry env url = executeRequest env (''/libpod/registries/'' @ url) ''DELETE'' []"

definition loginRegistry :: "podman_env \<Rightarrow> string \<Rightarrow> string \<Rightarrow> string \<Rightarrow> podman \<Rightarrow> (podman, string) run" where
  "loginRegistry env url username password = executeRequest env ''/libpod/auth'' ''POST''
     (jsonToString env [(''url'', JStr url), (''username'', JStr username), (''password'', JStr password)])"

lemmas action_defs = startContainer_def stopContainer_def restartContainer_def pauseContainer_def unpauseContainer_def startStack_def 
  stopStack_def restartStack_def pauseStack_def unpauseStack_def getStackLogs_def updateStack_def

section \<open>Dispatch of a podman command\<close>

text \<open>
  The switch of \<open>NodeCmdWorker::worker\<close>; \<open>None\<close> is its default case. The five cases that parse
  \<open>paras_2\<close> do so first.
\<close>

definition with_json :: "podman_env \<Rightarrow> string \<Rightarrow> ((string \<times> json) list \<Rightarrow> podman \<Rightarrow> (podman, string) run)
    \<Rightarrow> podman \<Rightarrow> (podman, string) run" where
  "with_json env s f st = (case stringToJson env s of Ret o' \<Rightarrow> f o' st | Throw e \<Rightarrow> Exc st e | UB e \<Rightarrow> Crash e)"

definition podman_case :: "podman_env \<Rightarrow> NodeCmd \<Rightarrow> (podman \<Rightarrow> (podman, string) run) option" where
  "podman_case env c =
     (let p = nc_paras c; p1 = nc_paras_1 c; p2 = nc_paras_2 c
      in case nc_podman_cmd c of
        LIST_CONTAINERS \<Rightarrow> Some (listContainers env True)
      | CREATE_CONTAINER \<Rightarrow> Some (with_json env p2 (createContainer env))
      | START_CONTAINER \<Rightarrow> Some (startContainer env p)
      | STOP_CONTAINER \<Rightarrow> Some (stopContainer env p)
      | REMOVE_CONTAINER \<Rightarrow> Some (removeContainer env p)
      | INSPECT_CONTAINER \<Rightarrow> Some (inspectContainer env p)
      | RESTART_CONTAINER \<Rightarrow> Some (restartContainer env p)
      | PAUSE_CONTAINER \<Rightarrow> Some (pauseContainer env p)
      | UNPAUSE_CONTAINER \<Rightarrow> Some (unpauseContainer env p)
      | EXEC_IN_CONTAINER \<Rightarrow> Some (with_json env p2 (execInContainer env p))
      | LIST_IMAGES \<Rightarrow> Some (listImages env)
      | PULL_IMAGE \<Rightarrow> Some (pullImage env p p1 p2)
      | REMOVE_IMAGE \<Rightarrow> Some (removeImage env p)
      | INSPECT_IMAGE \<Rightarrow> Some (inspectImage env p)
      | TAG_IMAGE \<Rightarrow> Some (tagImage env p p1)
      | LIST_NETWORKS \<Rightarrow> Some (listNetworks env)
      | CREATE_NETWORK \<Rightarrow> Some (with_json env p2 (createNetwork env))
      | REMOVE_NETWORK \<Rightarrow> Some (removeNetwork env p)
      | INSPECT_NETWORK \<Rightarrow> Some (inspectNetwork env p)
      | LIST_VOLUMES \<Rightarrow> Some (listVolumes env)
      | CREATE_VOLUME \<Rightarrow> Some (with_json env p2 (createVolume env))
      | REMOVE_VOLUME \<Rightarrow> Some (removeVolume env p)
      | INSPECT_VOLUME \<Rightarrow> Some (inspectVolume env p)
      | LIST_STACKS \<Rightarrow> Some (listStacks env)
      | DEPLOY_STACK \<Rightarrow> Some (deployStack env p p1)
      | REMOVE_STACK \<Rightarrow> Some (removeStack env p)
      | INSPECT_STACK \<Rightarrow> Some (inspectStack env p)
      | UPDATE_STACK \<Rightarrow> Some (updateStack env p p1)
      | START_STACK \<Rightarrow> Some (startStack env p)
      | STOP_STACK \<Rightarrow> Some (stopStack env p)
      | RESTART_STACK \<Rightarrow> Some (restartStack env p)
      | PAUSE_STACK \<Rightarrow> Some (pauseStack env p)
      | UNPAUSE_STACK \<Rightarrow> Some (unpauseStack env p)
      | SCALE_STACK \<Rightarrow> Some (with_json env p2 (scaleStack env p))
      | GET_STACK_LOGS \<Rightarrow> Some (getStackLogs env p)
      | LIST_REGISTRIES \<Rightarrow> Some (listRegistries env)
      | ADD_REGISTRY \<Rightarrow> Some (addRegistry env p)
      | REMOVE_REGISTRY \<Rightarrow> Some (removeRegistry env p)
      | LOGIN_REGISTRY \<Rightarrow> Some (loginRegistry env p p1 p2)
      | PodmanOther _ \<Rightarrow> None)"

text \<open>The UTF-8 texts of the replies: unknown podman command, podman command failed.\<close>

definition unknown_podman_text :: string where
  "unknown_podman_text = [CHR 0xE6, CHR 0x9C, CHR 0xAA, CHR 0xE7, CHR 0x9F, CHR 0xA5, CHR 0xE7, CHR 0x9A, CHR 0x84]
     @ ''Podman'' @ [CHR 0xE5, CHR 0x91, CHR 0xBD, CHR 0xE4, CHR 0xBB, CHR 0xA4]"

definition failed_podman_text :: string where
  "failed_podman_text = ''Podman'' @ [CHR 0xE5, CHR 0x91, CHR 0xBD, CHR 0xE4, CHR 0xBB, CHR 0xA4, CHR 0xE6, CHR 0x89,
     CHR 0xA7, CHR 0xE8, CHR 0xA1, CHR 0x8C, CHR 0xE5, CHR 0xA4, CHR 0xB1, CHR 0xE8, CHR 0xB4, CHR 0xA5] @ '': ''"

text \<open>The inner \<open>try\<close> block: the status is set to success after the switch, also after its default case.\<close>

definition podman_command :: "podman_env \<Rightarrow> NodeCmd \<Rightarrow> NodeCmdReply \<Rightarrow> podman \<Rightarrow> (podman, NodeCmdReply) run" where
  "podman_command env c r st =
     (if 0 < podman_num (nc_podman_cmd c) \<and> podman_num (nc_podman_cmd c) \<le> 255
      then case (case podman_case env c of
               None \<Rightarrow> Fin st unknown_podman_text | Some f \<Rightarrow> f st) of
          Fin st t \<Rightarrow> Fin st (r\<lparr>nr_status := SUCCESS, nr_desc_str := t\<rparr>)
        | Exc st e \<Rightarrow> Fin st (r\<lparr>nr_status := INVALID, nr_desc_str := failed_podman_text @ e\<rparr>)
        | Crash e \<Rightarrow> Crash e
        | Hang \<Rightarrow> Hang
      else Fin st r)"

section \<open>Properties\<close>

text \<open>What an operation may add to the two logs: at most one entry in all, a compose run with its arguments.\<close>

definition one_call :: "podman \<Rightarrow> podman \<Rightarrow> bool" where
  "one_call st st' \<longleftrightarrow> (\<exists>qs rs. pd_requests st' = pd_requests st @ qs \<and> pd_runs st' = pd_runs st @ rs \<and>
     length qs + length rs \<le> 1 \<and>
     (\<forall>argv \<in> set rs. \<exists>stack args. argv = ''podman-compose'' # compose_args args stack))"

definition no_call :: "podman \<Rightarrow> podman \<Rightarrow> bool" where
  "no_call st st' \<longleftrightarrow> pd_requests st' = pd_requests st \<and> pd_runs st' = pd_runs st"

lemma one_call_no_call: "no_call st st' \<Longrightarrow> one_call st st'"
  by (auto simp: no_call_def one_call_def)

lemma one_call_trans:
  "no_call st st' \<Longrightarrow> one_call st' st'' \<Longrightarrow> one_call st st''"
  "one_call st st' \<Longrightarrow> no_call st' st'' \<Longrightarrow> one_call st st''"
  by (simp_all add: no_call_def one_call_def)

lemma executeRequest_once: "run_inv (one_call st) (executeRequest env e m b st)"
  by (auto simp: executeRequest_def Let_def one_call_def split: outcome.split)

lemma executePodmanCompose_once: "run_inv (one_call st) (executePodmanCompose env args s st)"
proof -
  have "one_call st (st\<lparr>pd_runs := pd_runs st @ [''podman-compose'' # compose_args args s]\<rparr>)"
    unfolding one_call_def by auto
  then show ?thesis by (auto simp: executePodmanCompose_def Let_def split: outcome.split)
qed

lemma compose_file_no_call:
  "run_inv (no_call st) (writeComposeFile s f st)" "run_inv (no_call st) (removeComposeFile s st)"
  by (auto simp: writeComposeFile_def removeComposeFile_def Let_def no_call_def split: option.split fnode.split)

lemma deployStack_once: "run_inv (one_call st) (deployStack env s f st)"
  unfolding deployStack_def
  by (rule run_post_bind [where R = "\<lambda>s _. no_call st s"])
    (auto intro: run_post_weaken [OF compose_file_no_call(1)] run_post_weaken [OF executePodmanCompose_once]
      one_call_no_call one_call_trans)

lemma removeStack_once: "run_inv (one_call st) (removeStack env s st)"
  unfolding removeStack_def
  by (rule run_post_bind [OF executePodmanCompose_once], rule run_post_bind [where R = "\<lambda>s _. one_call st s"])
    (auto intro: run_post_weaken [OF compose_file_no_call(2)] one_call_trans)

lemma with_json_once:
  "(\<And>o'. run_inv (one_call st) (f o' st)) \<Longrightarrow> run_inv (one_call st) (with_json env s f st)"
  by (auto simp: with_json_def one_call_no_call no_call_def split: outcome.split)

lemmas operation_defs = listContainers_def createContainer_def containerAction_def removeContainer_def
  inspectContainer_def execInContainer_def listImages_def pullImage_def removeImage_def inspectImage_def tagImage_def
  listNetworks_def createNetwork_def removeNetwork_def inspectNetwork_def listVolumes_def createVolume_def
  removeVolume_def inspectVolume_def listStacks_def inspectStack_def stackAction_def scaleStack_def
  listRegistries_def addRegistry_def removeRegistry_def loginRegistry_def

lemma podman_case_once: "podman_case env c = Some f \<Longrightarrow> run_inv (one_call st) (f st)"
  unfolding podman_case_def action_defs Let_def
  by (cases "nc_podman_cmd c")
    (auto simp: operation_defs executeRequest_once executePodmanCompose_once
      intro: deployStack_once removeStack_once with_json_once)

text \<open>
  A podman command makes at most one call: one HTTP request or one run of \<open>podman-compose\<close>; it
  never throws; and every run of \<open>podman-compose\<close> gets the program's name once more as its first
  argument.
\<close>

theorem podman_one_call:
  "case podman_command env c r st of
     Fin st' _ \<Rightarrow> one_call st st' \<and>
       (\<forall>argv \<in> set (drop (length (pd_runs st)) (pd_runs st')). take 2 argv = [''podman-compose'', ''podman-compose''])
   | Exc _ _ \<Rightarrow> False
   | _ \<Rightarrow> True"
proof -
  have argv: "take 2 argv = [''podman-compose'', ''podman-compose'']"
    if "one_call st st'" "argv \<in> set (drop (length (pd_runs st)) (pd_runs st'))" for st' argv
    using that by (auto simp: one_call_def compose_args_def dest!: bspec)
  show ?thesis
  proof (cases "podman_case env c")
    case None
    then show ?thesis using one_call_no_call [of st st] by (simp add: podman_command_def no_call_def)
  next
    case (Some f)
    show ?thesis
      using podman_case_once [OF Some, of st] Some argv one_call_no_call [of st st]
      by (cases "f st") (auto simp: podman_command_def no_call_def)
  qed
qed

text \<open>
  The status of a podman reply says little: listing the containers, command number 0, is refused
  without a request, while a number that names no command is answered with \<open>SUCCESS\<close>, and so is a
  request that the service answers with an error text.
\<close>

theorem podman_status_misleads:
  "(nc_podman_cmd c = LIST_CONTAINERS \<longrightarrow> podman_command env c r st = Fin st r) \<and>
   (nc_podman_cmd c = PodmanOther n \<and> 0 < n \<and> n \<le> 255 \<longrightarrow>
      podman_command env c r st = Fin st (r\<lparr>nr_status := SUCCESS, nr_desc_str := unknown_podman_text\<rparr>)) \<and>
   (nc_podman_cmd c = START_CONTAINER \<and>
      pd_http env ''POST'' (pd_base env @ ''/libpod/containers/'' @ nc_paras c @ ''/start'') [] = Ret text \<longrightarrow>
      (\<exists>st'. podman_command env c r st = Fin st' (r\<lparr>nr_status := SUCCESS, nr_desc_str := text\<rparr>)))"
  by (auto simp: podman_command_def podman_case_def action_defs containerAction_def executeRequest_def Let_def)

definition demo_podman_env :: podman_env where
  "demo_podman_env = \<lparr>pd_base = ''http://h'', pd_http = (\<lambda>m u b. Ret ''no such container''), pd_compose = (\<lambda>a. Ret (0, [], [])),
     pd_json_text = (\<lambda>j. []), pd_json_object = (\<lambda>t. Inr []), pd_var_text = (\<lambda>j. [])\<rparr>"

definition demo_podman_cmd :: "PodmanCmd \<Rightarrow> NodeCmd" where
  "demo_podman_cmd k = \<lparr>nc_uuid = ''u'', nc_src_node_id = ''m'', nc_src_node_name = ''M'', nc_to_node_id = ''n'',
     nc_to_group = ''g'', nc_cmd_type = PODMANCMD, nc_podman_cmd = k, nc_cmd = [], nc_paras = ''box'',
     nc_paras_1 = [], nc_paras_2 = []\<rparr>"

definition demo_podman_reply :: NodeCmdReply where
  "demo_podman_reply = \<lparr>nr_uuid = ''v'', nr_src_node_id = ''n'', nr_src_node_name = ''N'', nr_to_node_id = ''m'',
     nr_to_node_name = ''M'', nr_cmd_reply_uuid = ''u'', nr_cmd_type = PODMANCMD, nr_status = INVALID,
     nr_desc = [], nr_desc_str = [], nr_result = []\<rparr>"

definition demo_podman :: podman where
  "demo_podman = \<lparr>pd_disk = demo_fs, pd_requests = [], pd_runs = []\<rparr>"

theorem podman_status_misleads_witness:
  "\<exists>st'. podman_command demo_podman_env (demo_podman_cmd START_CONTAINER) demo_podman_reply demo_podman =
     Fin st' (demo_podman_reply\<lparr>nr_status := SUCCESS, nr_desc_str := ''no such container''\<rparr>)"
  using podman_status_misleads [of "demo_podman_cmd START_CONTAINER" demo_podman_env demo_podman_reply demo_podman 1
    "''no such container''"]
  by (simp add: demo_podman_cmd_def demo_podman_env_def)

theorem podman_one_call_witness:
  "\<exists>st' r'. podman_command demo_podman_env (demo_podman_cmd LIST_STACKS) demo_podman_reply demo_podman = Fin st' r' \<and>
     one_call demo_podman st' \<and> length (pd_runs st') = 1"
  using podman_one_call [where env = demo_podman_env and c = "demo_podman_cmd LIST_STACKS" and
    r = demo_podman_reply and st = demo_podman]
  by (simp add: podman_command_def podman_case_def demo_podman_cmd_def listStacks_def executePodmanCompose_def Let_def
      demo_podman_env_def demo_podman_def)

end
