(* ===== verification/Exec.thy ===== *)
theory Exec
  imports NodeBase
begin

text \<open>
  The shell command runner of \<open>node/src/CommandExecutor.h\<close>: \<open>CommandManager\<close> keeps an executor per
  command text; \<open>CommandExecutor::execute_command\<close> runs a command under the shell for at most
  five seconds and keeps its output.

  Launching a process is a parameter, and so are the pieces of output that its reader thread has
  collected when the wait ends. The static table \<open>process_handles\<close> holds the address of a local
  variable of \<open>execute_command\<close>: once that call has returned, the address dangles and reading through
  it is undefined.
\<close>

section \<open>State and environment\<close>

datatype handle = InFrame int | Dangling int

record executor =
  recentOutputs :: "(string \<times> string list) list"
  output_lines :: "(string \<times> string list) list"

record exec_mgr =
  executors :: "(string \<times> executor) list"
  process_handles :: "(string \<times> handle) list"
  process_running :: "(string \<times> bool) list"

record exec_env =
  xe_launch :: "string list \<Rightarrow> int option"
  xe_chunks :: "string \<Rightarrow> string list"
  xe_array :: "string list \<Rightarrow> string"
  xe_processes :: "(string \<times> bool) list \<Rightarrow> string"
  xe_running :: "int \<Rightarrow> bool"

section \<open>CommandExecutor\<close>

definition max_output_lines :: nat where
  "max_output_lines = 1000"

text \<open>The reader thread: it gives up, dropping the oldest piece, when it has more than the maximum.\<close>

fun read_chunks :: "string list \<Rightarrow> string list \<Rightarrow> string list" where
  "read_chunks dq [] = dq"
| "read_chunks dq (c # cs) =
     (let dq' = dq @ [c] in if length dq' > max_output_lines then tl dq' else read_chunks dq' cs)"

text \<open>
  \<open>execute_command\<close> of the executor of \<open>command\<close>: the handle lives in the frame of the call while
  it runs, and dangles when it has returned.
\<close>

definition run_command :: "exec_env \<Rightarrow> string \<Rightarrow> exec_mgr \<Rightarrow> (exec_mgr, unit) run" where
  "run_command env command st =
     (let st1 = st\<lparr>process_running := AList.update command True (process_running st)\<rparr>
      in case xe_launch env [''/bin/bash'', ''-c'', command] of
           None \<Rightarrow> Exc st1 ''SystemException''
         | Some pid \<Rightarrow>
             (let out = read_chunks [] (xe_chunks env command);
                  ex = (case map_of (executors st1) command of Some x \<Rightarrow> x | None \<Rightarrow> \<lparr>recentOutputs = [], output_lines = []\<rparr>);
                  ex' = ex\<lparr>recentOutputs := AList.update command out (recentOutputs ex)\<rparr>
              in Fin (st1\<lparr>executors := AList.update command ex' (executors st1),
                          process_handles := AList.update command (Dangling pid) (process_handles st1)\<rparr>) ()))"

definition getRecentOutput :: "exec_env \<Rightarrow> string \<Rightarrow> executor \<Rightarrow> string" where
  "getRecentOutput env uuid ex = (case map_of (recentOutputs ex) uuid of None \<Rightarrow> ''[]'' | Some ls \<Rightarrow> xe_array env ls)"

definition outputLineReceived :: "string \<Rightarrow> string \<Rightarrow> executor \<Rightarrow> executor" where
  "outputLineReceived line command ex =
     (let ls = (case map_of (output_lines ex) command of None \<Rightarrow> [] | Some ls \<Rightarrow> ls) @ [line]
      in ex\<lparr>output_lines := AList.update command (if length ls > max_output_lines then tl ls else ls) (output_lines ex)\<rparr>)"

text \<open>Killing reads through the stored address, in a detached thread.\<close>

definition deref :: "handle \<Rightarrow> int outcome" where
  "deref h = (case h of InFrame pid \<Rightarrow> Ret pid | Dangling pid \<Rightarrow> UB ''ProcessHandle of a returned call'')"

definition executor_kill :: "string \<Rightarrow> exec_mgr \<Rightarrow> (exec_mgr, unit) run" where
  "executor_kill command st =
     (case map_of (process_handles st) command of
        None \<Rightarrow> Fin st ()
      | Some h \<Rightarrow>
          (case deref h of
             UB e \<Rightarrow> Crash e
           | Throw e \<Rightarrow> Exc st e
           | Ret pid \<Rightarrow> Fin (st\<lparr>process_handles := AList.delete command (process_handles st),
                              process_running := AList.update command False (process_running st)\<rparr>) ()))"

section \<open>CommandManager\<close>

definition execute_command :: "exec_env \<Rightarrow> string \<Rightarrow> exec_mgr \<Rightarrow> (exec_mgr, unit) run" where
  "execute_command env command st =
     run_command env command
       (st\<lparr>executors := AList.update command \<lparr>recentOutputs = [], output_lines = []\<rparr> (AList.delete command (executors st))\<rparr>)"

definition get_output :: "exec_env \<Rightarrow> string \<Rightarrow> exec_mgr \<Rightarrow> string" where
  "get_output env command st =
     (case map_of (executors st) command of None \<Rightarrow> ''[]'' | Some ex \<Rightarrow> getRecentOutput env command ex)"

text \<open>Both look-ups of a command without an entry create one with the value false.\<close>

definition is_command_running :: "string \<Rightarrow> exec_mgr \<Rightarrow> bool \<times> exec_mgr" where
  "is_command_running command st =
     (case map_of (executors st) command of
        None \<Rightarrow> (False, st)
      | Some _ \<Rightarrow>
          (case map_of (process_running st) command of
             Some b \<Rightarrow> (b, st)
           | None \<Rightarrow> (False, st\<lparr>process_running := AList.update command False (process_running st)\<rparr>)))"

definition kill_command :: "string \<Rightarrow> exec_mgr \<Rightarrow> (exec_mgr, unit) run" where
  "kill_command command st =
     (case map_of (executors st) command of
        None \<Rightarrow> Fin st ()
      | Some _ \<Rightarrow> bind_run (executor_kill command st) (\<lambda>st _.
          Fin (st\<lparr>executors := AList.delete command (executors st)\<rparr>) ()))"

fun all_processes :: "exec_env \<Rightarrow> (string \<times> handle) list \<Rightarrow> (string \<times> bool) list outcome" where
  "all_processes env [] = Ret []"
| "all_processes env ((command, h) # hs) =
     bind_outcome (deref h) (\<lambda>pid. bind_outcome (all_processes env hs) (\<lambda>ps. Ret ((command, xe_running env pid) # ps)))"

definition getAllProcesses :: "exec_env \<Rightarrow> exec_mgr \<Rightarrow> (exec_mgr, string) run" where
  "getAllProcesses env st =
     (case all_processes env (process_handles st) of
        UB e \<Rightarrow> Crash e
      | Throw e \<Rightarrow> Exc st e
      | Ret ps \<Rightarrow> Fin (st\<lparr>process_running := fold (\<lambda>(c, b). AList.update c b) ps (process_running st)\<rparr>)
                   (xe_processes env ps))"

section \<open>Properties\<close>

lemma read_chunks_spec:
  "length dq \<le> max_output_lines \<Longrightarrow>
     read_chunks dq cs = (if length dq + length cs \<le> max_output_lines then dq @ cs
       else tl (dq @ take (Suc max_output_lines - length dq) cs))"
proof (induction cs arbitrary: dq)
  case (Cons c cs)
  show ?case
  proof (cases "length dq = max_output_lines")
    case True
    then show ?thesis by (simp add: Let_def)
  next
    case False
    with Cons.prems have l: "length (dq @ [c]) \<le> max_output_lines" by simp
    then have "Suc max_output_lines - length dq = Suc (Suc max_output_lines - length (dq @ [c]))" by simp
    with Cons.IH [OF l] l show ?thesis by (simp add: Let_def)
  qed
qed simp

lemma all_processes_dangling:
  "map_of hs command = Some (Dangling pid) \<Longrightarrow> all_processes env hs = UB ''ProcessHandle of a returned call''"
  by (induction hs) (auto simp: deref_def split: if_splits handle.splits)

lemma map_of_update_same: "map_of (AList.update k v xs) k = Some v"
  by (simp add: update_conv)

text \<open>
  After a command that could be launched, its output is what \<open>get_output\<close> returns, at most
  1000 pieces of it; but listing the commands, or stopping this one, then reads through an address in
  the frame of a call that has returned.
\<close>

theorem exec_output_then_dangling:
  assumes "xe_launch env [''/bin/bash'', ''-c'', command] = Some pid"
  shows "\<exists>st' out. execute_command env command st = Fin st' () \<and>
    get_output env command st' = xe_array env out \<and>
    length out \<le> max_output_lines \<and>
    (length (xe_chunks env command) \<le> max_output_lines \<longrightarrow> out = xe_chunks env command) \<and>
    getAllProcesses env st' = Crash ''ProcessHandle of a returned call'' \<and>
    kill_command command st' = Crash ''ProcessHandle of a returned call''"
proof -
  let ?out = "read_chunks [] (xe_chunks env command)"
  obtain st' where st': "execute_command env command st = Fin st' ()"
    "map_of (executors st') command = Some \<lparr>recentOutputs = [(command, ?out)], output_lines = []\<rparr>"
    "map_of (process_handles st') command = Some (Dangling pid)"
    using assms by (simp add: execute_command_def run_command_def Let_def map_of_update_same)
  have "get_output env command st' = xe_array env ?out"
    using st'(2) by (simp add: get_output_def getRecentOutput_def)
  moreover have "length ?out \<le> max_output_lines \<and>
      (length (xe_chunks env command) \<le> max_output_lines \<longrightarrow> ?out = xe_chunks env command)"
    using read_chunks_spec [of "[]" "xe_chunks env command"] by auto
  moreover have "getAllProcesses env st' = Crash ''ProcessHandle of a returned call''"
    using all_processes_dangling [OF st'(3)] by (simp add: getAllProcesses_def)
  moreover have "kill_command command st' = Crash ''ProcessHandle of a returned call''"
    using st'(2,3) by (simp add: kill_command_def executor_kill_def deref_def)
  ultimately show ?thesis using st'(1) by blast
qed

definition demo_exec_env :: exec_env where
  "demo_exec_env = \<lparr>xe_launch = (\<lambda>a. Some 7), xe_chunks = (\<lambda>c. [''out'']), xe_array = concat, xe_processes = (\<lambda>p. []),
     xe_running = (\<lambda>p. True)\<rparr>"

theorem exec_output_then_dangling_witness:
  "\<exists>st'. execute_command demo_exec_env ''ls '' \<lparr>executors = [], process_handles = [], process_running = []\<rparr> = Fin st' () \<and>
     get_output demo_exec_env ''ls '' st' = ''out'' \<and>
     getAllProcesses demo_exec_env st' = Crash ''ProcessHandle of a returned call''"
  using exec_output_then_dangling [of demo_exec_env "''ls ''" 7 "\<lparr>executors = [], process_handles = [], process_running = []\<rparr>"]
  by (auto simp: demo_exec_env_def max_output_lines_def)

end
