(* ===== verification/LogTrace.thy ===== *)
theory LogTrace
  imports NodeBase "HOL-Library.List_Lexorder" "HOL-Library.Char_ord"
begin

text \<open>
  Tracing of log files: \<open>node/src/LogMonitor.cpp\<close> (a thread that follows a file and collects its
  lines), \<open>node/src/LogMonitorManager.cpp\<close> (the monitors of the node) and \<open>node/src/LogTopic.cpp\<close>
  (the topic that carries the lines).

  A turn of the monitor's loop is given the content of the file, which lines come 200 ms or more after
  the last sending, and the size the file has half a second later (\<open>None\<close> when it is gone). The
  JSON library is a parameter, as is the success of each zenoh call. Messages arrive as they were sent.
\<close>

section \<open>LogTopic\<close>

record LogData =
  ld_uuid :: string
  ld_src_node_id :: string
  ld_to_node_id :: string
  ld_file_name :: string
  ld_new_logs :: string

record log_topic =
  lt_info :: TopicInfo
  publisher :: bool
  reply_publisher :: bool
  subscriber :: "string option"
  message_queue :: "LogData list"
  lt_reply_queue :: "LogData list"
  lt_out :: "LogData list"
  lt_reply_out :: "LogData list"
  lt_writer :: bool

text \<open>
  A default constructed \<open>TopicInfo\<close>. Its \<open>needReply_\<close> is not initialised; it reads as false here, and
  no operation below reads it before \<open>init\<close> has set it.
\<close>

definition no_topic_info :: TopicInfo where
  "no_topic_info = \<lparr>topic = [], topicReply = [], partition = [], nodeId = [], nodeName = [], domain = 0,
     needReply = False, monNodeId = [], monSendSleep = 60, programName = []\<rparr>"

text \<open>The constructor does not look at its argument.\<close>

definition LogTopic :: "TopicInfo \<Rightarrow> log_topic" where
  "LogTopic info = \<lparr>lt_info = no_topic_info, publisher = False, reply_publisher = False, subscriber = None,
     message_queue = [], lt_reply_queue = [], lt_out = [], lt_reply_out = [], lt_writer = False\<rparr>"

text \<open>
  \<open>init\<close>, given whether each of the five calls succeeds; the reply subscriber is put where the
  subscriber was.
\<close>

definition create_publisher :: "bool \<Rightarrow> log_topic \<Rightarrow> bool \<times> log_topic" where
  "create_publisher ok lt = (if publisher lt then (True, lt) else if ok then (True, lt\<lparr>publisher := True\<rparr>) else (False, lt))"

definition create_subscriber :: "bool \<Rightarrow> log_topic \<Rightarrow> bool \<times> log_topic" where
  "create_subscriber ok lt =
     (if subscriber lt \<noteq> None then (True, lt)
      else if ok then (True, lt\<lparr>subscriber := Some (topic (lt_info lt))\<rparr>) else (False, lt))"

definition create_reply_publisher :: "bool \<Rightarrow> log_topic \<Rightarrow> bool \<times> log_topic" where
  "create_reply_publisher ok lt =
     (if reply_publisher lt then (True, lt) else if ok then (True, lt\<lparr>reply_publisher := True\<rparr>) else (False, lt))"

definition create_reply_subscriber :: "bool \<Rightarrow> log_topic \<Rightarrow> bool \<times> log_topic" where
  "create_reply_subscriber ok lt =
     (if ok then (True, lt\<lparr>subscriber := Some (topicReply (lt_info lt))\<rparr>) else (False, lt))"

definition log_init :: "(nat \<Rightarrow> bool) \<Rightarrow> TopicInfo \<Rightarrow> log_topic \<Rightarrow> bool \<times> log_topic" where
  "log_init ok info lt =
     (if \<not> ok 0 then (False, lt)
      else case create_publisher (ok 1) (lt\<lparr>lt_info := info\<rparr>) of
        (False, lt1) \<Rightarrow> (False, lt1)
      | (True, lt1) \<Rightarrow>
          (case create_subscriber (ok 2) lt1 of
             (False, lt2) \<Rightarrow> (False, lt2)
           | (True, lt2) \<Rightarrow>
               if needReply (lt_info lt2)
               then case create_reply_publisher (ok 3) lt2 of
                   (False, lt3) \<Rightarrow> (False, lt3)
                 | (True, lt3) \<Rightarrow> create_reply_subscriber (ok 4) lt3
               else (True, lt2)))"

definition write_log_data :: "bool \<Rightarrow> string \<Rightarrow> string \<Rightarrow> log_topic \<Rightarrow> bool \<times> log_topic" where
  "write_log_data put_ok filename logStr lt =
     (if \<not> publisher lt then (False, lt)
      else if put_ok
      then (True, lt\<lparr>lt_out := lt_out lt @ [\<lparr>ld_uuid = [], ld_src_node_id = nodeId (lt_info lt),
             ld_to_node_id = monNodeId (lt_info lt), ld_file_name = filename, ld_new_logs = logStr\<rparr>]\<rparr>)
      else (False, lt))"

definition log_writer_turn :: "bool \<Rightarrow> log_topic \<Rightarrow> log_topic" where
  "log_writer_turn put_ok lt =
     (case message_queue lt of
        [] \<Rightarrow> lt
      | m # ms \<Rightarrow> let lt1 = lt\<lparr>message_queue := ms\<rparr> in
          if publisher lt1 \<and> put_ok then lt1\<lparr>lt_out := lt_out lt1 @ [m]\<rparr> else lt1)"

definition log_reader_turn :: "bool \<Rightarrow> log_topic \<Rightarrow> log_topic" where
  "log_reader_turn put_ok lt =
     (case lt_reply_queue lt of
        [] \<Rightarrow> lt
      | m # ms \<Rightarrow> let lt1 = lt\<lparr>lt_reply_queue := ms\<rparr> in
          if reply_publisher lt1 \<and> put_ok then lt1\<lparr>lt_reply_out := lt_reply_out lt1 @ [m]\<rparr> else lt1)"

definition handle_message :: "LogData \<Rightarrow> log_topic \<Rightarrow> log_topic" where
  "handle_message m lt = (if needReply (lt_info lt) then lt\<lparr>lt_reply_queue := lt_reply_queue lt @ [m]\<rparr> else lt)"

definition handle_reply_message :: "LogData \<Rightarrow> log_topic \<Rightarrow> log_topic" where
  "handle_reply_message m lt = lt\<lparr>lt_reply_queue := lt_reply_queue lt @ [m]\<rparr>"

definition log_start_writer :: "log_topic \<Rightarrow> log_topic" where
  "log_start_writer lt = lt\<lparr>lt_writer := True\<rparr>"

section \<open>LogMonitor\<close>

record log_monitor =
  lm_path :: string
  lm_queue :: "string list"
  lm_pos :: int
  lm_open :: bool

definition LogMonitor :: "string \<Rightarrow> log_monitor" where
  "LogMonitor filePath = \<lparr>lm_path = filePath, lm_queue = [], lm_pos = 0, lm_open = True\<rparr>"

definition maxQueueSize :: nat where
  "maxQueueSize = 5000"

text \<open>A line joins the queue, which loses its oldest line beyond its maximum.\<close>

definition enqueue_line :: "string \<Rightarrow> log_monitor \<Rightarrow> log_monitor" where
  "enqueue_line line m =
     (let q = lm_queue m @ [line] in m\<lparr>lm_queue := if length q > maxQueueSize then tl q else q\<rparr>)"

text \<open>The queue is emptied into one message, whether or not the message can be sent.\<close>

definition send_queue :: "(string list \<Rightarrow> string) \<Rightarrow> bool \<Rightarrow> log_monitor \<Rightarrow> log_topic \<Rightarrow> log_monitor \<times> log_topic" where
  "send_queue js put_ok m lt =
     (if lm_queue m \<noteq> []
      then (m\<lparr>lm_queue := []\<rparr>, snd (write_log_data put_ok (lm_path m) (js (lm_queue m)) lt))
      else (m, lt))"

text \<open>
  The inner loop over the lines of the rest of a file of \<open>tot\<close> bytes; \<open>late k\<close> tells whether
  line \<open>k\<close> comes 200 ms or more after the last sending. Behind a line without a newline the stream
  is at its end and \<open>tellg\<close> gives \<open>-1\<close>.
\<close>

function read_lines :: "(string list \<Rightarrow> string) \<Rightarrow> bool \<Rightarrow> (nat \<Rightarrow> bool) \<Rightarrow> nat \<Rightarrow> nat \<Rightarrow> string
    \<Rightarrow> log_monitor \<Rightarrow> log_topic \<Rightarrow> log_monitor \<times> log_topic" where
  "read_lines js put_ok late tot k rest m lt =
     (case getline newline rest of
        None \<Rightarrow> (m, lt)
      | Some (line, rest') \<Rightarrow>
          (let m1 = enqueue_line line m
           in if late k
              then let (m2, lt2) = send_queue js put_ok m1 lt;
                       pos = (if newline \<in> set rest then int tot - int (length rest') else -1)
                in read_lines js put_ok late tot (Suc k) rest' (m2\<lparr>lm_pos := pos\<rparr>) lt2
              else read_lines js put_ok late tot (Suc k) rest' m1 lt))"
  by pat_completeness auto
termination
  by (relation "measure (\<lambda>(js, ok, late, tot, k, rest, m, lt). length rest)") (auto dest: getline_shorter)

declare read_lines.simps [simp del]

text \<open>
  One turn of the outer loop. On a closed stream, and after a failed \<open>tellg\<close>, seeking and reading
  fail without reaching the end of the file, and the turn does nothing. The size of a file that is gone
  throws out of the thread's function.
\<close>

record log_turn =
  tu_content :: string
  tu_late :: "nat \<Rightarrow> bool"
  tu_put :: bool
  tu_size :: "nat option"

definition run_turn :: "(string list \<Rightarrow> string) \<Rightarrow> log_turn \<Rightarrow> log_monitor \<times> log_topic \<Rightarrow> (log_monitor \<times> log_topic) outcome" where
  "run_turn js tu s =
     (let (m, lt) = s
      in if lm_open m \<and> 0 \<le> lm_pos m
         then let (m1, lt1) = read_lines js (tu_put tu) (tu_late tu) (length (tu_content tu)) 0
                (drop (nat (lm_pos m)) (tu_content tu)) m lt
           in case tu_size tu of
                None \<Rightarrow> UB ''FileNotFoundException leaves the thread''
              | Some n \<Rightarrow> Ret (m1\<lparr>lm_open := 0 \<le> lm_pos m1 \<and> int n > lm_pos m1\<rparr>, lt1)
         else Ret s)"

fun run_turns :: "(string list \<Rightarrow> string) \<Rightarrow> log_turn list \<Rightarrow> log_monitor \<times> log_topic \<Rightarrow> (log_monitor \<times> log_topic) outcome" where
  "run_turns js [] s = Ret s"
| "run_turns js (tu # tus) s = bind_outcome (run_turn js tu s) (run_turns js tus)"

definition consumeLogQueue :: "log_monitor \<Rightarrow> string list \<times> log_monitor" where
  "consumeLogQueue m = (lm_queue m, m\<lparr>lm_queue := []\<rparr>)"

section \<open>LogMonitorManager\<close>

text \<open>
  The monitors are in the order of their paths, as in a \<open>std::map\<close>. \<open>lmm_threads\<close> are the paths of the detached threads that run, \<open>lmm_dangling\<close> those of them whose
  monitor has been destroyed.
\<close>

record log_mgr =
  lmm_topic :: log_topic
  lmm_monitors :: "(string \<times> log_monitor) list"
  lmm_threads :: "string list"
  lmm_dangling :: "string list"

definition LogMonitorManager :: "TopicInfo \<Rightarrow> log_mgr" where
  "LogMonitorManager logInfo =
     \<lparr>lmm_topic = log_start_writer (LogTopic (logInfo\<lparr>needReply := False\<rparr>)), lmm_monitors = [],
      lmm_threads = [], lmm_dangling = []\<rparr>"

definition startMonitoring :: "string \<Rightarrow> log_mgr \<Rightarrow> log_mgr" where
  "startMonitoring filePath g =
     (let ms = (if map_of (lmm_monitors g) filePath = None
                then insort_key fst (filePath, LogMonitor filePath) (lmm_monitors g) else lmm_monitors g)
      in g\<lparr>lmm_monitors := ms, lmm_threads := lmm_threads g @ [filePath]\<rparr>)"

definition stopMonitoring :: "string \<Rightarrow> log_mgr \<Rightarrow> log_mgr" where
  "stopMonitoring filePath g =
     (case map_of (lmm_monitors g) filePath of
        None \<Rightarrow> g
      | Some m \<Rightarrow> g\<lparr>lmm_monitors := AList.delete filePath (lmm_monitors g),
                    lmm_dangling := lmm_dangling g @ filter (\<lambda>p. p = filePath) (lmm_threads g)\<rparr>)"

definition getActiveMonitors :: "(string list \<Rightarrow> string) \<Rightarrow> log_mgr \<Rightarrow> string" where
  "getActiveMonitors js g =
     (if lmm_monitors g = [] then [] else js (map (\<lambda>(path, m). lm_path m) (lmm_monitors g)))"

definition consumeAllMessages :: "log_mgr \<Rightarrow> (string \<times> string list) list \<times> log_mgr" where
  "consumeAllMessages g =
     (filter (\<lambda>(_, ls). ls \<noteq> []) (map (\<lambda>(path, m). (path, fst (consumeLogQueue m))) (lmm_monitors g)),
      g\<lparr>lmm_monitors := map (\<lambda>(path, m). (path, snd (consumeLogQueue m))) (lmm_monitors g)\<rparr>)"

section \<open>Properties\<close>

text \<open>A topic without a publisher sends nothing.\<close>

lemma write_no_publisher: "\<not> publisher lt \<Longrightarrow> write_log_data ok f l lt = (False, lt)"
  by (simp add: write_log_data_def)

lemma send_queue_no_publisher: "\<not> publisher lt \<Longrightarrow> snd (send_queue js ok m lt) = lt"
  by (simp add: send_queue_def write_no_publisher)

lemma read_lines_no_publisher:
  "\<not> publisher lt \<Longrightarrow> snd (read_lines js ok late tot k rest m lt) = lt"
proof (induction js ok late tot k rest m lt rule: read_lines.induct)
  case (1 js ok late tot k rest m lt)
  show ?case
  proof (cases "getline newline rest")
    case None
    then show ?thesis by (simp add: read_lines.simps [of js ok late tot k rest])
  next
    case (Some a)
    obtain line rest' where a: "a = (line, rest')" by (cases a)
    obtain m2 where "send_queue js ok (enqueue_line line m) lt = (m2, lt)"
      using send_queue_no_publisher [OF "1.prems"] by (metis prod.collapse)
    then show ?thesis using 1 Some a by (simp add: read_lines.simps [of js ok late tot k rest] Let_def)
  qed
qed

lemma run_turn_no_publisher:
  "\<not> publisher lt \<Longrightarrow> run_turn js tu (m, lt) = Ret (m', lt') \<Longrightarrow> lt' = lt"
  using read_lines_no_publisher [of lt js "tu_put tu" "tu_late tu" "length (tu_content tu)" 0
      "drop (nat (lm_pos m)) (tu_content tu)" m]
  by (auto simp: run_turn_def Let_def split: if_splits prod.splits option.splits)

lemma run_turns_no_publisher:
  "\<not> publisher lt \<Longrightarrow> run_turns js tus (m, lt) = Ret (m', lt') \<Longrightarrow> lt' = lt"
proof (induction tus arbitrary: m)
  case (Cons tu tus)
  then obtain m1 lt1 where "run_turn js tu (m, lt) = Ret (m1, lt1)" "run_turns js tus (m1, lt1) = Ret (m', lt')"
    by (auto simp: bind_outcome_Ret_iff)
  with Cons run_turn_no_publisher show ?case by metis
qed simp

text \<open>
  Tracing a log file sends nothing: the manager creates its topic without initialising it, so
  the topic has no publisher, and whatever a monitor reads in whatever turns, no message leaves it.
\<close>

theorem traced_logs_never_sent:
  assumes "run_turns js tus (LogMonitor path, lmm_topic (LogMonitorManager info)) = Ret (m, lt)"
  shows "lt = lmm_topic (LogMonitorManager info) \<and> lt_out lt = []"
proof -
  have p: "\<not> publisher (lmm_topic (LogMonitorManager info))" "lt_out (lmm_topic (LogMonitorManager info)) = []"
    by (simp_all add: LogMonitorManager_def LogTopic_def log_start_writer_def)
  from run_turns_no_publisher [OF p(1) assms] p(2) show ?thesis by simp
qed

definition demo_turn :: log_turn where
  "demo_turn = \<lparr>tu_content = ''a'' @ [newline], tu_late = (\<lambda>k. True), tu_put = True, tu_size = Some 2\<rparr>"

lemma getline_line: "d \<notin> set l \<Longrightarrow> getline d (l @ d # r) = Some (l, r)"
proof -
  assume "d \<notin> set l"
  then have "\<forall>x \<in> set l. x \<noteq> d" by auto
  then have "takeWhile (\<lambda>c. c \<noteq> d) (l @ d # r) = l" "dropWhile (\<lambda>c. c \<noteq> d) (l @ d # r) = d # r"
    by (simp_all add: takeWhile_tail dropWhile_append3)
  then show ?thesis by (simp add: getline_def)
qed

lemma read_lines_nil [simp]: "read_lines js ok late tot k [] m lt = (m, lt)"
  by (simp add: read_lines.simps getline_def)

definition as_lines :: "string list \<Rightarrow> string" where
  "as_lines ls = concat (map (\<lambda>l. l @ [newline]) ls)"

text \<open>When the last line is late, the position behind it is kept.\<close>

lemma read_lines_last_late:
  assumes "ls \<noteq> []" and "\<forall>l \<in> set ls. newline \<notin> set l" and "late (k + length ls - 1)"
  shows "lm_pos (fst (read_lines js ok late tot k (as_lines ls) m lt)) = int tot"
  using assms
proof (induction ls arbitrary: k m lt)
  case (Cons l ls)
  have rest: "as_lines (l # ls) = l @ newline # as_lines ls" by (simp add: as_lines_def)
  have g: "getline newline (as_lines (l # ls)) = Some (l, as_lines ls)"
    using Cons.prems(2) unfolding rest by (intro getline_line) simp
  obtain m2 lt2 where s: "send_queue js ok (enqueue_line l m) lt = (m2, lt2)" by fastforce
  show ?case
  proof (cases "ls = []")
    case True
    then have "as_lines ls = []" by (simp add: as_lines_def)
    with True Cons.prems(3) g s show ?thesis
      unfolding read_lines.simps [of js ok late tot k "as_lines (l # ls)"] by (simp add: Let_def) (simp add: as_lines_def)
  next
    case False
    have IH: "lm_pos (fst (read_lines js ok late tot (Suc k) (as_lines ls) m' lt')) = int tot" for m' lt'
      using Cons.prems False by (intro Cons.IH) auto
    show ?thesis
      unfolding read_lines.simps [of js ok late tot k "as_lines (l # ls)"]
      using IH g s by (simp add: Let_def)
  qed
qed simp

lemma run_turns_closed: "\<not> lm_open m \<Longrightarrow> run_turns js tus (m, lt) = Ret (m, lt)"
  by (induction tus) (simp_all add: run_turn_def)

text \<open>
  A monitor stops following its file: once it has sent up to the last line and the file has not
  grown half a second later, it never reads a line again, whatever is written to the file.
\<close>

theorem log_monitor_stops_following:
  assumes "ls \<noteq> []" and "\<forall>l \<in> set ls. newline \<notin> set l" and "tu_content tu = as_lines ls"
    and "tu_late tu (length ls - 1)" and "tu_size tu = Some (length (as_lines ls))"
  shows "\<exists>m lt'. run_turn js tu (LogMonitor path, lt) = Ret (m, lt') \<and>
    run_turns js later (m, lt') = Ret (m, lt')"
proof -
  obtain m1 lt1 where r: "read_lines js (tu_put tu) (tu_late tu) (length (as_lines ls)) 0 (as_lines ls) (LogMonitor path) lt = (m1, lt1)"
    by fastforce
  have "lm_pos m1 = int (length (as_lines ls))"
    using read_lines_last_late [of ls "tu_late tu" 0 js "tu_put tu" "length (as_lines ls)" "LogMonitor path" lt] assms r by simp
  then have "run_turn js tu (LogMonitor path, lt) = Ret (m1\<lparr>lm_open := False\<rparr>, lt1)"
    using r assms(3,5) by (simp add: run_turn_def LogMonitor_def Let_def)
  moreover have "run_turns js later (m1\<lparr>lm_open := False\<rparr>, lt1) = Ret (m1\<lparr>lm_open := False\<rparr>, lt1)"
    by (rule run_turns_closed) simp
  ultimately show ?thesis by blast
qed

theorem log_monitor_stops_following_witness:
  "\<exists>m lt'. run_turn concat demo_turn (LogMonitor ''log'', LogTopic no_topic_info) = Ret (m, lt') \<and>
     run_turns concat [demo_turn\<lparr>tu_content := ''a'' @ [newline] @ ''b'' @ [newline]\<rparr>] (m, lt') = Ret (m, lt')"
  by (rule log_monitor_stops_following [where ls = "[''a'']"]) (simp_all add: demo_turn_def as_lines_def)

theorem traced_logs_never_sent_witness:
  "\<exists>m lt. run_turns concat [demo_turn] (LogMonitor ''log'', lmm_topic (LogMonitorManager no_topic_info)) = Ret (m, lt) \<and>
     lt_out lt = []"
proof -
  obtain m lt where "run_turns concat [demo_turn] (LogMonitor ''log'', lmm_topic (LogMonitorManager no_topic_info)) = Ret (m, lt)"
  proof -
    obtain m lt where "run_turn concat demo_turn (LogMonitor ''log'', lmm_topic (LogMonitorManager no_topic_info)) = Ret (m, lt)"
      by (cases "read_lines concat True (\<lambda>k. True) 2 0 (''a'' @ [newline]) (LogMonitor ''log'') (lmm_topic (LogMonitorManager no_topic_info))")
        (simp add: run_turn_def demo_turn_def Let_def numeral_2_eq_2, simp add: LogMonitor_def)
    with that show ?thesis by simp
  qed
  with traced_logs_never_sent [OF this] show ?thesis by blast
qed

text \<open>
  Stopping destroys a monitor whose thread still runs on it.
\<close>

lemma stop_leaves_dangling_thread:
  "filePath \<in> set (lmm_dangling (stopMonitoring filePath (startMonitoring filePath g)))"
proof -
  have "map_of (lmm_monitors (startMonitoring filePath g)) filePath \<noteq> None"
    by (auto simp: startMonitoring_def Let_def map_of_eq_None_iff set_insort_key)
  then show ?thesis by (auto simp: stopMonitoring_def startMonitoring_def Let_def)
qed

end
