(* ===== verification/CmdWorker.thy ===== *)
theory CmdWorker
  imports FileCommands ProcessManager Podman Exec LogTrace
begin

text \<open>
  The application command worker of \<open>node/src/NodeCmdWorker.cpp\<close>: it starts the configured
  applications, then takes commands from \<open>mainCmdQueueIn_\<close> and carries them out with the process
  manager, the plugin framework, the log monitors, the shell command runner and the podman manager; one
  definition for each case of its switch.

  The plugin framework (CppMicroServices) is a parameter that works on the list of installed
  bundles. \<open>system\<close> calls are logged. A case that finishes has its reply put into
  \<open>mainCmdReplyQueueOut_\<close>; an exception is caught and the command is not answered.
\<close>

section \<open>State and environment\<close>

record fw_bundle =
  b_id :: int
  b_name :: string
  b_state :: nat

record app_node =
  an_pm :: proc_mgr
  an_podman :: podman
  an_exec :: exec_mgr
  an_logs :: log_mgr
  an_bundles :: "fw_bundle list"
  symbolicNameToId :: "(string \<times> int) list"
  an_queues :: msg_queues
  an_shell :: "string list"
  an_tick :: nat

record app_env =
  ae_pm :: pm_env
  ae_podman :: podman_env
  ae_exec :: exec_env
  ae_poco :: poco
  ae_array :: "string list \<Rightarrow> string"
  ae_uuid :: "nat \<Rightarrow> string"
  ae_nodeId :: string
  ae_nodeName :: string
  ae_osType :: string
  fw_install :: "string \<Rightarrow> fw_bundle list \<Rightarrow> fw_bundle list outcome"
  fw_uninstall :: "int \<Rightarrow> fw_bundle list \<Rightarrow> fw_bundle list outcome"
  fw_start :: "int \<Rightarrow> fw_bundle list \<Rightarrow> fw_bundle list outcome"
  fw_stop :: "int \<Rightarrow> fw_bundle list \<Rightarrow> fw_bundle list outcome"

abbreviation an_disk :: "app_node \<Rightarrow> fsys" where
  "an_disk s \<equiv> pd_disk (an_podman s)"

text \<open>A call of one of the managers from the worker.\<close>

definition on_part :: "('p \<Rightarrow> app_node) \<Rightarrow> ('p, 'a) run \<Rightarrow> (app_node, 'a) run" where
  "on_part put r = (case r of
     Fin p x \<Rightarrow> Fin (put p) x | Exc p e \<Rightarrow> Exc (put p) e | Crash e \<Rightarrow> Crash e | Hang \<Rightarrow> Hang)"

definition pm_call :: "(proc_mgr \<Rightarrow> (proc_mgr, 'a) run) \<Rightarrow> app_node \<Rightarrow> (app_node, 'a) run" where
  "pm_call f s = on_part (\<lambda>p. s\<lparr>an_pm := p\<rparr>) (f (an_pm s))"

definition exec_call :: "(exec_mgr \<Rightarrow> (exec_mgr, 'a) run) \<Rightarrow> app_node \<Rightarrow> (app_node, 'a) run" where
  "exec_call f s = on_part (\<lambda>p. s\<lparr>an_exec := p\<rparr>) (f (an_exec s))"

definition podman_call :: "(podman \<Rightarrow> (podman, 'a) run) \<Rightarrow> app_node \<Rightarrow> (app_node, 'a) run" where
  "podman_call f s = on_part (\<lambda>p. s\<lparr>an_podman := p\<rparr>) (f (an_podman s))"

definition look :: "'a outcome \<Rightarrow> app_node \<Rightarrow> (app_node, 'a) run" where
  "look r s = (case r of Ret x \<Rightarrow> Fin s x | Throw e \<Rightarrow> Exc s e | UB e \<Rightarrow> Crash e)"

section \<open>Replies\<close>

definition has_text :: "string \<Rightarrow> string \<Rightarrow> bool" where
  "has_text sub s \<longleftrightarrow> str_find sub s \<noteq> None"

definition quote :: "string \<Rightarrow> string" where
  "quote t = CHR 0x22 # t @ [CHR 0x22]"

definition plugin_json :: "fw_bundle \<Rightarrow> string" where
  "plugin_json b = ''{'' @ quote ''id'' @ '':'' @ int_string (b_id b)
     @ '','' @ quote ''SymbolicName'' @ '':'' @ quote (b_name b)
     @ '','' @ quote ''State'' @ '':'' @ quote (to_string (b_state b)) @ ''},''"

text \<open>The bundles are listed by id; the last comma is replaced.\<close>

definition setLsPluginDesc :: "app_node \<Rightarrow> NodeCmdReply \<Rightarrow> NodeCmdReply" where
  "setLsPluginDesc s r =
     (let j = ''['' @ concat (map plugin_json (sort_key b_id (an_bundles s)))
      in r\<lparr>nr_desc := (if length j > 1 then butlast j @ '']'' else j @ '']'')\<rparr>)"

definition app_json :: "ProcessAttribute \<Rightarrow> string" where
  "app_json p = ''{'' @ quote ''id'' @ '':'' @ int_string (pa_instance p)
     @ '','' @ quote ''state'' @ '':'' @ quote (if exception_flag p then ''0'' else ''1'')
     @ '','' @ quote ''uuid'' @ '':'' @ quote (pa_uuid p)
     @ '','' @ quote ''launch_cmd'' @ '':'' @ quote (launch_cmd p)
     @ '','' @ quote ''paras1'' @ '':'' @ quote (work_path p)
     @ '','' @ quote ''paras2'' @ '':'' @ quote '' '' @ ''},''"

definition setLsAppDesc :: "app_node \<Rightarrow> NodeCmdReply \<Rightarrow> NodeCmdReply" where
  "setLsAppDesc s r =
     (let j = ''['' @ concat (map app_json (m_instances (an_pm s)))
      in r\<lparr>nr_desc := (if length j > 2 then butlast j @ '']'' else j @ '']'')\<rparr>)"

definition combUuid :: "string \<Rightarrow> string \<Rightarrow> string \<Rightarrow> string \<Rightarrow> string" where
  "combUuid paras1 cmd paras paras2 = trim (paras1 @ '' '' @ cmd @ '' '' @ paras @ '' '' @ paras2)"

definition app_uuid :: "NodeCmd \<Rightarrow> string" where
  "app_uuid c = combUuid (nc_paras_1 c) (nc_cmd c) (nc_paras c) (nc_paras_2 c)"

section \<open>Plugins\<close>

text \<open>A name that begins with a number that fits into a \<open>long\<close> is an id; another one is looked up.\<close>

definition get_bundle :: "string \<Rightarrow> app_node \<Rightarrow> fw_bundle option" where
  "get_bundle str s =
     (let i = (case stol str of
                 Ret v \<Rightarrow> v
               | _ \<Rightarrow> (case map_of (symbolicNameToId s) str of Some v \<Rightarrow> v | None \<Rightarrow> -1))
      in List.find (\<lambda>b. b_id b = i) (an_bundles s))"

definition start_plugin :: "app_env \<Rightarrow> string \<Rightarrow> app_node \<Rightarrow> (app_node, bool) run" where
  "start_plugin env pluginName s =
     (case get_bundle pluginName s of
        None \<Rightarrow> Fin s False
      | Some b \<Rightarrow> (case fw_start env (b_id b) (an_bundles s) of
            Ret bs \<Rightarrow> Fin (s\<lparr>an_bundles := bs\<rparr>) True | Throw e \<Rightarrow> Fin s False | UB e \<Rightarrow> Crash e))"

definition stop_plugin :: "app_env \<Rightarrow> string \<Rightarrow> app_node \<Rightarrow> (app_node, bool) run" where
  "stop_plugin env pluginName s =
     (case get_bundle pluginName s of
        None \<Rightarrow> Fin s False
      | Some b \<Rightarrow> (case fw_stop env (b_id b) (an_bundles s) of
            Ret bs \<Rightarrow> Fin (s\<lparr>an_bundles := bs\<rparr>) True | Throw e \<Rightarrow> Fin s False | UB e \<Rightarrow> Crash e))"

type_synonym app_case = "app_env \<Rightarrow> NodeCmd \<Rightarrow> NodeCmdReply \<Rightarrow> app_node \<Rightarrow> (app_node, NodeCmdReply) run"

abbreviation ok_reply :: "NodeCmdReply \<Rightarrow> NodeCmdReply" where
  "ok_reply r \<equiv> r\<lparr>nr_status := SUCCESS\<rparr>"

definition app_reboot :: app_case where
  "app_reboot env c r s =
     (if has_text ''REBOOT'' (nc_cmd c)
      then Fin (s\<lparr>an_shell := an_shell s @ [''shutdown -r -t 0'']\<rparr>) (ok_reply r) else Fin s r)"

definition app_addplugin :: app_case where
  "app_addplugin env c r s =
     (if has_text ''ADDPLUGIN'' (nc_cmd c) \<and> nc_paras c \<noteq> []
      then let dll = nc_paras c @ (if ae_osType env = ''windows'' then ''.dll'' else ''.so'')
        in case fw_install env dll (an_bundles s) of
             UB e \<Rightarrow> Crash e
           | Throw e \<Rightarrow> Fin s (setLsPluginDesc s r)
           | Ret bs \<Rightarrow>
               (let s1 = s\<lparr>an_bundles := bs,
                     symbolicNameToId := fold (\<lambda>b. AList.update (b_name b) (b_id b)) bs (symbolicNameToId s)\<rparr>
                in Fin s1 (setLsPluginDesc s1 (ok_reply r)))
      else Fin s r)"

text \<open>Uninstalling an unknown bundle throws, which is caught.\<close>

definition app_removeplugin :: app_case where
  "app_removeplugin env c r s =
     (if has_text ''REMOVEPLUGIN'' (nc_cmd c) \<and> nc_paras c \<noteq> []
      then case get_bundle (nc_paras c) s of
          None \<Rightarrow> Fin s (setLsPluginDesc s r)
        | Some b \<Rightarrow>
            (case fw_uninstall env (b_id b) (an_bundles s) of
               UB e \<Rightarrow> Crash e
             | Throw e \<Rightarrow> Fin s (setLsPluginDesc s r)
             | Ret bs \<Rightarrow> let s1 = s\<lparr>an_bundles := bs\<rparr> in Fin s1 (setLsPluginDesc s1 (ok_reply r)))
      else Fin s r)"

definition app_startplugin :: app_case where
  "app_startplugin env c r s =
     (if has_text ''STARTPLUGIN'' (nc_cmd c) \<and> nc_paras c \<noteq> []
      then bind_run (start_plugin env (nc_paras c) s) (\<lambda>s ok. Fin s (setLsPluginDesc s (if ok then ok_reply r else r)))
      else Fin s r)"

definition app_stopplugin :: app_case where
  "app_stopplugin env c r s =
     (if has_text ''STOPPLUGIN'' (nc_cmd c) \<and> nc_paras c \<noteq> []
      then bind_run (stop_plugin env (nc_paras c) s) (\<lambda>s ok. Fin s (setLsPluginDesc s (if ok then ok_reply r else r)))
      else Fin s r)"

definition app_restartplugin :: app_case where
  "app_restartplugin env c r s =
     (if has_text ''RESTARTPLUGIN'' (nc_cmd c) \<and> nc_paras c \<noteq> []
      then bind_run (stop_plugin env (nc_paras c) s) (\<lambda>s _.
        bind_run (start_plugin env (nc_paras c) s) (\<lambda>s ok. Fin s (setLsPluginDesc s (if ok then ok_reply r else r))))
      else Fin s r)"

definition app_lsplugin :: app_case where
  "app_lsplugin env c r s =
     (if has_text ''LSPLUGIN'' (nc_cmd c) then Fin s (ok_reply (setLsPluginDesc s r)) else Fin s r)"

section \<open>Applications\<close>

text \<open>
  The applications' cases look whether the program exists, below the directory \<open>paras_1\<close>, and
  list the processes when they are done.
\<close>

definition app_exists :: "app_env \<Rightarrow> NodeCmd \<Rightarrow> app_node \<Rightarrow> (app_node, bool) run" where
  "app_exists env c s = look (pc_exists (ae_poco env) (trim (nc_paras_1 c @ nc_cmd c)) (an_disk s)) s"

definition list_apps :: "app_env \<Rightarrow> NodeCmdReply \<Rightarrow> app_node \<Rightarrow> (app_node, NodeCmdReply) run" where
  "list_apps env r s = bind_run (pm_call (ls_process (ae_pm env)) s) (\<lambda>s _. Fin s (ok_reply (setLsAppDesc s r)))"

text \<open>The answer to a call that returned true, and to one that returned false, which is a success too.\<close>

definition listed_if :: "app_env \<Rightarrow> NodeCmdReply \<Rightarrow> bool \<Rightarrow> app_node \<Rightarrow> (app_node, NodeCmdReply) run" where
  "listed_if env r ok s = (if ok then list_apps env r s else Fin s (ok_reply r))"

definition app_addapp :: app_case where
  "app_addapp env c r s =
     (if length (nc_cmd c) > 1
      then bind_run (app_exists env c s) (\<lambda>s e.
        if e
        then let (ok, p) = add_process (ae_pm env) (app_uuid c) (nc_paras_1 c)
                   (trim (nc_cmd c) @ '' '' @ trim (nc_paras c)) True (an_pm s)
          in listed_if env r ok (s\<lparr>an_pm := p\<rparr>)
        else Fin s r)
      else Fin s (r\<lparr>nr_status := INVALID\<rparr>))"

definition app_removeapp :: app_case where
  "app_removeapp env c r s =
     (if length (nc_cmd c) > 1
      then bind_run (app_exists env c s) (\<lambda>s e.
        if e then bind_run (pm_call (remove_process (ae_pm env) (app_uuid c)) s) (\<lambda>s ok. listed_if env r ok s)
        else Fin s (r\<lparr>nr_status := INVALID\<rparr>))
      else Fin s (r\<lparr>nr_status := INVALID\<rparr>))"

definition app_startapp :: app_case where
  "app_startapp env c r s =
     (if length (nc_cmd c) > 1
      then bind_run (app_exists env c s) (\<lambda>s e.
        if e then bind_run (pm_call (start_process (ae_pm env) (app_uuid c)) s) (\<lambda>s ok. listed_if env r ok s)
        else Fin s (r\<lparr>nr_status := INVALID\<rparr>))
      else Fin s r)"

text \<open>The last two set the status to success at their end whatever happened before.\<close>

definition app_stopapp :: app_case where
  "app_stopapp env c r s =
     bind_run (if length (nc_cmd c) > 1
       then bind_run (app_exists env c s) (\<lambda>s e.
         if e then bind_run (pm_call (kill_process (ae_pm env) (app_uuid c)) s) (\<lambda>s ok. listed_if env r ok s)
         else Fin s (r\<lparr>nr_status := INVALID\<rparr>))
       else Fin s r)
     (\<lambda>s r. Fin s (ok_reply r))"

definition app_restartapp :: app_case where
  "app_restartapp env c r s =
     bind_run (if length (nc_cmd c) > 1
       then bind_run (app_exists env c s) (\<lambda>s e.
         if e then bind_run (pm_call (kill_process (ae_pm env) (app_uuid c)) s) (\<lambda>s ok.
           if ok then bind_run (pm_call (start_process (ae_pm env) (app_uuid c)) s) (\<lambda>s _. list_apps env r s)
           else Fin s (ok_reply r))
         else Fin s (r\<lparr>nr_status := INVALID\<rparr>))
       else Fin s r)
     (\<lambda>s r. Fin s (ok_reply r))"

definition app_lsapp :: app_case where
  "app_lsapp env c r s = (if has_text ''LSAPP'' (nc_cmd c) then list_apps env r s else Fin s r)"

section \<open>Log tracing, shell commands, containers\<close>

definition app_starttracelog :: app_case where
  "app_starttracelog env c r s =
     (if length (nc_cmd c) > 1
      then let path = trim (nc_cmd c) in bind_run (look (pc_exists (ae_poco env) path (an_disk s)) s) (\<lambda>s e.
        if e
        then let s1 = s\<lparr>an_logs := startMonitoring path (an_logs s)\<rparr>
          in Fin s1 (r\<lparr>nr_desc := getActiveMonitors (ae_array env) (an_logs s1), nr_status := SUCCESS\<rparr>)
        else Fin s (r\<lparr>nr_status := INVALID\<rparr>))
      else Fin s r)"

definition app_stoptracelog :: app_case where
  "app_stoptracelog env c r s =
     (if length (nc_cmd c) > 1
      then let path = trim (nc_cmd c) in bind_run (look (pc_exists (ae_poco env) path (an_disk s)) s) (\<lambda>s e.
        if e
        then let s1 = s\<lparr>an_logs := stopMonitoring path (an_logs s)\<rparr>
          in Fin s1 (r\<lparr>nr_desc := getActiveMonitors (ae_array env) (an_logs s1), nr_status := SUCCESS\<rparr>)
        else Fin s (r\<lparr>nr_status := INVALID\<rparr>))
      else Fin s r)"

definition app_lstracelog :: app_case where
  "app_lstracelog env c r s = Fin s (r\<lparr>nr_desc := getActiveMonitors (ae_array env) (an_logs s), nr_status := SUCCESS\<rparr>)"

definition exec_uuid :: "NodeCmd \<Rightarrow> string" where
  "exec_uuid c = trim (nc_cmd c) @ '' '' @ trim (nc_paras c)"

definition app_startexec :: app_case where
  "app_startexec env c r s =
     (if length (nc_cmd c) > 1
      then bind_run (exec_call (execute_command (ae_exec env) (exec_uuid c)) s) (\<lambda>s _.
        Fin s (r\<lparr>nr_desc := get_output (ae_exec env) (exec_uuid c) (an_exec s), nr_status := SUCCESS\<rparr>))
      else Fin s r)"

definition list_exec :: "app_env \<Rightarrow> NodeCmdReply \<Rightarrow> app_node \<Rightarrow> (app_node, NodeCmdReply) run" where
  "list_exec env r s = bind_run (exec_call (getAllProcesses (ae_exec env)) s) (\<lambda>s d.
     Fin s (r\<lparr>nr_desc := d, nr_status := SUCCESS\<rparr>))"

text \<open>\<open>STOPEXEC\<close> and \<open>RMEXEC\<close> have the same body.\<close>

definition app_stopexec :: app_case where
  "app_stopexec env c r s =
     (if length (nc_cmd c) > 1
      then bind_run (exec_call (kill_command (exec_uuid c)) s) (\<lambda>s _. list_exec env r s)
      else Fin s r)"

definition app_lsexec :: app_case where
  "app_lsexec env c r s = (if length (nc_cmd c) > 1 then list_exec env r s else Fin s r)"

text \<open>\<open>init\<close> has made the podman manager before the worker starts.\<close>

definition app_podman :: app_case where
  "app_podman env c r s = podman_call (podman_command (ae_podman env) c r) s"

section \<open>The worker\<close>

definition enqueue_app_reply :: "NodeCmdReply \<Rightarrow> app_node \<Rightarrow> app_node" where
  "enqueue_app_reply r s = s\<lparr>an_queues := (an_queues s)\<lparr>mainCmdReplyQueueOut := enqueue r (mainCmdReplyQueueOut (an_queues s))\<rparr>\<rparr>"

datatype worker_end = GoOn | Exit0

text \<open>
  \<open>RESTART\<close> is the case of its own: it kills every process, answers and leaves the program; without
  the word in the command it does not even answer.
\<close>

definition app_restart :: "app_env \<Rightarrow> NodeCmd \<Rightarrow> NodeCmdReply \<Rightarrow> app_node \<Rightarrow> (app_node, worker_end) run" where
  "app_restart env c r s =
     (if has_text ''RESTART'' (nc_cmd c)
      then bind_run (pm_call (kill_all_process (ae_pm env)) s) (\<lambda>s ok.
        Fin (enqueue_app_reply (r\<lparr>nr_status := if ok then SUCCESS else INVALID\<rparr>) s) Exit0)
      else Fin s GoOn)"

definition app_reply :: "app_env \<Rightarrow> NodeCmd \<Rightarrow> string \<Rightarrow> NodeCmdReply" where
  "app_reply env c uuid = \<lparr>nr_uuid = uuid, nr_src_node_id = ae_nodeId env, nr_src_node_name = ae_nodeName env,
     nr_to_node_id = nc_src_node_id c, nr_to_node_name = nc_src_node_name c,
     nr_cmd_reply_uuid = nc_uuid c, nr_cmd_type = nc_cmd_type c, nr_status = INVALID,
     nr_desc = [], nr_desc_str = [], nr_result = []\<rparr>"

text \<open>The case of a command type, \<open>None\<close> for the default case, which only answers.\<close>

fun case_of :: "CmdType \<Rightarrow> app_case option" where
  "case_of REBOOT = Some app_reboot"
| "case_of ADDPLUGIN = Some app_addplugin"
| "case_of REMOVEPLUGIN = Some app_removeplugin"
| "case_of STARTPLUGIN = Some app_startplugin"
| "case_of STOPPLUGIN = Some app_stopplugin"
| "case_of RESTARTPLUGIN = Some app_restartplugin"
| "case_of LSPLUGIN = Some app_lsplugin"
| "case_of ADDAPP = Some app_addapp"
| "case_of REMOVEAPP = Some app_removeapp"
| "case_of STARTAPP = Some app_startapp"
| "case_of STOPAPP = Some app_stopapp"
| "case_of RESTARTAPP = Some app_restartapp"
| "case_of LSAPP = Some app_lsapp"
| "case_of STARTTRACELOG = Some app_starttracelog"
| "case_of STOPTRACELOG = Some app_stoptracelog"
| "case_of LSTRACELOG = Some app_lstracelog"
| "case_of STARTEXEC = Some app_startexec"
| "case_of STOPEXEC = Some app_stopexec"
| "case_of RMEXEC = Some app_stopexec"
| "case_of LSEXEC = Some app_lsexec"
| "case_of PODMANCMD = Some app_podman"
| "case_of _ = None"

definition process_command :: "app_env \<Rightarrow> NodeCmd \<Rightarrow> app_node \<Rightarrow> (app_node, worker_end) run" where
  "process_command env c s =
     (let r = app_reply env c (ae_uuid env (an_tick s)); s1 = s\<lparr>an_tick := Suc (an_tick s)\<rparr>
      in catch_run
        (if nc_cmd_type c = RESTART then app_restart env c r s1
         else case case_of (nc_cmd_type c) of
             None \<Rightarrow> Fin (enqueue_app_reply r s1) GoOn
           | Some f \<Rightarrow> bind_run (f env c r s1) (\<lambda>s r. Fin (enqueue_app_reply r s) GoOn))
        (\<lambda>s e. Fin s GoOn))"

definition worker_turn :: "app_env \<Rightarrow> app_node \<Rightarrow> (app_node, worker_end) run" where
  "worker_turn env s =
     (case try_dequeue (mainCmdQueueIn (an_queues s)) of
        None \<Rightarrow> Fin s GoOn
      | Some (c, rest) \<Rightarrow> process_command env c (s\<lparr>an_queues := (an_queues s)\<lparr>mainCmdQueueIn := rest\<rparr>\<rparr>))"

text \<open>
  The start: every configured process is added, and started when its state is 2. \<open>trim\<close> changes the
  path and the parameters in place, so the uuid is made of the trimmed ones.
\<close>

fun self_start :: "app_env \<Rightarrow> PROCESS list \<Rightarrow> app_node \<Rightarrow> (app_node, unit) run" where
  "self_start env [] s = Fin s ()"
| "self_start env (p # ps) s =
     (let path = trim (p_path p); paras = trim (p_paras p);
          uuid = combUuid (p_add_paras1 p) path paras (p_add_paras2 p);
          (ok, m) = add_process (ae_pm env) uuid (p_add_paras1 p) (path @ '' '' @ paras) (p_keep_live p) (an_pm s);
          s1 = s\<lparr>an_pm := m\<rparr>
      in bind_run (if p_state p = 2 then pm_call (start_process (ae_pm env) uuid) s1 else Fin s1 True)
           (\<lambda>s _. self_start env ps s))"

section \<open>Every case answers the command it was given\<close>

definition keeps_app :: "('a \<Rightarrow> bool) \<Rightarrow> msg_queues \<Rightarrow> (app_node, 'a) run \<Rightarrow> bool" where
  "keeps_app P q = run_post (\<lambda>s x. an_queues s = q \<and> P x) (\<lambda>s. an_queues s = q)"

lemma keeps_app_simps [simp]:
  "keeps_app P q (Fin s x) \<longleftrightarrow> an_queues s = q \<and> P x" "keeps_app P q (Exc s e) \<longleftrightarrow> an_queues s = q"
  "keeps_app P q (Crash e)" "keeps_app P q Hang"
  by (simp_all add: keeps_app_def)

lemma keeps_app_bind:
  assumes "keeps_app R q m" and "\<And>s x. an_queues s = q \<Longrightarrow> R x \<Longrightarrow> keeps_app P q (f s x)"
  shows "keeps_app P q (bind_run m f)"
  using assms unfolding keeps_app_def by (auto intro: run_post_bind)

lemma keeps_app_call:
  "an_queues s = q \<Longrightarrow> keeps_app (\<lambda>_. True) q (pm_call f s)"
  "an_queues s = q \<Longrightarrow> keeps_app (\<lambda>_. True) q (exec_call g s)"
  "an_queues s = q \<Longrightarrow> keeps_app (\<lambda>_. True) q (look m s)"
  "an_queues s = q \<Longrightarrow> keeps_app (\<lambda>_. True) q (app_exists env c s)"
  "an_queues s = q \<Longrightarrow> keeps_app (\<lambda>_. True) q (start_plugin env name s)"
  "an_queues s = q \<Longrightarrow> keeps_app (\<lambda>_. True) q (stop_plugin env name s)"
  by (auto simp: pm_call_def exec_call_def on_part_def look_def app_exists_def start_plugin_def stop_plugin_def
      split: run.split outcome.split option.split)

lemma answers_desc_str [simp]:
  "answers r (r'\<lparr>nr_desc_str := d\<rparr>) \<longleftrightarrow> answers r r'"
  "answers r (setLsPluginDesc s r') \<longleftrightarrow> answers r r'" "answers r (setLsAppDesc s r') \<longleftrightarrow> answers r r'"
  by (simp_all add: answers_def setLsPluginDesc_def setLsAppDesc_def Let_def)

lemma keeps_list:
  "an_queues s = q \<Longrightarrow> answers r0 r \<Longrightarrow> keeps_app (answers r0) q (list_apps env r s)"
  "an_queues s = q \<Longrightarrow> answers r0 r \<Longrightarrow> keeps_app (answers r0) q (listed_if env r ok s)"
  "an_queues s = q \<Longrightarrow> answers r0 r \<Longrightarrow> keeps_app (answers r0) q (list_exec env r s)"
  unfolding list_apps_def listed_if_def list_exec_def
  by (auto intro!: keeps_app_bind [of "\<lambda>_. True"] keeps_app_call)

lemma keeps_then_ok: "keeps_app (answers r) q m \<Longrightarrow> keeps_app (answers r) q (bind_run m (\<lambda>s r. Fin s (ok_reply r)))"
  by (erule keeps_app_bind) simp

lemmas keeps_app_intros = keeps_app_bind [of "\<lambda>_. True"] keeps_app_call keeps_list

text \<open>
  What a turn may do to the queues: append at most one reply, which answers the command; it must be
  there when \<open>must\<close> holds.
\<close>

definition replied :: "NodeCmdReply \<Rightarrow> bool \<Rightarrow> msg_queues \<Rightarrow> app_node \<Rightarrow> bool" where
  "replied r must q s' \<longleftrightarrow> (\<exists>rs. length rs \<le> 1 \<and> (\<forall>r' \<in> set rs. answers r r') \<and> (must \<longrightarrow> rs \<noteq> []) \<and>
     an_queues s' = q\<lparr>mainCmdReplyQueueOut := mainCmdReplyQueueOut q @ rs\<rparr>)"

lemma replied_none: "\<not> must \<Longrightarrow> an_queues s' = q \<Longrightarrow> replied r must q s'"
  unfolding replied_def by (intro exI [of _ "[]"]) simp

lemma replied_one: "answers r r' \<Longrightarrow> an_queues s' = q \<Longrightarrow> replied r must q (enqueue_app_reply r' s')"
  unfolding replied_def by (intro exI [of _ "[r']"]) (simp add: enqueue_app_reply_def enqueue_def)

locale app_command =
  fixes f :: app_case
  assumes keeps: "keeps_app (answers r) (an_queues s) (f env c r s)"
begin

lemma answered_at_most_once:
  "run_post (\<lambda>s' e. replied r (case f env c r s of Fin _ _ \<Rightarrow> True | _ \<Rightarrow> False) (an_queues s) s') (\<lambda>_. False)
     (catch_run (bind_run (f env c r s) (\<lambda>s r. Fin (enqueue_app_reply r s) GoOn)) (\<lambda>s e. Fin s GoOn))"
  using keeps [of r s env c] by (cases "f env c r s") (auto intro: replied_one replied_none)

end

interpretation a_reboot: app_command app_reboot
  by unfold_locales (simp add: app_reboot_def)

interpretation a_addplugin: app_command app_addplugin
  by unfold_locales (simp add: app_addplugin_def Let_def split: outcome.split)

interpretation a_removeplugin: app_command app_removeplugin
  by unfold_locales (simp add: app_removeplugin_def Let_def split: outcome.split option.split)

interpretation a_startplugin: app_command app_startplugin
  by unfold_locales (auto simp: app_startplugin_def intro!: keeps_app_intros)

interpretation a_stopplugin: app_command app_stopplugin
  by unfold_locales (auto simp: app_stopplugin_def intro!: keeps_app_intros)

interpretation a_restartplugin: app_command app_restartplugin
  by unfold_locales (auto simp: app_restartplugin_def intro!: keeps_app_intros)

interpretation a_lsplugin: app_command app_lsplugin
  by unfold_locales (simp add: app_lsplugin_def)

interpretation a_addapp: app_command app_addapp
  by unfold_locales (auto simp: app_addapp_def Let_def intro!: keeps_app_intros split: prod.split)

interpretation a_removeapp: app_command app_removeapp
  by unfold_locales (auto simp: app_removeapp_def intro!: keeps_app_intros)

interpretation a_startapp: app_command app_startapp
  by unfold_locales (auto simp: app_startapp_def intro!: keeps_app_intros)

interpretation a_stopapp: app_command app_stopapp
  by unfold_locales (unfold app_stopapp_def, rule keeps_then_ok, auto intro!: keeps_app_intros)

interpretation a_restartapp: app_command app_restartapp
  by unfold_locales (unfold app_restartapp_def, rule keeps_then_ok, auto intro!: keeps_app_intros)

interpretation a_lsapp: app_command app_lsapp
  by unfold_locales (auto simp: app_lsapp_def intro!: keeps_list)

interpretation a_starttracelog: app_command app_starttracelog
  by unfold_locales (auto simp: app_starttracelog_def Let_def intro!: keeps_app_intros)

interpretation a_stoptracelog: app_command app_stoptracelog
  by unfold_locales (auto simp: app_stoptracelog_def Let_def intro!: keeps_app_intros)

interpretation a_lstracelog: app_command app_lstracelog
  by unfold_locales (simp add: app_lstracelog_def)

interpretation a_startexec: app_command app_startexec
  by unfold_locales (auto simp: app_startexec_def intro!: keeps_app_intros)

interpretation a_stopexec: app_command app_stopexec
  by unfold_locales (auto simp: app_stopexec_def intro!: keeps_app_intros)

interpretation a_lsexec: app_command app_lsexec
  by unfold_locales (auto simp: app_lsexec_def intro!: keeps_list)

interpretation a_podman: app_command app_podman
  by unfold_locales
    (auto simp: app_podman_def podman_call_def podman_command_def on_part_def split: run.split)

text \<open>
  A command whose case comes to its end, without an exception; \<open>RESTART\<close> is not among them. And what
  a turn may do to the queues, for every command type.
\<close>

definition case_finishes :: "app_env \<Rightarrow> NodeCmd \<Rightarrow> app_node \<Rightarrow> bool" where
  "case_finishes env c s = (case case_of (nc_cmd_type c) of
     None \<Rightarrow> nc_cmd_type c \<noteq> RESTART
   | Some f \<Rightarrow> (case f env c (app_reply env c (ae_uuid env (an_tick s))) (s\<lparr>an_tick := Suc (an_tick s)\<rparr>) of
       Fin _ _ \<Rightarrow> True | _ \<Rightarrow> False))"

lemma case_of_command: "case_of t = Some f \<Longrightarrow> app_command f"
  by (cases t) (auto intro: a_reboot.app_command_axioms a_addplugin.app_command_axioms a_removeplugin.app_command_axioms
    a_startplugin.app_command_axioms a_stopplugin.app_command_axioms a_restartplugin.app_command_axioms
    a_lsplugin.app_command_axioms a_addapp.app_command_axioms a_removeapp.app_command_axioms
    a_startapp.app_command_axioms a_stopapp.app_command_axioms a_restartapp.app_command_axioms
    a_lsapp.app_command_axioms a_starttracelog.app_command_axioms a_stoptracelog.app_command_axioms
    a_lstracelog.app_command_axioms a_startexec.app_command_axioms a_stopexec.app_command_axioms
    a_lsexec.app_command_axioms a_podman.app_command_axioms)

lemma restart_answered:
  "run_post (\<lambda>s' e. replied r False (an_queues s) s') (\<lambda>_. False)
     (catch_run (app_restart env c r s) (\<lambda>s e. Fin s GoOn))"
proof -
  have "keeps_app (\<lambda>_. True) (an_queues s) (pm_call (kill_all_process (ae_pm env)) s)"
    by (rule keeps_app_call) simp
  then show ?thesis
    by (cases "pm_call (kill_all_process (ae_pm env)) s") (auto simp: app_restart_def intro: replied_one replied_none)
qed

lemma command_answered:
  "run_post (\<lambda>s' e. replied (app_reply env c (ae_uuid env (an_tick s))) (case_finishes env c s) (an_queues s) s') (\<lambda>_. False)
     (process_command env c s)"
proof -
  let ?r = "app_reply env c (ae_uuid env (an_tick s))" and ?s1 = "s\<lparr>an_tick := Suc (an_tick s)\<rparr>"
  consider (restart) "nc_cmd_type c = RESTART" | (other) "nc_cmd_type c \<noteq> RESTART" "case_of (nc_cmd_type c) = None"
    | (some) f where "nc_cmd_type c \<noteq> RESTART" "case_of (nc_cmd_type c) = Some f" by blast
  then show ?thesis
  proof cases
    case restart
    then show ?thesis using restart_answered [of ?r ?s1 env c] by (simp add: process_command_def case_finishes_def)
  next
    case other
    then show ?thesis by (simp add: process_command_def Let_def replied_one)
  next
    case some
    then show ?thesis
      using app_command.answered_at_most_once [OF case_of_command, where r = ?r and s = ?s1 and env = env and c = c]
      by (simp add: process_command_def case_finishes_def Let_def)
  qed
qed

section \<open>Properties\<close>

text \<open>
  C14. A turn of the application worker never throws. It takes at most one command from the queue,
  and changes the queues besides at most by one reply at the end of \<open>mainCmdReplyQueueOut_\<close>,
  which answers that command: it carries the command's uuid and type and goes from this node to
  the node that sent it. When the command's case comes to its end the reply is there.
\<close>

theorem app_command_answered:
  "run_post (\<lambda>s' e.
      (mainCmdQueueIn (an_queues s) = [] \<and> s' = s) \<or>
      (\<exists>c rest rs. mainCmdQueueIn (an_queues s) = c # rest \<and> length rs \<le> 1 \<and>
         (case_finishes env c (s\<lparr>an_queues := (an_queues s)\<lparr>mainCmdQueueIn := rest\<rparr>\<rparr>) \<longrightarrow> rs \<noteq> []) \<and>
         (\<forall>r \<in> set rs. nr_cmd_reply_uuid r = nc_uuid c \<and> nr_cmd_type r = nc_cmd_type c \<and>
            nr_src_node_id r = ae_nodeId env \<and> nr_to_node_id r = nc_src_node_id c) \<and>
         an_queues s' = (an_queues s)\<lparr>mainCmdQueueIn := rest,
           mainCmdReplyQueueOut := mainCmdReplyQueueOut (an_queues s) @ rs\<rparr>))
    (\<lambda>_. False) (worker_turn env s)"
proof (cases "mainCmdQueueIn (an_queues s)")
  case Nil
  then show ?thesis by (simp add: worker_turn_def try_dequeue_def)
next
  case (Cons c rest)
  let ?s1 = "s\<lparr>an_queues := (an_queues s)\<lparr>mainCmdQueueIn := rest\<rparr>\<rparr>"
  have "worker_turn env s = process_command env c ?s1" using Cons by (simp add: worker_turn_def try_dequeue_def)
  then show ?thesis using command_answered [of env c ?s1] Cons
    by (auto simp: answers_def app_reply_def replied_def elim!: run_post_weaken)
qed

definition demo_app_env :: app_env where
  "demo_app_env = \<lparr>ae_pm = demo_pm_env, ae_podman = demo_podman_env, ae_exec = demo_exec_env, ae_poco = demo_poco,
     ae_array = concat, ae_uuid = to_string, ae_nodeId = ''n'', ae_nodeName = ''N'', ae_osType = ''linux'',
     fw_install = (\<lambda>p bs. Throw ''no bundle''), fw_uninstall = (\<lambda>i bs. Throw ''no bundle''),
     fw_start = (\<lambda>i bs. Ret bs), fw_stop = (\<lambda>i bs. Ret bs)\<rparr>"

definition demo_app_node :: "NodeCmd list \<Rightarrow> app_node" where
  "demo_app_node cs = \<lparr>an_pm = snd (add_process demo_pm_env ''f'' [] ''f '' True demo_pm), an_podman = demo_podman,
     an_exec = \<lparr>executors = [], process_handles = [], process_running = []\<rparr>, an_logs = LogMonitorManager no_topic_info,
     an_bundles = [], symbolicNameToId = [],
     an_queues = \<lparr>mainCmdQueueIn = cs, mainCmdReplyQueueOut = [], fileDataQueueIn = [], fileDataReplyQueueOut = []\<rparr>,
     an_shell = [], an_tick = 0\<rparr>"

theorem app_command_answered_witness:
  "\<exists>s' r. worker_turn demo_app_env (demo_app_node [demo_command LSPLUGIN ''LSPLUGIN'' []]) = Fin s' GoOn \<and>
     mainCmdReplyQueueOut (an_queues s') = [r] \<and> nr_cmd_reply_uuid r = ''u''"
proof -
  let ?c = "demo_command LSPLUGIN ''LSPLUGIN'' []"
  have t: "nc_cmd_type ?c = LSPLUGIN" and u: "nc_uuid ?c = ''u''" by (simp_all add: demo_command_def)
  have q: "mainCmdQueueIn (an_queues (demo_app_node [?c])) = [?c]"
    "mainCmdReplyQueueOut (an_queues (demo_app_node [?c])) = []" by (simp_all add: demo_app_node_def)
  have fin: "case_finishes demo_app_env ?c s" for s by (simp add: case_finishes_def t app_lsplugin_def)
  obtain s' where s': "worker_turn demo_app_env (demo_app_node [?c]) = Fin s' GoOn"
    using q by (cases "has_text ''LSPLUGIN'' (nc_cmd ?c)") (simp_all add: worker_turn_def try_dequeue_def process_command_def t app_lsplugin_def Let_def)
  from app_command_answered [of "demo_app_node [?c]" demo_app_env] q fin obtain rs where
    "length rs \<le> 1" "rs \<noteq> []" "\<forall>r \<in> set rs. nr_cmd_reply_uuid r = ''u''"
    "mainCmdReplyQueueOut (an_queues s') = rs" unfolding s' u [symmetric] by auto
  with s' show ?thesis by (cases rs) auto
qed

text \<open>The calls of the process manager as the worker sees them.\<close>

lemma pm_call_Fin: "f (an_pm s) = Fin p x \<Longrightarrow> pm_call f s = Fin (s\<lparr>an_pm := p\<rparr>) x"
  by (simp add: pm_call_def on_part_def)

text \<open>
  \<open>RESTARTAPP\<close> for the last process of the table, one that ends when it is told to: the process
  is stopped and taken out of the table; it is not started again, and nothing but the other
  processes of the table can be; the command is answered with success.
\<close>

theorem restart_app_forgets:
  assumes "nc_cmd_type c = RESTARTAPP" and "length (nc_cmd c) > 1"
    and "pc_exists (ae_poco env) (trim (nc_paras_1 c @ nc_cmd c)) (an_disk s) = Ret True"
    and "m_instances (an_pm s) = ps @ [p]" and "pa_uuid p = app_uuid c" and "distinct (uuids (an_pm s))"
    and "calm (ae_pm env)" and "\<forall>t p. pe_wait (ae_pm env) t p = Some True" and "\<forall>t p. pe_terminate (ae_pm env) t p"
  shows "\<exists>s' r. process_command env c s = Fin s' GoOn \<and> uuids (an_pm s') = map pa_uuid ps \<and>
    spawned (pm_events (an_pm s')) \<subseteq> spawned (pm_events (an_pm s)) \<union> pa_uuid ` set ps \<and>
    app_uuid c \<notin> pa_uuid ` set ps \<and>
    mainCmdReplyQueueOut (an_queues s') = mainCmdReplyQueueOut (an_queues s) @ [r] \<and>
    nr_status r = SUCCESS \<and> nr_cmd_reply_uuid r = nc_uuid c"
proof -
  let ?e = "ae_pm env" and ?u = "app_uuid c"
  let ?r = "app_reply env c (ae_uuid env (an_tick s))" and ?s1 = "s\<lparr>an_tick := Suc (an_tick s)\<rparr>"
  obtain p1 where p1: "kill_process ?e ?u (an_pm s) = Fin p1 True" "m_instances p1 = ps" "start_process ?e ?u p1 = Fin p1 False"
    using kill_process_effect [of "an_pm s" "length ps" ?u ?e] assms(4-6,8,9) by (auto simp: nth_append)
  have sp1: "spawned (pm_events p1) = spawned (pm_events (an_pm s))"
    using kill_launches_nothing [OF refl, where env = ?e and u = ?u and st = "an_pm s"] p1(1) by simp
  obtain p2 b where p2: "listener ?e p1 = Fin p2 b" using listener_finishes [OF assms(7)] by blast
  have u1: "uuids p1 = map pa_uuid ps" by (simp add: uuids_def p1(2))
  have d1: "distinct (uuids p1)" using assms(4,6) by (simp add: u1) (simp add: uuids_def)
  have u2: "uuids p2 = uuids p1"
    using listener_core [OF refl d1 [unfolded uuids_core], of ?e] p2 by (simp add: uuids_core)
  have sp2: "spawned (pm_events p2) \<subseteq> spawned (pm_events (an_pm s)) \<union> pa_uuid ` set ps"
    using launches_own_listener [OF p2] sp1 u1 by simp
  let ?s2 = "?s1\<lparr>an_pm := p2\<rparr>"
  have "app_restartapp env c ?r ?s1 = Fin ?s2 (ok_reply (ok_reply (setLsAppDesc ?s2 ?r)))"
    using assms(2,3) p1 p2
    by (simp add: app_restartapp_def app_exists_def look_def pm_call_def on_part_def list_apps_def ls_process_def)
  then have "process_command env c s = Fin (enqueue_app_reply (ok_reply (ok_reply (setLsAppDesc ?s2 ?r))) ?s2) GoOn"
    using assms(1) by (simp add: process_command_def Let_def)
  moreover have "?u \<notin> pa_uuid ` set ps" using assms(4-6) by (auto simp: uuids_def)
  ultimately show ?thesis using u1 u2 sp2
    by (simp add: enqueue_app_reply_def enqueue_def setLsAppDesc_def app_reply_def Let_def)
qed

lemma trim_witness: "trim ''  f  '' = ''f''" "trim '' f'' = ''f''"
  by code_simp+

theorem restart_app_forgets_witness:
  "\<exists>s' r. process_command demo_app_env (demo_command RESTARTAPP '' f'' [])
       (demo_app_node []) = Fin s' GoOn \<and> uuids (an_pm s') = [] \<and> spawned (pm_events (an_pm s')) = {} \<and>
     mainCmdReplyQueueOut (an_queues s') = [r] \<and> nr_status r = SUCCESS"
proof -
  let ?c = "demo_command RESTARTAPP '' f'' []"
  have u: "app_uuid ?c = ''f''" by (simp add: app_uuid_def combUuid_def demo_command_def trim_witness)
  obtain p where p: "m_instances (an_pm (demo_app_node [])) = [] @ [p]" "pa_uuid p = app_uuid ?c"
    unfolding u by (simp add: demo_app_node_def demo_pm_def add_process_def Let_def emit_def)
  have d: "distinct (uuids (an_pm (demo_app_node [])))" using p(1) by (simp add: uuids_def)
  have q: "mainCmdReplyQueueOut (an_queues (demo_app_node [])) = []" by (simp add: demo_app_node_def)
  have e: "spawned (pm_events (an_pm (demo_app_node []))) = {}"
    by (simp add: demo_app_node_def demo_pm_def add_process_def Let_def emit_def spawned_def)
  have x: "pc_exists (ae_poco demo_app_env) (trim (nc_paras_1 ?c @ nc_cmd ?c)) (an_disk (demo_app_node [])) = Ret True"
    by (simp add: demo_app_env_def demo_poco_def demo_app_node_def demo_podman_def demo_command_def trim_witness
        demo_fs_def node_at_def is_root_def)
  have pm: "calm (ae_pm demo_app_env)" "\<forall>t p. pe_wait (ae_pm demo_app_env) t p = Some True"
    "\<forall>t p. pe_terminate (ae_pm demo_app_env) t p" by (simp_all add: demo_app_env_def demo_calm, simp_all add: demo_pm_env_def)
  show ?thesis using restart_app_forgets [OF _ _ x p d pm] q e by (auto simp: demo_command_def)
qed

end
