(* ===== verification/NodeSystem.thy ===== *)
theory NodeSystem
  imports CmdWorker "HOL-Library.Multiset"
begin

text \<open>
  The node as a whole: the command topic, the two workers and the queues they share. The threads
  of the program interleave; a step is the arrival of a command or of a reply, one turn of the
  application worker, of the file worker, or of the topic's reading or writing thread. A worker that
  crashes or hangs takes no further step.
\<close>

section \<open>The interleaving of the threads\<close>

record node =
  nd_cmd :: cmd_topic
  nd_queues :: msg_queues
  nd_app :: app_node
  nd_file :: file_node

record sys_env =
  se_cmd :: cmd_env
  se_app :: app_env
  se_file :: file_cmd_env

text \<open>The workers work on the queues of the node.\<close>

abbreviation app_view :: "node \<Rightarrow> app_node" where
  "app_view n \<equiv> (nd_app n)\<lparr>an_queues := nd_queues n\<rparr>"

abbreviation file_view :: "node \<Rightarrow> file_node" where
  "file_view n \<equiv> (nd_file n)\<lparr>fn_queues := nd_queues n\<rparr>"

inductive node_step :: "sys_env \<Rightarrow> NodeCmd list \<Rightarrow> node \<Rightarrow> node \<Rightarrow> bool" for env where
  receive: "handle_cmd (se_cmd env) c (nd_cmd n, nd_queues n) = (st, q) \<Longrightarrow>
    node_step env [c] n (n\<lparr>nd_cmd := st, nd_queues := q\<rparr>)"
| app_turn: "worker_turn (se_app env) (app_view n) = Fin a e \<Longrightarrow>
    node_step env [] n (n\<lparr>nd_app := a, nd_queues := an_queues a\<rparr>)"
| file_turn: "file_writer_turn (se_file env) rows k (file_view n) = Fin f () \<Longrightarrow>
    node_step env [] n (n\<lparr>nd_file := f, nd_queues := fn_queues f\<rparr>)"
| reply_turn: "reader_turn (se_cmd env) put1 put2 (nd_cmd n, nd_queues n) = (st, q) \<Longrightarrow>
    node_step env [] n (n\<lparr>nd_cmd := st, nd_queues := q\<rparr>)"
| send_turn: "writer_turn (se_cmd env) put_ok cmd_rows (nd_cmd n) = Fin st () \<Longrightarrow>
    node_step env [] n (n\<lparr>nd_cmd := st\<rparr>)"
| reply_in: "handle_reply (se_cmd env) r (nd_cmd n) = Fin st () \<Longrightarrow>
    node_step env [] n (n\<lparr>nd_cmd := st\<rparr>)"

text \<open>\<open>node_run env ti cs n\<close>: the node came into state \<open>n\<close> after the commands \<open>cs\<close> had arrived.\<close>

inductive node_run :: "sys_env \<Rightarrow> TopicInfo \<Rightarrow> NodeCmd list \<Rightarrow> node \<Rightarrow> bool" for env ti where
  start: "ct_info (nd_cmd n) = ti \<Longrightarrow> cmd_reply_out (nd_cmd n) = [] \<Longrightarrow>
    nd_queues n = \<lparr>mainCmdQueueIn = [], mainCmdReplyQueueOut = [], fileDataQueueIn = [], fileDataReplyQueueOut = []\<rparr> \<Longrightarrow>
    node_run env ti [] n"
| step: "node_run env ti cs n \<Longrightarrow> node_step env cs' n n' \<Longrightarrow> node_run env ti (cs @ cs') n'"

section \<open>Who is answered\<close>

text \<open>What ties a reply to its command: the uuid, the type and the node that asked.\<close>

definition asked :: "NodeCmd \<Rightarrow> string \<times> CmdType \<times> string" where
  "asked c = (nc_uuid c, nc_cmd_type c, nc_src_node_id c)"

definition answer_to :: "NodeCmdReply \<Rightarrow> string \<times> CmdType \<times> string" where
  "answer_to r = (nr_cmd_reply_uuid r, nr_cmd_type r, nr_to_node_id r)"

definition pending :: "msg_queues \<Rightarrow> (string \<times> CmdType \<times> string) multiset" where
  "pending q = image_mset asked (mset (mainCmdQueueIn q) + mset (fileDataQueueIn q)) +
     image_mset answer_to (mset (mainCmdReplyQueueOut q) + mset (fileDataReplyQueueOut q))"

definition replies_sent :: "cmd_topic \<Rightarrow> (string \<times> CmdType \<times> string) multiset" where
  "replies_sent st = image_mset answer_to (mset (cmd_reply_out st))"

lemma pending_receive:
  "pending (snd (handle_cmd env c (st, q))) \<subseteq># pending q + image_mset asked (mset (filter (for_me (ct_info st)) [c]))"
  by (simp add: handle_cmd_queues pending_def)

lemma handle_cmd_sent: "replies_sent (fst (handle_cmd env c (st, q))) = replies_sent st"
  by (simp add: handle_cmd_def Let_def replies_sent_def)

lemma replied_pending:
  assumes "replied (app_reply env c u) must q s'"
  shows "pending (an_queues s') \<subseteq># pending q + {#asked c#}"
proof -
  obtain rs where rs: "length rs \<le> 1" "\<forall>r' \<in> set rs. answers (app_reply env c u) r'"
    "an_queues s' = q\<lparr>mainCmdReplyQueueOut := mainCmdReplyQueueOut q @ rs\<rparr>" using assms unfolding replied_def by blast
  then show ?thesis
    by (cases rs) (auto simp: pending_def answers_def answer_to_def asked_def app_reply_def)
qed

lemma app_pending:
  assumes "worker_turn env s = Fin s' e"
  shows "pending (an_queues s') \<subseteq># pending (an_queues s)"
proof (cases "mainCmdQueueIn (an_queues s)")
  case Nil
  then show ?thesis using assms by (simp add: worker_turn_def try_dequeue_def)
next
  case (Cons c rest)
  let ?s1 = "s\<lparr>an_queues := (an_queues s)\<lparr>mainCmdQueueIn := rest\<rparr>\<rparr>"
  have "process_command env c ?s1 = Fin s' e" using Cons assms by (simp add: worker_turn_def try_dequeue_def)
  with command_answered [of env c ?s1] have "pending (an_queues s') \<subseteq># pending (an_queues ?s1) + {#asked c#}"
    by (auto dest: replied_pending)
  then show ?thesis using Cons by (simp add: pending_def)
qed

text \<open>The file worker: the command it takes is replaced by at most one reply; the tasks of the database leave the queues alone.\<close>

lemma file_command_pending:
  assumes "process_node_cmd env c s = Fin s' ()"
  shows "pending (fn_queues s') \<subseteq># pending (fn_queues s) + {#asked c#}"
  using process_node_cmd_queues [where env = env and c = c and s = s] assms
  by (auto simp: pending_def asked_def answer_to_def)

lemma file_pending:
  assumes "file_writer_turn env rows k s = Fin s' ()"
  shows "pending (fn_queues s') \<subseteq># pending (fn_queues s)"
proof -
  let ?P = "\<lambda>s'. pending (fn_queues s') \<subseteq># pending (fn_queues s)"
  have cmd: "run_inv ?P (case try_dequeue (fileDataQueueIn (fn_queues s)) of None \<Rightarrow> Fin s ()
      | Some (c, rest) \<Rightarrow> process_node_cmd env c (s\<lparr>fn_queues := (fn_queues s)\<lparr>fileDataQueueIn := rest\<rparr>\<rparr>))"
  proof (cases "fileDataQueueIn (fn_queues s)")
    case (Cons c rest)
    let ?s1 = "s\<lparr>fn_queues := (fn_queues s)\<lparr>fileDataQueueIn := rest\<rparr>\<rparr>"
    have "pending (fn_queues s) = pending (fn_queues ?s1) + {#asked c#}" using Cons by (simp add: pending_def)
    then show ?thesis using Cons file_command_pending [where env = env and c = c and s = ?s1] process_node_cmd_queues [where env = env and c = c and s = ?s1]
      by (cases "process_node_cmd env c ?s1") (simp_all add: try_dequeue_def)
  qed (simp add: try_dequeue_def)
  have ask: "run_inv ?P (ask m s1)" if "?P s1" for s1 and m :: "'x outcome"
    using that by (cases m) (simp_all add: ask_def)
  have lift: "run_inv ?P (lift_topic m s1)" if "?P s1" for s1 and m :: "(file_topic, unit) run"
    using that by (cases m) (simp_all add: lift_topic_def)
  have "run_inv ?P (file_writer_turn env rows k s)"
    unfolding file_writer_turn_def
    by (intro run_post_catch [of _ ?P] run_post_bind [OF cmd])
      (auto intro!: run_post_bind [OF ask] lift split: option.split)
  then show ?thesis using assms by simp
qed

text \<open>The topic: the two reply queues are emptied into the network, or a reply is lost.\<close>

lemma app_replies_pending:
  assumes "process_app_cmd_replies env put_ok (st, q) = (st', q')"
  shows "replies_sent st' + pending q' \<subseteq># replies_sent st + pending q \<and> ct_info st' = ct_info st"
  using assms
  by (cases "mainCmdReplyQueueOut q")
    (auto simp: process_app_cmd_replies_def try_dequeue_def send_reply_def replies_sent_def pending_def)

lemma file_replies_pending:
  assumes "process_file_cmd_replies env put_ok (st, q) = (st', q')"
  shows "replies_sent st' + pending q' \<subseteq># replies_sent st + pending q \<and> ct_info st' = ct_info st"
  using assms
  by (cases "fileDataReplyQueueOut q")
    (auto simp: process_file_cmd_replies_def try_dequeue_def send_reply_def replies_sent_def pending_def)

lemma reader_pending:
  assumes "reader_turn env p1 p2 (st, q) = (st', q')"
  shows "replies_sent st' + pending q' \<subseteq># replies_sent st + pending q \<and> ct_info st' = ct_info st"
proof (cases "needReply (ct_info st)")
  case True
  obtain st1 q1 where 1: "process_app_cmd_replies env p1 (st, q) = (st1, q1)" by fastforce
  with True assms have "process_file_cmd_replies env p2 (st1, q1) = (st', q')" by (simp add: reader_turn_def)
  from file_replies_pending [OF this] app_replies_pending [OF 1] show ?thesis by (auto intro: subset_mset.order_trans)
next
  case False
  then show ?thesis using assms by (simp add: reader_turn_def)
qed

text \<open>Sending commands and recording replies leave the replies alone.\<close>

lemma exec_keeps: "run_inv (\<lambda>s. cmd_reply_out s = rs \<and> ct_info s = ti) (cmd_exec env sql st)"
  if "cmd_reply_out st = rs" "ct_info st = ti"
  using that by (simp add: cmd_exec_def Let_def split: option.split)

lemma send_rows_keeps:
  "cmd_reply_out st = rs \<Longrightarrow> ct_info st = ti \<Longrightarrow>
     run_inv (\<lambda>s. cmd_reply_out s = rs \<and> ct_info s = ti) (send_rows env put_ok rows st)"
proof (induction rows arbitrary: st)
  case (Cons row rows)
  let ?I = "\<lambda>s. cmd_reply_out s = rs \<and> ct_info s = ti"
  obtain ok st1 where s1: "send_cmd env (put_ok (length rows)) (fill_cmd_message row) st = (ok, st1)" by fastforce
  with Cons.prems have "?I st1" by (auto simp: send_cmd_def split: if_splits)
  moreover from this have "run_inv ?I (update_cmd_status env (row_id row) 2 st1)"
    unfolding update_cmd_status_def by (intro run_post_bind [OF exec_keeps]) auto
  ultimately show ?case using Cons.IH s1
    by (cases ok) (auto intro!: run_post_bind [where R = "\<lambda>s _. ?I s"])
qed simp

lemma writer_turn_keeps:
  assumes "writer_turn env put_ok rows st = Fin st' ()"
  shows "cmd_reply_out st' = cmd_reply_out st \<and> ct_info st' = ct_info st"
proof -
  have "run_inv (\<lambda>s. cmd_reply_out s = cmd_reply_out st \<and> ct_info s = ct_info st) (writer_turn env put_ok rows st)"
    unfolding writer_turn_def by (rule run_post_catch [OF send_rows_keeps]) simp_all
  with assms show ?thesis by simp
qed

lemma handle_reply_keeps:
  assumes "handle_reply env r st = Fin st' ()"
  shows "cmd_reply_out st' = cmd_reply_out st \<and> ct_info st' = ct_info st"
proof -
  let ?I = "\<lambda>s. cmd_reply_out s = cmd_reply_out st \<and> ct_info s = ct_info st"
  have "run_inv ?I (record_reply env r s)" if "?I s" for s
    using that exec_keeps [of s "cmd_reply_out st" "ct_info st"]
    by (auto simp: record_reply_def Let_def split: option.split intro!: run_post_bind [where R = "\<lambda>s _. ?I s"])
  then have "run_inv ?I (handle_reply env r st)"
    unfolding handle_reply_def by (intro run_post_catch [where R = ?I]) simp_all
  with assms show ?thesis by simp
qed

section \<open>Properties\<close>

text \<open>One step of any thread: what is pending or sent grows at most by the command that arrived.\<close>

lemma node_step_pending:
  assumes "node_step env cs n n'"
  shows "ct_info (nd_cmd n') = ct_info (nd_cmd n) \<and>
    replies_sent (nd_cmd n') + pending (nd_queues n') \<subseteq>#
      replies_sent (nd_cmd n) + pending (nd_queues n) + image_mset asked (mset (filter (for_me (ct_info (nd_cmd n))) cs))"
  using assms
proof (cases rule: node_step.cases)
  case (receive c st q)
  then show ?thesis
    using pending_receive [of "se_cmd env" c "nd_cmd n" "nd_queues n"] handle_cmd_queues(2) [of "se_cmd env" c "nd_cmd n" "nd_queues n"]
      handle_cmd_sent [of "se_cmd env" c "nd_cmd n" "nd_queues n"]
    unfolding receive(3) fst_conv snd_conv by (simp add: add.assoc)
next
  case (app_turn a e)
  then show ?thesis using app_pending [OF app_turn(3)] by simp
next
  case (file_turn rows k f)
  then show ?thesis using file_pending [OF file_turn(3)] by simp
next
  case (reply_turn p1 p2 st q)
  then show ?thesis using reader_pending [OF reply_turn(3)] by simp
next
  case (send_turn put_ok rows st)
  then show ?thesis using writer_turn_keeps [OF send_turn(3)] by (simp add: replies_sent_def)
next
  case (reply_in r st)
  then show ?thesis using handle_reply_keeps [OF reply_in(3)] by (simp add: replies_sent_def)
qed

text \<open>
  C2. However the threads of a node interleave, and whatever their commands do: the replies it
  has sent, with those still queued and the commands still waiting, are never more than the
  commands addressed to it that have arrived. So it never answers a command twice, and never
  one that was not asked: every reply sent carries uuid and type of a command that arrived and
  goes to the node that sent it.
\<close>

theorem no_reply_unasked:
  assumes "node_run env ti cs n"
  shows "replies_sent (nd_cmd n) + pending (nd_queues n) \<subseteq># image_mset asked (mset (filter (for_me ti) cs))"
proof -
  have "ct_info (nd_cmd n) = ti \<and>
    replies_sent (nd_cmd n) + pending (nd_queues n) \<subseteq># image_mset asked (mset (filter (for_me ti) cs))"
    using assms
  proof induction
    case (start n)
    then show ?case by (simp add: replies_sent_def pending_def)
  next
    case (step cs n cs' n')
    with node_step_pending [OF step.hyps(2)]
    have "replies_sent (nd_cmd n') + pending (nd_queues n') \<subseteq>#
        replies_sent (nd_cmd n) + pending (nd_queues n) + image_mset asked (mset (filter (for_me ti) cs'))"
      by simp
    also have "\<dots> \<subseteq># image_mset asked (mset (filter (for_me ti) (cs @ cs')))"
      using step.IH by (simp add: subset_mset.add_right_mono)
    finally show ?case using step node_step_pending [OF step.hyps(2)] by simp
  qed
  then show ?thesis by simp
qed

definition demo_sys_env :: sys_env where
  "demo_sys_env = \<lparr>se_cmd = demo_cmd_env, se_app = demo_app_env, se_file = demo_file_cmd_env\<rparr>"

definition demo_node :: node where
  "demo_node = \<lparr>nd_cmd = demo_cmd_topic,
     nd_queues = \<lparr>mainCmdQueueIn = [], mainCmdReplyQueueOut = [], fileDataQueueIn = [], fileDataReplyQueueOut = []\<rparr>,
     nd_app = demo_app_node [], nd_file = demo_file_node [] []\<rparr>"

definition demo_ask :: NodeCmd where
  "demo_ask = (demo_command LSPLUGIN ''LSPLUGIN'' [])\<lparr>nc_to_node_id := ''x''\<rparr>"

lemma demo_run_start: "node_run demo_sys_env (ct_info demo_cmd_topic) [] demo_node"
  by (rule node_run.start) (simp_all add: demo_node_def demo_cmd_topic_def)

theorem no_reply_unasked_witness:
  "\<exists>n. node_run demo_sys_env (ct_info demo_cmd_topic) [demo_ask] n \<and>
     replies_sent (nd_cmd n) + pending (nd_queues n) \<subseteq># {#(''u'', LSPLUGIN, ''m'')#}"
proof -
  obtain st q where h: "handle_cmd (se_cmd demo_sys_env) demo_ask (nd_cmd demo_node, nd_queues demo_node) = (st, q)" by fastforce
  have r: "node_run demo_sys_env (ct_info demo_cmd_topic) [demo_ask] (demo_node\<lparr>nd_cmd := st, nd_queues := q\<rparr>)"
    using node_run.step [OF demo_run_start node_step.receive [OF h]] by simp
  have "image_mset asked (mset (filter (for_me ti) [demo_ask])) \<subseteq># {#(''u'', LSPLUGIN, ''m'')#}" for ti
    by (simp add: asked_def demo_ask_def demo_command_def)
  with no_reply_unasked [OF r] r show ?thesis by (blast intro: subset_mset.order_trans)
qed

text \<open>
  C7. The way of a command through a node: a command for the application worker arrives while the
  application queues are empty, the worker takes it and its case comes to its end, the topic's reading
  thread turns once and the network takes the message: then exactly one reply has been sent, for this
  command and to the node that asked, and the application queues are empty again.
\<close>

theorem command_round_trip:
  assumes "for_me (ct_info st) c" and "\<not> is_file_cmd (nc_cmd_type c)"
    and "mainCmdQueueIn q = []" and "mainCmdReplyQueueOut q = []" and "fileDataReplyQueueOut q = []"
    and "handle_cmd env c (st, q) = (st1, q1)"
    and "worker_turn aenv (a\<lparr>an_queues := q1\<rparr>) = Fin a' e" and "case_finishes aenv c (a\<lparr>an_queues := q\<rparr>)"
    and "\<forall>k. ae_uuid aenv k \<noteq> []"
  shows "\<exists>r st2 q2. reader_turn env True put2 (st1, an_queues a') = (st2, q2) \<and>
    cmd_reply_out st2 = cmd_reply_out st @ [r] \<and> answer_to r = asked c \<and>
    mainCmdQueueIn q2 = [] \<and> mainCmdReplyQueueOut q2 = []"
proof -
  from handle_cmd_queues [of env c st q] assms(1-3,6) have q1: "q1 = q\<lparr>mainCmdQueueIn := [c]\<rparr>"
    and info: "ct_info st1 = ct_info st" by (simp_all del: is_file_cmd.simps)
  have out1: "cmd_reply_out st1 = cmd_reply_out st" using assms(6) by (auto simp: handle_cmd_def Let_def split: if_splits)
  have qq: "q\<lparr>mainCmdQueueIn := []\<rparr> = q" using assms(3) by (cases q) simp
  have "worker_turn aenv (a\<lparr>an_queues := q1\<rparr>) = process_command aenv c (a\<lparr>an_queues := q\<rparr>)"
    by (simp add: worker_turn_def try_dequeue_def q1 qq)
  with assms(7) command_answered [of aenv c "a\<lparr>an_queues := q\<rparr>"] assms(8)
  obtain rs where rs: "length rs \<le> 1" "rs \<noteq> []"
    "\<forall>r \<in> set rs. answers (app_reply aenv c (ae_uuid aenv (an_tick a))) r"
    "an_queues a' = q\<lparr>mainCmdReplyQueueOut := mainCmdReplyQueueOut q @ rs\<rparr>"
    by (auto simp: replied_def)
  then obtain r where r: "rs = [r]" by (cases rs) auto
  have "nr_uuid r \<noteq> []" and a: "answer_to r = asked c"
    using rs(3) assms(9) by (simp_all add: r answers_def app_reply_def answer_to_def asked_def)
  then show ?thesis
    using assms(1,3-5) rs(4) info out1
    by (simp add: reader_turn_def for_me_def process_app_cmd_replies_def process_file_cmd_replies_def try_dequeue_def
        r send_reply_def)
qed

theorem command_round_trip_witness:
  "\<exists>st1 q1 a' e r st2 q2.
     handle_cmd demo_cmd_env demo_ask (demo_cmd_topic, nd_queues demo_node) = (st1, q1) \<and>
     worker_turn demo_app_env ((demo_app_node [])\<lparr>an_queues := q1\<rparr>) = Fin a' e \<and>
     reader_turn demo_cmd_env True True (st1, an_queues a') = (st2, q2) \<and>
     cmd_reply_out st2 = [r] \<and> answer_to r = (''u'', LSPLUGIN, ''m'')"
proof -
  let ?a = "demo_app_node []" and ?q = "nd_queues demo_node"
  have t: "nc_cmd_type demo_ask = LSPLUGIN" "asked demo_ask = (''u'', LSPLUGIN, ''m'')"
    by (simp_all add: demo_ask_def demo_command_def asked_def)
  obtain st1 q1 where h: "handle_cmd demo_cmd_env demo_ask (demo_cmd_topic, ?q) = (st1, q1)" by fastforce
  have me: "for_me (ct_info demo_cmd_topic) demo_ask"
    by (simp add: for_me_def demo_cmd_topic_def demo_ask_def fresh_base_def create_writer_mon_pub_def)
  have q: "mainCmdQueueIn ?q = []" "mainCmdReplyQueueOut ?q = []" "fileDataReplyQueueOut ?q = []"
    by (simp_all add: demo_node_def)
  have nf: "\<not> is_file_cmd (nc_cmd_type demo_ask)" using t by simp
  have "mainCmdQueueIn q1 = [demo_ask]" using handle_cmd_queues(1) [of demo_cmd_env demo_ask demo_cmd_topic ?q] h me nf q
    by (simp del: is_file_cmd.simps)
  then obtain a' where w: "worker_turn demo_app_env (?a\<lparr>an_queues := q1\<rparr>) = Fin a' GoOn"
    by (cases "has_text ''LSPLUGIN'' (nc_cmd demo_ask)")
      (simp_all add: worker_turn_def try_dequeue_def process_command_def t app_lsplugin_def Let_def)
  have fin: "case_finishes demo_app_env demo_ask (?a\<lparr>an_queues := ?q\<rparr>)" by (simp add: case_finishes_def t app_lsplugin_def)
  have u: "\<forall>k. ae_uuid demo_app_env k \<noteq> []" by (simp add: demo_app_env_def to_string.simps)
  have o: "cmd_reply_out demo_cmd_topic = []" by (simp add: demo_cmd_topic_def)
  from command_round_trip [OF me nf q h w fin u, of True] h w show ?thesis unfolding t(2) o append_Nil by blast
qed

end
