(* ===== verification/IniFile.thy ===== *)
theory IniFile
  imports FileStore NodeBase "HOL-Library.List_Lexorder" "HOL-Library.Char_ord"
begin

text \<open>
  The configuration file reader of \<open>utils/ini\<close>: \<open>ini.cpp\<close> reads a file line by line, in pieces of at most
  199 bytes, and calls a handler for every \<open>name=value\<close> pair; \<open>INIReader.cpp\<close> collects the values
  under the lower-case key \<open>section=name\<close> and converts them.

  The compile-time switches have their defaults: lines that begin with white space continue the value
  before them, comments begin with \<open>;\<close> or \<open>#\<close> at the start of a line or with \<open>;\<close> behind white space, a
  byte order mark is skipped, the line buffer is on the stack. A buffer holds a C string. The
  character classes are those of the C locale. \<open>GetReal\<close> (\<open>strtod\<close>) is left out.
\<close>

section \<open>ini.cpp\<close>

definition rstrip :: "string \<Rightarrow> string" where
  "rstrip s = rev (dropWhile is_space (rev s))"

definition lskip :: "string \<Rightarrow> string" where
  "lskip s = dropWhile is_space s"

text \<open>
  \<open>find_chars_or_comment\<close>: the text before the first of \<open>chars\<close> or the first inline comment, and the text
  from there on.
\<close>

fun find_chars_or_comment :: "bool \<Rightarrow> string \<Rightarrow> string \<Rightarrow> string \<times> string" where
  "find_chars_or_comment was_space chars [] = ([], [])"
| "find_chars_or_comment was_space chars (c # s) =
     (if c \<in> set chars \<or> was_space \<and> c = CHR '';'' then ([], c # s)
      else let (a, b) = find_chars_or_comment (is_space c) chars s in (c # a, b))"

text \<open>\<open>strncpy0\<close> into a buffer of 50 bytes (\<open>MAX_SECTION\<close>, \<open>MAX_NAME\<close>).\<close>

definition strncpy0 :: "string \<Rightarrow> string" where
  "strncpy0 s = take 49 s"

text \<open>\<open>fgets\<close> into a buffer of \<open>INI_MAX_LINE\<close> bytes: what is read, and what is left of the file.\<close>

definition max_line :: nat where
  "max_line = 200"

definition fgets :: "string \<Rightarrow> string \<times> string" where
  "fgets s = (let l = length (takeWhile (\<lambda>c. c \<noteq> newline) s);
                  k = (if l < max_line - 1 \<and> l < length s then Suc l else min l (max_line - 1))
              in (take k s, drop k s))"

lemma fgets_shorter: "s \<noteq> [] \<Longrightarrow> length (snd (fgets s)) < length s"
  by (cases s) (auto simp: fgets_def max_line_def Let_def)

function ini_lines :: "string \<Rightarrow> string list" where
  "ini_lines s = (if s = [] then [] else fst (fgets s) # ini_lines (snd (fgets s)))"
  by auto
termination by (relation "measure length") (simp_all add: fgets_shorter)

declare ini_lines.simps [simp del]

record ini_state =
  ini_section :: string
  prev_name :: string
  lineno :: nat
  ini_error :: nat
  ini_values :: "(string \<times> string) list"

text \<open>\<open>MakeKey\<close> and the handler \<open>ValueHandler\<close> of \<open>INIReader.cpp\<close>.\<close>

definition tolower :: "char \<Rightarrow> char" where
  "tolower c = (if c \<in> set ''ABCDEFGHIJKLMNOPQRSTUVWXYZ'' then char_of (of_char c + (32::nat)) else c)"

definition MakeKey :: "string \<Rightarrow> string \<Rightarrow> string" where
  "MakeKey sec name = map tolower (sec @ ''='' @ name)"

definition value_of :: "(string \<times> string) list \<Rightarrow> string \<Rightarrow> string" where
  "value_of vs key = (case map_of vs key of None \<Rightarrow> [] | Some v \<Rightarrow> v)"

definition ValueHandler :: "string \<Rightarrow> string \<Rightarrow> string \<Rightarrow> (string \<times> string) list \<Rightarrow> (string \<times> string) list" where
  "ValueHandler sec name val vs =
     (let key = MakeKey sec name; old = value_of vs key
      in AList.update key ((if old \<noteq> [] then old @ [newline] else old) @ val) vs)"

definition set_error :: "ini_state \<Rightarrow> ini_state" where
  "set_error st = (if ini_error st = 0 then st\<lparr>ini_error := lineno st\<rparr> else st)"

definition skip_bom :: "nat \<Rightarrow> string \<Rightarrow> string" where
  "skip_bom n s = (if n = 1 \<and> take 3 s = [CHR 0xEF, CHR 0xBB, CHR 0xBF] then drop 3 s else s)"

definition ini_line :: "string \<Rightarrow> ini_state \<Rightarrow> ini_state" where
  "ini_line buf st0 =
     (let st = st0\<lparr>lineno := Suc (lineno st0)\<rparr>;
          line = c_str buf;
          s1 = rstrip (skip_bom (lineno st) line);
          start = lskip s1;
          moved = (skip_bom (lineno st) line \<noteq> line \<or> start \<noteq> s1)
      in if start = [] \<or> hd start \<in> set '';#'' then st
         else if prev_name st \<noteq> [] \<and> moved
         then st\<lparr>ini_values := ValueHandler (ini_section st) (prev_name st)
                  (rstrip (fst (find_chars_or_comment False [] start))) (ini_values st)\<rparr>
         else if hd start = CHR ''[''
         then (case find_chars_or_comment False '']'' (tl start) of (sec, end) \<Rightarrow>
           if end \<noteq> [] \<and> hd end = CHR '']''
           then st\<lparr>ini_section := strncpy0 sec, prev_name := []\<rparr>
           else set_error st)
         else (case find_chars_or_comment False ''=:'' start of (n, end) \<Rightarrow>
           if end \<noteq> [] \<and> hd end \<in> set ''=:''
           then let name = rstrip n;
                    val = rstrip (lskip (fst (find_chars_or_comment False [] (tl end))))
             in st\<lparr>prev_name := strncpy0 name, ini_values := ValueHandler (ini_section st) name val (ini_values st)\<rparr>
           else set_error st))"

definition ini_start :: ini_state where
  "ini_start = \<lparr>ini_section = [], prev_name = [], lineno = 0, ini_error = 0, ini_values = []\<rparr>"

definition ini_parse_stream :: "string \<Rightarrow> ini_state" where
  "ini_parse_stream content = fold ini_line (ini_lines content) ini_start"

section \<open>INIReader.cpp\<close>

record INIReader =
  rd_error :: int
  rd_values :: "(string \<times> string) list"

text \<open>\<open>ini_parse\<close> and the two constructors; a directory can be opened and gives no line.\<close>

definition INIReader_file :: "string \<Rightarrow> fsys \<Rightarrow> INIReader" where
  "INIReader_file filename fs =
     (case open_in fs (c_str filename) of
        None \<Rightarrow> \<lparr>rd_error = -1, rd_values = []\<rparr>
      | Some n \<Rightarrow> (let st = ini_parse_stream (stream_bytes n)
                   in \<lparr>rd_error = int (ini_error st), rd_values = ini_values st\<rparr>))"

definition INIReader_buffer :: "string \<Rightarrow> INIReader" where
  "INIReader_buffer buffer = (let st = ini_parse_stream (c_str buffer)
     in \<lparr>rd_error = int (ini_error st), rd_values = ini_values st\<rparr>)"

definition ini_Get :: "INIReader \<Rightarrow> string \<Rightarrow> string \<Rightarrow> string \<Rightarrow> string" where
  "ini_Get r sec name default_value = (case map_of (rd_values r) (MakeKey sec name) of
     Some v \<Rightarrow> v | None \<Rightarrow> default_value)"

definition GetString :: "INIReader \<Rightarrow> string \<Rightarrow> string \<Rightarrow> string \<Rightarrow> string" where
  "GetString r sec name default_value = (let str = ini_Get r sec name [] in if str = [] then default_value else str)"

text \<open>\<open>strtol\<close> and \<open>strtoul\<close> with base 0: \<open>None\<close> when no digit is read.\<close>

definition hex_chars :: string where
  "hex_chars = ''0123456789abcdef''"

definition digits_in :: "nat \<Rightarrow> string \<Rightarrow> string" where
  "digits_in b s = takeWhile (\<lambda>c. tolower c \<in> set (take b hex_chars)) s"

fun index_in :: "char \<Rightarrow> string \<Rightarrow> nat" where
  "index_in c [] = 0"
| "index_in c (d # ds) = (if c = d then 0 else Suc (index_in c ds))"

definition number_in :: "nat \<Rightarrow> string \<Rightarrow> nat" where
  "number_in b s = foldl (\<lambda>a c. b * a + index_in (tolower c) hex_chars) 0 s"

definition strto :: "string \<Rightarrow> (bool \<times> nat) option" where
  "strto s =
     (let t = dropWhile is_space (c_str s);
          neg = (t \<noteq> [] \<and> hd t = CHR ''-'');
          u = (if t \<noteq> [] \<and> hd t \<in> set ''+-'' then tl t else t);
          hex = (take 2 (map tolower u) = ''0x'' \<and> digits_in 16 (drop 2 u) \<noteq> []);
          b = (if hex then 16 else if u \<noteq> [] \<and> hd u = CHR ''0'' then 8 else 10);
          ds = digits_in b (if hex then drop 2 u else u)
      in if ds = [] then None else Some (neg, number_in b ds))"

definition strtol0 :: "string \<Rightarrow> int option" where
  "strtol0 s = map_option (\<lambda>(neg, n). if neg then max (- (2 ^ 63)) (- int n) else min (2 ^ 63 - 1) (int n)) (strto s)"

definition strtoul0 :: "string \<Rightarrow> int option" where
  "strtoul0 s = map_option (\<lambda>(neg, n). if int n \<ge> 2 ^ 64 then 2 ^ 64 - 1 else (if neg then - int n else int n) mod 2 ^ 64) (strto s)"

text \<open>\<open>long\<close> and \<open>int64_t\<close> are the same type, so \<open>GetInteger64\<close> and \<open>GetUnsigned64\<close> are the same functions.\<close>

definition GetInteger :: "INIReader \<Rightarrow> string \<Rightarrow> string \<Rightarrow> int \<Rightarrow> int" where
  "GetInteger r sec name default_value = (case strtol0 (ini_Get r sec name []) of Some n \<Rightarrow> n | None \<Rightarrow> default_value)"

definition GetUnsigned :: "INIReader \<Rightarrow> string \<Rightarrow> string \<Rightarrow> int \<Rightarrow> int" where
  "GetUnsigned r sec name default_value = (case strtoul0 (ini_Get r sec name []) of Some n \<Rightarrow> n | None \<Rightarrow> default_value)"

definition GetBoolean :: "INIReader \<Rightarrow> string \<Rightarrow> string \<Rightarrow> bool \<Rightarrow> bool" where
  "GetBoolean r sec name default_value =
     (let v = map tolower (ini_Get r sec name [])
      in if v \<in> {''true'', ''yes'', ''on'', ''1''} then True
         else if v \<in> {''false'', ''no'', ''off'', ''0''} then False else default_value)"

text \<open>The map is ordered by its keys; \<open>lower_bound\<close> is the first one not below.\<close>

definition HasSection :: "INIReader \<Rightarrow> string \<Rightarrow> bool" where
  "HasSection r sec =
     (let key = MakeKey sec []
      in case filter (\<lambda>k. key \<le> k) (sort (map fst (rd_values r))) of
           [] \<Rightarrow> False | k # _ \<Rightarrow> take (length key) k = key)"

definition HasValue :: "INIReader \<Rightarrow> string \<Rightarrow> string \<Rightarrow> bool" where
  "HasValue r sec name \<longleftrightarrow> map_of (rd_values r) (MakeKey sec name) \<noteq> None"

section \<open>Writing a configuration\<close>

text \<open>A file as the sections and pairs it is meant to hold.\<close>

definition print_pair :: "string \<times> string \<Rightarrow> string" where
  "print_pair = (\<lambda>(n, v). n @ ''='' @ v)"




text \<open>
  What the format can carry: no zero byte, no line break and no semicolon anywhere, names without white
  space or separator, values without white space at their ends, section names of at most 49 bytes, and
  lines that fit into the buffer.
\<close>

definition plain_text :: "string \<Rightarrow> bool" where
  "plain_text s \<longleftrightarrow> CHR 0x00 \<notin> set s \<and> newline \<notin> set s \<and> CHR '';'' \<notin> set s"

definition plain_entry :: "string \<times> string \<Rightarrow> bool" where
  "plain_entry = (\<lambda>(n, v). plain_text n \<and> n \<noteq> [] \<and> hd n \<notin> set ''#['' \<and> (\<forall>c \<in> set n. \<not> is_space c \<and> c \<notin> set ''=:'') \<and>
     plain_text v \<and> (v = [] \<or> \<not> is_space (hd v) \<and> \<not> is_space (last v)))"


definition plain_section :: "string \<Rightarrow> bool" where
  "plain_section sec \<longleftrightarrow> plain_text sec \<and> CHR '']'' \<notin> set sec \<and> length sec \<le> 49"


lemma fgets_line:
  assumes "newline \<notin> set l" and "length l + 1 < max_line"
  shows "fgets (l @ newline # r) = (l @ [newline], r)"
proof -
  have "takeWhile (\<lambda>c. c \<noteq> newline) (l @ newline # r) = l"
    using assms(1) by (subst takeWhile_append2) auto
  then show ?thesis using assms(2) by (simp add: fgets_def Let_def)
qed

lemma ini_lines_line:
  assumes "newline \<notin> set l" and "length l + 1 < max_line"
  shows "ini_lines (l @ newline # r) = (l @ [newline]) # ini_lines r"
  by (subst ini_lines.simps) (simp add: fgets_line [OF assms])


lemma rstrip_line:
  assumes "l \<noteq> []" and "\<not> is_space (last l)"
  shows "rstrip l = l" "rstrip (l @ [newline]) = l"
  using assms by (cases l rule: rev_cases; simp add: rstrip_def is_space_def)+

lemma lskip_text: "s \<noteq> [] \<Longrightarrow> \<not> is_space (hd s) \<Longrightarrow> lskip s = s"
  by (cases s) (simp_all add: lskip_def)

lemma find_none: "CHR '';'' \<notin> set s \<Longrightarrow> set s \<inter> set chars = {} \<Longrightarrow> find_chars_or_comment b chars s = (s, [])"
  by (induction s arbitrary: b) auto

lemma find_char:
  "CHR '';'' \<notin> set s \<Longrightarrow> set s \<inter> set chars = {} \<Longrightarrow> c \<in> set chars \<Longrightarrow>
     find_chars_or_comment b chars (s @ c # r) = (s, c # r)"
  by (induction s arbitrary: b) auto

lemma c_str_line: "plain_text s \<Longrightarrow> c_str (s @ [newline]) = s @ [newline]"
  by (intro c_str_id) (auto simp: plain_text_def)

lemma skip_bom_same: "n \<noteq> 1 \<or> s = [] \<or> hd s \<noteq> CHR 0xEF \<Longrightarrow> skip_bom n s = s"
  by (cases s) (auto simp: skip_bom_def)

lemma section_line:
  assumes "plain_section sec"
  shows "ini_line (''['' @ sec @ '']'' @ [newline]) st =
    st\<lparr>lineno := Suc (lineno st), ini_section := sec, prev_name := []\<rparr>"
proof -
  let ?l = "''['' @ sec @ '']''"
  have p: "plain_text ?l" and sec: "CHR '']'' \<notin> set sec" "CHR '';'' \<notin> set sec" "length sec \<le> 49"
    using assms by (auto simp: plain_section_def plain_text_def)
  have "c_str (?l @ [newline]) = ?l @ [newline]" by (rule c_str_line [OF p])
  moreover have "skip_bom n (?l @ [newline]) = ?l @ [newline]" for n by (rule skip_bom_same) simp
  moreover have "rstrip (?l @ [newline]) = ?l" by (rule rstrip_line) (simp_all add: is_space_def)
  moreover have "lskip ?l = ?l" by (rule lskip_text) (simp_all add: is_space_def)
  moreover have "find_chars_or_comment False '']'' (sec @ [CHR '']'']) = (sec, [CHR '']''])"
    using sec by (intro find_char) auto
  ultimately show ?thesis using sec(3) by (simp add: ini_line_def Let_def strncpy0_def)
qed

lemma pair_line:
  assumes "plain_entry (n, v)" and "0 < lineno st" and "e = [] \<or> e = [newline]"
  shows "ini_line (print_pair (n, v) @ e) st =
    st\<lparr>lineno := Suc (lineno st), prev_name := strncpy0 n,
       ini_values := ValueHandler (ini_section st) n v (ini_values st)\<rparr>"
proof -
  let ?l = "n @ ''='' @ v"
  note pp = assms(1) [unfolded plain_entry_def, simplified]
  have n: "n \<noteq> []" "hd n \<notin> set ''#[''" "\<forall>c \<in> set n. \<not> is_space c \<and> c \<notin> set ''=:''" "CHR '';'' \<notin> set n"
    and v: "CHR '';'' \<notin> set v" "v = [] \<or> \<not> is_space (hd v) \<and> \<not> is_space (last v)"
    using pp unfolding plain_text_def by simp_all
  have p: "plain_text ?l" using pp by (simp add: plain_text_def)
  have h: "hd n \<noteq> CHR '';''" using n(1,4) hd_in_set [of n] by metis
  have hd: "?l \<noteq> []" "hd ?l = hd n" "\<not> is_space (hd ?l)" using n(1,3) by simp_all
  have "\<not> is_space (CHR ''='')" by (simp add: is_space_def)
  with v(2) have tl: "\<not> is_space (last ?l)" by (cases "v = []") simp_all
  have "c_str (?l @ e) = ?l @ e" using p assms(3) c_str_line [OF p] by (auto simp: c_str_id plain_text_def)
  moreover have "skip_bom (Suc (lineno st)) (?l @ e) = ?l @ e" using assms(2) by (intro skip_bom_same) simp
  moreover have "rstrip (?l @ e) = ?l" using rstrip_line [OF hd(1) tl] assms(3) by auto
  moreover have "lskip ?l = ?l" using hd(1,3) by (rule lskip_text)
  moreover have "find_chars_or_comment False ''=:'' (n @ CHR ''='' # v) = (n, CHR ''='' # v)"
    using n by (intro find_char) auto
  moreover have "find_chars_or_comment False [] v = (v, [])" using v(1) by (rule find_none) simp
  moreover have "rstrip (lskip v) = v"
    using v(2) by (cases "v = []") (simp_all add: lskip_text rstrip_line, simp add: lskip_def rstrip_def)
  moreover have "rstrip n = n" using n(1,3) by (intro rstrip_line) simp_all
  ultimately show ?thesis using hd n(1,2) h by (simp add: ini_line_def Let_def print_pair_def)
qed

lemma ValueHandler_fresh:
  "MakeKey sec n \<notin> fst ` set vs \<Longrightarrow> ValueHandler sec n v vs = vs @ [(MakeKey sec n, v)]"
proof -
  have "AList.update k x vs = vs @ [(k, x)]" if "k \<notin> fst ` set vs" for k :: string and x :: string
    using that by (induction vs) auto
  moreover assume "MakeKey sec n \<notin> fst ` set vs"
  moreover from this have "value_of vs (MakeKey sec n) = []"
    by (simp add: value_of_def map_of_eq_None_iff [THEN iffD2])
  ultimately show ?thesis by (simp add: ValueHandler_def Let_def)
qed




section \<open>Properties\<close>





lemma fgets_cut:
  assumes "newline \<notin> set l" and "length l = max_line - 1" and "r \<noteq> []"
  shows "fgets (l @ r) = (l, r)"
proof -
  have "length (takeWhile (\<lambda>c. c \<noteq> newline) (l @ r)) \<ge> max_line - 1"
    using assms(1,2) by (subst takeWhile_append2) auto
  then show ?thesis using assms(2) by (simp add: fgets_def Let_def min_def)
qed

lemma tail_line:
  assumes "w \<noteq> []" and "\<forall>c \<in> set w. \<not> is_space c \<and> c \<noteq> CHR 0x00 \<and> c \<notin> set '';#[=:''" and "0 < lineno st"
  shows "ini_line (w @ [newline]) st = set_error (st\<lparr>lineno := Suc (lineno st)\<rparr>)"
proof -
  have w: "hd w \<in> set w" "last w \<in> set w" using assms(1) by simp_all
  then have h: "\<not> is_space (hd w)" "hd w \<notin> set '';#[''" "\<not> is_space (last w)" using assms(2) by auto
  have "c_str (w @ [newline]) = w @ [newline]" using assms(2) by (intro c_str_id) auto
  moreover have "skip_bom (Suc (lineno st)) (w @ [newline]) = w @ [newline]" using assms(3) by (intro skip_bom_same) simp
  moreover have "rstrip (w @ [newline]) = w" using assms(1) h(3) by (rule rstrip_line)
  moreover have "lskip w = w" using assms(1) h(1) by (rule lskip_text)
  moreover have "find_chars_or_comment False ''=:'' w = (w, [])" using assms(2) by (intro find_none) auto
  ultimately show ?thesis using assms(1) h(2) by (simp add: ini_line_def Let_def)
qed

text \<open>
  A line of 200 bytes or more does not fit into the buffer: the value is cut off after the first 199
  bytes of the line, what is left is read as a line of its own, and since it is no pair its line number is
  reported as an error.
\<close>

theorem ini_long_line_cut:
  assumes "plain_section sec" and "plain_entry (n, v)" and "length n < 198"
    and "\<forall>c \<in> set v. \<not> is_space c \<and> c \<notin> set '';#[=:''"
    and "198 < length n + length v" and "length n + length v \<le> 396"
  shows "rd_error (INIReader_buffer (''['' @ sec @ '']'' @ [newline] @ n @ ''='' @ v @ [newline])) = 3 \<and>
    ini_Get (INIReader_buffer (''['' @ sec @ '']'' @ [newline] @ n @ ''='' @ v @ [newline])) sec n d = take (198 - length n) v"
proof -
  define v1 where "v1 = take (198 - length n) v"
  define w where "w = drop (198 - length n) v"
  have v: "v = v1 @ w" and lv1: "length v1 = 198 - length n" and w: "w \<noteq> []" "length w \<le> 198"
    using assms(3,5,6) by (simp_all add: v1_def w_def)
  have pe: "plain_text n" "plain_text v" "plain_text sec" using assms(1,2) by (simp_all add: plain_entry_def plain_section_def)
  have e1: "plain_entry (n, v1)"
  proof -
    have "v1 = [] \<or> \<not> is_space (hd v1) \<and> \<not> is_space (last v1)"
      using assms(4) v hd_in_set [of v1] last_in_set [of v1] by (metis Un_iff set_append)
    moreover have "plain_text v1" using pe(2) by (simp add: plain_text_def v)
    ultimately show ?thesis using assms(2) by (simp add: plain_entry_def)
  qed
  have cw: "\<forall>c \<in> set w. \<not> is_space c \<and> c \<noteq> CHR 0x00 \<and> c \<notin> set '';#[=:''"
    using assms(4) pe(2) by (auto simp: plain_text_def v)
  let ?c = "(''['' @ sec @ '']'') @ newline # (n @ ''='' @ v1) @ w @ [newline]"
  have c: "''['' @ sec @ '']'' @ [newline] @ n @ ''='' @ v @ [newline] = ?c" by (simp add: v)
  have "c_str ?c = ?c" using pe by (intro c_str_id) (simp add: plain_text_def v)
  moreover have "ini_lines ?c = [''['' @ sec @ '']'' @ [newline], n @ ''='' @ v1, w @ [newline]]"
  proof -
    have "ini_lines ?c = ((''['' @ sec @ '']'') @ [newline]) # ini_lines ((n @ ''='' @ v1) @ w @ [newline])"
      using assms(1) by (intro ini_lines_line) (simp_all add: plain_section_def plain_text_def max_line_def)
    moreover have "fgets ((n @ ''='' @ v1) @ w @ [newline]) = (n @ ''='' @ v1, w @ [newline])"
      using pe lv1 assms(3) by (intro fgets_cut) (simp_all add: plain_text_def max_line_def v)
    moreover have "ini_lines (w @ newline # []) = [w @ [newline]]"
      using w pe(2) ini_lines_line [of w "[]"] by (simp add: v) (simp add: plain_text_def max_line_def ini_lines.simps [of "[]"])
    ultimately show ?thesis by (simp add: ini_lines.simps [of "n @ _"])
  qed
  moreover note section_line [OF assms(1), of ini_start]
  moreover define st1 where "st1 = ini_start\<lparr>lineno := 1, ini_section := sec, prev_name := []\<rparr>"
  moreover define st2 where "st2 = st1\<lparr>lineno := 2, prev_name := strncpy0 n, ini_values := [(MakeKey sec n, v1)]\<rparr>"
  moreover have "ini_line (n @ ''='' @ v1) st1 = st2"
    using pair_line [OF e1, of st1 "[]"] ValueHandler_fresh [of sec n "[]" v1]
    by (simp add: print_pair_def st1_def st2_def ini_start_def)
  moreover have "ini_line (w @ [newline]) st2 = st2\<lparr>lineno := 3, ini_error := 3\<rparr>"
    using tail_line [OF w(1) cw, of st2] by (simp add: set_error_def st2_def st1_def ini_start_def)
  ultimately have "INIReader_buffer ?c = \<lparr>rd_error = 3, rd_values = [(MakeKey sec n, v1)]\<rparr>"
    by (simp add: INIReader_buffer_def ini_parse_stream_def Let_def st2_def ini_start_def)
  then show ?thesis unfolding c by (simp add: ini_Get_def v1_def)
qed

theorem ini_long_line_cut_witness:
  "ini_Get (INIReader_buffer (''['' @ ''base'' @ '']'' @ [newline] @ ''name'' @ ''='' @ replicate 300 (CHR ''x'') @ [newline])) ''base'' ''name'' []
     = replicate 194 (CHR ''x'')"
  using ini_long_line_cut [of "''base''" "''name''" "replicate 300 (CHR ''x'')" "[]"]
  by (simp add: plain_section_def plain_entry_def plain_text_def is_space_def)

end
