(* ===== verification/NodeTopics.thy ===== *)
theory NodeTopics
  imports IniFile SnowFlakeGen Commands
begin

text \<open>
  The remaining topics of a node: \<open>node/src/NodeTopic.cpp\<close> (a managing node sends configuration
  files, a node installs the one it gets and answers), \<open>node/src/PingTopic.cpp\<close> (signs of life) and
  \<open>monitor-app/src/MonitorTopic.cpp\<close> (the application that records the traffic counts).

  As in the other topics the database and the network are parameters, and messages arrive as
  they were sent. A row of the query is the list of its text columns; \<open>row.get\<close> throws on a NULL column.
  The end of the process by \<open>exit(0)\<close> is a \<open>Crash\<close>.
\<close>

section \<open>Configuration messages\<close>

record Node =
  nm_uuid :: string
  nm_to_node_id :: string
  nm_to_node_name :: string
  nm_src_node_id :: string
  nm_to_group :: string
  nm_arch :: int
  nm_os :: int
  nm_to_config_path :: string
  nm_src_config_path :: string
  nm_domain :: int
  nm_config :: bytes
  nm_config_hash :: string

record NodeReply =
  rp_uuid :: string
  rp_to_node_id :: string
  rp_to_node_name :: string
  rp_src_node_id :: string
  rp_to_group :: string
  rp_reply_uuid :: string
  rp_status :: CommStatus
  rp_desc :: string
  rp_created_at :: int
  rp_updated_at :: int

record node_topic =
  nt_base :: zenoh_base
  nt_disk :: fsys
  node_out :: "Node list"
  node_reply_out :: "NodeReply list"
  nt_sqls :: "string list"
  nt_sf :: snowflake
  nt_tick :: nat

record node_env =
  ne_nodeId :: string
  ne_nodeName :: string
  ne_archType :: string
  ne_osType :: string
  ne_domain :: int
  ne_group :: string
  ne_db :: db_env
  ne_uuid :: "nat \<Rightarrow> string"
  ne_clock :: "nat \<Rightarrow> int"
  ne_stamps :: "nat \<Rightarrow> 64 word list"
  node_byte_size :: "Node \<Rightarrow> nat"
  node_reply_size :: "NodeReply \<Rightarrow> nat"

abbreviation nt_info :: "node_topic \<Rightarrow> TopicInfo" where
  "nt_info st \<equiv> topic_info (nt_base st)"

definition arch_num :: "string \<Rightarrow> int" where
  "arch_num s = (case map_of [(''archType_UNKNOWN'', 0), (''amd64'', 1), (''x86'', 2), (''arm64v8'', 3)] s of
     Some n \<Rightarrow> n | None \<Rightarrow> 0)"

definition os_num :: "string \<Rightarrow> int" where
  "os_num s = (case map_of [(''OSType_UNKNOWN'', 0), (''windows'', 1), (''linux'', 2)] s of Some n \<Rightarrow> n | None \<Rightarrow> 0)"

definition send_node :: "node_env \<Rightarrow> bool \<Rightarrow> Node \<Rightarrow> node_topic \<Rightarrow> bool \<times> node_topic" where
  "send_node env put_ok n st =
     (if put_ok
      then (True, st\<lparr>node_out := node_out st @ [n],
             nt_base := stat_writer_mon_data (ne_uuid env (nt_tick st)) (ne_clock env (nt_tick st))
               (node_byte_size env n) (nm_to_node_id n) (nt_base st),
             nt_tick := Suc (nt_tick st)\<rparr>)
      else (False, st))"

definition node_send_reply :: "node_env \<Rightarrow> bool \<Rightarrow> NodeReply \<Rightarrow> node_topic \<Rightarrow> bool \<times> node_topic" where
  "node_send_reply env put_ok r st =
     (if put_ok
      then (True, st\<lparr>node_reply_out := node_reply_out st @ [r],
             nt_base := stat_reply_writer_mon_data (ne_uuid env (nt_tick st)) (ne_clock env (nt_tick st))
               (node_reply_size env r) (rp_to_node_id r) (nt_base st),
             nt_tick := Suc (nt_tick st)\<rparr>)
      else (False, st))"

text \<open>
  One turn of the writer: the query, and a message for every row. The columns are \<open>uuid\<close>,
  \<open>to_node_id\<close>, \<open>to_node_name\<close>, \<open>src_node_id\<close>, \<open>to_config_path\<close>, \<open>src_config_path\<close>, \<open>config\<close>, \<open>config_hash\<close>.
\<close>

type_synonym node_row = "string option list"

definition row_get :: "nat \<Rightarrow> node_row \<Rightarrow> string outcome" where
  "row_get k row = (if k < length row then (case row ! k of Some s \<Rightarrow> Ret s | None \<Rightarrow> Throw ''Null value not allowed'')
     else Throw ''no such column'')"

definition fill_node :: "node_env \<Rightarrow> node_row \<Rightarrow> Node outcome" where
  "fill_node env row =
     bind_outcome (row_get 0 row) (\<lambda>uuid. bind_outcome (row_get 1 row) (\<lambda>toId.
     bind_outcome (row_get 2 row) (\<lambda>toName. bind_outcome (row_get 3 row) (\<lambda>srcId.
     bind_outcome (row_get 4 row) (\<lambda>toPath. bind_outcome (row_get 5 row) (\<lambda>srcPath.
     bind_outcome (row_get 6 row) (\<lambda>conf. bind_outcome (row_get 7 row) (\<lambda>hash.
     Ret \<lparr>nm_uuid = uuid, nm_to_node_id = toId, nm_to_node_name = toName, nm_src_node_id = srcId,
          nm_to_group = ne_group env, nm_arch = arch_num (ne_archType env), nm_os = os_num (ne_osType env),
          nm_to_config_path = toPath, nm_src_config_path = srcPath, nm_domain = ne_domain env,
          nm_config = conf, nm_config_hash = hash\<rparr>))))))))"

fun send_nodes :: "node_env \<Rightarrow> (nat \<Rightarrow> bool) \<Rightarrow> node_row list \<Rightarrow> node_topic \<Rightarrow> (node_topic, unit) run" where
  "send_nodes env put_ok [] st = Fin st ()"
| "send_nodes env put_ok (row # rows) st =
     (case fill_node env row of
        Ret n \<Rightarrow> send_nodes env put_ok rows (snd (send_node env (put_ok (length rows)) n st))
      | Throw e \<Rightarrow> Exc st e
      | UB e \<Rightarrow> Crash e)"

definition node_sql :: "string \<Rightarrow> string" where
  "node_sql part = ''select `uuid`,`to_node_id`,`to_node_name`,`src_node_id`,`to_config_path`,`src_config_path`,`config`,`config_hash` from node_msg where comm_status_id=1 and to_node_id=''
     @ quoted part"

text \<open>\<open>rows\<close> is what the query gives, \<open>None\<close> when it throws.\<close>

definition node_writer_turn :: "node_env \<Rightarrow> (nat \<Rightarrow> bool) \<Rightarrow> node_row list option \<Rightarrow> node_topic \<Rightarrow> (node_topic, unit) run" where
  "node_writer_turn env put_ok rows st =
     (case sprintf_1024 (node_sql (partition (nt_info st))) of
        UB e \<Rightarrow> Crash e
      | Throw e \<Rightarrow> Fin st ()
      | Ret sql \<Rightarrow>
          if db_present (ne_db env)
          then (case rows of None \<Rightarrow> Fin st ()
                | Some rs \<Rightarrow> catch_run (send_nodes env put_ok rs st) (\<lambda>st e. Fin st ()))
          else Crash ''null DbBase'')"

section \<open>Installing a configuration\<close>

text \<open>
  \<open>process_config\<close>: the old file is moved into the directory \<open><path>_tmp\<close>, the new one written and
  read; when it is not for this node the old one is moved back. \<open>back()\<close> of an empty path is undefined.
\<close>

definition tmp_dir :: "string \<Rightarrow> string" where
  "tmp_dir configPath = configPath @ ''_tmp'' @ ''/''"

definition config_reply :: "node_env \<Rightarrow> nat \<Rightarrow> Node \<Rightarrow> bool \<Rightarrow> NodeReply" where
  "config_reply env t n ok =
     \<lparr>rp_uuid = ne_uuid env t, rp_to_node_id = nm_src_node_id n, rp_to_node_name = [], rp_src_node_id = nm_to_node_id n,
      rp_to_group = nm_to_group n, rp_reply_uuid = nm_uuid n, rp_status = (if ok then SUCCESS else INVALID),
      rp_desc = (if ok then ne_nodeName env @ '' config update success!''
                 else ''Because nodeId unmatch, '' @ ne_nodeName env @ '' config update fail!''),
      rp_created_at = ne_clock env t, rp_updated_at = ne_clock env t\<rparr>"

definition process_config :: "node_env \<Rightarrow> Node \<Rightarrow> node_topic \<Rightarrow> (node_topic, NodeReply) run" where
  "process_config env n st =
     (let configPath = nm_to_config_path n; tmpDir = tmp_dir configPath
      in case mkdir tmpDir (nt_disk st) of
           (False, fs) \<Rightarrow> Exc (st\<lparr>nt_disk := fs\<rparr>) ''create_directories''
         | (True, fs) \<Rightarrow>
             (let fileName = Strings.split configPath (CHR ''/'')
              in if fileName = [] then Crash ''back() of an empty vector''
                 else let copyFilename = tmpDir @ last fileName;
                          fs1 = snd (move configPath copyFilename fs);
                          fs2 = write_file (c_str configPath) (nm_config n) fs1;
                          newNodeId = GetString (INIReader_file configPath fs2) ''base'' ''node_id'' [];
                          ok = (newNodeId = ne_nodeId env);
                          fs3 = (if ok then fs2 else snd (move copyFilename configPath fs2))
                   in Fin (st\<lparr>nt_disk := fs3, nt_tick := Suc (nt_tick st)\<rparr>) (config_reply env (nt_tick st) n ok)))"

definition handle_node :: "node_env \<Rightarrow> bool \<Rightarrow> Node \<Rightarrow> node_topic \<Rightarrow> (node_topic, unit) run" where
  "handle_node env put_ok n st =
     (let st1 = st\<lparr>nt_base := stat_reader_mon_data (ne_uuid env (nt_tick st)) (ne_clock env (nt_tick st))
               (topic (nt_info st)) (nm_src_node_id n) (node_byte_size env n) (nt_base st),
             nt_tick := Suc (nt_tick st)\<rparr>
      in if needReply (nt_info st1) \<and> nm_uuid n \<noteq> []
         then catch_run (bind_run (process_config env n st1) (\<lambda>st r. Fin (snd (node_send_reply env put_ok r st)) ()))
                (\<lambda>st e. Fin st ())
         else Fin st1 ())"

section \<open>Recording the answer\<close>

definition nt_exec :: "node_env \<Rightarrow> string \<Rightarrow> node_topic \<Rightarrow> (node_topic, int) run" where
  "nt_exec env sql st =
     (case sprintf_1024 sql of
        UB e \<Rightarrow> Crash e
      | Throw e \<Rightarrow> Exc st e
      | Ret s \<Rightarrow>
          if db_present (ne_db env)
          then Fin (st\<lparr>nt_sqls := nt_sqls st @ [s]\<rparr>) (db_exec (ne_db env) s)
          else Crash ''null DbBase'')"

definition node_status_sql :: "NodeReply \<Rightarrow> string" where
  "node_status_sql r = ''update node_msg set comm_status_id='' @ int_string (status_num (rp_status r))
     @ '' where uuid='' @ quoted (rp_reply_uuid r)"

definition node_reply_sql :: "NodeReply \<Rightarrow> string" where
  "node_reply_sql r = ''insert into node_msg_reply (uuid,to_node_id,to_node_name,reply_uuid,description,                 to_group,comm_status_id) values (''
     @ quoted (rp_uuid r) @ '','' @ quoted (rp_to_node_id r) @ '','' @ quoted (rp_to_node_name r) @ '',''
     @ quoted (rp_reply_uuid r) @ '','' @ quoted (rp_desc r) @ '','' @ quoted (rp_to_group r) @ '',''
     @ int_string (status_num (rp_status r)) @ '')''"

text \<open>An id is drawn and not used.\<close>

definition node_handle_reply :: "node_env \<Rightarrow> NodeReply \<Rightarrow> node_topic \<Rightarrow> (node_topic, unit) run" where
  "node_handle_reply env r st =
     (let st1 = st\<lparr>nt_base := stat_reply_reader_mon_data (ne_uuid env (nt_tick st)) (ne_clock env (nt_tick st))
               (topicReply (nt_info st)) (rp_src_node_id r) (node_reply_size env r) (nt_base st),
             nt_tick := Suc (nt_tick st)\<rparr>
      in if rp_uuid r \<noteq> []
         then case nextId (nt_sf st1) (ne_stamps env (nt_tick st1)) of
             Exits \<Rightarrow> Crash ''exit(0)''
           | Polls \<Rightarrow> Hang
           | Issued i sf _ \<Rightarrow>
               catch_run
                 (bind_run (nt_exec env (node_status_sql r) (st1\<lparr>nt_sf := sf\<rparr>)) (\<lambda>st _.
                  bind_run (nt_exec env (node_reply_sql r) st) (\<lambda>st _. Fin st ())))
                 (\<lambda>st e. Fin st ())
         else Fin st1 ())"

section \<open>Pings\<close>

text \<open>
  \<open>created_at\<close> is an \<open>int64\<close>, \<open>state\<close> an open enumeration: the numbers printed with \<open>%llu\<close> are
  their conversions to \<open>uint64_t\<close>.
\<close>

record Ping =
  pg_to_node_id :: string
  pg_src_node_id :: string
  pg_state :: int
  pg_created_at :: int
  pg_desc :: string

record ping_topic =
  pt_base :: zenoh_base
  ping_out :: "Ping list"
  pt_sqls :: "string list"
  pt_tick :: nat

record ping_env =
  pe_db :: db_env
  pe_uuid :: "nat \<Rightarrow> string"
  pe_clock :: "nat \<Rightarrow> int"
  ping_byte_size :: "Ping \<Rightarrow> nat"

definition send_ping :: "ping_env \<Rightarrow> bool \<Rightarrow> Ping \<Rightarrow> ping_topic \<Rightarrow> bool \<times> ping_topic" where
  "send_ping env put_ok p st =
     (if put_ok
      then (True, st\<lparr>ping_out := ping_out st @ [p],
             pt_base := stat_writer_mon_data (pe_uuid env (pt_tick st)) (pe_clock env (pt_tick st))
               (ping_byte_size env p) (pg_to_node_id p) (pt_base st),
             pt_tick := Suc (pt_tick st)\<rparr>)
      else (False, st))"

text \<open>A turn of the writer's loop, before it sleeps for fifteen seconds; \<open>now\<close> in milliseconds.\<close>

definition ping_turn :: "ping_env \<Rightarrow> bool \<Rightarrow> nat \<Rightarrow> ping_topic \<Rightarrow> ping_topic" where
  "ping_turn env put_ok now st =
     (let i = topic_info (pt_base st);
          p = \<lparr>pg_to_node_id = monNodeId i, pg_src_node_id = nodeId i, pg_state = 1, pg_created_at = int now,
               pg_desc = ''online''\<rparr>
      in if pg_src_node_id p \<noteq> [] then snd (send_ping env put_ok p st) else st)"

definition ping_sql :: "Ping \<Rightarrow> string" where
  "ping_sql p =
     (let nodeStat = to_uint64 (pg_state p); updateTime = to_uint64 (c_div (pg_created_at p) 1000)
      in ''insert into node_ping(`node_id`,`node_status_id`,`description`,`updated_at`) values(''
         @ quoted (pg_src_node_id p) @ '','' @ to_string nodeStat @ '','' @ quoted (pg_desc p) @ '','' @ to_string updateTime
         @ '') on duplicate key update             node_status_id='' @ to_string nodeStat
         @ '',description='' @ quoted (pg_desc p) @ '',updated_at='' @ to_string updateTime)"

definition handle_ping :: "ping_env \<Rightarrow> Ping \<Rightarrow> ping_topic \<Rightarrow> (ping_topic, unit) run" where
  "handle_ping env p st =
     (let st1 = st\<lparr>pt_base := stat_reader_mon_data (pe_uuid env (pt_tick st)) (pe_clock env (pt_tick st))
               (topic (topic_info (pt_base st))) (pg_src_node_id p) (ping_byte_size env p) (pt_base st),
             pt_tick := Suc (pt_tick st)\<rparr>
      in case sprintf_1024 (ping_sql p) of
           UB e \<Rightarrow> Crash e
         | Throw e \<Rightarrow> Fin st1 ()
         | Ret sql \<Rightarrow> if db_present (pe_db env) then Fin (st1\<lparr>pt_sqls := pt_sqls st1 @ [sql]\<rparr>) ()
                      else Crash ''null DbBase'')"

section \<open>The monitor application\<close>

definition tab :: string where
  "tab = [CHR 0x09]"

definition mon_sql :: "TopicMonInfo \<Rightarrow> string" where
  "mon_sql i = ''insert into `topic_mon_info`(`uuid`,`domain`,`src_node_id`,'' @ tab
     @ ''`to_node_id`,`topic_name`,`cycle`,`n_count`,'' @ tab @ ''`n_size`,`src_type`,`program_name`)'' @ tab
     @ ''VALUES'' @ tab @ ''('' @ quoted (mi_uuid i) @ '', '' @ int_string (mi_domain i) @ '', '' @ quoted (mi_srcnodeid i) @ '',''
     @ tab @ quoted (mi_tonodeid i) @ '', '' @ quoted (mi_topicname i) @ '', '' @ int_string (mi_cycle i) @ '', ''
     @ int_string (mi_ncount i) @ '','' @ tab @ int_string (mi_nsize i) @ '', '' @ int_string (mi_srctype i) @ '',''
     @ quoted (mi_progarmname i) @ '');''"

text \<open>The statements the application has executed are its state; an error of the database is logged.\<close>

definition insert_mon :: "db_env \<Rightarrow> TopicMonInfo \<Rightarrow> string list \<Rightarrow> (string list, unit) run" where
  "insert_mon db i sqls =
     (case sprintf_4096 (mon_sql i) of
        UB e \<Rightarrow> Crash e
      | Throw e \<Rightarrow> Exc sqls e
      | Ret sql \<Rightarrow>
          if db_present db
          then Fin (sqls @ [sql]) ()
          else Crash ''null DbBase'')"

definition handle_mon :: "db_env \<Rightarrow> TopicMonInfo \<Rightarrow> string list \<Rightarrow> (string list, unit) run" where
  "handle_mon db i sqls = catch_run (insert_mon db i sqls) (\<lambda>s e. Fin s ())"

section \<open>Properties\<close>

subsection \<open>Configuration files\<close>

text \<open>The reply of an accepted or a refused configuration depends only on what the new file says.\<close>

definition config_node_id :: "bytes \<Rightarrow> string" where
  "config_node_id c = (let st = ini_parse_stream c
     in GetString \<lparr>rd_error = int (ini_error st), rd_values = ini_values st\<rparr> ''base'' ''node_id'' [])"

text \<open>
  A file \<open>d/x\<close> whose configuration can be replaced: it exists, its backup directory can be made, and
  both it and its backup may be written.
\<close>

definition config_ready :: "string \<Rightarrow> string \<Rightarrow> bytes \<Rightarrow> fsys \<Rightarrow> bool" where
  "config_ready d x old fs \<longleftrightarrow> d \<noteq> [] \<and> x \<noteq> [] \<and> x \<noteq> ''.'' \<and> CHR ''/'' \<notin> set x \<and> CHR 0x00 \<notin> set (d @ x)
     \<and> node_at fs (path_of d @ [x]) = Some (FileN old)
     \<and> fst (mkdir (tmp_dir (d @ CHR ''/'' # x)) fs)
     \<and> node_at fs (path_of d @ [x @ ''_tmp'', x]) \<noteq> Some DirN
     \<and> writable fs (path_of d @ [x]) \<and> writable fs (path_of d @ [x @ ''_tmp'', x])"

lemma tmp_dir_paths:
  assumes "d \<noteq> []" and "x \<noteq> []" and "CHR ''/'' \<notin> set x" and "x \<noteq> ''.''"
  shows "path_of (tmp_dir (d @ CHR ''/'' # x)) = path_of d @ [x @ ''_tmp'']"
    and "path_of (tmp_dir (d @ CHR ''/'' # x) @ x) = path_of d @ [x @ ''_tmp'', x]"
proof -
  let ?t = "d @ CHR ''/'' # (x @ ''_tmp'')"
  have t: "path_of ?t = path_of d @ [x @ ''_tmp'']"
    using assms by (intro path_of_child) (auto simp: append_eq_Cons_conv)
  have e: "tmp_dir (d @ CHR ''/'' # x) = ?t @ ''/''" by (simp add: tmp_dir_def)
  show "path_of (tmp_dir (d @ CHR ''/'' # x)) = path_of d @ [x @ ''_tmp'']"
    unfolding e t [symmetric] by (rule path_of_dir) simp
  have "tmp_dir (d @ CHR ''/'' # x) @ x = ?t @ CHR ''/'' # x" by (simp add: tmp_dir_def)
  moreover have "path_of (?t @ CHR ''/'' # x) = path_of ?t @ [x]"
    using assms by (intro path_of_child) auto
  ultimately show "path_of (tmp_dir (d @ CHR ''/'' # x) @ x) = path_of d @ [x @ ''_tmp'', x]"
    by (simp only: t) simp
qed

text \<open>The disk after a configuration has been installed, or taken back.\<close>

definition config_disk :: "string \<Rightarrow> string \<Rightarrow> bytes \<Rightarrow> bytes \<Rightarrow> bool \<Rightarrow> fsys \<Rightarrow> fsys" where
  "config_disk d x old new ok fs =
     (let p = path_of d @ [x]; c = path_of d @ [x @ ''_tmp'', x];
          fs1 = snd (mkdir (tmp_dir (d @ CHR ''/'' # x)) fs);
          fs2 = set_node p (FileN new) (del_node p (set_node c (FileN old) (set_node c (FileN []) fs1)))
      in if ok then fs2 else del_node c (set_node p (FileN old) (set_node p (FileN []) fs2)))"

lemma config_mkdir:
  assumes "config_ready d x old fs" and "fs_wf fs"
  defines "fs1 \<equiv> snd (mkdir (tmp_dir (d @ CHR ''/'' # x)) fs)"
  shows "fs_wf fs1" and "writable fs1 = writable fs" and "node_at fs1 (path_of d) = Some DirN"
    and "node_at fs1 (path_of d @ [x @ ''_tmp'']) = Some DirN"
    and "node_at fs1 (path_of d @ [x]) = Some (FileN old)"
    and "node_at fs1 (path_of d @ [x @ ''_tmp'', x]) \<noteq> Some DirN"
    and "\<And>q. q \<notin> set (prefixes_of (path_of d @ [x @ ''_tmp''])) \<Longrightarrow> node_at fs1 q = node_at fs q"
proof -
  let ?p = "path_of d @ [x]" and ?t = "path_of d @ [x @ ''_tmp'']" and ?c = "path_of d @ [x @ ''_tmp'', x]"
  have pt: "path_of (tmp_dir (d @ CHR ''/'' # x)) = ?t" using assms(1) by (intro tmp_dir_paths) (simp_all add: config_ready_def)
  have m: "mkdir (tmp_dir (d @ CHR ''/'' # x)) fs = create_dirs (prefixes_of ?t) fs"
    unfolding mkdir_def pt by (simp add: tmp_dir_def)
  have ok: "fst (create_dirs (prefixes_of ?t) fs)" using assms(1) by (simp add: config_ready_def m)
  note cd = create_dirs_wf [OF assms(2), of ?t, folded m, folded fs1_def]
  then show wf: "fs_wf fs1" and "writable fs1 = writable fs" and "node_at fs1 ?t = Some DirN"
    and keep: "\<And>q. q \<notin> set (prefixes_of ?t) \<Longrightarrow> node_at fs1 q = node_at fs q"
    using ok m by auto
  have "?p \<notin> set (prefixes_of ?t)" and "?c \<notin> set (prefixes_of ?t)" by (auto simp: mem_prefixes_of dest: arg_cong [of _ _ length])
  then show p: "node_at fs1 ?p = Some (FileN old)" and "node_at fs1 ?c \<noteq> Some DirN"
    using assms(1) keep by (simp_all add: config_ready_def)
  have "\<not> is_root ?p" using assms(1) by (auto simp: is_root_def config_ready_def Cons_eq_append_conv append_eq_Cons_conv)
  with fs_wf_node [OF wf p] show "node_at fs1 (path_of d) = Some DirN" by simp
qed

lemma config_not_root:
  "config_ready d x old fs \<Longrightarrow> \<not> is_root (path_of d @ [x]) \<and> \<not> is_root (path_of d @ [x @ ''_tmp'', x])"
  by (auto simp: is_root_def config_ready_def Cons_eq_append_conv append_eq_Cons_conv)

lemma process_config_spec:
  assumes r: "config_ready d x old fs" and wf: "fs_wf fs" and n: "nm_to_config_path n = d @ CHR ''/'' # x"
    and st: "nt_disk st = fs" and ok: "ok \<longleftrightarrow> config_node_id (nm_config n) = ne_nodeId env"
  shows "process_config env n st =
    Fin (st\<lparr>nt_disk := config_disk d x old (nm_config n) ok fs, nt_tick := Suc (nt_tick st)\<rparr>) (config_reply env (nt_tick st) n ok)"
proof -
  let ?P = "d @ CHR ''/'' # x" and ?p = "path_of d @ [x]" and ?c = "path_of d @ [x @ ''_tmp'', x]"
  let ?C = "tmp_dir ?P @ x"
  define fs1 where "fs1 = snd (mkdir (tmp_dir ?P) fs)"
  define fs2 where "fs2 = del_node ?p (set_node ?c (FileN old) (set_node ?c (FileN []) fs1))"
  define fs3 where "fs3 = set_node ?p (FileN (nm_config n)) fs2"
  note d = config_mkdir [OF r wf, folded fs1_def]
  note x = r [unfolded config_ready_def]
  have P: "path_of ?P = ?p" using x by (intro path_of_child) simp_all
  have C: "path_of ?C = ?c" using x by (intro tmp_dir_paths) simp_all
  have ne: "?p \<noteq> ?c" by simp
  have "last x \<noteq> CHR ''/''" using x last_in_set [of x] by metis
  then have lP: "last ?P \<noteq> CHR ''/''" and lC: "last ?C \<noteq> CHR ''/''" using x by simp_all
  note nr = config_not_root [OF r]
  have "mkdir (tmp_dir ?P) fs = (True, fs1)" using x by (simp add: fs1_def prod_eq_iff)
  moreover have "Strings.split ?P (CHR ''/'') \<noteq> []" and "last (Strings.split ?P (CHR ''/'')) = x"
    using split_last [of "CHR ''/''" x d] x by simp_all
  moreover have "snd (move ?P ?C fs1) = fs2"
  proof -
    have "open_in fs1 ?P = Some (FileN old)" using d(5) lP unfolding open_in_def P by simp
    moreover have "can_open_out fs1 ?C" using d(2,4,6) lC x unfolding can_open_out_def C by (simp add: butlast_append)
    ultimately show ?thesis using ne by (simp add: move_spec P C put_file_def fs2_def)
  qed
  moreover have o2: "node_at fs2 ?c = Some (FileN old)" "node_at fs2 ?p = None" "node_at fs2 (path_of d) = Some DirN"
    "writable fs2 = writable fs"
    using d(2,3) nr by (simp_all add: fs2_def node_at_del)
  moreover have "write_file (c_str ?P) (nm_config n) fs2 = fs3"
  proof -
    have "c_str ?P = ?P" using x by (intro c_str_id) auto
    moreover have "can_open_out fs2 ?P" using o2 lP x unfolding can_open_out_def P by simp
    ultimately show ?thesis by (simp add: write_file_def put_file_def P fs3_def)
  qed
  moreover have "GetString (INIReader_file ?P fs3) ''base'' ''node_id'' [] = config_node_id (nm_config n)"
  proof -
    have "c_str ?P = ?P" using x by (intro c_str_id) auto
    moreover have "open_in fs3 ?P = Some (FileN (nm_config n))" using nr lP unfolding open_in_def P by (simp add: fs3_def)
    ultimately show ?thesis by (simp add: INIReader_file_def config_node_id_def stream_bytes_def Let_def)
  qed
  moreover have "snd (move ?C ?P fs3) = del_node ?c (set_node ?p (FileN old) (set_node ?p (FileN []) fs3))"
  proof -
    have "open_in fs3 ?C = Some (FileN old)" using o2 lC ne unfolding open_in_def C by (simp add: fs3_def tmp_dir_def)
    moreover have "can_open_out fs3 ?P" using o2 lP nr x unfolding can_open_out_def P by (simp add: fs3_def)
    ultimately show ?thesis using ne by (simp add: move_spec P C put_file_def)
  qed
  moreover have "config_disk d x old (nm_config n) ok fs =
      (if ok then fs3 else del_node ?c (set_node ?p (FileN old) (set_node ?p (FileN []) fs3)))"
    by (simp add: config_disk_def Let_def fs3_def fs2_def fs1_def)
  ultimately show ?thesis using n st
    by (simp add: process_config_def Let_def ok del: append_assoc append_Cons)
qed

text \<open>
  C5. A configuration replaces the file it is for only when it names this node. Then the file holds the new
  configuration, the old one is kept as a backup, and one reply with status \<open>SUCCESS\<close> is sent; otherwise the
  file holds what it held before, there is no backup, and the one reply has status \<open>INVALID\<close>. Nothing else on the
  disk changes but the directories of the backup.
\<close>

theorem config_update:
  assumes "config_ready d x old (nt_disk st)" and "fs_wf (nt_disk st)" and "nm_to_config_path n = d @ CHR ''/'' # x"
    and "needReply (nt_info st)" and "nm_uuid n \<noteq> []"
  shows "\<exists>st' r. handle_node env True n st = Fin st' () \<and> node_reply_out st' = node_reply_out st @ [r]
    \<and> rp_reply_uuid r = nm_uuid n \<and> rp_to_node_id r = nm_src_node_id n
    \<and> rp_status r = (if config_node_id (nm_config n) = ne_nodeId env then SUCCESS else INVALID)
    \<and> file_content (nt_disk st') (path_of d @ [x]) = Some (if rp_status r = SUCCESS then nm_config n else old)
    \<and> file_content (nt_disk st') (path_of d @ [x @ ''_tmp'', x]) = (if rp_status r = SUCCESS then Some old else None)
    \<and> (\<forall>q. q \<notin> {path_of d @ [x], path_of d @ [x @ ''_tmp'', x]} \<union> set (prefixes_of (path_of d @ [x @ ''_tmp'']))
          \<longrightarrow> node_at (nt_disk st') q = node_at (nt_disk st) q)"
proof -
  let ?ok = "config_node_id (nm_config n) = ne_nodeId env"
  define st1 where "st1 = st\<lparr>nt_base := stat_reader_mon_data (ne_uuid env (nt_tick st)) (ne_clock env (nt_tick st))
    (topic (nt_info st)) (nm_src_node_id n) (node_byte_size env n) (nt_base st), nt_tick := Suc (nt_tick st)\<rparr>"
  note pc = process_config_spec [OF assms(1-3), of st1 ?ok env]
  note d = config_mkdir [OF assms(1,2)] and nr = config_not_root [OF assms(1)]
  let ?fs = "config_disk d x old (nm_config n) ?ok (nt_disk st)"
  define r where "r = config_reply env (nt_tick st1) n ?ok"
  define st' where "st' = snd (node_send_reply env True r (st1\<lparr>nt_disk := ?fs, nt_tick := Suc (nt_tick st1)\<rparr>))"
  have nd: "needReply (nt_info st1)" using assms(4) by (simp add: st1_def)
  have "process_config env n st1 = Fin (st1\<lparr>nt_disk := ?fs, nt_tick := Suc (nt_tick st1)\<rparr>) r"
    using pc by (simp add: r_def st1_def)
  then have "handle_node env True n st = Fin st' ()"
    using assms(5) nd unfolding handle_node_def st1_def [symmetric] st'_def Let_def by simp
  moreover have "node_reply_out st' = node_reply_out st @ [r]" and "nt_disk st' = ?fs"
    by (simp_all add: st'_def node_send_reply_def st1_def)
  moreover have "rp_reply_uuid r = nm_uuid n" "rp_to_node_id r = nm_src_node_id n" "rp_status r = (if ?ok then SUCCESS else INVALID)"
    by (simp_all add: r_def config_reply_def)
  moreover have "file_content ?fs (path_of d @ [x]) = Some (if ?ok then nm_config n else old)"
    using nr by (simp add: config_disk_def Let_def file_content_def node_at_del)
  moreover have "file_content ?fs (path_of d @ [x @ ''_tmp'', x]) = (if ?ok then Some old else None)"
    using nr by (simp add: config_disk_def Let_def file_content_def node_at_del)
  moreover have "node_at ?fs q = node_at (nt_disk st) q"
    if "q \<notin> {path_of d @ [x], path_of d @ [x @ ''_tmp'', x]} \<union> set (prefixes_of (path_of d @ [x @ ''_tmp'']))" for q
    using that d(7) [of q] by (auto simp: config_disk_def Let_def node_at_del)
  ultimately show ?thesis by (intro exI [of _ st'] exI [of _ r]) simp
qed

definition demo_config :: string where
  "demo_config = ''[base]'' @ newline # ''node_id=n1'' @ [newline]"

definition demo_node_env :: node_env where
  "demo_node_env = \<lparr>ne_nodeId = ''n1'', ne_nodeName = ''one'', ne_archType = ''x86'', ne_osType = ''linux'', ne_domain = 0,
     ne_group = ''g'', ne_db = \<lparr>db_present = True, db_exec = \<lambda>_. 1\<rparr>, ne_uuid = \<lambda>_. ''u'', ne_clock = int,
     ne_stamps = \<lambda>_. [], node_byte_size = \<lambda>_. 9, node_reply_size = \<lambda>_. 9\<rparr>"

definition demo_node_topic :: node_topic where
  "demo_node_topic = \<lparr>nt_base = fresh_base \<lparr>topic = ''t'', topicReply = ''t/r'', partition = ''n1'',
       nodeId = ''n1'', nodeName = ''one'', domain = 0, needReply = True, monNodeId = ''m'', monSendSleep = 60,
       programName = ''node''\<rparr>,
     nt_disk = \<lparr>ents = [([''c''], DirN), ([''c'', ''n.ini''], FileN ''old'')], writable = (\<lambda>_. True), dir_len = 0\<rparr>,
     node_out = [], node_reply_out = [], nt_sqls = [],
     nt_sf = \<lparr>datacenterId = 1, machineId = 1, sequence = 0, lastStmp = 0\<rparr>, nt_tick = 0\<rparr>"

definition demo_node :: "string \<Rightarrow> Node" where
  "demo_node c = \<lparr>nm_uuid = ''7'', nm_to_node_id = ''n1'', nm_to_node_name = ''one'', nm_src_node_id = ''m'', nm_to_group = ''g'',
     nm_arch = 2, nm_os = 2, nm_to_config_path = ''c/n.ini'', nm_src_config_path = '''', nm_domain = 0, nm_config = c,
     nm_config_hash = ''''\<rparr>"

lemma demo_node_ready: "config_ready ''c'' ''n.ini'' ''old'' (nt_disk demo_node_topic)"
  by code_simp

lemma demo_node_wf: "fs_wf (nt_disk demo_node_topic)"
  by (auto simp: fs_wf_def demo_node_topic_def node_at_def is_root_def split: if_splits)

lemma demo_config_id: "config_node_id demo_config = ''n1''" "config_node_id ''nothing'' = []"
  by code_simp+

theorem config_update_witness:
  "(\<exists>st'. handle_node demo_node_env True (demo_node demo_config) demo_node_topic = Fin st' () \<and>
     file_content (nt_disk st') (path_of ''c'' @ [''n.ini'']) = Some demo_config) \<and>
   (\<exists>st'. handle_node demo_node_env True (demo_node ''nothing'') demo_node_topic = Fin st' () \<and>
     file_content (nt_disk st') (path_of ''c'' @ [''n.ini'']) = Some ''old'')"
proof -
  have n: "nm_to_config_path (demo_node c) = ''c'' @ CHR ''/'' # ''n.ini''" "nm_config (demo_node c) = c" "nm_uuid (demo_node c) \<noteq> []" for c
    by (simp_all add: demo_node_def)
  have e: "needReply (nt_info demo_node_topic)" "ne_nodeId demo_node_env = ''n1''" by code_simp+
  note u = config_update [OF demo_node_ready demo_node_wf n(1) e(1) n(3), of demo_node_env, unfolded n e]
  from u [of demo_config] u [of "''nothing''"] show ?thesis
    unfolding demo_config_id by (elim exE) (fastforce simp only: refl if_True if_False CommStatus.distinct list.distinct)
qed

subsection \<open>Rows of the database\<close>

lemma send_nodes_append:
  "send_nodes env ok (rs1 @ rs2) st = bind_run (send_nodes env (\<lambda>k. ok (length rs2 + k)) rs1 st) (\<lambda>st _. send_nodes env ok rs2 st)"
  by (induction rs1 arbitrary: st) (auto split: outcome.splits simp: add.commute)

lemma send_nodes_all:
  "\<forall>row \<in> set rows. fill_node env row = Ret (g row) \<Longrightarrow>
    \<exists>st'. send_nodes env (\<lambda>_. True) rows st = Fin st' () \<and> node_out st' = node_out st @ map g rows"
proof (induction rows arbitrary: st)
  case (Cons row rows)
  let ?st = "snd (send_node env True (g row) st)"
  obtain st' where "send_nodes env (\<lambda>_. True) rows ?st = Fin st' ()" "node_out st' = node_out ?st @ map g rows"
    using Cons.IH [of ?st] Cons.prems by auto
  moreover have "node_out ?st = node_out st @ [g row]" by (simp add: send_node_def)
  ultimately show ?case using Cons.prems by simp
qed simp

text \<open>
  One row with a NULL column stops the sending of configurations: in every turn the rows before it are sent
  (again), and no row after it ever is.
\<close>

theorem null_row_blocks:
  assumes "\<forall>row \<in> set good. fill_node env row = Ret (g row)" and "fill_node env bad = Throw e"
    and "db_present (ne_db env)" and "length (partition (nt_info st)) < 850"
  shows "\<exists>st'. node_writer_turn env (\<lambda>_. True) (Some (good @ bad # later)) st = Fin st' ()
    \<and> node_out st' = node_out st @ map g good"
proof -
  obtain st' where g: "send_nodes env (\<lambda>_. True) good st = Fin st' ()" "node_out st' = node_out st @ map g good"
    using send_nodes_all [OF assms(1), of st] by blast
  have "send_nodes env (\<lambda>_. True) (good @ bad # later) st = Exc st' e"
    unfolding send_nodes_append using g(1) assms(2) by simp
  moreover have "sprintf_1024 (node_sql (partition (nt_info st))) = Ret (node_sql (partition (nt_info st)))"
    using assms(4) length_quoted [of "partition (nt_info st)"] by (simp add: sprintf_1024_def node_sql_def)
  ultimately show ?thesis using assms(3) g(2) by (simp add: node_writer_turn_def)
qed

theorem null_row_blocks_witness:
  "\<exists>st'. node_writer_turn demo_node_env (\<lambda>_. True)
      (Some ([] @ [Some ''1'', None] # [map Some [''1'', ''2'', ''3'', ''4'', ''5'', ''6'', ''7'', ''8'']])) demo_node_topic = Fin st' ()
    \<and> node_out st' = node_out demo_node_topic @ map (\<lambda>_ :: node_row. demo_node []) []"
  by (rule null_row_blocks [of "[]" demo_node_env "\<lambda>_. demo_node []" _ "''Null value not allowed''"])
    (simp_all add: fill_node_def row_get_def demo_node_env_def demo_node_topic_def fresh_base_def create_writer_mon_pub_def)

subsection \<open>Pings and traffic counts\<close>

lemma length_ping_sql: "length (ping_sql p) \<le> length (pg_src_node_id p) + 2 * length (pg_desc p) + 300"
  using length_quoted [of "pg_src_node_id p"] length_quoted [of "pg_desc p"]
    length_uint64 [of "pg_state p"] length_uint64 [of "c_div (pg_created_at p) 1000"]
  by (simp add: ping_sql_def Let_def)

text \<open>
  A sign of life is recorded: a turn of the ping writer sends one message, and the node that gets it executes
  the one statement that marks the sender as online at the second of the sending; the statement fits into its
  buffer for every id of up to 700 characters.
\<close>

theorem ping_recorded:
  assumes "nodeId (topic_info (pt_base st)) \<noteq> []" and "length (nodeId (topic_info (pt_base st))) \<le> 700"
    and "now < 2 ^ 63" and "db_present (pe_db env')"
  shows "\<exists>p rst'. ping_out (ping_turn env True now st) = ping_out st @ [p] \<and> pg_to_node_id p = monNodeId (topic_info (pt_base st))
    \<and> handle_ping env' p rst = Fin rst' () \<and> pt_sqls rst' = pt_sqls rst @ [
        ''insert into node_ping(`node_id`,`node_status_id`,`description`,`updated_at`) values(''
          @ quoted (nodeId (topic_info (pt_base st))) @ '',1,'' @ quoted ''online'' @ '','' @ to_string (now div 1000)
          @ '') on duplicate key update             node_status_id=1,description='' @ quoted ''online''
          @ '',updated_at='' @ to_string (now div 1000)]"
proof -
  define p where "p = \<lparr>pg_to_node_id = monNodeId (topic_info (pt_base st)), pg_src_node_id = nodeId (topic_info (pt_base st)),
    pg_state = 1, pg_created_at = int now, pg_desc = ''online''\<rparr>"
  have "c_div (int now) 1000 = int (now div 1000)" using c_div_nat [of 1000 now] by simp
  moreover have "now div 1000 < 2 ^ 64" 
    by (rule le_less_trans [OF div_le_dividend]) (use assms(3) in simp)
  ultimately have t: "to_uint64 (c_div (pg_created_at p) 1000) = now div 1000" "to_uint64 (pg_state p) = 1"
    by (simp_all add: p_def) (simp add: to_uint64_def)
  have one: "to_string 1 = ''1''" by code_simp
  have "length (ping_sql p) < 1024" using length_ping_sql [of p] assms(2) by (simp add: p_def)
  then have "sprintf_1024 (ping_sql p) = Ret (ping_sql p)" by (simp add: sprintf_1024_def)
  then have "\<exists>rst'. handle_ping env' p rst = Fin rst' () \<and> pt_sqls rst' = pt_sqls rst @ [ping_sql p]"
    using assms(4) by (simp add: handle_ping_def Let_def)
  moreover have "ping_out (ping_turn env True now st) = ping_out st @ [p]"
    using assms(1) by (simp add: ping_turn_def send_ping_def p_def Let_def)
  ultimately show ?thesis unfolding ping_sql_def t one Let_def by (auto simp: p_def)
qed

theorem ping_recorded_witness:
  "\<exists>p rst'. ping_out (ping_turn \<lparr>pe_db = \<lparr>db_present = False, db_exec = \<lambda>_. - 1\<rparr>, pe_uuid = \<lambda>_. ''u'', pe_clock = int, ping_byte_size = \<lambda>_. 9\<rparr>
      True 1700000000000 \<lparr>pt_base = nt_base demo_node_topic, ping_out = [], pt_sqls = [], pt_tick = 0\<rparr>) = [p] \<and>
    handle_ping \<lparr>pe_db = \<lparr>db_present = True, db_exec = \<lambda>_. 1\<rparr>, pe_uuid = \<lambda>_. ''u'', pe_clock = int, ping_byte_size = \<lambda>_. 9\<rparr> p
      \<lparr>pt_base = nt_base demo_node_topic, ping_out = [], pt_sqls = [], pt_tick = 0\<rparr> = Fin rst' () \<and> length (pt_sqls rst') = 1"
proof -
  let ?e = "\<lambda>b. \<lparr>pe_db = \<lparr>db_present = b, db_exec = \<lambda>_. if b then 1 else - 1\<rparr>, pe_uuid = \<lambda>_. ''u'', pe_clock = int, ping_byte_size = \<lambda>_. 9\<rparr>"
  let ?st = "\<lparr>pt_base = nt_base demo_node_topic, ping_out = [], pt_sqls = [], pt_tick = 0\<rparr>"
  have "nodeId (topic_info (pt_base ?st)) = ''n1''" by (simp add: demo_node_topic_def fresh_base_def create_writer_mon_pub_def)
  then show ?thesis using ping_recorded [of ?st 1700000000000 "?e True" "?e False" ?st] by fastforce
qed

lemma length_mon_sql:
  assumes "\<forall>i \<in> {mi_domain m, mi_cycle m, mi_ncount m, mi_nsize m, mi_srctype m}. - (2 ^ 63) \<le> i \<and> i < 2 ^ 63"
  shows "length (mon_sql m) \<le> length (mi_uuid m) + length (mi_srcnodeid m) + length (mi_tonodeid m) + length (mi_topicname m)
    + length (mi_progarmname m) + 400"
  using length_quoted [of "mi_uuid m"] length_quoted [of "mi_srcnodeid m"] length_quoted [of "mi_tonodeid m"]
    length_quoted [of "mi_topicname m"] length_quoted [of "mi_progarmname m"] assms
    length_int_string [of "mi_domain m"] length_int_string [of "mi_cycle m"] length_int_string [of "mi_ncount m"]
    length_int_string [of "mi_nsize m"] length_int_string [of "mi_srctype m"]
  by (simp add: mon_sql_def tab_def)

text \<open>A report whose texts are not longer than 3600 characters together is stored, in the order of the reports.\<close>

lemma reports_stored:
  assumes "\<forall>m \<in> set ms. length (mon_sql m) < 4096" and "db_present db"
  shows "foldl (\<lambda>s m. bind_run s (\<lambda>sqls _. handle_mon db m sqls)) (Fin sqls ()) ms = Fin (sqls @ map mon_sql ms) ()"
  using assms
  by (induction ms arbitrary: sqls) (auto simp: handle_mon_def insert_mon_def sprintf_4096_def split: option.splits)

end
