(* ===== verification/NodeMain.thy ===== *)
theory NodeMain
  imports IniFile TopicNames Commands S3Watch
begin

text \<open>
  The start of a node, \<open>node/src/main.cpp\<close>: the lock that keeps a second instance from running
  (\<open>SingleInstance\<close>), the groups of nodes (\<open>utils/parseJson.h\<close>), the settings that the configuration file
  gives, the names of the topics, and the topics that a managing node and a working node start.

  The configuration file and the file of the groups are read from a file tree; the JSON parser is a
  parameter (\<open>None\<close> for a parse error), and so are the plugin framework and the S3 client. Log messages and
  what is printed are left out, but not the undefined reads in their arguments.
\<close>

section \<open>Groups of nodes\<close>

text \<open>\<open>HasMember\<close> asserts that the value is an object; \<open>GetString\<close> is read as a C string.\<close>

fun json_member :: "string \<Rightarrow> json \<Rightarrow> json option outcome" where
  "json_member name (JObj kvs) = Ret (map_of kvs name)"
| "json_member name _ = UB ''HasMember of a value that is no object''"

definition member_names :: "json option \<Rightarrow> string list" where
  "member_names ms = (case ms of Some (JArr xs) \<Rightarrow> concat (map (\<lambda>j. case j of JStr s \<Rightarrow> [c_str s] | _ \<Rightarrow> []) xs) | _ \<Rightarrow> [])"

type_synonym groups = "(string \<times> string list) list"

fun collect_groups :: "json list \<Rightarrow> groups \<Rightarrow> groups outcome" where
  "collect_groups [] gm = Ret gm"
| "collect_groups (g # gs) gm =
     bind_outcome (json_member ''group_name'' g) (\<lambda>n. case n of
        Some (JStr name) \<Rightarrow> bind_outcome (json_member ''group_member'' g) (\<lambda>ms.
          collect_groups gs (AList.update (c_str name) (member_names ms) gm))
      | _ \<Rightarrow> collect_groups gs gm)"

definition parseJsonToMap :: "(bytes \<Rightarrow> json option) \<Rightarrow> string \<Rightarrow> fsys \<Rightarrow> groups outcome" where
  "parseJsonToMap parse filename fs =
     (case open_in fs (c_str filename) of
        None \<Rightarrow> Throw (''Unable to open file: '' @ filename)
      | Some n \<Rightarrow> (case parse (stream_bytes n) of
            None \<Rightarrow> Throw ''Error parsing JSON file.''
          | Some doc \<Rightarrow> bind_outcome (json_member ''groups'' doc) (\<lambda>gs. case gs of
                Some (JArr xs) \<Rightarrow> collect_groups xs [] | _ \<Rightarrow> Ret [])))"

fun getGroupVec :: "groups \<Rightarrow> string list \<Rightarrow> string list \<Rightarrow> string list" where
  "getGroupVec gm [] out = out"
| "getGroupVec gm (k # ks) out = getGroupVec gm ks (case map_of gm k of Some v \<Rightarrow> out @ v | None \<Rightarrow> out)"

definition group_ids :: "groups \<Rightarrow> string \<Rightarrow> string list" where
  "group_ids gm names = getGroupVec gm (Strings.split names (CHR '','')) []"

section \<open>Settings\<close>

text \<open>The parts of a topic's name, one group of keys of the section \<open>route\<close> each.\<close>

record route =
  rt_project :: string
  rt_bussDomain :: string
  rt_domain :: string
  rt_group :: string
  rt_buss :: string
  rt_func :: string

definition read_route :: "INIReader \<Rightarrow> string \<Rightarrow> string \<Rightarrow> string \<Rightarrow> string \<Rightarrow> string \<Rightarrow> string \<Rightarrow> route" where
  "read_route r pre funcKey bussDomain groupName buss func =
     \<lparr>rt_project = GetString r ''route'' (pre @ ''_project'') ''platform'',
      rt_bussDomain = GetString r ''route'' (pre @ ''_buss_domain'') bussDomain,
      rt_domain = GetString r ''route'' (pre @ ''_domain'') ''cloud'',
      rt_group = GetString r ''route'' (pre @ ''_group'') groupName,
      rt_buss = GetString r ''route'' (pre @ ''_buss'') buss,
      rt_func = GetString r ''route'' funcKey func\<rparr>"

record routes =
  nodeMsg :: route
  nodePing :: route
  nodeMstate :: route
  nodeCmd :: route
  fileDown :: route
  fileUp :: route
  mon :: route

text \<open>The function of the upload topic is read under the key \<open>file_ip_func\<close>.\<close>

definition read_routes :: "INIReader \<Rightarrow> routes" where
  "read_routes r =
     \<lparr>nodeMsg = read_route r ''node_msg'' ''node_msg_func'' ''mgr'' '''' ''node'' ''mgmt'',
      nodePing = read_route r ''node_ping'' ''node_ping_func'' ''mgr'' '''' ''nodePing'' ''ping'',
      nodeMstate = read_route r ''node_mstate'' ''node_mstate_func'' ''mgr'' '''' ''nodeMachState'' ''machstate'',
      nodeCmd = read_route r ''node_cmd'' ''node_cmd_func'' ''mgr'' '''' ''nodeCmd'' ''cmd'',
      fileDown = read_route r ''file_down'' ''file_down_func'' ''mgr'' '''' ''file'' ''down'',
      fileUp = read_route r ''file_up'' ''file_ip_func'' ''mgr'' '''' ''file'' ''up'',
      mon = read_route r ''mon'' ''mon_func'' ''mon'' ''mgr_x86_linux'' ''monitor'' ''mon''\<rparr>"

record S3WATCH =
  sw_bucket :: string
  sw_directory :: string
  sw_sleep :: int
  sw_keepFile :: bool
  sw_zipFlag :: bool
  sw_watchSubDir :: bool

definition read_watch :: "INIReader \<Rightarrow> nat \<Rightarrow> S3WATCH" where
  "read_watch r i =
     \<lparr>sw_bucket = GetString r ''s3watch'' (''bucket_'' @ to_string i) '''',
      sw_directory = GetString r ''s3watch'' (''directory_'' @ to_string i) '''',
      sw_sleep = to_int32 (GetInteger r ''s3watch'' (''sleep_'' @ to_string i) 30),
      sw_keepFile = GetBoolean r ''s3watch'' (''keep_file_'' @ to_string i) True,
      sw_zipFlag = GetBoolean r ''s3watch'' (''zip_flag_'' @ to_string i) True,
      sw_watchSubDir = GetBoolean r ''s3watch'' (''watch_sub_dir_'' @ to_string i) True\<rparr>"

definition read_watches :: "INIReader \<Rightarrow> S3WATCH list" where
  "read_watches r = map (read_watch r) [0..<nat (to_int32 (GetInteger r ''s3watch'' ''count'' 0))]"

definition read_process :: "INIReader \<Rightarrow> nat \<Rightarrow> PROCESS" where
  "read_process r i =
     \<lparr>p_state = to_int32 (GetInteger r ''process'' (''state_'' @ to_string i) 0),
      p_path = GetString r ''process'' (''path_name_'' @ to_string i) '''',
      p_cmd = '''',
      p_paras = GetString r ''process'' (''paras_'' @ to_string i) '''',
      p_add_paras1 = GetString r ''process'' (''paras1_'' @ to_string i) '''',
      p_add_paras2 = GetString r ''process'' (''paras2_'' @ to_string i) '''',
      p_keep_live = GetBoolean r ''process'' (''keep_alive_'' @ to_string i) True\<rparr>"

fun read_processes :: "INIReader \<Rightarrow> nat list \<Rightarrow> PROCESS list" where
  "read_processes r [] = []"
| "read_processes r (i # ks) =
     (let p = read_process r i in if p_path p = [] then read_processes r ks else p # read_processes r ks)"

record node_settings = NodeInfo +
  ns_domain :: int
  ns_nodeName :: string
  ns_location :: string
  ns_version :: string
  ns_osType :: string
  ns_archType :: string
  ns_endpoint :: string
  ns_accessKey :: string
  ns_secretKey :: string
  ns_programName :: string
  ns_s3WatchVec :: "S3WATCH list"

definition read_settings :: "INIReader \<Rightarrow> node_settings" where
  "read_settings r =
     \<lparr>ni_nodeId = GetString r ''base'' ''node_id'' '''',
      ni_group = GetString r ''base'' ''group'' '''',
      fileMaxReTry = to_int32 (GetInteger r ''route'' ''file_max_retry'' 100),
      fileBlockTimeout = to_int32 (GetInteger r ''route'' ''file_block_timeout'' 5000),
      fileBlockLastTimeout = to_int32 (GetInteger r ''route'' ''file_block_last_timeout'' 30000),
      fileSplitSize = to_int32 (GetInteger r ''route'' ''file_block_size'' 62),
      processVec = read_processes r [0..<nat (to_int32 (GetInteger r ''process'' ''count'' 0))],
      ns_domain = to_int32 (GetInteger r ''base'' ''domain'' 10),
      ns_nodeName = GetString r ''base'' ''name'' '''',
      ns_location = GetString r ''base'' ''location'' '''',
      ns_version = GetString r ''base'' ''version'' '''',
      ns_osType = GetString r ''base'' ''os_type'' '''',
      ns_archType = GetString r ''base'' ''arch_type'' '''',
      ns_endpoint = GetString r ''s3'' ''endpoint_url'' ''10.4.1.241:31239'',
      ns_accessKey = GetString r ''s3'' ''access_key'' ''xNTUsotTZMMepl3N'',
      ns_secretKey = GetString r ''s3'' ''secret_key'' ''m4rS20T2RRbuZ1DVb45N1ahWv0Smi89e'',
      ns_programName = GetString r ''base'' ''program_name'' ''node'',
      ns_s3WatchVec = read_watches r\<rparr>"

record db_settings =
  dbs_type :: int
  dbs_ip :: string
  dbs_user :: string
  dbs_pwd :: string
  dbs_name :: string
  dbs_port :: int
  dbs_poolNum :: int

definition read_db :: "INIReader \<Rightarrow> db_settings" where
  "read_db r =
     \<lparr>dbs_type = to_int32 (GetInteger r ''db'' ''type'' 1),
      dbs_ip = GetString r ''db'' ''ip'' ''10.4.1.203'',
      dbs_user = GetString r ''db'' ''user'' ''root'',
      dbs_pwd = GetString r ''db'' ''pwd'' ''Seisys*77889900'',
      dbs_name = GetString r ''db'' ''name'' ''databus-dev'',
      dbs_port = to_int32 (GetInteger r ''db'' ''port'' 3306),
      dbs_poolNum = to_int32 (GetInteger r ''db'' ''pool_num'' 10)\<rparr>"

section \<open>The names of the topics\<close>

text \<open>\<open>vec[0]\<close> of an empty vector is undefined.\<close>

definition first_id :: "string list \<Rightarrow> string outcome" where
  "first_id ids = (case ids of [] \<Rightarrow> UB ''[0] of an empty vector'' | x # _ \<Rightarrow> Ret x)"

definition route_topic :: "Domain \<Rightarrow> route \<Rightarrow> string \<Rightarrow> Direction \<Rightarrow> Topic" where
  "route_topic d rt node dir =
     createTopic d (rt_project rt) (rt_bussDomain rt) (rt_domain rt) node (rt_buss rt) (rt_func rt) dir"

record node_names =
  nodeCmdDown :: string
  nodeCmdUp :: string
  nodeMsgBaseDown :: string
  nodeMsgBaseUp :: string
  nodePingName :: string
  nodeMstateName :: string
  fileBaseDown :: string
  fileBaseDownReply :: string
  fileBaseUp :: string
  fileBaseUpReply :: string
  monStats :: string

definition node_names_of :: "groups \<Rightarrow> routes \<Rightarrow> node_names outcome" where
  "node_names_of gm rs =
     bind_outcome (first_id (group_ids gm (rt_group (nodeCmd rs)))) (\<lambda>cmdId.
     bind_outcome (first_id (group_ids gm (rt_group (nodePing rs)))) (\<lambda>pingId.
     bind_outcome (first_id (group_ids gm (rt_group (nodeMstate rs)))) (\<lambda>mstateId.
     bind_outcome (first_id (group_ids gm (rt_group (mon rs)))) (\<lambda>monId.
     Ret \<lparr>nodeCmdDown = buildKeyExpr (route_topic TIMES (nodeCmd rs) cmdId DOWN),
          nodeCmdUp = buildKeyExpr (route_topic TIMES (nodeCmd rs) cmdId UP),
          nodeMsgBaseDown = buildKeyExpr (route_topic TIMES (nodeMsg rs) ''*'' DOWN),
          nodeMsgBaseUp = buildKeyExpr (route_topic TIMES (nodeMsg rs) ''*'' UP),
          nodePingName = buildKeyExpr (route_topic TIMES (nodePing rs) pingId UP),
          nodeMstateName = buildKeyExpr (route_topic TIMES (nodeMstate rs) mstateId UP),
          fileBaseDown = buildKeyExpr (route_topic DEFAULT (fileDown rs) ''*'' DOWN),
          fileBaseDownReply = buildKeyExpr (route_topic DEFAULT (fileDown rs) ''*'' UP),
          fileBaseUp = buildKeyExpr (route_topic DEFAULT (fileUp rs) ''*'' UP),
          fileBaseUpReply = buildKeyExpr (route_topic DEFAULT (fileUp rs) ''*'' DOWN),
          monStats = buildKeyExpr (route_topic TIMES (mon rs) monId UP)\<rparr>))))"

section \<open>Starting the topics\<close>

record topic_conf = TopicInfo +
  replyPartition :: string
  monTopicName :: string
  configPath :: string

text \<open>The fields that \<open>main\<close> sets on every topic; the others keep the value of an empty string.\<close>

definition base_info :: "INIReader \<Rightarrow> node_names \<Rightarrow> bool \<Rightarrow> string \<Rightarrow> string \<Rightarrow> topic_conf" where
  "base_info r nn reply name replyName =
     \<lparr>topic = name, topicReply = replyName, partition = '''',
      nodeId = ni_nodeId (read_settings r), nodeName = ns_nodeName (read_settings r),
      domain = ns_domain (read_settings r), needReply = reply,
      monNodeId = GetString r ''monitor'' ''node_id'' ''000000000000'',
      monSendSleep = int (to_uint32 (to_int32 (GetInteger r ''monitor'' ''send_sleep'' 60))),
      programName = ns_programName (read_settings r), replyPartition = '''', monTopicName = monStats nn,
      configPath = GetString r ''route'' ''databus_conf'' ''config/databus.json5''\<rparr>"

text \<open>What is started, in order, with its settings; a topic for a node replaces the star by its id.\<close>

datatype role = PingReader | PingWriter | MstateReader | MstateWriter | NodeWriter | NodeReader
  | FileWriter | FileReader | CmdWriter | CmdReader | CmdWorker

definition for_node :: "string \<Rightarrow> string \<Rightarrow> string" where
  "for_node name node = replaceFirstString name ''*'' node"

definition msg_info :: "INIReader \<Rightarrow> node_names \<Rightarrow> string \<Rightarrow> topic_conf" where
  "msg_info r nn node = (base_info r nn True (for_node (nodeMsgBaseDown nn) node) (for_node (nodeMsgBaseUp nn) node))
     \<lparr>partition := node\<rparr>"

definition start_messages :: "INIReader \<Rightarrow> node_names \<Rightarrow> string list \<Rightarrow> (role \<times> topic_conf) list" where
  "start_messages r nn nodes =
     (let self = ni_nodeId (read_settings r)
      in if ni_group (read_settings r) = ''mgr''
         then concat (map (\<lambda>node. (NodeWriter, msg_info r nn node) # (if node = self then [(NodeReader, msg_info r nn node)] else [])) nodes)
         else [(NodeReader, msg_info r nn self)])"

definition down_info :: "INIReader \<Rightarrow> node_names \<Rightarrow> string \<Rightarrow> topic_conf" where
  "down_info r nn node = (base_info r nn True (for_node (fileBaseDown nn) node) (for_node (fileBaseDownReply nn) node))
     \<lparr>partition := node, replyPartition := node\<rparr>"

definition up_info :: "INIReader \<Rightarrow> node_names \<Rightarrow> string \<Rightarrow> topic_conf" where
  "up_info r nn node = (base_info r nn True (for_node (fileBaseUp nn) node) (for_node (fileBaseUpReply nn) node))
     \<lparr>partition := node, replyPartition := node\<rparr>"

definition start_files :: "INIReader \<Rightarrow> node_names \<Rightarrow> string list \<Rightarrow> (role \<times> topic_conf) list" where
  "start_files r nn nodes =
     (let self = ni_nodeId (read_settings r)
      in if ni_group (read_settings r) = ''mgr''
         then concat (map (\<lambda>node. [(FileWriter, down_info r nn node), (FileReader, up_info r nn node)]) nodes)
         else [(FileWriter, up_info r nn self), (FileReader, down_info r nn self)])"

definition start_pings :: "INIReader \<Rightarrow> node_names \<Rightarrow> (role \<times> topic_conf) list" where
  "start_pings r nn =
     (let ping = (base_info r nn False (nodePingName nn) '''')\<lparr>partition := ni_nodeId (read_settings r)\<rparr>;
          mstate = base_info r nn False (nodeMstateName nn) '''';
          mgr = (ni_group (read_settings r) = ''mgr'')
      in (if mgr then [(PingReader, ping)] else []) @ [(PingWriter, ping)] @
         (if mgr then [(MstateReader, mstate)] else []) @ [(MstateWriter, mstate)])"

definition start_commands :: "INIReader \<Rightarrow> node_names \<Rightarrow> (role \<times> topic_conf) list" where
  "start_commands r nn =
     (let info = base_info r nn True (nodeCmdDown nn) (nodeCmdUp nn)
      in if ni_group (read_settings r) = ''mgr'' then [(CmdWriter, info), (CmdReader, info), (CmdWorker, info)]
         else [(CmdReader, info), (CmdWorker, info)])"

section \<open>main\<close>

text \<open>
  \<open>node_main\<close> after the lock has been taken: the code it returns, the loop it stays in with what it has started,
  or an abort (undefined behaviour or an exception that nobody catches). The S3 client is initialised
  where the build has it (\<open>USE_S3\<close>).
\<close>

datatype main_end = Returned int | Aborted string | Running "(role \<times> topic_conf) list" node_settings "db_settings option"

record main_env =
  me_parse :: "bytes \<Rightarrow> json option"
  me_s3_init :: "(string \<Rightarrow> string \<Rightarrow> string \<Rightarrow> bool) option"
  me_framework_start :: bool

text \<open>\<open>argv[argc]\<close> is a null pointer.\<close>

definition config_name :: "string list \<Rightarrow> string outcome" where
  "config_name argv = (if length argv \<le> 1 then Ret ''config/node1.ini''
     else if length argv = 2 then UB ''string of a null pointer'' else Ret (c_str (argv ! 2)))"

definition start_node :: "main_env \<Rightarrow> INIReader \<Rightarrow> groups \<Rightarrow> node_names \<Rightarrow> main_end" where
  "start_node env r gm nn =
     (let ns = read_settings r; rs = read_routes r;
          db = (if ni_group ns = ''mgr'' then Some (read_db r) else None)
      in if (case me_s3_init env of None \<Rightarrow> False | Some f \<Rightarrow> \<not> f (ns_endpoint ns) (ns_accessKey ns) (ns_secretKey ns))
         then Returned (-1)
         else if \<not> me_framework_start env then Returned (-1)
         else Running (start_pings r nn @ start_messages r nn (group_ids gm (rt_group (nodeMsg rs)))
                @ start_files r nn (group_ids gm (rt_group (fileDown rs))) @ start_commands r nn) ns db)"

definition node_main :: "main_env \<Rightarrow> string list \<Rightarrow> fsys \<Rightarrow> main_end" where
  "node_main env argv fs =
     (case config_name argv of
        UB e \<Rightarrow> Aborted e
      | Throw e \<Rightarrow> Aborted e
      | Ret name \<Rightarrow>
          (let r = INIReader_file name fs
           in if rd_error r < 0 then (if length argv \<le> 1 then Aborted ''read past the end of argv'' else Returned (-1))
              else let groupPath = GetString r ''group'' ''group_path'' ''''
                in if groupPath = [] then Returned 0
                   else case parseJsonToMap (me_parse env) groupPath fs of
                       UB e \<Rightarrow> Aborted e
                     | Throw e \<Rightarrow> Aborted e
                     | Ret gm \<Rightarrow> (case node_names_of gm (read_routes r) of
                           UB e \<Rightarrow> Aborted e
                         | Throw e \<Rightarrow> Aborted e
                         | Ret nn \<Rightarrow> start_node env r gm nn)))"

section \<open>One instance\<close>

text \<open>
  The lock file: its inode, if the name exists, the write locks that processes hold on inodes, and the next
  new inode. A lock belongs to the inode, not to the name, and closing the file gives it back.
\<close>

record lock_disk =
  lk_file :: "nat option"
  lk_held :: "(nat \<times> nat) list"
  lk_fresh :: nat

definition open_lockfile :: "lock_disk \<Rightarrow> nat \<times> lock_disk" where
  "open_lockfile st = (case lk_file st of Some i \<Rightarrow> (i, st)
     | None \<Rightarrow> (lk_fresh st, st\<lparr>lk_file := Some (lk_fresh st), lk_fresh := Suc (lk_fresh st)\<rparr>))"

definition close_lockfile :: "nat \<Rightarrow> nat \<Rightarrow> lock_disk \<Rightarrow> lock_disk" where
  "close_lockfile pid i st = st\<lparr>lk_held := filter (\<lambda>h. h \<noteq> (i, pid)) (lk_held st)\<rparr>"

text \<open>The answer, and the descriptor that the object keeps: it is not reset when the lock is refused.\<close>

definition isAnotherInstanceRunning :: "nat \<Rightarrow> bool \<Rightarrow> lock_disk \<Rightarrow> bool \<times> nat option \<times> lock_disk" where
  "isAnotherInstanceRunning pid can_open st =
     (if \<not> can_open then (True, None, st)
      else let (i, st1) = open_lockfile st
        in if \<exists>q \<in> set (map snd (filter (\<lambda>h. fst h = i) (lk_held st1))). q \<noteq> pid
           then (True, Some i, close_lockfile pid i st1)
           else (False, Some i, st1\<lparr>lk_held := (i, pid) # lk_held st1\<rparr>))"

definition end_SingleInstance :: "nat \<Rightarrow> nat option \<Rightarrow> lock_disk \<Rightarrow> lock_disk" where
  "end_SingleInstance pid fd st =
     (case fd of None \<Rightarrow> st | Some i \<Rightarrow> close_lockfile pid i st)\<lparr>lk_file := None\<rparr>"

text \<open>
  The program as a process: refused, it returns 1; otherwise it runs \<open>node_main\<close>, and the lock is given back
  when that returns. A process that aborts leaves the file, and the system takes its lock.
\<close>

definition run_main :: "nat \<Rightarrow> bool \<Rightarrow> main_env \<Rightarrow> string list \<Rightarrow> fsys \<Rightarrow> lock_disk \<Rightarrow> main_end \<times> lock_disk" where
  "run_main pid can_open env argv fs st =
     (let (another, fd, st1) = isAnotherInstanceRunning pid can_open st
      in if another then (Returned 1, end_SingleInstance pid fd st1)
         else case node_main env argv fs of
             Returned c \<Rightarrow> (Returned c, end_SingleInstance pid fd st1)
           | Aborted e \<Rightarrow> (Aborted e, case fd of None \<Rightarrow> st1 | Some i \<Rightarrow> close_lockfile pid i st1)
           | Running ts ns db \<Rightarrow> (Running ts ns db, st1))"

section \<open>Properties\<close>

subsection \<open>The lock\<close>

lemma refused:
  assumes "lk_file st = Some i" and "(i, p) \<in> set (lk_held st)" and "p \<noteq> q"
  shows "fst (isAnotherInstanceRunning q True st)"
  using assms by (force simp: isAnotherInstanceRunning_def open_lockfile_def Let_def)

text \<open>
  The lock does not keep a third instance out. While a node \<open>p\<close> runs, a second start is refused, but the
  refused process removes the lock file, which belongs to \<open>p\<close>: the start after that is not refused, and two nodes run.
\<close>

theorem lock_lost_after_refusal:
  assumes "lk_file st = Some i" and "(i, p) \<in> set (lk_held st)" and "p \<noteq> q"
    and "\<forall>h \<in> set (lk_held st). fst h < lk_fresh st" and "node_main env argv fs = Running ts ns db"
  shows "fst (run_main q True env argv fs st) = Returned 1
    \<and> (i, p) \<in> set (lk_held (snd (run_main q True env argv fs st)))
    \<and> fst (run_main r True env argv fs (snd (run_main q True env argv fs st))) = Running ts ns db"
proof -
  obtain fd st1 where a: "isAnotherInstanceRunning q True st = (True, fd, st1)"
    using refused [OF assms(1-3)] by (metis prod.collapse)
  then have "fd = Some i" "st1 = close_lockfile q i st"
    using assms(1) by (auto simp: isAnotherInstanceRunning_def open_lockfile_def split: if_splits)
  define st2 where "st2 = snd (run_main q True env argv fs st)"
  have st2: "st2 = (close_lockfile q i st)\<lparr>lk_file := None\<rparr>"
    using a \<open>fd = Some i\<close> \<open>st1 = _\<close> by (simp add: st2_def run_main_def end_SingleInstance_def close_lockfile_def)
  have "fst (isAnotherInstanceRunning r True st2) = False"
    using assms(4) by (auto simp: st2 isAnotherInstanceRunning_def open_lockfile_def close_lockfile_def)
  then have "fst (run_main r True env argv fs st2) = Running ts ns db"
    using assms(5) by (simp add: run_main_def split_beta)
  moreover have "(i, p) \<in> set (lk_held st2)" using assms(2,3) by (simp add: st2 close_lockfile_def)
  moreover have "fst (run_main q True env argv fs st) = Returned 1" using a by (simp add: run_main_def)
  ultimately show ?thesis unfolding st2_def by simp
qed

subsection \<open>Names for one node\<close>

definition star_free :: "route \<Rightarrow> bool" where
  "star_free rt \<longleftrightarrow> CHR ''*'' \<notin> set (rt_project rt @ rt_bussDomain rt @ rt_domain rt)"

definition plain_route :: "route \<Rightarrow> bool" where
  "plain_route rt \<longleftrightarrow> star_free rt \<and>
     CHR ''/'' \<notin> set (rt_project rt @ rt_bussDomain rt @ rt_domain rt @ rt_buss rt @ rt_func rt)"

lemma str_find_first: "c \<notin> set a \<Longrightarrow> str_find [c] (a @ c # b) = Some (length a)"
  by (induction a) auto

lemma replace_first: "c \<notin> set a \<Longrightarrow> replaceFirstString (a @ c # b) [c] new = a @ new @ b"
  by (simp add: replaceFirstString_def str_find_first str_replace_def)

lemma for_node_makes_names:
  assumes "star_free rt"
  shows "for_node (buildKeyExpr (route_topic d rt ''*'' dir)) node = buildKeyExpr (route_topic d rt node dir)"
proof -
  let ?a = "getDomainString d @ ''/'' @ rt_project rt @ ''/'' @ rt_bussDomain rt @ ''/'' @ rt_domain rt @ ''/''"
  let ?b = "''/'' @ rt_buss rt @ ''/'' @ rt_func rt @ ''/'' @ getDirectionString dir"
  have "CHR ''*'' \<notin> set (getDomainString d)" by (cases d) simp_all
  then have "CHR ''*'' \<notin> set ?a" using assms by (simp add: star_free_def)
  from replace_first [OF this, of ?b node] show ?thesis
    by (simp add: for_node_def buildKeyExpr_def route_topic_def createTopic_def)
qed

text \<open>
  For a node, replacing the star in the name of a base topic gives the name of the topic that is made for the
  node, provided that project, business domain and domain hold no star.
\<close>

theorem for_node_makes_topic:
  assumes "star_free rt"
  shows "for_node (buildKeyExpr (route_topic d rt ''*'' dir)) node = buildKeyExpr (route_topic d rt node dir)"
  using assms by (rule for_node_makes_names)

definition demo_route :: route where
  "demo_route = \<lparr>rt_project = ''platform'', rt_bussDomain = ''mgr'', rt_domain = ''cloud'', rt_group = ''g'',
     rt_buss = ''file'', rt_func = ''down''\<rparr>"

theorem for_node_makes_topic_witness:
  "for_node ''default/platform/mgr/cloud/*/file/down/up'' ''n1'' = ''default/platform/mgr/cloud/n1/file/down/up''"
  using for_node_makes_topic [of demo_route DEFAULT UP "''n1''"]
  by (simp add: star_free_def demo_route_def buildKeyExpr_def route_topic_def createTopic_def)

subsection \<open>The topics of managing and working nodes\<close>

lemma names_determined:
  "node_names_of gm rs = Ret nn \<Longrightarrow>
     nodeMsgBaseDown nn = buildKeyExpr (route_topic TIMES (nodeMsg rs) ''*'' DOWN) \<and>
     fileBaseDown nn = buildKeyExpr (route_topic DEFAULT (fileDown rs) ''*'' DOWN) \<and>
     fileBaseDownReply nn = buildKeyExpr (route_topic DEFAULT (fileDown rs) ''*'' UP) \<and>
     fileBaseUp nn = buildKeyExpr (route_topic DEFAULT (fileUp rs) ''*'' UP) \<and>
     fileBaseUpReply nn = buildKeyExpr (route_topic DEFAULT (fileUp rs) ''*'' DOWN)"
  by (auto simp: node_names_of_def first_id_def split: list.splits)

text \<open>The role at the other end of a topic.\<close>

fun peer :: "role \<Rightarrow> role option" where
  "peer PingWriter = Some PingReader"
| "peer MstateWriter = Some MstateReader"
| "peer NodeReader = Some NodeWriter"
| "peer FileWriter = Some FileReader"
| "peer FileReader = Some FileWriter"
| "peer CmdReader = Some CmdWriter"
| "peer _ = None"

definition started :: "main_end \<Rightarrow> (role \<times> topic_conf) list" where
  "started e = (case e of Running ts _ _ \<Rightarrow> ts | _ \<Rightarrow> [])"

text \<open>The four names of a node's file topics.\<close>

definition file_names :: "node_names \<Rightarrow> string \<Rightarrow> string list" where
  "file_names nn node = map (\<lambda>f. for_node (f nn) node) [fileBaseDown, fileBaseDownReply, fileBaseUp, fileBaseUpReply]"

definition same_name :: "route \<Rightarrow> route \<Rightarrow> bool" where
  "same_name a b \<longleftrightarrow> rt_project a = rt_project b \<and> rt_bussDomain a = rt_bussDomain b \<and> rt_domain a = rt_domain b
     \<and> rt_buss a = rt_buss b \<and> rt_func a = rt_func b"

lemma route_topic_inject:
  assumes "plain_route a" and "plain_route b" and "CHR ''/'' \<notin> set m \<union> set n"
    and "buildKeyExpr (route_topic d a m x) = buildKeyExpr (route_topic e b n y)"
  shows "m = n \<and> x = y \<and> same_name a b"
proof -
  have "slash_free (route_topic d a m x)" "slash_free (route_topic e b n y)"
    using assms(1-3) by (simp_all add: slash_free_def segments_def route_topic_def createTopic_def plain_route_def)
  from key_expr_identifies_topic [OF this assms(4)]
  show ?thesis by (simp add: route_topic_def createTopic_def same_name_def)
qed

text \<open>
  C30. Files for one node never travel on a topic of another: when the segments of the two file routes hold no slash
  and no star, and the routes differ, the four names of all file topics of all nodes are pairwise different.
\<close>

theorem file_topics_separate:
  assumes "node_names_of gm rs = Ret nn" and "plain_route (fileDown rs)" and "plain_route (fileUp rs)"
    and "\<not> same_name (fileDown rs) (fileUp rs)" and "CHR ''/'' \<notin> set m \<union> set n"
  shows "distinct (file_names nn m) \<and> (m \<noteq> n \<longrightarrow> set (file_names nn m) \<inter> set (file_names nn n) = {})"
proof -
  let ?k = "\<lambda>rt node dir. buildKeyExpr (route_topic DEFAULT rt node dir)"
  have names: "file_names nn k = [?k (fileDown rs) k DOWN, ?k (fileDown rs) k UP, ?k (fileUp rs) k UP, ?k (fileUp rs) k DOWN]" for k
    using names_determined [OF assms(1)] assms(2,3) by (simp add: file_names_def for_node_makes_names plain_route_def)
  have same: "same_name b a \<longleftrightarrow> same_name a b" for a b by (auto simp: same_name_def)
  have inj: "?k a k x = ?k b l y \<longleftrightarrow> k = l \<and> x = y \<and> a = b"
    if "a \<in> {fileDown rs, fileUp rs}" "b \<in> {fileDown rs, fileUp rs}" "k \<in> {m, n}" "l \<in> {m, n}" for a b k l x y
    using that assms(2-5) route_topic_inject [of a b k l DEFAULT x DEFAULT y] same [of a b] by auto
  have ne: "fileDown rs \<noteq> fileUp rs" using assms(4) by (auto simp: same_name_def)
  show ?thesis unfolding names using ne by (auto simp: inj)
qed

text \<open>A managing and a working node whose configurations agree on the topics and the groups.\<close>

definition same_network :: "INIReader \<Rightarrow> INIReader \<Rightarrow> groups \<Rightarrow> bool" where
  "same_network rm rw gm \<longleftrightarrow> read_routes rm = read_routes rw
     \<and> ni_group (read_settings rm) = ''mgr'' \<and> ni_group (read_settings rw) \<noteq> ''mgr''
     \<and> ni_nodeId (read_settings rw) \<in> set (group_ids gm (rt_group (nodeMsg (read_routes rm))))
     \<and> ni_nodeId (read_settings rw) \<in> set (group_ids gm (rt_group (fileDown (read_routes rm))))"

lemma started_start_node:
  "start_node env r gm nn = Running ts ns db \<Longrightarrow>
     ts = start_pings r nn @ start_messages r nn (group_ids gm (rt_group (nodeMsg (read_routes r))))
       @ start_files r nn (group_ids gm (rt_group (fileDown (read_routes r)))) @ start_commands r nn"
  by (auto simp: start_node_def Let_def split: if_splits)

definition meets :: "role \<times> topic_conf \<Rightarrow> role \<times> topic_conf \<Rightarrow> bool" where
  "meets a b \<longleftrightarrow> peer (fst a) = Some (fst b) \<and> topic (snd b) = topic (snd a) \<and> topicReply (snd b) = topicReply (snd a)
     \<and> (fst a \<in> {FileWriter, FileReader, NodeReader} \<longrightarrow> partition (snd b) = partition (snd a))"

lemma infos_meet:
  fixes rm rw nn node
  shows "topic (msg_info rm nn node) = topic (msg_info rw nn node)" "topicReply (msg_info rm nn node) = topicReply (msg_info rw nn node)"
    "topic (down_info rm nn node) = topic (down_info rw nn node)" "topicReply (down_info rm nn node) = topicReply (down_info rw nn node)"
    "topic (up_info rm nn node) = topic (up_info rw nn node)" "topicReply (up_info rm nn node) = topicReply (up_info rw nn node)"
  by (simp_all add: msg_info_def down_info_def up_info_def base_info_def)

lemma infos_partition [simp]:
  "partition (msg_info r nn node) = node" "partition (down_info r nn node) = node" "partition (up_info r nn node) = node"
  by (simp_all add: msg_info_def down_info_def up_info_def)

text \<open>
  C4. Every topic that a working node starts has its other end on the managing node: for each reader or writer of
  the worker (its command worker apart) the managing node has started the opposite role on the same topic, with the
  same reply topic, and for files and configurations with the worker's partition.
\<close>

theorem worker_meets_manager:
  assumes "same_network rm rw gm" and "node_names_of gm (read_routes rm) = Ret nn"
    and "start_node em rm gm nn = Running tm nm dm" and "start_node ew rw gm nn = Running tw nw dw"
    and "t \<in> set tw" and "fst t \<noteq> CmdWorker"
  shows "\<exists>t' \<in> set tm. meets t t'"
proof -
  let ?w = "ni_nodeId (read_settings rw)" and ?pm = "base_info rm nn"
  let ?ping = "(?pm False (nodePingName nn) [])\<lparr>partition := ni_nodeId (read_settings rm)\<rparr>"
  note net = assms(1) [unfolded same_network_def]
  note tm = started_start_node [OF assms(3)] and tw = started_start_node [OF assms(4)]
  have m: "(PingReader, ?ping) \<in> set tm" "(MstateReader, ?pm False (nodeMstateName nn) []) \<in> set tm"
    "(NodeWriter, msg_info rm nn ?w) \<in> set tm" "(FileWriter, down_info rm nn ?w) \<in> set tm"
    "(FileReader, up_info rm nn ?w) \<in> set tm" "(CmdWriter, ?pm True (nodeCmdDown nn) (nodeCmdUp nn)) \<in> set tm"
    using net unfolding tm start_pings_def start_messages_def start_files_def start_commands_def Let_def by auto
  have "t \<in> {(PingWriter, (base_info rw nn False (nodePingName nn) [])\<lparr>partition := ?w\<rparr>),
      (MstateWriter, base_info rw nn False (nodeMstateName nn) []), (NodeReader, msg_info rw nn ?w),
      (FileWriter, up_info rw nn ?w), (FileReader, down_info rw nn ?w),
      (CmdReader, base_info rw nn True (nodeCmdDown nn) (nodeCmdUp nn))}"
    using assms(5,6) net unfolding tw start_pings_def start_messages_def start_files_def start_commands_def Let_def by auto
  then show ?thesis
  proof (elim insertE emptyE)
    assume "t = (PingWriter, (base_info rw nn False (nodePingName nn) [])\<lparr>partition := ?w\<rparr>)"
    with m(1) show ?thesis by (intro bexI [of _ "(PingReader, ?ping)"]) (simp_all add: meets_def base_info_def)
  next
    assume "t = (MstateWriter, base_info rw nn False (nodeMstateName nn) [])"
    with m(2) show ?thesis by (intro bexI [OF _ m(2)]) (simp_all add: meets_def base_info_def)
  next
    assume "t = (NodeReader, msg_info rw nn ?w)"
    then show ?thesis by (intro bexI [OF _ m(3)]) (simp add: meets_def infos_meet [of rm nn ?w rw])
  next
    assume "t = (FileWriter, up_info rw nn ?w)"
    then show ?thesis by (intro bexI [OF _ m(5)]) (simp add: meets_def infos_meet [of rm nn ?w rw])
  next
    assume "t = (FileReader, down_info rw nn ?w)"
    then show ?thesis by (intro bexI [OF _ m(4)]) (simp add: meets_def infos_meet [of rm nn ?w rw])
  next
    assume "t = (CmdReader, base_info rw nn True (nodeCmdDown nn) (nodeCmdUp nn))"
    then show ?thesis by (intro bexI [OF _ m(6)]) (simp add: meets_def base_info_def)
  qed
qed

text \<open>
  Without members in the group of the command, ping, state or monitor topic the program does not start: it reads
  the first element of an empty vector, before any topic is started. The default of the first three groups is the
  empty name, which has no members.
\<close>

theorem no_members_aborts:
  assumes "config_name argv = Ret name" and "0 \<le> rd_error (INIReader_file name fs)"
    and "GetString (INIReader_file name fs) ''group'' ''group_path'' [] = path" and "path \<noteq> []"
    and "parseJsonToMap (me_parse env) path fs = Ret gm" and "rs = read_routes (INIReader_file name fs)"
    and "g \<in> {rt_group (nodeCmd rs), rt_group (nodePing rs), rt_group (nodeMstate rs), rt_group (mon rs)}"
    and "group_ids gm g = []"
  shows "node_main env argv fs = Aborted ''[0] of an empty vector''"
proof -
  have "\<exists>e. node_names_of gm rs = UB e \<and> e = ''[0] of an empty vector''"
    using assms(7,8) by (auto simp: node_names_of_def first_id_def split: list.splits)
  with assms(1-6) show ?thesis by (auto simp: node_main_def Let_def)
qed

subsection \<open>A small network\<close>

definition demo_lines :: "string list \<Rightarrow> string" where
  "demo_lines ls = concat (map (\<lambda>l. l @ [newline]) ls)"

definition demo_conf :: "string \<Rightarrow> string \<Rightarrow> string \<Rightarrow> string" where
  "demo_conf node grp cmd = demo_lines [''[base]'', ''node_id='' @ node, ''group='' @ grp, ''[group]'', ''group_path=g.json'',
     ''[route]'', ''node_msg_group=g'', ''node_cmd_group='' @ cmd, ''node_ping_group=g'', ''node_mstate_group=g'',
     ''file_down_group=g'', ''mon_group=g'']"

definition demo_main_fs :: fsys where
  "demo_main_fs = \<lparr>ents = [([''m.ini''], FileN (demo_conf ''m'' ''mgr'' ''g'')), ([''n.ini''], FileN (demo_conf ''n'' ''edge'' ''g'')),
     ([''e.ini''], FileN (demo_conf ''n'' ''edge'' '''')), ([''g.json''], FileN [])], writable = (\<lambda>_. True), dir_len = 0\<rparr>"

definition demo_main_env :: main_env where
  "demo_main_env = \<lparr>me_parse = \<lambda>_. Some (JObj [(''groups'', JArr [JObj [(''group_name'', JStr ''g''),
       (''group_member'', JArr [JStr ''m'', JStr ''n''])]])]), me_s3_init = None, me_framework_start = True\<rparr>"

definition demo_groups :: groups where
  "demo_groups = [(''g'', [''m'', ''n''])]"

definition demo_reader :: "string \<Rightarrow> string \<Rightarrow> string \<Rightarrow> INIReader" where
  "demo_reader node grp cmd = \<lparr>rd_error = 0, rd_values = [(''base=node_id'', node), (''base=group'', grp), (''group=group_path'', ''g.json''),
     (''route=node_msg_group'', ''g''), (''route=node_cmd_group'', cmd), (''route=node_ping_group'', ''g''),
     (''route=node_mstate_group'', ''g''), (''route=file_down_group'', ''g''), (''route=mon_group'', ''g'')]\<rparr>"

lemma demo_files:
  "INIReader_file ''n.ini'' demo_main_fs = demo_reader ''n'' ''edge'' ''g''"
  "INIReader_file ''e.ini'' demo_main_fs = demo_reader ''n'' ''edge'' ''''"
  by code_simp+

lemma demo_json: "parseJsonToMap (me_parse demo_main_env) ''g.json'' demo_main_fs = Ret demo_groups"
  by code_simp

definition demo_names :: node_names where
  "demo_names = (case node_names_of demo_groups (read_routes (demo_reader ''m'' ''mgr'' ''g'')) of Ret nn \<Rightarrow> nn)"

lemma demo_routes: "read_routes (demo_reader ''n'' ''edge'' ''g'') = read_routes (demo_reader ''m'' ''mgr'' ''g'')"
  by (simp add: read_routes_def read_route_def demo_reader_def GetString_def ini_Get_def MakeKey_def)

lemma demo_names: "node_names_of demo_groups (read_routes (demo_reader ''m'' ''mgr'' ''g'')) = Ret demo_names"
proof -
  have "(case node_names_of demo_groups (read_routes (demo_reader ''m'' ''mgr'' ''g'')) of Ret nn \<Rightarrow> True | _ \<Rightarrow> False)" by code_simp
  then show ?thesis by (auto simp: demo_names_def split: outcome.splits)
qed

lemma demo_start: "\<exists>ts ns db. start_node demo_main_env r gm nn = Running ts ns db"
  by (simp add: start_node_def demo_main_env_def Let_def)

lemma route_groups:
  "rt_group (nodeCmd (read_routes r)) = GetString r ''route'' ''node_cmd_group'' ''''"
  "rt_group (nodeMsg (read_routes r)) = GetString r ''route'' ''node_msg_group'' ''''"
  "rt_group (fileDown (read_routes r)) = GetString r ''route'' ''file_down_group'' ''''"
  by (simp_all only: read_routes_def read_route_def routes.simps route.simps append.simps)

lemma demo_strings:
  "GetString (demo_reader node grp cmd) ''group'' ''group_path'' [] = ''g.json''"
  "GetString (demo_reader node grp cmd) ''base'' ''group'' [] = grp"
  "GetString (demo_reader node grp cmd) ''base'' ''node_id'' [] = node"
  "rt_group (nodeCmd (read_routes (demo_reader node grp cmd))) = cmd"
  "rt_group (nodeMsg (read_routes (demo_reader node grp cmd))) = ''g''"
  "rt_group (fileDown (read_routes (demo_reader node grp cmd))) = ''g''"
  unfolding route_groups by (simp_all add: demo_reader_def GetString_def ini_Get_def MakeKey_def tolower_def)

lemma demo_members: "group_ids demo_groups ''g'' = [''m'', ''n'']" "group_ids demo_groups [] = []"
  by code_simp+

lemma demo_main_runs: "\<exists>ts ns db. node_main demo_main_env [''node'', ''-c'', ''n.ini''] demo_main_fs = Running ts ns db"
proof -
  have "config_name [''node'', ''-c'', ''n.ini''] = Ret ''n.ini''" by code_simp
  moreover have "rd_error (demo_reader node grp cmd) = 0" for node grp cmd by (simp add: demo_reader_def)
  ultimately show ?thesis
    using demo_start by (simp add: node_main_def demo_files demo_strings demo_json demo_routes demo_names Let_def)
qed

theorem lock_lost_after_refusal_witness:
  "\<exists>ts ns db. fst (run_main 2 True demo_main_env [''node'', ''-c'', ''n.ini''] demo_main_fs \<lparr>lk_file = Some 0, lk_held = [(0, 1)], lk_fresh = 1\<rparr>)
       = Returned 1 \<and>
     fst (run_main 3 True demo_main_env [''node'', ''-c'', ''n.ini''] demo_main_fs
       (snd (run_main 2 True demo_main_env [''node'', ''-c'', ''n.ini''] demo_main_fs \<lparr>lk_file = Some 0, lk_held = [(0, 1)], lk_fresh = 1\<rparr>)))
       = Running ts ns db"
proof -
  let ?st = "\<lparr>lk_file = Some 0, lk_held = [(0, 1)], lk_fresh = 1\<rparr> :: lock_disk"
  have l: "lk_file ?st = Some 0" "(0, 1) \<in> set (lk_held ?st)" "\<forall>h \<in> set (lk_held ?st). fst h < lk_fresh ?st" by simp_all
  obtain ts ns db where "node_main demo_main_env [''node'', ''-c'', ''n.ini''] demo_main_fs = Running ts ns db"
    using demo_main_runs by blast
  from lock_lost_after_refusal [OF l(1,2) _ l(3) this, of 2 3] show ?thesis by auto
qed

theorem no_members_aborts_witness:
  "node_main demo_main_env [''node'', ''-c'', ''e.ini''] demo_main_fs = Aborted ''[0] of an empty vector''"
proof (rule no_members_aborts [where name = "''e.ini''" and path = "''g.json''" and gm = demo_groups and g = "[]"
      and rs = "read_routes (INIReader_file ''e.ini'' demo_main_fs)"])
  show "config_name [''node'', ''-c'', ''e.ini''] = Ret ''e.ini''" by code_simp
  show "0 \<le> rd_error (INIReader_file ''e.ini'' demo_main_fs)" by (simp add: demo_files) (simp add: demo_reader_def)
qed (simp_all add: demo_files demo_strings demo_json demo_members)

lemma demo_network: "same_network (demo_reader ''m'' ''mgr'' ''g'') (demo_reader ''n'' ''edge'' ''g'') demo_groups"
  by (simp add: same_network_def demo_routes demo_strings demo_members read_settings_def)

theorem worker_meets_manager_witness:
  "\<exists>t \<in> set (started (start_node demo_main_env (demo_reader ''n'' ''edge'' ''g'') demo_groups demo_names)).
     fst t = FileWriter \<and> (\<exists>t' \<in> set (started (start_node demo_main_env (demo_reader ''m'' ''mgr'' ''g'') demo_groups demo_names)). meets t t')"
proof -
  let ?w = "demo_reader ''n'' ''edge'' ''g''"
  obtain tm nm dm tw nw dw where s: "start_node demo_main_env (demo_reader ''m'' ''mgr'' ''g'') demo_groups demo_names = Running tm nm dm"
    "start_node demo_main_env ?w demo_groups demo_names = Running tw nw dw"
    using demo_start by meson
  have "ni_group (read_settings ?w) \<noteq> ''mgr''" using demo_network by (simp add: same_network_def)
  then have w: "(FileWriter, up_info ?w demo_names (ni_nodeId (read_settings ?w))) \<in> set tw"
    using started_start_node [OF s(2)] by (simp add: start_files_def Let_def)
  with worker_meets_manager [OF demo_network demo_names s w] show ?thesis
    by (intro bexI [of _ "(FileWriter, up_info ?w demo_names (ni_nodeId (read_settings ?w)))"]) (auto simp: s started_def)
qed

theorem file_topics_separate_witness:
  "set (file_names demo_names ''m'') \<inter> set (file_names demo_names ''n'') = {}"
proof -
  let ?rs = "read_routes (demo_reader ''m'' ''mgr'' ''g'')"
  have "plain_route (fileDown ?rs)" "plain_route (fileUp ?rs)" "\<not> same_name (fileDown ?rs) (fileUp ?rs)"
    by code_simp+
  from file_topics_separate [OF demo_names this, of "''m''" "''n''"] show ?thesis by simp
qed

end
