(* ===== verification/MachineState.thy ===== *)
theory MachineState
  imports ProcessManager
begin

text \<open>
  The state of the machine, \<open>node/src/MachineStateTopic.cpp\<close>: a node collects what the hardware library
  and its own process manager tell, sends it to the managing node, and the managing node stores it, one
  statement for the machine and one for every processor, graphics card, disk, network and process.

  The hardware library is a parameter, asked once per turn. A number that is a \<open>double\<close> is the two
  integers whose quotient it is, as in \<open>ProcessManager\<close>; its text is a parameter.
\<close>

section \<open>Messages\<close>

record Cpu =
  cp_vendor :: string
  cp_model :: string
  cp_physical_cores :: int
  cp_logical_cores :: int
  cp_max_frequency :: int
  cp_regular_frequency :: int
  cp_min_frequency :: int
  cp_current_frequency :: "int list"
  cp_cache_size :: int
  cp_usage :: "int \<times> int"

record Gpu =
  gp_vendor :: string
  gp_model :: string
  gp_driver_version :: string
  gp_memory :: "int \<times> int"
  gp_frequency :: int

record Ram =
  rm_vendor :: string
  rm_model :: string
  rm_name :: string
  rm_serial_number :: string
  rm_size :: int
  rm_free :: int
  rm_available :: int

record Disk =
  dk_vendor :: string
  dk_model :: string
  dk_serial_number :: string
  dk_size :: int

record MainBoard =
  mb_vendor :: string
  mb_name :: string
  mb_version :: string
  mb_serial_number :: string

record ProcessMsg =
  pr_name :: string
  pr_work_path :: string
  pr_pid :: int
  pr_args :: string
  pr_cpu_usage :: "int \<times> int"
  pr_mem_usage :: "int \<times> int"
  pr_start_time :: int
  pr_stop_time :: int
  pr_reboot_count :: int
  pr_priority :: int

record Network =
  nw_name :: string
  nw_ipv4s :: string
  nw_ipv6s :: string
  nw_broadband :: int
  nw_broadband_using :: int

record OSInfo =
  os_operating_system :: string
  os_short_name :: string
  os_version :: string
  os_kernel :: string
  os_architecture :: string
  os_endianess :: string

record MachineState =
  ms_to_node_id :: string
  ms_src_node_id :: string
  ms_cpus :: "Cpu list"
  ms_gpus :: "Gpu list"
  ms_rams :: Ram
  ms_disks :: "Disk list"
  ms_networks :: "Network list"
  ms_board :: MainBoard
  ms_os :: OSInfo
  ms_processes :: "ProcessMsg list"

section \<open>Collecting\<close>

text \<open>What the hardware library answers.\<close>

record hw_cpu =
  hc_vendor :: string
  hc_modelName :: string
  hc_numPhysicalCores :: int
  hc_numLogicalCores :: int
  hc_maxClock :: int
  hc_regularClock :: int
  hc_currentClock :: "int list"
  hc_caches :: "int \<times> int \<times> int"
  hc_utilisation :: "int \<times> int"

record hw_gpu =
  hg_vendor :: string
  hg_name :: string
  hg_driverVersion :: string
  hg_memory_Bytes :: int
  hg_frequency :: int

record hw =
  hw_cpus :: "hw_cpu list"
  hw_gpus :: "hw_gpu list"
  hw_disks :: "Disk list"
  hw_board :: MainBoard
  hw_memory :: "int \<times> int \<times> int"
  hw_os_name :: string
  hw_os_version :: string
  hw_os_kernel :: string
  hw_32bit :: bool
  hw_littleEndian :: bool

record state_topic =
  mt_base :: zenoh_base
  mt_pm :: "proc_mgr option"
  state_out :: "MachineState list"
  mt_sqls :: "string list"
  mt_tick :: nat

record state_env =
  se_db :: db_env
  se_uuid :: "nat \<Rightarrow> string"
  se_clock :: "nat \<Rightarrow> int"
  se_hw :: "nat \<Rightarrow> hw option"
  se_pm :: pm_env
  se_lf :: "int \<times> int \<Rightarrow> string"
  state_byte_size :: "MachineState \<Rightarrow> nat"

abbreviation mt_info :: "state_topic \<Rightarrow> TopicInfo" where
  "mt_info st \<equiv> topic_info (mt_base st)"

text \<open>The lowest frequency is set to the regular one.\<close>

definition cpu_msg :: "hw_cpu \<Rightarrow> Cpu" where
  "cpu_msg c = \<lparr>cp_vendor = hc_vendor c, cp_model = hc_modelName c, cp_physical_cores = hc_numPhysicalCores c,
     cp_logical_cores = hc_numLogicalCores c, cp_max_frequency = hc_maxClock c, cp_regular_frequency = hc_regularClock c,
     cp_min_frequency = hc_regularClock c, cp_current_frequency = hc_currentClock c,
     cp_cache_size = (case hc_caches c of (l1, l2, l3) \<Rightarrow> l1 + l2 + l3), cp_usage = hc_utilisation c\<rparr>"

definition gpu_msg :: "hw_gpu \<Rightarrow> Gpu" where
  "gpu_msg g = \<lparr>gp_vendor = hg_vendor g, gp_model = hg_name g, gp_driver_version = hg_driverVersion g,
     gp_memory = (hg_memory_Bytes g, 1024 * 1024), gp_frequency = hg_frequency g\<rparr>"

definition os_msg :: "hw \<Rightarrow> OSInfo" where
  "os_msg h = \<lparr>os_operating_system = hw_os_name h, os_short_name = hw_os_name h, os_version = hw_os_version h,
     os_kernel = hw_os_kernel h, os_architecture = (if hw_32bit h then ''32 bit'' else ''64 bit''),
     os_endianess = (if hw_littleEndian h then ''little endian'' else ''big endian'')\<rparr>"

definition ram_msg :: "hw \<Rightarrow> Ram" where
  "ram_msg h = (case hw_memory h of (total_b, free_b, available_b) \<Rightarrow>
     \<lparr>rm_vendor = [], rm_model = [], rm_name = [], rm_serial_number = [], rm_size = c_div (c_div total_b 1024) 1024,
      rm_free = c_div (c_div free_b 1024) 1024, rm_available = c_div (c_div available_b 1024) 1024\<rparr>)"

definition process_msg :: "ProcessAttribute \<Rightarrow> ProcessMsg" where
  "process_msg p = \<lparr>pr_name = pa_uuid p, pr_work_path = work_path p, pr_pid = pa_instance p, pr_args = [],
     pr_cpu_usage = cpu_usage p, pr_mem_usage = mem_usage p, pr_start_time = latest_start_time p,
     pr_stop_time = latest_stop_time p, pr_reboot_count = sint (reboot_count p), pr_priority = 0\<rparr>"

text \<open>
  \<open>get_system_info\<close>: 0 with the message, or -1 when the library or the process manager throws. The process
  manager's round runs in the thread of this topic, if the worker has made the manager.
\<close>

definition state_msg :: "state_topic \<Rightarrow> hw \<Rightarrow> ProcessMsg list \<Rightarrow> MachineState" where
  "state_msg st h ps = \<lparr>ms_to_node_id = monNodeId (mt_info st), ms_src_node_id = nodeId (mt_info st),
     ms_cpus = map cpu_msg (hw_cpus h), ms_gpus = map gpu_msg (hw_gpus h), ms_rams = ram_msg h, ms_disks = hw_disks h,
     ms_networks = [], ms_board = hw_board h, ms_os = os_msg h, ms_processes = ps\<rparr>"

definition get_system_info :: "state_env \<Rightarrow> state_topic \<Rightarrow> (state_topic, MachineState option) run" where
  "get_system_info env st =
     (case se_hw env (mt_tick st) of
        None \<Rightarrow> Fin st None
      | Some h \<Rightarrow>
          (case mt_pm st of
             None \<Rightarrow> Fin st (Some (state_msg st h []))
           | Some pm \<Rightarrow>
               (case listener (se_pm env) pm of
                  Fin pm1 _ \<Rightarrow> Fin (st\<lparr>mt_pm := Some pm1\<rparr>) (Some (state_msg st h (map process_msg (m_instances pm1))))
                | Exc pm1 e \<Rightarrow> Fin (st\<lparr>mt_pm := Some pm1\<rparr>) None
                | Crash e \<Rightarrow> Crash e
                | Hang \<Rightarrow> Hang)))"

definition send_machine_state :: "state_env \<Rightarrow> bool \<Rightarrow> MachineState \<Rightarrow> state_topic \<Rightarrow> bool \<times> state_topic" where
  "send_machine_state env put_ok m st =
     (if put_ok
      then (True, st\<lparr>state_out := state_out st @ [m],
             mt_base := stat_writer_mon_data (se_uuid env (mt_tick st)) (se_clock env (mt_tick st))
               (state_byte_size env m) (ms_to_node_id m) (mt_base st),
             mt_tick := Suc (mt_tick st)\<rparr>)
      else (False, st))"

text \<open>A turn of the writer, before it sleeps for thirty seconds.\<close>

definition state_turn :: "state_env \<Rightarrow> bool \<Rightarrow> state_topic \<Rightarrow> (state_topic, unit) run" where
  "state_turn env put_ok st =
     bind_run (get_system_info env st) (\<lambda>st m. case m of
        None \<Rightarrow> Fin st ()
      | Some msg \<Rightarrow> Fin (snd (send_machine_state env put_ok msg st)) ())"

section \<open>Storing\<close>

definition machine_sql :: "string \<Rightarrow> nat \<Rightarrow> MachineState \<Rightarrow> string" where
  "machine_sql uuid now m =
     (let b = ms_board m; o' = ms_os m; r = ms_rams m
      in ''insert into machine_state(node_id,main_board_vendor,main_board_name,main_board_version,main_board_serial_number,operating_system,            os_short_name,os_version,os_kernel,os_architecture,os_endianess,uuid,updated_at,ram_vendor,ram_model,ram_name,ram_serial_number,ram_size,ram_free,ram_available,ram_used)value(''
         @ quoted (ms_src_node_id m) @ '','' @ quoted (mb_vendor b) @ '','' @ quoted (mb_name b) @ '','' @ quoted (mb_version b)
         @ '','' @ quoted (mb_serial_number b) @ '','' @ quoted (os_operating_system o') @ '','' @ quoted (os_short_name o')
         @ '','' @ quoted (os_version o') @ '','' @ quoted (os_kernel o') @ '','' @ quoted (os_architecture o')
         @ '','' @ quoted (os_endianess o') @ '','' @ quoted uuid @ '','' @ to_string now @ '','' @ quoted (rm_vendor r)
         @ '','' @ quoted (rm_model r) @ '','' @ quoted (rm_name r) @ '','' @ quoted (rm_serial_number r)
         @ '','' @ int_string (rm_size r) @ '','' @ int_string (rm_free r) @ '','' @ int_string (rm_available r)
         @ '','' @ int_string (rm_size r - rm_free r) @ '')'')"

text \<open>The loop that joins the frequencies; the first one is not preceded by a comma.\<close>

fun cur_freq :: "nat \<Rightarrow> int list \<Rightarrow> string \<Rightarrow> string" where
  "cur_freq j [] acc = acc"
| "cur_freq j (f # fs) acc = cur_freq (Suc j) fs (if j = 0 then int_string f else acc @ '','' @ int_string f)"

definition cpu_sql :: "(int \<times> int \<Rightarrow> string) \<Rightarrow> string \<Rightarrow> nat \<Rightarrow> string \<Rightarrow> nat \<Rightarrow> Cpu \<Rightarrow> string" where
  "cpu_sql lf uuid now node i c =
     ''insert into node_cpu(node_id,cpu_number,cpu_vendor,cpu_model,cpu_physical_cores,cpu_logical_cores,cpu_min_frequency,cpu_max_frequency,cpu_regular_frequency,                cpu_current_frequency,cpu_cache_size,cpu_usage_average,machine_state_uuid,updated_at)value(''
     @ quoted node @ '','' @ to_string i @ '','' @ quoted (cp_vendor c) @ '','' @ quoted (cp_model c)
     @ '','' @ int_string (cp_physical_cores c) @ '','' @ int_string (cp_logical_cores c) @ '','' @ int_string (cp_min_frequency c)
     @ '','' @ int_string (cp_max_frequency c) @ '','' @ int_string (cp_regular_frequency c)
     @ '','' @ quoted (cur_freq 0 (cp_current_frequency c) []) @ '','' @ int_string (cp_cache_size c) @ '','' @ lf (cp_usage c)
     @ '','' @ quoted uuid @ '','' @ to_string now @ '')''"

text \<open>The frequency of a graphics card is printed with \<open>%d\<close>: its lower 32 bits.\<close>

definition gpu_sql :: "(int \<times> int \<Rightarrow> string) \<Rightarrow> string \<Rightarrow> nat \<Rightarrow> string \<Rightarrow> nat \<Rightarrow> Gpu \<Rightarrow> string" where
  "gpu_sql lf uuid now node i g =
     ''insert into node_gpu(node_id,gpu_number,gpu_vendor,gpu_model,driver_version,gpu_memory,gpu_frequency,machine_state_uuid,updated_at)value(''
     @ quoted node @ '','' @ to_string i @ '','' @ quoted (gp_vendor g) @ '','' @ quoted (gp_model g) @ '','' @ quoted (gp_driver_version g)
     @ '','' @ lf (gp_memory g) @ '','' @ int_string (to_int32 (gp_frequency g)) @ '','' @ quoted uuid @ '','' @ to_string now @ '')''"

definition disk_sql :: "string \<Rightarrow> nat \<Rightarrow> string \<Rightarrow> nat \<Rightarrow> Disk \<Rightarrow> string" where
  "disk_sql uuid now node i d =
     ''insert into node_disks(node_id,disks_number,disks_vendor,disks_model,disks_serial_number,disks_size,machine_state_uuid,updated_at)value(''
     @ quoted node @ '','' @ to_string i @ '','' @ quoted (dk_vendor d) @ '','' @ quoted (dk_model d) @ '','' @ quoted (dk_serial_number d)
     @ '','' @ int_string (dk_size d) @ '','' @ quoted uuid @ '','' @ to_string now @ '')''"

definition network_sql :: "string \<Rightarrow> nat \<Rightarrow> string \<Rightarrow> nat \<Rightarrow> Network \<Rightarrow> string" where
  "network_sql uuid now node i n =
     ''insert into node_network(node_id,network_number,network_name,ipv4,ipv6,broadband,broadband_using,machine_state_uuid,updated_at)value(''
     @ quoted node @ '','' @ to_string i @ '','' @ quoted (nw_name n) @ '','' @ quoted (nw_ipv4s n) @ '','' @ quoted (nw_ipv6s n)
     @ '','' @ int_string (nw_broadband n) @ '','' @ int_string (nw_broadband_using n) @ '','' @ quoted uuid @ '','' @ to_string now @ '')''"

definition process_sql :: "(int \<times> int \<Rightarrow> string) \<Rightarrow> string \<Rightarrow> string \<Rightarrow> ProcessMsg \<Rightarrow> string" where
  "process_sql lf uuid node p =
     ''insert into node_process(node_id,machine_state_uuid,name,work_path,pid,args,cpu_usage,mem_usage,start_time,stop_time,reboot_count,priority)value(''
     @ quoted node @ '','' @ quoted uuid @ '','' @ quoted (pr_name p) @ '','' @ quoted (pr_work_path p) @ '','' @ int_string (pr_pid p)
     @ '','' @ quoted (pr_args p) @ '','' @ lf (pr_cpu_usage p) @ '','' @ lf (pr_mem_usage p) @ '','' @ int_string (pr_start_time p)
     @ '','' @ int_string (pr_stop_time p) @ '','' @ int_string (pr_reboot_count p) @ '','' @ int_string (pr_priority p) @ '')''"

text \<open>A statement, already formatted or not: whatever the database answers, a negative answer is only logged.\<close>

definition state_exec :: "state_env \<Rightarrow> string outcome \<Rightarrow> state_topic \<Rightarrow> (state_topic, unit) run" where
  "state_exec env sql st =
     (case sql of
        UB e \<Rightarrow> Crash e
      | Throw e \<Rightarrow> Exc st e
      | Ret s \<Rightarrow>
          if db_present (se_db env)
          then Fin (st\<lparr>mt_sqls := mt_sqls st @ [s]\<rparr>) ()
          else Crash ''null DbBase'')"

text \<open>The loops over the parts: the \<open>i\<close>-th part gives a statement for the buffer of 4096 bytes.\<close>

fun state_loop :: "state_env \<Rightarrow> (nat \<Rightarrow> 'a \<Rightarrow> string) \<Rightarrow> nat \<Rightarrow> 'a list \<Rightarrow> state_topic \<Rightarrow> (state_topic, unit) run" where
  "state_loop env f i [] st = Fin st ()"
| "state_loop env f i (x # xs) st =
     bind_run (state_exec env (sprintf_4096 (f i x)) st) (\<lambda>st _. state_loop env f (Suc i) xs st)"

definition store_state :: "state_env \<Rightarrow> string \<Rightarrow> nat \<Rightarrow> MachineState \<Rightarrow> state_topic \<Rightarrow> (state_topic, unit) run" where
  "store_state env uuid now m st =
     (let node = ms_src_node_id m; lf = se_lf env
      in if \<not> in_int64 (rm_size (ms_rams m) - rm_free (ms_rams m)) then Crash ''signed overflow''
         else bind_run (state_exec env (sprintf_2048 (machine_sql uuid now m)) st) (\<lambda>st _.
              bind_run (state_loop env (cpu_sql lf uuid now node) 0 (ms_cpus m) st) (\<lambda>st _.
              bind_run (state_loop env (gpu_sql lf uuid now node) 0 (ms_gpus m) st) (\<lambda>st _.
              bind_run (state_loop env (disk_sql uuid now node) 0 (ms_disks m) st) (\<lambda>st _.
              bind_run (state_loop env (network_sql uuid now node) 0 (ms_networks m) st) (\<lambda>st _.
              state_loop env (\<lambda>i. process_sql lf uuid node) 0 (ms_processes m) st))))))"

definition handle_state_data :: "state_env \<Rightarrow> MachineState \<Rightarrow> state_topic \<Rightarrow> (state_topic, unit) run" where
  "handle_state_data env m st =
     (let st1 = st\<lparr>mt_base := stat_reader_mon_data (se_uuid env (mt_tick st)) (se_clock env (mt_tick st))
               (topic (mt_info st)) (ms_src_node_id m) (state_byte_size env m) (mt_base st),
             mt_tick := Suc (mt_tick st)\<rparr>
      in catch_run (store_state env (se_uuid env (mt_tick st1)) (to_uint64 (se_clock env (mt_tick st1))) m
             (st1\<lparr>mt_tick := Suc (mt_tick st1)\<rparr>))
           (\<lambda>st e. Fin st ()))"

section \<open>Properties\<close>

subsection \<open>What is stored\<close>

text \<open>The statements of a message.\<close>

definition numbered :: "(nat \<Rightarrow> 'a \<Rightarrow> string) \<Rightarrow> nat \<Rightarrow> 'a list \<Rightarrow> string list" where
  "numbered f i xs = map2 f [i..<i + length xs] xs"

definition state_statements :: "(int \<times> int \<Rightarrow> string) \<Rightarrow> string \<Rightarrow> nat \<Rightarrow> MachineState \<Rightarrow> string list" where
  "state_statements lf uuid now m =
     (let node = ms_src_node_id m
      in machine_sql uuid now m # numbered (cpu_sql lf uuid now node) 0 (ms_cpus m) @ numbered (gpu_sql lf uuid now node) 0 (ms_gpus m)
         @ numbered (disk_sql uuid now node) 0 (ms_disks m) @ numbered (network_sql uuid now node) 0 (ms_networks m)
         @ map (process_sql lf uuid node) (ms_processes m))"

definition runs :: "string list \<Rightarrow> (state_topic, unit) run \<Rightarrow> state_topic \<Rightarrow> bool" where
  "runs ss r st \<longleftrightarrow> (\<exists>st'. mt_sqls st' = mt_sqls st @ ss \<and> mt_base st' = mt_base st \<and> r = Fin st' ())"

lemma runs_bind:
  assumes "runs ss r st" and "\<And>st1. runs ts (f st1) st1"
  shows "runs (ss @ ts) (bind_run r (\<lambda>st _. f st)) st"
proof -
  obtain st1 where st1: "mt_sqls st1 = mt_sqls st @ ss" "mt_base st1 = mt_base st" "r = Fin st1 ()"
    using assms(1) by (auto simp: runs_def)
  then show ?thesis using assms(2) [of st1] by (auto simp: runs_def)
qed

lemma runs_exec: "db_present (se_db env) \<Longrightarrow> runs [s] (state_exec env (Ret s) st) st"
  by (simp add: runs_def state_exec_def)

lemma runs_loop:
  assumes "db_present (se_db env)" and "\<forall>s \<in> set (numbered f i xs). length s < 4096"
  shows "runs (numbered f i xs) (state_loop env f i xs st) st"
  using assms(2)
proof (induction xs arbitrary: i st)
  case Nil
  then show ?case by (auto simp: runs_def numbered_def)
next
  case (Cons x xs)
  have n: "numbered f i (x # xs) = [f i x] @ numbered f (Suc i) xs"
    by (simp add: numbered_def upt_conv_Cons del: upt_Suc)
  have "runs ([f i x] @ numbered f (Suc i) xs)
      (bind_run (state_exec env (Ret (f i x)) st) (\<lambda>st _. state_loop env f (Suc i) xs st)) st"
    using Cons n by (intro runs_bind runs_exec assms(1)) simp
  moreover have "sprintf_4096 (f i x) = Ret (f i x)" using Cons.prems n by (simp add: sprintf_4096_def)
  ultimately show ?case by (simp add: n)
qed

lemma numbered_simps [simp]:
  "numbered f i [] = []" "numbered f i (x # xs) = f i x # numbered f (Suc i) xs"
  by (simp_all add: numbered_def upt_conv_Cons del: upt_Suc)

lemma numbered_const: "numbered (\<lambda>i. f) i xs = map f xs"
  by (induction xs arbitrary: i) simp_all

lemma store_state_runs:
  assumes "db_present (se_db env)" and "in_int64 (rm_size (ms_rams m) - rm_free (ms_rams m))"
    and "length (machine_sql uuid now m) < 2048"
    and "\<forall>s \<in> set (tl (state_statements (se_lf env) uuid now m)). length s < 4096"
  shows "runs (state_statements (se_lf env) uuid now m) (store_state env uuid now m st) st"
proof -
  let ?node = "ms_src_node_id m" and ?lf = "se_lf env"
  have f: "sprintf_2048 (machine_sql uuid now m) = Ret (machine_sql uuid now m)" using assms(3) by (simp add: sprintf_2048_def)
  note l4 = assms(4) [unfolded state_statements_def Let_def list.sel]
  have "runs ([machine_sql uuid now m] @ numbered (cpu_sql ?lf uuid now ?node) 0 (ms_cpus m)
      @ numbered (gpu_sql ?lf uuid now ?node) 0 (ms_gpus m) @ numbered (disk_sql uuid now ?node) 0 (ms_disks m)
      @ numbered (network_sql uuid now ?node) 0 (ms_networks m) @ numbered (\<lambda>i. process_sql ?lf uuid ?node) 0 (ms_processes m))
    (store_state env uuid now m st) st"
    unfolding store_state_def Let_def f using assms(2) l4
    by (simp only: if_not_P not_not if_True not_True_eq_False if_False)
      (intro runs_bind runs_exec runs_loop assms(1); simp add: numbered_const)
  then show ?thesis by (simp add: state_statements_def Let_def numbered_const)
qed

text \<open>
  C31. A machine state is stored with one statement for the machine and one for every part, in order and with the
  uuid of the message. The database sees all of them whatever it answers: a statement that it refuses, the first
  one of the machine included, is logged, and the statements of its parts follow. The handler ends, and the message
  is counted once. The statements must fit their buffers and the used memory an \<open>int64_t\<close>.
\<close>

theorem state_stored:
  assumes "db_present (se_db env)" and "in_int64 (rm_size (ms_rams m) - rm_free (ms_rams m))"
    and "ss = state_statements (se_lf env) (se_uuid env (Suc (mt_tick st))) (to_uint64 (se_clock env (Suc (mt_tick st)))) m"
    and "length (hd ss) < 2048" and "\<forall>s \<in> set (tl ss). length s < 4096"
  shows "\<exists>st'. handle_state_data env m st = Fin st' () \<and> mt_sqls st' = mt_sqls st @ ss
    \<and> length ss = 1 + length (ms_cpus m) + length (ms_gpus m) + length (ms_disks m) + length (ms_networks m) + length (ms_processes m)
    \<and> mt_base st' = stat_reader_mon_data (se_uuid env (mt_tick st)) (se_clock env (mt_tick st))
        (topic (mt_info st)) (ms_src_node_id m) (state_byte_size env m) (mt_base st)"
proof -
  let ?b = "stat_reader_mon_data (se_uuid env (mt_tick st)) (se_clock env (mt_tick st))
      (topic (mt_info st)) (ms_src_node_id m) (state_byte_size env m) (mt_base st)"
  let ?st1 = "st\<lparr>mt_base := ?b, mt_tick := Suc (Suc (mt_tick st))\<rparr>"
  let ?r = "store_state env (se_uuid env (Suc (mt_tick st))) (to_uint64 (se_clock env (Suc (mt_tick st)))) m ?st1"
  have "hd ss = machine_sql (se_uuid env (Suc (mt_tick st))) (to_uint64 (se_clock env (Suc (mt_tick st)))) m"
    by (simp add: assms(3) state_statements_def Let_def)
  then have "runs ss ?r ?st1" using assms by (simp add: store_state_runs)
  then obtain st' where st': "mt_sqls st' = mt_sqls st @ ss" "mt_base st' = ?b" "?r = Fin st' ()"
    by (auto simp: runs_def)
  have "handle_state_data env m st = catch_run ?r (\<lambda>st e. Fin st ())" by (simp add: handle_state_data_def Let_def)
  then have "handle_state_data env m st = Fin st' ()" unfolding st'(3) by simp
  moreover have "length ss = 1 + length (ms_cpus m) + length (ms_gpus m) + length (ms_disks m) + length (ms_networks m) + length (ms_processes m)"
    by (simp add: assms(3) state_statements_def Let_def numbered_def)
  ultimately show ?thesis using st'(1,2) by blast
qed

subsection \<open>Long statements\<close>

lemma length_to_string_ge: "10 ^ k \<le> n \<Longrightarrow> Suc k \<le> length (to_string n)"
proof (induction k arbitrary: n)
  case 0
  then show ?case by (simp add: to_string.simps [of n])
next
  case (Suc k)
  then have "10 ^ k \<le> n div 10" by (simp add: div_greater_zero_iff less_eq_div_iff_mult_less_eq)
  moreover have "10 \<le> n" using Suc.prems one_le_power [of "10::nat" k] by (simp only: power_Suc) linarith
  ultimately show ?case using Suc.IH [of "n div 10"] by (simp add: to_string.simps [of n])
qed

lemma length_cur_freq:
  "\<forall>f \<in> set fs. 1000 \<le> f \<Longrightarrow> 0 < j \<Longrightarrow> length acc + 5 * length fs \<le> length (cur_freq j fs acc)"
proof (induction fs arbitrary: j acc)
  case (Cons f fs)
  have "1000 \<le> nat f" "0 \<le> f" using Cons.prems(1) by auto
  then have "4 \<le> length (int_string f)" using length_to_string_ge [of 3 "nat f"] by (simp add: int_string_def)
  with Cons.IH [of "Suc j" "acc @ '','' @ int_string f"] Cons.prems show ?case by simp
qed simp

lemma to_string_no_zero: "CHR 0x00 \<notin> set (to_string n)"
  using to_string_chars [of n] by (auto simp: digit_chars_def)

text \<open>
  The buffer for the statement of a processor does not count the frequencies: a processor that reports 820 or
  more current frequencies of four digits writes past its end.
\<close>

theorem many_frequencies_overflow:
  assumes "820 \<le> length (cp_current_frequency c)" and "\<forall>f \<in> set (cp_current_frequency c). 1000 \<le> f"
    and "db_present (se_db env)" and "in_int64 (rm_size (ms_rams m) - rm_free (ms_rams m))" and "ms_cpus m = c # cs"
    and "length (machine_sql (se_uuid env (Suc (mt_tick st))) (to_uint64 (se_clock env (Suc (mt_tick st)))) m) < 2048"
  shows "handle_state_data env m st = Crash ''sprintf overflows char[4096]''"
proof -
  obtain f fs where c: "cp_current_frequency c = f # fs" using assms(1) by (cases "cp_current_frequency c") auto
  have "length (int_string f) + 5 * length fs \<le> length (cur_freq 0 (f # fs) [])"
    using length_cur_freq [of fs 1 "int_string f"] assms(2) c by simp
  moreover have z: "CHR 0x00 \<notin> set (cur_freq j fs acc)" if "CHR 0x00 \<notin> set acc" for j fs acc
    using that by (induction fs arbitrary: j acc) (simp_all add: int_string_def to_string_no_zero)
  moreover have "CHR 0x00 \<notin> set (cur_freq 0 (f # fs) [])" by (rule z) simp
  ultimately have "5 * 819 < length (quoted (cur_freq 0 (cp_current_frequency c) []))"
    using assms(1) c by (simp add: quoted_def c_str_id del: cur_freq.simps)
  then have l: "\<not> length (cpu_sql lf uuid now node 0 c) < 4096" for lf uuid now node
    by (simp add: cpu_sql_def)
  then show ?thesis
    using assms(3-6) by (auto simp: l handle_state_data_def store_state_def Let_def sprintf_2048_def sprintf_4096_def state_exec_def split: option.splits)
qed

subsection \<open>What is sent\<close>

text \<open>
  A turn of the state writer reports the process table as the round of the process manager leaves it: one
  message, with an entry for every process in the order of the table, and with the uuids the table had before;
  and every process that should run and does not has been started in the thread of this topic.
\<close>

theorem state_reports_processes:
  assumes "se_hw env (mt_tick st) = Some h" and "mt_pm st = Some pm" and "distinct (uuids pm)"
    and "calm (se_pm env)" and "steady (se_pm env) pm"
  shows "\<exists>st' pm' m pids. state_turn env True st = Fin st' () \<and> mt_pm st' = Some pm' \<and> state_out st' = state_out st @ [m]
    \<and> ms_to_node_id m = monNodeId (mt_info st) \<and> map pr_name (ms_processes m) = uuids pm
    \<and> map pr_pid (ms_processes m) = map pa_instance (m_instances pm')
    \<and> pm_events pm' = pm_events pm @ map2 Spawn (map pa_uuid (filter (due (se_pm env) pm) (m_instances pm))) pids"
proof -
  obtain pm' b pids where l: "listener (se_pm env) pm = Fin pm' b"
      "pm_events pm' = pm_events pm @ map2 Spawn (map pa_uuid (filter (due (se_pm env) pm) (m_instances pm))) pids"
    using listener_loop_calm [OF assms(4,5,3) refl, of pm 0 False] by (auto simp: listener_def)
  have "core pm' = core pm"
    using listener_core [OF refl, of pm "se_pm env"] assms(3) l(1) by (simp add: uuids_core)
  then have "uuids pm' = uuids pm" by (simp add: uuids_core)
  moreover have "map pr_name (map process_msg (m_instances pm')) = uuids pm'"
    by (simp add: uuids_def process_msg_def comp_def)
  ultimately show ?thesis
    using assms(1,2) l by (auto simp: state_turn_def get_system_info_def send_machine_state_def state_msg_def process_msg_def comp_def)
qed

subsection \<open>A small machine\<close>

definition demo_cpu :: "int list \<Rightarrow> Cpu" where
  "demo_cpu fs = \<lparr>cp_vendor = ''v'', cp_model = ''m'', cp_physical_cores = 4, cp_logical_cores = 8, cp_max_frequency = 3000,
     cp_regular_frequency = 2000, cp_min_frequency = 2000, cp_current_frequency = fs, cp_cache_size = 0, cp_usage = (1, 2)\<rparr>"

definition demo_ram :: Ram where
  "demo_ram = \<lparr>rm_vendor = [], rm_model = [], rm_name = [], rm_serial_number = [], rm_size = 100, rm_free = 40, rm_available = 50\<rparr>"

definition demo_board :: MainBoard where
  "demo_board = \<lparr>mb_vendor = ''v'', mb_name = ''b'', mb_version = ''1'', mb_serial_number = ''s''\<rparr>"

definition demo_hw :: hw where
  "demo_hw = \<lparr>hw_cpus = [], hw_gpus = [], hw_disks = [], hw_board = demo_board, hw_memory = (0, 0, 0), hw_os_name = ''os'',
     hw_os_version = ''1'', hw_os_kernel = ''k'', hw_32bit = False, hw_littleEndian = True\<rparr>"

definition demo_state :: "Cpu list \<Rightarrow> MachineState" where
  "demo_state cs = \<lparr>ms_to_node_id = ''m'', ms_src_node_id = ''n'', ms_cpus = cs, ms_gpus = [], ms_rams = demo_ram, ms_disks = [],
     ms_networks = [], ms_board = demo_board, ms_os = os_msg demo_hw, ms_processes = []\<rparr>"

definition demo_state_env :: state_env where
  "demo_state_env = \<lparr>se_db = \<lparr>db_present = True, db_exec = \<lambda>_. - 1\<rparr>, se_uuid = \<lambda>_. ''u'', se_clock = int, se_hw = \<lambda>_. Some demo_hw,
     se_pm = demo_pm_env, se_lf = \<lambda>_. ''0.500000'', state_byte_size = \<lambda>_. 9\<rparr>"

definition demo_state_topic :: state_topic where
  "demo_state_topic = \<lparr>mt_base = fresh_base \<lparr>topic = ''t'', topicReply = '''', partition = '''', nodeId = ''n'', nodeName = ''n'', domain = 0,
       needReply = False, monNodeId = ''m'', monSendSleep = 60, programName = ''node''\<rparr>,
     mt_pm = Some demo_pm2, state_out = [], mt_sqls = [], mt_tick = 0\<rparr>"

lemma demo_quoted [simp]: "CHR 0x00 \<notin> set s \<Longrightarrow> length (quoted s) = length s + 2"
  by (simp add: quoted_def c_str_id)

lemma demo_machine_fits: "t < 2 ^ 64 \<Longrightarrow> length (machine_sql ''u'' t (demo_state cs)) < 2048"
  using length_to_string_64 [of t] length_int_string [of 100] length_int_string [of 40] length_int_string [of 50] length_int_string [of 60]
  by (simp add: machine_sql_def demo_state_def demo_ram_def demo_board_def os_msg_def demo_hw_def Let_def)

lemma demo_cpu_fits:
  "t < 2 ^ 64 \<Longrightarrow> length (cpu_sql (\<lambda>_. ''0.500000'') ''u'' t ''n'' i (demo_cpu [])) \<le> length (to_string i) + 600"
  using length_to_string_64 [of t] length_int_string [of 4] length_int_string [of 8] length_int_string [of 2000]
    length_int_string [of 3000] length_int_string [of 0]
  by (simp add: cpu_sql_def demo_cpu_def)

theorem state_stored_witness:
  "\<exists>st'. handle_state_data demo_state_env (demo_state [demo_cpu []]) demo_state_topic = Fin st' () \<and> length (mt_sqls st') = 2"
proof -
  let ?m = "demo_state [demo_cpu []]"
  let ?t = "to_uint64 (se_clock demo_state_env (Suc (mt_tick demo_state_topic)))"
  let ?ss = "state_statements (se_lf demo_state_env) (se_uuid demo_state_env (Suc (mt_tick demo_state_topic))) ?t ?m"
  have t: "?t < 2 ^ 64" by (simp add: to_uint64_def nat_less_iff)
  have parts: "ms_cpus ?m = [demo_cpu []]" "ms_gpus ?m = []" "ms_disks ?m = []" "ms_networks ?m = []" "ms_processes ?m = []"
      "ms_src_node_id ?m = ''n''" "ms_rams ?m = demo_ram"
    by (simp_all add: demo_state_def)
  have env: "se_lf demo_state_env = (\<lambda>_. ''0.500000'')" "se_uuid demo_state_env = (\<lambda>_. ''u'')" "db_present (se_db demo_state_env)"
      "mt_sqls demo_state_topic = []"
    by (simp_all add: demo_state_env_def demo_state_topic_def)
  have ss: "?ss = [machine_sql ''u'' ?t ?m, cpu_sql (\<lambda>_. ''0.500000'') ''u'' ?t ''n'' 0 (demo_cpu [])]"
    by (simp add: state_statements_def parts env Let_def)
  have "length (to_string 0) \<le> 20" by (rule length_to_string_64) simp
  then have "length (hd ?ss) < 2048" "\<forall>s \<in> set (tl ?ss). length s < 4096"
    using demo_machine_fits [OF t] demo_cpu_fits [OF t, of 0] by (simp_all add: ss)
  moreover have "in_int64 (rm_size (ms_rams ?m) - rm_free (ms_rams ?m))" by (simp add: parts demo_ram_def in_int64_def)
  ultimately show ?thesis using state_stored [OF env(3) _ refl, of ?m demo_state_topic] by (auto simp: env parts)
qed

theorem many_frequencies_overflow_witness:
  "handle_state_data demo_state_env (demo_state [demo_cpu (replicate 820 2400)]) demo_state_topic = Crash ''sprintf overflows char[4096]''"
proof (rule many_frequencies_overflow [of "demo_cpu (replicate 820 2400)" _ _ "[]"])
  have "to_uint64 x < 2 ^ 64" for x by (simp add: to_uint64_def nat_less_iff)
  then show "length (machine_sql (se_uuid demo_state_env (Suc (mt_tick demo_state_topic)))
     (to_uint64 (se_clock demo_state_env (Suc (mt_tick demo_state_topic)))) (demo_state [demo_cpu (replicate 820 2400)])) < 2048"
    using demo_machine_fits by (simp add: demo_state_env_def)
qed (simp_all add: demo_cpu_def demo_state_def demo_state_env_def in_int64_def demo_ram_def)

theorem state_reports_processes_witness:
  "\<exists>st' m. state_turn demo_state_env True demo_state_topic = Fin st' () \<and> state_out st' = [m] \<and> map pr_name (ms_processes m) = uuids demo_pm2"
proof -
  have "se_hw demo_state_env (mt_tick demo_state_topic) = Some demo_hw" "mt_pm demo_state_topic = Some demo_pm2" "distinct (uuids demo_pm2)"
    "se_pm demo_state_env = demo_pm_env" "state_out demo_state_topic = []"
    by (simp_all add: demo_state_env_def demo_state_topic_def demo_pm2_instances)
  then show ?thesis
    using state_reports_processes [of demo_state_env demo_state_topic demo_hw demo_pm2] demo_calm by auto
qed

end
