(* ===== verification/MonitorStart.thy ===== *)
theory MonitorStart
  imports NodeMain
begin

text \<open>
  The start of the monitor application (\<open>monitor-app/src/MonitorService.cpp\<close>): its settings and the topic that it
  reads the traffic reports of all nodes from.
\<close>

text \<open>The defaults of the database are not those of a node.\<close>

definition read_monitor_db :: "INIReader \<Rightarrow> db_settings" where
  "read_monitor_db r =
     \<lparr>dbs_type = to_int32 (GetInteger r ''db'' ''type'' 1),
      dbs_ip = GetString r ''db'' ''ip'' ''10.4.1.151'',
      dbs_user = GetString r ''db'' ''user'' ''root'',
      dbs_pwd = GetString r ''db'' ''pwd'' ''Seisys*77889900'',
      dbs_name = GetString r ''db'' ''name'' ''databus-dev'',
      dbs_port = to_int32 (GetInteger r ''db'' ''port'' 4000),
      dbs_poolNum = to_int32 (GetInteger r ''db'' ''pool_num'' 30)\<rparr>"

definition monitor_route :: "INIReader \<Rightarrow> route" where
  "monitor_route r = read_route r ''mon'' ''mon_func'' ''mon'' ''mgr_x86_linux'' ''monitor'' ''mon''"

definition monitor_topic :: "groups \<Rightarrow> route \<Rightarrow> string outcome" where
  "monitor_topic gm rt =
     bind_outcome (first_id (group_ids gm (rt_group rt))) (\<lambda>monId. Ret (buildKeyExpr (route_topic TIMES rt monId UP)))"

text \<open>The settings of the topic: those that are not set keep an empty string.\<close>

definition monitor_info :: "INIReader \<Rightarrow> string \<Rightarrow> topic_conf" where
  "monitor_info r name =
     \<lparr>topic = name, topicReply = [], partition = [], nodeId = GetString r ''base'' ''node_id'' [],
      nodeName = GetString r ''base'' ''name'' [], domain = to_int32 (GetInteger r ''base'' ''domain'' 10), needReply = False,
      monNodeId = [], monSendSleep = 60, programName = [], replyPartition = [], monTopicName = [],
      configPath = GetString r ''route'' ''databus_conf'' ''config/databus.json5''\<rparr>"

datatype monitor_end = MonReturned int | MonAborted string | MonReads topic_conf db_settings

definition start_monitor :: "INIReader \<Rightarrow> groups \<Rightarrow> monitor_end" where
  "start_monitor r gm =
     (case monitor_topic gm (monitor_route r) of
        UB e \<Rightarrow> MonAborted e
      | Throw e \<Rightarrow> MonAborted e
      | Ret name \<Rightarrow> MonReads (monitor_info r name) (read_monitor_db r))"

definition monitor_main :: "(bytes \<Rightarrow> json option) \<Rightarrow> string list \<Rightarrow> fsys \<Rightarrow> monitor_end" where
  "monitor_main parse argv fs =
     (if length argv < 2 then MonAborted ''read past the end of argv''
      else if length argv = 2 then MonAborted ''string of a null pointer''
      else let r = INIReader_file (c_str (argv ! 2)) fs
           in if rd_error r < 0 then MonReturned (-1)
              else let groupPath = GetString r ''group'' ''group_path'' []
                in if groupPath = [] then MonReturned 0
                   else case parseJsonToMap parse groupPath fs of
                       UB e \<Rightarrow> MonAborted e
                     | Throw e \<Rightarrow> MonAborted e
                     | Ret gm \<Rightarrow> start_monitor r gm)"

lemma mon_names:
  assumes "t \<in> set (start_pings r nn @ start_messages r nn ms @ start_files r nn fs @ start_commands r nn)"
  shows "monTopicName (snd t) = monStats nn"
  using assms
  by (auto simp: start_pings_def start_messages_def start_files_def start_commands_def Let_def base_info_def msg_info_def
      down_info_def up_info_def split: if_splits)

lemma mon_stats_topic:
  assumes "node_names_of gm rs = Ret nn"
  shows "monitor_topic gm (mon rs) = Ret (monStats nn)"
  using assms by (auto simp: node_names_of_def monitor_topic_def bind_outcome_Ret_iff)

text \<open>
  C32. The monitor reads the reports of every topic: when a node and the monitor have the same groups and the same
  settings of the monitor topic, whatever the node starts reports its traffic on the topic that the monitor reads --
  and the monitor starts, whenever the node does.
\<close>

theorem monitor_reads_all_reports:
  assumes "node_names_of gm (read_routes r) = Ret nn" and "start_node env r gm nn = Running ts ns db"
    and "monitor_route r' = mon (read_routes r)"
  shows "\<exists>info mdb. start_monitor r' gm = MonReads info mdb \<and> (\<forall>t \<in> set ts. monTopicName (snd t) = topic info)"
proof -
  have "monitor_topic gm (monitor_route r') = Ret (monStats nn)"
    using mon_stats_topic [OF assms(1)] assms(3) by simp
  then have s: "start_monitor r' gm = MonReads (monitor_info r' (monStats nn)) (read_monitor_db r')"
    by (simp add: start_monitor_def)
  have "\<forall>t \<in> set ts. monTopicName (snd t) = monStats nn"
    unfolding started_start_node [OF assms(2)] using mon_names by blast
  then show ?thesis unfolding s by (simp add: monitor_info_def)
qed

theorem monitor_reads_all_reports_witness:
  "\<exists>ts ns db info mdb. start_node demo_main_env (demo_reader ''m'' ''mgr'' ''g'') demo_groups demo_names = Running ts ns db
    \<and> start_monitor (demo_reader ''x'' ''mgr'' ''g'') demo_groups = MonReads info mdb \<and> (\<forall>t \<in> set ts. monTopicName (snd t) = topic info)"
proof -
  obtain ts ns db where s: "start_node demo_main_env (demo_reader ''m'' ''mgr'' ''g'') demo_groups demo_names = Running ts ns db"
    using demo_start by blast
  have "monitor_route (demo_reader ''x'' ''mgr'' ''g'') = mon (read_routes (demo_reader ''m'' ''mgr'' ''g''))"
    by (simp add: monitor_route_def read_routes_def read_route_def demo_reader_def GetString_def ini_Get_def MakeKey_def)
  from monitor_reads_all_reports [OF demo_names s this] s show ?thesis by blast
qed

end
