(* ===== verification/CamCrc.thy ===== *)
theory CamCrc
  imports "HOL-Library.Word"
begin

unbundle bit_operations_syntax

text \<open>
  The check code of the packets that the camera application receives (\<open>cam-app/src/TcpRecv.cpp\<close>): a 16-bit
  cyclic redundancy check by two tables of 256 bytes. It is compared with the check as it is specified, bit by
  bit, by the polynomial \<open>0xA001\<close> and the initial value \<open>0xFFFF\<close>.
\<close>

section \<open>The code\<close>

definition auchCRCHi :: "8 word list" where
  "auchCRCHi =
    [0x00, 0xC1, 0x81, 0x40, 0x01, 0xC0, 0x80, 0x41, 0x01, 0xC0, 0x80, 0x41, 0x00, 0xC1, 0x81, 0x40,
     0x01, 0xC0, 0x80, 0x41, 0x00, 0xC1, 0x81, 0x40, 0x00, 0xC1, 0x81, 0x40, 0x01, 0xC0, 0x80, 0x41,
     0x01, 0xC0, 0x80, 0x41, 0x00, 0xC1, 0x81, 0x40, 0x00, 0xC1, 0x81, 0x40, 0x01, 0xC0, 0x80, 0x41,
     0x00, 0xC1, 0x81, 0x40, 0x01, 0xC0, 0x80, 0x41, 0x01, 0xC0, 0x80, 0x41, 0x00, 0xC1, 0x81, 0x40,
     0x01, 0xC0, 0x80, 0x41, 0x00, 0xC1, 0x81, 0x40, 0x00, 0xC1, 0x81, 0x40, 0x01, 0xC0, 0x80, 0x41,
     0x00, 0xC1, 0x81, 0x40, 0x01, 0xC0, 0x80, 0x41, 0x01, 0xC0, 0x80, 0x41, 0x00, 0xC1, 0x81, 0x40,
     0x00, 0xC1, 0x81, 0x40, 0x01, 0xC0, 0x80, 0x41, 0x01, 0xC0, 0x80, 0x41, 0x00, 0xC1, 0x81, 0x40,
     0x01, 0xC0, 0x80, 0x41, 0x00, 0xC1, 0x81, 0x40, 0x00, 0xC1, 0x81, 0x40, 0x01, 0xC0, 0x80, 0x41,
     0x01, 0xC0, 0x80, 0x41, 0x00, 0xC1, 0x81, 0x40, 0x00, 0xC1, 0x81, 0x40, 0x01, 0xC0, 0x80, 0x41,
     0x00, 0xC1, 0x81, 0x40, 0x01, 0xC0, 0x80, 0x41, 0x01, 0xC0, 0x80, 0x41, 0x00, 0xC1, 0x81, 0x40,
     0x00, 0xC1, 0x81, 0x40, 0x01, 0xC0, 0x80, 0x41, 0x01, 0xC0, 0x80, 0x41, 0x00, 0xC1, 0x81, 0x40,
     0x01, 0xC0, 0x80, 0x41, 0x00, 0xC1, 0x81, 0x40, 0x00, 0xC1, 0x81, 0x40, 0x01, 0xC0, 0x80, 0x41,
     0x00, 0xC1, 0x81, 0x40, 0x01, 0xC0, 0x80, 0x41, 0x01, 0xC0, 0x80, 0x41, 0x00, 0xC1, 0x81, 0x40,
     0x01, 0xC0, 0x80, 0x41, 0x00, 0xC1, 0x81, 0x40, 0x00, 0xC1, 0x81, 0x40, 0x01, 0xC0, 0x80, 0x41,
     0x01, 0xC0, 0x80, 0x41, 0x00, 0xC1, 0x81, 0x40, 0x00, 0xC1, 0x81, 0x40, 0x01, 0xC0, 0x80, 0x41,
     0x00, 0xC1, 0x81, 0x40, 0x01, 0xC0, 0x80, 0x41, 0x01, 0xC0, 0x80, 0x41, 0x00, 0xC1, 0x81, 0x40]"

definition auchCRCLo :: "8 word list" where
  "auchCRCLo =
    [0x00, 0xC0, 0xC1, 0x01, 0xC3, 0x03, 0x02, 0xC2, 0xC6, 0x06, 0x07, 0xC7, 0x05, 0xC5, 0xC4, 0x04,
     0xCC, 0x0C, 0x0D, 0xCD, 0x0F, 0xCF, 0xCE, 0x0E, 0x0A, 0xCA, 0xCB, 0x0B, 0xC9, 0x09, 0x08, 0xC8,
     0xD8, 0x18, 0x19, 0xD9, 0x1B, 0xDB, 0xDA, 0x1A, 0x1E, 0xDE, 0xDF, 0x1F, 0xDD, 0x1D, 0x1C, 0xDC,
     0x14, 0xD4, 0xD5, 0x15, 0xD7, 0x17, 0x16, 0xD6, 0xD2, 0x12, 0x13, 0xD3, 0x11, 0xD1, 0xD0, 0x10,
     0xF0, 0x30, 0x31, 0xF1, 0x33, 0xF3, 0xF2, 0x32, 0x36, 0xF6, 0xF7, 0x37, 0xF5, 0x35, 0x34, 0xF4,
     0x3C, 0xFC, 0xFD, 0x3D, 0xFF, 0x3F, 0x3E, 0xFE, 0xFA, 0x3A, 0x3B, 0xFB, 0x39, 0xF9, 0xF8, 0x38,
     0x28, 0xE8, 0xE9, 0x29, 0xEB, 0x2B, 0x2A, 0xEA, 0xEE, 0x2E, 0x2F, 0xEF, 0x2D, 0xED, 0xEC, 0x2C,
     0xE4, 0x24, 0x25, 0xE5, 0x27, 0xE7, 0xE6, 0x26, 0x22, 0xE2, 0xE3, 0x23, 0xE1, 0x21, 0x20, 0xE0,
     0xA0, 0x60, 0x61, 0xA1, 0x63, 0xA3, 0xA2, 0x62, 0x66, 0xA6, 0xA7, 0x67, 0xA5, 0x65, 0x64, 0xA4,
     0x6C, 0xAC, 0xAD, 0x6D, 0xAF, 0x6F, 0x6E, 0xAE, 0xAA, 0x6A, 0x6B, 0xAB, 0x69, 0xA9, 0xA8, 0x68,
     0x78, 0xB8, 0xB9, 0x79, 0xBB, 0x7B, 0x7A, 0xBA, 0xBE, 0x7E, 0x7F, 0xBF, 0x7D, 0xBD, 0xBC, 0x7C,
     0xB4, 0x74, 0x75, 0xB5, 0x77, 0xB7, 0xB6, 0x76, 0x72, 0xB2, 0xB3, 0x73, 0xB1, 0x71, 0x70, 0xB0,
     0x50, 0x90, 0x91, 0x51, 0x93, 0x53, 0x52, 0x92, 0x96, 0x56, 0x57, 0x97, 0x55, 0x95, 0x94, 0x54,
     0x9C, 0x5C, 0x5D, 0x9D, 0x5F, 0x9F, 0x9E, 0x5E, 0x5A, 0x9A, 0x9B, 0x5B, 0x99, 0x59, 0x58, 0x98,
     0x88, 0x48, 0x49, 0x89, 0x4B, 0x8B, 0x8A, 0x4A, 0x4E, 0x8E, 0x8F, 0x4F, 0x8D, 0x4D, 0x4C, 0x8C,
     0x44, 0x84, 0x85, 0x45, 0x87, 0x47, 0x46, 0x86, 0x82, 0x42, 0x43, 0x83, 0x41, 0x81, 0x80, 0x40]"

text \<open>The loop over the bytes; the index is the exclusive or of two bytes, so it is inside the tables.\<close>

fun crc_loop :: "8 word list \<Rightarrow> 8 word \<Rightarrow> 8 word \<Rightarrow> 8 word \<times> 8 word" where
  "crc_loop [] uchCRCHi uchCRCLo = (uchCRCHi, uchCRCLo)"
| "crc_loop (b # updata) uchCRCHi uchCRCLo =
     (let uindex = unat (uchCRCHi XOR b)
      in crc_loop updata (uchCRCLo XOR auchCRCHi ! uindex) (auchCRCLo ! uindex))"

definition N_CRC16 :: "8 word list \<Rightarrow> 32 word" where
  "N_CRC16 updata = (let (uchCRCHi, uchCRCLo) = crc_loop updata 0xFF 0xFF
     in push_bit 8 (ucast uchCRCHi) OR ucast uchCRCLo)"

section \<open>The check bit by bit\<close>

definition crc_shift :: "16 word \<Rightarrow> 16 word" where
  "crc_shift c = (if bit c 0 then drop_bit 1 c XOR 0xA001 else drop_bit 1 c)"

definition crc_byte :: "16 word \<Rightarrow> 8 word \<Rightarrow> 16 word" where
  "crc_byte c b = (crc_shift ^^ 8) (c XOR ucast b)"

definition crc16 :: "8 word list \<Rightarrow> 16 word" where
  "crc16 bs = foldl crc_byte 0xFFFF bs"

text \<open>The low byte of the register is sent first.\<close>

definition swap_bytes :: "16 word \<Rightarrow> 32 word" where
  "swap_bytes c = push_bit 8 (ucast (ucast c :: 8 word)) OR ucast (drop_bit 8 c)"

lemma crc_shift_linear: "crc_shift (x XOR y) = crc_shift x XOR crc_shift y"
  by (auto simp: crc_shift_def bit_xor_iff ac_simps drop_bit_xor)

lemma crc_shifts_linear: "(crc_shift ^^ n) (x XOR y) = (crc_shift ^^ n) x XOR (crc_shift ^^ n) y"
  by (induction n) (simp_all add: crc_shift_linear)

lemma crc_shift_high:
  assumes "n < 8"
  shows "crc_shift (push_bit (Suc n) (ucast (h :: 8 word))) = push_bit n (ucast h)"
proof -
  have "drop_bit 1 (push_bit (Suc n) (ucast h :: 16 word)) = push_bit n (ucast h)"
    using assms by (intro bit_eqI) (auto simp: bit_simps simp del: push_bit_Suc dest: bit_imp_le_length)
  then show ?thesis by (simp add: crc_shift_def bit_simps del: push_bit_Suc)
qed

lemma crc_shifts_high: "n \<le> 8 \<Longrightarrow> (crc_shift ^^ n) (push_bit n (ucast (h :: 8 word))) = ucast h"
  by (induction n) (simp_all add: crc_shift_high funpow_Suc_right del: funpow.simps(2) push_bit_Suc)

text \<open>
  The tables are linear: the second half of the first \<open>2 ^ Suc n\<close> entries is the first half with the entry of
  the power of two added. So only these entries have to be evaluated.
\<close>

definition doubles :: "8 word list \<Rightarrow> nat \<Rightarrow> bool" where
  "doubles t n = (take (2 ^ n) (drop (2 ^ n) t) = map (\<lambda>x. x XOR t ! (2 ^ n)) (take (2 ^ n) t))"

lemma tables_double:
  "list_all (doubles auchCRCHi) [0, 1, 2, 3, 4, 5, 6, 7]" "list_all (doubles auchCRCLo) [0, 1, 2, 3, 4, 5, 6, 7]"
  by (simp_all add: doubles_def auchCRCHi_def auchCRCLo_def)

lemma tables_length: "length auchCRCHi = 256" "length auchCRCLo = 256"
  by (simp_all add: auchCRCHi_def auchCRCLo_def)

lemma below_8: "n < 8 \<Longrightarrow> n \<in> set [0, 1, 2, 3, 4, 5, 6, 7]" for n :: nat
  by auto

lemma doubles_nth:
  assumes "doubles t n" and "i < 2 ^ n" and "2 * 2 ^ n \<le> length t"
  shows "t ! (i + 2 ^ n) = t ! i XOR t ! (2 ^ n)"
proof -
  have "t ! (i + 2 ^ n) = take (2 ^ n) (drop (2 ^ n) t) ! i" using assms by (simp add: ac_simps)
  also have "\<dots> = t ! i XOR t ! (2 ^ n)" using assms by (simp add: doubles_def)
  finally show ?thesis .
qed

definition entry :: "nat \<Rightarrow> 16 word" where
  "entry i = push_bit 8 (ucast (auchCRCLo ! i)) XOR ucast (auchCRCHi ! i)"

lemma entry_double:
  assumes "n < 8" and "i < 2 ^ n"
  shows "entry (i + 2 ^ n) = entry i XOR entry (2 ^ n)"
proof -
  have "2 * 2 ^ n \<le> (256 :: nat)" using assms(1) power_increasing [of "Suc n" 8 "2 :: nat"] by simp
  moreover have "doubles auchCRCHi n" "doubles auchCRCLo n"
    using tables_double below_8 [OF assms(1)] by (auto simp only: list_all_iff)
  ultimately show ?thesis using assms
    by (simp add: entry_def doubles_nth tables_length unsigned_xor_eq push_bit_xor ac_simps)
qed

lemma shifted_powers:
  "map (crc_shift ^^ 8) [1, 2, 4, 8, 16, 32, 64, 128]
    = [0xC0C1, 0xC181, 0xC301, 0xC601, 0xCC01, 0xD801, 0xF001, 0xA001]"
  by code_simp

lemma entry_power: "list_all (\<lambda>n. (crc_shift ^^ 8) (2 ^ n) = entry (2 ^ n)) [0, 1, 2, 3, 4, 5, 6, 7]"
  using shifted_powers by (simp add: entry_def auchCRCLo_def auchCRCHi_def del: funpow.simps)

lemma word_add_power:
  assumes "i < 2 ^ n"
  shows "word_of_nat (i + 2 ^ n) = word_of_nat i XOR (2 ^ n :: 'a::len word)"
proof -
  have "\<not> bit i n" using assms by (simp add: bit_iff_odd)
  then have "\<not> bit (word_of_nat i :: 'a word) n" by (simp add: bit_of_nat_iff)
  then show ?thesis by (simp add: and_exp_eq_0_iff_not_bit flip: disjunctive_add_eq_xor)
qed

lemma table_entries: "n \<le> 8 \<Longrightarrow> i < 2 ^ n \<Longrightarrow> (crc_shift ^^ 8) (word_of_nat i) = entry i"
proof (induction n arbitrary: i)
  case 0
  have "(crc_shift ^^ 8) 0 = entry 0" by code_simp
  with 0 show ?case by simp
next
  case (Suc n)
  then have n: "n < 8" by simp
  show ?case
  proof (cases "i < 2 ^ n")
    case False
    define j where "j = i - 2 ^ n"
    with False Suc.prems have j: "i = j + 2 ^ n" "j < 2 ^ n" by simp_all
    have "(crc_shift ^^ 8) (2 ^ n) = entry (2 ^ n)"
      using entry_power below_8 [OF n] by (auto simp only: list_all_iff)
    then show ?thesis using Suc.IH [OF _ j(2)] n j(2)
      by (simp only: j(1) word_add_power crc_shifts_linear entry_double)
  qed (use Suc in simp)
qed

lemma table_entry: "(crc_shift ^^ 8) (ucast (b :: 8 word)) = entry (unat b)"
proof -
  have "unat b < 2 ^ 8" using unsigned_less [of b] by simp
  from table_entries [OF _ this] show ?thesis by simp
qed

definition register :: "8 word \<Rightarrow> 8 word \<Rightarrow> 16 word" where
  "register hi lo = push_bit 8 (ucast lo) XOR ucast hi"

lemma crc_byte_register:
  "crc_byte (register hi lo) b
    = register (lo XOR auchCRCHi ! unat (hi XOR b)) (auchCRCLo ! unat (hi XOR b))"
proof -
  have "register hi lo XOR ucast b = push_bit 8 (ucast lo) XOR ucast (hi XOR b)"
    by (simp add: register_def ac_simps unsigned_xor_eq)
  then have "crc_byte (register hi lo) b = ucast lo XOR (crc_shift ^^ 8) (ucast (hi XOR b))"
    using crc_shifts_high [of 8 lo] by (simp only: crc_byte_def crc_shifts_linear)
  then show ?thesis unfolding table_entry entry_def register_def by (simp only: unsigned_xor_eq ac_simps)
qed

lemma crc_loop_register:
  "crc_loop bs hi lo = (hi', lo') \<Longrightarrow> foldl crc_byte (register hi lo) bs = register hi' lo'"
  by (induction bs arbitrary: hi lo) (auto simp: Let_def crc_byte_register)

lemma swap_register: "swap_bytes (register hi lo) = push_bit 8 (ucast hi) OR ucast lo"
  by (rule bit_eqI) (auto simp: swap_bytes_def register_def bit_simps dest: bit_imp_le_length)

lemma crc_tables: "N_CRC16 updata = swap_bytes (crc16 updata)"
proof -
  obtain hi lo where l: "crc_loop updata 0xFF 0xFF = (hi, lo)" by (cases "crc_loop updata 0xFF 0xFF")
  have "register 0xFF 0xFF = 0xFFFF" by (simp add: register_def)
  with crc_loop_register [OF l] have "crc16 updata = register hi lo" by (simp add: crc16_def)
  then show ?thesis by (simp add: N_CRC16_def l swap_register)
qed

text \<open>
  C11. The check by tables is the check bit by bit with the polynomial \<open>0xA001\<close>, with its two bytes exchanged.
\<close>

theorem crc_by_tables: "N_CRC16 updata = swap_bytes (crc16 updata)"
  by (rule crc_tables)

section \<open>What the check finds\<close>

lemma crc_shift_zero: "crc_shift x = 0 \<Longrightarrow> x = 0"
proof (rule bit_eqI)
  fix n assume z: "crc_shift x = 0"
  have "bit (crc_shift x) 15 = bit x 0"
    by (auto simp: crc_shift_def bit_simps dest: bit_imp_le_length)
  with z have 0: "\<not> bit x 0" by simp
  then have "drop_bit 1 x = 0" using z by (simp add: crc_shift_def)
  then have "bit (drop_bit 1 x) k = False" for k by simp
  then have "\<not> bit x (Suc k)" for k by (simp add: bit_drop_bit_eq)
  then show "bit x n = bit 0 n" using 0 by (cases n) auto
qed

lemma crc_shifts_zero: "(crc_shift ^^ n) x = 0 \<Longrightarrow> x = 0"
  by (induction n) (auto dest: crc_shift_zero)

lemma xor_zero_iff: "x XOR y = 0 \<longleftrightarrow> x = (y :: 'a::len word)"
proof
  assume "x XOR y = 0"
  then have "(x XOR y) XOR y = y" by simp
  then show "x = y" by (simp add: xor.assoc)
qed simp

lemma xor_same: "x XOR z = y XOR z \<longleftrightarrow> x = (y :: 'a::len word)" "z XOR x = z XOR y \<longleftrightarrow> x = y"
  using xor_zero_iff [of "x XOR z" "y XOR z"] xor_zero_iff [of "z XOR x" "z XOR y"] xor_zero_iff [of x y]
  by (simp_all add: ac_simps)

lemma crc_shifts_inject: "(crc_shift ^^ n) x = (crc_shift ^^ n) y \<longleftrightarrow> x = y"
  using crc_shifts_zero [of n "x XOR y"] by (auto simp: crc_shifts_linear xor_zero_iff)

lemma crc_byte_state: "crc_byte c b = crc_byte d b \<longleftrightarrow> c = d"
  by (simp add: crc_byte_def crc_shifts_inject xor_same)

lemma ucast_byte: "ucast a = (ucast b :: 16 word) \<longleftrightarrow> a = (b :: 8 word)"
proof
  assume "ucast a = (ucast b :: 16 word)"
  then have "unat (ucast a :: 16 word) = unat (ucast b :: 16 word)" by simp
  moreover have "unat (ucast x :: 16 word) = unat x" for x :: "8 word"
    using unsigned_less [of x, where ?'a = nat] by (simp add: unsigned_ucast_eq take_bit_nat_eq_self)
  ultimately show "a = b" by (metis word_unat_eq_iff)
qed simp

lemma crc_byte_byte: "crc_byte c a = crc_byte c b \<longleftrightarrow> a = b"
proof -
  have "ucast a = (ucast b :: 16 word) \<longleftrightarrow> a = b" by (rule ucast_byte)
  then show ?thesis
    by (simp add: crc_byte_def crc_shifts_inject xor_same)
qed

lemma crc_bytes_state: "foldl crc_byte c bs = foldl crc_byte d bs \<longleftrightarrow> c = d"
  by (induction bs arbitrary: c d) (simp_all add: crc_byte_state)

lemma bit_swap_bytes: "bit (swap_bytes c) n = (if n < 8 then bit c (n + 8) else n < 16 \<and> bit c (n - 8))"
  by (auto simp: swap_bytes_def bit_simps add.commute dest: bit_imp_le_length)

lemma swap_bytes_inject: "swap_bytes c = swap_bytes d \<longleftrightarrow> c = d"
proof
  assume e: "swap_bytes c = swap_bytes d"
  show "c = d"
  proof (rule bit_eqI)
    fix n assume "possible_bit TYPE(16 word) n"
    moreover have "bit (swap_bytes c) (if n < 8 then n + 8 else n - 8) = bit (swap_bytes d) (if n < 8 then n + 8 else n - 8)"
      using e by simp
    ultimately show "bit c n = bit d n" by (simp add: bit_swap_bytes split: if_splits)
  qed
qed simp

text \<open>
  C24. Two messages that differ in one byte only never have the same check code: a packet with one wrong byte is
  refused.
\<close>

theorem wrong_byte_found:
  assumes "a \<noteq> b"
  shows "N_CRC16 (xs @ a # ys) \<noteq> N_CRC16 (xs @ b # ys)"
  using assms by (simp add: crc_tables swap_bytes_inject crc16_def crc_bytes_state crc_byte_byte)

lemma wrong_byte_found_witness:
  "N_CRC16 ([0x01, 0x03] @ 0x10 # [0x20]) \<noteq> N_CRC16 ([0x01, 0x03] @ 0x11 # [0x20])"
  using wrong_byte_found [of "0x10" "0x11" "[0x01, 0x03]" "[0x20]"] by simp

end
