(* ===== verification/CamMessages.thy ===== *)
theory CamMessages
  imports "HOL-Library.Word"
begin

text \<open>
  The messages of the camera application (\<open>cam-app/src/proto/v2x.proto\<close>): a record for each message, with the
  fields that the inserts read. A part of a message that may be absent is an option, a repeated one a list, an
  enumeration its number; a \<open>oneof\<close> is a datatype, and its \<open>has_\<close> functions are the selectors below it.
\<close>

record Position3D =
  p3_lat :: "32 word"
  p3_lon :: "32 word"
  p3_ele :: "32 word"

record NodeReferenceId =
  nri_region :: "32 word"
  nri_nodeId :: "32 word"

record MapLocation =
  loc_nodeId :: "NodeReferenceId option"
  loc_linkName :: string
  loc_upstreamNodeId :: "NodeReferenceId option"
  loc_sectionId :: "32 word"
  loc_laneId :: "32 word"

record PositionConfidenceSet =
  pcs_posConfid :: "32 word"
  pcs_eleConfid :: "32 word"

record MotionConfidenceSet =
  mcs_speedCfd :: "32 word"
  mcs_headingCfd :: "32 word"
  mcs_steerCfd :: "32 word"

record AccelerationSet4Way =
  as4w_lat :: "32 word"
  as4w_lon :: "32 word"
  as4w_vert :: "32 word"
  as4w_yaw :: "32 word"

record AccelerationConfidence =
  ac_lonAccelConfid :: "32 word"
  ac_latAccelConfid :: "32 word"
  ac_verticalAccelConfid :: "32 word"
  ac_yawRateConfid :: "32 word"

record ParticipantSize =
  psz_width :: "32 word"
  psz_length :: "32 word"
  psz_height :: "32 word"

record ParticipantSizeConfidence =
  psc_widthConfid :: "32 word"
  psc_lengthConfid :: "32 word"
  psc_heightConfid :: "32 word"

record PathHistoryPoint =
  php_pos :: "Position3D option"
  php_timeOffset :: "32 word"
  php_speed :: "32 word"
  php_posConfid :: "PositionConfidenceSet option"
  php_heading :: "32 word"

record Polygon =
  poly_pos :: "Position3D list"

record ParticipantData =
  ptc_ptcId :: "64 word"
  ptc_ptcType :: "32 word"
  ptc_dataSource :: "32 word"
  ptc_deviceIdList :: string
  ptc_timestamp :: "64 word"
  ptc_timeConfidence :: "32 word"
  ptc_ptcPos :: "Position3D option"
  ptc_mapLocation :: "MapLocation option"
  ptc_posConfid :: "PositionConfidenceSet option"
  ptc_speed :: "32 word"
  ptc_heading :: "32 word"
  ptc_motionConfid :: "MotionConfidenceSet option"
  ptc_accelSet :: "AccelerationSet4Way option"
  ptc_accelerationConfid :: "AccelerationConfidence option"
  ptc_ptcSize :: "ParticipantSize option"
  ptc_vehicleBand :: string
  ptc_vehicleType :: "32 word"
  ptc_plateNo :: string
  ptc_plateType :: "32 word"
  ptc_plateColor :: "32 word"
  ptc_vehicleColor :: "32 word"
  ptc_ptcSizeConfid :: "ParticipantSizeConfidence option"
  ptc_ptcTypeExt :: "32 word"
  ptc_ptcTypeExtConfid :: "32 word"
  ptc_statusDuration :: "32 word"
  ptc_pathHistory :: "PathHistoryPoint list"
  ptc_tracking :: "32 word"
  ptc_polygon :: "Polygon option"
  ptc_id :: "64 word"

record ObstacleData =
  obs_obsId :: "64 word"
  obs_obsType :: "32 word"
  obs_obsSource :: "32 word"
  obs_timestamp :: "64 word"
  obs_deviceIdList :: string
  obs_obsPos :: "Position3D option"
  obs_posConfid :: "PositionConfidenceSet option"
  obs_mapLocation :: "MapLocation option"
  obs_speed :: "32 word"
  obs_heading :: "32 word"
  obs_motionConfid :: "MotionConfidenceSet option"
  obs_verSpeed :: "32 word"
  obs_verSpeedConfid :: "32 word"
  obs_acceleration :: "AccelerationSet4Way option"
  obs_size :: "ParticipantSize option"
  obs_obsSizeConfid :: "ParticipantSizeConfidence option"
  obs_tracking :: "32 word"
  obs_polygon :: "Polygon option"

record RsiTimeDetails =
  rtd_startTime :: "64 word"
  rtd_endTime :: "64 word"
  rtd_endTimeConfidence :: "32 word"

record ReferencePath =
  rp_activePath :: "Position3D list"
  rp_pathRadius :: "32 word"

record ReferenceLanes =
  rl_referenceLanes :: "32 word"

record ReferenceLink =
  rlk_upstreamNodeId :: "NodeReferenceId option"
  rlk_downstreamNodeId :: "NodeReferenceId option"
  rlk_referenceLanes :: "ReferenceLanes option"

record ObjIdValue =
  oiv_ptcId :: "64 word"
  oiv_obsId :: "64 word"
  oiv_role :: "32 word"

record RteData =
  rte_rteId :: "32 word"
  rte_rteType :: "32 word"
  rte_description :: string
  rte_eventSource :: "32 word"
  rte_dataSource :: "32 word"
  rte_deviceIdList :: string
  rte_rtePos :: "Position3D option"
  rte_mapLocation :: "MapLocation option"
  rte_eventRadius :: "32 word"
  rte_timeDetails :: "RsiTimeDetails option"
  rte_priority :: string
  rte_referencePath :: "ReferencePath list"
  rte_referenceLinks :: "ReferenceLink list"
  rte_eventObjId :: "ObjIdValue list"
  rte_eventConfid :: "32 word"
  rte_eventImages :: string
  rte_eventVideos :: string
  rte_id :: "64 word"

record RtsData =
  rts_rtsId :: "32 word"
  rts_rtsType :: "32 word"
  rts_dataSource :: "32 word"
  rts_priority :: string
  rts_rtsPos :: "Position3D option"
  rts_timeDetails :: "RsiTimeDetails option"
  rts_description :: string
  rts_refPathList :: "ReferencePath list"
  rts_refLinkList :: "ReferenceLink list"
  rts_pathRadius :: "32 word"

record PositionAccuracy =
  pacc_semiMajor :: "32 word"
  pacc_semiMinor :: "32 word"
  pacc_orientation :: "32 word"

record BrakeSystemStatus =
  brk_brakePadel :: "32 word"
  brk_wheelBrakes :: "32 word"
  brk_traction :: "32 word"
  brk_abs :: "32 word"
  brk_scs :: "32 word"
  brk_brakeBoost :: "32 word"
  brk_auxBrakes :: "32 word"
  brk_brakeControl :: "32 word"

record ThrottleSystemStatus =
  thr_thorttleControl :: "32 word"
  thr_throttlePadel :: "32 word"
  thr_wheelThrottles :: "32 word"

record VehicleSize =
  vs_width :: "32 word"
  vs_length :: "32 word"
  vs_height :: "32 word"

record BsmData =
  bsm_obuId :: string
  bsm_plateNo :: string
  bsm_timestamp :: "64 word"
  bsm_pos :: "Position3D option"
  bsm_posConfid :: "PositionConfidenceSet option"
  bsm_posAccuracy :: "PositionAccuracy option"
  bsm_acceleration :: "AccelerationSet4Way option"
  bsm_transmission :: "32 word"
  bsm_speed :: "32 word"
  bsm_heading :: "32 word"
  bsm_steeringWheelAngle :: "32 word"
  bsm_motionConfid :: "MotionConfidenceSet option"
  bsm_brakes :: "BrakeSystemStatus option"
  bsm_throttle :: "ThrottleSystemStatus option"
  bsm_size :: "VehicleSize option"
  bsm_vehicleType :: "32 word"
  bsm_fuelType :: "32 word"
  bsm_driveModedriveStatus :: "32 word"
  bsm_emergencyStatus :: "32 word"
  bsm_light :: "32 word"
  bsm_wiper :: "32 word"
  bsm_outofControl :: "32 word"
  bsm_endurance :: "32 word"

record PathPlanningPoint =
  pp_pos :: "Position3D option"
  pp_posConfid :: "PositionConfidenceSet option"
  pp_speed :: "32 word"
  pp_heading :: "32 word"
  pp_speedConfid :: "32 word"
  pp_headingConfid :: "32 word"
  pp_acceleration :: "AccelerationSet4Way option"
  pp_accelerationConfid :: "AccelerationConfidence option"
  pp_estimatedTime :: "32 word"
  pp_timeConfidence :: "32 word"
  pp_posInMap :: "ReferenceLink option"

record PathPlanning =
  plan_pathPlanning :: "PathPlanningPoint list"

record DriveBehavior =
  db_driveBehavior :: "32 word"

record ReqLaneChange =
  rlc_upStreamNode :: "NodeReferenceId option"
  rlc_downStreamNode :: "NodeReferenceId option"
  rlc_targetLane :: "32 word"

record ReqClearTheWay =
  rctw_upStreamNode :: "NodeReferenceId option"
  rctw_downStreamNode :: "NodeReferenceId option"
  rctw_targetLane :: "32 word"

record NodeStatInfo =
  nsi_nodeId :: "NodeReferenceId option"

record MovementStatInfo =
  msi_remoteIntersection :: "NodeReferenceId option"
  msi_turnDirection :: "32 word"
  msi_nodeStatInfo :: "NodeStatInfo option"
  msi_extId :: string

record ReqSignalPriority =
  rsp_intersectionId :: "NodeReferenceId option"
  rsp_requiredMove :: "MovementStatInfo option"
  rsp_estimatedArrivalTime :: "32 word"
  rsp_distance2Intersection :: "32 word"

record ReqSensorSharing =
  rss_detectorArea :: "ReferencePath list"

record ParkingRequest =
  pkr_req :: "32 word"

record ParkingType =
  pkt_parkingType :: "32 word"

record ReqParkingArea =
  rpa_vehicleType :: "32 word"
  rpa_req :: "ParkingRequest option"
  rpa_parkingType :: "ParkingType option"
  rpa_expectedParkingSlotId :: "32 word"

datatype ReqInfo =
    ReqLaneChange_of_req ReqLaneChange
  | ReqClearTheWay_of_req ReqClearTheWay
  | ReqSignalPriority_of_req ReqSignalPriority
  | ReqSensorSharing_of_req ReqSensorSharing
  | ReqParkingArea_of_req ReqParkingArea
  | Unset_req

fun req_laneChange :: "ReqInfo \<Rightarrow> ReqLaneChange option" where
  "req_laneChange (ReqLaneChange_of_req x) = Some x"
| "req_laneChange _ = None"

fun req_clearTheWay :: "ReqInfo \<Rightarrow> ReqClearTheWay option" where
  "req_clearTheWay (ReqClearTheWay_of_req x) = Some x"
| "req_clearTheWay _ = None"

fun req_signalPriority :: "ReqInfo \<Rightarrow> ReqSignalPriority option" where
  "req_signalPriority (ReqSignalPriority_of_req x) = Some x"
| "req_signalPriority _ = None"

fun req_sensorSharing :: "ReqInfo \<Rightarrow> ReqSensorSharing option" where
  "req_sensorSharing (ReqSensorSharing_of_req x) = Some x"
| "req_sensorSharing _ = None"

fun req_parking :: "ReqInfo \<Rightarrow> ReqParkingArea option" where
  "req_parking (ReqParkingArea_of_req x) = Some x"
| "req_parking _ = None"

record DriveRequest =
  dr_reqId :: "32 word"
  dr_status :: "32 word"
  dr_reqPriority :: string
  dr_targetVeh :: string
  dr_targetRsu :: string
  dr_info :: "ReqInfo option"
  dr_lifeTime :: "32 word"

record IarData =
  id_currentPos :: "PathPlanningPoint option"
  id_pathPlanning :: "PathPlanning option"
  id_currentBehavior :: "DriveBehavior option"
  id_reqs :: "DriveRequest list"

record VirData =
  vir_msgCnt :: "32 word"
  vir_vehicleId :: string
  vir_timestamp :: "64 word"
  vir_pos :: "Position3D option"
  vir_intAndReq :: "IarData option"

record DriveSuggestion =
  ds_suggestion :: "DriveBehavior option"
  ds_timeOffset :: "32 word"
  ds_relatedLink :: "ReferenceLink option"
  ds_relatedPath :: "ReferencePath option"

record CoordinationInfo =
  ci_coordinationInfo :: "32 word"

record VehicleCoordination =
  vc_vehId :: string
  vc_driveSuggestion :: "DriveSuggestion option"
  vc_pathGuidance :: "PathPlanning option"
  vc_info :: "CoordinationInfo option"

record LaneCoordination =
  lc_targetLane :: "ReferenceLink option"
  lc_relatedPath :: "ReferencePath option"
  lc_tBegin :: "64 word"
  lc_tEnd :: "64 word"
  lc_recommendedSpeed :: "32 word"
  lc_recommendedBehavior :: "DriveBehavior option"
  lc_info :: "CoordinationInfo option"
  lc_description :: string

record RscData =
  rsc_msgCnt :: "32 word"
  rsc_rsuId :: string
  rsc_timestamp :: "64 word"
  rsc_pos :: "Position3D option"
  rsc_coordinates :: "VehicleCoordination option"
  rsc_laneCoordinates :: "LaneCoordination option"

record TimeCountingDown =
  tcd_startTime :: "32 word"
  tcd_minEndTime :: "32 word"
  tcd_maxEndTime :: "32 word"
  tcd_likelyEndTime :: "32 word"
  tcd_timeConfidence :: "32 word"
  tcd_nextStartTime :: "32 word"
  tcd_nextDuration :: "32 word"

record PhaseState =
  phs_light :: "32 word"
  phs_timing :: "TimeCountingDown option"

record Phase =
  ph_id :: "32 word"
  ph_phaseStates :: "PhaseState list"

record IntersectionState =
  is_intersectionId :: "NodeReferenceId option"
  is_status :: string
  is_timestamp :: "64 word"
  is_timeConfidence :: "32 word"
  is_phases :: "Phase list"

record SpatData =
  spat_msgCnt :: "32 word"
  spat_timestamp :: "64 word"
  spat_intersections :: "IntersectionState list"

record TrafficFlowStatByInterval =
  tfsbi_interval :: "32 word"

record TrafficFlowStatBySignalCycle =
  tfsbsc_cycleStartTime :: "64 word"
  tfsbsc_cycleEndTime :: "64 word"
  tfsbsc_cycleTime :: "32 word"

record TrafficFlowStatType =
  tfst_interval :: "TrafficFlowStatByInterval option"
  tfst_sequence :: "TrafficFlowStatBySignalCycle option"

record DetectorArea =
  area_areaId :: "32 word"
  area_setTime :: "64 word"
  area_polygon :: "Polygon option"
  area_nodeId :: "NodeReferenceId option"
  area_laneId :: "32 word"

record LinkStatInfo =
  lks_upstreamNodeId :: "NodeReferenceId option"
  lks_name :: string
  lks_nodeStatInfo :: "NodeStatInfo option"
  lks_extId :: string

record SectionStatInfo =
  scs_sectionId :: "32 word"
  scs_linkStatInfo :: "LinkStatInfo option"
  scs_extId :: string

record LaneStatInfo =
  lns_laneId :: "32 word"
  lns_linkStatInfo :: "LinkStatInfo option"
  lns_sectionStatInfo :: "SectionStatInfo option"
  lns_extId :: string

datatype TrafficFlowStatMapElement =
    DetectorArea_of_elem DetectorArea
  | LaneStatInfo_of_elem LaneStatInfo
  | SectionStatInfo_of_elem SectionStatInfo
  | LinkStatInfo_of_elem LinkStatInfo
  | NodeStatInfo_of_elem NodeStatInfo
  | MovementStatInfo_of_elem MovementStatInfo
  | Unset_elem

fun elem_detectorArea :: "TrafficFlowStatMapElement \<Rightarrow> DetectorArea option" where
  "elem_detectorArea (DetectorArea_of_elem x) = Some x"
| "elem_detectorArea _ = None"

fun elem_laneStatInfo :: "TrafficFlowStatMapElement \<Rightarrow> LaneStatInfo option" where
  "elem_laneStatInfo (LaneStatInfo_of_elem x) = Some x"
| "elem_laneStatInfo _ = None"

fun elem_sectionStatInfo :: "TrafficFlowStatMapElement \<Rightarrow> SectionStatInfo option" where
  "elem_sectionStatInfo (SectionStatInfo_of_elem x) = Some x"
| "elem_sectionStatInfo _ = None"

fun elem_linkStatInfo :: "TrafficFlowStatMapElement \<Rightarrow> LinkStatInfo option" where
  "elem_linkStatInfo (LinkStatInfo_of_elem x) = Some x"
| "elem_linkStatInfo _ = None"

fun elem_nodeStatInfo :: "TrafficFlowStatMapElement \<Rightarrow> NodeStatInfo option" where
  "elem_nodeStatInfo (NodeStatInfo_of_elem x) = Some x"
| "elem_nodeStatInfo _ = None"

fun elem_movementStatInfo :: "TrafficFlowStatMapElement \<Rightarrow> MovementStatInfo option" where
  "elem_movementStatInfo (MovementStatInfo_of_elem x) = Some x"
| "elem_movementStatInfo _ = None"

record LaneIndexAdded =
  lni_timestamp :: "64 word"
  lni_laneCapacity :: "32 word"
  lni_laneSaturation :: "32 word"
  lni_laneSpaceOccupy :: "32 word"
  lni_laneTimeOccupy :: "32 word"
  lni_laneAvgGrnQueue :: "32 word"
  lni_laneGrnUtilization :: "32 word"

record LinkIndexAdded =
  lki_timestamp :: "64 word"
  lki_linkCapacity :: "32 word"
  lki_linkSaturation :: "32 word"
  lki_linkSpaceOccupy :: "32 word"
  lki_linkTimeOccupy :: "32 word"
  lki_linkAvgGrnQueue :: "32 word"
  lki_linkGrnUtilization :: "32 word"

record MovementIndexAdded =
  mia_timestamp :: "64 word"
  mia_movementCapacity :: "32 word"
  mia_movementSaturation :: "32 word"
  mia_movementSpaceOccupy :: "32 word"
  mia_movementTimeOccupy :: "32 word"
  mia_movementAvgGrnQueue :: "32 word"
  mia_movementGrnUtilization :: "32 word"

record NodeIndexAdded =
  nia_timestamp :: "64 word"
  nia_nodeSpaceOccupy :: "32 word"
  nia_nodeTimeOccupy :: "32 word"
  nia_nodeCapacity :: "64 word"
  nia_nodeSaturation :: "32 word"
  nia_nodeGrnUtilization :: "32 word"
  nia_nodeAvgGrnQueue :: "32 word"
  nia_demandIndex :: "32 word"
  nia_supplyIndex :: "32 word"
  nia_theoryIndex :: "32 word"

record SignalControlIndexAdded =
  scia_phaseId :: "32 word"
  scia_greenStartQueue :: "32 word"
  scia_redStartQueue :: "32 word"
  scia_greenUtilization :: "32 word"

record TrafficFlowExtension =
  tfe_laneIndex :: "LaneIndexAdded list"
  tfe_linkIndex :: "LinkIndexAdded list"
  tfe_movementIndex :: "MovementIndexAdded list"
  tfe_nodeIndex :: "NodeIndexAdded list"
  tfe_signalIndex :: "SignalControlIndexAdded list"

record TrafficFlowStat =
  stat_mapElement :: "TrafficFlowStatMapElement option"
  stat_ptcType :: "32 word"
  stat_vehicleType :: "32 word"
  stat_timestamp :: "64 word"
  stat_volume :: "32 word"
  stat_speedPoint :: "32 word"
  stat_speedArea :: "32 word"
  stat_density :: "32 word"
  stat_travelTime :: "32 word"
  stat_delay :: "32 word"
  stat_queueLength :: "32 word"
  stat_queueInt :: "32 word"
  stat_congestion :: "32 word"
  stat_trafficFlowExtension :: "TrafficFlowExtension option"
  stat_timeHeadway :: "32 word"
  stat_spaceHeadway :: "32 word"
  stat_stopNums :: "32 word"

record TrafficFlow =
  flow_nodeId :: "NodeReferenceId option"
  flow_genTime :: "64 word"
  flow_statType :: "TrafficFlowStatType option"
  flow_stats :: "TrafficFlowStat list"

record SingleTimeSpan =
  sts_startTime :: "64 word"
  sts_endTime :: "64 word"

record LocalTimePoint =
  ltp_hh :: "32 word"
  ltp_mm :: "32 word"
  ltp_ss :: "32 word"

record PeriodictimeSpan =
  ps_monthFilter :: "32 word"
  ps_dayFilter :: "32 word"
  ps_weekdayFilter :: "32 word"
  ps_fromTimePoint :: "LocalTimePoint option"
  ps_toTimePoint :: "LocalTimePoint option"

datatype OptimTimeType =
    SingleTimeSpan_of_ott SingleTimeSpan
  | PeriodictimeSpan_of_ott PeriodictimeSpan
  | Unset_ott

fun ott_single :: "OptimTimeType \<Rightarrow> SingleTimeSpan option" where
  "ott_single (SingleTimeSpan_of_ott x) = Some x"
| "ott_single _ = None"

fun ott_periodic :: "OptimTimeType \<Rightarrow> PeriodictimeSpan option" where
  "ott_periodic (PeriodictimeSpan_of_ott x) = Some x"
| "ott_periodic _ = None"

record MovementEx =
  me_remoteIntersection :: "NodeReferenceId option"
  me_phaseId :: "32 word"
  me_turnDirection :: "32 word"

record OptimPhase =
  oph_phaseId :: "32 word"
  oph_order :: "32 word"
  oph_movementId :: "MovementEx list"
  oph_phaseTime :: "32 word"
  oph_green :: "32 word"
  oph_phaseYellowTime :: "32 word"
  oph_phaseAllRedTime :: "32 word"
  oph_minGreen :: "32 word"
  oph_maxGreen :: "32 word"

record OptimData =
  od_optimTimeType :: "OptimTimeType option"
  od_optimCycleTime :: "32 word"
  od_minCycleTime :: "32 word"
  od_maxCycleTime :: "32 word"
  od_optimPhaseList :: "OptimPhase list"
  od_coorPhase :: string
  od_offset :: "32 word"

record SignalScheme =
  sch_nodeId :: "NodeReferenceId option"
  sch_optimType :: "32 word"
  sch_timestamp :: "64 word"
  sch_optimDataList :: "OptimData list"

record CamData =
  cam_type :: "32 word"
  cam_ver :: string
  cam_msgCnt :: "32 word"
  cam_timestamp :: "64 word"
  cam_deviceId :: string
  cam_mapDeviceId :: string
  cam_refPos :: "Position3D option"
  cam_sceneType :: "32 word"
  cam_ptcList :: "ParticipantData list"
  cam_obstacleList :: "ObstacleData list"
  cam_rteList :: "RteData list"
  cam_rtsList :: "RtsData list"
  cam_bsmList :: "BsmData list"
  cam_virList :: "VirData list"
  cam_rscList :: "RscData list"
  cam_roadSignalState :: "SpatData option"
  cam_trafficFlow :: "TrafficFlow list"
  cam_signalSchemeList :: "SignalScheme list"
  cam_detectedRegion :: "Polygon list"
  cam_toAlgorithmTime :: "64 word"
  cam_toDatabusTime :: "64 word"
  cam_toCloudTime :: "64 word"
  cam_id :: "64 word"

end
