(* ===== verification/CamIntake.thy ===== *)
theory CamIntake
  imports CamMessages Queues NodeBase
begin

unbundle bit_operations_syntax

text \<open>
  What the camera application does with the messages it receives: the conversion of a fused message
  (\<open>ConvertCam\<close> in \<open>cam-app/src/UserTcpServer.cpp\<close>) and the routing of the messages of the MQTT broker
  (\<open>cam-app/src/MqttSubscriber.cpp\<close>), both into the queues that the writer of \<open>CamTopic\<close> reads from.
\<close>

section \<open>The messages received\<close>

text \<open>
  \<open>proto/MultiPathDatas.proto\<close> and \<open>proto/FusionPathDatas.proto\<close>. A \<open>double\<close> or \<open>float\<close> is its bit pattern.
\<close>

record GNSSPosition =
  gnss_longitude :: "64 word"
  gnss_latitude :: "64 word"

record UTMPosition =
  utm_x :: "64 word"
  utm_y :: "64 word"

record GlobalSpaceInfo =
  gsi_position_gnss :: "GNSSPosition option"
  gsi_position_utm :: "UTMPosition option"
  gsi_objOri :: "32 word"
  gsi_objWidth :: "32 word"
  gsi_objLength :: "32 word"
  gsi_objHeight :: "32 word"
  gsi_speedX :: "32 word"
  gsi_speedY :: "32 word"
  gsi_speedZ :: "32 word"
  gsi_speed :: "32 word"

record CameraPath =
  cpa_objID :: "32 word"
  cpa_laneNo :: "32 word"
  cpa_plateNo :: string
  cpa_plateColor :: "32 word"
  cpa_vehType :: "32 word"
  cpa_vehColor :: string
  cpa_objX :: "32 word"
  cpa_objY :: "32 word"
  cpa_objDistX :: "32 word"
  cpa_objDistY :: "32 word"
  cpa_objBottomMidX :: "32 word"
  cpa_objBottomMidY :: "32 word"
  cpa_globalSpaceInfo :: "GlobalSpaceInfo option"
  cpa_objCf :: "32 word"
  cpa_objKind :: "32 word"
  cpa_objImgTop :: "32 word"
  cpa_objImgLeft :: "32 word"
  cpa_objImgRight :: "32 word"
  cpa_objImgBottom :: "32 word"

record CameraPathList =
  cpl_dataTime :: "64 word"
  cpl_deviceID :: string
  cpl_capType :: "32 word"
  cpl_objCount :: "32 word"
  cpl_cameraPathList :: "CameraPath list"
  cpl_processTime :: "64 word"
  cpl_commRcvTime :: "64 word"

record RadarPath =
  rpa_objID :: "32 word"
  rpa_longitude :: "64 word"
  rpa_lattitude :: "64 word"
  rpa_elevation :: "32 word"
  rpa_objX :: "32 word"
  rpa_objY :: "32 word"
  rpa_objZ :: "32 word"
  rpa_obj_ENU_X :: "32 word"
  rpa_obj_ENU_Y :: "32 word"
  rpa_obj_ENU_Z :: "32 word"
  rpa_speed :: "32 word"
  rpa_speedX :: "32 word"
  rpa_speedY :: "32 word"
  rpa_speedZ :: "32 word"
  rpa_speed_ENU_X :: "32 word"
  rpa_speed_ENU_Y :: "32 word"
  rpa_speed_ENU_Z :: "32 word"
  rpa_objOri :: "32 word"
  rpa_speedHeading :: "32 word"
  rpa_objWidth :: "32 word"
  rpa_objLength :: "32 word"
  rpa_objHeight :: "32 word"
  rpa_aclr :: "32 word"
  rpa_aclrAngle :: "32 word"
  rpa_aclr_x :: "32 word"
  rpa_aclr_y :: "32 word"
  rpa_aclr_z :: "32 word"
  rpa_aclr_enu_x :: "32 word"
  rpa_aclr_enu_y :: "32 word"
  rpa_aclr_enu_z :: "32 word"
  rpa_objState :: "32 word"
  rpa_objCf :: "32 word"
  rpa_objType :: "32 word"
  rpa_objKind :: "32 word"
  rpa_objDist :: "32 word"

record RadarDevPathList =
  rdl_dataTime :: "64 word"
  rdl_deviceID :: string
  rdl_areaNo :: "32 word"
  rdl_radarPathList :: "RadarPath list"
  rdl_processTime :: "64 word"
  rdl_commRcvTime :: "64 word"

record MultiPathDatas =
  mpd_sendTime :: "64 word"
  mpd_lidarPathList :: "RadarDevPathList list"
  mpd_mwrPathList :: "RadarDevPathList list"
  mpd_cameraPathList :: "CameraPathList list"

record RelOriPosDataObjID =
  roo_objID :: "64 word"

record RelOriPosData =
  rop_deviceID :: string
  rop_devType :: "32 word"
  rop_dataTime :: "64 word"
  rop_objIDList :: "RelOriPosDataObjID list"
  rop_processTime :: "64 word"
  rop_commRcvTime :: "64 word"
  rop_commSendTime :: "64 word"
  rop_fusionRcvTime :: "64 word"

record FusionPosData =
  fpos_longitude :: "64 word"
  fpos_lattitude :: "64 word"
  fpos_elevation :: "32 word"
  fpos_coordType :: "32 word"
  fpos_objX :: "32 word"
  fpos_objY :: "32 word"
  fpos_objZ :: "32 word"
  fpos_laneNo :: "32 word"
  fpos_speed :: "32 word"
  fpos_speedX :: "32 word"
  fpos_speedY :: "32 word"
  fpos_speedZ :: "32 word"
  fpos_objOri :: "32 word"
  fpos_speedHeading :: "32 word"
  fpos_aclr :: "32 word"
  fpos_aclrAngle :: "32 word"
  fpos_aclr_x :: "32 word"
  fpos_aclr_y :: "32 word"
  fpos_aclr_z :: "32 word"
  fpos_objWidth :: "32 word"
  fpos_objLength :: "32 word"
  fpos_objHeight :: "32 word"

record FusionPath =
  fp_objID :: "32 word"
  fp_objType :: "32 word"
  fp_objKind :: "32 word"
  fp_objState :: "32 word"
  fp_objCf :: "32 word"
  fp_objPosDatas :: "FusionPosData option"
  fp_hasVisionData :: bool
  fp_objVisionData :: "CameraPath option"
  fp_oriPosDataList :: "RelOriPosData list"

record FusionPathDatas =
  fds_sendTime :: "64 word"
  fds_dataTime :: "64 word"
  fds_areaNo :: "32 word"
  fds_pathList :: "FusionPath list"

section \<open>Degrees\<close>

text \<open>
  \<open>int32_t lat = x * 1e7\<close>: the product is rounded to 53 bits, half to even, and its fraction is cut off. The
  behaviour is undefined when the result is no \<open>int32_t\<close>. A finite double is a sign, a mantissa and an exponent.
\<close>

definition double_parts :: "64 word \<Rightarrow> (bool \<times> nat \<times> int) option" where
  "double_parts w =
     (let e = unat (drop_bit 52 w AND 0x7FF); f = unat (w AND 0xFFFFFFFFFFFFF)
      in if e = 0x7FF then None
         else if e = 0 then Some (bit w 63, f, - 1074)
         else Some (bit w 63, f + 2 ^ 52, int e - 1075))"

fun bit_len :: "nat \<Rightarrow> nat" where
  "bit_len n = (if n = 0 then 0 else Suc (bit_len (n div 2)))"

declare bit_len.simps [simp del]

definition round_53 :: "nat \<Rightarrow> nat" where
  "round_53 n =
     (let s = bit_len n - 53; q = n div 2 ^ s; r = n mod 2 ^ s
      in if 2 ^ s < 2 * r \<or> (2 * r = 2 ^ s \<and> odd q) then (q + 1) * 2 ^ s else q * 2 ^ s)"

definition degrees_e7 :: "64 word \<Rightarrow> 32 word option" where
  "degrees_e7 w =
     (case double_parts w of
        None \<Rightarrow> None
      | Some (neg, m, e) \<Rightarrow>
          (let n = round_53 (m * 10 ^ 7);
               t = int (if 0 \<le> e then n * 2 ^ nat e else n div 2 ^ nat (- e));
               v = (if neg then - t else t)
           in if in_int32 v then Some (word_of_int v) else None))"

section \<open>The queues\<close>

definition MAX_MSG :: nat where "MAX_MSG = 20000"

record cam_queues =
  camSendQueue :: "CamData ThreadSafeQueue"
  simplifiedCamQueue :: "CamData ThreadSafeQueue"
  cameraQueue :: "MultiPathDatas ThreadSafeQueue"
  radarQueue :: "MultiPathDatas ThreadSafeQueue"

text \<open>
  \<open>if (q.Size() > MAX_MSG) q.Empty(); q.Push(x)\<close>: \<open>Empty\<close> says whether the queue is empty, and leaves it as it is.
\<close>

definition call_Empty :: "'a ThreadSafeQueue \<Rightarrow> bool \<times> 'a ThreadSafeQueue" where
  "call_Empty q = (Empty q, q)"

definition push_limited :: "'a \<Rightarrow> 'a ThreadSafeQueue \<Rightarrow> 'a ThreadSafeQueue" where
  "push_limited x q = Push x (if MAX_MSG < Size q then snd (call_Empty q) else q)"

definition push_cam :: "CamData \<Rightarrow> cam_queues \<Rightarrow> cam_queues" where
  "push_cam cam qs = qs\<lparr>camSendQueue := push_limited cam (camSendQueue qs),
     simplifiedCamQueue := push_limited cam (simplifiedCamQueue qs)\<rparr>"

section \<open>ConvertCam\<close>

text \<open>The settings in \<open>nodeInfo_\<close> that the conversion reads.\<close>

record mec_info =
  camType :: int
  camVer :: string
  sceneType :: int
  deviceId :: string
  mapDevId :: string
  mec_lat :: int
  mec_lon :: int
  mec_ele :: int

definition no_participant :: ParticipantData where
  "no_participant = \<lparr>ptc_ptcId = 0, ptc_ptcType = 0, ptc_dataSource = 0, ptc_deviceIdList = [], ptc_timestamp = 0,
     ptc_timeConfidence = 0, ptc_ptcPos = None, ptc_mapLocation = None, ptc_posConfid = None, ptc_speed = 0,
     ptc_heading = 0, ptc_motionConfid = None, ptc_accelSet = None, ptc_accelerationConfid = None, ptc_ptcSize = None,
     ptc_vehicleBand = [], ptc_vehicleType = 0, ptc_plateNo = [], ptc_plateType = 0, ptc_plateColor = 0,
     ptc_vehicleColor = 0, ptc_ptcSizeConfid = None, ptc_ptcTypeExt = 0, ptc_ptcTypeExtConfid = 0,
     ptc_statusDuration = 0, ptc_pathHistory = [], ptc_tracking = 0, ptc_polygon = None, ptc_id = 0\<rparr>"

definition INTEGRATED :: "32 word" where "INTEGRATED = 7"

text \<open>The ids of the devices, separated by commas.\<close>

fun device_ids :: "nat \<Rightarrow> string \<Rightarrow> RelOriPosData list \<Rightarrow> string" where
  "device_ids j deviceIdList [] = deviceIdList"
| "device_ids j deviceIdList (d # ds) =
     device_ids (Suc j) (if j = 0 then rop_deviceID d else deviceIdList @ '','' @ rop_deviceID d) ds"

definition set_position :: "FusionPosData \<Rightarrow> ParticipantData \<Rightarrow> ParticipantData option" where
  "set_position p participant =
     (case (degrees_e7 (fpos_lattitude p), degrees_e7 (fpos_longitude p)) of
        (Some lat, Some lon) \<Rightarrow> Some (participant\<lparr>
          ptc_ptcPos := Some \<lparr>p3_lat = lat, p3_lon = lon, p3_ele = fpos_elevation p\<rparr>,
          ptc_speed := fpos_speed p, ptc_heading := fpos_speedHeading p,
          ptc_ptcSize := Some \<lparr>psz_width = fpos_objWidth p, psz_length = fpos_objLength p, psz_height = fpos_objHeight p\<rparr>\<rparr>)
      | _ \<Rightarrow> None)"

definition convert_path :: "64 word \<Rightarrow> FusionPath \<Rightarrow> ParticipantData option" where
  "convert_path dataTime path =
     (let participant = no_participant\<lparr>ptc_ptcId := scast (fp_objID path), ptc_ptcType := fp_objType path,
            ptc_dataSource := INTEGRATED, ptc_vehicleType := fp_objKind path,
            ptc_deviceIdList := device_ids 0 [] (fp_oriPosDataList path), ptc_timestamp := dataTime\<rparr>;
          vision = (\<lambda>participant. case fp_objVisionData path of None \<Rightarrow> participant
            | Some v \<Rightarrow> participant\<lparr>ptc_plateNo := cpa_plateNo v, ptc_plateColor := cpa_plateColor v\<rparr>)
      in case fp_objPosDatas path of
           None \<Rightarrow> Some (vision participant)
         | Some p \<Rightarrow> map_option vision (set_position p participant))"

fun convert_paths :: "64 word \<Rightarrow> FusionPath list \<Rightarrow> ParticipantData list option" where
  "convert_paths dataTime [] = Some []"
| "convert_paths dataTime (p # ps) =
     (case convert_path dataTime p of None \<Rightarrow> None
      | Some x \<Rightarrow> map_option ((#) x) (convert_paths dataTime ps))"

definition cam_of :: "mec_info \<Rightarrow> FusionPathDatas \<Rightarrow> 8 word \<Rightarrow> ParticipantData list \<Rightarrow> CamData" where
  "cam_of mec fusion msgNum ptcs =
     \<lparr>cam_type = word_of_int (camType mec), cam_ver = c_str (camVer mec), cam_msgCnt = ucast msgNum,
      cam_timestamp = fds_dataTime fusion, cam_deviceId = c_str (deviceId mec), cam_mapDeviceId = c_str (mapDevId mec),
      cam_refPos = Some \<lparr>p3_lat = word_of_int (mec_lat mec), p3_lon = word_of_int (mec_lon mec), p3_ele = word_of_int (mec_ele mec)\<rparr>,
      cam_sceneType = word_of_int (sceneType mec), cam_ptcList = ptcs, cam_obstacleList = [], cam_rteList = [],
      cam_rtsList = [], cam_bsmList = [], cam_virList = [], cam_rscList = [], cam_roadSignalState = None,
      cam_trafficFlow = [], cam_signalSchemeList = [], cam_detectedRegion = [],
      cam_toAlgorithmTime = fds_sendTime fusion, cam_toDatabusTime = 0, cam_toCloudTime = 0, cam_id = 0\<rparr>"

definition ConvertCam :: "mec_info \<Rightarrow> FusionPathDatas \<Rightarrow> 8 word \<Rightarrow> cam_queues \<Rightarrow> (cam_queues, unit) run" where
  "ConvertCam mec fusion msgNum qs =
     (case convert_paths (fds_dataTime fusion) (fds_pathList fusion) of
        None \<Rightarrow> Crash ''conversion of a double out of range''
      | Some ptcs \<Rightarrow> Fin (push_cam (cam_of mec fusion msgNum ptcs) qs) ())"

section \<open>Messages of the MQTT broker\<close>

text \<open>\<open>ParseFromString\<close> is generated code; whether it succeeds is not asked.\<close>

record mqtt_env =
  mq_parse_multi :: "string \<Rightarrow> MultiPathDatas"
  mq_parse_cam :: "string \<Rightarrow> CamData"

record mqtt_message =
  mqm_topic :: string
  mqm_payload :: string
  mqm_now :: "64 word"

definition topic_has :: "string \<Rightarrow> mqtt_message \<Rightarrow> bool" where
  "topic_has part msg \<longleftrightarrow> str_find part (mqm_topic msg) \<noteq> None"

definition multi_of :: "mqtt_env \<Rightarrow> mqtt_message \<Rightarrow> MultiPathDatas" where
  "multi_of env msg = mq_parse_multi env (mqm_payload msg)"

definition stamped_cam :: "mqtt_env \<Rightarrow> mqtt_message \<Rightarrow> CamData" where
  "stamped_cam env msg = (mq_parse_cam env (mqm_payload msg))\<lparr>cam_toCloudTime := mqm_now msg\<rparr>"

definition message_arrived :: "mqtt_env \<Rightarrow> mqtt_message \<Rightarrow> cam_queues \<Rightarrow> cam_queues" where
  "message_arrived env msg qs =
     (if topic_has ''camera'' msg then qs\<lparr>cameraQueue := push_limited (multi_of env msg) (cameraQueue qs)\<rparr>
      else if topic_has ''cam'' msg then push_cam (stamped_cam env msg) qs
      else if topic_has ''radar'' msg then qs\<lparr>radarQueue := push_limited (multi_of env msg) (radarQueue qs)\<rparr>
      else qs)"

text \<open>The connection: a lost one is opened again after every failure; a new one subscribes to the topics.\<close>

datatype mqtt_call = Connect | Subscribe string

record mqtt_callback =
  nretry :: int
  topic_list :: "string list"
  mqtt_calls :: "mqtt_call list"

definition N_RETRY_ATTEMPTS :: int where "N_RETRY_ATTEMPTS = 5"

definition reconnection :: "mqtt_callback \<Rightarrow> mqtt_callback" where
  "reconnection cb = cb\<lparr>mqtt_calls := mqtt_calls cb @ [Connect]\<rparr>"

definition on_failure :: "mqtt_callback \<Rightarrow> mqtt_callback" where
  "on_failure cb =
     (let n = nretry cb + 1 in reconnection (cb\<lparr>nretry := (if N_RETRY_ATTEMPTS < n then 0 else n)\<rparr>))"

definition connected :: "mqtt_callback \<Rightarrow> mqtt_callback" where
  "connected cb = cb\<lparr>mqtt_calls := mqtt_calls cb @ map Subscribe (topic_list cb)\<rparr>"

definition connection_lost :: "mqtt_callback \<Rightarrow> mqtt_callback" where
  "connection_lost cb = reconnection (cb\<lparr>nretry := 0\<rparr>)"

definition add_topic :: "string \<Rightarrow> mqtt_callback \<Rightarrow> mqtt_callback" where
  "add_topic t cb = cb\<lparr>topic_list := topic_list cb @ [t]\<rparr>"

section \<open>The precision of a coordinate\<close>

lemma bit_len_bounds: "n \<noteq> 0 \<Longrightarrow> 2 ^ bit_len n \<le> 2 * n \<and> n < 2 ^ bit_len n"
proof (induction n rule: bit_len.induct)
  case (1 n)
  show ?case
  proof (cases "n div 2 = 0")
    case True
    with 1(2) have "n = 1" by simp
    then show ?thesis by (simp add: bit_len.simps [of "Suc 0"] bit_len.simps [of 0])
  next
    case False
    with "1.IH" "1.prems" have "2 ^ bit_len (n div 2) \<le> 2 * (n div 2)" "n div 2 < 2 ^ bit_len (n div 2)" by auto
    then have "2 ^ bit_len (n div 2) \<le> n" "n < 2 * 2 ^ bit_len (n div 2)" by linarith+
    then show ?thesis using "1.prems" by (simp add: bit_len.simps [of n])
  qed
qed

lemma div_bounds: "n div 2 ^ s * 2 ^ s \<le> n" "n < n div 2 ^ s * 2 ^ s + 2 ^ s" for n :: nat
proof -
  have "n div 2 ^ s * 2 ^ s + n mod 2 ^ s = n" by (rule div_mult_mod_eq)
  moreover have "n mod 2 ^ s < 2 ^ s" by simp
  ultimately show "n div 2 ^ s * 2 ^ s \<le> n" "n < n div 2 ^ s * 2 ^ s + 2 ^ s" by linarith+
qed

lemma round_53_near: "round_53 n \<le> n + 2 ^ (bit_len n - 53)" "n \<le> round_53 n + 2 ^ (bit_len n - 53)"
proof -
  define s where "s = bit_len n - 53"
  have "round_53 n = n div 2 ^ s * 2 ^ s \<or> round_53 n = n div 2 ^ s * 2 ^ s + 2 ^ s"
    by (simp add: round_53_def Let_def flip: s_def)
  then show "round_53 n \<le> n + 2 ^ (bit_len n - 53)" "n \<le> round_53 n + 2 ^ (bit_len n - 53)"
    using div_bounds [of n s] unfolding s_def [symmetric] by linarith+
qed

lemma round_53_small:
  assumes "n < 2 ^ (31 + k)"
  shows "round_53 n \<le> n + 2 ^ k" "n \<le> round_53 n + 2 ^ k"
proof -
  have "bit_len n - 53 \<le> k"
  proof (cases "n = 0")
    case False
    have "2 * n < 2 ^ (32 + k)" using assms by (simp add: power_add)
    then have "(2 :: nat) ^ bit_len n < 2 ^ (32 + k)" using bit_len_bounds [OF False] by linarith
    then have "bit_len n < 32 + k" by (rule power_less_imp_less_exp [rotated]) simp
    then show ?thesis by simp
  qed (simp add: bit_len.simps [of 0])
  then have "(2 :: nat) ^ (bit_len n - 53) \<le> 2 ^ k" by simp
  with round_53_near [of n] show "round_53 n \<le> n + 2 ^ k" "n \<le> round_53 n + 2 ^ k" by linarith+
qed

text \<open>A number by its sign and its size.\<close>

definition signed_nat :: "bool \<Rightarrow> nat \<Rightarrow> int" where
  "signed_nat neg n = (if neg then - int n else int n)"

text \<open>
  C25. A coordinate of at most 200 degrees is converted, and the result is at most two units of a ten-millionth of a
  degree off the exact product, whatever the rounding and the truncation do.
\<close>

theorem degrees_within_two_units:
  assumes "double_parts w = Some (neg, m, e)" and "e \<le> 0" and "m \<le> 200 * 2 ^ nat (- e)"
  shows "\<exists>v. degrees_e7 w = Some v \<and> \<bar>sint v * 2 ^ nat (- e) - signed_nat neg (m * 10 ^ 7)\<bar> \<le> 2 * 2 ^ nat (- e)"
proof -
  define k where "k = nat (- e)"
  define N where "N = m * 10 ^ 7"
  define t where "t = round_53 N div 2 ^ k"
  have N: "N \<le> 2000000000 * 2 ^ k" using assms(3) by (simp add: N_def k_def)
  moreover have "(2000000000 :: nat) * 2 ^ k < 2 ^ (31 + k)" by (simp add: power_add)
  ultimately have "N < 2 ^ (31 + k)" by (rule le_less_trans)
  note r = round_53_small [OF this]
  have q: "t * 2 ^ k \<le> round_53 N" "round_53 N < t * 2 ^ k + 2 ^ k"
    unfolding t_def by (rule div_bounds)+
  then have "t * 2 ^ k \<le> 2000000001 * 2 ^ k" using r N by linarith
  then have t: "t \<le> 2000000001" by (simp only: mult_le_cancel2) simp
  have i: "in_int32 (signed_nat neg t)" using t by (simp add: in_int32_def signed_nat_def)
  have d: "degrees_e7 w = Some (word_of_int (signed_nat neg t))"
    using assms(1,2) i by (auto simp: degrees_e7_def Let_def signed_nat_def t_def k_def N_def)
  have "sint (word_of_int (signed_nat neg t) :: 32 word) = signed_nat neg t"
    using i by (simp add: signed_of_int in_int32_def signed_take_bit_int_eq_self)
  moreover have "t * 2 ^ k \<le> N + 2 * 2 ^ k" "N \<le> t * 2 ^ k + 2 * 2 ^ k" using q r by linarith+
  then have "int (t * 2 ^ k) \<le> int (N + 2 * 2 ^ k)" "int N \<le> int (t * 2 ^ k + 2 * 2 ^ k)" by (simp_all only: of_nat_le_iff)
  then have "\<bar>int (t * 2 ^ k) - int N\<bar> \<le> 2 * 2 ^ k" by simp
  ultimately show ?thesis unfolding d k_def [symmetric] N_def [symmetric]
    by (auto simp: signed_nat_def abs_if split: if_splits)
qed

theorem degrees_within_two_units_witness:
  "\<exists>v. degrees_e7 0x403F4E1792C3BC83 = Some v \<and>
     \<bar>sint v * 2 ^ 48 - signed_nat False (8811587431545987 * 10 ^ 7)\<bar> \<le> 2 * 2 ^ 48"
proof -
  have "double_parts 0x403F4E1792C3BC83 = Some (False, 8811587431545987, - 48)"
    by (simp add: double_parts_def Let_def drop_bit_eq_div)
  from degrees_within_two_units [OF this] show ?thesis by simp
qed

section \<open>The routing of messages\<close>

lemma queue_push_limited [simp]: "queue_q (push_limited x q) = queue_q q @ [x]"
  by (simp add: push_limited_def call_Empty_def Push_def)

text \<open>
  C27. However many messages arrive, each is added to the queue that its topic names, behind those that arrived
  before, and none is ever removed: the limit of 20000 messages has no effect, and nothing in the program takes
  messages out of the queues of the camera, the radar and the simplified messages.
\<close>

theorem mqtt_messages_routed:
  "queue_q (cameraQueue (fold (message_arrived env) msgs qs)) = queue_q (cameraQueue qs)
     @ map (multi_of env) (filter (topic_has ''camera'') msgs)
   \<and> queue_q (radarQueue (fold (message_arrived env) msgs qs)) = queue_q (radarQueue qs)
     @ map (multi_of env) (filter (\<lambda>m. topic_has ''radar'' m \<and> \<not> topic_has ''cam'' m \<and> \<not> topic_has ''camera'' m) msgs)
   \<and> queue_q (camSendQueue (fold (message_arrived env) msgs qs)) = queue_q (camSendQueue qs)
     @ map (stamped_cam env) (filter (\<lambda>m. topic_has ''cam'' m \<and> \<not> topic_has ''camera'' m) msgs)
   \<and> queue_q (simplifiedCamQueue (fold (message_arrived env) msgs qs)) = queue_q (simplifiedCamQueue qs)
     @ map (stamped_cam env) (filter (\<lambda>m. topic_has ''cam'' m \<and> \<not> topic_has ''camera'' m) msgs)"
  by (induction msgs arbitrary: qs) (simp_all add: message_arrived_def push_cam_def)

end
