(* ===== verification/CamSql.thy ===== *)
theory CamSql
  imports NodeBase SnowFlakeGen
begin

text \<open>
  What the inserts of the camera application (\<open>cam-app/src/DataInsert.cpp\<close>) share: \<open>sprintf\<close> with the
  conversions the sources use, the ids drawn from the generator, and the loop that collects the rows of
  one statement. The 32-bit fields of a message are \<open>32 word\<close> and its 64-bit fields \<open>64 word\<close>: \<open>%d\<close> and
  \<open>%lld\<close> print them as signed numbers.
\<close>

section \<open>sprintf\<close>

datatype arg = I32 "32 word" | I64 "64 word" | CStr string

datatype arg_kind = KInt | KLong | KStr

fun kind_of :: "arg \<Rightarrow> arg_kind" where
  "kind_of (I32 w) = KInt"
| "kind_of (I64 w) = KLong"
| "kind_of (CStr s) = KStr"

fun print_arg :: "arg \<Rightarrow> string" where
  "print_arg (I32 w) = int_string (sint w)"
| "print_arg (I64 w) = int_string (sint w)"
| "print_arg (CStr s) = c_str s"

text \<open>
  The conversions \<open>%d\<close>, \<open>%lld\<close> and \<open>%s\<close>: each takes the next argument, which has to be of its type.
  \<open>conversion\<close> splits a conversion from the text after the percent sign.
\<close>

fun conversion :: "string \<Rightarrow> (arg_kind \<times> string) option" where
  "conversion [] = None"
| "conversion (c # cs) =
     (if c = CHR ''d'' then Some (KInt, cs)
      else if c = CHR ''s'' then Some (KStr, cs)
      else if c = CHR ''l'' \<and> take 2 cs = ''ld'' then Some (KLong, drop 2 cs)
      else None)"

lemma conversion_shorter [termination_simp]:
  "conversion f = Some (k, f') \<Longrightarrow> length f' < length f"
  by (cases f) (auto split: if_splits)

fun format :: "string \<Rightarrow> arg list \<Rightarrow> string option" where
  "format [] args = Some []"
| "format (c # f) args =
     (if c \<noteq> CHR ''%'' then map_option ((#) c) (format f args)
      else case conversion f of
             None \<Rightarrow> None
           | Some (k, f') \<Rightarrow>
               (case args of
                  [] \<Rightarrow> None
                | a # args' \<Rightarrow> if kind_of a = k then map_option ((@) (print_arg a)) (format f' args') else None))"

text \<open>A format and the types of the arguments that fit it.\<close>

fun fits :: "string \<Rightarrow> arg_kind list \<Rightarrow> bool" where
  "fits [] ks = (ks = [])"
| "fits (c # f) ks =
     (if c \<noteq> CHR ''%'' then fits f ks
      else case conversion f of
             None \<Rightarrow> False
           | Some (k, f') \<Rightarrow> ks \<noteq> [] \<and> hd ks = k \<and> fits f' (tl ks))"

lemma format_fits: "fits f (map kind_of args) \<Longrightarrow> \<exists>s. format f args = Some s"
proof (induction f args rule: format.induct)
  case (2 c f args)
  show ?case
  proof (cases "c = CHR ''%''")
    case True
    with "2.prems" obtain k f' where c: "conversion f = Some (k, f')" by (auto split: option.splits)
    with "2.prems" True obtain a args' where a: "args = a # args'" "kind_of a = k" "fits f' (map kind_of args')"
      by (cases args) auto
    then obtain s where "format f' args' = Some s" using "2.IH"(2) True c by blast
    with a c True show ?thesis by simp
  next
    case False
    then show ?thesis using "2.IH"(1) "2.prems" by auto
  qed
qed simp

lemma conversion_append: "conversion f = Some (k, f') \<Longrightarrow> conversion (f @ g) = Some (k, f' @ g)"
proof (cases f)
  case (Cons c cs)
  assume "conversion f = Some (k, f')"
  moreover have "length cs \<ge> 2" if "take 2 cs = ''ld''"
    using arg_cong [OF that, of length] by simp
  ultimately show ?thesis using Cons by (auto split: if_splits)
qed simp

lemma format_append:
  "fits f (map kind_of as) \<Longrightarrow> format (f @ g) (as @ bs) = map_option ((@) (the (format f as))) (format g bs)"
proof (induction f as rule: format.induct)
  case (2 c f as)
  show ?case
  proof (cases "c = CHR ''%''")
    case True
    with "2.prems" obtain k f' where c: "conversion f = Some (k, f')" by (auto split: option.splits)
    with "2.prems" True obtain a as' where a: "as = a # as'" "kind_of a = k" "fits f' (map kind_of as')"
      by (cases as) auto
    moreover obtain s where "format f' as' = Some s" using format_fits [OF a(3)] by blast
    ultimately show ?thesis using "2.IH"(2) True c by (cases "format g bs") (auto simp: conversion_append)
  next
    case False
    then obtain s where "format f as = Some s" using "2.prems" format_fits [of f as] by auto
    then show ?thesis using "2.IH"(1) "2.prems" False by (cases "format g bs") auto
  qed
qed (cases "format g bs"; simp)

lemma format_literal: "CHR ''%'' \<notin> set p \<Longrightarrow> format (p @ f) as = map_option ((@) p) (format f as)"
  by (induction p) (auto, (cases "format f as"; simp)+)

text \<open>
  \<open>sprintf\<close> into a buffer of \<open>n\<close> bytes: an argument of the wrong type and a text that the buffer cannot hold are
  undefined behaviour.
\<close>

definition mismatch :: string where "mismatch = ''sprintf: type of an argument''"
definition overflow :: string where "overflow = ''sprintf: buffer overflow''"

definition sprintf_to :: "nat \<Rightarrow> string \<Rightarrow> arg list \<Rightarrow> string outcome" where
  "sprintf_to n f args =
     (case format f args of None \<Rightarrow> UB mismatch
      | Some s \<Rightarrow> if length s < n then Ret s else UB overflow)"

section \<open>The state of an insert\<close>

text \<open>The id generator with the clock readings to come, and the statements given to the database.\<close>

record ins =
  i_sf :: snowflake
  i_clk :: "64 word list"
  i_sqls :: "string list"

text \<open>What one call of \<open>camInsert\<close> fixes for its rows.\<close>

record cam_ctx =
  cx_db :: db_env
  cx_splitId :: "32 word"
  cx_camId :: "64 word"
  cx_deviceId :: string

definition next_id :: "ins \<Rightarrow> (ins, 64 word) run" where
  "next_id st =
     (case nextId (i_sf st) (i_clk st) of
        Issued v sf clk \<Rightarrow> Fin (st\<lparr>i_sf := sf, i_clk := clk\<rparr>) v
      | Exits \<Rightarrow> Crash ''exit(0)''
      | Polls \<Rightarrow> Hang)"

text \<open>Participants and events keep an id of their own if they have one.\<close>

definition own_id :: "64 word \<Rightarrow> ins \<Rightarrow> (ins, 64 word) run" where
  "own_id v st = (if v = 0 then next_id st else Fin st v)"

text \<open>\<open>db->excuteSql\<close>: a failure is logged only.\<close>

definition exec_sql :: "db_env \<Rightarrow> string \<Rightarrow> ins \<Rightarrow> (ins, unit) run" where
  "exec_sql db sql st =
     (if \<not> db_present db then Crash ''null DbBase''
      else Fin (st\<lparr>i_sqls := i_sqls st @ [sql]\<rparr>) ())"

section \<open>The rows of a statement\<close>

text \<open>
  The \<open>i\<close>-th row: the head of the statement is put in front of row 0; both go through the buffer. The last
  comma of the collected rows becomes a semicolon, and texts of at most 10 bytes are not executed.
\<close>

definition put_row :: "nat \<Rightarrow> nat \<Rightarrow> string \<Rightarrow> string \<Rightarrow> arg list \<Rightarrow> ins \<Rightarrow> (ins, string) run" where
  "put_row n i hdr fmt args st =
     (case (if i = 0 then sprintf_to n hdr [] else Ret []) of
        UB e \<Rightarrow> Crash e
      | Throw e \<Rightarrow> Exc st e
      | Ret h \<Rightarrow>
          (case sprintf_to n fmt args of
             UB e \<Rightarrow> Crash e
           | Throw e \<Rightarrow> Exc st e
           | Ret r \<Rightarrow> Fin st (h @ r)))"

definition finish_sql :: "string \<Rightarrow> string" where
  "finish_sql s = (if s = [] then [] else butlast s @ '';'')"

definition exec_rows :: "db_env \<Rightarrow> string \<Rightarrow> ins \<Rightarrow> (ins, unit) run" where
  "exec_rows db s st = (if 10 < length s then exec_sql db (finish_sql s) st else Fin st ())"

fun rows_loop :: "(nat \<Rightarrow> 'a \<Rightarrow> ins \<Rightarrow> (ins, string) run) \<Rightarrow> nat \<Rightarrow> 'a list \<Rightarrow> string \<Rightarrow> ins \<Rightarrow> (ins, string) run" where
  "rows_loop item i [] s st = Fin st s"
| "rows_loop item i (x # xs) s st = bind_run (item i x st) (\<lambda>st t. rows_loop item (Suc i) xs (s @ t) st)"

definition insert_rows :: "cam_ctx \<Rightarrow> (nat \<Rightarrow> 'a \<Rightarrow> ins \<Rightarrow> (ins, string) run) \<Rightarrow> 'a list \<Rightarrow> ins \<Rightarrow> (ins, unit) run" where
  "insert_rows cx item xs st = bind_run (rows_loop item 0 xs [] st) (\<lambda>st s. exec_rows (cx_db cx) s st)"

text \<open>A field of a part of a message: the default where the part is absent; and a step for a part that is there.\<close>

definition sub :: "'m option \<Rightarrow> 'a \<Rightarrow> ('m \<Rightarrow> 'a) \<Rightarrow> 'a" where
  "sub m d f = (case m of None \<Rightarrow> d | Some x \<Rightarrow> f x)"

definition on_part :: "'m option \<Rightarrow> ('m \<Rightarrow> ins \<Rightarrow> (ins, unit) run) \<Rightarrow> ins \<Rightarrow> (ins, unit) run" where
  "on_part m f st = (case m of None \<Rightarrow> Fin st () | Some x \<Rightarrow> f x st)"

section \<open>Statements that are well formed\<close>

definition insert_into :: string where "insert_into = ''INSERT INTO `''"

definition statement :: "string \<Rightarrow> bool" where
  "statement s \<longleftrightarrow> take 13 s = insert_into \<and> last s = CHR '';''"

definition all_statements :: "ins \<Rightarrow> bool" where
  "all_statements st \<longleftrightarrow> list_all statement (i_sqls st)"

text \<open>
  A run that gives the database nothing but statements and never calls \<open>sprintf\<close> with arguments that do not fit
  the format; \<open>P\<close> holds of its result.
\<close>

definition good :: "('a \<Rightarrow> bool) \<Rightarrow> (ins, 'a) run \<Rightarrow> bool" where
  "good P r =
     (case r of Fin st x \<Rightarrow> all_statements st \<and> P x | Exc st e \<Rightarrow> all_statements st
      | Crash e \<Rightarrow> e \<noteq> mismatch | Hang \<Rightarrow> True)"

definition begun :: "string \<Rightarrow> bool" where
  "begun s \<longleftrightarrow> take 13 s = insert_into \<and> 13 < length s"

abbreviation row_text :: "nat \<Rightarrow> string \<Rightarrow> bool" where
  "row_text i t \<equiv> t \<noteq> [] \<and> (i = 0 \<longrightarrow> begun t)"

named_theorems good_intro \<open>rules that follow the code of an insert\<close>

lemma good_simps [simp]:
  "good P (Fin st x) \<longleftrightarrow> all_statements st \<and> P x" "good P (Exc st e) \<longleftrightarrow> all_statements st"
  "good P (Crash e) \<longleftrightarrow> e \<noteq> mismatch" "good P Hang"
  by (simp_all add: good_def)

lemma good_bind [good_intro]:
  assumes "good Q r" and "\<And>st x. all_statements st \<Longrightarrow> Q x \<Longrightarrow> good P (f st x)"
  shows "good P (bind_run r f)"
  using assms by (cases r) simp_all

lemma good_let [good_intro]: "good P (f x) \<Longrightarrow> good P (Let x f)"
  by (simp add: Let_def)

lemma good_option:
  assumes "e \<noteq> mismatch" and "\<And>x. good P (f x)"
  shows "good P (case m of None \<Rightarrow> Crash e | Some x \<Rightarrow> f x)"
  using assms by (simp split: option.split)

lemma good_else: "\<not> c \<Longrightarrow> good P s \<Longrightarrow> good P (if c then r else s)"
  by simp

lemma good_Fin [good_intro]: "all_statements st \<Longrightarrow> P x \<Longrightarrow> good P (Fin st x)"
  by simp

lemma good_next_id [good_intro]: "all_statements st \<Longrightarrow> good (\<lambda>_. True) (next_id st)"
  by (simp add: next_id_def all_statements_def mismatch_def split: next_id.split)

lemma good_own_id [good_intro]: "all_statements st \<Longrightarrow> good (\<lambda>_. True) (own_id v st)"
  by (simp add: own_id_def good_next_id)

lemma good_exec_sql: "all_statements st \<Longrightarrow> statement s \<Longrightarrow> good (\<lambda>_. True) (exec_sql db s st)"
  by (simp add: exec_sql_def all_statements_def mismatch_def Let_def split: option.split)

lemma good_on_part [good_intro]:
  assumes "all_statements st" and "\<And>x. good (\<lambda>_. True) (f x st)"
  shows "good (\<lambda>_. True) (on_part m f st)"
  using assms by (simp add: on_part_def split: option.split)

lemma length_insert_into [simp]: "length insert_into = 13"
  by (simp add: insert_into_def)

lemma begun_append [simp]: "begun s \<Longrightarrow> begun (s @ t)"
  by (simp add: begun_def)

lemma statement_finish:
  assumes "begun s"
  shows "statement (finish_sql s)"
proof -
  have s: "take 13 s = insert_into" "13 < length s" using assms by (simp_all add: begun_def)
  then have "take 13 (butlast s) = insert_into" by (simp add: take_butlast)
  moreover have "s \<noteq> []" using s(2) by auto
  moreover have "13 \<le> length (butlast s)" using s(2) by simp
  ultimately show ?thesis by (simp add: statement_def finish_sql_def)
qed

lemma good_exec_rows: "all_statements st \<Longrightarrow> s = [] \<or> begun s \<Longrightarrow> good (\<lambda>_. True) (exec_rows db s st)"
  by (auto simp: exec_rows_def intro!: good_exec_sql statement_finish)

text \<open>A row of a table whose format begins with a parenthesis and whose head begins a statement.\<close>

definition table_ok :: "string \<Rightarrow> string \<Rightarrow> arg_kind list \<Rightarrow> bool" where
  "table_ok hdr fmt ks \<longleftrightarrow>
     take 13 hdr = insert_into \<and> CHR ''%'' \<notin> set hdr \<and> take 1 fmt = ''('' \<and> fits fmt ks"

lemma table_okI:
  "take 13 hdr = insert_into \<Longrightarrow> CHR ''%'' \<notin> set hdr \<Longrightarrow> take 1 fmt = ''('' \<Longrightarrow> fits fmt ks \<Longrightarrow> table_ok hdr fmt ks"
  by (simp add: table_ok_def)

lemma format_plain: "CHR ''%'' \<notin> set f \<Longrightarrow> format f args = Some f"
  by (induction f) auto

lemma good_put_row [good_intro]:
  assumes "all_statements st" and "table_ok hdr fmt (map kind_of args)"
  shows "good (row_text i) (put_row n i hdr fmt args st)"
proof -
  have h: "format hdr [] = Some hdr" "take 13 hdr = insert_into"
    using assms(2) by (auto simp: table_ok_def format_plain)
  obtain r where r: "format fmt args = Some r" using assms(2) format_fits by (auto simp: table_ok_def)
  moreover obtain f where "fmt = CHR ''('' # f" using assms(2) by (cases fmt) (auto simp: table_ok_def)
  ultimately have "r \<noteq> []" by auto
  moreover have "length (take 13 hdr) = 13" using h(2) by simp
  then have "13 \<le> length hdr" by simp
  ultimately have "begun (hdr @ r)" using h(2) by (cases r) (auto simp: begun_def)
  with r h \<open>r \<noteq> []\<close> assms(1) show ?thesis
    by (simp add: put_row_def sprintf_to_def mismatch_def overflow_def)
qed

lemma good_rows_loop:
  assumes "\<And>i x st. x \<in> set xs \<Longrightarrow> all_statements st \<Longrightarrow> good (row_text i) (item i x st)" and "all_statements st"
    and "i = 0 \<and> s = [] \<or> begun s"
  shows "good (\<lambda>s. s = [] \<or> begun s) (rows_loop item i xs s st)"
  using assms
proof (induction xs arbitrary: i s st)
  case (Cons x xs)
  have "good (row_text i) (item i x st)" using Cons.prems(1,2) by simp
  moreover have "good (\<lambda>s. s = [] \<or> begun s) (rows_loop item (Suc i) xs (s @ t) st')"
    if "all_statements st'" "row_text i t" for st' t
    by (rule Cons.IH [OF Cons.prems(1)]) (use that Cons.prems(3) in auto)
  ultimately show ?case by (simp add: good_bind)
qed auto

lemma good_insert_rows:
  assumes "all_statements st" and "\<And>i x st. x \<in> set xs \<Longrightarrow> all_statements st \<Longrightarrow> good (row_text i) (item i x st)"
  shows "good (\<lambda>_. True) (insert_rows cx item xs st)"
  unfolding insert_rows_def
  by (rule good_bind [OF good_rows_loop [OF assms(2)]]) (use assms(1) good_exec_rows in auto)

section \<open>Tables whose rows fit their columns\<close>

text \<open>
  The head of a statement names the table and its columns in backquotes, and a row format ends every value with a
  comma, the last one after the parenthesis: a table is balanced when there is a value for each column and the
  parentheses of the head match.
\<close>

fun tally :: "char \<Rightarrow> nat \<Rightarrow> string \<Rightarrow> nat" where
  "tally c n [] = n"
| "tally c n (x # xs) = tally c (if x = c then n + 1 else n) xs"

definition balanced :: "string \<Rightarrow> string \<Rightarrow> bool" where
  "balanced hdr fmt \<longleftrightarrow> tally (CHR ''`'') 0 hdr = 2 * (tally (CHR '','') 0 fmt + 1) \<and>
     tally (CHR ''('') 0 hdr = tally (CHR '')'') 0 hdr"

section \<open>What a row holds\<close>

text \<open>The characters of a format that are printed as they are.\<close>

fun literals :: "string \<Rightarrow> nat" where
  "literals [] = 0"
| "literals (c # f) =
     (if c \<noteq> CHR ''%'' then Suc (literals f)
      else case conversion f of None \<Rightarrow> 0 | Some (k, f') \<Rightarrow> literals f')"

lemma literals_le: "format f args = Some s \<Longrightarrow> literals f \<le> length s"
proof (induction f args arbitrary: s rule: format.induct)
  case (2 c f args)
  show ?case
  proof (cases "c = CHR ''%''")
    case True
    with "2.prems" obtain k f' a args' t where "conversion f = Some (k, f')" "args = a # args'" "kind_of a = k"
      "format f' args' = Some t" "s = print_arg a @ t"
      by (auto split: option.splits list.splits if_splits)
    then show ?thesis using "2.IH"(2) True by fastforce
  next
    case False
    with "2.prems" obtain t where "format f args = Some t" "s = c # t" by auto
    then show ?thesis using "2.IH"(1) False by auto
  qed
qed simp

lemma put_row_later:
  assumes "put_row n (Suc i) hdr fmt args st = Fin st' r"
  shows "st' = st \<and> format fmt args = Some r \<and> length r < n"
  using assms by (auto simp: put_row_def sprintf_to_def split: option.splits if_splits)

lemma put_row_fits:
  assumes "format fmt args = Some r" and "length r < n" and "CHR ''%'' \<notin> set hdr" and "length hdr < n"
  shows "put_row n i hdr fmt args st = Fin st ((if i = 0 then hdr else []) @ r)"
  using assms by (simp add: put_row_def sprintf_to_def format_plain)

text \<open>A generator that has \<open>n\<close> more ids to issue, and a database object that takes statements.\<close>

definition issues :: "nat \<Rightarrow> ins \<Rightarrow> bool" where
  "issues n st \<longleftrightarrow> length (issue_ids n (i_sf st) (i_clk st)) = n"

lemma issues_Suc:
  assumes "issues (Suc n) st"
  obtains v st1 where "next_id st = Fin st1 v" "issues n st1" "i_sqls st1 = i_sqls st"
  using assms by (auto simp: issues_def next_id_def split: next_id.splits)

lemma issues_sqls [simp]: "issues n (st\<lparr>i_sqls := q\<rparr>) = issues n st"
  by (simp add: issues_def)

definition answers :: "db_env \<Rightarrow> bool" where
  "answers db \<longleftrightarrow> db_present db"

lemma exec_rows_answers:
  assumes "answers db" and "10 < length s"
  shows "exec_rows db s st = Fin (st\<lparr>i_sqls := i_sqls st @ [finish_sql s]\<rparr>) ()"
  using assms by (auto simp: exec_rows_def exec_sql_def answers_def Let_def split: option.split)

lemma length_word_string: "length (int_string (sint (w :: 32 word))) \<le> 21" "length (int_string (sint (v :: 64 word))) \<le> 21"
  using sint_range_size [of w] sint_range_size [of v]
  by (auto intro!: length_int_string simp: word_size)

text \<open>A loop over rows finishes only when every turn does.\<close>

lemma rows_loop_fails:
  assumes "\<And>i st st' t. item i x st \<noteq> Fin st' t"
  shows "x \<in> set xs \<Longrightarrow> rows_loop item i xs s st \<noteq> Fin st' t"
  using assms by (induction xs arbitrary: i s st) (auto simp: bind_run_Fin_iff)

lemma insert_rows_fails:
  assumes "\<And>i st st' t. item i x st \<noteq> Fin st' t" and "x \<in> set xs"
  shows "insert_rows cx item xs st \<noteq> Fin st' u"
proof -
  have "rows_loop item 0 xs [] st \<noteq> Fin s t" for s t by (rule rows_loop_fails) (use assms in auto)
  then show ?thesis by (auto simp: insert_rows_def bind_run_Fin_iff)
qed

end
