(* ===== verification/CamObjects.thy ===== *)
theory CamObjects
  imports CamSql CamMessages
begin

text \<open>
  What \<open>camInsert\<close> stores of the objects of a message: participants with their polygon and path history,
  obstacles, detected regions and basic safety messages. For each table: the head and the row format of its
  statement, one turn of the loop over its rows, and the loop with the statement it executes.
\<close>

section \<open>Participants\<close>

text \<open>Table \<open>participant_data_position_3_d\<close>.\<close>

definition poly_header :: string where
  "poly_header =
     ''INSERT INTO `participant_data_position_3_d`(`id`,`split_id`,`lat`,`lon`,`ele`,`participant_data_id`)''
     @ ''					VALUES''"

definition poly_format :: string where
  "poly_format =
     ''(%lld,%d,%d,%d,%d,%lld),''"

lemma poly_table: "table_ok poly_header poly_format
    [KLong, KInt, KInt, KInt, KInt, KLong]"
  by (rule table_okI) (simp add: poly_header_def insert_into_def, simp add: poly_header_def, simp add: poly_format_def, code_simp)

lemma poly_balanced: "balanced poly_header poly_format"
  by (simp add: balanced_def poly_header_def poly_format_def)

definition poly_item :: "cam_ctx \<Rightarrow> 64 word \<Rightarrow> nat \<Rightarrow> Position3D \<Rightarrow> ins \<Rightarrow> (ins, string) run" where
  "poly_item cx ptclistId j x st =
     (bind_run (next_id st) (\<lambda>st polyId.
       put_row 40960 j poly_header poly_format
           [I64 polyId, I32 (cx_splitId cx), I32 (p3_lat x), I32 (p3_lon x), I32 (p3_ele x), I64 ptclistId] st))"

definition poly_insert :: "cam_ctx \<Rightarrow> 64 word \<Rightarrow> Position3D list \<Rightarrow> ins \<Rightarrow> (ins, unit) run" where
  "poly_insert cx ptclistId = insert_rows cx (poly_item cx ptclistId)"

lemma poly_insert_good [good_intro]:
  "all_statements st \<Longrightarrow> good (\<lambda>_. True) (poly_insert cx ptclistId xs st)"
  unfolding poly_insert_def poly_item_def
  by (rule good_insert_rows, assumption) (rule good_intro | assumption | simp add: poly_table)+

text \<open>Table \<open>path_history_point\<close>.\<close>

definition pathHistory_header :: string where
  "pathHistory_header =
     ''INSERT INTO `path_history_point`(`id`,`split_id`,`lat`,`lon`,`ele`,''
     @ ''				`time_offset`,`speed`,`heading`,`pos_confid_id`,`ele_confid_id`,`participant_data_id`)VALUES''"

definition pathHistory_format :: string where
  "pathHistory_format =
     ''(%lld,%d,%d,%d,%d,%d,%d,%d,%d,%d,%lld),''"

lemma pathHistory_table: "table_ok pathHistory_header pathHistory_format
    [KLong, KInt, KInt, KInt, KInt, KInt, KInt, KInt, KInt, KInt, KLong]"
  by (rule table_okI) (simp add: pathHistory_header_def insert_into_def, simp add: pathHistory_header_def, simp add: pathHistory_format_def, code_simp)

lemma pathHistory_balanced: "balanced pathHistory_header pathHistory_format"
  by (simp add: balanced_def pathHistory_header_def pathHistory_format_def)

definition pathHistory_item :: "cam_ctx \<Rightarrow> 64 word \<Rightarrow> nat \<Rightarrow> PathHistoryPoint \<Rightarrow> ins \<Rightarrow> (ins, string) run" where
  "pathHistory_item cx ptclistId k x st =
     (bind_run (next_id st) (\<lambda>st pathHistoryId.
       let pathLat = sub (php_pos x) 0 p3_lat;
           pathLon = sub (php_pos x) 0 p3_lon;
           pathEle = sub (php_pos x) 0 p3_ele;
           pathPosConfid = sub (php_posConfid x) 0 pcs_posConfid;
           pathEleConfid = sub (php_posConfid x) 0 pcs_eleConfid
       in put_row 40960 k pathHistory_header pathHistory_format
           [I64 pathHistoryId, I32 (cx_splitId cx), I32 pathLat, I32 pathLon, I32 pathEle, I32 (php_timeOffset x), I32 (php_speed x),
            I32 (php_heading x), I32 pathPosConfid, I32 pathEleConfid, I64 ptclistId] st))"

definition pathHistory_insert :: "cam_ctx \<Rightarrow> 64 word \<Rightarrow> PathHistoryPoint list \<Rightarrow> ins \<Rightarrow> (ins, unit) run" where
  "pathHistory_insert cx ptclistId = insert_rows cx (pathHistory_item cx ptclistId)"

lemma pathHistory_insert_good [good_intro]:
  "all_statements st \<Longrightarrow> good (\<lambda>_. True) (pathHistory_insert cx ptclistId xs st)"
  unfolding pathHistory_insert_def pathHistory_item_def
  by (rule good_insert_rows, assumption) (rule good_intro | assumption | simp add: pathHistory_table)+

text \<open>Table \<open>participant_data\<close>.\<close>

definition ptclist_header :: string where
  "ptclist_header =
     ''INSERT INTO `participant_data` (`id`,`split_id`,`ptc_id`,`ptc_type_id`,`data_source_id`,''
     @ ''			`device_id_list`,`timestamp`,`lat`,`lon`,`ele`,''
     @ ''			`link_name`,`section_id`,`lane_id`,`pos_confid_id`,`ele_confid_id`,''
     @ ''			`speed`,`heading`,`speed_cfd_id`,`heading_cfd_id`,`steer_cfd_id`,''
     @ ''			`acceleration_lat`,`acceleration_lon`,`acceleration_vert`,`acceleration_yaw`,`lon_accel_confid_id`,''
     @ ''			`lat_accel_confid_id`,`vertical_accel_confid_id`,`yaw_rate_confid_id`,`width`,`length`,''
     @ ''			`height`,`vehicle_band`,`vehicle_type_id`,`plate_no`,`plate_type_id`,''
     @ ''			`plate_color_id`,`vehicle_color_id`,`width_confid_id`,`length_confid_id`,`height_confid_id`,''
     @ ''			`ptc_type_ext_id`,`ptc_type_ext_confid`,`status_duration`,`tracking`,`cam_data_id`,''
     @ ''			`node_region_id`,`node_id`,`upstream_node_region_id`,`upstream_node_node_id`,`time_confidence_id`,`device_id`)''
     @ ''			VALUES''"

definition ptclist_format :: string where
  "ptclist_format =
     ''(%lld,%d,%lld,%d,%d,'%s',%lld,%d,%d,%d,'%s',%d,%d,%d,%d,%d,%d,%d,%d,%d,%d,%d,%d,%d,%d,''
     @ ''		%d,%d,%d,%d,%d,%d,'%s',%d,'%s',%d,%d,%d,%d,%d,%d,%d,%d,%d,%d,%lld,%d,%d,%d,%d,%d,'%s'),''"

lemma ptclist_table: "table_ok ptclist_header ptclist_format
    [KLong, KInt, KLong, KInt, KInt, KStr, KLong, KInt, KInt, KInt, KStr, KInt, KInt, KInt, KInt, KInt, KInt, KInt,
     KInt, KInt, KInt, KInt, KInt, KInt, KInt, KInt, KInt, KInt, KInt, KInt, KInt, KStr, KInt, KStr, KInt, KInt, KInt,
     KInt, KInt, KInt, KInt, KInt, KInt, KInt, KLong, KInt, KInt, KInt, KInt, KInt, KStr]"
  by (rule table_okI) (simp add: ptclist_header_def insert_into_def, simp add: ptclist_header_def, simp add: ptclist_format_def, code_simp)

lemma ptclist_balanced: "balanced ptclist_header ptclist_format"
  by (simp add: balanced_def ptclist_header_def ptclist_format_def)

definition ptclist_item :: "cam_ctx \<Rightarrow> nat \<Rightarrow> ParticipantData \<Rightarrow> ins \<Rightarrow> (ins, string) run" where
  "ptclist_item cx i x st =
     (bind_run (own_id (ptc_id x) st) (\<lambda>st ptclistId.
       let ptclistLat = sub (ptc_ptcPos x) 0 p3_lat;
           ptclistLon = sub (ptc_ptcPos x) 0 p3_lon;
           ptclistEle = sub (ptc_ptcPos x) 0 p3_ele;
           sectionId = sub (ptc_mapLocation x) 0 loc_sectionId;
           laneId = sub (ptc_mapLocation x) 0 loc_laneId;
           linkName = sub (ptc_mapLocation x) '''' loc_linkName;
           ptclistPosconfid = sub (ptc_posConfid x) 0 pcs_posConfid;
           ptclistEleconfid = sub (ptc_posConfid x) 0 pcs_eleConfid;
           ptclistSpeedCfd = sub (ptc_motionConfid x) 0 mcs_speedCfd;
           ptclistHeadingCfd = sub (ptc_motionConfid x) 0 mcs_headingCfd;
           ptclistSteerCfd = sub (ptc_motionConfid x) 0 mcs_steerCfd;
           acceLat = sub (ptc_accelSet x) 0 as4w_lat;
           acceLon = sub (ptc_accelSet x) 0 as4w_lon;
           acceVert = sub (ptc_accelSet x) 0 as4w_vert;
           acceYaw = sub (ptc_accelSet x) 0 as4w_yaw;
           latAcceConfid = sub (ptc_accelerationConfid x) 0 ac_latAccelConfid;
           lonAcceConfid = sub (ptc_accelerationConfid x) 0 ac_lonAccelConfid;
           vertAcceConfid = sub (ptc_accelerationConfid x) 0 ac_verticalAccelConfid;
           yawAcceConfid = sub (ptc_accelerationConfid x) 0 ac_yawRateConfid;
           ptclistWidth = sub (ptc_ptcSize x) 0 psz_width;
           ptclistLength = sub (ptc_ptcSize x) 0 psz_length;
           ptclistHeight = sub (ptc_ptcSize x) 0 psz_height;
           ptclistWidthConfid = sub (ptc_ptcSizeConfid x) 0 psc_widthConfid;
           ptclistLengthConfid = sub (ptc_ptcSizeConfid x) 0 psc_lengthConfid;
           ptclistHeightConfid = sub (ptc_ptcSizeConfid x) 0 psc_heightConfid;
           regionId = sub (ptc_mapLocation x) 0 (\<lambda>loc. sub (loc_nodeId loc) 0 nri_region);
           nodeId = sub (ptc_mapLocation x) 0 (\<lambda>loc. sub (loc_nodeId loc) 0 nri_nodeId);
           upstreamRegionId = sub (ptc_mapLocation x) 0 (\<lambda>loc. sub (loc_upstreamNodeId loc) 0 nri_region);
           upstreamNodeId = sub (ptc_mapLocation x) 0 (\<lambda>loc. sub (loc_upstreamNodeId loc) 0 nri_nodeId)
       in bind_run (put_row 40960 i ptclist_header ptclist_format
           [I64 ptclistId, I32 (cx_splitId cx), I64 (ptc_ptcId x), I32 (ptc_ptcType x), I32 (ptc_dataSource x), CStr (ptc_deviceIdList x),
            I64 (ptc_timestamp x), I32 ptclistLat, I32 ptclistLon, I32 ptclistEle, CStr linkName, I32 sectionId, I32 laneId,
            I32 ptclistPosconfid, I32 ptclistEleconfid, I32 (ptc_speed x), I32 (ptc_heading x), I32 ptclistSpeedCfd, I32 ptclistHeadingCfd,
            I32 ptclistSteerCfd, I32 acceLat, I32 acceLon, I32 acceVert, I32 acceYaw, I32 lonAcceConfid, I32 latAcceConfid,
            I32 vertAcceConfid, I32 yawAcceConfid, I32 ptclistWidth, I32 ptclistLength, I32 ptclistHeight, CStr (ptc_vehicleBand x),
            I32 (ptc_vehicleType x), CStr (ptc_plateNo x), I32 (ptc_plateType x), I32 (ptc_plateColor x), I32 (ptc_vehicleColor x),
            I32 ptclistWidthConfid, I32 ptclistLengthConfid, I32 ptclistHeightConfid, I32 (ptc_ptcTypeExt x), I32 (ptc_ptcTypeExtConfid x),
            I32 (ptc_statusDuration x), I32 (ptc_tracking x), I64 (cx_camId cx), I32 regionId, I32 nodeId, I32 upstreamRegionId,
            I32 upstreamNodeId, I32 (ptc_timeConfidence x), CStr (cx_deviceId cx)] st) (\<lambda>st row.
       bind_run (on_part (ptc_polygon x) (\<lambda>p. poly_insert cx ptclistId (poly_pos p)) st) (\<lambda>st _.
       bind_run (pathHistory_insert cx ptclistId (ptc_pathHistory x) st) (\<lambda>st _.
       Fin st row)))))"

definition ptclist_insert :: "cam_ctx \<Rightarrow> ParticipantData list \<Rightarrow> ins \<Rightarrow> (ins, unit) run" where
  "ptclist_insert cx = insert_rows cx (ptclist_item cx)"

lemma ptclist_insert_good [good_intro]:
  "all_statements st \<Longrightarrow> good (\<lambda>_. True) (ptclist_insert cx xs st)"
  unfolding ptclist_insert_def ptclist_item_def
  by (rule good_insert_rows, assumption) (rule good_intro | assumption | simp add: ptclist_table)+

section \<open>Obstacles\<close>

text \<open>Table \<open>obstacle_data_position_3_d\<close>.\<close>

definition obspoly_header :: string where
  "obspoly_header =
     ''INSERT INTO `obstacle_data_position_3_d`(`id`,`split_id`,`lat`,`lon`,`ele`,`obstacle_data_id`)VALUES''"

definition obspoly_format :: string where
  "obspoly_format =
     ''(%lld,%d,%d,%d,%d,%lld),''"

lemma obspoly_table: "table_ok obspoly_header obspoly_format
    [KLong, KInt, KInt, KInt, KInt, KLong]"
  by (rule table_okI) (simp add: obspoly_header_def insert_into_def, simp add: obspoly_header_def, simp add: obspoly_format_def, code_simp)

lemma obspoly_balanced: "balanced obspoly_header obspoly_format"
  by (simp add: balanced_def obspoly_header_def obspoly_format_def)

definition obspoly_item :: "cam_ctx \<Rightarrow> 64 word \<Rightarrow> nat \<Rightarrow> Position3D \<Rightarrow> ins \<Rightarrow> (ins, string) run" where
  "obspoly_item cx obslistId j x st =
     (bind_run (next_id st) (\<lambda>st obspolyId.
       put_row 4096 j obspoly_header obspoly_format
           [I64 obspolyId, I32 (cx_splitId cx), I32 (p3_lat x), I32 (p3_lon x), I32 (p3_ele x), I64 obslistId] st))"

definition obspoly_insert :: "cam_ctx \<Rightarrow> 64 word \<Rightarrow> Position3D list \<Rightarrow> ins \<Rightarrow> (ins, unit) run" where
  "obspoly_insert cx obslistId = insert_rows cx (obspoly_item cx obslistId)"

lemma obspoly_insert_good [good_intro]:
  "all_statements st \<Longrightarrow> good (\<lambda>_. True) (obspoly_insert cx obslistId xs st)"
  unfolding obspoly_insert_def obspoly_item_def
  by (rule good_insert_rows, assumption) (rule good_intro | assumption | simp add: obspoly_table)+

text \<open>Table \<open>obstacle_data\<close>.\<close>

definition obslist_header :: string where
  "obslist_header =
     ''INSERT INTO `obstacle_data`(`id`,`split_id`,`obs_id`,`obs_type_cfd`,`timestamp`,''
     @ ''			`device_id_list`,`lat`,`lon`,`ele`,`node_region_id`,''
     @ ''			`node_id`,`link_name`,`upstream_node_region_id`,`upstream_node_node_id`,`section_id`,''
     @ ''			`lane_id`,`speed`,`heading`,`ver_speed`,`acceleration_lon`,''
     @ ''			`acceleration_lat`,`acceleration_vert`,`acceleration_yaw`,`width`,`length`,''
     @ ''			`height`,`tracking`,`obs_type_id`,`obs_source_id`,`pos_confid_id`,''
     @ ''			`ele_confid_id`,`speed_cfd_id`,`heading_cfd_id`,`steer_cfd_id`,`ver_speed_confid_id`,''
     @ ''			`width_confid_id`,`length_confid_id`,`height_confid_id`,`cam_data_id`)VALUES''"

definition obslist_format :: string where
  "obslist_format =
     ''(%lld,%d,%lld,%d,%lld,''
     @ ''		'%s',%d,%d,%d,%d,''
     @ ''		%d,'%s',%d,%d,%d,''
     @ ''		%d,%d,%d,%d,%d,''
     @ ''		%d,%d,%d,%d,%d,''
     @ ''		%d,%d,%d,%d,%d,''
     @ ''		%d,%d,%d,%d,%d,''
     @ ''		%d,%d,%d,%lld),''"

lemma obslist_table: "table_ok obslist_header obslist_format
    [KLong, KInt, KLong, KInt, KLong, KStr, KInt, KInt, KInt, KInt, KInt, KStr, KInt, KInt, KInt, KInt, KInt, KInt,
     KInt, KInt, KInt, KInt, KInt, KInt, KInt, KInt, KInt, KInt, KInt, KInt, KInt, KInt, KInt, KInt, KInt, KInt, KInt,
     KInt, KLong]"
  by (rule table_okI) (simp add: obslist_header_def insert_into_def, simp add: obslist_header_def, simp add: obslist_format_def, code_simp)

lemma obslist_balanced: "balanced obslist_header obslist_format"
  by (simp add: balanced_def obslist_header_def obslist_format_def)

definition obslist_item :: "cam_ctx \<Rightarrow> nat \<Rightarrow> ObstacleData \<Rightarrow> ins \<Rightarrow> (ins, string) run" where
  "obslist_item cx i x st =
     (bind_run (next_id st) (\<lambda>st obslistId.
       let obsLat = sub (obs_obsPos x) 0 p3_lat;
           obsLon = sub (obs_obsPos x) 0 p3_lon;
           obsEle = sub (obs_obsPos x) 0 p3_ele;
           obsPosconfid = sub (obs_posConfid x) 0 pcs_posConfid;
           obsEleconfid = sub (obs_posConfid x) 0 pcs_eleConfid;
           obsSectionId = sub (obs_mapLocation x) 0 loc_sectionId;
           obsLaneId = sub (obs_mapLocation x) 0 loc_laneId;
           obsLinkName = sub (obs_mapLocation x) '''' loc_linkName;
           obsRegionId = sub (obs_mapLocation x) 0 (\<lambda>loc. sub (loc_nodeId loc) 0 nri_region);
           obsNodeId = sub (obs_mapLocation x) 0 (\<lambda>loc. sub (loc_nodeId loc) 0 nri_nodeId);
           obsUpstreamRegionId = sub (obs_mapLocation x) 0 (\<lambda>loc. sub (loc_upstreamNodeId loc) 0 nri_region);
           obsUpstreamNodeId = sub (obs_mapLocation x) 0 (\<lambda>loc. sub (loc_upstreamNodeId loc) 0 nri_nodeId);
           obsSpeedCfd = sub (obs_motionConfid x) 0 mcs_speedCfd;
           obsHeadingCfd = sub (obs_motionConfid x) 0 mcs_headingCfd;
           obsSteerCfd = sub (obs_motionConfid x) 0 mcs_steerCfd;
           obsAcceLat = sub (obs_acceleration x) 0 as4w_lat;
           obsAcceLon = sub (obs_acceleration x) 0 as4w_lon;
           obsAcceVert = sub (obs_acceleration x) 0 as4w_vert;
           obsAcceYaw = sub (obs_acceleration x) 0 as4w_yaw;
           obsWidth = sub (obs_size x) 0 psz_width;
           obsLength = sub (obs_size x) 0 psz_length;
           obsHeight = sub (obs_size x) 0 psz_height;
           obsWidthConfid = sub (obs_obsSizeConfid x) 0 psc_widthConfid;
           obsLengthConfid = sub (obs_obsSizeConfid x) 0 psc_lengthConfid;
           obsHeightConfid = sub (obs_obsSizeConfid x) 0 psc_heightConfid
       in bind_run (put_row 40960 i obslist_header obslist_format
           [I64 obslistId, I32 (cx_splitId cx), I64 (obs_obsId x), I32 (obs_obsType x), I64 (obs_timestamp x), CStr (obs_deviceIdList x),
            I32 obsLat, I32 obsLon, I32 obsEle, I32 obsRegionId, I32 obsNodeId, CStr obsLinkName, I32 obsUpstreamRegionId,
            I32 obsUpstreamNodeId, I32 obsSectionId, I32 obsLaneId, I32 (obs_speed x), I32 (obs_heading x), I32 (obs_verSpeed x),
            I32 obsAcceLon, I32 obsAcceLat, I32 obsAcceVert, I32 obsAcceYaw, I32 obsWidth, I32 obsLength, I32 obsHeight,
            I32 (obs_tracking x), I32 (obs_obsType x), I32 (obs_obsSource x), I32 obsPosconfid, I32 obsEleconfid, I32 obsSpeedCfd,
            I32 obsHeadingCfd, I32 obsSteerCfd, I32 (obs_verSpeedConfid x), I32 obsWidthConfid, I32 obsLengthConfid, I32 obsHeightConfid,
            I64 (cx_camId cx)] st) (\<lambda>st row.
       bind_run (on_part (obs_polygon x) (\<lambda>p. obspoly_insert cx obslistId (poly_pos p)) st) (\<lambda>st _.
       Fin st row))))"

definition obslist_insert :: "cam_ctx \<Rightarrow> ObstacleData list \<Rightarrow> ins \<Rightarrow> (ins, unit) run" where
  "obslist_insert cx = insert_rows cx (obslist_item cx)"

lemma obslist_insert_good [good_intro]:
  "all_statements st \<Longrightarrow> good (\<lambda>_. True) (obslist_insert cx xs st)"
  unfolding obslist_insert_def obslist_item_def
  by (rule good_insert_rows, assumption) (rule good_intro | assumption | simp add: obslist_table)+

section \<open>Detected regions\<close>

text \<open>Table \<open>cam_data_polygon_position_3_d\<close>.\<close>

definition camPolygonPos_header :: string where
  "camPolygonPos_header =
     ''INSERT INTO `cam_data_polygon_position_3_d`''
     @ ''				(`id`,`split_id`,`lon`,`lat`,`ele`,`cam_data_polygon_id`)VALUES''"

definition camPolygonPos_format :: string where
  "camPolygonPos_format =
     ''(%lld,%d,%d,%d,%d,%lld),''"

lemma camPolygonPos_table: "table_ok camPolygonPos_header camPolygonPos_format
    [KLong, KInt, KInt, KInt, KInt, KLong]"
  by (rule table_okI) (simp add: camPolygonPos_header_def insert_into_def, simp add: camPolygonPos_header_def, simp add: camPolygonPos_format_def, code_simp)

lemma camPolygonPos_balanced: "balanced camPolygonPos_header camPolygonPos_format"
  by (simp add: balanced_def camPolygonPos_header_def camPolygonPos_format_def)

definition camPolygonPos_item :: "cam_ctx \<Rightarrow> 64 word \<Rightarrow> nat \<Rightarrow> Position3D \<Rightarrow> ins \<Rightarrow> (ins, string) run" where
  "camPolygonPos_item cx camPolygonId j x st =
     (bind_run (next_id st) (\<lambda>st camPolygonPosId.
       let camPolygonPosLon = p3_lon x;
           camPolygonPosLat = p3_lat x;
           camPolygonPosEle = p3_ele x
       in put_row 10240 j camPolygonPos_header camPolygonPos_format
           [I64 camPolygonPosId, I32 (cx_splitId cx), I32 camPolygonPosLon, I32 camPolygonPosLat, I32 camPolygonPosEle, I64 camPolygonId] st))"

definition camPolygonPos_insert :: "cam_ctx \<Rightarrow> 64 word \<Rightarrow> Position3D list \<Rightarrow> ins \<Rightarrow> (ins, unit) run" where
  "camPolygonPos_insert cx camPolygonId = insert_rows cx (camPolygonPos_item cx camPolygonId)"

lemma camPolygonPos_insert_good [good_intro]:
  "all_statements st \<Longrightarrow> good (\<lambda>_. True) (camPolygonPos_insert cx camPolygonId xs st)"
  unfolding camPolygonPos_insert_def camPolygonPos_item_def
  by (rule good_insert_rows, assumption) (rule good_intro | assumption | simp add: camPolygonPos_table)+

text \<open>Table \<open>cam_data_polygon\<close>.\<close>

definition camPolygon_header :: string where
  "camPolygon_header =
     ''INSERT INTO `cam_data_polygon`''
     @ ''			(`id`,`split_id`,`cam_data_id`)VALUES''"

definition camPolygon_format :: string where
  "camPolygon_format =
     ''(%lld,%d,%lld),''"

lemma camPolygon_table: "table_ok camPolygon_header camPolygon_format
    [KLong, KInt, KLong]"
  by (rule table_okI) (simp add: camPolygon_header_def insert_into_def, simp add: camPolygon_header_def, simp add: camPolygon_format_def, code_simp)

lemma camPolygon_balanced: "balanced camPolygon_header camPolygon_format"
  by (simp add: balanced_def camPolygon_header_def camPolygon_format_def)

definition camPolygon_item :: "cam_ctx \<Rightarrow> nat \<Rightarrow> Polygon \<Rightarrow> ins \<Rightarrow> (ins, string) run" where
  "camPolygon_item cx i x st =
     (bind_run (next_id st) (\<lambda>st camPolygonId.
       bind_run (put_row 10240 i camPolygon_header camPolygon_format
           [I64 camPolygonId, I32 (cx_splitId cx), I64 (cx_camId cx)] st) (\<lambda>st row.
       bind_run (camPolygonPos_insert cx camPolygonId (poly_pos x) st) (\<lambda>st _.
       Fin st row))))"

definition camPolygon_insert :: "cam_ctx \<Rightarrow> Polygon list \<Rightarrow> ins \<Rightarrow> (ins, unit) run" where
  "camPolygon_insert cx = insert_rows cx (camPolygon_item cx)"

lemma camPolygon_insert_good [good_intro]:
  "all_statements st \<Longrightarrow> good (\<lambda>_. True) (camPolygon_insert cx xs st)"
  unfolding camPolygon_insert_def camPolygon_item_def
  by (rule good_insert_rows, assumption) (rule good_intro | assumption | simp add: camPolygon_table)+

section \<open>Basic safety messages\<close>

text \<open>Table \<open>bsm_data\<close>.\<close>

definition bsm_header :: string where
  "bsm_header =
     ''INSERT INTO `bsm_data`''
     @ ''			(`id`,`split_id`,`obu_id`,`plate_no`,`timestamp`,''
     @ ''			`lat`,`lon`,`ele`,`semi_major`,`semi_minor`,''
     @ ''			`orientation`,`acceleration_lon`,`acceleration_lat`,`acceleration_vert`,`acceleration_yaw`,''
     @ ''			`speed`,`heading`,`steering_wheel_angle`,`wheel_brakes`,`brake_control`,''
     @ ''			`throttle_control`,`wheel_throttles`,`width`,`length`,`height`,''
     @ ''			`light`,`endurance`,`pos_confid_id`,`ele_confid_id`,`transmission_id`,''
     @ ''			`speed_cfd_id`,`heading_cfd_id`,`steer_cfd_id`,`brake_padel_id`,`traction_id`,''
     @ ''			`abs_id`,`scs_id`,`brake_boost_id`,`aux_brakes_id`,`throttle_padel_id`,''
     @ ''			`vehicle_type_id`,`fuel_type_id`,`drive_modedrive_status_id`,`emergency_status_id`,`wiper_id`,''
     @ ''			`outof_control_id`,`cam_data_id`)VALUES''"

definition bsm_format :: string where
  "bsm_format =
     ''(%lld,%d,'%s','%s',%lld,''
     @ ''        %d,%d,%d,%d,%d,''
     @ ''        %d,%d,%d,%d,%d,''
     @ ''        %d,%d,%d,%d,%d,''
     @ ''        %d,%d,%d,%d,%d,''
     @ ''        %d,%d,%d,%d,%d,''
     @ ''        %d,%d,%d,%d,%d,''
     @ ''        %d,%d,%d,%d %d,''
     @ ''        %d,%d,%d,%d,%d,%d,%lld),''"

lemma bsm_table: "table_ok bsm_header bsm_format
    [KLong, KInt, KStr, KStr, KLong, KInt, KInt, KInt, KInt, KInt, KInt, KInt, KInt, KInt, KInt, KInt, KInt, KInt, KInt,
     KInt, KInt, KInt, KInt, KInt, KInt, KInt, KInt, KInt, KInt, KInt, KInt, KInt, KInt, KInt, KInt, KInt, KInt, KInt,
     KInt, KInt, KInt, KInt, KInt, KInt, KInt, KInt, KLong]"
  by (rule table_okI) (simp add: bsm_header_def insert_into_def, simp add: bsm_header_def, simp add: bsm_format_def, code_simp)

definition bsm_item :: "cam_ctx \<Rightarrow> nat \<Rightarrow> BsmData \<Rightarrow> ins \<Rightarrow> (ins, string) run" where
  "bsm_item cx i x st =
     (bind_run (next_id st) (\<lambda>st bsmId.
       let obuId = bsm_obuId x;
           plateNo = bsm_plateNo x;
           bsmTimestamp = bsm_timestamp x;
           bsmLon = sub (bsm_pos x) 0 p3_lon;
           bsmLat = sub (bsm_pos x) 0 p3_lat;
           bsmEle = sub (bsm_pos x) 0 p3_ele;
           bsmPosConfidId = sub (bsm_posConfid x) 0 pcs_posConfid;
           bsmEleConfidId = sub (bsm_posConfid x) 0 pcs_eleConfid;
           semiMajor = sub (bsm_posAccuracy x) 0 pacc_semiMajor;
           semiMinor = sub (bsm_posAccuracy x) 0 pacc_semiMinor;
           orientation = sub (bsm_posAccuracy x) 0 pacc_orientation;
           bsmAccelerationLon = sub (bsm_acceleration x) 0 as4w_lon;
           bsmAccelerationLat = sub (bsm_acceleration x) 0 as4w_lat;
           bsmAccelerationVert = sub (bsm_acceleration x) 0 as4w_vert;
           bsmAccelerationYaw = sub (bsm_acceleration x) 0 as4w_yaw;
           transmission = bsm_transmission x;
           bsmSpeed = bsm_speed x;
           bsmHeading = bsm_heading x;
           steeringWheelAngle = bsm_steeringWheelAngle x;
           bsmSpeedCfd = sub (bsm_motionConfid x) 0 mcs_speedCfd;
           bsmHeadingCfd = sub (bsm_motionConfid x) 0 mcs_headingCfd;
           bsmSteerCfd = sub (bsm_motionConfid x) 0 mcs_steerCfd;
           brakePadel = sub (bsm_brakes x) 0 brk_brakePadel;
           wheelBrakes = sub (bsm_brakes x) 0 brk_wheelBrakes;
           traction = sub (bsm_brakes x) 0 brk_traction;
           abs = sub (bsm_brakes x) 0 brk_abs;
           scs = sub (bsm_brakes x) 0 brk_scs;
           brakeBoost = sub (bsm_brakes x) 0 brk_brakeBoost;
           auxBrakes = sub (bsm_brakes x) 0 brk_auxBrakes;
           brakeControl = sub (bsm_brakes x) 0 brk_brakeControl;
           throttleControl = sub (bsm_throttle x) 0 thr_thorttleControl;
           throttlePadel = sub (bsm_throttle x) 0 thr_throttlePadel;
           wheelThrottles = sub (bsm_throttle x) 0 thr_wheelThrottles;
           bsmVehicleSizeWidth = sub (bsm_size x) 0 vs_width;
           bsmVehicleSizeLength = sub (bsm_size x) 0 vs_length;
           bsmVehicleSizeHeight = sub (bsm_size x) 0 vs_height;
           bsmVehicleType = bsm_vehicleType x;
           bsmFuelType = bsm_fuelType x;
           driveModedriveStatus = bsm_driveModedriveStatus x;
           emergencyStatus = bsm_emergencyStatus x;
           bsmLight = bsm_light x;
           bsmWiper = bsm_wiper x;
           bsmOutofControl = bsm_outofControl x;
           bsmEndurance = bsm_endurance x
       in put_row 10240 i bsm_header bsm_format
           [I64 bsmId, I32 (cx_splitId cx), CStr obuId, CStr plateNo, I64 bsmTimestamp, I32 bsmLat, I32 bsmLon, I32 bsmEle, I32 semiMajor,
            I32 semiMinor, I32 orientation, I32 bsmAccelerationLon, I32 bsmAccelerationLat, I32 bsmAccelerationVert, I32 bsmAccelerationYaw,
            I32 bsmSpeed, I32 bsmHeading, I32 steeringWheelAngle, I32 wheelBrakes, I32 brakeControl, I32 throttleControl,
            I32 wheelThrottles, I32 bsmVehicleSizeWidth, I32 bsmVehicleSizeLength, I32 bsmVehicleSizeHeight, I32 bsmLight, I32 bsmEndurance,
            I32 bsmPosConfidId, I32 bsmEleConfidId, I32 transmission, I32 bsmSpeedCfd, I32 bsmHeadingCfd, I32 bsmSteerCfd, I32 brakePadel,
            I32 traction, I32 abs, I32 scs, I32 brakeBoost, I32 auxBrakes, I32 throttlePadel, I32 bsmVehicleType, I32 bsmFuelType,
            I32 driveModedriveStatus, I32 emergencyStatus, I32 bsmWiper, I32 bsmOutofControl, I64 (cx_camId cx)] st))"

definition bsm_insert :: "cam_ctx \<Rightarrow> BsmData list \<Rightarrow> ins \<Rightarrow> (ins, unit) run" where
  "bsm_insert cx = insert_rows cx (bsm_item cx)"

lemma bsm_insert_good [good_intro]:
  "all_statements st \<Longrightarrow> good (\<lambda>_. True) (bsm_insert cx xs st)"
  unfolding bsm_insert_def bsm_item_def
  by (rule good_insert_rows, assumption) (rule good_intro | assumption | simp add: bsm_table)+

end
