(* ===== verification/CamEvents.thy ===== *)
theory CamEvents
  imports CamSql CamMessages
begin

text \<open>
  What \<open>camInsert\<close> stores of the traffic events and signs of a message, with their reference paths and links. The
  links' downstream nodes are read when the link has an upstream node.
\<close>

section \<open>Traffic events\<close>

text \<open>Events and signs that an operator or the cloud has sent are skipped.\<close>

definition manual :: "32 word \<Rightarrow> bool" where
  "manual s \<longleftrightarrow> s = 9 \<or> s = 12"

text \<open>Table \<open>rte_data_reference_path_position_3_d\<close>.\<close>

definition activepath_header :: string where
  "activepath_header =
     ''INSERT INTO `rte_data_reference_path_position_3_d`''
     @ ''					(`id`,`split_id`,`lon`,`lat`,`ele`,`rte_data_reference_path_id`)VALUES''"

definition activepath_format :: string where
  "activepath_format =
     ''(%lld,%d,%d,%d,%d,%lld),''"

lemma activepath_table: "table_ok activepath_header activepath_format
    [KLong, KInt, KInt, KInt, KInt, KLong]"
  by (rule table_okI) (simp add: activepath_header_def insert_into_def, simp add: activepath_header_def, simp add: activepath_format_def, code_simp)

lemma activepath_balanced: "balanced activepath_header activepath_format"
  by (simp add: balanced_def activepath_header_def activepath_format_def)

definition activepath_item :: "cam_ctx \<Rightarrow> 64 word \<Rightarrow> nat \<Rightarrow> Position3D \<Rightarrow> ins \<Rightarrow> (ins, string) run" where
  "activepath_item cx rteReferencePathId k x st =
     (bind_run (next_id st) (\<lambda>st activepathId.
       let activepathLon = p3_lon x;
           activepathLat = p3_lat x;
           activepathEle = p3_ele x
       in put_row 10240 k activepath_header activepath_format
           [I64 activepathId, I32 (cx_splitId cx), I32 activepathLon, I32 activepathLat, I32 activepathEle, I64 rteReferencePathId] st))"

definition activepath_insert :: "cam_ctx \<Rightarrow> 64 word \<Rightarrow> Position3D list \<Rightarrow> ins \<Rightarrow> (ins, unit) run" where
  "activepath_insert cx rteReferencePathId = insert_rows cx (activepath_item cx rteReferencePathId)"

lemma activepath_insert_good [good_intro]:
  "all_statements st \<Longrightarrow> good (\<lambda>_. True) (activepath_insert cx rteReferencePathId xs st)"
  unfolding activepath_insert_def activepath_item_def
  by (rule good_insert_rows, assumption) (rule good_intro | assumption | simp add: activepath_table)+

text \<open>Table \<open>rte_data_reference_path\<close>.\<close>

definition rteReferencePath_header :: string where
  "rteReferencePath_header =
     ''INSERT INTO `rte_data_reference_path` ''
     @ ''				(`id`,`split_id`,`path_radius`,`rte_data_id`,`forward_rte_data_id`)VALUES''"

definition rteReferencePath_format :: string where
  "rteReferencePath_format =
     ''(%lld,%d,%d,%lld,%lld),''"

lemma rteReferencePath_table: "table_ok rteReferencePath_header rteReferencePath_format
    [KLong, KInt, KInt, KLong, KLong]"
  by (rule table_okI) (simp add: rteReferencePath_header_def insert_into_def, simp add: rteReferencePath_header_def, simp add: rteReferencePath_format_def, code_simp)

lemma rteReferencePath_balanced: "balanced rteReferencePath_header rteReferencePath_format"
  by (simp add: balanced_def rteReferencePath_header_def rteReferencePath_format_def)

definition rteReferencePath_item :: "cam_ctx \<Rightarrow> 64 word \<Rightarrow> 64 word \<Rightarrow> nat \<Rightarrow> ReferencePath \<Rightarrow> ins \<Rightarrow> (ins, string) run" where
  "rteReferencePath_item cx rteDataId forwardRteDataId j x st =
     (bind_run (next_id st) (\<lambda>st rteReferencePathId.
       let pathRadius = rp_pathRadius x
       in bind_run (put_row 10240 j rteReferencePath_header rteReferencePath_format
           [I64 rteReferencePathId, I32 (cx_splitId cx), I32 pathRadius, I64 rteDataId, I64 forwardRteDataId] st) (\<lambda>st row.
       bind_run (activepath_insert cx rteReferencePathId (rp_activePath x) st) (\<lambda>st _.
       Fin st row))))"

definition rteReferencePath_insert :: "cam_ctx \<Rightarrow> 64 word \<Rightarrow> 64 word \<Rightarrow> ReferencePath list \<Rightarrow> ins \<Rightarrow> (ins, unit) run" where
  "rteReferencePath_insert cx rteDataId forwardRteDataId = insert_rows cx (rteReferencePath_item cx rteDataId forwardRteDataId)"

lemma rteReferencePath_insert_good [good_intro]:
  "all_statements st \<Longrightarrow> good (\<lambda>_. True) (rteReferencePath_insert cx rteDataId forwardRteDataId xs st)"
  unfolding rteReferencePath_insert_def rteReferencePath_item_def
  by (rule good_insert_rows, assumption) (rule good_intro | assumption | simp add: rteReferencePath_table)+

text \<open>Table \<open>rte_data_reference_link\<close>.\<close>

definition rteReferenceLink_header :: string where
  "rteReferenceLink_header =
     ''INSERT INTO `rte_data_reference_link`''
     @ ''				(`id`,`split_id`,`upstream_node_region_id`,`upstream_node_id`,`downstream_node_region_id`,''
     @ ''				`downstream_node_id`,`reference_lanes`,`rte_data_id`,`forward_rte_data_id`)VALUES''"

definition rteReferenceLink_format :: string where
  "rteReferenceLink_format =
     ''(%lld,%d,%d,%d,%d,%d,%d,%lld,%lld),''"

lemma rteReferenceLink_table: "table_ok rteReferenceLink_header rteReferenceLink_format
    [KLong, KInt, KInt, KInt, KInt, KInt, KInt, KLong, KLong]"
  by (rule table_okI) (simp add: rteReferenceLink_header_def insert_into_def, simp add: rteReferenceLink_header_def, simp add: rteReferenceLink_format_def, code_simp)

lemma rteReferenceLink_balanced: "balanced rteReferenceLink_header rteReferenceLink_format"
  by (simp add: balanced_def rteReferenceLink_header_def rteReferenceLink_format_def)

definition rteReferenceLink_item :: "cam_ctx \<Rightarrow> 64 word \<Rightarrow> 64 word \<Rightarrow> nat \<Rightarrow> ReferenceLink \<Rightarrow> ins \<Rightarrow> (ins, string) run" where
  "rteReferenceLink_item cx rteDataId forwardRteDataId j x st =
     (bind_run (next_id st) (\<lambda>st rteReferenceLinkId.
       let upstreamNodeRegionId = sub (rlk_upstreamNodeId x) 0 nri_region;
           upstreamNodeId = sub (rlk_upstreamNodeId x) 0 nri_nodeId;
           downstreamNodeRegionId = sub (rlk_upstreamNodeId x) 0 (\<lambda>u. sub (rlk_downstreamNodeId x) 0 nri_region);
           downstreamNodeId = sub (rlk_upstreamNodeId x) 0 (\<lambda>u. sub (rlk_downstreamNodeId x) 0 nri_nodeId);
           referenceLanes = sub (rlk_referenceLanes x) 0 rl_referenceLanes
       in put_row 10240 j rteReferenceLink_header rteReferenceLink_format
           [I64 rteReferenceLinkId, I32 (cx_splitId cx), I32 upstreamNodeRegionId, I32 upstreamNodeId, I32 downstreamNodeRegionId,
            I32 downstreamNodeId, I32 referenceLanes, I64 rteDataId, I64 forwardRteDataId] st))"

definition rteReferenceLink_insert :: "cam_ctx \<Rightarrow> 64 word \<Rightarrow> 64 word \<Rightarrow> ReferenceLink list \<Rightarrow> ins \<Rightarrow> (ins, unit) run" where
  "rteReferenceLink_insert cx rteDataId forwardRteDataId = insert_rows cx (rteReferenceLink_item cx rteDataId forwardRteDataId)"

lemma rteReferenceLink_insert_good [good_intro]:
  "all_statements st \<Longrightarrow> good (\<lambda>_. True) (rteReferenceLink_insert cx rteDataId forwardRteDataId xs st)"
  unfolding rteReferenceLink_insert_def rteReferenceLink_item_def
  by (rule good_insert_rows, assumption) (rule good_intro | assumption | simp add: rteReferenceLink_table)+

text \<open>Table \<open>obj_id_value\<close>.\<close>

definition eventObjId_header :: string where
  "eventObjId_header =
     ''INSERT INTO `obj_id_value`''
     @ ''				(`id`,`split_id`,`ptc_id`,`obs_id`,`role_id`,''
     @ ''				`rte_data_id`,`forward_rte_data_id`VALUES''"

definition eventObjId_format :: string where
  "eventObjId_format =
     ''(%lld,%d,%lld,%lld,%d,%lld,%lld),''"

lemma eventObjId_table: "table_ok eventObjId_header eventObjId_format
    [KLong, KInt, KLong, KLong, KInt, KLong, KLong]"
  by (rule table_okI) (simp add: eventObjId_header_def insert_into_def, simp add: eventObjId_header_def, simp add: eventObjId_format_def, code_simp)

definition eventObjId_item :: "cam_ctx \<Rightarrow> 64 word \<Rightarrow> 64 word \<Rightarrow> nat \<Rightarrow> ObjIdValue \<Rightarrow> ins \<Rightarrow> (ins, string) run" where
  "eventObjId_item cx rteDataId forwardRteDataId j x st =
     (bind_run (next_id st) (\<lambda>st eventObjIdId.
       let ptcId = oiv_ptcId x;
           obsId = oiv_obsId x;
           roleId = oiv_role x
       in put_row 10240 j eventObjId_header eventObjId_format
           [I64 eventObjIdId, I32 (cx_splitId cx), I64 ptcId, I64 obsId, I32 roleId, I64 rteDataId, I64 forwardRteDataId] st))"

definition eventObjId_insert :: "cam_ctx \<Rightarrow> 64 word \<Rightarrow> 64 word \<Rightarrow> ObjIdValue list \<Rightarrow> ins \<Rightarrow> (ins, unit) run" where
  "eventObjId_insert cx rteDataId forwardRteDataId = insert_rows cx (eventObjId_item cx rteDataId forwardRteDataId)"

lemma eventObjId_insert_good [good_intro]:
  "all_statements st \<Longrightarrow> good (\<lambda>_. True) (eventObjId_insert cx rteDataId forwardRteDataId xs st)"
  unfolding eventObjId_insert_def eventObjId_item_def
  by (rule good_insert_rows, assumption) (rule good_intro | assumption | simp add: eventObjId_table)+

text \<open>Table \<open>rte_data\<close>.\<close>

definition rte_header :: string where
  "rte_header =
     ''INSERT INTO `rte_data` (`id`,`split_id`,`rte_id`,`rte_type`,`description`,''
     @ ''			`device_id_list`,`lat`,`lon`,`ele`,`node_region_id`,''
     @ ''			`node_id`,`link_name`,`upstream_node_region_id`,`upstream_node_node_id`,`section_id`,''
     @ ''			`lane_id`,`event_radius`,`start_time`,`end_time`,`priority`,''
     @ ''			`event_confid`,`event_images`,`event_videos`,`event_source_id`,`data_source_id`,''
     @ ''			`end_time_confidence_id`,`cam_data_id`,`device_id`)VALUES''"

definition rte_format :: string where
  "rte_format =
     ''(%lld,%d,%d,%d,'%s',''
     @ ''		'%s',%d,%d,%d,%d,''
     @ ''		%d,'%s',%d,%d,%d,''
     @ ''		%d,%d,%lld,%lld,'%s',''
     @ ''		%d,'%s','%s',%d,%d,''
     @ ''		%d,%lld,'%s'),''"

lemma rte_table: "table_ok rte_header rte_format
    [KLong, KInt, KInt, KInt, KStr, KStr, KInt, KInt, KInt, KInt, KInt, KStr, KInt, KInt, KInt, KInt, KInt, KLong,
     KLong, KStr, KInt, KStr, KStr, KInt, KInt, KInt, KLong, KStr]"
  by (rule table_okI) (simp add: rte_header_def insert_into_def, simp add: rte_header_def, simp add: rte_format_def, code_simp)

lemma rte_balanced: "balanced rte_header rte_format"
  by (simp add: balanced_def rte_header_def rte_format_def)

definition rte_item :: "cam_ctx \<Rightarrow> nat \<Rightarrow> RteData \<Rightarrow> ins \<Rightarrow> (ins, string) run" where
  "rte_item cx i x st =
     (if manual (rte_dataSource x) then Fin st [] else
     bind_run (own_id (rte_id x) st) (\<lambda>st rteDataId.
       let rteId = rte_rteId x;
           rteType = rte_rteType x;
           description = rte_description x;
           deviceIdList = rte_deviceIdList x;
           lon = sub (rte_rtePos x) 0 p3_lon;
           lat = sub (rte_rtePos x) 0 p3_lat;
           ele = sub (rte_rtePos x) 0 p3_ele;
           nodeRegionId = sub (rte_mapLocation x) 0 (\<lambda>loc. sub (loc_nodeId loc) 0 nri_region);
           nodeId = sub (rte_mapLocation x) 0 (\<lambda>loc. sub (loc_nodeId loc) 0 nri_nodeId);
           linkName = sub (rte_mapLocation x) '''' loc_linkName;
           upstreamNodeRegionId = sub (rte_mapLocation x) 0 (\<lambda>loc. sub (loc_upstreamNodeId loc) 0 nri_region);
           upstreamNodeNodeId = sub (rte_mapLocation x) 0 (\<lambda>loc. sub (loc_upstreamNodeId loc) 0 nri_nodeId);
           sectionId = sub (rte_mapLocation x) 0 loc_sectionId;
           laneId = sub (rte_mapLocation x) 0 loc_laneId;
           eventRadius = rte_eventRadius x;
           startTime = sub (rte_timeDetails x) 0 rtd_startTime;
           endTime = sub (rte_timeDetails x) 0 rtd_endTime;
           endTimeConfidenceId = sub (rte_timeDetails x) 0 rtd_endTimeConfidence;
           priority = rte_priority x;
           eventConfid = rte_eventConfid x;
           eventImages = rte_eventImages x;
           eventVideos = rte_eventVideos x;
           eventSourceId = rte_eventSource x;
           dataSourceId = rte_dataSource x
       in bind_run (put_row 10240 i rte_header rte_format
           [I64 rteDataId, I32 (cx_splitId cx), I32 rteId, I32 rteType, CStr description, CStr deviceIdList, I32 lat, I32 lon, I32 ele,
            I32 nodeRegionId, I32 nodeId, CStr linkName, I32 upstreamNodeRegionId, I32 upstreamNodeNodeId, I32 sectionId, I32 laneId,
            I32 eventRadius, I64 startTime, I64 endTime, CStr priority, I32 eventConfid, CStr eventImages, CStr eventVideos,
            I32 eventSourceId, I32 dataSourceId, I32 endTimeConfidenceId, I64 (cx_camId cx), CStr (cx_deviceId cx)] st) (\<lambda>st row.
       bind_run (next_id st) (\<lambda>st forwardRteDataId.
       bind_run (rteReferencePath_insert cx rteDataId forwardRteDataId (rte_referencePath x) st) (\<lambda>st _.
       bind_run (rteReferenceLink_insert cx rteDataId forwardRteDataId (rte_referenceLinks x) st) (\<lambda>st _.
       bind_run (eventObjId_insert cx rteDataId forwardRteDataId (rte_eventObjId x) st) (\<lambda>st _.
       Fin st row)))))))"

definition rte_insert :: "cam_ctx \<Rightarrow> RteData list \<Rightarrow> ins \<Rightarrow> (ins, unit) run" where
  "rte_insert cx = insert_rows cx (rte_item cx)"

lemma rte_insert_good [good_intro]:
  "all_statements st \<Longrightarrow> \<forall>x \<in> set xs. \<not> manual (rte_dataSource x) \<Longrightarrow>
    good (\<lambda>_. True) (rte_insert cx xs st)"
  unfolding rte_insert_def rte_item_def
  by (rule good_insert_rows, assumption, rule good_else, blast) (rule good_intro | assumption | simp add: rte_table)+

section \<open>Traffic signs\<close>

text \<open>
  The points of a sign's path are not read from the sign but from the event with the same indices; there may be none.
\<close>

definition rts_point :: "RteData list \<Rightarrow> nat \<Rightarrow> nat \<Rightarrow> nat \<Rightarrow> Position3D option" where
  "rts_point rtes i j k =
     (if i < length rtes \<and> j < length (rte_referencePath (rtes ! i)) \<and>
         k < length (rp_activePath (rte_referencePath (rtes ! i) ! j))
      then Some (rp_activePath (rte_referencePath (rtes ! i) ! j) ! k) else None)"

text \<open>Table \<open>rts_data_reference_path_position_3_d\<close>.\<close>

definition rtsActivepath_header :: string where
  "rtsActivepath_header =
     ''INSERT INTO `rts_data_reference_path_position_3_d`''
     @ ''					(`id`,`split_id`,`lon`,`lat`,`ele`,`rts_data_reference_path_id`)VALUES''"

definition rtsActivepath_format :: string where
  "rtsActivepath_format =
     ''(%lld,%d,%d,%d,%d,%lld),''"

lemma rtsActivepath_table: "table_ok rtsActivepath_header rtsActivepath_format
    [KLong, KInt, KInt, KInt, KInt, KLong]"
  by (rule table_okI) (simp add: rtsActivepath_header_def insert_into_def, simp add: rtsActivepath_header_def, simp add: rtsActivepath_format_def, code_simp)

lemma rtsActivepath_balanced: "balanced rtsActivepath_header rtsActivepath_format"
  by (simp add: balanced_def rtsActivepath_header_def rtsActivepath_format_def)

definition rtsActivepath_item :: "cam_ctx \<Rightarrow> 64 word \<Rightarrow> RteData list \<Rightarrow> nat \<Rightarrow> nat \<Rightarrow> nat \<Rightarrow> Position3D \<Rightarrow> ins \<Rightarrow> (ins, string) run" where
  "rtsActivepath_item cx rtsReferencePathId rtes i j k x st =
     (bind_run (next_id st) (\<lambda>st activepathId.
       case rts_point rtes i j k of None \<Rightarrow> Crash ''index into rtelist''
       | Some p \<Rightarrow>
       let activepathLon = p3_lon p;
           activepathLat = p3_lat p;
           activepathEle = p3_ele p
       in put_row 10240 k rtsActivepath_header rtsActivepath_format
           [I64 activepathId, I32 (cx_splitId cx), I32 activepathLon, I32 activepathLat, I32 activepathEle, I64 rtsReferencePathId] st))"

definition rtsActivepath_insert :: "cam_ctx \<Rightarrow> 64 word \<Rightarrow> RteData list \<Rightarrow> nat \<Rightarrow> nat \<Rightarrow> Position3D list \<Rightarrow> ins \<Rightarrow> (ins, unit) run" where
  "rtsActivepath_insert cx rtsReferencePathId rtes i j = insert_rows cx (rtsActivepath_item cx rtsReferencePathId rtes i j)"

lemma rtsActivepath_insert_good [good_intro]:
  "all_statements st \<Longrightarrow> good (\<lambda>_. True) (rtsActivepath_insert cx rtsReferencePathId rtes i j xs st)"
  unfolding rtsActivepath_insert_def rtsActivepath_item_def
  by (rule good_insert_rows, assumption) (rule good_intro good_option | simp add: mismatch_def; fail | assumption | simp add: rtsActivepath_table)+

text \<open>Table \<open>rts_data_reference_path\<close>.\<close>

definition rtsReferencePath_header :: string where
  "rtsReferencePath_header =
     ''INSERT INTO `rts_data_reference_path`''
     @ ''				(`id`,`split_id`,`path_radius`,`rts_data_id`,`forward_rts_data_id`)VALUES''"

definition rtsReferencePath_format :: string where
  "rtsReferencePath_format =
     ''(%lld,%d,%d,%lld,%lld),''"

lemma rtsReferencePath_table: "table_ok rtsReferencePath_header rtsReferencePath_format
    [KLong, KInt, KInt, KLong, KLong]"
  by (rule table_okI) (simp add: rtsReferencePath_header_def insert_into_def, simp add: rtsReferencePath_header_def, simp add: rtsReferencePath_format_def, code_simp)

lemma rtsReferencePath_balanced: "balanced rtsReferencePath_header rtsReferencePath_format"
  by (simp add: balanced_def rtsReferencePath_header_def rtsReferencePath_format_def)

definition rtsReferencePath_item :: "cam_ctx \<Rightarrow> 64 word \<Rightarrow> 64 word \<Rightarrow> RteData list \<Rightarrow> nat \<Rightarrow> nat \<Rightarrow> ReferencePath \<Rightarrow> ins \<Rightarrow> (ins, string) run" where
  "rtsReferencePath_item cx rtsDataId forwardRtsDataId rtes i j x st =
     (bind_run (next_id st) (\<lambda>st rtsReferencePathId.
       let pathRadius = rp_pathRadius x
       in bind_run (put_row 10240 j rtsReferencePath_header rtsReferencePath_format
           [I64 rtsReferencePathId, I32 (cx_splitId cx), I32 pathRadius, I64 rtsDataId, I64 forwardRtsDataId] st) (\<lambda>st row.
       bind_run (rtsActivepath_insert cx rtsReferencePathId rtes i j (rp_activePath x) st) (\<lambda>st _.
       Fin st row))))"

definition rtsReferencePath_insert :: "cam_ctx \<Rightarrow> 64 word \<Rightarrow> 64 word \<Rightarrow> RteData list \<Rightarrow> nat \<Rightarrow> ReferencePath list \<Rightarrow> ins \<Rightarrow> (ins, unit) run" where
  "rtsReferencePath_insert cx rtsDataId forwardRtsDataId rtes i = insert_rows cx (rtsReferencePath_item cx rtsDataId forwardRtsDataId rtes i)"

lemma rtsReferencePath_insert_good [good_intro]:
  "all_statements st \<Longrightarrow> good (\<lambda>_. True) (rtsReferencePath_insert cx rtsDataId forwardRtsDataId rtes i xs st)"
  unfolding rtsReferencePath_insert_def rtsReferencePath_item_def
  by (rule good_insert_rows, assumption) (rule good_intro | assumption | simp add: rtsReferencePath_table)+

text \<open>Table \<open>rts_data_reference_link\<close>.\<close>

definition rtsReferenceLink_header :: string where
  "rtsReferenceLink_header =
     ''INSERT INTO `rts_data_reference_link`''
     @ ''				(`id`,`split_id`,`upstream_node_region_id`,`upstream_node_id`,`downstream_node_region_id`,''
     @ ''				`downstream_node_id`,`reference_lanes`,`rts_data_id`,`forward_rts_data_id`)VALUES''"

definition rtsReferenceLink_format :: string where
  "rtsReferenceLink_format =
     ''(%lld,%d,%d,%d,%d,%d,%d,%lld,%lld),''"

lemma rtsReferenceLink_table: "table_ok rtsReferenceLink_header rtsReferenceLink_format
    [KLong, KInt, KInt, KInt, KInt, KInt, KInt, KLong, KLong]"
  by (rule table_okI) (simp add: rtsReferenceLink_header_def insert_into_def, simp add: rtsReferenceLink_header_def, simp add: rtsReferenceLink_format_def, code_simp)

lemma rtsReferenceLink_balanced: "balanced rtsReferenceLink_header rtsReferenceLink_format"
  by (simp add: balanced_def rtsReferenceLink_header_def rtsReferenceLink_format_def)

definition rtsReferenceLink_item :: "cam_ctx \<Rightarrow> 64 word \<Rightarrow> 64 word \<Rightarrow> nat \<Rightarrow> ReferenceLink \<Rightarrow> ins \<Rightarrow> (ins, string) run" where
  "rtsReferenceLink_item cx rtsDataId forwardRtsDataId j x st =
     (bind_run (next_id st) (\<lambda>st rtsReferenceLinkId.
       let upstreamNodeRegionId = sub (rlk_upstreamNodeId x) 0 nri_region;
           upstreamNodeId = sub (rlk_upstreamNodeId x) 0 nri_nodeId;
           downstreamNodeRegionId = sub (rlk_upstreamNodeId x) 0 (\<lambda>u. sub (rlk_downstreamNodeId x) 0 nri_region);
           downstreamNodeId = sub (rlk_upstreamNodeId x) 0 (\<lambda>u. sub (rlk_downstreamNodeId x) 0 nri_nodeId);
           referenceLanes = sub (rlk_referenceLanes x) 0 rl_referenceLanes
       in put_row 10240 j rtsReferenceLink_header rtsReferenceLink_format
           [I64 rtsReferenceLinkId, I32 (cx_splitId cx), I32 upstreamNodeRegionId, I32 upstreamNodeId, I32 downstreamNodeRegionId,
            I32 downstreamNodeId, I32 referenceLanes, I64 rtsDataId, I64 forwardRtsDataId] st))"

definition rtsReferenceLink_insert :: "cam_ctx \<Rightarrow> 64 word \<Rightarrow> 64 word \<Rightarrow> ReferenceLink list \<Rightarrow> ins \<Rightarrow> (ins, unit) run" where
  "rtsReferenceLink_insert cx rtsDataId forwardRtsDataId = insert_rows cx (rtsReferenceLink_item cx rtsDataId forwardRtsDataId)"

lemma rtsReferenceLink_insert_good [good_intro]:
  "all_statements st \<Longrightarrow> good (\<lambda>_. True) (rtsReferenceLink_insert cx rtsDataId forwardRtsDataId xs st)"
  unfolding rtsReferenceLink_insert_def rtsReferenceLink_item_def
  by (rule good_insert_rows, assumption) (rule good_intro | assumption | simp add: rtsReferenceLink_table)+

text \<open>Table \<open>rts_data\<close>.\<close>

definition rtsData_header :: string where
  "rtsData_header =
     ''INSERT INTO `rts_data`''
     @ ''			(`id`,`split_id`,`rts_id`,`rts_type`,`priority`,''
     @ ''			`lat`,`lon`,`ele`,`start_time`,`end_time`,''
     @ ''			`description`,`path_radius`,`data_source_id`,`end_time_confidence_id`,`cam_data_id`,`device_id`)VALUES''"

definition rtsData_format :: string where
  "rtsData_format =
     ''(%lld,%d,%d,%d,'%s',%d,%d,%d,%lld,%lld,'%s',%d,%lld,%d,%lld,'%s'),''"

lemma rtsData_table: "table_ok rtsData_header rtsData_format
    [KLong, KInt, KInt, KInt, KStr, KInt, KInt, KInt, KLong, KLong, KStr, KInt, KLong, KInt, KLong, KStr]"
  by (rule table_okI) (simp add: rtsData_header_def insert_into_def, simp add: rtsData_header_def, simp add: rtsData_format_def, code_simp)

lemma rtsData_balanced: "balanced rtsData_header rtsData_format"
  by (simp add: balanced_def rtsData_header_def rtsData_format_def)

definition rtsData_item :: "cam_ctx \<Rightarrow> RteData list \<Rightarrow> nat \<Rightarrow> RtsData \<Rightarrow> ins \<Rightarrow> (ins, string) run" where
  "rtsData_item cx rtes i x st =
     (if manual (rts_dataSource x) then Fin st [] else
     bind_run (next_id st) (\<lambda>st rtsDataId.
       let rtsId = rts_rtsId x;
           rtsType = rts_rtsType x;
           dataSource = scast (rts_dataSource x);
           priority = rts_priority x;
           lon = sub (rts_rtsPos x) 0 p3_lon;
           lat = sub (rts_rtsPos x) 0 p3_lat;
           ele = sub (rts_rtsPos x) 0 p3_ele;
           startTime = sub (rts_timeDetails x) 0 rtd_startTime;
           endTime = sub (rts_timeDetails x) 0 rtd_endTime;
           endTimeConfidence = sub (rts_timeDetails x) 0 rtd_endTimeConfidence;
           description = rts_description x;
           pathRadius = rts_pathRadius x
       in bind_run (put_row 10240 i rtsData_header rtsData_format
           [I64 rtsDataId, I32 (cx_splitId cx), I32 rtsId, I32 rtsType, CStr priority, I32 lat, I32 lon, I32 ele, I64 startTime,
            I64 endTime, CStr description, I32 pathRadius, I64 dataSource, I32 endTimeConfidence, I64 (cx_camId cx), CStr (cx_deviceId cx)] st) (\<lambda>st row.
       bind_run (next_id st) (\<lambda>st forwardRtsDataId.
       bind_run (rtsReferencePath_insert cx rtsDataId forwardRtsDataId rtes i (rts_refPathList x) st) (\<lambda>st _.
       bind_run (rtsReferenceLink_insert cx rtsDataId forwardRtsDataId (rts_refLinkList x) st) (\<lambda>st _.
       Fin st row))))))"

definition rtsData_insert :: "cam_ctx \<Rightarrow> RteData list \<Rightarrow> RtsData list \<Rightarrow> ins \<Rightarrow> (ins, unit) run" where
  "rtsData_insert cx rtes = insert_rows cx (rtsData_item cx rtes)"

lemma rtsData_insert_good [good_intro]:
  "all_statements st \<Longrightarrow> \<forall>x \<in> set xs. \<not> manual (rts_dataSource x) \<Longrightarrow>
    good (\<lambda>_. True) (rtsData_insert cx rtes xs st)"
  unfolding rtsData_insert_def rtsData_item_def
  by (rule good_insert_rows, assumption, rule good_else, blast) (rule good_intro | assumption | simp add: rtsData_table)+

section \<open>A manual event at the front\<close>

text \<open>A row after the first one begins with its parenthesis and is longer than 10 bytes.\<close>

definition bare_row :: "string \<Rightarrow> bool" where
  "bare_row t \<longleftrightarrow> take 1 t = ''('' \<and> 10 < length t"

lemma rte_item_later:
  assumes "rte_item cx (Suc i) x st = Fin st' t"
  shows "(if manual (rte_dataSource x) then t = [] else bare_row t)"
proof (cases "manual (rte_dataSource x)")
  case False
  with assms obtain args s1 s2 where "put_row 10240 (Suc i) rte_header rte_format args s1 = Fin s2 t"
    unfolding rte_item_def Let_def by (auto simp: bind_run_Fin_iff)
  then have t: "format rte_format args = Some t" by (auto dest: put_row_later)
  have "10 < literals rte_format" by (simp add: rte_format_def)
  then have "10 < length t" using literals_le [OF t] by simp
  moreover have "rte_format = ''('' @ tl rte_format" by (simp add: rte_format_def)
  then have "format (''('' @ tl rte_format) args = Some t" using t by simp
  then have "take 1 t = ''(''" by (auto simp: format_literal simp del: append_Cons append_Nil)
  ultimately show ?thesis using False by (simp add: bare_row_def)
qed (use assms in \<open>simp add: rte_item_def\<close>)

lemma rte_rows_later:
  assumes "rows_loop (rte_item cx) (Suc i) es s st = Fin st' t"
  shows "(bare_row s \<longrightarrow> bare_row t) \<and> (s = [] \<longrightarrow> (if \<exists>e \<in> set es. \<not> manual (rte_dataSource e) then bare_row t else t = []))"
  using assms
proof (induction es arbitrary: i s st)
  case (Cons e es)
  from Cons.prems obtain st1 r where r: "rte_item cx (Suc i) e st = Fin st1 r"
    "rows_loop (rte_item cx) (Suc (Suc i)) es (s @ r) st1 = Fin st' t"
    by (auto simp: bind_run_Fin_iff)
  have app: "bare_row (a @ b)" if "bare_row a" for a b using that by (cases a) (auto simp: bare_row_def)
  show ?case
    using Cons.IH [OF r(2)] rte_item_later [OF r(1)] app [of s r] by (auto split: if_splits)
qed simp

text \<open>
  C29. The head of the event statement is put in front of the event with index 0. When that event was sent by hand it
  is skipped with the head: the statement that the other events go into begins with their first row, which is no
  statement.
\<close>

theorem manual_event_drops_head:
  assumes "manual (rte_dataSource e)" and "\<exists>e' \<in> set es. \<not> manual (rte_dataSource e')"
    and "rte_insert cx (e # es) st = Fin st' u"
  shows "i_sqls st' \<noteq> [] \<and> take 1 (last (i_sqls st')) = ''('' \<and> \<not> statement (last (i_sqls st'))"
proof -
  have "rte_item cx 0 e st = Fin st []" using assms(1) by (simp add: rte_item_def)
  with assms(3) obtain st1 t where t: "rows_loop (rte_item cx) (Suc 0) es [] st = Fin st1 t"
    "exec_rows (cx_db cx) t st1 = Fin st' u"
    by (auto simp: rte_insert_def insert_rows_def bind_run_Fin_iff)
  from rte_rows_later [OF t(1)] assms(2) have b: "bare_row t" by auto
  with t(2) have "i_sqls st' = i_sqls st1 @ [finish_sql t]"
    by (auto simp: exec_rows_def exec_sql_def bare_row_def Let_def split: option.splits if_splits)
  moreover obtain c t' where "t = CHR ''('' # c # t'" using b by (cases t; cases "tl t") (auto simp: bare_row_def)
  then have "take 1 (finish_sql t) = ''(''" by (simp add: finish_sql_def)
  moreover from this have "\<not> statement (finish_sql t)"
    by (cases "finish_sql t") (auto simp: statement_def insert_into_def)
  ultimately show ?thesis by simp
qed

definition demo_event :: "32 word \<Rightarrow> RteData" where
  "demo_event s = \<lparr>rte_rteId = 7, rte_rteType = 1, rte_description = ''fog'', rte_eventSource = 2, rte_dataSource = s,
     rte_deviceIdList = ''m1'', rte_rtePos = None, rte_mapLocation = None, rte_eventRadius = 10, rte_timeDetails = None,
     rte_priority = ''1'', rte_referencePath = [], rte_referenceLinks = [], rte_eventObjId = [], rte_eventConfid = 90,
     rte_eventImages = [], rte_eventVideos = [], rte_id = 3\<rparr>"

definition demo_db :: db_env where
  "demo_db = \<lparr>db_present = True, db_exec = (\<lambda>_. 1)\<rparr>"

definition demo_cx :: cam_ctx where
  "demo_cx = \<lparr>cx_db = demo_db, cx_splitId = 8, cx_camId = 11, cx_deviceId = ''mec''\<rparr>"

definition demo_ins :: ins where
  "demo_ins = \<lparr>i_sf = \<lparr>datacenterId = 1, machineId = 1, sequence = 0, lastStmp = 0\<rparr>,
     i_clk = [1700000000000, 1700000000001, 1700000000002, 1700000000003], i_sqls = []\<rparr>"

theorem manual_event_drops_head_witness:
  "\<exists>st'. rte_insert demo_cx [demo_event 9, demo_event 3] demo_ins = Fin st' () \<and>
     take 1 (last (i_sqls st')) = ''('' \<and> \<not> statement (last (i_sqls st'))"
proof -
  have "case rte_insert demo_cx [demo_event 9, demo_event 3] demo_ins of Fin st' u \<Rightarrow> True | _ \<Rightarrow> False" by code_simp
  then obtain st' where r: "rte_insert demo_cx [demo_event 9, demo_event 3] demo_ins = Fin st' ()"
    by (auto split: run.splits)
  have "manual (rte_dataSource (demo_event 9))" "\<exists>e' \<in> set [demo_event 3]. \<not> manual (rte_dataSource e')"
    by (simp_all add: manual_def demo_event_def)
  from manual_event_drops_head [OF this r] r show ?thesis by blast
qed

section \<open>A sign without an event\<close>

text \<open>
  A message with a sign whose path has points, and without events, is never stored completely: the points are looked
  up in the events.
\<close>

theorem sign_path_needs_event:
  assumes "r \<in> set signs" and "\<not> manual (rts_dataSource r)" and "p \<in> set (rts_refPathList r)" and "rp_activePath p \<noteq> []"
  shows "rtsData_insert cx [] signs st \<noteq> Fin st' u"
proof -
  obtain x where x: "x \<in> set (rp_activePath p)" using assms(4) by (cases "rp_activePath p") auto
  have "rtsActivepath_item cx v [] i j k x st \<noteq> Fin st' t" for v i j k st st' t
    by (auto simp: rtsActivepath_item_def rts_point_def bind_run_Fin_iff)
  then have "rtsActivepath_insert cx v [] i j (rp_activePath p) st \<noteq> Fin st' u" for v i j st st' u
    unfolding rtsActivepath_insert_def by (rule insert_rows_fails) (rule x)
  then have "rtsReferencePath_item cx v w [] i j p st \<noteq> Fin st' t" for v w i j st st' t
    by (auto simp: rtsReferencePath_item_def Let_def bind_run_Fin_iff)
  then have "rtsReferencePath_insert cx v w [] i (rts_refPathList r) st \<noteq> Fin st' u" for v w i st st' u
    unfolding rtsReferencePath_insert_def by (rule insert_rows_fails) (rule assms(3))
  then have "rtsData_item cx [] i r st \<noteq> Fin st' t" for i st st' t
    using assms(2) by (auto simp: rtsData_item_def Let_def bind_run_Fin_iff)
  then show ?thesis unfolding rtsData_insert_def by (rule insert_rows_fails) (rule assms(1))
qed

definition demo_sign :: RtsData where
  "demo_sign = \<lparr>rts_rtsId = 4, rts_rtsType = 2, rts_dataSource = 1, rts_priority = ''1'', rts_rtsPos = None,
     rts_timeDetails = None, rts_description = ''stop'', rts_refPathList =
       [\<lparr>rp_activePath = [\<lparr>p3_lat = 1, p3_lon = 2, p3_ele = 0\<rparr>], rp_pathRadius = 5\<rparr>],
     rts_refLinkList = [], rts_pathRadius = 5\<rparr>"

theorem sign_path_needs_event_witness:
  "\<forall>cx st st' u. rtsData_insert cx [] [demo_sign] st \<noteq> Fin st' u"
proof -
  have "\<not> manual (rts_dataSource demo_sign)" by (simp add: demo_sign_def manual_def)
  moreover have "hd (rts_refPathList demo_sign) \<in> set (rts_refPathList demo_sign)"
    "rp_activePath (hd (rts_refPathList demo_sign)) \<noteq> []" by (simp_all add: demo_sign_def)
  ultimately show ?thesis using sign_path_needs_event [of demo_sign "[demo_sign]"] by fastforce
qed

end
