(* ===== verification/CamFlow.thy ===== *)
theory CamFlow
  imports CamSql CamMessages
begin

text \<open>
  What \<open>camInsert\<close> stores of the traffic flow of a message: the statistics of each flow by element of the road
  network, and the indices of lanes, links, movements, nodes and signals.
\<close>

section \<open>Traffic flow\<close>

text \<open>Table \<open>traffic_flow_stat_position_3_d\<close>.\<close>

definition trafficFlowStatPos_header :: string where
  "trafficFlowStatPos_header =
     ''INSERT INTO `traffic_flow_stat_position_3_d`''
     @ ''								(`id`,`split_id`,`lon`,`lat`,`ele`,`traffic_flow_stat_id`)VALUES''"

definition trafficFlowStatPos_format :: string where
  "trafficFlowStatPos_format =
     ''(%lld,%d,%d,%d,%d,%lld),''"

lemma trafficFlowStatPos_table: "table_ok trafficFlowStatPos_header trafficFlowStatPos_format
    [KLong, KInt, KInt, KInt, KInt, KLong]"
  by (rule table_okI) (simp add: trafficFlowStatPos_header_def insert_into_def, simp add: trafficFlowStatPos_header_def, simp add: trafficFlowStatPos_format_def, code_simp)

lemma trafficFlowStatPos_balanced: "balanced trafficFlowStatPos_header trafficFlowStatPos_format"
  by (simp add: balanced_def trafficFlowStatPos_header_def trafficFlowStatPos_format_def)

definition trafficFlowStatPos_item :: "cam_ctx \<Rightarrow> 64 word \<Rightarrow> nat \<Rightarrow> Position3D \<Rightarrow> ins \<Rightarrow> (ins, string) run" where
  "trafficFlowStatPos_item cx trafficFlowStatId k x st =
     (bind_run (next_id st) (\<lambda>st trafficFlowStatPosId.
       let trafficFlowStatPosLon = p3_lon x;
           trafficFlowStatPosLat = p3_lat x;
           trafficFlowStatPosEle = p3_ele x
       in put_row 10240 k trafficFlowStatPos_header trafficFlowStatPos_format
           [I64 trafficFlowStatPosId, I32 (cx_splitId cx), I32 trafficFlowStatPosLon, I32 trafficFlowStatPosLat, I32 trafficFlowStatPosEle,
            I64 trafficFlowStatId] st))"

definition trafficFlowStatPos_insert :: "cam_ctx \<Rightarrow> 64 word \<Rightarrow> Position3D list \<Rightarrow> ins \<Rightarrow> (ins, unit) run" where
  "trafficFlowStatPos_insert cx trafficFlowStatId = insert_rows cx (trafficFlowStatPos_item cx trafficFlowStatId)"

lemma trafficFlowStatPos_insert_good [good_intro]:
  "all_statements st \<Longrightarrow> good (\<lambda>_. True) (trafficFlowStatPos_insert cx trafficFlowStatId xs st)"
  unfolding trafficFlowStatPos_insert_def trafficFlowStatPos_item_def
  by (rule good_insert_rows, assumption) (rule good_intro | assumption | simp add: trafficFlowStatPos_table)+

text \<open>Table \<open>lane_index_added\<close>.\<close>

definition laneIndexAdd_header :: string where
  "laneIndexAdd_header =
     ''INSERT INTO `lane_index_added`''
     @ ''						(`id`,`split_id`,`timestamp`,`lane_capacity`,`lane_saturation`,''
     @ ''						`lane_time_occupy`,`lane_space_occupy`,`lane_avg_grn_queue`,`lane_grn_utilization`,`traffic_flow_stat_id`)VALUES''"

definition laneIndexAdd_format :: string where
  "laneIndexAdd_format =
     ''(%lld,%d,%lld,%d,%d,%d,%d,%d,%d,%lld),''"

lemma laneIndexAdd_table: "table_ok laneIndexAdd_header laneIndexAdd_format
    [KLong, KInt, KLong, KInt, KInt, KInt, KInt, KInt, KInt, KLong]"
  by (rule table_okI) (simp add: laneIndexAdd_header_def insert_into_def, simp add: laneIndexAdd_header_def, simp add: laneIndexAdd_format_def, code_simp)

lemma laneIndexAdd_balanced: "balanced laneIndexAdd_header laneIndexAdd_format"
  by (simp add: balanced_def laneIndexAdd_header_def laneIndexAdd_format_def)

definition laneIndexAdd_item :: "cam_ctx \<Rightarrow> 64 word \<Rightarrow> nat \<Rightarrow> LaneIndexAdded \<Rightarrow> ins \<Rightarrow> (ins, string) run" where
  "laneIndexAdd_item cx trafficFlowStatId k x st =
     (bind_run (next_id st) (\<lambda>st laneIndexAddId.
       let laneIndexAddTimestamp = lni_timestamp x;
           laneCapacity = lni_laneCapacity x;
           laneSaturation = lni_laneSaturation x;
           laneSpaceOccupy = lni_laneSpaceOccupy x;
           laneTimeOccupy = lni_laneTimeOccupy x;
           laneAvgGrnQueue = lni_laneAvgGrnQueue x;
           laneGrnUtilization = lni_laneGrnUtilization x
       in put_row 10240 k laneIndexAdd_header laneIndexAdd_format
           [I64 laneIndexAddId, I32 (cx_splitId cx), I64 laneIndexAddTimestamp, I32 laneCapacity, I32 laneSaturation, I32 laneTimeOccupy,
            I32 laneSpaceOccupy, I32 laneAvgGrnQueue, I32 laneGrnUtilization, I64 trafficFlowStatId] st))"

definition laneIndexAdd_insert :: "cam_ctx \<Rightarrow> 64 word \<Rightarrow> LaneIndexAdded list \<Rightarrow> ins \<Rightarrow> (ins, unit) run" where
  "laneIndexAdd_insert cx trafficFlowStatId = insert_rows cx (laneIndexAdd_item cx trafficFlowStatId)"

lemma laneIndexAdd_insert_good [good_intro]:
  "all_statements st \<Longrightarrow> good (\<lambda>_. True) (laneIndexAdd_insert cx trafficFlowStatId xs st)"
  unfolding laneIndexAdd_insert_def laneIndexAdd_item_def
  by (rule good_insert_rows, assumption) (rule good_intro | assumption | simp add: laneIndexAdd_table)+

text \<open>Table \<open>link_index_added\<close>.\<close>

definition linkIndexAdd_header :: string where
  "linkIndexAdd_header =
     ''INSERT INTO `link_index_added`''
     @ ''						(`id`,`split_id`,`timestamp`,`link_capacity`,`link_saturation`,''
     @ ''						`link_time_occupy`,`link_space_occupy`,`link_avg_grn_queue`,`link_grn_utilization`,`traffic_flow_stat_id`)VALUES''"

definition linkIndexAdd_format :: string where
  "linkIndexAdd_format =
     ''(%lld,%d,%lld,%d,%d,%d,%d,%d,%d,%lld),''"

lemma linkIndexAdd_table: "table_ok linkIndexAdd_header linkIndexAdd_format
    [KLong, KInt, KLong, KInt, KInt, KInt, KInt, KInt, KInt, KLong]"
  by (rule table_okI) (simp add: linkIndexAdd_header_def insert_into_def, simp add: linkIndexAdd_header_def, simp add: linkIndexAdd_format_def, code_simp)

lemma linkIndexAdd_balanced: "balanced linkIndexAdd_header linkIndexAdd_format"
  by (simp add: balanced_def linkIndexAdd_header_def linkIndexAdd_format_def)

definition linkIndexAdd_item :: "cam_ctx \<Rightarrow> 64 word \<Rightarrow> nat \<Rightarrow> LinkIndexAdded \<Rightarrow> ins \<Rightarrow> (ins, string) run" where
  "linkIndexAdd_item cx trafficFlowStatId k x st =
     (bind_run (next_id st) (\<lambda>st linkIndexAddId.
       let linkIndexAddTimestamp = lki_timestamp x;
           linkCapacity = lki_linkCapacity x;
           linkSaturation = lki_linkSaturation x;
           linkSpaceOccupy = lki_linkSpaceOccupy x;
           linkTimeOccupy = lki_linkTimeOccupy x;
           linkAvgGrnQueue = lki_linkAvgGrnQueue x;
           linkGrnUtilization = lki_linkGrnUtilization x
       in put_row 10240 k linkIndexAdd_header linkIndexAdd_format
           [I64 linkIndexAddId, I32 (cx_splitId cx), I64 linkIndexAddTimestamp, I32 linkCapacity, I32 linkSaturation, I32 linkTimeOccupy,
            I32 linkSpaceOccupy, I32 linkAvgGrnQueue, I32 linkGrnUtilization, I64 trafficFlowStatId] st))"

definition linkIndexAdd_insert :: "cam_ctx \<Rightarrow> 64 word \<Rightarrow> LinkIndexAdded list \<Rightarrow> ins \<Rightarrow> (ins, unit) run" where
  "linkIndexAdd_insert cx trafficFlowStatId = insert_rows cx (linkIndexAdd_item cx trafficFlowStatId)"

lemma linkIndexAdd_insert_good [good_intro]:
  "all_statements st \<Longrightarrow> good (\<lambda>_. True) (linkIndexAdd_insert cx trafficFlowStatId xs st)"
  unfolding linkIndexAdd_insert_def linkIndexAdd_item_def
  by (rule good_insert_rows, assumption) (rule good_intro | assumption | simp add: linkIndexAdd_table)+

text \<open>Table \<open>movement_index_added\<close>.\<close>

definition movementIndexAdd_header :: string where
  "movementIndexAdd_header =
     ''INSERT INTO `movement_index_added`''
     @ ''						(`id`,`split_id`,`timestamp`,`movement_capacity`,`movement_saturation`,''
     @ ''						`movement_time_occupy`,`movement_space_occupy`,`movement_avg_grn_queue`,`movement_grn_utilization`,`traffic_flow_stat_id`)VALUES''"

definition movementIndexAdd_format :: string where
  "movementIndexAdd_format =
     ''(%lld,%d,%lld,%d,%d,%d,%d,%d,%d,%lld),''"

lemma movementIndexAdd_table: "table_ok movementIndexAdd_header movementIndexAdd_format
    [KLong, KInt, KLong, KInt, KInt, KInt, KInt, KInt, KInt, KLong]"
  by (rule table_okI) (simp add: movementIndexAdd_header_def insert_into_def, simp add: movementIndexAdd_header_def, simp add: movementIndexAdd_format_def, code_simp)

lemma movementIndexAdd_balanced: "balanced movementIndexAdd_header movementIndexAdd_format"
  by (simp add: balanced_def movementIndexAdd_header_def movementIndexAdd_format_def)

definition movementIndexAdd_item :: "cam_ctx \<Rightarrow> 64 word \<Rightarrow> nat \<Rightarrow> MovementIndexAdded \<Rightarrow> ins \<Rightarrow> (ins, string) run" where
  "movementIndexAdd_item cx trafficFlowStatId k x st =
     (bind_run (next_id st) (\<lambda>st movementIndexAddId.
       let movementIndexAddTimestamp = mia_timestamp x;
           movementCapacity = mia_movementCapacity x;
           movementSaturation = mia_movementSaturation x;
           movementSpaceOccupy = mia_movementSpaceOccupy x;
           movementTimeOccupy = mia_movementTimeOccupy x;
           movementAvgGrnQueue = mia_movementAvgGrnQueue x;
           movementGrnUtilization = mia_movementGrnUtilization x
       in put_row 10240 k movementIndexAdd_header movementIndexAdd_format
           [I64 movementIndexAddId, I32 (cx_splitId cx), I64 movementIndexAddTimestamp, I32 movementCapacity, I32 movementSaturation,
            I32 movementTimeOccupy, I32 movementSpaceOccupy, I32 movementAvgGrnQueue, I32 movementGrnUtilization, I64 trafficFlowStatId] st))"

definition movementIndexAdd_insert :: "cam_ctx \<Rightarrow> 64 word \<Rightarrow> MovementIndexAdded list \<Rightarrow> ins \<Rightarrow> (ins, unit) run" where
  "movementIndexAdd_insert cx trafficFlowStatId = insert_rows cx (movementIndexAdd_item cx trafficFlowStatId)"

lemma movementIndexAdd_insert_good [good_intro]:
  "all_statements st \<Longrightarrow> good (\<lambda>_. True) (movementIndexAdd_insert cx trafficFlowStatId xs st)"
  unfolding movementIndexAdd_insert_def movementIndexAdd_item_def
  by (rule good_insert_rows, assumption) (rule good_intro | assumption | simp add: movementIndexAdd_table)+

text \<open>Table \<open>node_index_added\<close>.\<close>

definition nodeIndexAdd_header :: string where
  "nodeIndexAdd_header =
     ''INSERT INTO `node_index_added`''
     @ ''						(`id`,`split_id`,`timestamp`,`node_capacity`,`node_saturation`,''
     @ ''						`node_time_occupy`,`node_space_occupy`,`node_avg_grn_queue`,`node_grn_utilization`,`demand_index`,''
     @ ''						`supply_index`,`theory_index`,`traffic_flow_stat_id`)VALUES''"

definition nodeIndexAdd_format :: string where
  "nodeIndexAdd_format =
     ''(%lld,%d,%lld,%d,%d,%d,%d,%d,%d,%d,%d,%d,%lld),''"

lemma nodeIndexAdd_table: "table_ok nodeIndexAdd_header nodeIndexAdd_format
    [KLong, KInt, KLong, KInt, KInt, KInt, KInt, KInt, KInt, KInt, KInt, KInt, KLong]"
  by (rule table_okI) (simp add: nodeIndexAdd_header_def insert_into_def, simp add: nodeIndexAdd_header_def, simp add: nodeIndexAdd_format_def, code_simp)

lemma nodeIndexAdd_balanced: "balanced nodeIndexAdd_header nodeIndexAdd_format"
  by (simp add: balanced_def nodeIndexAdd_header_def nodeIndexAdd_format_def)

definition nodeIndexAdd_item :: "cam_ctx \<Rightarrow> 64 word \<Rightarrow> nat \<Rightarrow> NodeIndexAdded \<Rightarrow> ins \<Rightarrow> (ins, string) run" where
  "nodeIndexAdd_item cx trafficFlowStatId k x st =
     (bind_run (next_id st) (\<lambda>st nodeIndexAddId.
       let nodeIndexAddTimestamp = nia_timestamp x;
           nodeCapacity = ucast (nia_nodeCapacity x);
           nodeSaturation = nia_nodeSaturation x;
           nodeSpaceOccupy = nia_nodeSpaceOccupy x;
           nodeTimeOccupy = nia_nodeTimeOccupy x;
           nodeAvgGrnQueue = nia_nodeAvgGrnQueue x;
           nodeGrnUtilization = nia_nodeGrnUtilization x;
           demandIndex = nia_demandIndex x;
           supplyIndex = nia_supplyIndex x;
           theoryIndex = nia_theoryIndex x
       in put_row 10240 k nodeIndexAdd_header nodeIndexAdd_format
           [I64 nodeIndexAddId, I32 (cx_splitId cx), I64 nodeIndexAddTimestamp, I32 nodeCapacity, I32 nodeSaturation, I32 nodeTimeOccupy,
            I32 nodeSpaceOccupy, I32 nodeAvgGrnQueue, I32 nodeGrnUtilization, I32 demandIndex, I32 supplyIndex, I32 theoryIndex,
            I64 trafficFlowStatId] st))"

definition nodeIndexAdd_insert :: "cam_ctx \<Rightarrow> 64 word \<Rightarrow> NodeIndexAdded list \<Rightarrow> ins \<Rightarrow> (ins, unit) run" where
  "nodeIndexAdd_insert cx trafficFlowStatId = insert_rows cx (nodeIndexAdd_item cx trafficFlowStatId)"

lemma nodeIndexAdd_insert_good [good_intro]:
  "all_statements st \<Longrightarrow> good (\<lambda>_. True) (nodeIndexAdd_insert cx trafficFlowStatId xs st)"
  unfolding nodeIndexAdd_insert_def nodeIndexAdd_item_def
  by (rule good_insert_rows, assumption) (rule good_intro | assumption | simp add: nodeIndexAdd_table)+

text \<open>Table \<open>signal_control_index_added\<close>.\<close>

definition signalIndexAdd_header :: string where
  "signalIndexAdd_header =
     ''INSERT INTO `signal_control_index_added`''
     @ ''						(`id`,`split_id`,`phase_id`,`green_start_queue`,`red_start_queue`,''
     @ ''						`green_utilization`,`traffic_flow_stat_id`)VALUES''"

definition signalIndexAdd_format :: string where
  "signalIndexAdd_format =
     ''(%lld,%d,%d,%d,%d,%d,%lld),''"

lemma signalIndexAdd_table: "table_ok signalIndexAdd_header signalIndexAdd_format
    [KLong, KInt, KInt, KInt, KInt, KInt, KLong]"
  by (rule table_okI) (simp add: signalIndexAdd_header_def insert_into_def, simp add: signalIndexAdd_header_def, simp add: signalIndexAdd_format_def, code_simp)

lemma signalIndexAdd_balanced: "balanced signalIndexAdd_header signalIndexAdd_format"
  by (simp add: balanced_def signalIndexAdd_header_def signalIndexAdd_format_def)

definition signalIndexAdd_item :: "cam_ctx \<Rightarrow> 64 word \<Rightarrow> nat \<Rightarrow> SignalControlIndexAdded \<Rightarrow> ins \<Rightarrow> (ins, string) run" where
  "signalIndexAdd_item cx trafficFlowStatId k x st =
     (bind_run (next_id st) (\<lambda>st signalIndexAddId.
       let signalPhaseId = scia_phaseId x;
           signalGreenStartQueue = scia_greenStartQueue x;
           signalRedStartQueue = scia_redStartQueue x;
           signalGreenUtilization = scia_greenUtilization x
       in put_row 10240 k signalIndexAdd_header signalIndexAdd_format
           [I64 signalIndexAddId, I32 (cx_splitId cx), I32 signalPhaseId, I32 signalGreenStartQueue, I32 signalRedStartQueue,
            I32 signalGreenUtilization, I64 trafficFlowStatId] st))"

definition signalIndexAdd_insert :: "cam_ctx \<Rightarrow> 64 word \<Rightarrow> SignalControlIndexAdded list \<Rightarrow> ins \<Rightarrow> (ins, unit) run" where
  "signalIndexAdd_insert cx trafficFlowStatId = insert_rows cx (signalIndexAdd_item cx trafficFlowStatId)"

lemma signalIndexAdd_insert_good [good_intro]:
  "all_statements st \<Longrightarrow> good (\<lambda>_. True) (signalIndexAdd_insert cx trafficFlowStatId xs st)"
  unfolding signalIndexAdd_insert_def signalIndexAdd_item_def
  by (rule good_insert_rows, assumption) (rule good_intro | assumption | simp add: signalIndexAdd_table)+

text \<open>Table \<open>traffic_flow_stat\<close>.\<close>

definition trafficFlowStat_header :: string where
  "trafficFlowStat_header =
     ''INSERT INTO `traffic_flow_stat`''
     @ ''				(`id`,`split_id`,`area_id`,`set_time`,`detector_area_node_region_id`,''
     @ ''				`detector_area_node_node_id`,`detector_area_lane_id`,`lane_id`,`lane_link_upstream_node_region_id`,`lane_link_upstream_node_node_id`,''
     @ ''				`lane_link_name`, `lane_link_node_region_id`,`lane_link_node_node_id`, `lane_link_ext_id`,''
     @ ''				`lane_section_id`,  `lane_section_link_upstream_node_region_id`, `lane_section_link_upstream_node_node_id`,`lane_section_link_name`, `lane_section_link_node_region_id`,''
     @ ''				`lane_section_link_node_node_id`, `lane_section_link_ext_id`, `lane_section_ext_id`,`lane_ext_id`, `section_id`,''
     @ ''				`section_link_upstream_node_region_id`, `section_link_upstream_node_node_id`, `section_link_name`,`section_link_node_region_id`, `section_link_node_node_id`,''
     @ ''				`section_link_ext_id`,`section_ext_id`, `link_upstream_node_region_id`, `link_upstream_node_node_id`,`link_name`, `link_node_region_id`,''
     @ ''				`link_node_node_id`, `link_ext_id`, `node_region_id`,`node_id`, `movement_remote_intersection_node_region_id`,''
     @ ''				`movement_remote_intersection_node_id`, `movement_node_region_id`, `movement_node_node_id`,`movement_ext_id`, `timestamp`,''
     @ ''				`volume`,`speed_point`,`speed_area`,`density`,`travel_time`,''
     @ ''				`delay`,`queue_length`,`queue_int`,`congestion`,`time_headway`,''
     @ ''				`space_headway`,`stop_nums`,`ptc_type_id`,`vehicle_type_id`,`maneuver_id`,''
     @ ''				`map_element_type_id`,`traffic_flow_id`,`device_id`)VALUES''"

definition trafficFlowStat_format :: string where
  "trafficFlowStat_format =
     ''(%lld,%d,%d,%lld,%d,''
     @ ''			%d,%d,%d,'%d',%d,''
     @ ''			'%s',%d,%d,'%s',''
     @ ''			%d,%d,%d,'%s',%d,''
     @ ''			%d,'%s','%s','%s',%d,''
     @ ''			%d,%d,'%s',%d,%d,''
     @ ''			'%s','%s',%d,%d,'%s',%d,''
     @ ''			%d,'%s',%d,%d,%d,''
     @ ''			%d,%d,%d,'%s',%lld,''
     @ ''			%d,%d,%d,%d,%d,''
     @ ''			%d,%d,%d,%d,%d,''
     @ ''			%d,%d,%lld,%lld,%lld,%lld,%lld,'%s'),''"

lemma trafficFlowStat_table: "table_ok trafficFlowStat_header trafficFlowStat_format
    [KLong, KInt, KInt, KLong, KInt, KInt, KInt, KInt, KInt, KInt, KStr, KInt, KInt, KStr, KInt, KInt, KInt, KStr, KInt,
     KInt, KStr, KStr, KStr, KInt, KInt, KInt, KStr, KInt, KInt, KStr, KStr, KInt, KInt, KStr, KInt, KInt, KStr, KInt,
     KInt, KInt, KInt, KInt, KInt, KStr, KLong, KInt, KInt, KInt, KInt, KInt, KInt, KInt, KInt, KInt, KInt, KInt, KInt,
     KLong, KLong, KLong, KLong, KLong, KStr]"
  by (rule table_okI) (simp add: trafficFlowStat_header_def insert_into_def, simp add: trafficFlowStat_header_def, simp add: trafficFlowStat_format_def, code_simp)

lemma trafficFlowStat_balanced: "balanced trafficFlowStat_header trafficFlowStat_format"
  by (simp add: balanced_def trafficFlowStat_header_def trafficFlowStat_format_def)

definition trafficFlowStat_item :: "cam_ctx \<Rightarrow> 64 word \<Rightarrow> nat \<Rightarrow> TrafficFlowStat \<Rightarrow> ins \<Rightarrow> (ins, string) run" where
  "trafficFlowStat_item cx trafficFlowId j x st =
     (bind_run (next_id st) (\<lambda>st trafficFlowStatId.
       bind_run (on_part (stat_mapElement x) (\<lambda>me. on_part (elem_detectorArea me) (\<lambda>da. on_part (area_polygon da) (\<lambda>p. trafficFlowStatPos_insert cx trafficFlowStatId (poly_pos p)))) st) (\<lambda>st _.
       let areaId = sub (stat_mapElement x) 0 (\<lambda>me. sub (elem_detectorArea me) 0 area_areaId);
           setTime = sub (stat_mapElement x) 0 (\<lambda>me. sub (elem_detectorArea me) 0 area_setTime);
           detectorAreaNodeRegionId = sub (stat_mapElement x) 0 (\<lambda>me. sub (elem_detectorArea me) 0 
             (\<lambda>da. sub (area_nodeId da) 0 nri_region));
           detectorAreaNodeNodeId = sub (stat_mapElement x) 0 (\<lambda>me. sub (elem_detectorArea me) 0 
             (\<lambda>da. sub (area_nodeId da) 0 nri_nodeId));
           detectorAreaLaneId = sub (stat_mapElement x) 0 (\<lambda>me. sub (elem_detectorArea me) 0 area_laneId);
           laneId = sub (stat_mapElement x) 0 (\<lambda>me. sub (elem_laneStatInfo me) 0 lns_laneId);
           laneLinkUpstreamNodeRegionId = sub (stat_mapElement x) 0 (\<lambda>me. sub (elem_laneStatInfo me) 0 
             (\<lambda>lsi. sub (lns_linkStatInfo lsi) 0 (\<lambda>lsi1. sub (lks_upstreamNodeId lsi1) 0 nri_region)));
           laneLinkUpstreamNodeNodeId = sub (stat_mapElement x) 0 (\<lambda>me. sub (elem_laneStatInfo me) 0 
             (\<lambda>lsi. sub (lns_linkStatInfo lsi) 0 (\<lambda>lsi1. sub (lks_upstreamNodeId lsi1) 0 nri_nodeId)));
           laneLinkName = sub (stat_mapElement x) '''' (\<lambda>me. sub (elem_laneStatInfo me) '''' 
             (\<lambda>lsi. sub (lns_linkStatInfo lsi) '''' lks_name));
           laneLinkNodeRegionId = sub (stat_mapElement x) 0 (\<lambda>me. sub (elem_laneStatInfo me) 0 
             (\<lambda>lsi. sub (lns_linkStatInfo lsi) 0 (\<lambda>lsi1. sub (lks_nodeStatInfo lsi1) 0 (\<lambda>nsi. sub (nsi_nodeId nsi) 0 nri_region))));
           laneLinkNodeNodeId = sub (stat_mapElement x) 0 (\<lambda>me. sub (elem_laneStatInfo me) 0 
             (\<lambda>lsi. sub (lns_linkStatInfo lsi) 0 (\<lambda>lsi1. sub (lks_nodeStatInfo lsi1) 0 (\<lambda>nsi. sub (nsi_nodeId nsi) 0 nri_nodeId))));
           laneLinkExtId = sub (stat_mapElement x) '''' (\<lambda>me. sub (elem_laneStatInfo me) '''' 
             (\<lambda>lsi. sub (lns_linkStatInfo lsi) '''' lks_extId));
           laneSectionId = sub (stat_mapElement x) 0 (\<lambda>me. sub (elem_laneStatInfo me) 0 
             (\<lambda>lsi. sub (lns_sectionStatInfo lsi) 0 scs_sectionId));
           laneSectionLinkUpstreamNodeRegionId = sub (stat_mapElement x) 0 (\<lambda>me. sub (elem_laneStatInfo me) 0 
             (\<lambda>lsi. sub (lns_sectionStatInfo lsi) 0 (\<lambda>ssi. sub (scs_linkStatInfo ssi) 0 (\<lambda>lsi1. sub (lks_upstreamNodeId lsi1) 0 nri_region))));
           laneSectionLinkUpstreamNodeNodeId = sub (stat_mapElement x) 0 (\<lambda>me. sub (elem_laneStatInfo me) 0 
             (\<lambda>lsi. sub (lns_sectionStatInfo lsi) 0 (\<lambda>ssi. sub (scs_linkStatInfo ssi) 0 (\<lambda>lsi1. sub (lks_upstreamNodeId lsi1) 0 nri_nodeId))));
           laneSectionLinkName = sub (stat_mapElement x) '''' (\<lambda>me. sub (elem_laneStatInfo me) '''' 
             (\<lambda>lsi. sub (lns_sectionStatInfo lsi) '''' (\<lambda>ssi. sub (scs_linkStatInfo ssi) '''' lks_name)));
           laneSectionLinkNodeRegionId = sub (stat_mapElement x) 0 (\<lambda>me. sub (elem_laneStatInfo me) 0 
             (\<lambda>lsi. sub (lns_sectionStatInfo lsi) 0 (\<lambda>ssi. sub (scs_linkStatInfo ssi) 0 (\<lambda>lsi1. sub (lks_nodeStatInfo lsi1) 0 (\<lambda>nsi. sub (nsi_nodeId nsi) 0 nri_region)))));
           laneSectionLinkNodeNodeId = sub (stat_mapElement x) 0 (\<lambda>me. sub (elem_laneStatInfo me) 0 
             (\<lambda>lsi. sub (lns_sectionStatInfo lsi) 0 (\<lambda>ssi. sub (scs_linkStatInfo ssi) 0 (\<lambda>lsi1. sub (lks_nodeStatInfo lsi1) 0 (\<lambda>nsi. sub (nsi_nodeId nsi) 0 nri_nodeId)))));
           laneSectionLinkExtId = sub (stat_mapElement x) '''' (\<lambda>me. sub (elem_laneStatInfo me) '''' 
             (\<lambda>lsi. sub (lns_sectionStatInfo lsi) '''' (\<lambda>ssi. sub (scs_linkStatInfo ssi) '''' lks_extId)));
           laneSectionExtId = sub (stat_mapElement x) '''' (\<lambda>me. sub (elem_laneStatInfo me) '''' 
             (\<lambda>lsi. sub (lns_sectionStatInfo lsi) '''' scs_extId));
           laneExtId = sub (stat_mapElement x) '''' (\<lambda>me. sub (elem_laneStatInfo me) '''' lns_extId);
           sectionId = sub (stat_mapElement x) 0 (\<lambda>me. sub (elem_sectionStatInfo me) 0 scs_sectionId);
           sectionLinkUpstreamNodeRegionId = sub (stat_mapElement x) 0 (\<lambda>me. sub (elem_sectionStatInfo me) 0 
             (\<lambda>ssi. sub (scs_linkStatInfo ssi) 0 (\<lambda>lsi. sub (lks_upstreamNodeId lsi) 0 nri_region)));
           sectionLinkUpstreamNodeNodeId = sub (stat_mapElement x) 0 (\<lambda>me. sub (elem_sectionStatInfo me) 0 
             (\<lambda>ssi. sub (scs_linkStatInfo ssi) 0 (\<lambda>lsi. sub (lks_upstreamNodeId lsi) 0 nri_nodeId)));
           sectionLinkName = sub (stat_mapElement x) '''' (\<lambda>me. sub (elem_sectionStatInfo me) '''' 
             (\<lambda>ssi. sub (scs_linkStatInfo ssi) '''' lks_name));
           sectionLinkNodeRegionId = sub (stat_mapElement x) 0 (\<lambda>me. sub (elem_sectionStatInfo me) 0 
             (\<lambda>ssi. sub (scs_linkStatInfo ssi) 0 (\<lambda>lsi. sub (lks_nodeStatInfo lsi) 0 (\<lambda>nsi. sub (nsi_nodeId nsi) 0 nri_region))));
           sectionLinkNodeNodeId = sub (stat_mapElement x) 0 (\<lambda>me. sub (elem_sectionStatInfo me) 0 
             (\<lambda>ssi. sub (scs_linkStatInfo ssi) 0 (\<lambda>lsi. sub (lks_nodeStatInfo lsi) 0 (\<lambda>nsi. sub (nsi_nodeId nsi) 0 nri_nodeId))));
           sectionLinkExtId = sub (stat_mapElement x) '''' (\<lambda>me. sub (elem_sectionStatInfo me) '''' 
             (\<lambda>ssi. sub (scs_linkStatInfo ssi) '''' lks_extId));
           sectionExtId = sub (stat_mapElement x) '''' (\<lambda>me. sub (elem_sectionStatInfo me) '''' scs_extId);
           linkUpstreamNodeNodeId = sub (stat_mapElement x) 0 (\<lambda>me. sub (elem_linkStatInfo me) 0 
             (\<lambda>lsi. sub (lks_upstreamNodeId lsi) 0 nri_nodeId));
           linkUpstreamNodeRegionId = sub (stat_mapElement x) 0 (\<lambda>me. sub (elem_linkStatInfo me) 0 
             (\<lambda>lsi. sub (lks_upstreamNodeId lsi) 0 nri_region));
           linkName = sub (stat_mapElement x) '''' (\<lambda>me. sub (elem_linkStatInfo me) '''' lks_name);
           linkNodeRegionId = sub (stat_mapElement x) 0 (\<lambda>me. sub (elem_linkStatInfo me) 0 
             (\<lambda>lsi. sub (lks_nodeStatInfo lsi) 0 (\<lambda>nsi. sub (nsi_nodeId nsi) 0 nri_region)));
           linkNodeNodeId = sub (stat_mapElement x) 0 (\<lambda>me. sub (elem_linkStatInfo me) 0 
             (\<lambda>lsi. sub (lks_nodeStatInfo lsi) 0 (\<lambda>nsi. sub (nsi_nodeId nsi) 0 nri_nodeId)));
           linkExtId = sub (stat_mapElement x) '''' (\<lambda>me. sub (elem_linkStatInfo me) '''' lks_extId);
           nodeRegionId = sub (stat_mapElement x) 0 (\<lambda>me. sub (elem_nodeStatInfo me) 0 (\<lambda>nsi. sub (nsi_nodeId nsi) 0 nri_region));
           nodeId = sub (stat_mapElement x) 0 (\<lambda>me. sub (elem_nodeStatInfo me) 0 (\<lambda>nsi. sub (nsi_nodeId nsi) 0 nri_nodeId));
           movementRemoteIntersectionNodeRegionId = sub (stat_mapElement x) 0 
             (\<lambda>me. sub (elem_movementStatInfo me) 0 (\<lambda>msi. sub (msi_remoteIntersection msi) 0 nri_region));
           movementRemoteIntersectionNodeId = sub (stat_mapElement x) 0 (\<lambda>me. sub (elem_movementStatInfo me) 0 
             (\<lambda>msi. sub (msi_remoteIntersection msi) 0 nri_nodeId));
           movementNodeRegionId = sub (stat_mapElement x) 0 (\<lambda>me. sub (elem_movementStatInfo me) 0 
             (\<lambda>msi. sub (msi_nodeStatInfo msi) 0 (\<lambda>nsi. sub (nsi_nodeId nsi) 0 nri_region)));
           movementNodeNodeId = sub (stat_mapElement x) 0 (\<lambda>me. sub (elem_movementStatInfo me) 0 
             (\<lambda>msi. sub (msi_nodeStatInfo msi) 0 (\<lambda>nsi. sub (nsi_nodeId nsi) 0 nri_nodeId)));
           movementExtId = sub (stat_mapElement x) '''' (\<lambda>me. sub (elem_movementStatInfo me) '''' msi_extId);
           mapElementType = sub (stat_mapElement x) 0 
             (\<lambda>me. sub (elem_movementStatInfo me) (sub (elem_nodeStatInfo me) (sub (elem_linkStatInfo me) (sub (elem_sectionStatInfo me) (sub (elem_laneStatInfo me) (sub (elem_detectorArea me) 0 (\<lambda>da. 1)) (\<lambda>lsi. 2)) (\<lambda>ssi. 3)) (\<lambda>lsi. 4)) (\<lambda>nsi. 5)) (\<lambda>msi. 6));
           turnDirection = sub (stat_mapElement x) 0 (\<lambda>me. sub (elem_movementStatInfo me) 0 (\<lambda>msi. scast (msi_turnDirection msi)));
           ptcType = scast (stat_ptcType x);
           vehicleType = scast (stat_vehicleType x);
           timestamp = stat_timestamp x;
           volume = stat_volume x;
           speedPoint = stat_speedPoint x;
           speedArea = stat_speedArea x;
           density = stat_density x;
           travelTime = stat_travelTime x;
           delay = stat_delay x;
           queueLength = stat_queueLength x;
           queueInt = stat_queueInt x;
           congestion = stat_congestion x;
           timeHeadway = stat_timeHeadway x;
           spaceHeadway = stat_spaceHeadway x;
           stopNums = stat_stopNums x
       in bind_run (put_row 10240 j trafficFlowStat_header trafficFlowStat_format
           [I64 trafficFlowStatId, I32 (cx_splitId cx), I32 areaId, I64 setTime, I32 detectorAreaNodeRegionId, I32 detectorAreaNodeNodeId,
            I32 detectorAreaLaneId, I32 laneId, I32 laneLinkUpstreamNodeRegionId, I32 laneLinkUpstreamNodeNodeId, CStr laneLinkName,
            I32 laneLinkNodeRegionId, I32 laneLinkNodeNodeId, CStr laneLinkExtId, I32 laneSectionId,
            I32 laneSectionLinkUpstreamNodeRegionId, I32 laneSectionLinkUpstreamNodeNodeId, CStr laneSectionLinkName,
            I32 laneSectionLinkNodeRegionId, I32 laneSectionLinkNodeNodeId, CStr laneSectionLinkExtId, CStr laneSectionExtId,
            CStr laneExtId, I32 sectionId, I32 sectionLinkUpstreamNodeRegionId, I32 sectionLinkUpstreamNodeNodeId, CStr sectionLinkName,
            I32 sectionLinkNodeRegionId, I32 sectionLinkNodeNodeId, CStr sectionLinkExtId, CStr sectionExtId, I32 linkUpstreamNodeRegionId,
            I32 linkUpstreamNodeNodeId, CStr linkName, I32 linkNodeRegionId, I32 linkNodeNodeId, CStr linkExtId, I32 nodeRegionId,
            I32 nodeId, I32 movementRemoteIntersectionNodeRegionId, I32 movementRemoteIntersectionNodeId, I32 movementNodeRegionId,
            I32 movementNodeNodeId, CStr movementExtId, I64 timestamp, I32 volume, I32 speedPoint, I32 speedArea, I32 density,
            I32 travelTime, I32 delay, I32 queueLength, I32 queueInt, I32 congestion, I32 timeHeadway, I32 spaceHeadway, I32 stopNums,
            I64 ptcType, I64 vehicleType, I64 turnDirection, I64 mapElementType, I64 trafficFlowId, CStr (cx_deviceId cx)] st) (\<lambda>st row.
       bind_run (on_part (stat_trafficFlowExtension x) (\<lambda>tfe st.
         bind_run (laneIndexAdd_insert cx trafficFlowStatId (tfe_laneIndex tfe) st) (\<lambda>st _.
         bind_run (linkIndexAdd_insert cx trafficFlowStatId (tfe_linkIndex tfe) st) (\<lambda>st _.
         bind_run (movementIndexAdd_insert cx trafficFlowStatId (tfe_movementIndex tfe) st) (\<lambda>st _.
         bind_run (nodeIndexAdd_insert cx trafficFlowStatId (tfe_nodeIndex tfe) st) (\<lambda>st _.
         signalIndexAdd_insert cx trafficFlowStatId (tfe_signalIndex tfe) st))))) st) (\<lambda>st _.
       Fin st row)))))"

definition trafficFlowStat_insert :: "cam_ctx \<Rightarrow> 64 word \<Rightarrow> TrafficFlowStat list \<Rightarrow> ins \<Rightarrow> (ins, unit) run" where
  "trafficFlowStat_insert cx trafficFlowId = insert_rows cx (trafficFlowStat_item cx trafficFlowId)"

lemma trafficFlowStat_insert_good [good_intro]:
  "all_statements st \<Longrightarrow> good (\<lambda>_. True) (trafficFlowStat_insert cx trafficFlowId xs st)"
  unfolding trafficFlowStat_insert_def trafficFlowStat_item_def
  by (rule good_insert_rows, assumption) (rule good_intro | assumption | simp add: trafficFlowStat_table)+

text \<open>Table \<open>traffic_flow\<close>.\<close>

definition trafficFlow_header :: string where
  "trafficFlow_header =
     ''INSERT INTO `traffic_flow`''
     @ ''			(`id`,`split_id`,`node_region_id`,`node_id`,`gen_time`,''
     @ ''			`jhi_interval`,`cycle_start_time`,`cycle_end_time`,`cycle_time`,`cam_data_id`,`device_id`)VALUES''"

definition trafficFlow_format :: string where
  "trafficFlow_format =
     ''(%lld,%d,%d,%d,%lld,%d,%lld,%lld,%d,%lld,'%s'),''"

lemma trafficFlow_table: "table_ok trafficFlow_header trafficFlow_format
    [KLong, KInt, KInt, KInt, KLong, KInt, KLong, KLong, KInt, KLong, KStr]"
  by (rule table_okI) (simp add: trafficFlow_header_def insert_into_def, simp add: trafficFlow_header_def, simp add: trafficFlow_format_def, code_simp)

lemma trafficFlow_balanced: "balanced trafficFlow_header trafficFlow_format"
  by (simp add: balanced_def trafficFlow_header_def trafficFlow_format_def)

definition trafficFlow_item :: "cam_ctx \<Rightarrow> nat \<Rightarrow> TrafficFlow \<Rightarrow> ins \<Rightarrow> (ins, string) run" where
  "trafficFlow_item cx i x st =
     (bind_run (next_id st) (\<lambda>st trafficFlowId.
       let nodeRegionId = sub (flow_nodeId x) 0 nri_region;
           nodeId = sub (flow_nodeId x) 0 nri_nodeId;
           genTime = flow_genTime x;
           jhiInterval = sub (flow_statType x) 0 (\<lambda>st0. sub (tfst_interval st0) 0 tfsbi_interval);
           cycleStartTime = sub (flow_statType x) 0 (\<lambda>st0. sub (tfst_sequence st0) 0 tfsbsc_cycleStartTime);
           cycleEndTime = sub (flow_statType x) 0 (\<lambda>st0. sub (tfst_sequence st0) 0 tfsbsc_cycleEndTime);
           cycleTime = sub (flow_statType x) 0 (\<lambda>st0. sub (tfst_sequence st0) 0 tfsbsc_cycleTime)
       in bind_run (put_row 10240 i trafficFlow_header trafficFlow_format
           [I64 trafficFlowId, I32 (cx_splitId cx), I32 nodeRegionId, I32 nodeId, I64 genTime, I32 jhiInterval, I64 cycleStartTime,
            I64 cycleEndTime, I32 cycleTime, I64 (cx_camId cx), CStr (cx_deviceId cx)] st) (\<lambda>st row.
       bind_run (trafficFlowStat_insert cx trafficFlowId (flow_stats x) st) (\<lambda>st _.
       Fin st row))))"

definition trafficFlow_insert :: "cam_ctx \<Rightarrow> TrafficFlow list \<Rightarrow> ins \<Rightarrow> (ins, unit) run" where
  "trafficFlow_insert cx = insert_rows cx (trafficFlow_item cx)"

lemma trafficFlow_insert_good [good_intro]:
  "all_statements st \<Longrightarrow> good (\<lambda>_. True) (trafficFlow_insert cx xs st)"
  unfolding trafficFlow_insert_def trafficFlow_item_def
  by (rule good_insert_rows, assumption) (rule good_intro | assumption | simp add: trafficFlow_table)+

end
