(* ===== verification/CamSignals.thy ===== *)
theory CamSignals
  imports CamSql CamMessages
begin

text \<open>
  What \<open>camInsert\<close> stores of the signals of a message: the states of intersections with their phases, and the
  proposed schemes with their periods, phases and movements.
\<close>

section \<open>Signal states\<close>

text \<open>Table \<open>phase_state\<close>.\<close>

definition phaseState_header :: string where
  "phaseState_header =
     ''INSERT INTO `phase_state`''
     @ ''						(`id`,`split_id`,`start_time`,`min_end_time`,`max_end_time`,''
     @ ''						`likely_end_time`,`next_start_time`,`next_duration`,`light_id`,`time_confidence_id`,`phase_id`,`device_id`)VALUES''"

definition phaseState_format :: string where
  "phaseState_format =
     ''(%lld,%d,%d,%d,%d,%d,%d,%d,%lld,%lld,%lld,'%s'),''"

lemma phaseState_table: "table_ok phaseState_header phaseState_format
    [KLong, KInt, KInt, KInt, KInt, KInt, KInt, KInt, KLong, KLong, KLong, KStr]"
  by (rule table_okI) (simp add: phaseState_header_def insert_into_def, simp add: phaseState_header_def, simp add: phaseState_format_def, code_simp)

lemma phaseState_balanced: "balanced phaseState_header phaseState_format"
  by (simp add: balanced_def phaseState_header_def phaseState_format_def)

definition phaseState_item :: "cam_ctx \<Rightarrow> 64 word \<Rightarrow> nat \<Rightarrow> PhaseState \<Rightarrow> ins \<Rightarrow> (ins, string) run" where
  "phaseState_item cx phaseDataId k x st =
     (bind_run (next_id st) (\<lambda>st phaseStateId.
       let lightId = scast (phs_light x);
           startTime = sub (phs_timing x) 0 tcd_startTime;
           minEndTime = sub (phs_timing x) 0 tcd_minEndTime;
           maxEndTime = sub (phs_timing x) 0 tcd_maxEndTime;
           likelyEndTime = sub (phs_timing x) 0 tcd_likelyEndTime;
           phasesStateTimeConfidence = sub (phs_timing x) 0 (\<lambda>t. scast (tcd_timeConfidence t));
           nextStartTime = sub (phs_timing x) 0 tcd_nextStartTime;
           nextDuration = sub (phs_timing x) 0 tcd_nextDuration
       in put_row 10240 k phaseState_header phaseState_format
           [I64 phaseStateId, I32 (cx_splitId cx), I32 startTime, I32 minEndTime, I32 maxEndTime, I32 likelyEndTime, I32 nextStartTime,
            I32 nextDuration, I64 lightId, I64 phasesStateTimeConfidence, I64 phaseDataId, CStr (cx_deviceId cx)] st))"

definition phaseState_insert :: "cam_ctx \<Rightarrow> 64 word \<Rightarrow> PhaseState list \<Rightarrow> ins \<Rightarrow> (ins, unit) run" where
  "phaseState_insert cx phaseDataId = insert_rows cx (phaseState_item cx phaseDataId)"

lemma phaseState_insert_good [good_intro]:
  "all_statements st \<Longrightarrow> good (\<lambda>_. True) (phaseState_insert cx phaseDataId xs st)"
  unfolding phaseState_insert_def phaseState_item_def
  by (rule good_insert_rows, assumption) (rule good_intro | assumption | simp add: phaseState_table)+

text \<open>Table \<open>phase\<close>.\<close>

definition phaseData_header :: string where
  "phaseData_header =
     ''INSERT INTO `phase`''
     @ ''					(`id`,`split_id`,`phase_id`,`intersection_state_id`,`device_id`)VALUES''"

definition phaseData_format :: string where
  "phaseData_format =
     ''(%lld,%d,%d,%lld,'%s'),''"

lemma phaseData_table: "table_ok phaseData_header phaseData_format
    [KLong, KInt, KInt, KLong, KStr]"
  by (rule table_okI) (simp add: phaseData_header_def insert_into_def, simp add: phaseData_header_def, simp add: phaseData_format_def, code_simp)

lemma phaseData_balanced: "balanced phaseData_header phaseData_format"
  by (simp add: balanced_def phaseData_header_def phaseData_format_def)

definition phaseData_item :: "cam_ctx \<Rightarrow> 64 word \<Rightarrow> nat \<Rightarrow> Phase \<Rightarrow> ins \<Rightarrow> (ins, string) run" where
  "phaseData_item cx intersectionStateId j x st =
     (bind_run (next_id st) (\<lambda>st phaseDataId.
       let phaseId = ph_id x
       in bind_run (put_row 10240 j phaseData_header phaseData_format
           [I64 phaseDataId, I32 (cx_splitId cx), I32 phaseId, I64 intersectionStateId, CStr (cx_deviceId cx)] st) (\<lambda>st row.
       bind_run (phaseState_insert cx phaseDataId (ph_phaseStates x) st) (\<lambda>st _.
       Fin st row))))"

definition phaseData_insert :: "cam_ctx \<Rightarrow> 64 word \<Rightarrow> Phase list \<Rightarrow> ins \<Rightarrow> (ins, unit) run" where
  "phaseData_insert cx intersectionStateId = insert_rows cx (phaseData_item cx intersectionStateId)"

lemma phaseData_insert_good [good_intro]:
  "all_statements st \<Longrightarrow> good (\<lambda>_. True) (phaseData_insert cx intersectionStateId xs st)"
  unfolding phaseData_insert_def phaseData_item_def
  by (rule good_insert_rows, assumption) (rule good_intro | assumption | simp add: phaseData_table)+

text \<open>Table \<open>intersection_state\<close>.\<close>

definition intersectionState_header :: string where
  "intersectionState_header =
     ''INSERT INTO `intersection_state`''
     @ ''				(`id`,`split_id`,`node_region_id`,`node_id`,`status`,''
     @ ''				`timestamp`,`time_confidence_id`,`cam_data_id`,`device_id`)VALUES''"

definition intersectionState_format :: string where
  "intersectionState_format =
     ''(%lld,%d,%d,%d,'%s',%lld,%lld,%lld,'%s'),''"

lemma intersectionState_table: "table_ok intersectionState_header intersectionState_format
    [KLong, KInt, KInt, KInt, KStr, KLong, KLong, KLong, KStr]"
  by (rule table_okI) (simp add: intersectionState_header_def insert_into_def, simp add: intersectionState_header_def, simp add: intersectionState_format_def, code_simp)

lemma intersectionState_balanced: "balanced intersectionState_header intersectionState_format"
  by (simp add: balanced_def intersectionState_header_def intersectionState_format_def)

definition intersectionState_item :: "cam_ctx \<Rightarrow> nat \<Rightarrow> IntersectionState \<Rightarrow> ins \<Rightarrow> (ins, string) run" where
  "intersectionState_item cx i x st =
     (bind_run (next_id st) (\<lambda>st intersectionStateId.
       let nodeRegionId = sub (is_intersectionId x) 0 nri_region;
           nodeId = sub (is_intersectionId x) 0 nri_nodeId;
           status = is_status x;
           intersectionStateTimestamp = is_timestamp x;
           intersectionStateTimeConfidence = scast (is_timeConfidence x)
       in bind_run (put_row 10240 i intersectionState_header intersectionState_format
           [I64 intersectionStateId, I32 (cx_splitId cx), I32 nodeRegionId, I32 nodeId, CStr status, I64 intersectionStateTimestamp,
            I64 intersectionStateTimeConfidence, I64 (cx_camId cx), CStr (cx_deviceId cx)] st) (\<lambda>st row.
       bind_run (phaseData_insert cx intersectionStateId (is_phases x) st) (\<lambda>st _.
       Fin st row))))"

definition intersectionState_insert :: "cam_ctx \<Rightarrow> IntersectionState list \<Rightarrow> ins \<Rightarrow> (ins, unit) run" where
  "intersectionState_insert cx = insert_rows cx (intersectionState_item cx)"

lemma intersectionState_insert_good [good_intro]:
  "all_statements st \<Longrightarrow> good (\<lambda>_. True) (intersectionState_insert cx xs st)"
  unfolding intersectionState_insert_def intersectionState_item_def
  by (rule good_insert_rows, assumption) (rule good_intro | assumption | simp add: intersectionState_table)+

section \<open>Signal schemes\<close>

text \<open>Table \<open>optim_phase_movement_ex\<close>.\<close>

definition movements_header :: string where
  "movements_header =
     ''INSERT INTO `optim_phase_movement_ex`''
     @ ''						(`id`,`split_id`,`node_region_id`,`node_id`,`phase_id`,''
     @ ''						`turn_direction_id`,`optim_phase_id`,`device_id`)VALUES''"

definition movements_format :: string where
  "movements_format =
     ''(%lld,%d,%d,%d,%d,%lld,%lld,'%s'),''"

lemma movements_table: "table_ok movements_header movements_format
    [KLong, KInt, KInt, KInt, KInt, KLong, KLong, KStr]"
  by (rule table_okI) (simp add: movements_header_def insert_into_def, simp add: movements_header_def, simp add: movements_format_def, code_simp)

lemma movements_balanced: "balanced movements_header movements_format"
  by (simp add: balanced_def movements_header_def movements_format_def)

definition movements_item :: "cam_ctx \<Rightarrow> 64 word \<Rightarrow> nat \<Rightarrow> MovementEx \<Rightarrow> ins \<Rightarrow> (ins, string) run" where
  "movements_item cx optimPhaseId m x st =
     (bind_run (next_id st) (\<lambda>st movementsId.
       let movementsNodeRegionId = sub (me_remoteIntersection x) 0 nri_region;
           movementsNodeId = sub (me_remoteIntersection x) 0 nri_nodeId;
           movementsPhaseId = me_phaseId x;
           movementsTurnDirectionId = scast (me_turnDirection x)
       in put_row 10240 m movements_header movements_format
           [I64 movementsId, I32 (cx_splitId cx), I32 movementsNodeRegionId, I32 movementsNodeId, I32 movementsPhaseId,
            I64 movementsTurnDirectionId, I64 optimPhaseId, CStr (cx_deviceId cx)] st))"

definition movements_insert :: "cam_ctx \<Rightarrow> 64 word \<Rightarrow> MovementEx list \<Rightarrow> ins \<Rightarrow> (ins, unit) run" where
  "movements_insert cx optimPhaseId = insert_rows cx (movements_item cx optimPhaseId)"

lemma movements_insert_good [good_intro]:
  "all_statements st \<Longrightarrow> good (\<lambda>_. True) (movements_insert cx optimPhaseId xs st)"
  unfolding movements_insert_def movements_item_def
  by (rule good_insert_rows, assumption) (rule good_intro | assumption | simp add: movements_table)+

text \<open>Table \<open>optim_phase\<close>.\<close>

definition optimPhase_header :: string where
  "optimPhase_header =
     ''INSERT INTO `optim_phase`''
     @ ''					(`id`,`split_id`,`phase_id`,`jhi_order`,`phase_time`,''
     @ ''					`green`,`phase_yellow_time`,`phase_all_red_time`,`min_green`,`max_green`,`optim_data_id`,`device_id`)VALUES''"

definition optimPhase_format :: string where
  "optimPhase_format =
     ''(%lld,%d,%d,%d,%d,''
     @ ''                %d,%d,%d,%d,%d,%lld,'%s'),''"

lemma optimPhase_table: "table_ok optimPhase_header optimPhase_format
    [KLong, KInt, KInt, KInt, KInt, KInt, KInt, KInt, KInt, KInt, KLong, KStr]"
  by (rule table_okI) (simp add: optimPhase_header_def insert_into_def, simp add: optimPhase_header_def, simp add: optimPhase_format_def, code_simp)

lemma optimPhase_balanced: "balanced optimPhase_header optimPhase_format"
  by (simp add: balanced_def optimPhase_header_def optimPhase_format_def)

definition optimPhase_item :: "cam_ctx \<Rightarrow> 64 word \<Rightarrow> nat \<Rightarrow> OptimPhase \<Rightarrow> ins \<Rightarrow> (ins, string) run" where
  "optimPhase_item cx optimId k x st =
     (bind_run (next_id st) (\<lambda>st optimPhaseId.
       let phaseId = oph_phaseId x;
           phaseOrder = oph_order x;
           phaseTime = oph_phaseTime x;
           phaseGreen = oph_green x;
           phaseYellowTime = oph_phaseYellowTime x;
           phaseAllRedTime = oph_phaseAllRedTime x;
           phaseMinGreen = oph_minGreen x;
           phaseMaxGreen = oph_maxGreen x
       in bind_run (put_row 10240 k optimPhase_header optimPhase_format
           [I64 optimPhaseId, I32 (cx_splitId cx), I32 phaseId, I32 phaseOrder, I32 phaseTime, I32 phaseGreen, I32 phaseYellowTime,
            I32 phaseAllRedTime, I32 phaseMinGreen, I32 phaseMaxGreen, I64 optimId, CStr (cx_deviceId cx)] st) (\<lambda>st row.
       bind_run (movements_insert cx optimPhaseId (oph_movementId x) st) (\<lambda>st _.
       Fin st row))))"

definition optimPhase_insert :: "cam_ctx \<Rightarrow> 64 word \<Rightarrow> OptimPhase list \<Rightarrow> ins \<Rightarrow> (ins, unit) run" where
  "optimPhase_insert cx optimId = insert_rows cx (optimPhase_item cx optimId)"

lemma optimPhase_insert_good [good_intro]:
  "all_statements st \<Longrightarrow> good (\<lambda>_. True) (optimPhase_insert cx optimId xs st)"
  unfolding optimPhase_insert_def optimPhase_item_def
  by (rule good_insert_rows, assumption) (rule good_intro | assumption | simp add: optimPhase_table)+

text \<open>Table \<open>optim_data\<close>.\<close>

definition optim_header :: string where
  "optim_header =
     ''INSERT INTO `optim_data`''
     @ ''				(`id`,`split_id`,`start_time`,`end_time`,`month_filter`,''
     @ ''				`day_filter`,`weekday_filter`,`fromhh`,`frommm`,`fromss`,''
     @ ''				`tohh`,`tomm`,`toss`,`optim_cycle_time`,`min_cycle_time`,''
     @ ''				`max_cycle_time`,`coor_phase`,`offset`,`signal_scheme_id`,`device_id`)VALUES''"

definition optim_format :: string where
  "optim_format =
     ''(%lld,%d,%lld,%lld,%d,''
     @ ''            %d,%d,%d,%d,%d,''
     @ ''            %d,%d,%d,%d,%d,''
     @ ''            %d,'%s',%d,%lld,'%s'),''"

lemma optim_table: "table_ok optim_header optim_format
    [KLong, KInt, KLong, KLong, KInt, KInt, KInt, KInt, KInt, KInt, KInt, KInt, KInt, KInt, KInt, KInt, KStr, KInt,
     KLong, KStr]"
  by (rule table_okI) (simp add: optim_header_def insert_into_def, simp add: optim_header_def, simp add: optim_format_def, code_simp)

lemma optim_balanced: "balanced optim_header optim_format"
  by (simp add: balanced_def optim_header_def optim_format_def)

definition optim_item :: "cam_ctx \<Rightarrow> 64 word \<Rightarrow> nat \<Rightarrow> OptimData \<Rightarrow> ins \<Rightarrow> (ins, string) run" where
  "optim_item cx signalSchemeId j x st =
     (bind_run (next_id st) (\<lambda>st optimId.
       let optimStartTime = sub (od_optimTimeType x) 0 (\<lambda>ott. sub (ott_single ott) 0 sts_startTime);
           optimEndTime = sub (od_optimTimeType x) 0 (\<lambda>ott. sub (ott_single ott) 0 sts_endTime);
           monthFilter = sub (od_optimTimeType x) 0 (\<lambda>ott. sub (ott_periodic ott) 0 ps_monthFilter);
           dayFilter = sub (od_optimTimeType x) 0 (\<lambda>ott. sub (ott_periodic ott) 0 ps_dayFilter);
           weekdayFilter = sub (od_optimTimeType x) 0 (\<lambda>ott. sub (ott_periodic ott) 0 ps_weekdayFilter);
           fromhh = sub (od_optimTimeType x) 0 (\<lambda>ott. sub (ott_periodic ott) 0 (\<lambda>p. sub (ps_fromTimePoint p) 0 ltp_hh));
           frommm = sub (od_optimTimeType x) 0 (\<lambda>ott. sub (ott_periodic ott) 0 (\<lambda>p. sub (ps_fromTimePoint p) 0 ltp_mm));
           fromss = sub (od_optimTimeType x) 0 (\<lambda>ott. sub (ott_periodic ott) 0 (\<lambda>p. sub (ps_fromTimePoint p) 0 ltp_ss));
           tohh = sub (od_optimTimeType x) 0 (\<lambda>ott. sub (ott_periodic ott) 0 (\<lambda>p. sub (ps_toTimePoint p) 0 ltp_hh));
           tomm = sub (od_optimTimeType x) 0 (\<lambda>ott. sub (ott_periodic ott) 0 (\<lambda>p. sub (ps_toTimePoint p) 0 ltp_mm));
           toss = sub (od_optimTimeType x) 0 (\<lambda>ott. sub (ott_periodic ott) 0 (\<lambda>p. sub (ps_toTimePoint p) 0 ltp_ss));
           optimCycleTime = od_optimCycleTime x;
           minCycleTime = od_minCycleTime x;
           maxCycleTime = od_maxCycleTime x;
           coorPhase = od_coorPhase x;
           offset = od_offset x
       in bind_run (put_row 10240 j optim_header optim_format
           [I64 optimId, I32 (cx_splitId cx), I64 optimStartTime, I64 optimEndTime, I32 monthFilter, I32 dayFilter, I32 weekdayFilter,
            I32 fromhh, I32 frommm, I32 fromss, I32 tohh, I32 tomm, I32 toss, I32 optimCycleTime, I32 minCycleTime, I32 maxCycleTime,
            CStr coorPhase, I32 offset, I64 signalSchemeId, CStr (cx_deviceId cx)] st) (\<lambda>st row.
       bind_run (optimPhase_insert cx optimId (od_optimPhaseList x) st) (\<lambda>st _.
       Fin st row))))"

definition optim_insert :: "cam_ctx \<Rightarrow> 64 word \<Rightarrow> OptimData list \<Rightarrow> ins \<Rightarrow> (ins, unit) run" where
  "optim_insert cx signalSchemeId = insert_rows cx (optim_item cx signalSchemeId)"

lemma optim_insert_good [good_intro]:
  "all_statements st \<Longrightarrow> good (\<lambda>_. True) (optim_insert cx signalSchemeId xs st)"
  unfolding optim_insert_def optim_item_def
  by (rule good_insert_rows, assumption) (rule good_intro | assumption | simp add: optim_table)+

text \<open>Table \<open>signal_scheme\<close>.\<close>

definition signalScheme_header :: string where
  "signalScheme_header =
     ''INSERT INTO `signal_scheme`''
     @ ''			(`id`,`split_id`,`node_region_id`,`node_id`,`optim_type`,`timestamp`,`cam_data_id`,`device_id`)VALUES''"

definition signalScheme_format :: string where
  "signalScheme_format =
     ''(%lld,%d,%d,%d,%d,%lld,%lld,'%s'),''"

lemma signalScheme_table: "table_ok signalScheme_header signalScheme_format
    [KLong, KInt, KInt, KInt, KInt, KLong, KLong, KStr]"
  by (rule table_okI) (simp add: signalScheme_header_def insert_into_def, simp add: signalScheme_header_def, simp add: signalScheme_format_def, code_simp)

lemma signalScheme_balanced: "balanced signalScheme_header signalScheme_format"
  by (simp add: balanced_def signalScheme_header_def signalScheme_format_def)

definition signalScheme_item :: "cam_ctx \<Rightarrow> nat \<Rightarrow> SignalScheme \<Rightarrow> ins \<Rightarrow> (ins, string) run" where
  "signalScheme_item cx i x st =
     (bind_run (next_id st) (\<lambda>st signalSchemeId.
       let signalSchemeNodeRegionId = sub (sch_nodeId x) 0 nri_region;
           signalSchemeNodeId = sub (sch_nodeId x) 0 nri_nodeId;
           optimType = sch_optimType x;
           signalSchemetimestamp = sch_timestamp x
       in bind_run (put_row 10240 i signalScheme_header signalScheme_format
           [I64 signalSchemeId, I32 (cx_splitId cx), I32 signalSchemeNodeRegionId, I32 signalSchemeNodeId, I32 optimType,
            I64 signalSchemetimestamp, I64 (cx_camId cx), CStr (cx_deviceId cx)] st) (\<lambda>st row.
       bind_run (optim_insert cx signalSchemeId (sch_optimDataList x) st) (\<lambda>st _.
       Fin st row))))"

definition signalScheme_insert :: "cam_ctx \<Rightarrow> SignalScheme list \<Rightarrow> ins \<Rightarrow> (ins, unit) run" where
  "signalScheme_insert cx = insert_rows cx (signalScheme_item cx)"

lemma signalScheme_insert_good [good_intro]:
  "all_statements st \<Longrightarrow> good (\<lambda>_. True) (signalScheme_insert cx xs st)"
  unfolding signalScheme_insert_def signalScheme_item_def
  by (rule good_insert_rows, assumption) (rule good_intro | assumption | simp add: signalScheme_table)+

end
