(* ===== verification/CamCoop.thy ===== *)
theory CamCoop
  imports CamSql CamMessages
begin

text \<open>
  What \<open>camInsert\<close> stores of the coordination messages of the road side: suggestions to one vehicle with the
  path planned for it, and the coordination of a lane.
\<close>

section \<open>Coordination of vehicles\<close>

text \<open>Table \<open>rsc_data_drive_suggestion_position_3_d\<close>.\<close>

definition rscDriveSugPos_header :: string where
  "rscDriveSugPos_header =
     ''INSERT INTO `rsc_data_drive_suggestion_position_3_d`(`id`,`split_id`,`lat`,`lon`,`ele`,`rsc_data_id`)VALUES''"

definition rscDriveSugPos_format :: string where
  "rscDriveSugPos_format =
     ''(%lld,%d,%d,%d,%d,%lld),''"

lemma rscDriveSugPos_table: "table_ok rscDriveSugPos_header rscDriveSugPos_format
    [KLong, KInt, KInt, KInt, KInt, KLong]"
  by (rule table_okI) (simp add: rscDriveSugPos_header_def insert_into_def, simp add: rscDriveSugPos_header_def, simp add: rscDriveSugPos_format_def, code_simp)

lemma rscDriveSugPos_balanced: "balanced rscDriveSugPos_header rscDriveSugPos_format"
  by (simp add: balanced_def rscDriveSugPos_header_def rscDriveSugPos_format_def)

definition rscDriveSugPos_item :: "cam_ctx \<Rightarrow> 64 word \<Rightarrow> nat \<Rightarrow> Position3D \<Rightarrow> ins \<Rightarrow> (ins, string) run" where
  "rscDriveSugPos_item cx rsclistId j x st =
     (bind_run (next_id st) (\<lambda>st rscDriveSugPosId.
       put_row 4096 j rscDriveSugPos_header rscDriveSugPos_format
           [I64 rscDriveSugPosId, I32 (cx_splitId cx), I32 (p3_lat x), I32 (p3_lon x), I32 (p3_ele x), I64 rsclistId] st))"

definition rscDriveSugPos_insert :: "cam_ctx \<Rightarrow> 64 word \<Rightarrow> Position3D list \<Rightarrow> ins \<Rightarrow> (ins, unit) run" where
  "rscDriveSugPos_insert cx rsclistId = insert_rows cx (rscDriveSugPos_item cx rsclistId)"

lemma rscDriveSugPos_insert_good [good_intro]:
  "all_statements st \<Longrightarrow> good (\<lambda>_. True) (rscDriveSugPos_insert cx rsclistId xs st)"
  unfolding rscDriveSugPos_insert_def rscDriveSugPos_item_def
  by (rule good_insert_rows, assumption) (rule good_intro | assumption | simp add: rscDriveSugPos_table)+

text \<open>Table \<open>rsc_data_path_planning_point\<close>.\<close>

definition rscPathPlanning_header :: string where
  "rscPathPlanning_header =
     ''INSERT INTO `rsc_data_path_planning_point`(`id`,`split_id`,`lat`,`lon`,`ele`,''
     @ ''						`upstream_node_region_id`,`upstream_node_id`,`downstream_node_region_id`,`downstream_node_id`,`reference_lanes`,''
     @ ''						`speed`,`heading`,`acceleration_lon`,`acceleration_lat`,`acceleration_vert`,''
     @ ''						`acceleration_yaw`,`estimated_time`,`pos_confid_id`,`ele_confid_id`,`speed_confid_id`,''
     @ ''						`heading_confid_id`,`lon_accel_confid_id`,`lat_accel_confid_id`,`vertical_accel_confid_id`,`yaw_rate_confid_id`,''
     @ ''						`time_confidence_id`,`rsc_data_id`)VALUES''"

definition rscPathPlanning_format :: string where
  "rscPathPlanning_format =
     ''(%lld,%d,%d,%d,%d,''
     @ ''					%d,%d,%d,%d,%d,''
     @ ''					%d,%d,%d,%d,%d,''
     @ ''					%d,%d,%d,%d,%d,''
     @ ''					%d,%d,%d,%d,%d,%d,%lld),''"

lemma rscPathPlanning_table: "table_ok rscPathPlanning_header rscPathPlanning_format
    [KLong, KInt, KInt, KInt, KInt, KInt, KInt, KInt, KInt, KInt, KInt, KInt, KInt, KInt, KInt, KInt, KInt, KInt, KInt,
     KInt, KInt, KInt, KInt, KInt, KInt, KInt, KLong]"
  by (rule table_okI) (simp add: rscPathPlanning_header_def insert_into_def, simp add: rscPathPlanning_header_def, simp add: rscPathPlanning_format_def, code_simp)

lemma rscPathPlanning_balanced: "balanced rscPathPlanning_header rscPathPlanning_format"
  by (simp add: balanced_def rscPathPlanning_header_def rscPathPlanning_format_def)

definition rscPathPlanning_item :: "cam_ctx \<Rightarrow> 64 word \<Rightarrow> nat \<Rightarrow> PathPlanningPoint \<Rightarrow> ins \<Rightarrow> (ins, string) run" where
  "rscPathPlanning_item cx rsclistId k x st =
     (bind_run (next_id st) (\<lambda>st rscPathPlanningId.
       let rscPathPlanningLat = sub (pp_pos x) 0 p3_lat;
           rscPathPlanningLon = sub (pp_pos x) 0 p3_lon;
           rscPathPlanningEle = sub (pp_pos x) 0 p3_ele;
           rscposConfidPosCfd = sub (pp_posConfid x) 0 pcs_posConfid;
           rscposConfidEleCfd = sub (pp_posConfid x) 0 pcs_eleConfid;
           rscAcceSetLat = sub (pp_acceleration x) 0 as4w_lat;
           rscAcceSetYaw = sub (pp_acceleration x) 0 as4w_yaw;
           rscAcceSetLon = sub (pp_acceleration x) 0 as4w_lon;
           rscAcceSetVert = sub (pp_acceleration x) 0 as4w_vert;
           rscAcceSetLatCfd = sub (pp_accelerationConfid x) 0 ac_latAccelConfid;
           rscAcceSetYawCfd = sub (pp_accelerationConfid x) 0 ac_yawRateConfid;
           rscAcceSetLonCfd = sub (pp_accelerationConfid x) 0 ac_lonAccelConfid;
           rscAcceSetVertCfd = sub (pp_accelerationConfid x) 0 ac_verticalAccelConfid;
           pathPlanningUpstreamNodeRegionId = sub (pp_posInMap x) 0 (\<lambda>pim. sub (rlk_upstreamNodeId pim) 0 nri_region);
           pathPlanningUpstreamNodeId = sub (pp_posInMap x) 0 (\<lambda>pim. sub (rlk_upstreamNodeId pim) 0 nri_nodeId);
           pathPlanningDownstreamNodeRegionId = sub (pp_posInMap x) 0 (\<lambda>pim. sub (rlk_downstreamNodeId pim) 0 nri_region);
           pathPlanningDownstreamNodeId = sub (pp_posInMap x) 0 (\<lambda>pim. sub (rlk_downstreamNodeId pim) 0 nri_nodeId);
           pathPlanningReferenceLanes = sub (pp_posInMap x) 0 (\<lambda>pim. sub (rlk_referenceLanes pim) 0 rl_referenceLanes)
       in put_row 10240 k rscPathPlanning_header rscPathPlanning_format
           [I64 rscPathPlanningId, I32 (cx_splitId cx), I32 rscPathPlanningLat, I32 rscPathPlanningLon, I32 rscPathPlanningEle,
            I32 pathPlanningUpstreamNodeRegionId, I32 pathPlanningUpstreamNodeId, I32 pathPlanningDownstreamNodeRegionId,
            I32 pathPlanningDownstreamNodeId, I32 pathPlanningReferenceLanes, I32 (pp_speed x), I32 (pp_heading x), I32 rscAcceSetLon,
            I32 rscAcceSetLat, I32 rscAcceSetVert, I32 rscAcceSetYaw, I32 (pp_estimatedTime x), I32 rscposConfidPosCfd,
            I32 rscposConfidEleCfd, I32 (pp_speedConfid x), I32 (pp_headingConfid x), I32 rscAcceSetLonCfd, I32 rscAcceSetLatCfd,
            I32 rscAcceSetVertCfd, I32 rscAcceSetYawCfd, I32 (pp_timeConfidence x), I64 rsclistId] st))"

definition rscPathPlanning_insert :: "cam_ctx \<Rightarrow> 64 word \<Rightarrow> PathPlanningPoint list \<Rightarrow> ins \<Rightarrow> (ins, unit) run" where
  "rscPathPlanning_insert cx rsclistId = insert_rows cx (rscPathPlanning_item cx rsclistId)"

lemma rscPathPlanning_insert_good [good_intro]:
  "all_statements st \<Longrightarrow> good (\<lambda>_. True) (rscPathPlanning_insert cx rsclistId xs st)"
  unfolding rscPathPlanning_insert_def rscPathPlanning_item_def
  by (rule good_insert_rows, assumption) (rule good_intro | assumption | simp add: rscPathPlanning_table)+

text \<open>Table \<open>rsc_data_lane_coordination_position_3_d\<close>.\<close>

definition rscLaneCoorPos_header :: string where
  "rscLaneCoorPos_header =
     ''INSERT INTO `rsc_data_lane_coordination_position_3_d`(`id`,`split_id`,`lat`,`lon`,`ele`,`rsc_data_id`)VALUES''"

definition rscLaneCoorPos_format :: string where
  "rscLaneCoorPos_format =
     ''(%lld,%d,%d,%d,%d,%lld),''"

lemma rscLaneCoorPos_table: "table_ok rscLaneCoorPos_header rscLaneCoorPos_format
    [KLong, KInt, KInt, KInt, KInt, KLong]"
  by (rule table_okI) (simp add: rscLaneCoorPos_header_def insert_into_def, simp add: rscLaneCoorPos_header_def, simp add: rscLaneCoorPos_format_def, code_simp)

lemma rscLaneCoorPos_balanced: "balanced rscLaneCoorPos_header rscLaneCoorPos_format"
  by (simp add: balanced_def rscLaneCoorPos_header_def rscLaneCoorPos_format_def)

definition rscLaneCoorPos_item :: "cam_ctx \<Rightarrow> 64 word \<Rightarrow> nat \<Rightarrow> Position3D \<Rightarrow> ins \<Rightarrow> (ins, string) run" where
  "rscLaneCoorPos_item cx rsclistId m x st =
     (bind_run (next_id st) (\<lambda>st rscLaneCoorPosId.
       put_row 10240 m rscLaneCoorPos_header rscLaneCoorPos_format
           [I64 rscLaneCoorPosId, I32 (cx_splitId cx), I32 (p3_lat x), I32 (p3_lon x), I32 (p3_ele x), I64 rsclistId] st))"

definition rscLaneCoorPos_insert :: "cam_ctx \<Rightarrow> 64 word \<Rightarrow> Position3D list \<Rightarrow> ins \<Rightarrow> (ins, unit) run" where
  "rscLaneCoorPos_insert cx rsclistId = insert_rows cx (rscLaneCoorPos_item cx rsclistId)"

lemma rscLaneCoorPos_insert_good [good_intro]:
  "all_statements st \<Longrightarrow> good (\<lambda>_. True) (rscLaneCoorPos_insert cx rsclistId xs st)"
  unfolding rscLaneCoorPos_insert_def rscLaneCoorPos_item_def
  by (rule good_insert_rows, assumption) (rule good_intro | assumption | simp add: rscLaneCoorPos_table)+

text \<open>Table \<open>rsc_data\<close>.\<close>

definition rsc_header :: string where
  "rsc_header =
     ''INSERT INTO `rsc_data`(`id`,`split_id`,`msg_cnt`,`rsu_id`,`timestamp`,''
     @ ''			`lat`,`lon`,`ele`,`veh_id`,`drive_suggestion_suggestion`,''
     @ ''			`time_offset`,`drive_suggestion_upstream_node_region_id`,`drive_suggestion_upstream_node_id`,`drive_suggestion_downstream_node_region_id`,`drive_suggestion_downstream_node_id`,''
     @ ''			`drive_suggestion_reference_lanes`,`drive_suggestion_path_radius`,`coordinates_info`,`lane_coordinatio_upstream_node_region_id`,`lane_coordinatio_upstream_node_id`,''
     @ ''			`lane_coordinatio_downstream_node_region_id`,`lane_coordinatio_downstream_node_id`,`lane_coordinatio_reference_lanes`,`path_radius`,`t_begin`,''
     @ ''			`t_end`,`recommended_speed`,`recommended_behavior`,`lane_coordinates_info`,`description`,''
     @ ''			`cam_data_id`)VALUES''"

definition rsc_format :: string where
  "rsc_format =
     ''(%lld,%d,%d,'%s',%lld,''
     @ ''		%d,%d,%d,'%s',%d,''
     @ ''		%d,%d,%d,%d,%d,''
     @ ''		%d,%d,%d,%d,%d,''
     @ ''		%d,%d,%d,%d,%lld,''
     @ ''		%lld,%d,%d,%d,'%s',%lld),''"

lemma rsc_table: "table_ok rsc_header rsc_format
    [KLong, KInt, KInt, KStr, KLong, KInt, KInt, KInt, KStr, KInt, KInt, KInt, KInt, KInt, KInt, KInt, KInt, KInt, KInt,
     KInt, KInt, KInt, KInt, KInt, KLong, KLong, KInt, KInt, KInt, KStr, KLong]"
  by (rule table_okI) (simp add: rsc_header_def insert_into_def, simp add: rsc_header_def, simp add: rsc_format_def, code_simp)

lemma rsc_balanced: "balanced rsc_header rsc_format"
  by (simp add: balanced_def rsc_header_def rsc_format_def)

definition rsc_item :: "cam_ctx \<Rightarrow> nat \<Rightarrow> RscData \<Rightarrow> ins \<Rightarrow> (ins, string) run" where
  "rsc_item cx i x st =
     (bind_run (next_id st) (\<lambda>st rsclistId.
       bind_run (on_part (rsc_coordinates x) (\<lambda>c st.
         bind_run (on_part (vc_driveSuggestion c) (\<lambda>ds. on_part (ds_relatedPath ds) (\<lambda>rp. rscDriveSugPos_insert cx rsclistId (rp_activePath rp))) st) (\<lambda>st _.
         on_part (vc_pathGuidance c) (\<lambda>pg. rscPathPlanning_insert cx rsclistId (plan_pathPlanning pg)) st)) st) (\<lambda>st _.
       bind_run (on_part (rsc_laneCoordinates x) (\<lambda>lc. on_part (lc_relatedPath lc) (\<lambda>rp. rscLaneCoorPos_insert cx rsclistId (rp_activePath rp))) st) (\<lambda>st _.
       let rscLat = sub (rsc_pos x) 0 p3_lat;
           rscLon = sub (rsc_pos x) 0 p3_lon;
           rscEle = sub (rsc_pos x) 0 p3_ele;
           vehId = sub (rsc_coordinates x) '''' vc_vehId;
           driveSuggestionSuggestion = sub (rsc_coordinates x) 0 (\<lambda>c. sub (vc_driveSuggestion c) 0 
             (\<lambda>ds. sub (ds_suggestion ds) 0 db_driveBehavior));
           timeOffset = sub (rsc_coordinates x) 0 (\<lambda>c. sub (vc_driveSuggestion c) 0 ds_timeOffset);
           driveSuggestionUpstreamNodeRegionId = sub (rsc_coordinates x) 0 (\<lambda>c. sub (vc_driveSuggestion c) 0 
             (\<lambda>ds. sub (ds_relatedLink ds) 0 (\<lambda>rl. sub (rlk_upstreamNodeId rl) 0 nri_region)));
           driveSuggestionUpstreamNodeId = sub (rsc_coordinates x) 0 (\<lambda>c. sub (vc_driveSuggestion c) 0 
             (\<lambda>ds. sub (ds_relatedLink ds) 0 (\<lambda>rl. sub (rlk_upstreamNodeId rl) 0 nri_nodeId)));
           driveSuggestionDownstreamNodeRegionId = sub (rsc_coordinates x) 0 (\<lambda>c. sub (vc_driveSuggestion c) 0 
             (\<lambda>ds. sub (ds_relatedLink ds) 0 (\<lambda>rl. sub (rlk_downstreamNodeId rl) 0 nri_region)));
           driveSuggestionDownstreamNodeId = sub (rsc_coordinates x) 0 (\<lambda>c. sub (vc_driveSuggestion c) 0 
             (\<lambda>ds. sub (ds_relatedLink ds) 0 (\<lambda>rl. sub (rlk_downstreamNodeId rl) 0 nri_nodeId)));
           driveSuggestionReferenceLanes = sub (rsc_coordinates x) 0 (\<lambda>c. sub (vc_driveSuggestion c) 0 
             (\<lambda>ds. sub (ds_relatedLink ds) 0 (\<lambda>rl. sub (rlk_referenceLanes rl) 0 rl_referenceLanes)));
           driveSuggestionPathRadius = sub (rsc_coordinates x) 0 (\<lambda>c. sub (vc_driveSuggestion c) 0 
             (\<lambda>ds. sub (ds_relatedPath ds) 0 rp_pathRadius));
           vehicleCoordinationInfo = 0;
           laneCoordinatioUpstreamNodeRegionId = sub (rsc_laneCoordinates x) 0 (\<lambda>lc. sub (lc_targetLane lc) 0 
             (\<lambda>tl. sub (rlk_upstreamNodeId tl) 0 nri_region));
           laneCoordinatioUpstreamNodeId = sub (rsc_laneCoordinates x) 0 (\<lambda>lc. sub (lc_targetLane lc) 0 
             (\<lambda>tl. sub (rlk_upstreamNodeId tl) 0 nri_nodeId));
           laneCoordinatioDownstreamNodeRegionId = sub (rsc_laneCoordinates x) 0 (\<lambda>lc. sub (lc_targetLane lc) 0 
             (\<lambda>tl. sub (rlk_downstreamNodeId tl) 0 nri_region));
           laneCoordinatioDownstreamNodeId = sub (rsc_laneCoordinates x) 0 (\<lambda>lc. sub (lc_targetLane lc) 0 
             (\<lambda>tl. sub (rlk_downstreamNodeId tl) 0 nri_nodeId));
           laneCoordinatioReferenceLanes = sub (rsc_laneCoordinates x) 0 (\<lambda>lc. sub (lc_targetLane lc) 0 
             (\<lambda>tl. sub (rlk_referenceLanes tl) 0 rl_referenceLanes));
           tBegin = sub (rsc_laneCoordinates x) 0 lc_tBegin;
           tEnd = sub (rsc_laneCoordinates x) 0 lc_tEnd;
           laneCoordinatioPathRadius = sub (rsc_laneCoordinates x) 0 (\<lambda>lc. sub (lc_relatedPath lc) 0 rp_pathRadius);
           recommendedSpeed = sub (rsc_laneCoordinates x) 0 lc_recommendedSpeed;
           recommendedBehavior = sub (rsc_laneCoordinates x) 0 (\<lambda>lc. sub (lc_recommendedBehavior lc) 0 db_driveBehavior);
           laneCoordinatesInfo = sub (rsc_laneCoordinates x) 0 (\<lambda>lc. sub (lc_info lc) 0 ci_coordinationInfo);
           description = sub (rsc_laneCoordinates x) '''' lc_description
       in put_row 40960 i rsc_header rsc_format
           [I64 rsclistId, I32 (cx_splitId cx), I32 (rsc_msgCnt x), CStr (rsc_rsuId x), I64 (rsc_timestamp x), I32 rscLat, I32 rscLon,
            I32 rscEle, CStr vehId, I32 driveSuggestionSuggestion, I32 timeOffset, I32 driveSuggestionUpstreamNodeRegionId,
            I32 driveSuggestionUpstreamNodeId, I32 driveSuggestionDownstreamNodeRegionId, I32 driveSuggestionDownstreamNodeId,
            I32 driveSuggestionReferenceLanes, I32 driveSuggestionPathRadius, I32 vehicleCoordinationInfo,
            I32 laneCoordinatioUpstreamNodeRegionId, I32 laneCoordinatioUpstreamNodeId, I32 laneCoordinatioDownstreamNodeRegionId,
            I32 laneCoordinatioDownstreamNodeId, I32 laneCoordinatioReferenceLanes, I32 laneCoordinatioPathRadius, I64 tBegin, I64 tEnd,
            I32 recommendedSpeed, I32 recommendedBehavior, I32 laneCoordinatesInfo, CStr description, I64 (cx_camId cx)] st))))"

definition rsc_insert :: "cam_ctx \<Rightarrow> RscData list \<Rightarrow> ins \<Rightarrow> (ins, unit) run" where
  "rsc_insert cx = insert_rows cx (rsc_item cx)"

lemma rsc_insert_good [good_intro]:
  "all_statements st \<Longrightarrow> good (\<lambda>_. True) (rsc_insert cx xs st)"
  unfolding rsc_insert_def rsc_item_def
  by (rule good_insert_rows, assumption) (rule good_intro | assumption | simp add: rsc_table)+

end
