(* ===== verification/CamVir.thy ===== *)
theory CamVir
  imports CamSql CamMessages
begin

text \<open>
  What \<open>camInsert\<close> stores of the intentions and requests of vehicles. The innermost loop, over the points of the
  area that a request wants to see, tests and advances the index of the vehicle (\<open>i\<close>) instead of its own (\<open>m\<close>), so
  the loops around it read another vehicle, or none, when it returns: they are modelled with the index passed
  through them.
\<close>

section \<open>The planned path\<close>

text \<open>Table \<open>vir_data_path_planning_point\<close>.\<close>

definition virPath_header :: string where
  "virPath_header =
     ''INSERT INTO `vir_data_path_planning_point`''
     @ ''				(`id`,`split_id`,`lat`,`lon`,`ele`,''
     @ ''				`upstream_node_region_id`,`upstream_node_id`,`downstream_node_region_id`,`downstream_node_id`,`reference_lanes`,''
     @ ''				`speed`,`heading`,`acceleration_lon`,`acceleration_lat`,`acceleration_vert`,''
     @ ''				`acceleration_yaw`,`estimated_time`,`pos_confid_id`,`ele_confid_id`,`speed_confid_id`,''
     @ ''				`heading_confid_id`,`lon_accel_confid_id`,`lat_accel_confid_id`,`vertical_accel_confid_id`,`yaw_rate_confid_id`,''
     @ ''				`time_confidence_id`,`vir_data_id`)VALUES''"

definition virPath_format :: string where
  "virPath_format =
     ''(%lld,%d,%d,%d,%d,''
     @ ''			%d,%d,%d,%d,%d,''
     @ ''			%d,%d,%d,%d,%d,''
     @ ''			%d,%d,%d,%d,%d,''
     @ ''        		%d,%d,%d,%d,%d,%d,%lld),''"

lemma virPath_table: "table_ok virPath_header virPath_format
    [KLong, KInt, KInt, KInt, KInt, KInt, KInt, KInt, KInt, KInt, KInt, KInt, KInt, KInt, KInt, KInt, KInt, KInt, KInt,
     KInt, KInt, KInt, KInt, KInt, KInt, KInt, KLong]"
  by (rule table_okI) (simp add: virPath_header_def insert_into_def, simp add: virPath_header_def, simp add: virPath_format_def, code_simp)

lemma virPath_balanced: "balanced virPath_header virPath_format"
  by (simp add: balanced_def virPath_header_def virPath_format_def)

definition virPath_item :: "cam_ctx \<Rightarrow> 64 word \<Rightarrow> nat \<Rightarrow> PathPlanningPoint \<Rightarrow> ins \<Rightarrow> (ins, string) run" where
  "virPath_item cx virId j x st =
     (bind_run (next_id st) (\<lambda>st virPathId.
       let virPathSpeed = pp_speed x;
           virPathHeading = pp_heading x;
           virPathSpeedConfid = pp_speedConfid x;
           virPathHeadingConfid = pp_headingConfid x;
           virPathEstimatedTime = pp_estimatedTime x;
           virPathTimeConfidence = pp_timeConfidence x;
           virPathPosLat = sub (pp_pos x) 0 p3_lat;
           virPathPosLon = sub (pp_pos x) 0 p3_lon;
           virPathPosEle = sub (pp_pos x) 0 p3_ele;
           virPathPosConfid = sub (pp_posConfid x) 0 pcs_posConfid;
           virPathEleConfid = sub (pp_posConfid x) 0 pcs_eleConfid;
           virPathAcclerationLon = sub (pp_acceleration x) 0 as4w_lon;
           virPathAcclerationLat = sub (pp_acceleration x) 0 as4w_lat;
           virPathAcclerationVert = sub (pp_acceleration x) 0 as4w_vert;
           virPathAcclerationYaw = sub (pp_acceleration x) 0 as4w_yaw;
           virPathLonAccelConfid = sub (pp_accelerationConfid x) 0 ac_lonAccelConfid;
           virPathLatAccelConfid = sub (pp_accelerationConfid x) 0 ac_latAccelConfid;
           virPathVertAccelConfid = sub (pp_accelerationConfid x) 0 ac_verticalAccelConfid;
           virPathYawAccelConfid = sub (pp_accelerationConfid x) 0 ac_yawRateConfid;
           virPathReferenceLanes = sub (pp_posInMap x) 0 (\<lambda>pim. sub (rlk_referenceLanes pim) 0 rl_referenceLanes);
           virPathUpstreamNodeRegionId = sub (pp_posInMap x) 0 (\<lambda>pim. sub (rlk_upstreamNodeId pim) 0 nri_region);
           virPathUpstreamNodeId = sub (pp_posInMap x) 0 (\<lambda>pim. sub (rlk_upstreamNodeId pim) 0 nri_nodeId);
           virPathDownstreamNodeRegionId = sub (pp_posInMap x) 0 (\<lambda>pim. sub (rlk_downstreamNodeId pim) 0 nri_region);
           virPathDownstreamNodeId = sub (pp_posInMap x) 0 (\<lambda>pim. sub (rlk_downstreamNodeId pim) 0 nri_nodeId)
       in put_row 10240 j virPath_header virPath_format
           [I64 virPathId, I32 (cx_splitId cx), I32 virPathPosLat, I32 virPathPosLon, I32 virPathPosEle, I32 virPathUpstreamNodeRegionId,
            I32 virPathUpstreamNodeId, I32 virPathDownstreamNodeRegionId, I32 virPathDownstreamNodeId, I32 virPathReferenceLanes,
            I32 virPathSpeed, I32 virPathHeading, I32 virPathAcclerationLon, I32 virPathAcclerationLat, I32 virPathAcclerationVert,
            I32 virPathAcclerationYaw, I32 virPathEstimatedTime, I32 virPathPosConfid, I32 virPathEleConfid, I32 virPathSpeedConfid,
            I32 virPathHeadingConfid, I32 virPathLonAccelConfid, I32 virPathLatAccelConfid, I32 virPathVertAccelConfid,
            I32 virPathYawAccelConfid, I32 virPathTimeConfidence, I64 virId] st))"

definition virPath_insert :: "cam_ctx \<Rightarrow> 64 word \<Rightarrow> PathPlanningPoint list \<Rightarrow> ins \<Rightarrow> (ins, unit) run" where
  "virPath_insert cx virId = insert_rows cx (virPath_item cx virId)"

lemma virPath_insert_good [good_intro]:
  "all_statements st \<Longrightarrow> good (\<lambda>_. True) (virPath_insert cx virId xs st)"
  unfolding virPath_insert_def virPath_item_def
  by (rule good_insert_rows, assumption) (rule good_intro | assumption | simp add: virPath_table)+

section \<open>The rows of the requests\<close>

text \<open>Table \<open>drive_request_reference_path\<close>.\<close>

definition driveReqRef_header :: string where
  "driveReqRef_header =
     ''INSERT INTO `drive_request_reference_path`''
     @ ''					(`id`,`split_id`,`path_radius`,`drive_request_id`)VALUES''"

definition driveReqRef_format :: string where
  "driveReqRef_format =
     ''(%lld,%d,%d,%lld),''"

lemma driveReqRef_table: "table_ok driveReqRef_header driveReqRef_format
    [KLong, KInt, KInt, KLong]"
  by (rule table_okI) (simp add: driveReqRef_header_def insert_into_def, simp add: driveReqRef_header_def, simp add: driveReqRef_format_def, code_simp)

lemma driveReqRef_balanced: "balanced driveReqRef_header driveReqRef_format"
  by (simp add: balanced_def driveReqRef_header_def driveReqRef_format_def)

definition driveReqRef_row :: "cam_ctx \<Rightarrow> 64 word \<Rightarrow> 64 word \<Rightarrow> nat \<Rightarrow> ReferencePath \<Rightarrow> ins \<Rightarrow> (ins, string) run" where
  "driveReqRef_row cx virReqsId driveReqRefId k x st =
     (let driveReqRefPathRadius = rp_pathRadius x
      in put_row 10240 k driveReqRef_header driveReqRef_format
          [I64 driveReqRefId, I32 (cx_splitId cx), I32 driveReqRefPathRadius, I64 virReqsId] st)"

lemma driveReqRef_row_good [good_intro]:
  "all_statements st \<Longrightarrow> good (row_text k) (driveReqRef_row cx virReqsId driveReqRefId k x st)"
  unfolding driveReqRef_row_def by (rule good_intro | assumption | simp add: driveReqRef_table)+

text \<open>Table \<open>drive_request\<close>.\<close>

definition virReqs_header :: string where
  "virReqs_header =
     ''INSERT INTO `drive_request`''
     @ ''				(`id`,`split_id`,`req_id`,`req_priority`,`target_veh`,''
     @ ''				`targer_rsu`,`lane_change_up_stream_node_region_id`,`lane_change_up_stream_node_id`,`lane_change_down_stream_node_region_id`,`lane_change_down_stream_node_id`,''
     @ ''				`lane_change_target_lane`,`clear_the_way_up_stream_node_region_id`,`clear_the_way_up_stream_node_id`,`clear_the_way_down_stream_node_region_id`,`clear_the_way_down_stream_node_id`,''
     @ ''				`clear_the_way_target_lane`,`intersection_node_region_id`,`intersection_node_id`,`movement_stat_info_node_region_id`,`movement_stat_info_node_id`,''
     @ ''				`estimated_arrival_time`,`distance_2_intersection`,`req`,`parking_type`,`expected_parking_slot_id`,''
     @ ''				`life_time`,`status_id`,`vehicle_type_id`,`turn_direction_id`,`vir_data_id`)VALUES''"

definition virReqs_format :: string where
  "virReqs_format =
     ''(%lld,%d,%d,'%s','%s',''
     @ ''            '%s',%d,%d,%d,%d,''
     @ ''            %d,%d,%d,%d,%d,''
     @ ''            %d,%d,%d,%d,%d,''
     @ ''            %d,%d,%d,%d,%d,''
     @ ''            %d,%d,%d,%d,%lld),''"

lemma virReqs_table: "table_ok virReqs_header virReqs_format
    [KLong, KInt, KInt, KStr, KStr, KStr, KInt, KInt, KInt, KInt, KInt, KInt, KInt, KInt, KInt, KInt, KInt, KInt, KInt,
     KInt, KInt, KInt, KInt, KInt, KInt, KInt, KInt, KInt, KInt, KLong]"
  by (rule table_okI) (simp add: virReqs_header_def insert_into_def, simp add: virReqs_header_def, simp add: virReqs_format_def, code_simp)

lemma virReqs_balanced: "balanced virReqs_header virReqs_format"
  by (simp add: balanced_def virReqs_header_def virReqs_format_def)

definition virReqs_row :: "cam_ctx \<Rightarrow> 64 word \<Rightarrow> 64 word \<Rightarrow> nat \<Rightarrow> DriveRequest \<Rightarrow> ins \<Rightarrow> (ins, string) run" where
  "virReqs_row cx virId virReqsId j x st =
     (let reqId = dr_reqId x;
          reqStatus = dr_status x;
          reqPriority = dr_reqPriority x;
          targetVeh = dr_targetVeh x;
          targetRsu = dr_targetRsu x;
          reqLifeTime = dr_lifeTime x;
          laneChangeUpStreamNodeRegionId = sub (dr_info x) 0 (\<lambda>i0. sub (req_laneChange i0) 0 
            (\<lambda>lc. sub (rlc_upStreamNode lc) 0 nri_region));
          laneChangeUpStreamNodeId = sub (dr_info x) 0 (\<lambda>i0. sub (req_laneChange i0) 0 (\<lambda>lc. sub (rlc_upStreamNode lc) 0 nri_nodeId));
          laneChangeDownStreamNodeRegionId = sub (dr_info x) 0 (\<lambda>i0. sub (req_laneChange i0) 0 
            (\<lambda>lc. sub (rlc_downStreamNode lc) 0 nri_nodeId));
          laneChangeDownStreamNodeId = 0;
          laneChangeTargetLane = sub (dr_info x) 0 (\<lambda>i0. sub (req_laneChange i0) 0 rlc_targetLane);
          clearTheWayUpStreamNodeRegionId = sub (dr_info x) 0 (\<lambda>i0. sub (req_clearTheWay i0) 0 
            (\<lambda>ctw. sub (rctw_upStreamNode ctw) 0 nri_region));
          clearTheWayUpStreamNodeId = sub (dr_info x) 0 (\<lambda>i0. sub (req_clearTheWay i0) 0 
            (\<lambda>ctw. sub (rctw_upStreamNode ctw) 0 nri_nodeId));
          clearTheWayDownStreamNodeRegionId = sub (dr_info x) 0 (\<lambda>i0. sub (req_clearTheWay i0) 0 
            (\<lambda>ctw. sub (rctw_downStreamNode ctw) 0 nri_region));
          clearTheWayDownStreamNodeId = sub (dr_info x) 0 (\<lambda>i0. sub (req_clearTheWay i0) 0 
            (\<lambda>ctw. sub (rctw_downStreamNode ctw) 0 nri_nodeId));
          clearTheWayTargetLane = sub (dr_info x) 0 (\<lambda>i0. sub (req_clearTheWay i0) 0 rctw_targetLane);
          intersectionNodeRegionId = sub (dr_info x) 0 (\<lambda>i0. sub (req_signalPriority i0) 0 
            (\<lambda>sp. sub (rsp_intersectionId sp) 0 nri_region));
          intersectionNodeId = sub (dr_info x) 0 (\<lambda>i0. sub (req_signalPriority i0) 0 (\<lambda>sp. sub (rsp_intersectionId sp) 0 nri_nodeId));
          movementStatInfoNodeRegionId = sub (dr_info x) 0 (\<lambda>i0. sub (req_signalPriority i0) 0 
            (\<lambda>sp. sub (rsp_requiredMove sp) 0 (\<lambda>rm. sub (msi_remoteIntersection rm) 0 nri_region)));
          movementStatInfoNodeId = sub (dr_info x) 0 (\<lambda>i0. sub (req_signalPriority i0) 0 
            (\<lambda>sp. sub (rsp_requiredMove sp) 0 (\<lambda>rm. sub (msi_remoteIntersection rm) 0 nri_nodeId)));
          movementStatTurnDirection = sub (dr_info x) 0 (\<lambda>i0. sub (req_signalPriority i0) 0 
            (\<lambda>sp. sub (rsp_requiredMove sp) 0 msi_turnDirection));
          estimatedArrivalTime = sub (dr_info x) 0 (\<lambda>i0. sub (req_signalPriority i0) 0 rsp_estimatedArrivalTime);
          distance2Intersection = sub (dr_info x) 0 (\<lambda>i0. sub (req_signalPriority i0) 0 rsp_distance2Intersection);
          reqParkingVehicleType = sub (dr_info x) 0 (\<lambda>i0. sub (req_parking i0) 0 rpa_vehicleType);
          reqParkingRequest = sub (dr_info x) 0 (\<lambda>i0. sub (req_parking i0) 0 (\<lambda>p. sub (rpa_req p) 0 pkr_req));
          reqParkingType = sub (dr_info x) 0 (\<lambda>i0. sub (req_parking i0) 0 (\<lambda>p. sub (rpa_parkingType p) 0 pkt_parkingType));
          expectedParkingSlotId = sub (dr_info x) 0 (\<lambda>i0. sub (req_parking i0) 0 rpa_expectedParkingSlotId)
      in put_row 10240 j virReqs_header virReqs_format
          [I64 virReqsId, I32 (cx_splitId cx), I32 reqId, CStr reqPriority, CStr targetVeh, CStr targetRsu,
           I32 laneChangeUpStreamNodeRegionId, I32 laneChangeUpStreamNodeId, I32 laneChangeDownStreamNodeRegionId,
           I32 laneChangeDownStreamNodeId, I32 laneChangeTargetLane, I32 clearTheWayUpStreamNodeRegionId, I32 clearTheWayUpStreamNodeId,
           I32 clearTheWayDownStreamNodeRegionId, I32 clearTheWayDownStreamNodeId, I32 clearTheWayTargetLane, I32 intersectionNodeRegionId,
           I32 intersectionNodeId, I32 movementStatInfoNodeRegionId, I32 movementStatInfoNodeId, I32 estimatedArrivalTime,
           I32 distance2Intersection, I32 reqParkingRequest, I32 reqParkingType, I32 expectedParkingSlotId, I32 reqLifeTime, I32 reqStatus,
           I32 reqParkingVehicleType, I32 movementStatTurnDirection, I64 virId] st)"

lemma virReqs_row_good [good_intro]:
  "all_statements st \<Longrightarrow> good (row_text j) (virReqs_row cx virId virReqsId j x st)"
  unfolding virReqs_row_def by (rule good_intro | assumption | simp add: virReqs_table)+

text \<open>Table \<open>vir_data\<close>.\<close>

definition vir_header :: string where
  "vir_header =
     ''INSERT INTO `vir_data`''
     @ ''			(`id`,`split_id`,`msg_cnt`,`vehicle_id`,`timestamp`,''
     @ ''			`lat`,`lon`,`ele`,`current_pos_lat`,`current_pos_lon`,''
     @ ''			`current_pos_ele`,`upstream_node_region_id`,`upstream_node_id`,`downstream_node_region_id`,`downstream_node_id`,''
     @ ''			`reference_lanes`,`speed`,`heading`,`acceleration_lon`,`acceleration_lat`,''
     @ ''			`acceleration_vert`,`acceleration_yaw`,`estimated_time`,`current_behavior`,`pos_confid_id`,''
     @ ''			`ele_confid_id`,`speed_confid_id`,`heading_confid_id`,`lon_accel_confid_id`,`lat_accel_confid_id`,''
     @ ''			`vertical_accel_confid_id`,`yaw_rate_confid_id`,`time_confidence_id`,`cam_data_id`)VALUES''"

definition vir_format :: string where
  "vir_format =
     ''(%lld,%d,%d,'%s',%lld,''
     @ ''        %d,%d,%d,%d,%d,''
     @ ''        %d,%d,%d,%d,%d,''
     @ ''        %d,%d,%d,%d,%d,''
     @ ''        %d,%d,%d,%d,%d,''
     @ ''        %d,%d,%d,%d,%d,''
     @ ''        %d,%d,%d,%lld),''"

lemma vir_table: "table_ok vir_header vir_format
    [KLong, KInt, KInt, KStr, KLong, KInt, KInt, KInt, KInt, KInt, KInt, KInt, KInt, KInt, KInt, KInt, KInt, KInt, KInt,
     KInt, KInt, KInt, KInt, KInt, KInt, KInt, KInt, KInt, KInt, KInt, KInt, KInt, KInt, KLong]"
  by (rule table_okI) (simp add: vir_header_def insert_into_def, simp add: vir_header_def, simp add: vir_format_def, code_simp)

lemma vir_balanced: "balanced vir_header vir_format"
  by (simp add: balanced_def vir_header_def vir_format_def)

definition vir_row :: "cam_ctx \<Rightarrow> 64 word \<Rightarrow> nat \<Rightarrow> VirData \<Rightarrow> ins \<Rightarrow> (ins, string) run" where
  "vir_row cx virId i x st =
     (let virMsgCnt = vir_msgCnt x;
          virVehicleId = vir_vehicleId x;
          virTimestamp = vir_timestamp x;
          virLat = sub (vir_pos x) 0 p3_lat;
          virLon = sub (vir_pos x) 0 p3_lon;
          virEle = sub (vir_pos x) 0 p3_ele;
          currentBehavior = sub (vir_intAndReq x) 0 (\<lambda>iar. sub (id_currentBehavior iar) 0 db_driveBehavior);
          virSpeed = sub (vir_intAndReq x) 0 (\<lambda>iar. sub (id_currentPos iar) 0 pp_speed);
          virHeading = sub (vir_intAndReq x) 0 (\<lambda>iar. sub (id_currentPos iar) 0 pp_heading);
          virSpeedConfid = sub (vir_intAndReq x) 0 (\<lambda>iar. sub (id_currentPos iar) 0 pp_speedConfid);
          virHeadingConfid = sub (vir_intAndReq x) 0 (\<lambda>iar. sub (id_currentPos iar) 0 pp_headingConfid);
          virEstimatedTime = sub (vir_intAndReq x) 0 (\<lambda>iar. sub (id_currentPos iar) 0 pp_estimatedTime);
          virTimeConfidence = sub (vir_intAndReq x) 0 (\<lambda>iar. sub (id_currentPos iar) 0 pp_timeConfidence);
          currentPosLat = sub (vir_intAndReq x) 0 (\<lambda>iar. sub (id_currentPos iar) 0 (\<lambda>cp. sub (pp_pos cp) 0 p3_lat));
          currentPosLon = sub (vir_intAndReq x) 0 (\<lambda>iar. sub (id_currentPos iar) 0 (\<lambda>cp. sub (pp_pos cp) 0 p3_lon));
          currentPosEle = sub (vir_intAndReq x) 0 (\<lambda>iar. sub (id_currentPos iar) 0 (\<lambda>cp. sub (pp_pos cp) 0 p3_ele));
          virPosConfid = sub (vir_intAndReq x) 0 (\<lambda>iar. sub (id_currentPos iar) 0 (\<lambda>cp. sub (pp_posConfid cp) 0 pcs_posConfid));
          virEleConfid = sub (vir_intAndReq x) 0 (\<lambda>iar. sub (id_currentPos iar) 0 (\<lambda>cp. sub (pp_posConfid cp) 0 pcs_eleConfid));
          virAcclerationLon = sub (vir_intAndReq x) 0 (\<lambda>iar. sub (id_currentPos iar) 0 (\<lambda>cp. sub (pp_acceleration cp) 0 as4w_lon));
          virAcclerationLat = sub (vir_intAndReq x) 0 (\<lambda>iar. sub (id_currentPos iar) 0 (\<lambda>cp. sub (pp_acceleration cp) 0 as4w_lat));
          virAcclerationVert = sub (vir_intAndReq x) 0 (\<lambda>iar. sub (id_currentPos iar) 0 (\<lambda>cp. sub (pp_acceleration cp) 0 as4w_vert));
          virAcclerationYaw = sub (vir_intAndReq x) 0 (\<lambda>iar. sub (id_currentPos iar) 0 (\<lambda>cp. sub (pp_acceleration cp) 0 as4w_yaw));
          virLonAccelConfid = sub (vir_intAndReq x) 0 (\<lambda>iar. sub (id_currentPos iar) 0 
            (\<lambda>cp. sub (pp_accelerationConfid cp) 0 ac_lonAccelConfid));
          virVertAccelConfid = sub (vir_intAndReq x) 0 (\<lambda>iar. sub (id_currentPos iar) 0 
            (\<lambda>cp. sub (pp_accelerationConfid cp) 0 ac_verticalAccelConfid));
          virYawAccelConfid = sub (vir_intAndReq x) 0 (\<lambda>iar. sub (id_currentPos iar) 0 
            (\<lambda>cp. sub (pp_accelerationConfid cp) 0 ac_yawRateConfid));
          virReferenceLanes = sub (vir_intAndReq x) 0 (\<lambda>iar. sub (id_currentPos iar) 0 
            (\<lambda>cp. sub (pp_posInMap cp) 0 (\<lambda>pim. sub (rlk_referenceLanes pim) 0 rl_referenceLanes)));
          virUpstreamNodeRegionId = sub (vir_intAndReq x) 0 (\<lambda>iar. sub (id_currentPos iar) 0 
            (\<lambda>cp. sub (pp_posInMap cp) 0 (\<lambda>pim. sub (rlk_upstreamNodeId pim) 0 nri_region)));
          virUpstreamNodeId = sub (vir_intAndReq x) 0 (\<lambda>iar. sub (id_currentPos iar) 0 
            (\<lambda>cp. sub (pp_posInMap cp) 0 (\<lambda>pim. sub (rlk_upstreamNodeId pim) 0 nri_nodeId)));
          virDownstreamNodeRegionId = sub (vir_intAndReq x) 0 (\<lambda>iar. sub (id_currentPos iar) 0 
            (\<lambda>cp. sub (pp_posInMap cp) 0 (\<lambda>pim. sub (rlk_downstreamNodeId pim) 0 nri_region)));
          virDownstreamNodeId = sub (vir_intAndReq x) 0 (\<lambda>iar. sub (id_currentPos iar) 0 
            (\<lambda>cp. sub (pp_posInMap cp) 0 (\<lambda>pim. sub (rlk_downstreamNodeId pim) 0 nri_nodeId)))
      in put_row 10240 i vir_header vir_format
          [I64 virId, I32 (cx_splitId cx), I32 virMsgCnt, CStr virVehicleId, I64 virTimestamp, I32 virLat, I32 virLon, I32 virEle,
           I32 currentPosLat, I32 currentPosLon, I32 currentPosEle, I32 virUpstreamNodeRegionId, I32 virUpstreamNodeId,
           I32 virDownstreamNodeRegionId, I32 virDownstreamNodeId, I32 virReferenceLanes, I32 virSpeed, I32 virHeading,
           I32 virAcclerationLon, I32 virAcclerationLat, I32 virAcclerationVert, I32 virAcclerationYaw, I32 virEstimatedTime,
           I32 currentBehavior, I32 virPosConfid, I32 virEleConfid, I32 virSpeedConfid, I32 virHeadingConfid, I32 virLonAccelConfid,
           I32 virAcclerationLat, I32 virVertAccelConfid, I32 virYawAccelConfid, I32 virTimeConfidence, I64 (cx_camId cx)] st)"

lemma vir_row_good [good_intro]:
  "all_statements st \<Longrightarrow> good (row_text i) (vir_row cx virId i x st)"
  unfolding vir_row_def by (rule good_intro | assumption | simp add: vir_table)+

text \<open>Table \<open>drive_request_reference_path_position_3_d\<close>.\<close>

definition driveReqRefPos_header :: string where
  "driveReqRefPos_header =
     ''INSERT INTO `drive_request_reference_path_position_3_d`''
     @ ''						(`id`,`split_id`,`lon`,`lat`,`ele`,`drive_request_reference_path_id`)VALUES''"

definition driveReqRefPos_format :: string where
  "driveReqRefPos_format = ''(%lld,%d,%d,%d,%d,%lld),''"

lemma driveReqRefPos_table: "table_ok driveReqRefPos_header driveReqRefPos_format
    [KLong, KInt, KInt, KInt, KInt, KLong]"
  by (rule table_okI) (simp add: driveReqRefPos_header_def insert_into_def, simp add: driveReqRefPos_header_def,
      simp add: driveReqRefPos_format_def, code_simp)

lemma driveReqRefPos_balanced: "balanced driveReqRefPos_header driveReqRefPos_format"
  by (simp add: balanced_def driveReqRefPos_header_def driveReqRefPos_format_def)

section \<open>The loops over vehicles, requests and areas\<close>

text \<open>
  \<open>virlist(i)\<close> and the requests and areas below it: \<open>None\<close> where an index is past the end, which is undefined
  behaviour.
\<close>

definition reqs_at :: "VirData list \<Rightarrow> nat \<Rightarrow> DriveRequest list option" where
  "reqs_at virs i = (if i < length virs then Some (sub (vir_intAndReq (virs ! i)) [] id_reqs) else None)"

definition areas_of :: "DriveRequest \<Rightarrow> ReferencePath list" where
  "areas_of r = sub (dr_info r) [] (\<lambda>q. sub (req_sensorSharing q) [] rss_detectorArea)"

definition areas_at :: "VirData list \<Rightarrow> nat \<Rightarrow> nat \<Rightarrow> ReferencePath list option" where
  "areas_at virs i j =
     (case reqs_at virs i of None \<Rightarrow> None | Some rs \<Rightarrow> if j < length rs then Some (areas_of (rs ! j)) else None)"

definition bad_index :: string where "bad_index = ''index past the end''"

lemma areas_at_less: "areas_at virs i j = Some as \<Longrightarrow> i < length virs"
  by (auto simp: areas_at_def reqs_at_def split: if_splits)

text \<open>
  The loop over the points: \<open>for (int m = 0; i < detectorarea_size(); i++)\<close>. It returns the index of the vehicle
  with the rows. As \<open>m\<close> stays 0 it reads the first point each time, and puts the head in front of every row.
\<close>

definition driveReqRefPos_row :: "cam_ctx \<Rightarrow> ReferencePath list \<Rightarrow> nat \<Rightarrow> 64 word \<Rightarrow> ins \<Rightarrow> (ins, string) run" where
  "driveReqRefPos_row cx as k driveReqRefId st =
     bind_run (next_id st) (\<lambda>st driveReqRefPosId.
       if length as \<le> k then Crash bad_index
       else let ps = rp_activePath (as ! k);
                driveReqRefPosLon = (if ps = [] then 0 else p3_lon (ps ! 0));
                driveReqRefPosLat = (if ps = [] then 0 else p3_lat (ps ! 0));
                driveReqRefPosEle = (if ps = [] then 0 else p3_ele (ps ! 0))
         in put_row 10240 0 driveReqRefPos_header driveReqRefPos_format
              [I64 driveReqRefPosId, I32 (cx_splitId cx), I32 driveReqRefPosLon, I32 driveReqRefPosLat,
               I32 driveReqRefPosEle, I64 driveReqRefId] st)"

function driveReqRefPos_loop ::
  "cam_ctx \<Rightarrow> VirData list \<Rightarrow> nat \<Rightarrow> nat \<Rightarrow> 64 word \<Rightarrow> nat \<Rightarrow> string \<Rightarrow> ins \<Rightarrow> (ins, nat \<times> string) run" where
  "driveReqRefPos_loop cx virs j k driveReqRefId i s st =
     (case areas_at virs i j of
        None \<Rightarrow> Crash bad_index
      | Some as \<Rightarrow>
          if i < length as
          then bind_run (driveReqRefPos_row cx as k driveReqRefId st) (\<lambda>st t.
               driveReqRefPos_loop cx virs j k driveReqRefId (Suc i) (s @ t) st)
          else Fin st (i, s))"
  by pat_completeness auto
termination
  by (relation "measure (\<lambda>(cx, virs, j, k, r, i, s, st). length virs - i)") (auto dest!: areas_at_less)

declare driveReqRefPos_loop.simps [simp del]

text \<open>The loop over the areas of a request: afterwards the index of the vehicle may have moved on.\<close>

lemma pos_loop_index:
  "driveReqRefPos_loop cx virs j k r i s st = Fin st' (i', t) \<Longrightarrow> i \<le> i' \<and> i' < length virs"
proof (induction "length virs - i" arbitrary: i s st rule: less_induct)
  case less
  obtain as where as: "areas_at virs i j = Some as"
    using less.prems by (subst (asm) driveReqRefPos_loop.simps) (auto split: option.splits)
  show ?case
  proof (cases "i < length as")
    case True
    with less.prems as obtain st1 s1 where "driveReqRefPos_loop cx virs j k r (Suc i) s1 st1 = Fin st' (i', t)"
      by (subst (asm) driveReqRefPos_loop.simps) (auto simp: bind_run_Fin_iff Let_def split: if_splits)
    then have "Suc i \<le> i' \<and> i' < length virs" by (rule less.hyps [rotated]) (use areas_at_less [OF as] in simp)
    then show ?thesis by simp
  next
    case False
    with less.prems as show ?thesis
      by (subst (asm) driveReqRefPos_loop.simps) (auto dest: areas_at_less)
  qed
qed

definition areas_number :: "VirData list \<Rightarrow> nat \<Rightarrow> nat \<Rightarrow> nat" where
  "areas_number virs i j = (case areas_at virs i j of None \<Rightarrow> 0 | Some as \<Rightarrow> length as)"

lemma areas_at_number: "areas_at virs i j = Some as \<Longrightarrow> i < length virs \<and> areas_number virs i j = length as"
  by (simp add: areas_number_def areas_at_less)

lemma same_index: "i \<le> i' \<Longrightarrow> i' < n \<Longrightarrow> \<not> n - i' < n - i \<Longrightarrow> i' = (i :: nat)"
  by simp

function driveReqRef_loop ::
  "cam_ctx \<Rightarrow> VirData list \<Rightarrow> nat \<Rightarrow> 64 word \<Rightarrow> nat \<Rightarrow> nat \<Rightarrow> string \<Rightarrow> ins \<Rightarrow> (ins, nat \<times> string) run" where
  "driveReqRef_loop cx virs j virReqsId k i s st =
     (case areas_at virs i j of
        None \<Rightarrow> Crash bad_index
      | Some as \<Rightarrow>
          if k < length as
          then bind_run (next_id st) (\<lambda>st driveReqRefId.
               bind_run (driveReqRef_row cx virReqsId driveReqRefId k (as ! k) st) (\<lambda>st t.
               bind_run (driveReqRefPos_loop cx virs j k driveReqRefId i [] st) (\<lambda>st (i', ps).
               bind_run (exec_rows (cx_db cx) ps st) (\<lambda>st _.
               driveReqRef_loop cx virs j virReqsId (Suc k) i' (s @ t) st))))
          else Fin st (i, s))"
  by pat_completeness auto
termination
  by (relation "measures [\<lambda>(cx, virs, j, r, k, i, s, st). length virs - i,
       \<lambda>(cx, virs, j, r, k, i, s, st). areas_number virs i j - k]")
    (auto dest!: areas_at_number pos_loop_index dest: same_index)

declare driveReqRef_loop.simps [simp del]

lemma ref_loop_index:
  "driveReqRef_loop cx virs j r k i s st = Fin st' (i', t) \<Longrightarrow> i \<le> i' \<and> i' < length virs"
proof (induction cx virs j r k i s st rule: driveReqRef_loop.induct)
  case (1 cx virs j r k i s st)
  obtain as where as: "areas_at virs i j = Some as"
    using "1.prems" by (subst (asm) driveReqRef_loop.simps) (auto split: option.splits)
  show ?case
  proof (cases "k < length as")
    case True
    with "1.prems" as obtain st1 x st2 t2 st3 i3 t3 st4 where
      runs: "next_id st = Fin st1 x" "driveReqRef_row cx r x k (as ! k) st1 = Fin st2 t2"
        "driveReqRefPos_loop cx virs j k x i [] st2 = Fin st3 (i3, t3)" "exec_rows (cx_db cx) t3 st3 = Fin st4 ()"
        "driveReqRef_loop cx virs j r (Suc k) i3 (s @ t2) st4 = Fin st' (i', t)"
      by (subst (asm) driveReqRef_loop.simps) (auto simp: bind_run_Fin_iff)
    have "i3 \<le> i' \<and> i' < length virs" using "1.IH" [OF as True runs(1-3) _ runs(4,5)] by simp
    with pos_loop_index [OF runs(3)] show ?thesis by simp
  next
    case False
    with "1.prems" as show ?thesis by (subst (asm) driveReqRef_loop.simps) (auto dest: areas_at_less)
  qed
qed

text \<open>The loops over the requests of a vehicle and over the vehicles.\<close>

definition reqs_number :: "VirData list \<Rightarrow> nat \<Rightarrow> nat" where
  "reqs_number virs i = (case reqs_at virs i of None \<Rightarrow> 0 | Some rs \<Rightarrow> length rs)"

lemma reqs_at_number: "reqs_at virs i = Some rs \<Longrightarrow> i < length virs \<and> reqs_number virs i = length rs"
  by (auto simp: reqs_number_def reqs_at_def split: if_splits)

function virReqs_loop ::
  "cam_ctx \<Rightarrow> VirData list \<Rightarrow> 64 word \<Rightarrow> nat \<Rightarrow> nat \<Rightarrow> string \<Rightarrow> ins \<Rightarrow> (ins, nat \<times> string) run" where
  "virReqs_loop cx virs virId j i s st =
     (case reqs_at virs i of
        None \<Rightarrow> Crash bad_index
      | Some rs \<Rightarrow>
          if j < length rs
          then bind_run (next_id st) (\<lambda>st virReqsId.
               bind_run (virReqs_row cx virId virReqsId j (rs ! j) st) (\<lambda>st t.
               bind_run (driveReqRef_loop cx virs j virReqsId 0 i [] st) (\<lambda>st (i', refs).
               bind_run (exec_rows (cx_db cx) refs st) (\<lambda>st _.
               virReqs_loop cx virs virId (Suc j) i' (s @ t) st))))
          else Fin st (i, s))"
  by pat_completeness auto
termination
  by (relation "measures [\<lambda>(cx, virs, v, j, i, s, st). length virs - i, \<lambda>(cx, virs, v, j, i, s, st). reqs_number virs i - j]")
    (auto dest!: reqs_at_number ref_loop_index dest: same_index)

declare virReqs_loop.simps [simp del]

lemma reqs_loop_index:
  "virReqs_loop cx virs v j i s st = Fin st' (i', t) \<Longrightarrow> i \<le> i' \<and> i' < length virs"
proof (induction cx virs v j i s st rule: virReqs_loop.induct)
  case (1 cx virs v j i s st)
  obtain rs where rs: "reqs_at virs i = Some rs"
    using "1.prems" by (subst (asm) virReqs_loop.simps) (auto split: option.splits)
  show ?case
  proof (cases "j < length rs")
    case True
    with "1.prems" rs obtain st1 x st2 t2 st3 i3 t3 st4 where
      runs: "next_id st = Fin st1 x" "virReqs_row cx v x j (rs ! j) st1 = Fin st2 t2"
        "driveReqRef_loop cx virs j x 0 i [] st2 = Fin st3 (i3, t3)" "exec_rows (cx_db cx) t3 st3 = Fin st4 ()"
        "virReqs_loop cx virs v (Suc j) i3 (s @ t2) st4 = Fin st' (i', t)"
      by (subst (asm) virReqs_loop.simps) (auto simp: bind_run_Fin_iff)
    have "i3 \<le> i' \<and> i' < length virs" using "1.IH" [OF rs True runs(1-3) _ runs(4,5)] by simp
    with ref_loop_index [OF runs(3)] show ?thesis by simp
  next
    case False
    with "1.prems" rs show ?thesis by (subst (asm) virReqs_loop.simps) (auto dest: reqs_at_number)
  qed
qed

text \<open>
  One turn for vehicle \<open>i\<close>: its row, the statement of its path, its requests. The head of \<open>drive_request\<close> is
  put in front of the request with index 0.
\<close>

function vir_loop :: "cam_ctx \<Rightarrow> VirData list \<Rightarrow> nat \<Rightarrow> string \<Rightarrow> ins \<Rightarrow> (ins, string) run" where
  "vir_loop cx virs i s st =
     (if i < length virs
      then bind_run (next_id st) (\<lambda>st virId.
           bind_run (vir_row cx virId i (virs ! i) st) (\<lambda>st t.
           bind_run (virPath_insert cx virId
             (sub (vir_intAndReq (virs ! i)) [] (\<lambda>q. sub (id_pathPlanning q) [] plan_pathPlanning)) st) (\<lambda>st _.
           bind_run (virReqs_loop cx virs virId 0 i [] st) (\<lambda>st (i', reqs).
           bind_run (exec_rows (cx_db cx) reqs st) (\<lambda>st _.
           vir_loop cx virs (Suc i') (s @ t) st)))))
      else Fin st s)"
  by pat_completeness auto
termination
  by (relation "measure (\<lambda>(cx, virs, i, s, st). length virs - i)") (auto dest!: reqs_loop_index)

declare vir_loop.simps [simp del]

definition vir_insert :: "cam_ctx \<Rightarrow> VirData list \<Rightarrow> ins \<Rightarrow> (ins, unit) run" where
  "vir_insert cx virs st = bind_run (vir_loop cx virs 0 [] st) (\<lambda>st s. exec_rows (cx_db cx) s st)"

section \<open>What the loops guarantee\<close>

lemma bad_index_mismatch [simp]: "bad_index \<noteq> mismatch"
  by (simp add: bad_index_def mismatch_def)

abbreviation rows_text :: "nat \<times> string \<Rightarrow> bool" where
  "rows_text r \<equiv> snd r = [] \<or> begun (snd r)"

lemma good_split: "(\<And>a b. x = (a, b) \<Longrightarrow> good P (f a b)) \<Longrightarrow> good P (case x of (a, b) \<Rightarrow> f a b)"
  by (cases x) simp

lemma pos_row_good [good_intro]:
  "all_statements st \<Longrightarrow> good (row_text 0) (driveReqRefPos_row cx as k r st)"
  unfolding driveReqRefPos_row_def
  by (rule good_intro, rule good_intro, assumption, split if_split, intro conjI impI, simp)
    (rule good_intro | assumption | simp add: driveReqRefPos_table)+

lemma pos_loop_good [good_intro]:
  "all_statements st \<Longrightarrow> s = [] \<or> begun s \<Longrightarrow> good rows_text (driveReqRefPos_loop cx virs j k r i s st)"
proof (induction "length virs - i" arbitrary: i s st rule: less_induct)
  case less
  have tail: "good rows_text (driveReqRefPos_loop cx virs j k r (Suc i) (s @ t) st')"
    if "areas_at virs i j = Some as" "all_statements st'" "row_text 0 t" for as st' t
    using less.hyps [of "Suc i" st' "s @ t"] less.prems(2) that areas_at_less [OF that(1)] by auto
  show ?case
    by (subst driveReqRefPos_loop.simps)
      (auto split: option.split simp: less.prems intro!: good_bind [OF pos_row_good] tail)
qed

text \<open>What has been collected before the row with index \<open>k\<close>.\<close>

definition collected :: "nat \<Rightarrow> string \<Rightarrow> bool" where
  "collected k s \<longleftrightarrow> (if k = 0 then s = [] else begun s)"

lemma collected_next: "collected k s \<Longrightarrow> row_text k t \<Longrightarrow> collected (Suc k) (s @ t)"
  by (auto simp: collected_def split: if_splits)

lemma collected_rows: "collected k s \<Longrightarrow> s = [] \<or> begun s"
  by (auto simp: collected_def split: if_splits)

lemma good_bind_eq:
  assumes "good Q r" and "\<And>st x. r = Fin st x \<Longrightarrow> all_statements st \<Longrightarrow> Q x \<Longrightarrow> good P (f st x)"
  shows "good P (bind_run r f)"
  using assms by (cases r) simp_all

lemma ref_loop_good [good_intro]:
  "all_statements st \<Longrightarrow> collected k s \<Longrightarrow> good rows_text (driveReqRef_loop cx virs j r k i s st)"
proof (induction cx virs j r k i s st rule: driveReqRef_loop.induct)
  case (1 cx virs j r k i s st)
  note [simp] = driveReqRef_loop.simps [of cx virs j r k i s st]
  show ?case
  proof (cases "areas_at virs i j")
    case (Some as)
    show ?thesis
    proof (cases "k < length as")
      case True
      show ?thesis
        unfolding driveReqRef_loop.simps [of cx virs j r k i s st] Some option.case if_P [OF True]
        by (rule good_bind_eq [OF good_next_id], fact "1.prems"(1), rule good_bind_eq [OF driveReqRef_row_good], assumption,
            rule good_bind_eq [OF pos_loop_good], assumption, simp, rule good_split,
            rule good_bind_eq [OF good_exec_rows], assumption, simp, rule "1.IH" [OF Some True], assumption+, simp,
            assumption+, rule collected_next [OF "1.prems"(2)], assumption)
    qed (use "1.prems" Some collected_rows in auto)
  qed simp
qed

lemma reqs_loop_good [good_intro]:
  "all_statements st \<Longrightarrow> collected j s \<Longrightarrow> good rows_text (virReqs_loop cx virs v j i s st)"
proof (induction cx virs v j i s st rule: virReqs_loop.induct)
  case (1 cx virs v j i s st)
  note [simp] = virReqs_loop.simps [of cx virs v j i s st]
  show ?case
  proof (cases "reqs_at virs i")
    case (Some rs)
    show ?thesis
    proof (cases "j < length rs")
      case True
      show ?thesis
        unfolding virReqs_loop.simps [of cx virs v j i s st] Some option.case if_P [OF True]
        by (rule good_bind_eq [OF good_next_id], fact "1.prems"(1), rule good_bind_eq [OF virReqs_row_good], assumption,
            rule good_bind_eq [OF ref_loop_good], assumption, simp add: collected_def, rule good_split,
            rule good_bind_eq [OF good_exec_rows], assumption, simp, rule "1.IH" [OF Some True], assumption+, simp,
            assumption+, rule collected_next [OF "1.prems"(2)], assumption)
    qed (use "1.prems" Some collected_rows in auto)
  qed simp
qed

lemma vir_loop_good:
  "all_statements st \<Longrightarrow> collected i s \<Longrightarrow> good (\<lambda>s. s = [] \<or> begun s) (vir_loop cx virs i s st)"
proof (induction cx virs i s st rule: vir_loop.induct)
  case (1 cx virs i s st)
  show ?case
  proof (cases "i < length virs")
    case True
    show ?thesis
      unfolding vir_loop.simps [of cx virs i s st] if_P [OF True]
      by (rule good_bind_eq [OF good_next_id], fact "1.prems"(1), rule good_bind_eq [OF vir_row_good], assumption,
          rule good_bind_eq [OF virPath_insert_good], assumption,
          rule good_bind_eq [OF reqs_loop_good], assumption, simp add: collected_def, rule good_split,
          rule good_bind_eq [OF good_exec_rows], assumption, simp, rule "1.IH" [OF True], assumption+, simp,
          assumption+) (use "1.prems"(2) in \<open>auto simp: collected_def split: if_splits\<close>)
  qed (use "1.prems" collected_rows in \<open>simp add: vir_loop.simps [of cx virs i s st]\<close>)
qed

lemma vir_insert_good [good_intro]: "all_statements st \<Longrightarrow> good (\<lambda>_. True) (vir_insert cx virs st)"
  unfolding vir_insert_def
  by (rule good_bind [OF vir_loop_good], assumption, simp add: collected_def, rule good_exec_rows)

text \<open>
  A message with one vehicle that asks to see an area: the loop over the points moves the index past the only
  vehicle, and the insert cannot finish.
\<close>

lemma pos_loop_single:
  assumes "areas_at [v] 0 j = Some as" and "as \<noteq> []"
  shows "driveReqRefPos_loop cx [v] j k r 0 s st \<noteq> Fin st' x"
proof
  assume "driveReqRefPos_loop cx [v] j k r 0 s st = Fin st' x"
  then obtain s1 st1 where "driveReqRefPos_loop cx [v] j k r (Suc 0) s1 st1 = Fin st' x"
    using assms by (subst (asm) driveReqRefPos_loop.simps) (auto simp: bind_run_Fin_iff)
  then show False by (subst (asm) driveReqRefPos_loop.simps) (simp add: areas_at_def reqs_at_def)
qed

lemma ref_loop_single:
  assumes "areas_at [v] 0 j = Some as" and "driveReqRef_loop cx [v] j r 0 0 s st = Fin st' x"
  shows "as = [] \<and> fst x = 0"
proof (cases "as = []")
  case False
  with assms show ?thesis
    by (subst (asm) driveReqRef_loop.simps) (auto simp: bind_run_Fin_iff pos_loop_single)
qed (use assms in \<open>auto simp: driveReqRef_loop.simps [of _ _ _ _ 0]\<close>)

lemma reqs_loop_single:
  assumes "reqs_at [v] 0 = Some rs" and "virReqs_loop cx [v] w j 0 s st = Fin st' x" and "j \<le> j'" and "j' < length rs"
  shows "areas_of (rs ! j') = []"
  using assms(2-4)
proof (induction "length rs - j" arbitrary: j s st)
  case (Suc n)
  have j: "j < length rs" using Suc.prems by simp
  then have as: "areas_at [v] 0 j = Some (areas_of (rs ! j))" using assms(1) by (simp add: areas_at_def)
  from Suc.prems(1) assms(1) j obtain st1 y st2 i2 t2 s3 st3 where
    r: "driveReqRef_loop cx [v] j y 0 0 [] st1 = Fin st2 (i2, t2)"
      "virReqs_loop cx [v] w (Suc j) i2 s3 st3 = Fin st' x"
    by (subst (asm) virReqs_loop.simps) (auto simp: bind_run_Fin_iff)
  with ref_loop_single [OF as r(1)] have i: "areas_of (rs ! j) = []" "i2 = 0" by auto
  show ?case
  proof (cases "j' = j")
    case False
    then show ?thesis using Suc.hyps(1) [of "Suc j"] Suc.hyps(2) Suc.prems r(2) i(2) by auto
  qed (use i(1) in simp)
qed simp

text \<open>
  C12. A message whose only vehicle asks to see an area with at least one path is never stored completely: the loop
  over the points of the area advances the index of the vehicle, and reads past the end of the list.
\<close>

theorem area_request_never_stored:
  assumes "r \<in> set (sub (vir_intAndReq v) [] id_reqs)" and "areas_of r \<noteq> []"
  shows "vir_insert cx [v] st \<noteq> Fin st' u"
proof
  let ?rs = "sub (vir_intAndReq v) [] id_reqs"
  assume "vir_insert cx [v] st = Fin st' u"
  then obtain w st1 st2 x where "virReqs_loop cx [v] w 0 0 [] st1 = Fin st2 x"
    unfolding vir_insert_def by (subst (asm) vir_loop.simps) (auto simp: bind_run_Fin_iff)
  moreover have "reqs_at [v] 0 = Some ?rs" by (simp add: reqs_at_def)
  moreover obtain j where "j < length ?rs" "?rs ! j = r" using assms(1) by (metis in_set_conv_nth)
  ultimately show False using assms(2) reqs_loop_single [of v ?rs] by fastforce
qed

definition demo_request :: DriveRequest where
  "demo_request = \<lparr>dr_reqId = 5, dr_status = 1, dr_reqPriority = ''1'', dr_targetVeh = ''v2'', dr_targetRsu = ''r1'',
     dr_info = Some (ReqSensorSharing_of_req \<lparr>rss_detectorArea = [\<lparr>rp_activePath = [], rp_pathRadius = 9\<rparr>]\<rparr>), dr_lifeTime = 3\<rparr>"

definition demo_vir :: VirData where
  "demo_vir = \<lparr>vir_msgCnt = 1, vir_vehicleId = ''v1'', vir_timestamp = 1000, vir_pos = None,
     vir_intAndReq = Some \<lparr>id_currentPos = None, id_pathPlanning = None, id_currentBehavior = None, id_reqs = [demo_request]\<rparr>\<rparr>"

theorem area_request_never_stored_witness:
  "\<forall>cx st st' u. vir_insert cx [demo_vir] st \<noteq> Fin st' u"
proof -
  have "demo_request \<in> set (sub (vir_intAndReq demo_vir) [] id_reqs)" by (simp add: demo_vir_def sub_def)
  moreover have "areas_of demo_request \<noteq> []" by (simp add: areas_of_def demo_request_def sub_def)
  ultimately show ?thesis using area_request_never_stored [of demo_request demo_vir] by blast
qed

end
