(* ===== verification/CamInsert.thy ===== *)
theory CamInsert
  imports CamObjects CamEvents CamFlow CamSignals CamCoop CamVir
begin

text \<open>
  The insert of one message of the camera application, the topic that receives it (\<open>CamTopic.cpp\<close>), the inserts of camera
  and radar paths, and the maps of device ids (\<open>DataInsert.cpp\<close>).
\<close>

section \<open>camInsert\<close>

text \<open>Table \<open>cam_data\<close>: one statement with one row.\<close>

definition cam_format :: string where
  "cam_format =
     ''INSERT INTO `cam_data`(`id`,`split_id`,`type`,`ver`,`msg_cnt`,''
     @ ''	`timestamp`,`device_id`,`map_device_id`,`lat`,`lon`,''
     @ ''	`ele`,`scene_type_id`,`spat_msg_cnt`,`spat_timestamp`,`to_algorithm_time`,''
     @ ''	`to_databus_time`,`to_cloud_time`)''
     @ ''	VALUE''
     @ ''	(%lld,%d,%d,'%s',%d,''
     @ ''	%lld,'%s','%s',%d,%d,''
     @ ''	%d,%d,%d,%lld,%lld,''
     @ ''	%lld,%lld);''"

definition cam_args :: "cam_ctx \<Rightarrow> CamData \<Rightarrow> arg list" where
  "cam_args cx cam =
     (let camLat = sub (cam_refPos cam) 0 p3_lat;
          camLon = sub (cam_refPos cam) 0 p3_lon;
          camEle = sub (cam_refPos cam) 0 p3_ele;
          spatMsgcnt = sub (cam_roadSignalState cam) 0 spat_msgCnt;
          spatTimestamp = sub (cam_roadSignalState cam) 0 spat_timestamp
      in [I64 (cx_camId cx), I32 (cx_splitId cx), I32 (cam_type cam), CStr (cam_ver cam), I32 (cam_msgCnt cam),
          I64 (cam_timestamp cam), CStr (cam_deviceId cam), CStr (cam_mapDeviceId cam), I32 camLat, I32 camLon,
          I32 camEle, I32 (cam_sceneType cam), I32 spatMsgcnt, I64 spatTimestamp, I64 (cam_toAlgorithmTime cam),
          I64 (cam_toDatabusTime cam), I64 (cam_toCloudTime cam)])"

definition insert_cam :: "cam_ctx \<Rightarrow> CamData \<Rightarrow> ins \<Rightarrow> (ins, unit) run" where
  "insert_cam cx cam st =
     (case sprintf_to 4096 cam_format (cam_args cx cam) of
        UB e \<Rightarrow> Crash e
      | Throw e \<Rightarrow> Exc st e
      | Ret s \<Rightarrow> exec_sql (cx_db cx) s st)"

text \<open>
  \<open>camInsert\<close>: the message, then its parts in the order of the code. \<open>splitId\<close> is the remainder of a random number
  and a parameter.
\<close>

definition insert_parts :: "cam_ctx \<Rightarrow> CamData \<Rightarrow> ins \<Rightarrow> (ins, unit) run" where
  "insert_parts cx cam st =
     bind_run (insert_cam cx cam st) (\<lambda>st _.
     bind_run (ptclist_insert cx (cam_ptcList cam) st) (\<lambda>st _.
     bind_run (rte_insert cx (cam_rteList cam) st) (\<lambda>st _.
     bind_run (rtsData_insert cx (cam_rteList cam) (cam_rtsList cam) st) (\<lambda>st _.
     bind_run (trafficFlow_insert cx (cam_trafficFlow cam) st) (\<lambda>st _.
     bind_run (on_part (cam_roadSignalState cam) (\<lambda>s. intersectionState_insert cx (spat_intersections s)) st) (\<lambda>st _.
     bind_run (signalScheme_insert cx (cam_signalSchemeList cam) st) (\<lambda>st _.
     bind_run (camPolygon_insert cx (cam_detectedRegion cam) st) (\<lambda>st _.
     bind_run (obslist_insert cx (cam_obstacleList cam) st) (\<lambda>st _.
     bind_run (bsm_insert cx (cam_bsmList cam) st) (\<lambda>st _.
     bind_run (rsc_insert cx (cam_rscList cam) st) (\<lambda>st _.
     vir_insert cx (cam_virList cam) st)))))))))))"

definition camInsert :: "db_env \<Rightarrow> 32 word \<Rightarrow> CamData \<Rightarrow> ins \<Rightarrow> (ins, unit) run" where
  "camInsert db splitId cam st =
     bind_run (own_id (cam_id cam) st) (\<lambda>st camId.
     insert_parts \<lparr>cx_db = db, cx_splitId = splitId, cx_camId = camId, cx_deviceId = cam_deviceId cam\<rparr> cam st)"

lemma cam_format_starts:
  assumes "map kind_of args = [KLong, KInt, KInt, KStr, KInt, KLong, KStr, KStr, KInt, KInt, KInt, KInt, KInt, KLong, KLong, KLong, KLong]"
  shows "\<exists>s. format cam_format args = Some s \<and> statement s"
proof -
  have "fits (butlast cam_format) (map kind_of args)" unfolding assms by code_simp
  moreover have c: "cam_format = butlast cam_format @ '';''" by (simp add: cam_format_def)
  ultimately obtain s where s: "format (butlast cam_format) args = Some s" "format cam_format args = Some (s @ '';'')"
    using format_append [of "butlast cam_format" args "'';''" "[]"] format_fits by fastforce
  have "butlast cam_format = insert_into @ drop 13 (butlast cam_format)" by (simp add: cam_format_def insert_into_def)
  then have "format (insert_into @ drop 13 (butlast cam_format)) args = Some s" using s(1) by simp
  moreover have "CHR ''%'' \<notin> set insert_into" by (simp add: insert_into_def)
  ultimately obtain t where "s = insert_into @ t" by (auto simp: format_literal)
  with s(2) show ?thesis by (auto simp: statement_def)
qed

lemma insert_cam_good [good_intro]: "all_statements st \<Longrightarrow> good (\<lambda>_. True) (insert_cam cx cam st)"
proof -
  assume st: "all_statements st"
  obtain s where "format cam_format (cam_args cx cam) = Some s" "statement s"
    using cam_format_starts [of "cam_args cx cam"] by (auto simp: cam_args_def Let_def)
  with st show ?thesis by (auto simp: insert_cam_def sprintf_to_def overflow_def mismatch_def intro!: good_exec_sql)
qed

text \<open>
  C9. Everything that \<open>camInsert\<close> gives to the database, also when it is stopped by an exception, begins a statement
  \<open>INSERT INTO\<close> and ends in a semicolon, and no call of \<open>sprintf\<close> has an argument of another type than its format
  asks for -- as long as the message has no event and no sign that was sent by hand.
\<close>

theorem cam_statements:
  assumes "\<forall>e \<in> set (cam_rteList cam). \<not> manual (rte_dataSource e)"
    and "\<forall>s \<in> set (cam_rtsList cam). \<not> manual (rts_dataSource s)" and "list_all statement (i_sqls st)"
  shows "case camInsert db splitId cam st of
      Fin st' _ \<Rightarrow> list_all statement (i_sqls st')
    | Exc st' _ \<Rightarrow> list_all statement (i_sqls st')
    | Crash e \<Rightarrow> e \<noteq> mismatch
    | Hang \<Rightarrow> True"
proof -
  have "all_statements st" using assms(3) by (simp add: all_statements_def)
  then have "good (\<lambda>_. True) (camInsert db splitId cam st)"
    unfolding camInsert_def insert_parts_def using assms(1,2)
    by - (rule good_intro | assumption)+
  then show ?thesis by (cases "camInsert db splitId cam st") (simp_all add: all_statements_def)
qed

definition demo_region :: Polygon where
  "demo_region = \<lparr>poly_pos = [\<lparr>p3_lat = 311234567, p3_lon = 1211234567, p3_ele = 12\<rparr>, \<lparr>p3_lat = 3, p3_lon = - 4, p3_ele = 0\<rparr>]\<rparr>"

definition demo_cam :: CamData where
  "demo_cam = \<lparr>cam_type = 1, cam_ver = ''01'', cam_msgCnt = 3, cam_timestamp = 1700000000000, cam_deviceId = ''mec'',
     cam_mapDeviceId = ''map'', cam_refPos = None, cam_sceneType = 0, cam_ptcList = [], cam_obstacleList = [],
     cam_rteList = [demo_event 3], cam_rtsList = [], cam_bsmList = [], cam_virList = [], cam_rscList = [],
     cam_roadSignalState = None, cam_trafficFlow = [], cam_signalSchemeList = [], cam_detectedRegion = [demo_region],
     cam_toAlgorithmTime = 0, cam_toDatabusTime = 0, cam_toCloudTime = 0, cam_id = 21\<rparr>"

theorem cam_statements_witness:
  "case camInsert demo_db 8 demo_cam demo_ins of
      Fin st' _ \<Rightarrow> list_all statement (i_sqls st')
    | Exc st' _ \<Rightarrow> list_all statement (i_sqls st')
    | Crash e \<Rightarrow> e \<noteq> mismatch
    | Hang \<Rightarrow> True"
  by (rule cam_statements) (simp_all add: demo_cam_def demo_event_def demo_ins_def manual_def)

section \<open>Detected regions are stored with their points\<close>

text \<open>
  What is expected in the database: a row lists its values, a statement its rows; every point carries the id of its
  region, every region the id of the message.
\<close>

fun values_of :: "string list \<Rightarrow> string" where
  "values_of [] = []"
| "values_of [v] = v"
| "values_of (v # vs) = v @ '','' @ values_of vs"

definition id_text :: "64 word \<Rightarrow> string" where "id_text v = int_string (sint v)"
definition int_text :: "32 word \<Rightarrow> string" where "int_text v = int_string (sint v)"

definition point_row :: "cam_ctx \<Rightarrow> 64 word \<Rightarrow> 64 word \<Rightarrow> Position3D \<Rightarrow> string" where
  "point_row cx region v p = ''('' @ values_of [id_text v, int_text (cx_splitId cx), int_text (p3_lon p), int_text (p3_lat p),
     int_text (p3_ele p), id_text region] @ ''),''"

definition region_row :: "cam_ctx \<Rightarrow> 64 word \<Rightarrow> string" where
  "region_row cx v = ''('' @ values_of [id_text v, int_text (cx_splitId cx), id_text (cx_camId cx)] @ ''),''"

definition points_sql :: "cam_ctx \<Rightarrow> 64 word \<Rightarrow> 64 word list \<Rightarrow> Position3D list \<Rightarrow> string list" where
  "points_sql cx region ids ps =
     (if ps = [] then [] else [finish_sql (camPolygonPos_header @ concat (map2 (point_row cx region) ids ps))])"

lemma id_text_length: "length (id_text v) \<le> 21" "length (int_text w) \<le> 21"
  by (simp_all add: id_text_def int_text_def length_word_string)

lemma pos_header: "CHR ''%'' \<notin> set camPolygonPos_header" "length camPolygonPos_header < 200" "10 < length camPolygonPos_header"
  by (simp_all add: camPolygonPos_header_def)

lemma region_header: "CHR ''%'' \<notin> set camPolygon_header" "length camPolygon_header < 200" "10 < length camPolygon_header"
  by (simp_all add: camPolygon_header_def)

lemma pos_put_row:
  "put_row 10240 i camPolygonPos_header camPolygonPos_format
     [I64 v, I32 (cx_splitId cx), I32 (p3_lon p), I32 (p3_lat p), I32 (p3_ele p), I64 region] st
   = Fin st ((if i = 0 then camPolygonPos_header else []) @ point_row cx region v p)"
proof (rule put_row_fits)
  show "length (point_row cx region v p) < 10240"
    using id_text_length(1) [of v] id_text_length(1) [of region] id_text_length(2) [of "cx_splitId cx"]
      id_text_length(2) [of "p3_lon p"] id_text_length(2) [of "p3_lat p"] id_text_length(2) [of "p3_ele p"]
    by (simp add: point_row_def)
qed (use pos_header in \<open>simp_all add: camPolygonPos_format_def point_row_def id_text_def int_text_def\<close>)

lemma region_put_row:
  "put_row 10240 i camPolygon_header camPolygon_format [I64 v, I32 (cx_splitId cx), I64 (cx_camId cx)] st
   = Fin st ((if i = 0 then camPolygon_header else []) @ region_row cx v)"
proof (rule put_row_fits)
  show "length (region_row cx v) < 10240"
    using id_text_length(1) [of v] id_text_length(1) [of "cx_camId cx"] id_text_length(2) [of "cx_splitId cx"]
    by (simp add: region_row_def)
qed (use region_header in \<open>simp_all add: camPolygon_format_def region_row_def id_text_def int_text_def\<close>)

lemma pos_item:
  "next_id st = Fin st1 v \<Longrightarrow> camPolygonPos_item cx region i p st
     = Fin st1 ((if i = 0 then camPolygonPos_header else []) @ point_row cx region v p)"
  by (simp add: camPolygonPos_item_def pos_put_row Let_def)

lemma pos_rows:
  "issues (length ps + n) st \<Longrightarrow> \<exists>st1 ids.
     rows_loop (camPolygonPos_item cx region) i ps s st
       = Fin st1 (s @ (if i = 0 \<and> ps \<noteq> [] then camPolygonPos_header else []) @ concat (map2 (point_row cx region) ids ps))
     \<and> length ids = length ps \<and> issues n st1 \<and> i_sqls st1 = i_sqls st"
proof (induction ps arbitrary: i s st)
  case (Cons p ps)
  from Cons.prems obtain v st1 where v: "next_id st = Fin st1 v" "issues (length ps + n) st1" "i_sqls st1 = i_sqls st"
    by (auto elim: issues_Suc)
  let ?s = "s @ (if i = 0 then camPolygonPos_header else []) @ point_row cx region v p"
  obtain st2 ids where i: "rows_loop (camPolygonPos_item cx region) (Suc i) ps ?s st1
      = Fin st2 (?s @ concat (map2 (point_row cx region) ids ps))"
    "length ids = length ps" "issues n st2" "i_sqls st2 = i_sqls st1"
    using Cons.IH [OF v(2), of "Suc i" ?s] by auto
  show ?case
    by (rule exI [of _ st2], rule exI [of _ "v # ids"])
      (use v i in \<open>simp add: pos_item [OF v(1)]\<close>)
qed simp

lemma region_item:
  assumes "answers (cx_db cx)" and "issues (Suc (length (poly_pos r)) + n) st"
  shows "\<exists>st1 v ids. camPolygon_item cx i r st = Fin st1 ((if i = 0 then camPolygon_header else []) @ region_row cx v)
    \<and> length ids = length (poly_pos r) \<and> issues n st1 \<and> i_sqls st1 = i_sqls st @ points_sql cx v ids (poly_pos r)"
proof -
  from assms(2) obtain v st1 where v: "next_id st = Fin st1 v" "issues (length (poly_pos r) + n) st1" "i_sqls st1 = i_sqls st"
    by (auto elim: issues_Suc)
  let ?t = "\<lambda>ids. (if poly_pos r \<noteq> [] then camPolygonPos_header else []) @ concat (map2 (point_row cx v) ids (poly_pos r))"
  obtain st2 ids where ids: "rows_loop (camPolygonPos_item cx v) 0 (poly_pos r) [] st1 = Fin st2 (?t ids)"
    "length ids = length (poly_pos r)" "issues n st2" "i_sqls st2 = i_sqls st1"
    using pos_rows [OF v(2), of cx v 0 "[]"] by auto
  have "\<exists>st3. exec_rows (cx_db cx) (?t ids) st2 = Fin st3 () \<and> issues n st3
      \<and> i_sqls st3 = i_sqls st2 @ points_sql cx v ids (poly_pos r)"
  proof (cases "poly_pos r = []")
    case True
    then show ?thesis using ids(3) by (simp add: exec_rows_def points_sql_def)
  next
    case False
    then have "10 < length (?t ids)" using pos_header(3) by simp
    from exec_rows_answers [OF assms(1) this, of st2] False ids(3) show ?thesis by (simp add: points_sql_def)
  qed
  then obtain st3 where "exec_rows (cx_db cx) (?t ids) st2 = Fin st3 ()" "issues n st3"
    "i_sqls st3 = i_sqls st2 @ points_sql cx v ids (poly_pos r)"
    by blast
  then show ?thesis
    by (intro exI [of _ st3] exI [of _ v] exI [of _ ids])
      (use v ids in \<open>simp add: camPolygon_item_def region_put_row camPolygonPos_insert_def insert_rows_def\<close>)
qed

lemma region_rows:
  assumes "answers (cx_db cx)"
  shows "issues (sum_list (map (\<lambda>r. Suc (length (poly_pos r))) rs) + n) st \<Longrightarrow> \<exists>st1 vs idss.
     rows_loop (camPolygon_item cx) i rs s st
       = Fin st1 (s @ (if i = 0 \<and> rs \<noteq> [] then camPolygon_header else []) @ concat (map (region_row cx) vs))
     \<and> length vs = length rs \<and> list_all2 (\<lambda>ids r. length ids = length (poly_pos r)) idss rs \<and> issues n st1
     \<and> i_sqls st1 = i_sqls st @ concat (map2 (\<lambda>v (ids, r). points_sql cx v ids (poly_pos r)) vs (zip idss rs))"
proof (induction rs arbitrary: i s st)
  case (Cons r rs)
  let ?m = "sum_list (map (\<lambda>r. Suc (length (poly_pos r))) rs) + n"
  have "issues (Suc (length (poly_pos r)) + ?m) st" using Cons.prems by (simp add: add.assoc)
  from region_item [OF assms this, of i] obtain st1 v ids where v:
    "camPolygon_item cx i r st = Fin st1 ((if i = 0 then camPolygon_header else []) @ region_row cx v)"
    "length ids = length (poly_pos r)" "issues ?m st1" "i_sqls st1 = i_sqls st @ points_sql cx v ids (poly_pos r)"
    by blast
  let ?s = "s @ (if i = 0 then camPolygon_header else []) @ region_row cx v"
  obtain st2 vs idss where rest:
    "rows_loop (camPolygon_item cx) (Suc i) rs ?s st1 = Fin st2 (?s @ concat (map (region_row cx) vs))"
    "length vs = length rs" "list_all2 (\<lambda>ids r. length ids = length (poly_pos r)) idss rs" "issues n st2"
    "i_sqls st2 = i_sqls st1 @ concat (map2 (\<lambda>v (ids, r). points_sql cx v ids (poly_pos r)) vs (zip idss rs))"
    using Cons.IH [OF v(3), of "Suc i" ?s] by auto
  show ?case
    by (rule exI [of _ st2], rule exI [of _ "v # vs"], rule exI [of _ "ids # idss"])
      (use v rest in simp)
qed simp

text \<open>
  C28. When the generator can issue an id for every region and every point, and the database answers, the detected
  regions are stored: for each region with points one statement with a row for each point, all with the id of the
  region, then one statement with a row for each region, with the id of the message.
\<close>

theorem regions_stored:
  assumes "answers (cx_db cx)" and "rs \<noteq> []" and "issues (sum_list (map (\<lambda>r. Suc (length (poly_pos r))) rs)) st"
  shows "\<exists>st1 vs idss. camPolygon_insert cx rs st = Fin st1 () \<and> length vs = length rs
     \<and> list_all2 (\<lambda>ids r. length ids = length (poly_pos r)) idss rs
     \<and> i_sqls st1 = i_sqls st @ concat (map2 (\<lambda>v (ids, r). points_sql cx v ids (poly_pos r)) vs (zip idss rs))
         @ [finish_sql (camPolygon_header @ concat (map (region_row cx) vs))]"
proof -
  have "issues (sum_list (map (\<lambda>r. Suc (length (poly_pos r))) rs) + 0) st" using assms(3) by simp
  from region_rows [OF assms(1) this, of 0 "[]"] assms(2) obtain st1 vs idss where r:
    "rows_loop (camPolygon_item cx) 0 rs [] st = Fin st1 (camPolygon_header @ concat (map (region_row cx) vs))"
    "length vs = length rs" "list_all2 (\<lambda>ids r. length ids = length (poly_pos r)) idss rs"
    "i_sqls st1 = i_sqls st @ concat (map2 (\<lambda>v (ids, r). points_sql cx v ids (poly_pos r)) vs (zip idss rs))"
    by auto
  have "10 < length (camPolygon_header @ concat (map (region_row cx) vs))" using region_header(3) by simp
  from exec_rows_answers [OF assms(1) this, of st1] r show ?thesis
    by (auto simp: camPolygon_insert_def insert_rows_def)
qed

theorem regions_stored_witness:
  "\<exists>st1 vs idss. camPolygon_insert demo_cx [demo_region] demo_ins = Fin st1 () \<and> length vs = 1
     \<and> list_all2 (\<lambda>ids r. length ids = length (poly_pos r)) idss [demo_region]
     \<and> i_sqls st1 = concat (map2 (\<lambda>v (ids, r). points_sql demo_cx v ids (poly_pos r)) vs (zip idss [demo_region]))
         @ [finish_sql (camPolygon_header @ concat (map (region_row demo_cx) vs))]"
proof -
  have "answers (cx_db demo_cx)" by (simp add: answers_def demo_cx_def demo_db_def)
  moreover have "issues (sum_list (map (\<lambda>r. Suc (length (poly_pos r))) [demo_region])) demo_ins"
    by code_simp
  ultimately show ?thesis using regions_stored [of demo_cx "[demo_region]" demo_ins]
    by (auto simp: demo_ins_def)
qed

section \<open>Every row has a value for each column\<close>

text \<open>The tables of \<open>camInsert\<close> (but \<open>bsm_data\<close> and \<open>obj_id_value\<close>): the head and the row format.\<close>

definition cam_tables :: "(string \<times> string) list" where
  "cam_tables =
     [(poly_header, poly_format), (pathHistory_header, pathHistory_format), (ptclist_header, ptclist_format),
      (activepath_header, activepath_format), (rteReferencePath_header, rteReferencePath_format),
      (rteReferenceLink_header, rteReferenceLink_format), (rte_header, rte_format), (rtsActivepath_header, rtsActivepath_format),
      (rtsReferencePath_header, rtsReferencePath_format), (rtsReferenceLink_header, rtsReferenceLink_format),
      (rtsData_header, rtsData_format), (trafficFlowStatPos_header, trafficFlowStatPos_format), (laneIndexAdd_header, laneIndexAdd_format),
      (linkIndexAdd_header, linkIndexAdd_format), (movementIndexAdd_header, movementIndexAdd_format),
      (nodeIndexAdd_header, nodeIndexAdd_format), (signalIndexAdd_header, signalIndexAdd_format),
      (trafficFlowStat_header, trafficFlowStat_format), (trafficFlow_header, trafficFlow_format), (phaseState_header, phaseState_format),
      (phaseData_header, phaseData_format), (intersectionState_header, intersectionState_format), (movements_header, movements_format),
      (optimPhase_header, optimPhase_format), (optim_header, optim_format), (signalScheme_header, signalScheme_format),
      (camPolygonPos_header, camPolygonPos_format), (camPolygon_header, camPolygon_format), (obspoly_header, obspoly_format),
      (obslist_header, obslist_format), (rscDriveSugPos_header, rscDriveSugPos_format), (rscPathPlanning_header, rscPathPlanning_format),
      (rscLaneCoorPos_header, rscLaneCoorPos_format), (rsc_header, rsc_format), (virPath_header, virPath_format),
      (driveReqRef_header, driveReqRef_format), (virReqs_header, virReqs_format), (vir_header, vir_format),
      (driveReqRefPos_header, driveReqRefPos_format)]"

text \<open>
  In every table of \<open>camInsert\<close> but two the head names as many columns as a row has values, and closes its
  parentheses. The rows of \<open>bsm_data\<close> lack a comma, and the head of \<open>obj_id_value\<close> is not closed.
\<close>

theorem tables_balanced:
  "list_all (\<lambda>(hdr, fmt). balanced hdr fmt) cam_tables
   \<and> \<not> balanced bsm_header bsm_format \<and> \<not> balanced eventObjId_header eventObjId_format"
proof (intro conjI)
  show "list_all (\<lambda>(hdr, fmt). balanced hdr fmt) cam_tables"
    unfolding cam_tables_def list.pred_inject prod.case
    by (intro conjI list.pred_inject(1) poly_balanced pathHistory_balanced ptclist_balanced activepath_balanced rteReferencePath_balanced rteReferenceLink_balanced
      rte_balanced rtsActivepath_balanced rtsReferencePath_balanced rtsReferenceLink_balanced rtsData_balanced trafficFlowStatPos_balanced
      laneIndexAdd_balanced linkIndexAdd_balanced movementIndexAdd_balanced nodeIndexAdd_balanced signalIndexAdd_balanced
      trafficFlowStat_balanced trafficFlow_balanced phaseState_balanced phaseData_balanced intersectionState_balanced movements_balanced
      optimPhase_balanced optim_balanced signalScheme_balanced camPolygonPos_balanced camPolygon_balanced obspoly_balanced obslist_balanced
      rscDriveSugPos_balanced rscPathPlanning_balanced rscLaneCoorPos_balanced rsc_balanced virPath_balanced driveReqRef_balanced
      virReqs_balanced vir_balanced driveReqRefPos_balanced)
  show "\<not> balanced bsm_header bsm_format" by (simp add: balanced_def bsm_header_def bsm_format_def)
  show "\<not> balanced eventObjId_header eventObjId_format"
    by (simp add: balanced_def eventObjId_header_def eventObjId_format_def)
qed

section \<open>Camera and radar paths\<close>















section \<open>Maps of device ids\<close>

text \<open>
  \<open>DataMap\<close>: the rows of a query are put into a map, a NULL column as the empty string; a query that throws leaves the
  map as it is. The query is a parameter.
\<close>

definition text_of :: "string option \<Rightarrow> string" where
  "text_of c = (case c of None \<Rightarrow> [] | Some s \<Rightarrow> s)"

fun add_rows :: "(string option \<times> string option) list \<Rightarrow> (string \<rightharpoonup> string) \<Rightarrow> (string \<rightharpoonup> string)" where
  "add_rows [] m = m"
| "add_rows ((a, b) # rows) m = add_rows rows (m(text_of a \<mapsto> text_of b))"

definition deviceCodeMap ::
  "(string \<Rightarrow> (string option \<times> string option) list option) \<Rightarrow> (string \<rightharpoonup> string) \<Rightarrow> (string \<rightharpoonup> string)" where
  "deviceCodeMap select devMap =
     (case select ''select device_id,short_device_id from device_id_map'' of None \<Rightarrow> devMap | Some rows \<Rightarrow> add_rows rows devMap)"

definition nodeMatchMap ::
  "(string \<Rightarrow> (string option \<times> string option) list option) \<Rightarrow> (string \<rightharpoonup> string) \<Rightarrow> (string \<rightharpoonup> string)" where
  "nodeMatchMap select nodeMap =
     (case select ''select short_device_id,match_node_id from device_id_map'' of None \<Rightarrow> nodeMap | Some rows \<Rightarrow> add_rows rows nodeMap)"

lemma add_rows_last:
  "add_rows rows m k = (case filter (\<lambda>(a, b). text_of a = k) rows of [] \<Rightarrow> m k | r # rs \<Rightarrow> Some (text_of (snd (last (r # rs)))))"
  by (induction rows arbitrary: m) (auto split: list.splits)

section \<open>The topic\<close>

text \<open>The message that carries a serialised \<open>CamData\<close> (\<open>cam-app/src/proto/cam.proto\<close>).\<close>

record Cam =
  cm_msgId :: string
  cm_srcNodeId :: string
  cm_toNodeId :: string
  cm_msgType :: "32 word"
  cm_length :: "32 word"
  cm_data :: string
  cm_createdAt :: "64 word"
  cm_updatedAt :: "64 word"

text \<open>The generated serialisation, the publisher (\<open>False\<close> when it throws), the clock and the node are parameters.\<close>

record cam_env =
  ce_db :: db_env
  ce_serialize_data :: "CamData \<Rightarrow> string"
  ce_parse_data :: "string \<Rightarrow> CamData"
  ce_serialize :: "Cam \<Rightarrow> string"
  ce_parse :: "string \<Rightarrow> Cam"
  ce_put :: "string \<Rightarrow> bool"
  ce_nodeId :: string
  ce_monNodeId :: string

text \<open>The queue of messages to send, and the payloads put on the topic.\<close>

record cam_topic =
  cq_sendQueue :: "CamData list"
  cq_put :: "string list"

definition cam_message :: "cam_env \<Rightarrow> string \<Rightarrow> 64 word \<Rightarrow> CamData \<Rightarrow> Cam" where
  "cam_message env uuid now cam =
     (let camStr = ce_serialize_data env cam
      in \<lparr>cm_msgId = uuid, cm_srcNodeId = ce_nodeId env, cm_toNodeId = ce_monNodeId env, cm_msgType = 11,
          cm_length = word_of_nat (length camStr), cm_data = camStr, cm_createdAt = now, cm_updatedAt = now\<rparr>)"

text \<open>\<open>send_cam\<close>: the payload is one byte longer than the message, and that byte is zero.\<close>

definition send_cam :: "cam_env \<Rightarrow> Cam \<Rightarrow> cam_topic \<Rightarrow> bool \<times> cam_topic" where
  "send_cam env msg st =
     (let payload = ce_serialize env msg @ [CHR 0x00]
      in if ce_put env payload then (True, st\<lparr>cq_put := cq_put st @ [payload]\<rparr>) else (False, st))"

text \<open>One turn of the writer: a message is taken off the queue, if there is one, and sent once.\<close>

definition writer_turn :: "cam_env \<Rightarrow> string \<Rightarrow> 64 word \<Rightarrow> cam_topic \<Rightarrow> cam_topic" where
  "writer_turn env uuid now st =
     (case cq_sendQueue st of [] \<Rightarrow> st
      | cam # rest \<Rightarrow> snd (send_cam env (cam_message env uuid now cam) (st\<lparr>cq_sendQueue := rest\<rparr>)))"

text \<open>\<open>handle_node\<close>: an exception of the insert is logged.\<close>

definition handle_cam :: "cam_env \<Rightarrow> 32 word \<Rightarrow> string \<Rightarrow> ins \<Rightarrow> (ins, unit) run" where
  "handle_cam env splitId payload st =
     catch_run (camInsert (ce_db env) splitId (ce_parse_data env (cm_data (ce_parse env payload))) st) (\<lambda>st e. Fin st ())"

fun handle_cams :: "cam_env \<Rightarrow> (32 word \<times> string) list \<Rightarrow> ins \<Rightarrow> (ins, unit) run" where
  "handle_cams env [] st = Fin st ()"
| "handle_cams env ((splitId, payload) # ps) st = bind_run (handle_cam env splitId payload st) (\<lambda>st _. handle_cams env ps st)"

fun writer_turns :: "cam_env \<Rightarrow> (string \<times> 64 word) list \<Rightarrow> cam_topic \<Rightarrow> cam_topic" where
  "writer_turns env [] st = st"
| "writer_turns env ((uuid, now) # ts) st = writer_turns env ts (writer_turn env uuid now st)"

text \<open>What is expected of the topic: the messages are inserted in the order of the queue.\<close>

fun insert_all :: "db_env \<Rightarrow> (32 word \<times> CamData) list \<Rightarrow> ins \<Rightarrow> (ins, unit) run" where
  "insert_all db [] st = Fin st ()"
| "insert_all db ((splitId, cam) # cs) st =
     bind_run (catch_run (camInsert db splitId cam st) (\<lambda>st e. Fin st ())) (\<lambda>st _. insert_all db cs st)"

definition decoded :: "cam_env \<Rightarrow> string \<Rightarrow> CamData" where
  "decoded env payload = ce_parse_data env (cm_data (ce_parse env payload))"

definition payload_of :: "cam_env \<Rightarrow> string \<times> 64 word \<Rightarrow> CamData \<Rightarrow> string" where
  "payload_of env t cam = ce_serialize env (cam_message env (fst t) (snd t) cam) @ [CHR 0x00]"

lemma handle_cams_decoded:
  "list_all2 (\<lambda>p c. decoded env p = c) ps cams \<Longrightarrow>
   handle_cams env (zip splits ps) st = insert_all (ce_db env) (zip splits cams) st"
proof (induction arbitrary: splits st rule: list_all2_induct)
  case (Cons p ps c cs)
  then show ?case by (cases splits) (simp_all add: handle_cam_def decoded_def)
qed simp

lemma writer_turns_put:
  assumes "\<forall>p. ce_put env p"
  shows "length cams \<le> length ts \<Longrightarrow>
    cq_put (writer_turns env ts \<lparr>cq_sendQueue = cams, cq_put = ps\<rparr>) = ps @ map2 (payload_of env) ts cams"
proof (induction ts arbitrary: cams ps)
  case (Cons t ts)
  have idle: "writer_turns env ts st = st" if "cq_sendQueue st = []" for ts st
    using that by (induction ts) (auto simp: writer_turn_def)
  show ?case
  proof (cases cams)
    case (Cons c cs)
    then show ?thesis using Cons.prems Cons.IH [of cs "ps @ [payload_of env t c]"] assms
      by (cases t) (simp add: writer_turn_def send_cam_def payload_of_def Let_def)
  qed (simp add: idle)
qed simp

text \<open>
  Sender and receiver together: when every message is read as it was put on the topic, with the zero byte that
  is sent after it, and no put fails, the messages of the queue are inserted on the other side in their order, each
  once, whatever an earlier insert has thrown.
\<close>

theorem cams_inserted_in_order:
  assumes "\<forall>t \<in> set ts. \<forall>c \<in> set cams. decoded env (payload_of env t c) = c" and "\<forall>p. ce_put env p"
    and "length cams \<le> length ts"
  shows "handle_cams env (zip splits (cq_put (writer_turns env ts \<lparr>cq_sendQueue = cams, cq_put = []\<rparr>))) st
    = insert_all (ce_db env) (zip splits cams) st"
proof -
  have "list_all2 (\<lambda>p c. decoded env p = c) (map2 (payload_of env) ts cams) cams"
    using assms(1,3) by (auto simp: list_all2_conv_all_nth)
  then show ?thesis using writer_turns_put [OF assms(2,3), of "[]"] handle_cams_decoded by simp
qed

definition demo_cam_env :: cam_env where
  "demo_cam_env = \<lparr>ce_db = demo_db, ce_serialize_data = (\<lambda>c. ''cam''), ce_parse_data = (\<lambda>s. demo_cam),
     ce_serialize = (\<lambda>m. cm_data m), ce_parse = (\<lambda>s. \<lparr>cm_msgId = [], cm_srcNodeId = [], cm_toNodeId = [], cm_msgType = 11,
       cm_length = 3, cm_data = c_str s, cm_createdAt = 0, cm_updatedAt = 0\<rparr>),
     ce_put = (\<lambda>p. True), ce_nodeId = ''n1'', ce_monNodeId = ''m1''\<rparr>"

theorem cams_inserted_in_order_witness:
  "handle_cams demo_cam_env (zip [4, 8] (cq_put (writer_turns demo_cam_env [(''u1'', 5), (''u2'', 6)]
     \<lparr>cq_sendQueue = [demo_cam, demo_cam], cq_put = []\<rparr>))) demo_ins
   = insert_all demo_db [(4, demo_cam), (8, demo_cam)] demo_ins"
  using cams_inserted_in_order [of "[(''u1'', 5), (''u2'', 6)]" "[demo_cam, demo_cam]" demo_cam_env "[4, 8]" demo_ins]
  by (simp add: decoded_def demo_cam_env_def)

end
