(* ===== verification/CamTcp.thy ===== *)
theory CamTcp
  imports CamCrc CamIntake CamInsert
begin

text \<open>
  The receiver of fused messages of the camera application (\<open>cam-app/src/UserTcpServer.cpp\<close>): a packet is a head of
  26 bytes, a message, a check code and an end code. A turn of the handler reads one packet from the socket and
  converts its message.
\<close>

section \<open>The socket\<close>

text \<open>
  The bytes that the sender has written and that have not been read, and for each call of \<open>receiveBytes\<close> how many of
  them have arrived by then; the call throws when the connection fails, and blocks while nothing is known to arrive.
\<close>

datatype arrival = Arrives nat | NetError string

record tcp_state =
  ts_stream :: "8 word list"
  ts_arrivals :: "arrival list"
  ts_msgNum :: "8 word"
  ts_queues :: cam_queues

definition receiveBytes :: "nat \<Rightarrow> tcp_state \<Rightarrow> (tcp_state, 8 word list) run" where
  "receiveBytes n st =
     (case ts_arrivals st of
        [] \<Rightarrow> Hang
      | NetError e # as \<Rightarrow> Exc (st\<lparr>ts_arrivals := as\<rparr>) e
      | Arrives k # as \<Rightarrow>
          Fin (st\<lparr>ts_arrivals := as, ts_stream := drop (min n k) (ts_stream st)\<rparr>) (take (min n k) (ts_stream st)))"

text \<open>
  \<open>recvAllData\<close>: the buffer of 65535 bytes is represented by the \<open>recv_len_\<close> bytes that are in it. All bytes that
  have arrived are appended, also those behind the packet.
\<close>

definition buffer_size :: nat where "buffer_size = 65535"

function recvAllData :: "nat \<Rightarrow> nat \<Rightarrow> nat \<Rightarrow> 8 word list \<Rightarrow> tcp_state \<Rightarrow> (tcp_state, bool \<times> 8 word list) run" where
  "recvAllData limit try_count_max try_count buf st =
     (if length buf < limit
      then bind_run (receiveBytes buffer_size st) (\<lambda>st tmp.
             if buffer_size < length buf + length tmp then Crash ''memcpy past the end of buffer''
             else if try_count_max < Suc try_count then Fin st (False, buf @ tmp)
             else recvAllData limit try_count_max (Suc try_count) (buf @ tmp) st)
      else Fin st (True, buf))"
  by pat_completeness auto
termination
  by (relation "measure (\<lambda>(limit, try_count_max, try_count, buf, st). Suc try_count_max - try_count)") auto

declare recvAllData.simps [simp del]

section \<open>Packets\<close>

definition be16 :: "8 word \<Rightarrow> 8 word \<Rightarrow> 16 word" where
  "be16 a b = word_of_nat (unat a * 256 + unat b)"

definition be32 :: "8 word \<Rightarrow> 8 word \<Rightarrow> 8 word \<Rightarrow> 8 word \<Rightarrow> 32 word" where
  "be32 a b c d = word_of_nat (((unat a * 256 + unat b) * 256 + unat c) * 256 + unat d)"

text \<open>The fields of the head that are used.\<close>

definition packet_header :: "8 word list \<Rightarrow> 16 word" where
  "packet_header buf = be16 (buf ! 0) (buf ! 1)"

definition packet_msgLength :: "8 word list \<Rightarrow> 32 word" where
  "packet_msgLength buf = be32 (buf ! 22) (buf ! 23) (buf ! 24) (buf ! 25)"

definition packet_checkCode :: "nat \<Rightarrow> 8 word list \<Rightarrow> 16 word" where
  "packet_checkCode len buf = be16 (buf ! (26 + len)) (buf ! (26 + len + 1))"

definition packet_endCode :: "nat \<Rightarrow> 8 word list \<Rightarrow> 16 word" where
  "packet_endCode len buf = be16 (buf ! (26 + len + 2)) (buf ! (26 + len + 3))"

text \<open>\<open>ParseFromArray\<close> is generated code.\<close>

record tcp_env =
  te_mec :: mec_info
  te_parse :: "8 word list \<Rightarrow> FusionPathDatas option"

definition handle_fusion :: "tcp_env \<Rightarrow> 8 word list \<Rightarrow> tcp_state \<Rightarrow> (tcp_state, unit) run" where
  "handle_fusion env fusion st =
     (case te_parse env fusion of
        None \<Rightarrow> Fin st ()
      | Some fusionPbData \<Rightarrow>
          (case ConvertCam (te_mec env) fusionPbData (ts_msgNum st) (ts_queues st) of
             Fin qs _ \<Rightarrow> Fin (st\<lparr>ts_queues := qs, ts_msgNum := ts_msgNum st + 1\<rparr>) ()
           | Exc qs e \<Rightarrow> Exc (st\<lparr>ts_queues := qs\<rparr>) e
           | Crash e \<Rightarrow> Crash e
           | Hang \<Rightarrow> Hang))"

definition check_packet :: "tcp_env \<Rightarrow> nat \<Rightarrow> 8 word list \<Rightarrow> tcp_state \<Rightarrow> (tcp_state, unit) run" where
  "check_packet env msgLength buf st =
     (let fusion = take msgLength (drop 26 buf)
      in if packet_endCode msgLength buf \<noteq> 0xECFD then Fin st ()
         else if ucast (packet_checkCode msgLength buf) \<noteq> N_CRC16 (take 26 buf @ fusion) then Fin st ()
         else handle_fusion env fusion st)"

text \<open>The rest of the packet, when the head is in the buffer.\<close>

definition receive_message :: "tcp_env \<Rightarrow> 8 word list \<Rightarrow> tcp_state \<Rightarrow> (tcp_state, unit) run" where
  "receive_message env buf st =
     (let msgLength = packet_msgLength buf
      in if packet_header buf \<noteq> 0xFAEB \<or> msgLength \<le> 0 \<or> 65000 < msgLength then Fin st ()
         else bind_run (recvAllData (26 + unat msgLength + 4) 100 0 buf st) (\<lambda>st (retFlag, buf).
                if \<not> retFlag then Fin st () else check_packet env (unat msgLength) buf st))"

definition onSocketReadable :: "tcp_env \<Rightarrow> tcp_state \<Rightarrow> (tcp_state, unit) run" where
  "onSocketReadable env st =
     bind_run (receiveBytes 26 st) (\<lambda>st buf.
       if buf = [] then Fin st ()
       else bind_run (recvAllData 26 100 0 buf st) (\<lambda>st (retFlag, buf).
              if \<not> retFlag then Fin st () else receive_message env buf st))"

section \<open>What the sender writes\<close>

definition bytes16 :: "16 word \<Rightarrow> 8 word list" where
  "bytes16 w = [ucast (drop_bit 8 w), ucast w]"

definition bytes32 :: "32 word \<Rightarrow> 8 word list" where
  "bytes32 w = [ucast (drop_bit 24 w), ucast (drop_bit 16 w), ucast (drop_bit 8 w), ucast w]"

text \<open>A packet: the middle of the head holds the protocol, the id of the algorithm, the number and the token.\<close>

definition packet :: "8 word list \<Rightarrow> 8 word list \<Rightarrow> 8 word list" where
  "packet middle msg =
     (let data = bytes16 0xFAEB @ middle @ bytes32 (word_of_nat (length msg)) @ msg
      in data @ bytes16 (ucast (N_CRC16 data)) @ bytes16 0xECFD)"

lemma unat_byte: "unat (ucast w :: 8 word) = unat w mod 256"
  by (simp add: unsigned_ucast_eq take_bit_eq_mod)

lemma unat_drop: "unat (drop_bit n w) = unat w div 2 ^ n"
  by (simp only: unat_drop_bit_eq) (rule drop_bit_eq_div)

lemma be16_bytes [simp]: "be16 (ucast (drop_bit 8 w)) (ucast w) = w"
proof -
  have "unat w < 256 * 256" using unsigned_less [of w, where ?'a = nat] by simp
  then have "unat w div 256 < 256" by (simp add: less_mult_imp_div_less)
  then show ?thesis by (simp add: be16_def unat_byte unat_drop)
qed

lemma be32_bytes [simp]: "be32 (ucast (drop_bit 24 w)) (ucast (drop_bit 16 w)) (ucast (drop_bit 8 w)) (ucast w) = w"
proof -
  have d: "x div 2 ^ (n + 8) * 256 + x div 2 ^ n mod 256 = x div 2 ^ n" for x n :: nat
    by (simp add: power_add div_mult2_eq)
  have "unat w < 256 * 2 ^ 24" using unsigned_less [of w, where ?'a = nat] by simp
  then have "unat w div 2 ^ 24 mod 256 = unat w div 2 ^ 24" by (intro mod_less less_mult_imp_div_less)
  then show ?thesis using d [of "unat w" 16] d [of "unat w" 8] d [of "unat w" 0]
    by (simp add: be32_def unat_byte unat_drop)
qed

lemma bytes_nth [simp]:
  "be16 (bytes16 w ! 0) (bytes16 w ! Suc 0) = w"
  "be32 (bytes32 v ! 0) (bytes32 v ! Suc 0) (bytes32 v ! 2) (bytes32 v ! 3) = v"
  by (simp_all add: bytes16_def bytes32_def)

lemma crc_fits: "ucast (ucast (N_CRC16 bs) :: 16 word) = N_CRC16 bs"
  by (rule bit_eqI) (auto simp: crc_tables bit_swap_bytes bit_simps split: if_splits)

lemma length_bytes [simp]: "length (bytes16 w) = 2" "length (bytes32 v) = 4"
  by (simp_all add: bytes16_def bytes32_def)

lemma length_packet: "length (packet middle msg) = 10 + length middle + length msg"
  by (simp add: packet_def Let_def)

definition packet_data :: "8 word list \<Rightarrow> 8 word list \<Rightarrow> 8 word list" where
  "packet_data middle msg = bytes16 0xFAEB @ middle @ bytes32 (word_of_nat (length msg)) @ msg"

lemma packet_fields:
  assumes "length middle = 20"
  shows "packet_header (packet middle msg @ rest) = 0xFAEB"
    and "packet_msgLength (packet middle msg @ rest) = word_of_nat (length msg)"
    and "packet_checkCode (length msg) (packet middle msg @ rest) = ucast (N_CRC16 (packet_data middle msg))"
    and "packet_endCode (length msg) (packet middle msg @ rest) = 0xECFD"
    and "take 26 (packet middle msg @ rest) @ msg = packet_data middle msg"
    and "take (length msg) (drop 26 (packet middle msg @ rest)) = msg"
  using assms
  by (simp_all add: packet_def Let_def packet_header_def packet_msgLength_def packet_checkCode_def packet_endCode_def
      packet_data_def nth_append)

section \<open>A packet that arrives in pieces\<close>

text \<open>
  The buffer holds the first \<open>m\<close> bytes of what was sent, and the rest has not been read.
\<close>

abbreviation read_to :: "nat \<Rightarrow> 8 word list \<Rightarrow> nat list \<Rightarrow> tcp_state \<Rightarrow> tcp_state" where
  "read_to m p ks st \<equiv> st\<lparr>ts_arrivals := map Arrives ks, ts_stream := drop m p\<rparr>"

lemma recvAllData_arrives:
  assumes "\<forall>k \<in> set ks. 0 < k" and "t + length ks \<le> try_max" and "length p \<le> buffer_size" and "limit \<le> length p"
    and "m \<le> length p" and "limit \<le> m + sum_list ks"
  shows "\<exists>m' ks'. recvAllData limit try_max t (take m p) (read_to m p ks st) = Fin (read_to m' p ks' st) (True, take m' p)
    \<and> limit \<le> m' \<and> m' \<le> length p \<and> set ks' \<subseteq> set ks \<and> length ks' \<le> length ks
    \<and> min (length p) (m + sum_list ks) \<le> m' + sum_list ks'"
  using assms
proof (induction ks arbitrary: t m)
  case Nil
  then show ?case by (intro exI [of _ m] exI [of _ "[]"]) (simp add: recvAllData.simps)
next
  case (Cons k ks)
  show ?case
  proof (cases "m < limit")
    case False
    then show ?thesis using Cons.prems
      by (intro exI [of _ m] exI [of _ "k # ks"]) (simp add: recvAllData.simps)
  next
    case True
    define m1 where "m1 = min (length p) (m + k)"
    have m1: "take (min buffer_size k) (drop m p) = take k (drop m p)" "drop (min buffer_size k) (drop m p) = drop m1 p"
      "m1 \<le> length p"
      using Cons.prems(3,5) by (auto simp: min_def m1_def add.commute)
    have m2: "take m p @ take k (drop m p) = take m1 p"
      unfolding take_add [symmetric] by (simp add: m1_def min_def)
    have "length (take m p) + length (take k (drop m p)) = m1"
      using arg_cong [OF m2, of length] m1(3) by simp
    moreover have "length (take m p) < limit" using True by simp
    ultimately have "recvAllData limit try_max t (take m p) (read_to m p (k # ks) st)
      = recvAllData limit try_max (Suc t) (take m1 p) (read_to m1 p ks st)"
      using Cons.prems(2,3) m1 m2
      by (subst recvAllData.simps) (simp add: receiveBytes_def del: length_take length_drop drop_drop)
    moreover have "\<exists>m' ks'. recvAllData limit try_max (Suc t) (take m1 p) (read_to m1 p ks st)
        = Fin (read_to m' p ks' st) (True, take m' p)
      \<and> limit \<le> m' \<and> m' \<le> length p \<and> set ks' \<subseteq> set ks \<and> length ks' \<le> length ks
      \<and> min (length p) (m1 + sum_list ks) \<le> m' + sum_list ks'"
      by (rule Cons.IH) (use Cons.prems in \<open>auto simp: m1_def\<close>)
    moreover have "min (length p) (m1 + sum_list ks) = min (length p) (m + sum_list (k # ks))"
      by (simp add: m1_def)
    ultimately show ?thesis by (metis (no_types, lifting) le_SucI length_Cons set_subset_Cons subset_trans)
  qed
qed

lemma check_valid:
  assumes "length middle = 20" and "te_parse env msg = Some f"
    and "convert_paths (fds_dataTime f) (fds_pathList f) = Some ptcs"
  shows "check_packet env (length msg) (packet middle msg @ rest) st = Fin (st\<lparr>ts_msgNum := ts_msgNum st + 1,
    ts_queues := push_cam (cam_of (te_mec env) f (ts_msgNum st) ptcs) (ts_queues st)\<rparr>) ()"
  using assms by (simp add: check_packet_def Let_def packet_fields crc_fits handle_fusion_def ConvertCam_def
      del: take_append drop_append)

text \<open>
  C21. A packet that the sender has made of a message of at most 65000 bytes is received, in whatever pieces it
  arrives, up to a hundred: its message is converted, given the number of the message, and put into the queues.
\<close>

theorem packet_received:
  assumes "length middle = 20" and "msg \<noteq> []" and "length msg \<le> 65000" and "te_parse env msg = Some f"
    and "convert_paths (fds_dataTime f) (fds_pathList f) = Some ptcs"
    and "ts_stream st = packet middle msg" and "ts_arrivals st = map Arrives (k # ks)" and "\<forall>k \<in> set (k # ks). 0 < k"
    and "length ks \<le> 100" and "length (packet middle msg) \<le> min 26 k + sum_list ks"
  shows "\<exists>ks'. onSocketReadable env st = Fin (st\<lparr>ts_arrivals := map Arrives ks', ts_stream := [],
     ts_msgNum := ts_msgNum st + 1,
     ts_queues := push_cam (cam_of (te_mec env) f (ts_msgNum st) ptcs) (ts_queues st)\<rparr>) ()"
proof -
  let ?p = "packet middle msg" and ?m = "min 26 k" and ?L = "length msg"
  have len: "length ?p = 30 + ?L" "length ?p \<le> buffer_size"
    using assms(1,3) by (simp_all add: length_packet buffer_size_def)
  have u: "unat (word_of_nat ?L :: 32 word) = ?L" using assms(3) by (simp add: unat_of_nat take_bit_nat_eq_self)
  have r0: "receiveBytes 26 st = Fin (read_to ?m ?p ks st) (take ?m ?p)"
    using assms(6,7) by (simp add: receiveBytes_def)
  have m0: "?m \<le> length ?p" "?m \<le> 30 + ?L" using len by auto
  have b0: "?m \<noteq> 0" "?p \<noteq> []" using len assms(8) by auto
  obtain m1 ks1 where r1: "recvAllData 26 100 0 (take ?m ?p) (read_to ?m ?p ks st) = Fin (read_to m1 ?p ks1 st) (True, take m1 ?p)"
    and m1: "26 \<le> m1" "m1 \<le> length ?p" "set ks1 \<subseteq> set ks" "length ks1 \<le> length ks"
      "min (length ?p) (?m + sum_list ks) \<le> m1 + sum_list ks1"
    using recvAllData_arrives [of ks 0 100 ?p 26 ?m st] assms(8,9,10) len m0 by auto
  have h: "packet_header (take m1 ?p) = 0xFAEB" "packet_msgLength (take m1 ?p) = word_of_nat ?L"
    using packet_fields(1,2) [OF assms(1), of msg "[]"] m1(1)
    by (simp_all add: packet_header_def packet_msgLength_def)
  have g: "\<not> word_of_nat ?L \<le> (0 :: 32 word)" "\<not> (65000 :: 32 word) < word_of_nat ?L"
    using assms(2,3) u by (auto simp: word_less_nat_alt word_le_nat_alt)
  have p1: "\<forall>k \<in> set ks1. 0 < k" using m1(3) assms(8) by auto
  have p2: "0 + length ks1 \<le> 100" "26 + ?L + 4 \<le> length ?p" "26 + ?L + 4 \<le> m1 + sum_list ks1"
    using m1(4,5) len(1) assms(9,10) by auto
  obtain m2 ks2 where r2: "recvAllData (26 + ?L + 4) 100 0 (take m1 ?p) (read_to m1 ?p ks1 st)
      = Fin (read_to m2 ?p ks2 st) (True, take m2 ?p)" and m2: "26 + ?L + 4 \<le> m2"
    using recvAllData_arrives [OF p1 p2(1) len(2) p2(2) m1(2) p2(3)] by blast
  have e: "take m2 ?p = ?p" "drop m2 ?p = []" using m2 len by auto
  have "check_packet env ?L ?p (read_to m2 ?p ks2 st) = Fin (read_to m2 ?p ks2 st\<lparr>ts_msgNum := ts_msgNum st + 1,
    ts_queues := push_cam (cam_of (te_mec env) f (ts_msgNum st) ptcs) (ts_queues st)\<rparr>) ()"
    using check_valid [OF assms(1,4,5), of "[]" "read_to m2 ?p ks2 st"] by simp
  then have "onSocketReadable env st = Fin (read_to m2 ?p ks2 st\<lparr>ts_msgNum := ts_msgNum st + 1,
    ts_queues := push_cam (cam_of (te_mec env) f (ts_msgNum st) ptcs) (ts_queues st)\<rparr>) ()"
    using r0 b0 r1 h g r2 u e by (simp add: onSocketReadable_def receive_message_def Let_def)
  then show ?thesis using e(2) by auto
qed

section \<open>Only valid packets have an effect\<close>

definition reads :: "tcp_state \<Rightarrow> 8 word list \<Rightarrow> tcp_state \<Rightarrow> bool" where
  "reads st buf st' \<longleftrightarrow> ts_stream st = buf @ ts_stream st' \<and> ts_queues st' = ts_queues st \<and> ts_msgNum st' = ts_msgNum st"

lemma receiveBytes_reads: "reads st0 buf st \<Longrightarrow> run_post (\<lambda>st' b. reads st0 (buf @ b) st') (\<lambda>_. True) (receiveBytes n st)"
  by (auto simp: receiveBytes_def reads_def split: list.splits arrival.splits)

lemma recvAllData_reads:
  "reads st0 buf st \<Longrightarrow> run_post (\<lambda>st' (ok, b). reads st0 b st' \<and> (ok \<longrightarrow> limit \<le> length b) \<and> (\<exists>x. b = buf @ x)) (\<lambda>_. True)
     (recvAllData limit try_max t buf st)"
proof (induction limit try_max t buf st rule: recvAllData.induct)
  case (1 limit try_max t buf st)
  show ?case
  proof (cases "length buf < limit")
    case True
    have post: "run_post (\<lambda>st1 tmp. receiveBytes buffer_size st = Fin st1 tmp \<and> reads st0 (buf @ tmp) st1) (\<lambda>_. True)
        (receiveBytes buffer_size st)"
      using receiveBytes_reads [OF "1.prems", of buffer_size] by (cases "receiveBytes buffer_size st") auto
    have step: "run_post (\<lambda>st' (ok, b). reads st0 b st' \<and> (ok \<longrightarrow> limit \<le> length b) \<and> (\<exists>x. b = buf @ x)) (\<lambda>_. True)
        (if buffer_size < length buf + length tmp then Crash ''memcpy past the end of buffer''
         else if try_max < Suc t then Fin st1 (False, buf @ tmp)
         else recvAllData limit try_max (Suc t) (buf @ tmp) st1)"
      if "receiveBytes buffer_size st = Fin st1 tmp \<and> reads st0 (buf @ tmp) st1" for st1 tmp
    proof -
      have "run_post (\<lambda>st' (ok, b). reads st0 b st' \<and> (ok \<longrightarrow> limit \<le> length b) \<and> (\<exists>x. b = (buf @ tmp) @ x)) (\<lambda>_. True)
         (recvAllData limit try_max (Suc t) (buf @ tmp) st1)"
        if "\<not> buffer_size < length buf + length tmp" "\<not> try_max < Suc t"
        using "1.IH" [OF True _ that] \<open>receiveBytes buffer_size st = Fin st1 tmp \<and> _\<close> by blast
      then show ?thesis using that by (auto elim!: run_post_weaken)
    qed
    show ?thesis unfolding recvAllData.simps [of limit try_max t buf st]
      using run_post_bind [OF post step] True by simp
  qed (use "1.prems" in \<open>auto simp: recvAllData.simps [of limit]\<close>)
qed

definition valid_packet :: "tcp_env \<Rightarrow> 8 word list \<Rightarrow> FusionPathDatas \<Rightarrow> bool" where
  "valid_packet env p f \<longleftrightarrow> (\<exists>n. length p = 30 + n \<and> 0 < n \<and> n \<le> 65000 \<and> packet_header p = 0xFAEB
     \<and> packet_msgLength p = word_of_nat n \<and> packet_endCode n p = 0xECFD
     \<and> ucast (packet_checkCode n p) = N_CRC16 (take (26 + n) p) \<and> te_parse env (take n (drop 26 p)) = Some f)"

definition accepts :: "tcp_env \<Rightarrow> tcp_state \<Rightarrow> tcp_state \<Rightarrow> bool" where
  "accepts env st st' \<longleftrightarrow> (\<exists>p rest f ptcs. ts_stream st = p @ rest @ ts_stream st' \<and> valid_packet env p f
       \<and> ts_queues st' = push_cam (cam_of (te_mec env) f (ts_msgNum st) ptcs) (ts_queues st))"

lemma check_packet_accepts:
  assumes "reads st b st1" and "30 + n \<le> length b" and "0 < n" and "n \<le> 65000"
    and "packet_header b = 0xFAEB" and "packet_msgLength b = word_of_nat n"
  shows "run_post (\<lambda>st' _. ts_queues st' = ts_queues st \<or> accepts env st st') (\<lambda>_. True) (check_packet env n b st1)"
proof -
  let ?p = "take (30 + n) b"
  have "accepts env st st'" if "valid_packet env ?p f" "ts_stream st' = ts_stream st1"
    "ts_queues st' = push_cam (cam_of (te_mec env) f (ts_msgNum st) ptcs) (ts_queues st)" for st' f ptcs
  proof -
    have "ts_stream st = ?p @ drop (30 + n) b @ ts_stream st'" using assms(1) that(2) by (simp add: reads_def)
    then show ?thesis unfolding accepts_def using that(1,3) by blast
  qed
  moreover have "valid_packet env ?p f" if "packet_endCode n b = 0xECFD"
    "ucast (packet_checkCode n b) = N_CRC16 (take 26 b @ take n (drop 26 b))" "te_parse env (take n (drop 26 b)) = Some f" for f
    using that assms(2-6)
    by (auto simp: valid_packet_def packet_header_def packet_msgLength_def packet_endCode_def packet_checkCode_def
        take_add [of 26 n, symmetric] drop_take intro!: exI [of _ n])
  ultimately show ?thesis using assms(1)
    by (auto simp: check_packet_def handle_fusion_def ConvertCam_def Let_def reads_def
        split: option.splits)
qed

definition harmless :: "tcp_env \<Rightarrow> tcp_state \<Rightarrow> (tcp_state, unit) run \<Rightarrow> bool" where
  "harmless env st = run_post (\<lambda>st' _. ts_queues st' = ts_queues st \<or> accepts env st st') (\<lambda>_. True)"

lemma harmless_same [simp]: "reads st b st1 \<Longrightarrow> harmless env st (Fin st1 ())"
  by (simp add: harmless_def reads_def)

lemma harmless_recv:
  assumes "reads st b st1"
    and "\<And>st2 x. reads st (b @ x) st2 \<Longrightarrow> limit \<le> length (b @ x) \<Longrightarrow> harmless env st (f (b @ x) st2)"
  shows "harmless env st (bind_run (recvAllData limit try_max t b st1) (\<lambda>st (ok, b). if \<not> ok then Fin st () else f b st))"
  unfolding harmless_def
  by (rule run_post_bind [OF recvAllData_reads [OF assms(1)]])
    (use assms(2) in \<open>auto simp: harmless_def [symmetric] intro: harmless_same\<close>)

lemma harmless_message:
  assumes "reads st b st1" and "26 \<le> length b"
  shows "harmless env st (receive_message env b st1)"
proof (cases "packet_header b \<noteq> 0xFAEB \<or> packet_msgLength b \<le> 0 \<or> 65000 < packet_msgLength b")
  case False
  let ?n = "unat (packet_msgLength b)"
  have n: "0 < ?n" "?n \<le> 65000" using False by (auto simp: word_le_nat_alt word_less_nat_alt)
  have "harmless env st (check_packet env ?n (b @ x) st2)"
    if "reads st (b @ x) st2" "26 + ?n + 4 \<le> length (b @ x)" for st2 x
    unfolding harmless_def
    by (rule check_packet_accepts [OF that(1) _ n])
      (use that(2) False assms(2) in \<open>auto simp: packet_header_def packet_msgLength_def nth_append\<close>)
  from harmless_recv [where f = "check_packet env ?n", OF assms(1) this] False show ?thesis
    by (simp add: receive_message_def Let_def)
qed (use assms in \<open>auto simp: receive_message_def Let_def\<close>)

text \<open>
  C10. A turn of the handler leaves the queues as they are, or the bytes that it has read begin with a packet whose
  head, length, check code and end code are right and whose message can be parsed, and that message is what it has
  put into the queues.
\<close>

theorem only_valid_packets:
  assumes "onSocketReadable env st = Fin st' u"
  shows "ts_queues st' = ts_queues st \<or>
    (\<exists>p rest f ptcs. ts_stream st = p @ rest @ ts_stream st' \<and> valid_packet env p f
       \<and> ts_queues st' = push_cam (cam_of (te_mec env) f (ts_msgNum st) ptcs) (ts_queues st))"
proof -
  have first: "harmless env st (if b = [] then Fin st1 () else bind_run (recvAllData 26 100 0 b st1)
      (\<lambda>st (ok, b). if \<not> ok then Fin st () else receive_message env b st))" if "reads st b st1" for b st1
    using harmless_recv [where f = "receive_message env", OF that harmless_message] that by auto
  have "harmless env st (onSocketReadable env st)"
    unfolding onSocketReadable_def harmless_def
    by (rule run_post_bind [OF receiveBytes_reads [of st "[]"]]) (simp add: reads_def, use first in \<open>simp add: harmless_def\<close>)
  with assms show ?thesis by (simp add: accepts_def harmless_def)
qed

section \<open>Bytes behind a packet\<close>

lemma head_then_rest:
  assumes "length middle = 20" and "msg \<noteq> []" and "length msg \<le> 65000"
    and "ts_stream st = packet middle msg @ rest" and "ts_arrivals st = Arrives k0 # Arrives k1 # as" and "26 \<le> k0"
  shows "onSocketReadable env st =
    (let more = take (min buffer_size k1) (drop 26 (packet middle msg @ rest));
         st' = st\<lparr>ts_arrivals := as, ts_stream := drop (min buffer_size k1) (drop 26 (packet middle msg @ rest))\<rparr>
     in if buffer_size < 26 + length more then Crash ''memcpy past the end of buffer''
        else bind_run (recvAllData (30 + length msg) 100 1 (take 26 (packet middle msg) @ more) st')
          (\<lambda>st (ok, b). if \<not> ok then Fin st () else check_packet env (length msg) b st))"
proof -
  let ?p = "packet middle msg @ rest"
  have len: "30 \<le> length (packet middle msg)" "packet middle msg \<noteq> []"
    using assms(1) length_packet [of middle msg] by auto
  have u: "unat (word_of_nat (length msg) :: 32 word) = length msg" using assms(3) by (simp add: unat_of_nat take_bit_nat_eq_self)
  have g: "\<not> word_of_nat (length msg) \<le> (0 :: 32 word)" "\<not> (65000 :: 32 word) < word_of_nat (length msg)"
    using assms(2,3) u by (auto simp: word_less_nat_alt word_le_nat_alt)
  have h: "packet_header (take 26 ?p) = 0xFAEB" "packet_msgLength (take 26 ?p) = word_of_nat (length msg)"
    using packet_fields(1,2) [OF assms(1), of msg rest] by (simp_all add: packet_header_def packet_msgLength_def del: take_append)
  have r: "receiveBytes 26 st = Fin (st\<lparr>ts_arrivals := Arrives k1 # as, ts_stream := drop 26 ?p\<rparr>) (take 26 ?p)"
    using assms(4,5,6) by (simp add: receiveBytes_def min_def del: drop_append take_append)
  have e: "length (take 26 ?p) = 26" "take 26 ?p = take 26 (packet middle msg)" using len by auto
  have m: "recvAllData (30 + length msg) 100 0 (take 26 ?p) (st\<lparr>ts_arrivals := Arrives k1 # as, ts_stream := drop 26 ?p\<rparr>)
    = (let more = take (min buffer_size k1) (drop 26 ?p);
           st' = st\<lparr>ts_arrivals := as, ts_stream := drop (min buffer_size k1) (drop 26 ?p)\<rparr>
       in if buffer_size < 26 + length more then Crash ''memcpy past the end of buffer''
          else recvAllData (30 + length msg) 100 1 (take 26 ?p @ more) st')"
    using e(1) by (subst recvAllData.simps) (simp add: receiveBytes_def Let_def del: drop_append take_append drop_drop length_take)
  have "onSocketReadable env st = receive_message env (take 26 ?p) (st\<lparr>ts_arrivals := Arrives k1 # as, ts_stream := drop 26 ?p\<rparr>)"
    using e(1) len by (simp add: onSocketReadable_def r recvAllData.simps [of 26 100 0] del: drop_append take_append)
  also have "\<dots> = bind_run (recvAllData (30 + length msg) 100 0 (take 26 ?p) (st\<lparr>ts_arrivals := Arrives k1 # as, ts_stream := drop 26 ?p\<rparr>))
      (\<lambda>st (ok, b). if \<not> ok then Fin st () else check_packet env (length msg) b st)"
    unfolding receive_message_def Let_def h u using g by (simp del: drop_append take_append)
  finally show ?thesis using m unfolding e(2) by (simp add: Let_def del: drop_append take_append drop_drop length_take)
qed

text \<open>
  C22. When bytes behind a packet have arrived with it, they are read and thrown away: the packets that follow, or
  their beginnings, are lost, although the sender has sent them and the connection is in order.
\<close>

theorem bytes_behind_packet_lost:
  assumes "length middle = 20" and "msg \<noteq> []" and "length msg \<le> 65000" and "te_parse env msg = Some f"
    and "convert_paths (fds_dataTime f) (fds_pathList f) = Some ptcs"
    and "ts_stream st = packet middle msg @ rest" and "ts_arrivals st = Arrives k0 # Arrives k1 # as" and "26 \<le> k0"
    and "length (packet middle msg @ rest) \<le> 26 + k1" and "length (packet middle msg @ rest) \<le> buffer_size"
  shows "onSocketReadable env st = Fin (st\<lparr>ts_arrivals := as, ts_stream := [], ts_msgNum := ts_msgNum st + 1,
     ts_queues := push_cam (cam_of (te_mec env) f (ts_msgNum st) ptcs) (ts_queues st)\<rparr>) ()"
proof -
  let ?p = "packet middle msg @ rest"
  have len: "26 + length (drop 26 (packet middle msg)) = length (packet middle msg)" "30 + length msg \<le> length ?p"
    using assms(1) by (simp_all add: length_packet)
  have "take (min buffer_size k1) (drop 26 ?p) = drop 26 ?p" "drop (min buffer_size k1) (drop 26 ?p) = []"
    using assms(9,10) by auto
  moreover have "take 26 (packet middle msg) @ drop 26 ?p = ?p" using len by simp
  moreover have "26 + length (drop 26 ?p) = length ?p" using len by simp
  ultimately show ?thesis
    using head_then_rest [OF assms(1-3,6-8), of env] assms(10) len(2) check_valid [OF assms(1,4,5), of rest]
    by (simp add: Let_def recvAllData.simps [of "30 + length msg"] del: drop_append take_append length_append)
qed

text \<open>
  C23. When a sender has sent so much that the bytes behind the head fill the buffer, they are copied past its end:
  a burst of packets of more than 65509 bytes behind a head is undefined behaviour.
\<close>

theorem burst_overflows_buffer:
  assumes "length middle = 20" and "msg \<noteq> []" and "length msg \<le> 65000"
    and "ts_stream st = packet middle msg @ rest" and "ts_arrivals st = Arrives k0 # Arrives k1 # as" and "26 \<le> k0"
    and "buffer_size < 26 + k1" and "buffer_size < length (packet middle msg @ rest)"
  shows "onSocketReadable env st = Crash ''memcpy past the end of buffer''"
proof -
  have "26 + length (drop 26 (packet middle msg @ rest)) = length (packet middle msg @ rest)"
    using assms(1) by (simp add: length_packet)
  then have "buffer_size < 26 + length (take (min buffer_size k1) (drop 26 (packet middle msg @ rest)))"
    using assms(7,8) by (simp add: buffer_size_def del: drop_append length_drop)
  then show ?thesis unfolding head_then_rest [OF assms(1-6)] by (simp add: Let_def)
qed

section \<open>From the socket to the database\<close>

text \<open>A packet that arrives by itself, the head before the rest, leaves the next one in the socket.\<close>

definition pieces :: "8 word list \<Rightarrow> arrival list" where
  "pieces msg = [Arrives 26, Arrives (length msg + 4)]"

lemma exact_turn:
  assumes "length middle = 20" and "msg \<noteq> []" and "length msg \<le> 65000" and "te_parse env msg = Some f"
    and "convert_paths (fds_dataTime f) (fds_pathList f) = Some ptcs"
    and "ts_stream st = packet middle msg @ rest" and "ts_arrivals st = pieces msg @ as"
  shows "onSocketReadable env st = Fin (st\<lparr>ts_arrivals := as, ts_stream := rest, ts_msgNum := ts_msgNum st + 1,
     ts_queues := push_cam (cam_of (te_mec env) f (ts_msgNum st) ptcs) (ts_queues st)\<rparr>) ()"
proof -
  let ?p = "packet middle msg"
  have len: "length ?p = 30 + length msg" using assms(1) by (simp add: length_packet)
  have "min buffer_size (length msg + 4) = length (drop 26 ?p)"
    using assms(3) len by (simp add: buffer_size_def)
  then have "take (min buffer_size (length msg + 4)) (drop 26 (?p @ rest)) = drop 26 ?p"
    "drop (min buffer_size (length msg + 4)) (drop 26 (?p @ rest)) = rest"
    using len by simp_all
  moreover have "ts_arrivals st = Arrives 26 # Arrives (length msg + 4) # as" using assms(7) by (simp add: pieces_def)
  ultimately show ?thesis
    using head_then_rest [OF assms(1-3,6), of 26 "length msg + 4" as env] assms(3) len check_valid [OF assms(1,4,5), of "[]"]
    by (simp add: Let_def recvAllData.simps [of "30 + length msg"] buffer_size_def)
qed

fun turns :: "tcp_env \<Rightarrow> nat \<Rightarrow> tcp_state \<Rightarrow> (tcp_state, unit) run" where
  "turns env 0 st = Fin st ()"
| "turns env (Suc n) st = bind_run (onSocketReadable env st) (\<lambda>st _. turns env n st)"

fun numbered_cams :: "mec_info \<Rightarrow> 8 word \<Rightarrow> (FusionPathDatas \<times> ParticipantData list) list \<Rightarrow> CamData list" where
  "numbered_cams mec n [] = []"
| "numbered_cams mec n ((f, ptcs) # fs) = cam_of mec f n ptcs # numbered_cams mec (n + 1) fs"

definition readable :: "tcp_env \<Rightarrow> 8 word list \<Rightarrow> FusionPathDatas \<times> ParticipantData list \<Rightarrow> bool" where
  "readable env msg = (\<lambda>(f, ptcs). msg \<noteq> [] \<and> length msg \<le> 65000 \<and> te_parse env msg = Some f
     \<and> convert_paths (fds_dataTime f) (fds_pathList f) = Some ptcs)"

lemma turns_queue:
  assumes "length middle = 20" and "list_all2 (readable env) msgs fs"
    and "ts_stream st = concat (map (packet middle) msgs)" and "ts_arrivals st = concat (map pieces msgs)"
  shows "\<exists>st'. turns env (length msgs) st = Fin st' ()
    \<and> queue_q (camSendQueue (ts_queues st')) = queue_q (camSendQueue (ts_queues st)) @ numbered_cams (te_mec env) (ts_msgNum st) fs"
  using assms(2-)
proof (induction msgs arbitrary: fs st)
  case (Cons msg msgs)
  from Cons.prems(1) obtain f ptcs fs' where f: "fs = (f, ptcs) # fs'" "readable env msg (f, ptcs)" "list_all2 (readable env) msgs fs'"
    by (auto simp: list_all2_Cons1)
  let ?st = "st\<lparr>ts_arrivals := concat (map pieces msgs), ts_stream := concat (map (packet middle) msgs), ts_msgNum := ts_msgNum st + 1,
     ts_queues := push_cam (cam_of (te_mec env) f (ts_msgNum st) ptcs) (ts_queues st)\<rparr>"
  have "onSocketReadable env st = Fin ?st ()"
    by (rule exact_turn [OF assms(1)]) (use f(2) Cons.prems(2,3) in \<open>simp_all add: readable_def\<close>)
  with Cons.IH [OF f(3), of ?st] show ?case by (auto simp: f(1) push_cam_def)
qed simp

text \<open>
  C3. From the socket of one node to the database of the other: when the packets arrive one by one, their messages
  can be read and converted, and what is put on the topic is read as it was put, then the inserts are those of the
  converted messages, in the order of the packets and numbered from the number of the handler modulo 256.
\<close>

theorem packets_reach_database:
  assumes "length middle = 20" and "list_all2 (readable env) msgs fs"
    and "ts_stream st = concat (map (packet middle) msgs)" and "ts_arrivals st = concat (map pieces msgs)"
    and "queue_q (camSendQueue (ts_queues st)) = []" and "length msgs \<le> length ts" and "\<forall>p. ce_put cenv p"
    and "\<forall>t \<in> set ts. \<forall>c \<in> set (numbered_cams (te_mec env) (ts_msgNum st) fs). decoded cenv (payload_of cenv t c) = c"
  shows "\<exists>st'. turns env (length msgs) st = Fin st' ()
    \<and> handle_cams cenv (zip splits (cq_put (writer_turns cenv ts \<lparr>cq_sendQueue = queue_q (camSendQueue (ts_queues st')), cq_put = []\<rparr>))) ins
      = insert_all (ce_db cenv) (zip splits (numbered_cams (te_mec env) (ts_msgNum st) fs)) ins"
proof -
  let ?cams = "numbered_cams (te_mec env) (ts_msgNum st) fs"
  from turns_queue [OF assms(1-4)] assms(5) obtain st' where st': "turns env (length msgs) st = Fin st' ()"
    "queue_q (camSendQueue (ts_queues st')) = ?cams" by auto
  have "length (numbered_cams mec n fs) = length fs" for mec n fs
    by (induction mec n fs rule: numbered_cams.induct) auto
  then have len: "length ?cams \<le> length ts" using assms(2,6) by (simp add: list_all2_lengthD)
  moreover have "list_all2 (\<lambda>p c. decoded cenv p = c) (map2 (payload_of cenv) ts ?cams) ?cams"
    using assms(8) len by (auto simp: list_all2_conv_all_nth)
  ultimately show ?thesis using st' writer_turns_put [OF assms(7) len, of "[]"] handle_cams_decoded by auto
qed

section \<open>Examples\<close>

definition demo_mec :: mec_info where
  "demo_mec = \<lparr>camType = 1, camVer = ''01'', sceneType = 0, deviceId = ''mec'', mapDevId = ''map'', mec_lat = 313050472,
     mec_lon = 1212170908, mec_ele = 23\<rparr>"

definition demo_fusion :: FusionPathDatas where
  "demo_fusion = \<lparr>fds_sendTime = 1, fds_dataTime = 2, fds_areaNo = 3, fds_pathList =
     [\<lparr>fp_objID = 5, fp_objType = 1, fp_objKind = 10, fp_objState = 0, fp_objCf = 90, fp_objPosDatas = None,
       fp_hasVisionData = False, fp_objVisionData = None, fp_oriPosDataList = []\<rparr>]\<rparr>"

definition demo_tcp_env :: tcp_env where
  "demo_tcp_env = \<lparr>te_mec = demo_mec, te_parse = (\<lambda>b. if b = [8, 1] then Some demo_fusion else None)\<rparr>"

definition demo_tcp :: "arrival list \<Rightarrow> 8 word list \<Rightarrow> tcp_state" where
  "demo_tcp as bytes = \<lparr>ts_stream = bytes, ts_arrivals = as, ts_msgNum = 41,
     ts_queues = \<lparr>camSendQueue = new_queue, simplifiedCamQueue = new_queue, cameraQueue = new_queue, radarQueue = new_queue\<rparr>\<rparr>"

definition demo_ptcs :: "ParticipantData list" where
  "demo_ptcs = [no_participant\<lparr>ptc_ptcId := 5, ptc_ptcType := 1, ptc_dataSource := INTEGRATED, ptc_vehicleType := 10, ptc_timestamp := 2\<rparr>]"

abbreviation demo_middle :: "8 word list" where "demo_middle \<equiv> replicate 20 0"

definition demo_cam_sent :: CamData where "demo_cam_sent = cam_of demo_mec demo_fusion 41 demo_ptcs"

lemma demo_readable: "readable demo_tcp_env [8, 1] (demo_fusion, demo_ptcs)"
  by (simp add: readable_def demo_tcp_env_def demo_fusion_def demo_ptcs_def convert_path_def no_participant_def Let_def)

lemma demo_parse: "te_parse demo_tcp_env [8, 1] = Some demo_fusion"
  "convert_paths (fds_dataTime demo_fusion) (fds_pathList demo_fusion) = Some demo_ptcs"
  using demo_readable by (simp_all add: readable_def)

theorem packet_received_witness:
  "\<exists>ks'. onSocketReadable demo_tcp_env (demo_tcp (map Arrives [7, 20, 9]) (packet demo_middle [8, 1]))
     = Fin (demo_tcp (map Arrives [7, 20, 9]) (packet demo_middle [8, 1])
         \<lparr>ts_arrivals := map Arrives ks', ts_stream := [], ts_msgNum := 42,
          ts_queues := push_cam demo_cam_sent (ts_queues (demo_tcp [] []))\<rparr>) ()"
  using packet_received [OF _ _ _ demo_parse, of demo_middle "demo_tcp (map Arrives [7, 20, 9]) (packet demo_middle [8, 1])" 7 "[20, 9]"]
  by (simp add: demo_tcp_def length_packet demo_tcp_env_def demo_cam_sent_def)

theorem only_valid_packets_witness:
  "\<exists>st'. onSocketReadable demo_tcp_env (demo_tcp (pieces [8, 1]) (packet demo_middle [8, 1])) = Fin st' () \<and>
     (ts_queues st' = ts_queues (demo_tcp [] []) \<or>
       (\<exists>p rest f ptcs. packet demo_middle [8, 1] = p @ rest @ ts_stream st' \<and> valid_packet demo_tcp_env p f
          \<and> ts_queues st' = push_cam (cam_of demo_mec f 41 ptcs) (ts_queues (demo_tcp [] []))))"
proof -
  obtain st' where t: "onSocketReadable demo_tcp_env (demo_tcp (pieces [8, 1]) (packet demo_middle [8, 1])) = Fin st' ()"
    using exact_turn [OF _ _ _ demo_parse, of demo_middle "demo_tcp (pieces [8, 1]) (packet demo_middle [8, 1])" "[]" "[]"]
    by (auto simp: demo_tcp_def)
  from only_valid_packets [OF t] have "ts_queues st' = ts_queues (demo_tcp [] []) \<or>
       (\<exists>p rest f ptcs. packet demo_middle [8, 1] = p @ rest @ ts_stream st' \<and> valid_packet demo_tcp_env p f
          \<and> ts_queues st' = push_cam (cam_of demo_mec f 41 ptcs) (ts_queues (demo_tcp [] [])))"
    by (simp add: demo_tcp_def demo_tcp_env_def)
  with t show ?thesis by blast
qed

theorem bytes_behind_packet_lost_witness:
  "onSocketReadable demo_tcp_env (demo_tcp [Arrives 64, Arrives 38] (packet demo_middle [8, 1] @ packet demo_middle [8, 1]))
     = Fin (demo_tcp [] [] \<lparr>ts_msgNum := 42, ts_queues := push_cam demo_cam_sent (ts_queues (demo_tcp [] []))\<rparr>) ()"
  using bytes_behind_packet_lost [OF _ _ _ demo_parse, of demo_middle
      "demo_tcp [Arrives 64, Arrives 38] (packet demo_middle [8, 1] @ packet demo_middle [8, 1])" "packet demo_middle [8, 1]" 64 38 "[]"]
  by (simp add: demo_tcp_def length_packet demo_tcp_env_def demo_cam_sent_def buffer_size_def)

theorem burst_overflows_buffer_witness:
  "onSocketReadable demo_tcp_env (demo_tcp [Arrives 26, Arrives 70000] (packet demo_middle [8, 1] @ replicate 69974 0))
     = Crash ''memcpy past the end of buffer''"
  by (rule burst_overflows_buffer [of demo_middle "[8, 1]" _ "replicate 69974 0" 26 70000 "[]"])
    (simp_all add: demo_tcp_def length_packet buffer_size_def)

theorem packets_reach_database_witness:
  "\<exists>st'. turns demo_tcp_env 1 (demo_tcp (pieces [8, 1]) (packet demo_middle [8, 1])) = Fin st' ()
    \<and> handle_cams (demo_cam_env\<lparr>ce_parse_data := \<lambda>s. demo_cam_sent\<rparr>) (zip [4] (cq_put (writer_turns
          (demo_cam_env\<lparr>ce_parse_data := \<lambda>s. demo_cam_sent\<rparr>) [(''u1'', 5)]
          \<lparr>cq_sendQueue = queue_q (camSendQueue (ts_queues st')), cq_put = []\<rparr>))) demo_ins
      = insert_all demo_db [(4, demo_cam_sent)] demo_ins"
  using packets_reach_database [of demo_middle demo_tcp_env "[[8, 1]]" "[(demo_fusion, demo_ptcs)]"
      "demo_tcp (pieces [8, 1]) (packet demo_middle [8, 1])" "[(''u1'', 5)]"
      "demo_cam_env\<lparr>ce_parse_data := \<lambda>s. demo_cam_sent\<rparr>" "[4]" demo_ins] demo_readable
  by (simp add: demo_tcp_def demo_tcp_env_def demo_cam_env_def decoded_def demo_cam_sent_def new_queue_def)

end
