(* ===== verification/CamStart.thy ===== *)
theory CamStart
  imports CamTcp NodeMain SnowFlakeGen Config
begin

text \<open>
  The start of the camera application (\<open>cam-app/src/CamService.cpp\<close>): its settings, and what it starts on the
  managing node, where messages are received and stored, and on the other nodes, where they are collected and sent.
\<close>

section \<open>Settings\<close>

record cam_settings =
  cs_domain :: int
  cs_name :: string
  cs_nodeId :: string
  cs_location :: string
  cs_camTopic :: string
  cs_zenohConf :: string
  cs_machineId :: int
  cs_dataCenterId :: int
  cs_mec :: mec_info
  cs_confMap :: MapWrapper

definition read_mec :: "INIReader \<Rightarrow> mec_info" where
  "read_mec r =
     \<lparr>camType = to_int32 (GetInteger r ''mec'' ''type'' 1), camVer = GetString r ''mec'' ''version'' ''01'',
      sceneType = to_int32 (GetInteger r ''mec'' ''scene_type'' 0), deviceId = GetString r ''mec'' ''device_id'' '''',
      mapDevId = GetString r ''mec'' ''map_dev_id'' '''', mec_lat = to_int32 (GetInteger r ''mec'' ''lat'' 0),
      mec_lon = to_int32 (GetInteger r ''mec'' ''lon'' 0), mec_ele = to_int32 (GetInteger r ''mec'' ''ele'' 0)\<rparr>"

definition read_groups :: "INIReader \<Rightarrow> MapWrapper" where
  "read_groups r = fold (\<lambda>i. addElement (GetString r ''group'' (''group_name_'' @ to_string i) '''')
       (GetString r ''group'' (''group_member_'' @ to_string i) ''''))
     [0..<nat (to_int32 (GetInteger r ''group'' ''count'' 1))] \<lparr>cfg_map = []\<rparr>"

definition default_cam_topic :: string where
  "default_cam_topic = ''memory/shuangzhi/v2x/edge/000000000000/comprehensive/camdata/up''"

definition read_cam_settings :: "INIReader \<Rightarrow> cam_settings" where
  "read_cam_settings r =
     \<lparr>cs_domain = to_int32 (GetInteger r ''base'' ''domain'' 0), cs_name = GetString r ''base'' ''name'' '''',
      cs_nodeId = GetString r ''base'' ''node_id'' '''', cs_location = GetString r ''base'' ''location'' '''',
      cs_camTopic = GetString r ''route'' ''cam_topic'' default_cam_topic,
      cs_zenohConf = GetString r ''route'' ''zenoh_conf'' ''config/config1.json5'',
      cs_machineId = to_int32 (GetInteger r ''gid'' ''machine_id'' 1),
      cs_dataCenterId = to_int32 (GetInteger r ''gid'' ''datacenter_id'' 1),
      cs_mec = read_mec r, cs_confMap = read_groups r\<rparr>"

record mqtt_conf =
  mqttAddr :: string
  clientId :: string
  sessionFlag :: bool
  mqttUser :: string
  mqttPwd :: string
  mqttCamTopic :: string

definition read_mqtt :: "INIReader \<Rightarrow> mqtt_conf" where
  "read_mqtt r =
     \<lparr>mqttAddr = GetString r ''mqtt_sub'' ''address'' ''tcp://localhost:1883'',
      clientId = GetString r ''mqtt_sub'' ''sub_client_id'' ''test1'',
      sessionFlag = GetBoolean r ''mqtt_sub'' ''cleansession'' True,
      mqttUser = GetString r ''mqtt_sub'' ''namename'' ''admin'', mqttPwd = GetString r ''mqtt_sub'' ''password'' ''public'',
      mqttCamTopic = GetString r ''mqtt_sub'' ''cam_topic'' ''hello''\<rparr>"

section \<open>Starting\<close>

text \<open>
  A topic with the two ids of its generator. The members of \<open>TopicInfo\<close> that are not set keep an empty string, or,
  when they are integers without a default, what happened to be in the memory.
\<close>

record cam_conf = topic_conf +
  cc_machineId :: int
  cc_datacenterId :: int

definition cam_topic_info :: "cam_settings \<Rightarrow> bool \<Rightarrow> int \<times> int \<Rightarrow> cam_conf" where
  "cam_topic_info cs reply ids =
     \<lparr>topic = cs_camTopic cs, topicReply = '''', partition = '''', nodeId = cs_nodeId cs, nodeName = cs_name cs,
      domain = cs_domain cs, needReply = reply, monNodeId = '''', monSendSleep = 60, programName = '''',
      replyPartition = '''', monTopicName = '''', configPath = cs_zenohConf cs,
      cc_machineId = fst ids, cc_datacenterId = snd ids\<rparr>"

datatype cam_start =
    CamReader cam_conf db_settings snowflake
  | CamWriter cam_conf snowflake "mqtt_conf option" "string \<times> int"

datatype cam_end = CamReturned int | CamAborted string | CamRunning cam_start

text \<open>The constructor of \<open>CamTopic\<close> makes the generator of the ids; an id out of range ends the program.\<close>

definition with_generator :: "cam_conf \<Rightarrow> (snowflake \<Rightarrow> cam_start) \<Rightarrow> cam_end" where
  "with_generator info start =
     (case SnowFlake (cc_datacenterId info) (cc_machineId info) of
        None \<Rightarrow> CamReturned 0
      | Some sf \<Rightarrow> CamRunning (start sf))"

definition start_cam :: "int \<times> int \<Rightarrow> INIReader \<Rightarrow> cam_end" where
  "start_cam memory r =
     (let cs = read_cam_settings r
      in if cs_location cs = ''mgr''
         then let recvCam = cam_topic_info cs True (cs_machineId cs, cs_dataCenterId cs)
              in with_generator recvCam (CamReader recvCam (read_db r))
         else let sendCam = cam_topic_info cs False memory;
                  mqtt = (if 0 < to_int32 (GetInteger r ''mqtt_sub'' ''recv_flag'' 0) then Some (read_mqtt r) else None);
                  tcp = (GetString r ''tcp'' ''address'' ''127.0.0.1'', to_int32 (GetInteger r ''tcp'' ''port'' 18089))
              in with_generator sendCam (\<lambda>sf. CamWriter sendCam sf mqtt tcp))"

text \<open>The configuration file is the second argument; that there is one is not tested.\<close>

definition cam_main :: "int \<times> int \<Rightarrow> string list \<Rightarrow> fsys \<Rightarrow> cam_end" where
  "cam_main memory argv fs =
     (if length argv < 2 then CamAborted ''read past the end of argv''
      else if length argv = 2 then CamAborted ''string of a null pointer''
      else let r = INIReader_file (c_str (argv ! 2)) fs
           in if rd_error r < 0 then CamReturned (-1) else start_cam memory r)"

section \<open>Sender and receiver\<close>

lemma word_above:
  assumes "in_int32 i" and "31 < i"
  shows "(31 :: 64 word) < word_of_int i"
  using assms by (simp add: word_less_def in_int32_def uint_word_of_int_eq take_bit_int_eq_self)

lemma SnowFlake_None:
  assumes "in_int32 i" and "in_int32 j" and "\<not> (0 \<le> i \<and> i \<le> 31) \<or> \<not> (0 \<le> j \<and> j \<le> 31)"
  shows "SnowFlake i j = None"
  using assms word_above [of i] word_above [of j] by (auto simp: SnowFlake_def max_values)

text \<open>
  C34. The ids of the generator are set for the receiver only: a sending node starts with whatever is in the memory,
  and ends at once, as if it had done its work, when that is not between 0 and 31 -- whatever is configured.
\<close>

theorem sender_ids_from_memory:
  assumes "2 < length argv" and "rd_error (INIReader_file (c_str (argv ! 2)) fs) \<ge> 0"
    and "GetString (INIReader_file (c_str (argv ! 2)) fs) ''base'' ''location'' '''' \<noteq> ''mgr''"
    and "in_int32 i" and "in_int32 j" and "\<not> (0 \<le> i \<and> i \<le> 31) \<or> \<not> (0 \<le> j \<and> j \<le> 31)"
  shows "cam_main (i, j) argv fs = CamReturned 0"
proof -
  have "SnowFlake j i = None" using assms(4-6) SnowFlake_None by blast
  then show ?thesis using assms(1-3)
    by (simp add: cam_main_def Let_def start_cam_def read_cam_settings_def with_generator_def cam_topic_info_def)
qed

theorem sender_ids_from_memory_witness:
  "cam_main (4711, 0) [''cam-app'', ''-c'', ''n.ini''] demo_main_fs = CamReturned 0"
proof (rule sender_ids_from_memory)
  have n: "c_str ([''cam-app'', ''-c'', ''n.ini''] ! 2) = ''n.ini''" by code_simp
  show "0 \<le> rd_error (INIReader_file (c_str ([''cam-app'', ''-c'', ''n.ini''] ! 2)) demo_main_fs)"
    unfolding n demo_files by (simp add: demo_reader_def)
  show "GetString (INIReader_file (c_str ([''cam-app'', ''-c'', ''n.ini''] ! 2)) demo_main_fs) ''base'' ''location'' [] \<noteq> ''mgr''"
    unfolding n demo_files by code_simp
qed (simp_all add: in_int32_def)

lemma sender_meets_receiver:
  assumes "cam_main mem argv fs = CamRunning (CamWriter w sf mqtt tcp)"
    and "cam_main mem' argv' fs' = CamRunning (CamReader r db sf')"
    and "GetString (INIReader_file (c_str (argv ! 2)) fs) ''route'' ''cam_topic'' default_cam_topic
       = GetString (INIReader_file (c_str (argv' ! 2)) fs') ''route'' ''cam_topic'' default_cam_topic"
  shows "topic w = topic r \<and> monNodeId w = '''' \<and> cc_machineId r = cs_machineId (read_cam_settings (INIReader_file (c_str (argv' ! 2)) fs'))"
  using assms
  by (auto simp: cam_main_def Let_def start_cam_def with_generator_def cam_topic_info_def read_cam_settings_def
      split: if_splits option.splits)

end
