(* ===== verification/Database.thy ===== *)
theory Database
  imports NodeBase
begin

text \<open>
  The access to the database (\<open>db/rd/rd.cpp\<close>, \<open>db/DbBase.h\<close>): a pool of connections, statements, and a thread
  that looks for lost connections every five minutes. Two flags are meant to keep statements and checks apart.
\<close>

section \<open>State and parameters\<close>

text \<open>
  The pool holds for every connection whether it is connected; there is none before \<open>init\<close> and after \<open>uInit\<close>.
  \<open>sqls_\<close> is a session that \<open>init\<close> takes from the pool and keeps: the statements have the others.
\<close>

record rd =
  rd_dbType :: int
  rd_maxConn :: nat
  rd_pool :: "bool list option"
  rd_sqls :: bool
  rd_constr :: string
  isCheck :: bool
  isUsing :: bool
  stopCheck :: bool
  rd_checkThread :: bool

text \<open>
  SOCI is a parameter: whether a pool of a size can be made, a connection opened or opened again, and what becomes of
  a statement or a query. \<open>re_loads b k\<close> is what the load \<open>k\<close> of a flag yields during a wait that the flag enters
  with the value \<open>b\<close>; with no other thread at work it stays \<open>b\<close>.
\<close>

datatype sql_result = Affected int | SociError string | StdError string
datatype 'r query_result = Rows 'r | QuerySociError string | QueryStdError string

record 'r rd_env =
  re_pool :: "nat \<Rightarrow> bool"
  re_open :: "nat \<Rightarrow> string \<Rightarrow> bool"
  re_reconnect :: "nat \<Rightarrow> bool"
  re_execute :: "string \<Rightarrow> sql_result"
  re_query :: "string \<Rightarrow> 'r query_result"
  re_loads :: "bool \<Rightarrow> nat \<Rightarrow> bool"

definition alone :: "'r rd_env \<Rightarrow> bool" where
  "alone env \<longleftrightarrow> (\<forall>b k. re_loads env b k = b)"

definition Rd :: "int \<Rightarrow> nat \<Rightarrow> rd" where
  "Rd dbType maxConn = \<lparr>rd_dbType = dbType, rd_maxConn = maxConn, rd_pool = None, rd_sqls = False, rd_constr = [], isCheck = False,
     isUsing = False, stopCheck = False, rd_checkThread = False\<rparr>"

section \<open>Opening and closing\<close>

text \<open>\<open>snprintf\<close> into 256 bytes keeps 255 characters.\<close>

definition connection_string :: "string \<Rightarrow> string \<Rightarrow> string \<Rightarrow> string \<Rightarrow> int \<Rightarrow> string" where
  "connection_string dbname dbuser dbpwd dbhost dbport =
     take 255 (''dbname='' @ c_str dbname @ '' user='' @ c_str dbuser @ '' password='' @ c_str dbpwd @ '' host='' @ c_str dbhost
       @ '' port='' @ int_string dbport @ '' charset=gbk'')"

text \<open>The connections are opened in order; the first that cannot be opened ends the loop by an exception.\<close>

fun open_loop :: "'r rd_env \<Rightarrow> string \<Rightarrow> nat \<Rightarrow> bool list \<Rightarrow> bool \<times> bool list" where
  "open_loop env constr i [] = (True, [])"
| "open_loop env constr i (c # cs) =
     (if re_open env i constr then (let (ok, cs') = open_loop env constr (Suc i) cs in (ok, True # cs'))
      else (False, c # cs))"

definition init :: "'r rd_env \<Rightarrow> string \<Rightarrow> rd \<Rightarrow> int \<times> rd" where
  "init env constr st =
     (if \<not> re_pool env (rd_maxConn st) then (- 1, st)
      else let closed = replicate (rd_maxConn st) False;
               (ok, conns) = (if rd_dbType st = 1 then open_loop env constr 0 closed else (True, closed));
               st1 = st\<lparr>rd_pool := Some conns, rd_sqls := True, rd_constr := constr\<rparr>
           in if ok then (0, st1\<lparr>rd_checkThread := True\<rparr>) else (- 1, st1))"

text \<open>
  The pool is destroyed before the session that is taken from it; what SOCI does when that session goes is left out.
\<close>

definition uInit :: "rd \<Rightarrow> int \<times> rd" where
  "uInit st = (0, st\<lparr>stopCheck := True, rd_pool := None, rd_sqls := False\<rparr>)"

section \<open>Waiting and checking\<close>

definition MAX_WAIT_ATTEMPTS :: nat where "MAX_WAIT_ATTEMPTS = 1000"

function waitForOperation :: "(nat \<Rightarrow> bool) \<Rightarrow> nat \<Rightarrow> nat \<Rightarrow> bool" where
  "waitForOperation load attempts maxAttempts =
     (if load attempts
      then if maxAttempts < Suc attempts then False else waitForOperation load (Suc attempts) maxAttempts
      else True)"
  by pat_completeness auto
termination by (relation "measure (\<lambda>(load, attempts, maxAttempts). Suc maxAttempts - attempts)") auto

declare waitForOperation.simps [simp del]

fun check_loop :: "'r rd_env \<Rightarrow> bool \<Rightarrow> nat \<Rightarrow> bool list \<Rightarrow> bool list" where
  "check_loop env needReconnect i [] = []"
| "check_loop env needReconnect i (c # cs) =
     (c \<or> (needReconnect \<and> re_reconnect env i)) # check_loop env needReconnect (Suc i) cs"

definition check_pool :: "'r rd_env \<Rightarrow> bool \<Rightarrow> rd \<Rightarrow> (rd, unit) run" where
  "check_pool env needReconnect st =
     (if rd_dbType st \<noteq> 1 \<or> rd_maxConn st = 0 then Fin st ()
      else case rd_pool st of
             None \<Rightarrow> Crash ''pool_ is null''
           | Some conns \<Rightarrow> Fin (st\<lparr>rd_pool := Some (check_loop env needReconnect 0 conns)\<rparr>) ())"

definition checkConnections :: "'r rd_env \<Rightarrow> bool \<Rightarrow> rd \<Rightarrow> (rd, unit) run" where
  "checkConnections env needReconnect st =
     (if \<not> waitForOperation (re_loads env (isUsing st)) 0 MAX_WAIT_ATTEMPTS then Fin st ()
      else bind_run (check_pool env needReconnect (st\<lparr>isCheck := True\<rparr>)) (\<lambda>st _. Fin (st\<lparr>isCheck := False\<rparr>) ()))"

text \<open>One round of the checking thread, which tests \<open>stopCheck_\<close> before it sleeps.\<close>

definition check_round :: "'r rd_env \<Rightarrow> (rd \<Rightarrow> rd) \<Rightarrow> rd \<Rightarrow> (rd, bool) run" where
  "check_round env during_sleep st =
     (if stopCheck st then Fin st False
      else bind_run (checkConnections env True (during_sleep st)) (\<lambda>st _. Fin st True))"

section \<open>Statements\<close>

definition handleDatabaseError :: "'r rd_env \<Rightarrow> string \<Rightarrow> rd \<Rightarrow> (rd, unit) run" where
  "handleDatabaseError env message st =
     (if str_find ''lost connection'' message \<noteq> None then checkConnections env True st else Fin st ())"

text \<open>
  \<open>session sqls(*pool_)\<close> takes a free session from the pool and waits while there is none. Other statements give
  theirs back when they end, \<open>sqls_\<close> does not: if the pool has no session besides it, the wait never ends.
\<close>

definition can_lease :: "rd \<Rightarrow> bool list \<Rightarrow> bool" where
  "can_lease st conns \<longleftrightarrow> (if rd_sqls st then 1 else 0) < length conns"

definition run_statement :: "'r rd_env \<Rightarrow> string \<Rightarrow> rd \<Rightarrow> (rd, int) run" where
  "run_statement env sql st =
     (if sql = [] then Fin st (- 1)
      else case rd_pool st of
          None \<Rightarrow> Crash ''pool_ is null''
        | Some conns \<Rightarrow>
            if \<not> can_lease st conns then Hang
            else case re_execute env sql of
                Affected affectedRows \<Rightarrow>
                  Fin st (if 0 < affectedRows \<or> hd sql = CHR ''t'' \<or> hd sql = CHR ''T'' then 1 else - 1)
              | SociError message \<Rightarrow> bind_run (handleDatabaseError env message st) (\<lambda>st _. Fin st (- 1))
              | StdError message \<Rightarrow> Fin st (- 1))"

definition excuteSql :: "'r rd_env \<Rightarrow> string \<Rightarrow> rd \<Rightarrow> (rd, int) run" where
  "excuteSql env sql st =
     (if \<not> waitForOperation (re_loads env (isCheck st)) 0 MAX_WAIT_ATTEMPTS then Fin st (- 1)
      else bind_run (run_statement env sql (st\<lparr>isUsing := True\<rparr>)) (\<lambda>st res. Fin (st\<lparr>isUsing := False\<rparr>) res))"

definition run_query :: "'r rd_env \<Rightarrow> string \<Rightarrow> rd \<Rightarrow> (rd, 'r) run" where
  "run_query env sql st =
     (case rd_pool st of
        None \<Rightarrow> Crash ''pool_ is null''
      | Some conns \<Rightarrow>
          if \<not> can_lease st conns then Hang
          else case re_query env sql of
              Rows rows \<Rightarrow> Fin st rows
            | QuerySociError message \<Rightarrow> bind_run (handleDatabaseError env message st) (\<lambda>st _. Exc st message)
            | QueryStdError message \<Rightarrow> Exc st message)"

text \<open>The guard clears the flag also when an exception leaves the function.\<close>

definition select :: "'r rd_env \<Rightarrow> string \<Rightarrow> rd \<Rightarrow> (rd, 'r) run" where
  "select env sql st =
     (if \<not> waitForOperation (re_loads env (isCheck st)) 0 MAX_WAIT_ATTEMPTS
      then Exc st ''Timeout waiting for database check to complete''
      else case run_query env sql (st\<lparr>isUsing := True\<rparr>) of
             Fin st rows \<Rightarrow> Fin (st\<lparr>isUsing := False\<rparr>) rows
           | Exc st e \<Rightarrow> Exc (st\<lparr>isUsing := False\<rparr>) e
           | Crash e \<Rightarrow> Crash e
           | Hang \<Rightarrow> Hang)"

fun excute_all :: "'r rd_env \<Rightarrow> string list \<Rightarrow> rd \<Rightarrow> (rd, int list) run" where
  "excute_all env [] st = Fin st []"
| "excute_all env (sql # sqls) st =
     bind_run (excuteSql env sql st) (\<lambda>st r. bind_run (excute_all env sqls st) (\<lambda>st rs. Fin st (r # rs)))"

section \<open>The two flags\<close>

text \<open>
  A statement and a check as threads: each tests the flag of the other, then sets its own, works, and clears it.
\<close>

datatype phase = Outside | Passed | Inside

record flags =
  f_isUsing :: bool
  f_isCheck :: bool
  f_use :: phase
  f_check :: phase

inductive flag_step :: "flags \<Rightarrow> flags \<Rightarrow> bool" where
  use_test: "f_use s = Outside \<Longrightarrow> \<not> f_isCheck s \<Longrightarrow> flag_step s (s\<lparr>f_use := Passed\<rparr>)"
| use_set: "f_use s = Passed \<Longrightarrow> flag_step s (s\<lparr>f_use := Inside, f_isUsing := True\<rparr>)"
| use_clear: "f_use s = Inside \<Longrightarrow> flag_step s (s\<lparr>f_use := Outside, f_isUsing := False\<rparr>)"
| check_test: "f_check s = Outside \<Longrightarrow> \<not> f_isUsing s \<Longrightarrow> flag_step s (s\<lparr>f_check := Passed\<rparr>)"
| check_set: "f_check s = Passed \<Longrightarrow> flag_step s (s\<lparr>f_check := Inside, f_isCheck := True\<rparr>)"
| check_clear: "f_check s = Inside \<Longrightarrow> flag_step s (s\<lparr>f_check := Outside, f_isCheck := False\<rparr>)"

definition flags_start :: flags where
  "flags_start = \<lparr>f_isUsing = False, f_isCheck = False, f_use = Outside, f_check = Outside\<rparr>"

section \<open>Lemmas\<close>

lemma wait_iff: "attempts \<le> m \<Longrightarrow> waitForOperation load attempts m \<longleftrightarrow> (\<exists>k. attempts \<le> k \<and> k \<le> m \<and> \<not> load k)"
proof (induction load attempts m rule: waitForOperation.induct)
  case (1 load attempts m)
  show ?case
  proof (cases "load attempts")
    case True
    show ?thesis
    proof (cases "m < Suc attempts")
      case False
      with "1.IH" [OF True False] True show ?thesis
        using waitForOperation.simps [of load attempts m] by (metis Suc_leD Suc_leI le_neq_implies_less not_less)
    next
      case m: True
      with "1.prems" have "attempts = m" by simp
      then show ?thesis using True m by (subst waitForOperation.simps) (auto dest: le_antisym)
    qed
  next
    case False
    then show ?thesis using "1.prems" by (subst waitForOperation.simps) auto
  qed
qed

lemma alone_waits [simp]: "alone env \<Longrightarrow> waitForOperation (re_loads env b) 0 m \<longleftrightarrow> \<not> b"
  by (simp add: wait_iff alone_def) auto

lemma excuteSql_result:
  assumes "alone env" and "\<not> isCheck st" and "\<not> isUsing st" and "rd_pool st = Some conns" and "can_lease st conns"
  shows "excuteSql env sql st = Fin st (if sql = [] then - 1
    else case re_execute env sql of Affected n \<Rightarrow> if 0 < n \<or> hd sql \<in> {CHR ''t'', CHR ''T''} then 1 else - 1 | _ \<Rightarrow> - 1)"
proof -
  have "checkConnections env True (st\<lparr>isUsing := True\<rparr>) = Fin (st\<lparr>isUsing := True\<rparr>) ()"
    using assms(1) by (simp add: checkConnections_def)
  moreover have "st\<lparr>isUsing := False\<rparr> = st" using assms(3) by simp
  moreover have "can_lease (st\<lparr>isUsing := True\<rparr>) conns" using assms(5) by (simp add: can_lease_def)
  ultimately show ?thesis using assms
    by (auto simp: excuteSql_def run_statement_def handleDatabaseError_def split: sql_result.splits)
qed

lemma excute_all_keeps:
  assumes "alone env" and "\<not> isCheck st" and "\<not> isUsing st" and "rd_pool st = Some conns" and "can_lease st conns"
  shows "\<exists>rs. excute_all env sqls st = Fin st rs"
  by (induction sqls) (auto simp: excuteSql_result [OF assms])

lemma open_loop_fails:
  "open_loop env constr k conns = (False, conns') \<Longrightarrow> \<forall>c \<in> set conns. \<not> c \<Longrightarrow>
    \<exists>i < length conns. \<not> re_open env (k + i) constr \<and> length conns' = length conns \<and> (\<forall>j < length conns. i \<le> j \<longrightarrow> \<not> conns' ! j)"
proof (induction env constr k conns arbitrary: conns' rule: open_loop.induct)
  case (2 env constr k c cs)
  show ?case
  proof (cases "re_open env k constr")
    case True
    with "2.prems"(1) obtain cs' where cs': "conns' = True # cs'" "open_loop env constr (Suc k) cs = (False, cs')"
      by (auto simp: Let_def split: prod.splits)
    from "2.IH" [OF True cs'(2)] "2.prems"(2) obtain i where i: "i < length cs" "\<not> re_open env (Suc k + i) constr"
      "length cs' = length cs" "\<forall>j < length cs. i \<le> j \<longrightarrow> \<not> cs' ! j" by auto
    then show ?thesis by (intro exI [of _ "Suc i"]) (auto simp: cs'(1) nth_Cons split: nat.splits)
  next
    case False
    then have "conns' = c # cs" using "2.prems"(1) by simp
    then show ?thesis using False "2.prems"(2) by (intro exI [of _ 0]) (auto simp: in_set_conv_nth nth_Cons split: nat.splits)
  qed
qed simp

text \<open>
  C26. When the database refuses a connection at the start, that connection and those behind it stay closed as long
  as one thread at a time uses the database: the checking thread is not started, and no statement, not even one that
  fails because the connection is lost, opens one again -- its handler waits for the flag that its own call has
  set. The statements themselves return, if the pool has more than the one connection that \<open>sqls_\<close> keeps; with
  that one alone every statement waits for ever.
\<close>

theorem failed_start_is_final:
  assumes "alone env" and "re_pool env n" and "init env constr (Rd 1 n) = (- 1, st)"
  shows "\<not> rd_checkThread st
    \<and> (if 1 < n then \<exists>rs. excute_all env sqls st = Fin st rs else \<forall>sql. sql = [] \<or> excuteSql env sql st = Hang)
    \<and> (\<exists>conns i. rd_pool st = Some conns \<and> i < n \<and> \<not> re_open env i constr \<and> (\<forall>j < n. i \<le> j \<longrightarrow> \<not> conns ! j))"
proof -
  from assms(2,3) obtain conns where l: "open_loop env constr 0 (replicate n False) = (False, conns)"
    and st: "st = (Rd 1 n)\<lparr>rd_pool := Some conns, rd_sqls := True, rd_constr := constr\<rparr>"
    by (auto simp: init_def Rd_def Let_def split: prod.splits if_splits)
  from open_loop_fails [OF l] obtain i where i: "i < n" "\<not> re_open env i constr" "\<forall>j < n. i \<le> j \<longrightarrow> \<not> conns ! j"
    and len: "length conns = n" by auto
  have "\<exists>rs. excute_all env sqls st = Fin st rs" if "1 < n"
    by (rule excute_all_keeps [OF assms(1), where conns = conns]) (use that len in \<open>simp_all add: st Rd_def can_lease_def\<close>)
  moreover have "excuteSql env sql st = Hang" if "\<not> 1 < n" "sql \<noteq> []" for sql
    using that len assms(1) by (simp add: excuteSql_def run_statement_def st Rd_def can_lease_def)
  moreover have "\<not> rd_checkThread st" "rd_pool st = Some conns" by (simp_all add: st Rd_def)
  ultimately show ?thesis using i by auto
qed

definition demo_rd_env :: "unit rd_env" where
  "demo_rd_env = \<lparr>re_pool = (\<lambda>n. 0 < n), re_open = (\<lambda>i c. i = 0), re_reconnect = (\<lambda>i. True),
     re_execute = (\<lambda>sql. SociError ''lost connection''), re_query = (\<lambda>sql. Rows ()), re_loads = (\<lambda>b k. b)\<rparr>"

theorem failed_start_is_final_witness:
  "\<exists>st. init demo_rd_env ''dbname=d'' (Rd 1 3) = (- 1, st) \<and> \<not> rd_checkThread st
    \<and> (\<exists>rs. excute_all demo_rd_env [''INSERT'', ''DELETE''] st = Fin st rs)
    \<and> (\<exists>conns i. rd_pool st = Some conns \<and> i < 3 \<and> \<not> re_open demo_rd_env i ''dbname=d'' \<and> (\<forall>j < 3. i \<le> j \<longrightarrow> \<not> conns ! j))"
proof -
  obtain st where st: "init demo_rd_env ''dbname=d'' (Rd 1 3) = (- 1, st)"
    by (simp add: init_def demo_rd_env_def Rd_def Let_def numeral_eq_Suc)
  have "alone demo_rd_env" "re_pool demo_rd_env 3" by (simp_all add: alone_def demo_rd_env_def)
  note f = failed_start_is_final [OF this st, of "[''INSERT'', ''DELETE'']"]
  have "1 < (3::nat)" by simp
  from f [unfolded if_P [OF this]] st show ?thesis by blast
qed

text \<open>
  With a pool of one connection no statement and no query ever returns, even when the start has succeeded.
\<close>

theorem one_connection_hangs:
  assumes "alone env" and "re_pool env 1" and "init env constr (Rd dbType 1) = (r, st)" and "sql \<noteq> []"
  shows "excuteSql env sql st = Hang \<and> select env sql st = Hang"
proof -
  have "length conns = length closed" if "open_loop env constr k closed = (ok, conns)" for k closed ok conns
    using that by (induction env constr k closed arbitrary: ok conns rule: open_loop.induct) (auto split: if_splits prod.splits)
  with assms(2,3) obtain conns where "rd_pool st = Some conns" "length conns = 1" "rd_sqls st" "\<not> isCheck st"
    by (fastforce simp: init_def Rd_def Let_def split: prod.splits if_splits)
  with assms(1,4) show ?thesis
    by (simp add: excuteSql_def select_def run_statement_def run_query_def can_lease_def)
qed

theorem one_connection_hangs_witness:
  "\<exists>st. init demo_rd_env ''dbname=d'' (Rd 1 1) = (0, st) \<and> excuteSql demo_rd_env ''INSERT'' st = Hang"
proof -
  obtain st where st: "init demo_rd_env ''dbname=d'' (Rd 1 1) = (0, st)"
    by (simp add: init_def demo_rd_env_def Rd_def Let_def)
  have "alone demo_rd_env" "re_pool demo_rd_env 1" by (simp_all add: alone_def demo_rd_env_def)
  from one_connection_hangs [OF this st, of "''INSERT''"] st show ?thesis by blast
qed

text \<open>
  A check that finds the database unused opens every lost connection again that can be opened, and leaves the
  others; it ends with its flag cleared.
\<close>

lemma check_loop_nth:
  "length (check_loop env r k conns) = length conns"
  "i < length conns \<Longrightarrow> check_loop env r k conns ! i = (conns ! i \<or> (r \<and> re_reconnect env (k + i)))"
  by (induction env r k conns arbitrary: i rule: check_loop.induct) (auto simp: nth_Cons split: nat.splits)

lemma check_reconnects:
  assumes "alone env" and "\<not> isUsing st" and "rd_dbType st = 1" and "rd_pool st = Some conns" and "length conns = rd_maxConn st"
  shows "\<exists>conns'. checkConnections env True st = Fin (st\<lparr>rd_pool := Some conns', isCheck := False\<rparr>) ()
    \<and> length conns' = length conns \<and> (\<forall>i < length conns. conns' ! i = (conns ! i \<or> re_reconnect env i))"
proof -
  let ?c = "check_loop env True 0 conns"
  have "checkConnections env True st = Fin (st\<lparr>rd_pool := Some ?c, isCheck := False\<rparr>) ()"
    using assms by (auto simp: checkConnections_def check_pool_def)
  then show ?thesis by (auto simp: check_loop_nth)
qed

text \<open>
  The destructor takes the pool away while the checking thread sleeps; the thread then checks the connections
  once more before it looks whether it should stop, and uses the pool that is gone.
\<close>

theorem shutdown_crashes_check:
  assumes "alone env" and "\<not> isUsing st" and "rd_dbType st = 1" and "rd_maxConn st \<noteq> 0" and "\<not> stopCheck st"
  shows "check_round env (\<lambda>st. snd (uInit st)) st = Crash ''pool_ is null''"
  using assms by (simp add: check_round_def checkConnections_def check_pool_def uInit_def)

theorem shutdown_crashes_check_witness:
  "check_round demo_rd_env (\<lambda>st. snd (uInit st)) (snd (init (demo_rd_env\<lparr>re_open := \<lambda>i c. True\<rparr>) ''dbname=d'' (Rd 1 2)))
    = Crash ''pool_ is null''"
  by (rule shutdown_crashes_check)
    (simp_all add: alone_def demo_rd_env_def init_def Rd_def Let_def numeral_eq_Suc)

text \<open>
  The flags do not keep a statement and a check apart: both can be at work at once, since each is set only after
  the other has been tested.
\<close>

theorem check_overlaps_statement:
  "\<exists>s. flag_step\<^sup>*\<^sup>* flags_start s \<and> f_use s = Inside \<and> f_check s = Inside \<and> f_isUsing s \<and> f_isCheck s"
proof -
  let ?s1 = "flags_start\<lparr>f_use := Passed\<rparr>"
  let ?s2 = "?s1\<lparr>f_check := Passed\<rparr>"
  let ?s3 = "?s2\<lparr>f_use := Inside, f_isUsing := True\<rparr>"
  let ?s4 = "?s3\<lparr>f_check := Inside, f_isCheck := True\<rparr>"
  have "flag_step flags_start ?s1" by (rule use_test) (simp_all add: flags_start_def)
  then have r: "flag_step\<^sup>*\<^sup>* flags_start ?s1" by (rule r_into_rtranclp)
  have "flag_step ?s1 ?s2" by (rule check_test) (simp_all add: flags_start_def)
  with r have r: "flag_step\<^sup>*\<^sup>* flags_start ?s2" by (rule rtranclp.rtrancl_into_rtrancl)
  have "flag_step ?s2 ?s3" by (rule use_set) simp
  with r have r: "flag_step\<^sup>*\<^sup>* flags_start ?s3" by (rule rtranclp.rtrancl_into_rtrancl)
  have "flag_step ?s3 ?s4" by (rule check_set) simp
  with r have "flag_step\<^sup>*\<^sup>* flags_start ?s4" by (rule rtranclp.rtrancl_into_rtrancl)
  then show ?thesis by (intro exI [of _ ?s4]) (simp add: flags_start_def)
qed

end
