(* ===== verification/Spec2Isabelle.thy ===== *)
theory Spec2Isabelle
  imports SnowFlakeGen Queues Config TopicNames NodeSystem NodeTopics NodeMain MachineState MonitorStart CamStart Database
begin

text \<open>
  \<^bold>\<open>sadip: a verification development of the node manager\<close>

  The program is a node of a distributed system. Nodes exchange messages over zenoh topics. A
  managing node reads commands from its database and sends them to the other nodes; a node carries out
  the commands addressed to it and answers; files are sent from node to node in blocks; every topic
  counts its traffic and reports it. Beside the node there are two applications: the monitor, which stores the traffic
  reports, and the camera application, which collects what roadside units see, sends it to the managing node and
  stores it there.

  \<^bold>\<open>How the parts work together.\<close> The command topic (\<open>node/src/NodeCmdTopic.cpp\<close>) puts a command for this
  node into one of two queues of \<open>utils/msgQueue.h\<close>. The file worker (\<open>node/src/FileTopic.cpp\<close>) takes
  the file and S3 commands, the application worker (\<open>node/src/NodeCmdWorker.cpp\<close>) all others; each puts
  its reply into a reply queue, from which the command topic sends it. The application worker calls the
  process manager, the plugin framework, the log monitors, the shell command runner and the container
  manager; the file worker calls the file helpers, the block-wise transfer and the directory watchers. In the camera
  application the handler of a socket (\<open>cam-app/src/UserTcpServer.cpp\<close>) and the callback of a broker
  (\<open>cam-app/src/MqttSubscriber.cpp\<close>) fill a queue, the writer of \<open>cam-app/src/CamTopic.cpp\<close> sends what is in it, and
  its reader gives it to the inserts (\<open>cam-app/src/DataInsert.cpp\<close>).

  \<^bold>\<open>Theories and sources.\<close>
  \<^item> \<open>Prelude\<close>: outcomes of C++ calls (\<open>outcome\<close>: returns, throws, undefined behaviour) and of calls on a
    state (\<open>run\<close>: finished, exception, crash, hang), the members of \<open>std::string\<close>, the interface locales
    \<open>fifo_queue\<close> and \<open>keyed_store\<close>, generic list facts, and \<open>run_post\<close>, what holds after a run.
  \<^item> \<open>Strings\<close> (\<open>utils/split.h\<close>), \<open>Config\<close> (\<open>utils/config/ConfigMap.cpp\<close>), \<open>TopicNames\<close>
    (\<open>dds/zenoh_topic_manager.cpp\<close>), \<open>SnowFlakeGen\<close> (\<open>utils/SnowFlake.h\<close>), \<open>Queues\<close>
    (\<open>utils/ThreadSafeQueue.h\<close>, \<open>dds/ThreadSafeMap.h\<close>), \<open>Monitor\<close> (\<open>dds/ZenohBase.h\<close>), \<open>NodeBase\<close>
    (\<open>dds/NodeInfo.h\<close>, C conversions, database statements).
  \<^item> \<open>FileStore\<close> (\<open>utils/FileSplit.h\<close>): the file helpers over an explicit file tree.
  \<^item> \<open>FileTransfer\<close>, \<open>FileDelivery\<close> (\<open>node/src/FileTopic.cpp\<close>): sending and receiving a file in blocks.
  \<^item> \<open>S3Watch\<close> (\<open>utils/aws/s3/FileWatcher.h\<close>): the directory watchers.
  \<^item> \<open>Commands\<close> (\<open>node/src/NodeCmdTopic.cpp\<close>, \<open>node/src/proto/node.proto\<close>): messages, queues, routing, replies.
  \<^item> \<open>FileCommands\<close> (\<open>node/src/FileTopic.cpp\<close>): every file and S3 command, one definition per case.
  \<^item> \<open>ProcessManager\<close> (\<open>node/src/ProcessManager.cpp\<close>), \<open>Podman\<close> (\<open>node/src/PodmanManager.cpp\<close>), \<open>Exec\<close>
    (\<open>node/src/CommandExecutor.h\<close>), \<open>LogTrace\<close> (\<open>node/src/LogTopic.cpp\<close>, \<open>LogMonitor.cpp\<close>,
    \<open>LogMonitorManager.cpp\<close>): the managers of the application worker.
  \<^item> \<open>CmdWorker\<close> (\<open>node/src/NodeCmdWorker.cpp\<close>): every application command, one definition per case.
  \<^item> \<open>IniFile\<close> (\<open>utils/ini/ini.cpp\<close>, \<open>utils/ini/INIReader.cpp\<close>): the reader of configuration files.
  \<^item> \<open>NodeTopics\<close> (\<open>node/src/NodeTopic.cpp\<close>, \<open>node/src/PingTopic.cpp\<close>, \<open>monitor-app/src/MonitorTopic.cpp\<close>):
    configuration messages, signs of life, the recording of the traffic counts.
  \<^item> \<open>NodeMain\<close> (\<open>node/src/main.cpp\<close>, \<open>utils/parseJson.h\<close>): the lock, the settings, the names of the topics, and
    what a managing and a working node start.
  \<^item> \<open>MachineState\<close> (\<open>node/src/MachineStateTopic.cpp\<close>): the state of the machine, collected, sent and stored.
  \<^item> \<open>NodeSystem\<close>: the command topic, both workers and the queues together, as a step relation over all
    interleavings of the threads' turns.

  \<^item> \<open>MonitorStart\<close> (\<open>monitor-app/src/MonitorService.cpp\<close>), \<open>CamStart\<close> (\<open>cam-app/src/CamService.cpp\<close>): the settings of the
    two applications, and what they start.
  \<^item> \<open>CamCrc\<close> (\<open>cam-app/src/TcpRecv.cpp\<close>), \<open>CamIntake\<close> (\<open>ConvertCam\<close>, \<open>MqttSubscriber.cpp\<close>), \<open>CamTcp\<close>
    (\<open>UserTcpServer.cpp\<close>): the check code, the conversion and the queues, the packets from the socket.
  \<^item> \<open>CamMessages\<close> (\<open>cam-app/src/proto/v2x.proto\<close>): the messages. \<open>CamSql\<close>: \<open>sprintf\<close> into a buffer, the rows and
    statements of an insert. \<open>CamObjects\<close>, \<open>CamEvents\<close>, \<open>CamFlow\<close>, \<open>CamSignals\<close>, \<open>CamCoop\<close>, \<open>CamVir\<close>, \<open>CamInsert\<close>: the
    tables of \<open>DataInsert.cpp\<close>, each with its head, its row format, its row and its loop, in the order of the code, then
    \<open>camInsert\<close> as a whole, and the topic of the camera application (\<open>CamTopic.cpp\<close>).
  \<^item> \<open>Database\<close> (\<open>db/rd/rd.cpp\<close>): the pool of connections, statements, queries and the thread that checks them.

  A class is a record, a member function a definition that takes and returns the record; the cases of
  a switch are definitions of their own, composed by the switch. A loop of a thread is modelled turn by
  turn. Sleeps and log messages are left out.

  \<^bold>\<open>What the lemmas show.\<close>
  \<^item> Transfer: a file whose blocks are all answered arrives byte for byte, also with repeated blocks and in
    any order of arrival; \<open>send_file\<close> always returns; cutting and merging are inverse; the file helpers
    keep the tree well formed; and the cases in which a file is lost or a failure is not reported.
  \<^item> Commands: every command reaches exactly one worker in order; every case of the two workers answers the
    command it was given (locales \<open>command_case\<close> and \<open>app_command\<close>, interpreted on every case); over all
    interleavings of the threads no command is answered twice and none unasked (\<open>no_reply_unasked\<close>); a
    command that its case finishes is answered (\<open>command_round_trip\<close>).
  \<^item> Processes: uuids stay unique, the table refines a registry (a map from uuids to the expectation of
    running) under every operation, \<open>listener\<close> restarts what died; stopping a process is undefined unless it is the
    last one, and \<open>RESTARTAPP\<close> never restarts.
  \<^item> Ids: they increase and do not collide; monitor: over all interleavings of the single accesses to the counters,
    what was counted is published or pending when no call falls into the reset, and lost or doubled otherwise; queue:
    FIFO; watchers: the upload of a settled file is tried once; containers: at most one call per command; shell commands and
    log tracing: what they keep, and what never reaches anybody; strings, topic names and configuration
    files: round trips.
  \<^item> Configuration: a new configuration is installed only when it is for this node, and the old one is restored
    otherwise; a ping is recorded; a row with a NULL column blocks the rows after it.
  \<^item> Start: every topic of a working node has its other end on the managing node, the topics of different nodes
    are different, the lock is lost after a refused start, and a group without members aborts the start.
  \<^item> Machine state: every process of the table is reported, every part stored in order, also
    behind a statement that the database refuses.

  \<^item> Applications: the monitor reads the reports of every topic that a node starts. A packet of the camera application
    is received in whatever pieces it arrives, only valid packets have an effect, the check by tables is the check bit
    by bit and finds every wrong byte, and the messages of packets that arrive one by one reach the database of the
    managing node in order. What follows a packet in the same receive is lost, and a burst overflows the buffer.
  \<^item> Inserts: what \<open>camInsert\<close> gives to the database are statements (locale-free rules \<open>good_intro\<close>, one for each table),
    the regions are stored with their points; and the messages that are never stored completely.
  \<^item> Database: a connection refused at the start stays closed as long as one thread at a time uses the database, with
    one connection every statement waits for ever, the check and a statement can overlap, and the check uses the
    pool after its end.

  \<^bold>\<open>Bounds and fuel.\<close> A loop that may not end is a partial function or returns \<open>None\<close> or \<open>Hang\<close> where it does
  not. The retries of a block end by a measure on the retry counter. The scan of a watched directory
  takes the depth of the tree as an argument, more than the depth of any path is enough.
  \<open>kill_all_loop\<close> counts the entries of the table, one of which every turn erases. The reading loop of a
  log monitor ends by the length of what is left of the file. Ids are \<open>64 word\<close>; the traffic counters are
  \<open>int\<close>, and \<open>monitor_conserves_traffic\<close> bounds what is pending by what was counted, so that they fit an \<open>int64_t\<close> for
  less than \<open>2 ^ 63\<close> bytes. The block size of \<open>split\<close> is checked to fit a \<open>long long\<close> and its block number an \<open>int\<close>.

  \<^bold>\<open>Not modelled.\<close> Libraries are parameters of the definitions, grouped in environment records: zenoh (whether
  a put succeeds), SOCI, Poco, the S3 client, rapidjson, the MQTT client, Boost.Process and the operating system,
  CppMicroServices, clocks and uuids; the topics take the database as the parameter \<open>db_env\<close>, which \<open>Database\<close> does not
  replace: an error of a statement is a negative answer, as \<open>excuteSql\<close> catches every exception. Serialisation is generated code: a message arrives as it was sent.
  The lock-free queues are FIFO lists. Streams read what a file held when it was opened (\<open>split\<close> stops in the
  model when it would overwrite its own source); links and \<open>..\<close> in
  paths are not interpreted. The Windows branches, the creation of publishers and subscribers, and the
  start and stop of threads are left out. The inserts of camera and radar paths are modelled up to the statement that
  overflows its buffer, beyond which they never come. \<open>ExecManager\<close>, which nothing calls, the set-up of the MQTT client
  and the vendored libraries are not modelled. Memory that is freed by the wrong operator is taken as freed.
\<close>

end
